(* ===== verification/Prelude.thy ===== *)
theory Prelude
  imports Main "HOL-Library.Word" "HOL-Library.Sublist"
begin

text \<open>
  Shared vocabulary of the development: the parts of the Go language and of its standard
  library that the services use (byte strings with \<open>strings.TrimSpace\<close> and
  \<open>strings.ToUpper\<close>, decimal formatting, \<open>int32\<close>/\<open>int64\<close> wrap-around), and the
  generic lemmas on lists and results that the component theories share.

  Go strings are byte sequences: a \<open>string\<close> here is the list of its bytes.
  Go's fixed-width integers are read as \<open>int\<close>, with the two's complement wrap-around
  of every arithmetic operation and conversion written out by \<open>wrap32\<close> and \<open>wrap64\<close>.
\<close>

named_theorems sql_simps "the characteristic equations of the table operations"

section \<open>Fixed-width integers\<close>

definition wrap32 :: "int \<Rightarrow> int" where
  "wrap32 x = (x + 2 ^ 31) mod 2 ^ 32 - 2 ^ 31"

definition wrap64 :: "int \<Rightarrow> int" where
  "wrap64 x = (x + 2 ^ 63) mod 2 ^ 64 - 2 ^ 63"

definition is_int32 :: "int \<Rightarrow> bool" where
  "is_int32 x \<longleftrightarrow> - (2 ^ 31) \<le> x \<and> x < 2 ^ 31"

definition is_int64 :: "int \<Rightarrow> bool" where
  "is_int64 x \<longleftrightarrow> - (2 ^ 63) \<le> x \<and> x < 2 ^ 63"

text \<open>The written-out wrap-around is the signed reading of the machine word.\<close>

lemma wrap64_word: "wrap64 x = sint (word_of_int x :: 64 word)"
  by (simp add: wrap64_def signed_take_bit_eq_take_bit_shift sint_uint take_bit_eq_mod
      uint_word_of_int mod_simps)

lemma wrap32_word: "wrap32 x = sint (word_of_int x :: 32 word)"
  by (simp add: wrap32_def signed_take_bit_eq_take_bit_shift sint_uint take_bit_eq_mod
      uint_word_of_int mod_simps)

lemma wrap64_id: "is_int64 x \<Longrightarrow> wrap64 x = x"
  by (simp add: is_int64_def wrap64_def)

lemma wrap32_id: "is_int32 x \<Longrightarrow> wrap32 x = x"
  by (simp add: is_int32_def wrap32_def)

lemma is_int64_wrap [simp]: "is_int64 (wrap64 x)"
  unfolding is_int64_def wrap64_def
  using pos_mod_bound [of "2 ^ 64" "x + 2 ^ 63"] pos_mod_sign [of "2 ^ 64" "x + 2 ^ 63"]
  by simp

lemma is_int32_wrap [simp]: "is_int32 (wrap32 x)"
  unfolding is_int32_def wrap32_def
  using pos_mod_bound [of "2 ^ 32" "x + 2 ^ 31"] pos_mod_sign [of "2 ^ 32" "x + 2 ^ 31"]
  by simp

lemma is_int64_wrap32: "is_int32 x \<Longrightarrow> is_int64 x"
  by (simp add: is_int32_def is_int64_def)

section \<open>Byte strings\<close>

subsection \<open>strings.TrimSpace\<close>

text \<open>
  The UTF-8 encodings of the code points for which \<open>unicode.IsSpace\<close> holds: the ASCII
  blanks, U+0085, U+00A0, U+1680, U+2000 to U+200A, U+2028, U+2029, U+202F, U+205F, U+3000.
\<close>

definition space_runes :: "string list" where
  "space_runes =
     [[CHR 0x20], [CHR 0x09], [CHR 0x0A], [CHR 0x0B], [CHR 0x0C], [CHR 0x0D],
      [CHR 0xC2, CHR 0x85], [CHR 0xC2, CHR 0xA0], [CHR 0xE1, CHR 0x9A, CHR 0x80],
      [CHR 0xE2, CHR 0x80, CHR 0x80], [CHR 0xE2, CHR 0x80, CHR 0x81],
      [CHR 0xE2, CHR 0x80, CHR 0x82], [CHR 0xE2, CHR 0x80, CHR 0x83],
      [CHR 0xE2, CHR 0x80, CHR 0x84], [CHR 0xE2, CHR 0x80, CHR 0x85],
      [CHR 0xE2, CHR 0x80, CHR 0x86], [CHR 0xE2, CHR 0x80, CHR 0x87],
      [CHR 0xE2, CHR 0x80, CHR 0x88], [CHR 0xE2, CHR 0x80, CHR 0x89],
      [CHR 0xE2, CHR 0x80, CHR 0x8A], [CHR 0xE2, CHR 0x80, CHR 0xA8],
      [CHR 0xE2, CHR 0x80, CHR 0xA9], [CHR 0xE2, CHR 0x80, CHR 0xAF],
      [CHR 0xE2, CHR 0x81, CHR 0x9F], [CHR 0xE3, CHR 0x80, CHR 0x80]]"

text \<open>Strip, as long as there is one, a leading element of the given set of blanks.\<close>

function strip_left :: "string list \<Rightarrow> string \<Rightarrow> string" where
  "strip_left ws s =
     (case find (\<lambda>w. w \<noteq> [] \<and> prefix w s) ws of
        None \<Rightarrow> s
      | Some w \<Rightarrow> strip_left ws (drop (length w) s))"
  by pat_completeness auto
termination
  by (relation "measure (\<lambda>(ws, s). length s)")
    (auto simp: find_Some_iff prefix_def)

declare strip_left.simps [simp del]

definition strip_right :: "string list \<Rightarrow> string \<Rightarrow> string" where
  "strip_right ws s = rev (strip_left (map rev ws) (rev s))"

definition TrimSpace :: "string \<Rightarrow> string" where
  "TrimSpace s = strip_right space_runes (strip_left space_runes s)"

lemma strip_left_stop: "find (\<lambda>w. w \<noteq> [] \<and> prefix w s) ws = None \<Longrightarrow> strip_left ws s = s"
  by (subst strip_left.simps) simp

lemma find_after_strip_left:
  "find (\<lambda>w. w \<noteq> [] \<and> prefix w (strip_left ws s)) ws = None"
proof (induction ws s rule: strip_left.induct)
  case (1 ws s)
  show ?case
  proof (cases "find (\<lambda>w. w \<noteq> [] \<and> prefix w s) ws")
    case None
    then show ?thesis by (simp add: strip_left_stop)
  next
    case (Some w)
    with 1 show ?thesis by (simp add: strip_left.simps [of ws s])
  qed
qed

lemma suffix_strip_left: "suffix (strip_left ws s) s"
proof (induction ws s rule: strip_left.induct)
  case (1 ws s)
  show ?case
  proof (cases "find (\<lambda>w. w \<noteq> [] \<and> prefix w s) ws")
    case None
    then show ?thesis by (simp add: strip_left_stop)
  next
    case (Some w)
    then have "suffix (strip_left ws (drop (length w) s)) (drop (length w) s)"
      by (rule 1)
    then have "suffix (strip_left ws (drop (length w) s)) s"
      using suffix_drop suffix_order.trans by blast
    with Some show ?thesis by (simp add: strip_left.simps [of ws s])
  qed
qed

lemma strip_left_idem [simp]: "strip_left ws (strip_left ws s) = strip_left ws s"
  by (rule strip_left_stop) (rule find_after_strip_left)

lemma prefix_strip_right: "prefix (strip_right ws s) s"
  using suffix_strip_left [of "map rev ws" "rev s"]
  by (simp add: strip_right_def suffix_to_prefix)

lemma strip_left_strip_right:
  assumes "strip_left ws s = s"
  shows "strip_left ws (strip_right ws s) = strip_right ws s"
proof (rule strip_left_stop)
  have "find (\<lambda>w. w \<noteq> [] \<and> prefix w s) ws = None"
    using find_after_strip_left [of ws s] assms by simp
  then show "find (\<lambda>w. w \<noteq> [] \<and> prefix w (strip_right ws s)) ws = None"
    using prefix_strip_right [of ws s] prefix_order.trans
    unfolding find_None_iff by blast
qed

lemma TrimSpace_idem [simp]: "TrimSpace (TrimSpace s) = TrimSpace s"
  by (simp add: TrimSpace_def strip_left_strip_right) (simp add: strip_right_def)

text \<open>
  Strings that begin and end with a printable ASCII character are left alone: the rule
  by which literals are evaluated.
\<close>

definition graphic :: "char \<Rightarrow> bool" where
  "graphic c \<longleftrightarrow> 32 < (of_char c :: nat) \<and> (of_char c :: nat) < 127"

definition trimmed_ascii :: "string \<Rightarrow> bool" where
  "trimmed_ascii s \<longleftrightarrow> s = [] \<or> (graphic (hd s) \<and> graphic (last s))"

lemma graphic_Char [simp]:
  "graphic (Char b0 b1 b2 b3 b4 b5 b6 b7) \<longleftrightarrow>
     32 < (of_char (Char b0 b1 b2 b3 b4 b5 b6 b7) :: nat) \<and>
     (of_char (Char b0 b1 b2 b3 b4 b5 b6 b7) :: nat) < 127"
  by (rule graphic_def)

lemma trimmed_ascii_simps [simp]:
  "trimmed_ascii []"
  "trimmed_ascii (c # cs) \<longleftrightarrow> graphic c \<and> graphic (last (c # cs))"
  by (simp_all add: trimmed_ascii_def)

lemma strip_left_graphic:
  assumes "\<And>w. w \<in> set ws \<Longrightarrow> \<not> graphic (hd w)" and "s = [] \<or> graphic (hd s)"
  shows "strip_left ws s = s"
proof (rule strip_left_stop)
  have "\<not> prefix w s" if "w \<in> set ws" "w \<noteq> []" for w
    using assms(1) [OF that(1)] assms(2) that(2) by (auto simp: prefix_def)
  then show "find (\<lambda>w. w \<noteq> [] \<and> prefix w s) ws = None"
    unfolding find_None_iff by blast
qed

lemma space_runes_not_graphic:
  "w \<in> set space_runes \<Longrightarrow> \<not> graphic (hd w) \<and> \<not> graphic (last w)"
  by (auto simp: space_runes_def)

lemma TrimSpace_ascii [simp]: "trimmed_ascii s \<Longrightarrow> TrimSpace s = s"
proof -
  assume s: "trimmed_ascii s"
  have "strip_left space_runes s = s"
    using s space_runes_not_graphic
    by (intro strip_left_graphic) (auto simp: trimmed_ascii_def)
  moreover have "strip_left (map rev space_runes) (rev s) = rev s"
    using s space_runes_not_graphic
    by (intro strip_left_graphic) (auto simp: trimmed_ascii_def hd_rev)
  ultimately show ?thesis by (simp add: TrimSpace_def strip_right_def)
qed

lemma TrimSpace_blanks [simp]:
  "TrimSpace [] = []" "TrimSpace '' '' = []" "TrimSpace ''   '' = []"
  by (simp_all add: TrimSpace_def strip_right_def strip_left.simps space_runes_def)

subsection \<open>strings.ToUpper\<close>

text \<open>
  ASCII letters, and the two code points outside ASCII whose upper case is an ASCII letter
  (U+017F, the long s, and U+0131, the dotless i). Every other code point stays outside
  ASCII, so the result is exact wherever it is compared with an ASCII literal, which is
  the only use the services make of it.
\<close>

definition upper_char :: "char \<Rightarrow> char" where
  "upper_char c =
     (if 97 \<le> (of_char c :: nat) \<and> (of_char c :: nat) \<le> 122
      then char_of ((of_char c :: nat) - 32) else c)"

fun ToUpper :: "string \<Rightarrow> string" where
  "ToUpper [] = []"
| "ToUpper [c] = [upper_char c]"
| "ToUpper (c # d # s) =
     (if c = CHR 0xC5 \<and> d = CHR 0xBF then CHR ''S'' # ToUpper s
      else if c = CHR 0xC4 \<and> d = CHR 0xB1 then CHR ''I'' # ToUpper s
      else upper_char c # ToUpper (d # s))"

subsection \<open>Decimal formatting (the \<open>%d\<close> verb)\<close>

definition digit :: "nat \<Rightarrow> char" where
  "digit d = char_of (48 + d)"

function nat_digits :: "nat \<Rightarrow> string" where
  "nat_digits n = (if n < 10 then [digit n] else nat_digits (n div 10) @ [digit (n mod 10)])"
  by pat_completeness auto
termination
  by (relation "measure id") auto

declare nat_digits.simps [simp del]

definition itoa :: "int \<Rightarrow> string" where
  "itoa i = (if i < 0 then CHR ''-'' # nat_digits (nat (- i)) else nat_digits (nat i))"

definition digits_value :: "string \<Rightarrow> nat" where
  "digits_value s = foldl (\<lambda>a c. 10 * a + (of_char c - 48)) 0 s"

lemma of_char_digit: "d < 10 \<Longrightarrow> (of_char (digit d) :: nat) = 48 + d"
  by (simp add: digit_def)

lemma digits_value_nat_digits: "digits_value (nat_digits n) = n"
proof (induction n rule: nat_digits.induct)
  case (1 n)
  show ?case
  proof (cases "n < 10")
    case True
    then show ?thesis
      by (simp add: nat_digits.simps [of n] digits_value_def of_char_digit)
  next
    case False
    with 1 have "digits_value (nat_digits (n div 10)) = n div 10" by simp
    with False show ?thesis
      by (simp add: nat_digits.simps [of n] digits_value_def of_char_digit)
  qed
qed

lemma nat_digits_inject [simp]: "nat_digits m = nat_digits n \<longleftrightarrow> m = n"
  by (metis digits_value_nat_digits)

lemma nat_digits_chars: "c \<in> set (nat_digits n) \<Longrightarrow> 48 \<le> (of_char c :: nat) \<and> (of_char c :: nat) \<le> 57"
proof (induction n rule: nat_digits.induct)
  case (1 n)
  show ?case
  proof (cases "n < 10")
    case True
    with 1(2) show ?thesis by (simp add: nat_digits.simps [of n] of_char_digit)
  next
    case False
    with 1(2) consider "c \<in> set (nat_digits (n div 10))" | "c = digit (n mod 10)"
      by (auto simp: nat_digits.simps [of n])
    then show ?thesis using False 1(1) by cases (simp_all add: of_char_digit)
  qed
qed

lemma nat_digits_not_Nil [simp]: "nat_digits n \<noteq> []"
  by (subst nat_digits.simps) simp

lemma itoa_inject [simp]: "itoa i = itoa j \<longleftrightarrow> i = j"
proof
  have minus: "CHR ''-'' \<notin> set (nat_digits n)" for n
    using nat_digits_chars [of "CHR ''-''" n] by auto
  assume "itoa i = itoa j"
  then show "i = j"
    using minus by (auto simp: itoa_def split: if_splits) (metis list.set_intros(1))+
qed simp

lemma itoa_hd:
  "itoa i \<noteq> []" "hd (itoa i) = CHR ''-'' \<or> (48 \<le> (of_char (hd (itoa i)) :: nat) \<and> (of_char (hd (itoa i)) :: nat) \<le> 57)"
  using nat_digits_chars [of "hd (nat_digits (nat i))" "nat i"]
  by (auto simp: itoa_def)

lemma itoa_last: "graphic (last (itoa i))"
proof -
  have "last (nat_digits n) \<in> set (nat_digits n)" for n by simp
  then show ?thesis
    using nat_digits_chars [of "last (nat_digits (nat i))" "nat i"]
      nat_digits_chars [of "last (nat_digits (nat (- i)))" "nat (- i)"]
    by (auto simp: itoa_def graphic_def)
qed

text \<open>The \<open>%q\<close> verb, on strings that need no escapes.\<close>

definition quote :: "string \<Rightarrow> string" where
  "quote s = CHR 0x22 # s @ [CHR 0x22]"

section \<open>Generic lemmas\<close>

text \<open>The code's \<open>if err != nil { return ..., f(err) }\<close>: when the rest is reached.\<close>

lemma bind_Inr_iff:
  "(case r of Inl e \<Rightarrow> Inl (f e) | Inr x \<Rightarrow> k x) = Inr y \<longleftrightarrow> (\<exists>x. r = Inr x \<and> k x = Inr y)"
  by (cases r) auto

lemma map_sum_id_simps [simp]:
  "map_sum f id r = Inr x \<longleftrightarrow> r = Inr x"
  "map_sum f id r = Inl e \<longleftrightarrow> (\<exists>x. r = Inl x \<and> e = f x)"
  by (cases r; auto)+

lemma find_Some_in: "find P xs = Some x \<Longrightarrow> x \<in> set xs \<and> P x"
  by (auto simp: find_Some_iff)

lemma find_None_all: "find P xs = None \<Longrightarrow> x \<in> set xs \<Longrightarrow> \<not> P x"
  by (auto simp: find_None_iff)

lemma find_append: "find P (xs @ ys) = (case find P xs of None \<Rightarrow> find P ys | Some x \<Rightarrow> Some x)"
  by (induction xs) auto

lemma find_distinct_key:
  "distinct (map f xs) \<Longrightarrow> x \<in> set xs \<Longrightarrow> find (\<lambda>y. f y = f x) xs = Some x"
  by (induction xs) (auto simp: image_iff)

text \<open>
  A table with a key: replacing, deleting and looking up the row of a key. \<open>replace_row\<close> is
  what an \<open>UPDATE\<close> of one row does to the list of rows.
\<close>

definition replace_row :: "('a \<Rightarrow> 'k) \<Rightarrow> 'k \<Rightarrow> ('a \<Rightarrow> 'a) \<Rightarrow> 'a list \<Rightarrow> 'a list" where
  "replace_row key k upd xs = map (\<lambda>x. if key x = k then upd x else x) xs"

lemma replace_row_split:
  assumes "distinct (map key xs)" "x \<in> set xs"
  obtains ys zs where "xs = ys @ x # zs"
    and "\<And>upd. replace_row key (key x) upd xs = ys @ upd x # zs"
    and "filter (\<lambda>y. key y \<noteq> key x) xs = ys @ zs"
proof -
  obtain ys zs where xs: "xs = ys @ x # zs" using assms(2) by (meson split_list)
  with assms(1) have k: "\<And>y. y \<in> set ys \<union> set zs \<Longrightarrow> key y \<noteq> key x" by auto (metis image_eqI)+
  show ?thesis
  proof
    show "xs = ys @ x # zs" by (rule xs)
    show "replace_row key (key x) upd xs = ys @ upd x # zs" for upd
      using k by (auto simp: xs replace_row_def intro: map_idI)
    show "filter (\<lambda>y. key y \<noteq> key x) xs = ys @ zs"
      using k by (auto simp: xs intro: filter_True)
  qed
qed

lemma map_key_replace_row [simp]:
  "(\<And>x. key (upd x) = key x) \<Longrightarrow> map key (replace_row key k upd xs) = map key xs"
  by (simp add: replace_row_def)

lemma map_key_replace_const [simp]:
  "key n = k \<Longrightarrow> map key (replace_row key k (\<lambda>_. n) xs) = map key xs"
  by (simp add: replace_row_def)

lemma keys_replace_const [simp]:
  "key n = k \<Longrightarrow> key ` set (replace_row key k (\<lambda>_. n) xs) = key ` set xs"
  using map_key_replace_const [of key n k xs] by (metis list.set_map)

lemma find_replace_const:
  "key n = k \<Longrightarrow> find (\<lambda>x. key x = l) (replace_row key k (\<lambda>_. n) xs) =
     (if l = k \<and> k \<in> key ` set xs then Some n else find (\<lambda>x. key x = l) xs)"
  by (induction xs) (auto simp: replace_row_def)

lemma length_replace_row [simp]: "length (replace_row key k upd xs) = length xs"
  by (simp add: replace_row_def)

lemma replace_row_absent: "k \<notin> key ` set xs \<Longrightarrow> replace_row key k upd xs = xs"
  by (auto simp: replace_row_def intro!: map_idI)

lemma set_replace_row_subset:
  "y \<in> set (replace_row key k upd xs) \<Longrightarrow> (y \<in> set xs \<and> key y \<noteq> k) \<or> (\<exists>x \<in> set xs. key x = k \<and> y = upd x)"
  by (auto simp: replace_row_def split: if_splits)

lemma find_replace_row:
  "(\<And>x. key (upd x) = key x) \<Longrightarrow>
     find (\<lambda>x. key x = l) (replace_row key k upd xs) =
     (if l = k then map_option upd (find (\<lambda>x. key x = l) xs) else find (\<lambda>x. key x = l) xs)"
  by (induction xs) (auto simp: replace_row_def)

lemma find_key_Some_iff:
  "distinct (map key xs) \<Longrightarrow> find (\<lambda>x. key x = k) xs = Some x \<longleftrightarrow> x \<in> set xs \<and> key x = k"
  using find_distinct_key find_Some_in by fastforce

lemma find_key_None_iff: "find (\<lambda>x. key x = k) xs = None \<longleftrightarrow> k \<notin> key ` set xs"
  by (auto simp: find_None_iff)

lemma filter_absent_key: "k \<notin> key ` set xs \<Longrightarrow> filter (\<lambda>x. key x = k) xs = []"
  by (induction xs) auto

lemma filter_other_keys: "k \<notin> key ` set xs \<Longrightarrow> filter (\<lambda>x. key x \<noteq> k) xs = xs"
  by (induction xs) auto

lemma distinct_filter_append:
  "distinct (filter P (xs @ [x])) \<longleftrightarrow> distinct (filter P xs) \<and> (P x \<longrightarrow> x \<notin> set xs)"
  by auto

text \<open>A page of a list: \<open>OFFSET\<close> then \<open>LIMIT\<close>.\<close>

definition page_of :: "int \<Rightarrow> int \<Rightarrow> 'a list \<Rightarrow> 'a list" where
  "page_of limit offset xs = take (nat limit) (drop (nat offset) xs)"

end
