(* ===== verification/Proto_Enums.thy ===== *)
theory Proto_Enums
  imports Prelude
begin

text \<open>
  The enumerations of the generated protobuf API that the services compute with. Proto3
  enumerations are open: a client may send any number, so \<open>currency\<close> and
  \<open>payment_method\<close> have a constructor for the numbers without a name. \<open>String()\<close> of
  such a number is its decimal form, and the maps from names to numbers
  (\<open>Currency_value\<close> etc.) are closed. The order, payment and catalog packages declare the
  same two enumerations.
\<close>

section \<open>Currency\<close>

datatype currency =
    CURRENCY_UNSPECIFIED
  | CURRENCY_USD
  | CURRENCY_EUR
  | CURRENCY_OTHER int

fun Currency_String :: "currency \<Rightarrow> string" where
  "Currency_String CURRENCY_UNSPECIFIED = ''CURRENCY_UNSPECIFIED''"
| "Currency_String CURRENCY_USD = ''CURRENCY_USD''"
| "Currency_String CURRENCY_EUR = ''CURRENCY_EUR''"
| "Currency_String (CURRENCY_OTHER n) = itoa n"

definition Currency_value :: "string \<Rightarrow> currency option" where
  "Currency_value s =
     find (\<lambda>c. Currency_String c = s) [CURRENCY_UNSPECIFIED, CURRENCY_USD, CURRENCY_EUR]"

definition known_currency :: "currency \<Rightarrow> bool" where
  "known_currency c \<longleftrightarrow> c \<in> {CURRENCY_UNSPECIFIED, CURRENCY_USD, CURRENCY_EUR}"


lemma itoa_not_name:
  assumes "57 < (of_char c :: nat)"
  shows "itoa n \<noteq> c # s"
proof
  assume "itoa n = c # s"
  then have "hd (itoa n) = c" by simp
  with itoa_hd(2) [of n] assms show False by auto
qed

lemma Currency_value_String:
  "Currency_value (Currency_String c) = (if known_currency c then Some c else None)"
  by (cases c) (simp_all add: Currency_value_def known_currency_def itoa_not_name
      itoa_not_name [symmetric])

lemma Currency_value_known [simp]:
  "known_currency c \<Longrightarrow> Currency_value (Currency_String c) = Some c"
  by (simp add: Currency_value_String)

lemma Currency_String_eq_iff [simp]: "Currency_String c = Currency_String d \<longleftrightarrow> c = d"
  by (cases c; cases d) (simp_all add: itoa_not_name itoa_not_name [symmetric])

lemma Currency_value_Some: "Currency_value s = Some c \<Longrightarrow> s = Currency_String c \<and> known_currency c"
  by (auto simp: Currency_value_def known_currency_def split: if_splits)

section \<open>Payment method\<close>

datatype payment_method =
    PAYMENT_METHOD_TYPE_UNSPECIFIED
  | PAYMENT_METHOD_TYPE_CARD
  | PAYMENT_METHOD_TYPE_CASH
  | PAYMENT_METHOD_TYPE_OTHER int

fun PaymentMethodType_String :: "payment_method \<Rightarrow> string" where
  "PaymentMethodType_String PAYMENT_METHOD_TYPE_UNSPECIFIED = ''PAYMENT_METHOD_TYPE_UNSPECIFIED''"
| "PaymentMethodType_String PAYMENT_METHOD_TYPE_CARD = ''PAYMENT_METHOD_TYPE_CARD''"
| "PaymentMethodType_String PAYMENT_METHOD_TYPE_CASH = ''PAYMENT_METHOD_TYPE_CASH''"
| "PaymentMethodType_String (PAYMENT_METHOD_TYPE_OTHER n) = itoa n"

definition PaymentMethodType_value :: "string \<Rightarrow> payment_method option" where
  "PaymentMethodType_value s =
     find (\<lambda>m. PaymentMethodType_String m = s)
       [PAYMENT_METHOD_TYPE_UNSPECIFIED, PAYMENT_METHOD_TYPE_CARD, PAYMENT_METHOD_TYPE_CASH]"

definition known_method :: "payment_method \<Rightarrow> bool" where
  "known_method m \<longleftrightarrow>
     m \<in> {PAYMENT_METHOD_TYPE_UNSPECIFIED, PAYMENT_METHOD_TYPE_CARD, PAYMENT_METHOD_TYPE_CASH}"

lemma PaymentMethodType_value_String:
  "PaymentMethodType_value (PaymentMethodType_String m) = (if known_method m then Some m else None)"
  by (cases m) (simp_all add: PaymentMethodType_value_def known_method_def itoa_not_name
      itoa_not_name [symmetric])

lemma PaymentMethodType_value_known [simp]:
  "known_method m \<Longrightarrow> PaymentMethodType_value (PaymentMethodType_String m) = Some m"
  by (simp add: PaymentMethodType_value_String)

lemma PaymentMethodType_String_eq_iff [simp]:
  "PaymentMethodType_String c = PaymentMethodType_String d \<longleftrightarrow> c = d"
  by (cases c; cases d) (simp_all add: itoa_not_name itoa_not_name [symmetric])

lemma PaymentMethodType_value_Some:
  "PaymentMethodType_value s = Some m \<Longrightarrow> s = PaymentMethodType_String m \<and> known_method m"
  by (auto simp: PaymentMethodType_value_def known_method_def split: if_splits)

end
