(* ===== verification/Runtime.thy ===== *)
theory Runtime
  imports Prelude
begin

text \<open>
  The environment every service runs in. The PostgreSQL statements are code of this
  repository (their text is in the \<open>sqlc\<close> packages) and are modelled where they occur;
  what the server and the network do besides is an arbitrary \<open>attempt\<close>: for each call
  site of one repository method it says whether the call is served, fails, or is carried
  out with the acknowledgement lost, and what the clock reads there. A service keeps its
  tables in a \<open>world\<close>, which supplies one attempt per repository call.
\<close>

section \<open>Errors of the database driver\<close>

text \<open>
  \<open>pgx.ErrNoRows\<close>, \<open>*pgconn.PgError\<close> (SQLSTATE, constraint name, message) and any
  other error of the connection.
\<close>

datatype pg_error =
    NoRows
  | PgError (pg_code: string) (pg_constraint: string) (pg_message: string)
  | ConnError string

fun pg_error_text :: "pg_error \<Rightarrow> string" where
  "pg_error_text NoRows = ''no rows in result set''"
| "pg_error_text (PgError code con msg) = ''ERROR: '' @ msg @ '' (SQLSTATE '' @ code @ '')''"
| "pg_error_text (ConnError msg) = msg"

abbreviation unique_violation :: "string \<Rightarrow> pg_error" where
  "unique_violation con \<equiv>
     PgError ''23505'' con (''duplicate key value violates unique constraint '' @ con)"

abbreviation check_violation :: "string \<Rightarrow> pg_error" where
  "check_violation con \<equiv> PgError ''23514'' con (''new row violates check constraint '' @ con)"

abbreviation not_null_violation :: pg_error where
  "not_null_violation \<equiv> PgError ''23502'' [] ''null value violates not-null constraint''"

abbreviation foreign_key_violation :: "string \<Rightarrow> pg_error" where
  "foreign_key_violation con \<equiv> PgError ''23503'' con (''insert violates foreign key '' @ con)"

section \<open>Attempts: faults and clock readings\<close>

datatype fault = Served | Failed string | AckLost string

record attempt =
  fault_at :: "string \<times> nat \<Rightarrow> fault"
  clock_at :: "string \<Rightarrow> int"

text \<open>A statement inside a transaction: a fault aborts it.\<close>

definition exec :: "attempt \<Rightarrow> string \<times> nat \<Rightarrow> pg_error + 'a \<Rightarrow> pg_error + 'a" where
  "exec a site r =
     (case fault_at a site of
        Served \<Rightarrow> r
      | Failed m \<Rightarrow> Inl (ConnError m)
      | AckLost m \<Rightarrow> Inl (ConnError m))"

text \<open>A statement outside any transaction commits by itself.\<close>

definition autocommit ::
    "attempt \<Rightarrow> string \<times> nat \<Rightarrow> 'db \<Rightarrow> pg_error + ('a \<times> 'db) \<Rightarrow> (pg_error + 'a) \<times> 'db" where
  "autocommit a site db r =
     (case fault_at a site of
        Served \<Rightarrow> (case r of Inl e \<Rightarrow> (Inl e, db) | Inr (x, db') \<Rightarrow> (Inr x, db'))
      | Failed m \<Rightarrow> (Inl (ConnError m), db)
      | AckLost m \<Rightarrow> (Inl (ConnError m), case r of Inl e \<Rightarrow> db | Inr (x, db') \<Rightarrow> db'))"

text \<open>
  \<open>defer tx.Rollback\<close> and \<open>tx.Commit\<close>: an error of the body discards its writes; the
  commit itself may fail, and a commit whose acknowledgement is lost reports an error
  although its writes are durable.
\<close>

definition commit_tx ::
    "attempt \<Rightarrow> (string \<Rightarrow> 'e) \<Rightarrow> 'db \<Rightarrow> 'e + ('a \<times> 'db) \<Rightarrow> ('e + 'a) \<times> 'db" where
  "commit_tx a err db r =
     (case r of
        Inl e \<Rightarrow> (Inl e, db)
      | Inr (x, db') \<Rightarrow>
          (case fault_at a (''Commit'', 0) of
             Served \<Rightarrow> (Inr x, db')
           | Failed m \<Rightarrow> (Inl (err m), db)
           | AckLost m \<Rightarrow> (Inl (err m), db')))"

lemma exec_Inr [simp]: "exec a site r = Inr x \<longleftrightarrow> fault_at a site = Served \<and> r = Inr x"
  by (auto simp: exec_def split: fault.splits)

lemma exec_Served [simp]: "fault_at a site = Served \<Longrightarrow> exec a site r = r"
  by (simp add: exec_def)

lemma exec_NoRows: "exec a site r = Inl NoRows \<longleftrightarrow> fault_at a site = Served \<and> r = Inl NoRows"
  by (auto simp: exec_def split: fault.splits)

lemma commit_tx_Inl [simp]: "commit_tx a err db (Inl e) = (Inl e, db)"
  by (simp add: commit_tx_def)

lemma commit_tx_Inr_iff:
  "commit_tx a err db r = (Inr x, db') \<longleftrightarrow>
     r = Inr (x, db') \<and> fault_at a (''Commit'', 0) = Served"
  by (auto simp: commit_tx_def split: sum.splits fault.splits)

text \<open>All or nothing: the transaction leaves the old state or that of its completed body.\<close>

lemma commit_tx_atomic:
  "snd (commit_tx a err db r) = db \<or> (\<exists>x. r = Inr (x, snd (commit_tx a err db r)))"
  by (auto simp: commit_tx_def split: sum.splits fault.splits)

lemma autocommit_Inr_iff:
  "autocommit a site db r = (Inr x, db') \<longleftrightarrow> r = Inr (x, db') \<and> fault_at a site = Served"
  by (auto simp: autocommit_def split: sum.splits fault.splits)

lemma autocommit_atomic:
  "snd (autocommit a site db r) = db \<or> (\<exists>x. r = Inr (x, snd (autocommit a site db r)))"
  by (auto simp: autocommit_def split: sum.splits fault.splits)

lemma autocommit_Served [simp]:
  "fault_at a site = Served \<Longrightarrow> autocommit a site db (Inr (x, db')) = (Inr x, db')"
  "fault_at a site = Served \<Longrightarrow> autocommit a site db (Inl e) = (Inl e, db)"
  by (simp_all add: autocommit_def)

text \<open>The attempt in which nothing goes wrong and every clock reads \<open>t\<close>.\<close>

definition calm :: "int \<Rightarrow> attempt" where
  "calm t = \<lparr>fault_at = (\<lambda>_. Served), clock_at = (\<lambda>_. t)\<rparr>"

lemma calm_simps [simp]: "fault_at (calm t) site = Served" "clock_at (calm t) c = t"
  by (simp_all add: calm_def)

section \<open>Worlds\<close>

text \<open>
  A service's tables, with the attempt of each coming repository call and what the other
  clients of the database will have done to the tables by then: call \<open>i\<close> finds
  \<open>others w i\<close> of the tables that the previous call left. Each transaction is atomic; other
  transactions interleave between the calls of a service operation.
\<close>

record 'db world =
  tables :: 'db
  attempts :: "nat \<Rightarrow> attempt"
  others :: "nat \<Rightarrow> 'db \<Rightarrow> 'db"
  calls :: nat

definition found :: "('db, 'm) world_scheme \<Rightarrow> 'db" where
  "found w = others w (calls w) (tables w)"

definition the_attempt :: "('db, 'm) world_scheme \<Rightarrow> attempt" where
  "the_attempt w = attempts w (calls w)"

definition with_attempt ::
    "(attempt \<Rightarrow> 'db \<Rightarrow> 'r \<times> 'db) \<Rightarrow> ('db, 'm) world_scheme \<Rightarrow> 'r \<times> ('db, 'm) world_scheme" where
  "with_attempt f w =
     (case f (the_attempt w) (found w) of
        (r, db') \<Rightarrow> (r, w\<lparr>tables := db', calls := Suc (calls w)\<rparr>))"

text \<open>A method that only reads its tables.\<close>

definition with_read ::
    "(attempt \<Rightarrow> 'db \<Rightarrow> 'r) \<Rightarrow> ('db, 'm) world_scheme \<Rightarrow> 'r \<times> ('db, 'm) world_scheme" where
  "with_read f w =
     (f (the_attempt w) (found w), w\<lparr>tables := found w, calls := Suc (calls w)\<rparr>)"

text \<open>
  A transaction that reads without a lock first: other transactions may commit between that
  read and the locks it takes afterwards. \<open>f\<close> gets the tables as they were read and as they
  are found under the locks.
\<close>

definition with_read_attempt ::
    "(attempt \<Rightarrow> 'db \<Rightarrow> 'db \<Rightarrow> 'r \<times> 'db) \<Rightarrow> ('db, 'm) world_scheme \<Rightarrow> 'r \<times> ('db, 'm) world_scheme" where
  "with_read_attempt f w =
     (let w1 = w\<lparr>tables := found w, calls := Suc (calls w)\<rparr>
      in case f (the_attempt w) (found w) (found w1) of
           (r, db') \<Rightarrow> (r, w1\<lparr>tables := db', calls := Suc (calls w1)\<rparr>))"

lemma with_attempt_eq:
  "with_attempt f w = (r, w') \<longleftrightarrow>
     (\<exists>db'. f (the_attempt w) (found w) = (r, db') \<and> w' = w\<lparr>tables := db', calls := Suc (calls w)\<rparr>)"
  by (auto simp: with_attempt_def split: prod.splits)

lemma with_read_eq:
  "with_read f w = (r, w') \<longleftrightarrow>
     r = f (the_attempt w) (found w) \<and> w' = w\<lparr>tables := found w, calls := Suc (calls w)\<rparr>"
  by (auto simp: with_read_def)

text \<open>What is found one call later.\<close>

definition found_next :: "('db, 'm) world_scheme \<Rightarrow> 'db" where
  "found_next w = others w (Suc (calls w)) (found w)"

lemma found_next_eq: "found (w\<lparr>tables := found w, calls := Suc (calls w)\<rparr>) = found_next w"
  by (simp add: found_def found_next_def)

lemma with_read_attempt_eq:
  "with_read_attempt f w = (r, w') \<longleftrightarrow>
     (\<exists>db'. f (the_attempt w) (found w) (found_next w) = (r, db') \<and> w' = w\<lparr>tables := db', calls := Suc (Suc (calls w))\<rparr>)"
  by (auto simp: with_read_attempt_def Let_def found_next_eq split: prod.splits)

text \<open>No other client, and clients that keep an invariant.\<close>

definition alone :: "('db, 'm) world_scheme \<Rightarrow> bool" where
  "alone w \<longleftrightarrow> others w = (\<lambda>_ db. db)"

definition others_keep :: "('db \<Rightarrow> bool) \<Rightarrow> ('db, 'm) world_scheme \<Rightarrow> bool" where
  "others_keep P w \<longleftrightarrow> (\<forall>i db. P db \<longrightarrow> P (others w i db))"

lemma alone_found: "alone w \<Longrightarrow> found w = tables w"
  by (simp add: alone_def found_def)

lemma alone_found_next: "alone w \<Longrightarrow> found_next w = tables w"
  by (simp add: alone_def found_next_def found_def)

lemma alone_others_keep: "alone w \<Longrightarrow> others_keep P w"
  by (simp add: alone_def others_keep_def)

lemma others_keep_found: "others_keep P w \<Longrightarrow> P (tables w) \<Longrightarrow> P (found w)"
  by (simp add: others_keep_def found_def)

lemma others_keep_found_next: "others_keep P w \<Longrightarrow> P (tables w) \<Longrightarrow> P (found_next w)"
  by (simp add: others_keep_def found_next_def found_def)

lemma world_update_simps [simp]:
  "alone (w\<lparr>tables := db, calls := n\<rparr>) \<longleftrightarrow> alone w"
  "others_keep P (w\<lparr>tables := db, calls := n\<rparr>) \<longleftrightarrow> others_keep P w"
  by (simp_all add: alone_def others_keep_def)

text \<open>A world in which every call is served.\<close>

definition all_served :: "('db, 'm) world_scheme \<Rightarrow> bool" where
  "all_served w \<longleftrightarrow> (\<forall>i site. fault_at (attempts w i) site = Served)"

lemma all_served_attempt [simp]: "all_served w \<Longrightarrow> fault_at (the_attempt w) site = Served"
  unfolding all_served_def the_attempt_def by blast

lemma all_served_update [simp]: "all_served (w\<lparr>tables := db, calls := n\<rparr>) \<longleftrightarrow> all_served w"
  by (simp add: all_served_def)

text \<open>A world without faults and without other clients.\<close>

definition calm_world :: "'db \<Rightarrow> int \<Rightarrow> 'db world" where
  "calm_world db t = \<lparr>tables = db, attempts = (\<lambda>_. calm t), others = (\<lambda>_ db. db), calls = 0\<rparr>"

lemma calm_world_simps [simp]:
  "tables (calm_world db t) = db" "alone (calm_world db t)" "the_attempt (calm_world db t) = calm t"
  "attempts (calm_world db t) = (\<lambda>_. calm t)" "calls (calm_world db t) = 0"
  by (simp_all add: calm_world_def alone_def the_attempt_def)

lemma all_served_calm_world [simp]: "all_served (calm_world db t)"
  by (simp add: all_served_def)

text \<open>A call changes nothing of a world but the tables.\<close>

definition tables_only :: "('db, 'm) world_scheme \<Rightarrow> ('db, 'm) world_scheme \<Rightarrow> bool" where
  "tables_only w w' \<longleftrightarrow> (\<exists>db n. w' = w\<lparr>tables := db, calls := n\<rparr>)"

lemma tables_only_refl [simp]: "tables_only w w"
  unfolding tables_only_def by (rule exI [of _ "tables w"], rule exI [of _ "calls w"]) simp

lemma tables_only_trans [trans]: "tables_only w w1 \<Longrightarrow> tables_only w1 w2 \<Longrightarrow> tables_only w w2"
  unfolding tables_only_def by (elim exE) (simp del: ex_simps, blast)

lemma tables_only_attempt: "with_attempt f w = (r, w') \<Longrightarrow> tables_only w w'"
  by (auto simp: tables_only_def with_attempt_eq)

lemma tables_only_read: "with_read f w = (r, w') \<Longrightarrow> tables_only w w'"
  by (auto simp: tables_only_def with_read_eq)

lemma tables_only_read_attempt: "with_read_attempt f w = (r, w') \<Longrightarrow> tables_only w w'"
  by (auto simp: tables_only_def with_read_attempt_eq)

lemma tables_only_alone: "tables_only w w' \<Longrightarrow> alone w' = alone w"
  by (auto simp: tables_only_def)

lemma tables_only_served: "tables_only w w' \<Longrightarrow> all_served w' = all_served w"
  by (auto simp: tables_only_def)

lemma calls_update_simps [simp]:
  "alone (w\<lparr>calls := n\<rparr>) = alone w" "all_served (w\<lparr>calls := n\<rparr>) = all_served w"
  "alone (w\<lparr>tables := db\<rparr>) = alone w" "all_served (w\<lparr>tables := db\<rparr>) = all_served w"
  by (simp_all add: alone_def all_served_def)

section \<open>Time\<close>

text \<open>
  \<open>time.Time\<close> is the number of nanoseconds since the Unix epoch; the zero value is the
  first instant of year 1. \<open>pgtype.Timestamptz\<close> is an optional time (its \<open>Valid\<close> flag),
  and a \<open>TIMESTAMPTZ\<close> column keeps whole microseconds.
\<close>

type_synonym time = int

definition zero_time :: time where
  "zero_time = - 62135596800 * 10 ^ 9"

definition timestamptz :: "time \<Rightarrow> time option" where
  "timestamptz t = (if t = zero_time then None else Some t)"

definition pg_micros :: "time \<Rightarrow> time" where
  "pg_micros t = (t div 1000) * 1000"

lemma pg_micros_idem [simp]: "pg_micros (pg_micros t) = pg_micros t"
  by (simp add: pg_micros_def)

lemma pg_micros_zero_time [simp]: "pg_micros zero_time = zero_time"
  by (simp add: pg_micros_def zero_time_def)

definition UnixNano :: "time \<Rightarrow> int" where
  "UnixNano t = wrap64 t"

text \<open>
  \<open>Format(time.RFC3339)\<close> in a zone whose offset from UTC is \<open>off\<close> seconds. The date is
  computed from the day number by the proleptic Gregorian calendar.
\<close>

definition pad :: "nat \<Rightarrow> int \<Rightarrow> string" where
  "pad width n = (let s = itoa n in replicate (width - length s) CHR ''0'' @ s)"

definition civil :: "int \<Rightarrow> int \<times> int \<times> int" where
  "civil day =
     (let z = day + 719468; era = z div 146097; doe = z mod 146097;
          yoe = (doe - doe div 1460 + doe div 36524 - doe div 146096) div 365;
          doy = doe - (365 * yoe + yoe div 4 - yoe div 100);
          mp = (5 * doy + 2) div 153;
          d = doy - (153 * mp + 2) div 5 + 1;
          m = (if mp < 10 then mp + 3 else mp - 9);
          y = yoe + era * 400 + (if m \<le> 2 then 1 else 0)
      in (y, m, d))"

definition RFC3339 :: "int \<Rightarrow> time \<Rightarrow> string" where
  "RFC3339 off t =
     (let local = t div 10 ^ 9 + off; s = local mod 86400; zone = off div 60
      in case civil (local div 86400) of (y, m, d) \<Rightarrow>
           pad 4 y @ ''-'' @ pad 2 m @ ''-'' @ pad 2 d @ ''T'' @
           pad 2 (s div 3600) @ '':'' @ pad 2 (s mod 3600 div 60) @ '':'' @ pad 2 (s mod 60) @
           (if off = 0 then ''Z''
            else (if zone < 0 then ''-'' else ''+'') @
                 pad 2 (\<bar>zone\<bar> div 60) @ '':'' @ pad 2 (\<bar>zone\<bar> mod 60)))"

lemma RFC3339_epoch: "RFC3339 0 0 = ''1970-01-01T00:00:00Z''"
  by code_simp

lemma RFC3339_zone: "RFC3339 3600 (1709164799 * 10 ^ 9) = ''2024-02-29T00:59:59+01:00''"
  by code_simp

end
