(* ===== verification/Order_Domain.thy ===== *)
theory Order_Domain
  imports Proto_Enums Runtime
begin

text \<open>
  The order service's data (\<open>internal/order/domain/order.go\<close>): the order with its items,
  address and payment details, its status and the sentinel errors. \<open>order_step\<close> is the
  status machine of an order.
\<close>

section \<open>Status\<close>

datatype order_status =
    ORDER_STATUS_UNSPECIFIED
  | ORDER_STATUS_PENDING
  | ORDER_STATUS_AWAITING_PAYMENT
  | ORDER_STATUS_CONFIRMED
  | ORDER_STATUS_CANCELLED
  | ORDER_STATUS_SHIPPED
  | ORDER_STATUS_COMPLETED

fun OrderStatus_String :: "order_status \<Rightarrow> string" where
  "OrderStatus_String ORDER_STATUS_UNSPECIFIED = ''ORDER_STATUS_UNSPECIFIED''"
| "OrderStatus_String ORDER_STATUS_PENDING = ''ORDER_STATUS_PENDING''"
| "OrderStatus_String ORDER_STATUS_AWAITING_PAYMENT = ''ORDER_STATUS_AWAITING_PAYMENT''"
| "OrderStatus_String ORDER_STATUS_CONFIRMED = ''ORDER_STATUS_CONFIRMED''"
| "OrderStatus_String ORDER_STATUS_CANCELLED = ''ORDER_STATUS_CANCELLED''"
| "OrderStatus_String ORDER_STATUS_SHIPPED = ''ORDER_STATUS_SHIPPED''"
| "OrderStatus_String ORDER_STATUS_COMPLETED = ''ORDER_STATUS_COMPLETED''"

definition OrderStatus_value :: "string \<Rightarrow> order_status option" where
  "OrderStatus_value s =
     find (\<lambda>st. OrderStatus_String st = s)
       [ORDER_STATUS_UNSPECIFIED, ORDER_STATUS_PENDING, ORDER_STATUS_AWAITING_PAYMENT,
        ORDER_STATUS_CONFIRMED, ORDER_STATUS_CANCELLED, ORDER_STATUS_SHIPPED,
        ORDER_STATUS_COMPLETED]"

lemma OrderStatus_value_String [simp]: "OrderStatus_value (OrderStatus_String s) = Some s"
  by (cases s) (simp_all add: OrderStatus_value_def)

lemma OrderStatus_String_eq_iff [simp]: "OrderStatus_String s = OrderStatus_String t \<longleftrightarrow> s = t"
  by (metis OrderStatus_value_String option.inject)

section \<open>Orders\<close>

record money =
  mCurrency :: currency
  mAmountCents :: int

record order_item =
  iProductID :: string
  iSKU :: string
  iProductName :: string
  iQuantity :: int
  iUnitPrice :: money
  iTotalPrice :: money

record address =
  aCountry :: string
  aCity :: string
  aStreet :: string
  aPostalCode :: string
  aHouse :: string
  aApartment :: string

record payment_details =
  dMethod :: payment_method
  dMethodDetails :: string

record order =
  oID :: string
  oCustomerID :: string
  oIdempotencyKey :: string
  oItems :: "order_item list"
  oTotalAmount :: money
  oStatus :: order_status
  oShippingAddress :: address
  oPayment :: payment_details
  oCancelReason :: string
  oCreatedAt :: time
  oUpdatedAt :: time

text \<open>Go's zero values.\<close>

definition zero_money :: money where
  "zero_money = \<lparr>mCurrency = CURRENCY_UNSPECIFIED, mAmountCents = 0\<rparr>"

definition zero_address :: address where
  "zero_address = \<lparr>aCountry = [], aCity = [], aStreet = [], aPostalCode = [], aHouse = [], aApartment = []\<rparr>"

definition zero_payment_details :: payment_details where
  "zero_payment_details = \<lparr>dMethod = PAYMENT_METHOD_TYPE_UNSPECIFIED, dMethodDetails = []\<rparr>"

definition zero_order :: order where
  "zero_order =
     \<lparr>oID = [], oCustomerID = [], oIdempotencyKey = [], oItems = [], oTotalAmount = zero_money,
      oStatus = ORDER_STATUS_UNSPECIFIED, oShippingAddress = zero_address,
      oPayment = zero_payment_details, oCancelReason = [],
      oCreatedAt = zero_time, oUpdatedAt = zero_time\<rparr>"

section \<open>Errors\<close>

text \<open>The sentinels, and any other error with its text.\<close>

datatype order_error =
    ErrOrderNotFound
  | ErrInvalidOrder
  | ErrOrderAlreadyExists
  | ErrIdempotencyKeyAlreadyExists
  | ErrIdempotencyKeyConflict
  | ErrInvalidOrderID
  | ErrInvalidCustomerID
  | ErrOrderCannotBeCancelled
  | OrderInternal string

fun order_error_text :: "order_error \<Rightarrow> string" where
  "order_error_text ErrOrderNotFound = ''order not found''"
| "order_error_text ErrInvalidOrder = ''invalid order''"
| "order_error_text ErrOrderAlreadyExists = ''order already exists''"
| "order_error_text ErrIdempotencyKeyAlreadyExists = ''order already exists for idempotency key''"
| "order_error_text ErrIdempotencyKeyConflict = ''idempotency key already used for a different order payload''"
| "order_error_text ErrInvalidOrderID = ''invalid order id''"
| "order_error_text ErrInvalidCustomerID = ''invalid customer id''"
| "order_error_text ErrOrderCannotBeCancelled = ''order cannot be cancelled in current status''"
| "order_error_text (OrderInternal t) = t"

section \<open>The status machine\<close>

text \<open>
  The transitions an order may make once it exists: stock is reserved, the payment is
  captured (possibly before the reservation event is seen), or the order is cancelled
  before it ships.
\<close>

inductive order_step :: "order_status \<Rightarrow> order_status \<Rightarrow> bool" where
  stock_reserved: "order_step ORDER_STATUS_PENDING ORDER_STATUS_AWAITING_PAYMENT"
| payment_captured: "order_step ORDER_STATUS_AWAITING_PAYMENT ORDER_STATUS_CONFIRMED"
| captured_early: "order_step ORDER_STATUS_PENDING ORDER_STATUS_CONFIRMED"
| cancelled:
    "s \<in> {ORDER_STATUS_PENDING, ORDER_STATUS_AWAITING_PAYMENT, ORDER_STATUS_CONFIRMED} \<Longrightarrow>
     order_step s ORDER_STATUS_CANCELLED"

code_pred order_step .

inductive_cases order_step_toE: "order_step s t"
inductive_simps order_step_from_simps [simp]:
  "order_step ORDER_STATUS_UNSPECIFIED t"
  "order_step ORDER_STATUS_PENDING t"
  "order_step ORDER_STATUS_AWAITING_PAYMENT t"
  "order_step ORDER_STATUS_CONFIRMED t"
  "order_step ORDER_STATUS_CANCELLED t"
  "order_step ORDER_STATUS_SHIPPED t"
  "order_step ORDER_STATUS_COMPLETED t"

abbreviation order_reaches :: "order_status \<Rightarrow> order_status \<Rightarrow> bool" where
  "order_reaches \<equiv> order_step\<^sup>*\<^sup>*"

text \<open>A progress measure that every transition raises: the machine has no cycles.\<close>

fun progress :: "order_status \<Rightarrow> nat" where
  "progress ORDER_STATUS_PENDING = 1"
| "progress ORDER_STATUS_AWAITING_PAYMENT = 2"
| "progress ORDER_STATUS_CONFIRMED = 3"
| "progress ORDER_STATUS_CANCELLED = 4"
| "progress _ = 0"

lemma order_step_progress: "order_step s t \<Longrightarrow> progress s < progress t"
  by (auto elim: order_step_toE)

lemma order_reaches_progress: "order_reaches s t \<Longrightarrow> s = t \<or> progress s < progress t"
  by (induction rule: rtranclp_induct) (use order_step_progress in \<open>force\<close>)+

lemma order_reaches_antisym: "order_reaches s t \<Longrightarrow> order_reaches t s \<Longrightarrow> s = t"
  using order_reaches_progress [of s t] order_reaches_progress [of t s] by auto

lemma cancelled_is_final [simp]: "order_reaches ORDER_STATUS_CANCELLED t \<longleftrightarrow> t = ORDER_STATUS_CANCELLED"
  by (auto elim: converse_rtranclpE)

end
