(* ===== verification/Json.thy ===== *)
theory Json
  imports Prelude
begin

text \<open>
  \<open>encoding/json\<close> as the event code uses it, on parsed documents: \<open>json.Marshal\<close> of a
  struct writes an object with the tagged fields in declaration order; \<open>json.Unmarshal\<close>
  walks the members of an object, resolves each key to a field (the exact name first, then
  case-insensitively), stores into it, ignores unknown keys, leaves a field alone on
  \<open>null\<close> and reports a type mismatch after having decoded the rest. A Kafka message value
  is a \<open>json option\<close>: \<open>None\<close> stands for bytes that are not a JSON document.
  \<open>jsonb\<close> is what a \<open>JSONB\<close> column gives back: members sorted by key length and bytes,
  the last of duplicate keys kept.
\<close>

datatype json =
    JNull
  | JBool bool
  | JInt int
  | JReal string
  | JStr string
  | JArr "json list"
  | JObj "(string \<times> json) list"

section \<open>Resolving keys to fields\<close>

text \<open>\<open>foldName\<close>: equal on two strings exactly when they are equal under simple case folding.\<close>

definition lower_char :: "char \<Rightarrow> char" where
  "lower_char c =
     (if 65 \<le> (of_char c :: nat) \<and> (of_char c :: nat) \<le> 90
      then char_of ((of_char c :: nat) + 32) else c)"

fun fold_name :: "string \<Rightarrow> string" where
  "fold_name [] = []"
| "fold_name (c # s) =
     (if c = CHR 0xC5 \<and> take 1 s = [CHR 0xBF] then CHR ''s'' # fold_name (drop 1 s)
      else if c = CHR 0xE2 \<and> take 2 s = [CHR 0x84, CHR 0xAA] then CHR ''k'' # fold_name (drop 2 s)
      else lower_char c # fold_name s)"

definition resolve :: "string list \<Rightarrow> string \<Rightarrow> string option" where
  "resolve names k =
     (if k \<in> set names then Some k else find (\<lambda>n. fold_name n = fold_name k) names)"

lemma resolve_exact [simp]: "k \<in> set names \<Longrightarrow> resolve names k = Some k"
  by (simp add: resolve_def)

section \<open>Decoding\<close>

text \<open>Each decoder returns the new value and whether an error was met.\<close>

fun dec_string :: "json \<Rightarrow> string \<Rightarrow> string \<times> bool" where
  "dec_string JNull old = (old, False)"
| "dec_string (JStr s) old = (s, False)"
| "dec_string _ old = (old, True)"

fun dec_int :: "(int \<Rightarrow> bool) \<Rightarrow> json \<Rightarrow> int \<Rightarrow> int \<times> bool" where
  "dec_int in_range JNull old = (old, False)"
| "dec_int in_range (JInt i) old = (if in_range i then (i, False) else (old, True))"
| "dec_int in_range _ old = (old, True)"

fun dec_members ::
    "string list \<Rightarrow> (string \<Rightarrow> json \<Rightarrow> 'a \<Rightarrow> 'a \<times> bool) \<Rightarrow> (string \<times> json) list \<Rightarrow> 'a \<Rightarrow> 'a \<times> bool"
where
  "dec_members names set_field [] r = (r, False)"
| "dec_members names set_field ((k, v) # kvs) r =
     (case resolve names k of
        None \<Rightarrow> dec_members names set_field kvs r
      | Some n \<Rightarrow>
          (case set_field n v r of (r', err) \<Rightarrow>
             case dec_members names set_field kvs r' of (r'', err') \<Rightarrow> (r'', err \<or> err')))"

fun dec_struct ::
    "string list \<Rightarrow> (string \<Rightarrow> json \<Rightarrow> 'a \<Rightarrow> 'a \<times> bool) \<Rightarrow> json \<Rightarrow> 'a \<Rightarrow> 'a \<times> bool"
where
  "dec_struct names set_field JNull r = (r, False)"
| "dec_struct names set_field (JObj kvs) r = dec_members names set_field kvs r"
| "dec_struct names set_field _ r = (r, True)"

fun dec_elements :: "(json \<Rightarrow> 'a \<Rightarrow> 'a \<times> bool) \<Rightarrow> 'a \<Rightarrow> json list \<Rightarrow> 'a list \<Rightarrow> 'a list \<times> bool" where
  "dec_elements dec zero [] old = ([], False)"
| "dec_elements dec zero (v # vs) old =
     (case dec v (case old of [] \<Rightarrow> zero | x # _ \<Rightarrow> x) of (x, err) \<Rightarrow>
        case dec_elements dec zero vs (tl old) of (xs, err') \<Rightarrow> (x # xs, err \<or> err'))"

fun dec_slice :: "(json \<Rightarrow> 'a \<Rightarrow> 'a \<times> bool) \<Rightarrow> 'a \<Rightarrow> json \<Rightarrow> 'a list \<Rightarrow> 'a list \<times> bool" where
  "dec_slice dec zero JNull old = ([], False)"
| "dec_slice dec zero (JArr vs) old = dec_elements dec zero vs old"
| "dec_slice dec zero _ old = (old, True)"

fun dec_pointer :: "(json \<Rightarrow> 'a \<Rightarrow> 'a \<times> bool) \<Rightarrow> 'a \<Rightarrow> json \<Rightarrow> 'a option \<Rightarrow> 'a option \<times> bool" where
  "dec_pointer dec zero JNull old = (None, False)"
| "dec_pointer dec zero v old =
     (case dec v (case old of None \<Rightarrow> zero | Some x \<Rightarrow> x) of (x, err) \<Rightarrow> (Some x, err))"

text \<open>Store a decoded component into its field.\<close>

definition put :: "('b \<times> bool) \<Rightarrow> ('b \<Rightarrow> 'a) \<Rightarrow> 'a \<times> bool" where
  "put d store = (case d of (x, err) \<Rightarrow> (store x, err))"

lemma put_pair [simp]: "put (x, err) store = (store x, err)"
  by (simp add: put_def)

text \<open>\<open>json.Unmarshal\<close> into a zero value: the value, or an error.\<close>

definition unmarshal :: "(json \<Rightarrow> 'a \<Rightarrow> 'a \<times> bool) \<Rightarrow> 'a \<Rightarrow> json option \<Rightarrow> 'a option" where
  "unmarshal dec zero doc =
     (case doc of
        None \<Rightarrow> None
      | Some v \<Rightarrow> (case dec v zero of (x, err) \<Rightarrow> if err then None else Some x))"

lemma dec_elements_map:
  assumes "\<And>x. x \<in> set xs \<Longrightarrow> dec (enc x) zero = (x, False)"
  shows "dec_elements dec zero (map enc xs) [] = (xs, False)"
  using assms by (induction xs) auto

lemma dec_pointer_value:
  "v \<noteq> JNull \<Longrightarrow>
     dec_pointer dec zero v None = (case dec v zero of (x, err) \<Rightarrow> (Some x, err))"
  by (cases v) auto

section \<open>JSONB\<close>

fun bytes_less :: "string \<Rightarrow> string \<Rightarrow> bool" where
  "bytes_less [] [] = False"
| "bytes_less [] (d # t) = True"
| "bytes_less (c # s) [] = False"
| "bytes_less (c # s) (d # t) =
     (if c = d then bytes_less s t else (of_char c :: nat) < of_char d)"

definition key_less :: "string \<Rightarrow> string \<Rightarrow> bool" where
  "key_less k l \<longleftrightarrow> length k < length l \<or> (length k = length l \<and> bytes_less k l)"

fun put_member :: "string \<Rightarrow> json \<Rightarrow> (string \<times> json) list \<Rightarrow> (string \<times> json) list" where
  "put_member k v [] = [(k, v)]"
| "put_member k v ((l, w) # kvs) =
     (if k = l then (k, v) # kvs
      else if key_less k l then (k, v) # (l, w) # kvs
      else (l, w) # put_member k v kvs)"

fun jsonb :: "json \<Rightarrow> json"
  and jsonb_list :: "json list \<Rightarrow> json list"
  and jsonb_members :: "(string \<times> json) list \<Rightarrow> (string \<times> json) list \<Rightarrow> (string \<times> json) list"
where
  "jsonb (JArr vs) = JArr (jsonb_list vs)"
| "jsonb (JObj kvs) = JObj (jsonb_members [] kvs)"
| "jsonb v = v"
| "jsonb_list [] = []"
| "jsonb_list (v # vs) = jsonb v # jsonb_list vs"
| "jsonb_members acc [] = acc"
| "jsonb_members acc ((k, v) # kvs) = jsonb_members (put_member k (jsonb v) acc) kvs"

lemma jsonb_list_map: "jsonb_list vs = map jsonb vs"
  by (induction vs) auto

end
