(* ===== verification/Order_DB.thy ===== *)
theory Order_DB
  imports Order_Domain Json "HOL-Library.Product_Lexorder"
begin

text \<open>
  The order service's tables (\<open>db/schema/order.sql\<close>) and the statements of its \<open>sqlc\<close>
  package (\<open>internal/order/repository/sqlc\<close>), with the constraints the schema declares:
  \<open>NOT NULL\<close>, then \<open>CHECK\<close> in name order, then the unique indexes in the order of their
  creation, then foreign keys. A table is the list of its rows. A string that PostgreSQL
  cannot store (a NUL byte, invalid UTF-8) makes the statement fail: that failure, as any
  other of the server, is a fault of the attempt the statement runs in.
\<close>

section \<open>Rows\<close>

record order_row =
  rowID :: string
  rowCustomerID :: string
  rowIdempotencyKey :: "string option"
  rowTotalAmountCurrency :: string
  rowTotalAmountCents :: int
  rowStatus :: string
  rowShippingCountry :: string
  rowShippingCity :: string
  rowShippingStreet :: string
  rowShippingPostalCode :: string
  rowShippingHouse :: string
  rowShippingApartment :: string
  rowPaymentMethod :: string
  rowPaymentMethodDetails :: string
  rowCancelReason :: string
  rowCreatedAt :: "time option"
  rowUpdatedAt :: "time option"

record order_item_row =
  irOrderID :: string
  irItemPosition :: int
  irProductID :: string
  irSku :: string
  irProductName :: string
  irQuantity :: int
  irUnitPriceCurrency :: string
  irUnitPriceAmountCents :: int
  irTotalPriceCurrency :: string
  irTotalPriceAmountCents :: int

record outbox_row =
  obID :: string
  obAggregateType :: string
  obAggregateID :: string
  obEventType :: string
  obTopic :: string
  obEventKey :: string
  obPayload :: json
  obAttemptCount :: int
  obLastError :: string
  obLockedAt :: "time option"
  obCreatedAt :: "time option"
  obPublishedAt :: "time option"

record order_db =
  orders :: "order_row list"
  order_items :: "order_item_row list"
  outbox :: "outbox_row list"

definition empty_order_db :: order_db where
  "empty_order_db = \<lparr>orders = [], order_items = [], outbox = []\<rparr>"

section \<open>Statements on orders\<close>

text \<open>What a row becomes when it is stored: timestamps keep their microseconds.\<close>

definition stored_order :: "order_row \<Rightarrow> order_row" where
  "stored_order r =
     r\<lparr>rowCreatedAt := map_option pg_micros (rowCreatedAt r),
       rowUpdatedAt := map_option pg_micros (rowUpdatedAt r)\<rparr>"

definition key_taken :: "string option \<Rightarrow> order_row list \<Rightarrow> bool" where
  "key_taken k rs \<longleftrightarrow> k \<noteq> None \<and> k \<in> set (map rowIdempotencyKey rs)"

definition q_CreateOrder :: "order_row \<Rightarrow> order_db \<Rightarrow> pg_error + (order_row \<times> order_db)" where
  "q_CreateOrder arg db =
     (if rowCreatedAt arg = None \<or> rowUpdatedAt arg = None then Inl not_null_violation
      else if rowTotalAmountCents arg \<le> 0 then Inl (check_violation ''orders_total_amount_cents_check'')
      else if rowID arg \<in> set (map rowID (orders db)) then Inl (unique_violation ''orders_pkey'')
      else if key_taken (rowIdempotencyKey arg) (orders db)
        then Inl (unique_violation ''orders_idempotency_key_key'')
      else Inr (stored_order arg, db\<lparr>orders := orders db @ [stored_order arg]\<rparr>))"

definition q_UpdateOrder :: "order_row \<Rightarrow> order_db \<Rightarrow> pg_error + (order_row \<times> order_db)" where
  "q_UpdateOrder arg db =
     (if rowID arg \<notin> set (map rowID (orders db)) then Inl NoRows
      else if rowCreatedAt arg = None \<or> rowUpdatedAt arg = None then Inl not_null_violation
      else if rowTotalAmountCents arg \<le> 0 then Inl (check_violation ''orders_total_amount_cents_check'')
      else if key_taken (rowIdempotencyKey arg) (filter (\<lambda>r. rowID r \<noteq> rowID arg) (orders db))
        then Inl (unique_violation ''orders_idempotency_key_key'')
      else Inr (stored_order arg,
                db\<lparr>orders := replace_row rowID (rowID arg) (\<lambda>_. stored_order arg) (orders db)\<rparr>))"

definition q_GetOrderByID :: "string \<Rightarrow> order_db \<Rightarrow> pg_error + order_row" where
  "q_GetOrderByID oid db =
     (case find (\<lambda>r. rowID r = oid) (orders db) of None \<Rightarrow> Inl NoRows | Some r \<Rightarrow> Inr r)"

definition q_GetOrderByIdempotencyKey :: "string \<Rightarrow> order_db \<Rightarrow> pg_error + order_row" where
  "q_GetOrderByIdempotencyKey key db =
     (case find (\<lambda>r. rowIdempotencyKey r = Some key) (orders db) of None \<Rightarrow> Inl NoRows | Some r \<Rightarrow> Inr r)"

definition q_CountOrdersByCustomer :: "string \<Rightarrow> order_db \<Rightarrow> int" where
  "q_CountOrdersByCustomer cid db = int (length (filter (\<lambda>r. rowCustomerID r = cid) (orders db)))"

definition created_key :: "order_row \<Rightarrow> time" where
  "created_key r = (case rowCreatedAt r of None \<Rightarrow> 0 | Some t \<Rightarrow> t)"

text \<open>
  \<open>ORDER BY created_at, id\<close>: text is compared by the collation of the database, given by
  its sort keys \<open>coll\<close>.
\<close>

definition customer_orders :: "(string \<Rightarrow> 'k::linorder) \<Rightarrow> string \<Rightarrow> order_db \<Rightarrow> order_row list" where
  "customer_orders coll cid db =
     sort_key (\<lambda>r. (created_key r, coll (rowID r))) (filter (\<lambda>r. rowCustomerID r = cid) (orders db))"

definition q_ListOrdersByCustomer ::
    "(string \<Rightarrow> 'k::linorder) \<Rightarrow> string \<Rightarrow> int \<Rightarrow> int \<Rightarrow> order_db \<Rightarrow> order_row list" where
  "q_ListOrdersByCustomer coll cid limit offset db = page_of limit offset (customer_orders coll cid db)"

section \<open>Statements on order items\<close>

definition q_CreateOrderItem :: "order_item_row \<Rightarrow> order_db \<Rightarrow> pg_error + order_db" where
  "q_CreateOrderItem arg db =
     (if irItemPosition arg < 0 then Inl (check_violation ''order_items_item_position_check'')
      else if irQuantity arg \<le> 0 then Inl (check_violation ''order_items_quantity_check'')
      else if irTotalPriceAmountCents arg \<le> 0
        then Inl (check_violation ''order_items_total_price_amount_cents_check'')
      else if irUnitPriceAmountCents arg \<le> 0
        then Inl (check_violation ''order_items_unit_price_amount_cents_check'')
      else if (irOrderID arg, irItemPosition arg) \<in> set (map (\<lambda>i. (irOrderID i, irItemPosition i)) (order_items db))
        then Inl (unique_violation ''order_items_pkey'')
      else if irOrderID arg \<notin> set (map rowID (orders db))
        then Inl (foreign_key_violation ''order_items_order_id_fkey'')
      else Inr (db\<lparr>order_items := order_items db @ [arg]\<rparr>))"

definition q_DeleteOrderItemsByOrderID :: "string \<Rightarrow> order_db \<Rightarrow> order_db" where
  "q_DeleteOrderItemsByOrderID oid db =
     db\<lparr>order_items := filter (\<lambda>i. irOrderID i \<noteq> oid) (order_items db)\<rparr>"

definition q_ListOrderItemsByOrderID :: "string \<Rightarrow> order_db \<Rightarrow> order_item_row list" where
  "q_ListOrderItemsByOrderID oid db =
     sort_key irItemPosition (filter (\<lambda>i. irOrderID i = oid) (order_items db))"

definition q_ListOrderItemsByOrderIDs ::
    "(string \<Rightarrow> 'k::linorder) \<Rightarrow> string list \<Rightarrow> order_db \<Rightarrow> order_item_row list" where
  "q_ListOrderItemsByOrderIDs coll ids db =
     sort_key (\<lambda>i. (coll (irOrderID i), irItemPosition i))
       (filter (\<lambda>i. irOrderID i \<in> set ids) (order_items db))"

section \<open>Statements on the outbox\<close>

definition stored_event :: "outbox_row \<Rightarrow> outbox_row" where
  "stored_event e =
     e\<lparr>obPayload := jsonb (obPayload e),
       obLockedAt := map_option pg_micros (obLockedAt e),
       obCreatedAt := map_option pg_micros (obCreatedAt e),
       obPublishedAt := map_option pg_micros (obPublishedAt e)\<rparr>"

definition q_CreateOrderOutboxEvent :: "outbox_row \<Rightarrow> order_db \<Rightarrow> pg_error + order_db" where
  "q_CreateOrderOutboxEvent arg db =
     (if obCreatedAt arg = None then Inl not_null_violation
      else if obID arg \<in> set (map obID (outbox db))
        then Inl (unique_violation ''order_outbox_events_pkey'')
      else Inr (db\<lparr>outbox := outbox db @ [stored_event arg]\<rparr>))"

text \<open>
  \<open>ClaimPendingOrderOutboxEvents\<close>: the oldest events that are unpublished and not locked
  since \<open>stale\<close>, skipping the rows other transactions hold (\<open>busy\<close>). Rows with equal
  \<open>created_at\<close> come in the order of the scan and the updated rows are returned in any
  order: \<open>scan\<close> and \<open>ret\<close> are the planner's choices of the two orders.
\<close>

definition claimable :: "time \<Rightarrow> outbox_row \<Rightarrow> bool" where
  "claimable stale e \<longleftrightarrow>
     obPublishedAt e = None \<and> (case obLockedAt e of None \<Rightarrow> True | Some t \<Rightarrow> t < pg_micros stale)"

record planner =
  busy :: "string \<Rightarrow> bool"
  scan :: "outbox_row list \<Rightarrow> outbox_row list"
  ret :: "outbox_row list \<Rightarrow> outbox_row list"

definition event_created_key :: "outbox_row \<Rightarrow> time" where
  "event_created_key e = (case obCreatedAt e of None \<Rightarrow> 0 | Some t \<Rightarrow> t)"

definition pending_ids :: "planner \<Rightarrow> int \<Rightarrow> time \<Rightarrow> order_db \<Rightarrow> string list" where
  "pending_ids plan limit stale db =
     map obID (take (nat limit) (sort_key event_created_key
       (scan plan (filter (\<lambda>e. claimable stale e \<and> \<not> busy plan (obID e)) (outbox db)))))"

definition q_ClaimPendingOrderOutboxEvents ::
    "planner \<Rightarrow> int \<Rightarrow> time \<Rightarrow> time \<Rightarrow> order_db \<Rightarrow> pg_error + (outbox_row list \<times> order_db)" where
  "q_ClaimPendingOrderOutboxEvents plan limit stale now db =
     (if limit < 0 then Inl (PgError ''2201W'' [] ''LIMIT must not be negative'')
      else
        let ids = pending_ids plan limit stale db;
            claim = (\<lambda>e. if obID e \<in> set ids then e\<lparr>obLockedAt := Some (pg_micros now)\<rparr> else e);
            db' = db\<lparr>outbox := map claim (outbox db)\<rparr>
        in Inr (ret plan (filter (\<lambda>e. obID e \<in> set ids) (outbox db')), db'))"

definition q_MarkOrderOutboxEventPublished :: "string \<Rightarrow> time \<Rightarrow> order_db \<Rightarrow> order_db" where
  "q_MarkOrderOutboxEventPublished eid t db =
     db\<lparr>outbox := replace_row obID eid
          (\<lambda>e. e\<lparr>obPublishedAt := Some (pg_micros t), obLockedAt := None, obLastError := []\<rparr>)
          (outbox db)\<rparr>"

definition q_ReleaseOrderOutboxEvent :: "string \<Rightarrow> string \<Rightarrow> order_db \<Rightarrow> pg_error + order_db" where
  "q_ReleaseOrderOutboxEvent eid msg db =
     (if \<exists>e \<in> set (outbox db). obID e = eid \<and> \<not> is_int32 (obAttemptCount e + 1)
      then Inl (PgError ''22003'' [] ''integer out of range'')
      else Inr (db\<lparr>outbox := replace_row obID eid
          (\<lambda>e. e\<lparr>obLockedAt := None, obAttemptCount := obAttemptCount e + 1, obLastError := msg\<rparr>)
          (outbox db)\<rparr>))"

record outbox_stats =
  PendingCount :: int
  RetryingCount :: int
  OldestPendingCreatedAt :: "time option"

definition q_GetOrderOutboxStats :: "order_db \<Rightarrow> outbox_stats" where
  "q_GetOrderOutboxStats db =
     (let pending = filter (\<lambda>e. obPublishedAt e = None) (outbox db)
      in \<lparr>PendingCount = int (length pending),
          RetryingCount = int (length (filter (\<lambda>e. obAttemptCount e > 0) pending)),
          OldestPendingCreatedAt =
            (case List.map_filter obCreatedAt pending of [] \<Rightarrow> None | t # ts \<Rightarrow> Some (fold min ts t))\<rparr>)"

section \<open>The schema invariant\<close>

text \<open>
  What the schema promises of the tables: keys are unique, checks hold, every item belongs
  to an order, stored timestamps are present and whole microseconds.
\<close>

definition stored_time :: "time option \<Rightarrow> bool" where
  "stored_time t \<longleftrightarrow> (\<exists>u. t = Some u \<and> pg_micros u = u)"

definition order_row_ok :: "order_row \<Rightarrow> bool" where
  "order_row_ok r \<longleftrightarrow>
     stored_time (rowCreatedAt r) \<and> stored_time (rowUpdatedAt r) \<and> 0 < rowTotalAmountCents r"

definition item_row_ok :: "order_item_row \<Rightarrow> bool" where
  "item_row_ok i \<longleftrightarrow>
     0 \<le> irItemPosition i \<and> 0 < irQuantity i \<and>
     0 < irUnitPriceAmountCents i \<and> 0 < irTotalPriceAmountCents i"

definition item_key :: "order_item_row \<Rightarrow> string \<times> int" where
  "item_key i = (irOrderID i, irItemPosition i)"

definition order_db_inv :: "order_db \<Rightarrow> bool" where
  "order_db_inv db \<longleftrightarrow>
     distinct (map rowID (orders db)) \<and>
     distinct (filter (\<lambda>k. k \<noteq> None) (map rowIdempotencyKey (orders db))) \<and>
     (\<forall>r \<in> set (orders db). order_row_ok r) \<and>
     distinct (map item_key (order_items db)) \<and>
     (\<forall>i \<in> set (order_items db). item_row_ok i \<and> irOrderID i \<in> rowID ` set (orders db)) \<and>
     distinct (map obID (outbox db)) \<and>
     (\<forall>e \<in> set (outbox db). stored_time (obCreatedAt e))"

lemma empty_order_db_inv [simp]: "order_db_inv empty_order_db"
  by (simp add: order_db_inv_def empty_order_db_def)

lemma order_db_invD:
  assumes "order_db_inv db"
  shows "distinct (map rowID (orders db))"
    and "distinct (filter (\<lambda>k. k \<noteq> None) (map rowIdempotencyKey (orders db)))"
    and "distinct (map item_key (order_items db))"
    and "distinct (map obID (outbox db))"
    and "i \<in> set (order_items db) \<Longrightarrow> item_row_ok i \<and> irOrderID i \<in> rowID ` set (orders db)"
    and "r \<in> set (orders db) \<Longrightarrow> order_row_ok r"
  using assms by (auto simp: order_db_inv_def)

lemma stored_time_map [simp]: "stored_time (map_option pg_micros t) \<longleftrightarrow> t \<noteq> None"
  by (cases t) (auto simp: stored_time_def)

lemma stored_time_Some [simp]: "stored_time (Some u) \<longleftrightarrow> pg_micros u = u"
  by (simp add: stored_time_def)

lemma stored_order_simps [simp]:
  "rowID (stored_order r) = rowID r" "rowCustomerID (stored_order r) = rowCustomerID r"
  "rowIdempotencyKey (stored_order r) = rowIdempotencyKey r"
  "rowStatus (stored_order r) = rowStatus r"
  "rowTotalAmountCents (stored_order r) = rowTotalAmountCents r"
  "rowCreatedAt (stored_order r) = map_option pg_micros (rowCreatedAt r)"
  "rowUpdatedAt (stored_order r) = map_option pg_micros (rowUpdatedAt r)"
  by (simp_all add: stored_order_def)

lemma stored_event_simps [simp]:
  "obID (stored_event e) = obID e" "obTopic (stored_event e) = obTopic e"
  "obEventType (stored_event e) = obEventType e" "obAggregateID (stored_event e) = obAggregateID e"
  "obEventKey (stored_event e) = obEventKey e" "obPayload (stored_event e) = jsonb (obPayload e)"
  "obCreatedAt (stored_event e) = map_option pg_micros (obCreatedAt e)"
  "obPublishedAt (stored_event e) = map_option pg_micros (obPublishedAt e)"
  "obLockedAt (stored_event e) = map_option pg_micros (obLockedAt e)"
  "obAttemptCount (stored_event e) = obAttemptCount e"
  by (simp_all add: stored_event_def)

subsection \<open>Successful statements\<close>

lemma q_CreateOrder_Inr [sql_simps]:
  "q_CreateOrder arg db = Inr (row, db') \<longleftrightarrow>
     rowCreatedAt arg \<noteq> None \<and> rowUpdatedAt arg \<noteq> None \<and> 0 < rowTotalAmountCents arg \<and>
     rowID arg \<notin> rowID ` set (orders db) \<and> \<not> key_taken (rowIdempotencyKey arg) (orders db) \<and>
     row = stored_order arg \<and> db' = db\<lparr>orders := orders db @ [stored_order arg]\<rparr>"
  by (auto simp: q_CreateOrder_def)

lemma q_UpdateOrder_Inr [sql_simps]:
  "q_UpdateOrder arg db = Inr (row, db') \<longleftrightarrow>
     rowID arg \<in> rowID ` set (orders db) \<and>
     rowCreatedAt arg \<noteq> None \<and> rowUpdatedAt arg \<noteq> None \<and> 0 < rowTotalAmountCents arg \<and>
     \<not> key_taken (rowIdempotencyKey arg) (filter (\<lambda>r. rowID r \<noteq> rowID arg) (orders db)) \<and>
     row = stored_order arg \<and>
     db' = db\<lparr>orders := replace_row rowID (rowID arg) (\<lambda>_. stored_order arg) (orders db)\<rparr>"
  by (auto simp: q_UpdateOrder_def)

lemma q_CreateOrderItem_Inr [sql_simps]:
  "q_CreateOrderItem arg db = Inr db' \<longleftrightarrow>
     item_row_ok arg \<and> item_key arg \<notin> item_key ` set (order_items db) \<and>
     irOrderID arg \<in> rowID ` set (orders db) \<and> db' = db\<lparr>order_items := order_items db @ [arg]\<rparr>"
  by (auto simp: q_CreateOrderItem_def item_row_ok_def item_key_def)

lemma q_CreateOrderOutboxEvent_Inr [sql_simps]:
  "q_CreateOrderOutboxEvent arg db = Inr db' \<longleftrightarrow>
     obCreatedAt arg \<noteq> None \<and> obID arg \<notin> obID ` set (outbox db) \<and>
     db' = db\<lparr>outbox := outbox db @ [stored_event arg]\<rparr>"
  by (auto simp: q_CreateOrderOutboxEvent_def)

lemma q_GetOrderByID_Inr [sql_simps]:
  "q_GetOrderByID oid db = Inr r \<longleftrightarrow> find (\<lambda>r. rowID r = oid) (orders db) = Some r"
  by (auto simp: q_GetOrderByID_def split: option.splits)

lemma q_GetOrderByID_Inl: "q_GetOrderByID oid db = Inl e \<longleftrightarrow> e = NoRows \<and> oid \<notin> rowID ` set (orders db)"
  by (auto simp: q_GetOrderByID_def find_key_None_iff split: option.splits dest: find_Some_in)

subsection \<open>Every statement keeps the invariant\<close>

lemma q_CreateOrder_inv:
  assumes "q_CreateOrder arg db = Inr (row, db')" and inv: "order_db_inv db"
  shows "order_db_inv db'"
proof -
  note q = assms(1) [unfolded q_CreateOrder_Inr]
  have "distinct (filter (\<lambda>k. k \<noteq> None) (map rowIdempotencyKey (orders db) @ [rowIdempotencyKey arg]))"
    unfolding distinct_filter_append
    using q order_db_invD(2) [OF inv] by (auto simp: key_taken_def)
  with q inv show ?thesis
    by (auto simp: order_db_inv_def order_row_ok_def)
qed

lemma q_UpdateOrder_inv:
  assumes "q_UpdateOrder arg db = Inr (row, db')" and inv: "order_db_inv db"
  shows "order_db_inv db'"
proof -
  note q = assms(1) [unfolded q_UpdateOrder_Inr]
  obtain x where x: "x \<in> set (orders db)" "rowID x = rowID arg" using q by auto
  obtain ys zs where s: "orders db = ys @ x # zs"
    "\<And>upd. replace_row rowID (rowID arg) upd (orders db) = ys @ upd x # zs"
    "filter (\<lambda>y. rowID y \<noteq> rowID arg) (orders db) = ys @ zs"
    using replace_row_split [OF order_db_invD(1) [OF inv] x(1)] x(2) by metis
  have db': "orders db' = ys @ stored_order arg # zs"
    "order_items db' = order_items db" "outbox db' = outbox db"
    using q s(2) by auto
  have nk: "rowIdempotencyKey arg = None \<or> rowIdempotencyKey arg \<notin> rowIdempotencyKey ` set (ys @ zs)"
    using q unfolding s(3) by (auto simp: key_taken_def)
  have ids: "rowID ` set (orders db') = rowID ` set (orders db)"
    unfolding db'(1) s(1) using x(2) by auto
  have "distinct (filter (\<lambda>k. k \<noteq> None) (map rowIdempotencyKey (orders db')))"
    using order_db_invD(2) [OF inv] nk unfolding db'(1) s(1) by (auto split: if_splits)
  moreover have "distinct (map rowID (orders db'))"
    using order_db_invD(1) [OF inv] x(2) unfolding db'(1) s(1) by auto
  moreover have "\<forall>r \<in> set (orders db'). order_row_ok r"
    using inv q unfolding db'(1) order_db_inv_def s(1) by (auto simp: order_row_ok_def)
  ultimately show ?thesis
    using inv ids db' unfolding order_db_inv_def by auto
qed

lemma q_CreateOrderItem_inv:
  "q_CreateOrderItem arg db = Inr db' \<Longrightarrow> order_db_inv db \<Longrightarrow> order_db_inv db'"
  by (auto simp: sql_simps order_db_inv_def)

lemma q_DeleteOrderItemsByOrderID_inv:
  "order_db_inv db \<Longrightarrow> order_db_inv (q_DeleteOrderItemsByOrderID oid db)"
  by (auto simp: q_DeleteOrderItemsByOrderID_def order_db_inv_def distinct_map_filter)

lemma q_CreateOrderOutboxEvent_inv:
  "q_CreateOrderOutboxEvent arg db = Inr db' \<Longrightarrow> order_db_inv db \<Longrightarrow> order_db_inv db'"
  by (auto simp: sql_simps order_db_inv_def)

lemmas order_statements_inv =
  q_CreateOrder_inv q_UpdateOrder_inv q_CreateOrderItem_inv
  q_DeleteOrderItemsByOrderID_inv q_CreateOrderOutboxEvent_inv

lemma stored_time_claim_inv:
  assumes "order_db_inv db"
    and "\<And>e. obID (f e) = obID e" "\<And>e. obCreatedAt (f e) = obCreatedAt e"
  shows "order_db_inv (db\<lparr>outbox := map f (outbox db)\<rparr>)"
  using assms by (auto simp: order_db_inv_def o_def)

lemma q_Claim_inv:
  "q_ClaimPendingOrderOutboxEvents plan limit stale now db = Inr (rs, db') \<Longrightarrow>
     order_db_inv db \<Longrightarrow> order_db_inv db'"
  by (auto simp: q_ClaimPendingOrderOutboxEvents_def Let_def split: if_splits
      intro!: stored_time_claim_inv)

lemma q_MarkPublished_inv:
  "order_db_inv db \<Longrightarrow> order_db_inv (q_MarkOrderOutboxEventPublished eid t db)"
  by (auto simp: q_MarkOrderOutboxEventPublished_def replace_row_def intro!: stored_time_claim_inv)

lemma q_Release_inv:
  "q_ReleaseOrderOutboxEvent eid msg db = Inr db' \<Longrightarrow> order_db_inv db \<Longrightarrow> order_db_inv db'"
  by (auto simp: q_ReleaseOrderOutboxEvent_def replace_row_def split: if_splits
      intro!: stored_time_claim_inv)

end
