(* ===== verification/Shared_Events.thy ===== *)
theory Shared_Events
  imports Json
begin

text \<open>
  The event schema shared by the services (\<open>internal/shared/events/types.go\<close>): one record
  per struct, its JSON encoding with the field tags, and its decoder; every event decodes
  back to itself, both directly and after a round through a \<open>JSONB\<close> column (the outbox).
  An \<open>ok_\<close> predicate says that the integers are in range of their Go types.
\<close>

section \<open>Event types\<close>

definition OrderCreatedEventType :: string where "OrderCreatedEventType = ''order.created''"
definition OrderCancelledEventType :: string where "OrderCancelledEventType = ''order.cancelled''"
definition InventoryReservedEventType :: string where
  "InventoryReservedEventType = ''inventory.reserved''"
definition InventoryReservationFailedEventType :: string where
  "InventoryReservationFailedEventType = ''inventory.reservation_failed''"
definition PaymentCreatedEventType :: string where "PaymentCreatedEventType = ''payment.created''"
definition PaymentCreationFailedEventType :: string where
  "PaymentCreationFailedEventType = ''payment.creation_failed''"
definition PaymentCapturedEventType :: string where "PaymentCapturedEventType = ''payment.captured''"
definition PaymentFailedEventType :: string where "PaymentFailedEventType = ''payment.failed''"

lemmas event_type_defs =
  OrderCreatedEventType_def OrderCancelledEventType_def InventoryReservedEventType_def
  InventoryReservationFailedEventType_def PaymentCreatedEventType_def
  PaymentCreationFailedEventType_def PaymentCapturedEventType_def PaymentFailedEventType_def

section \<open>Payloads\<close>

subsection \<open>Money\<close>

record ev_Money =
  em_Currency :: string
  em_AmountCents :: int

definition zero_Money :: ev_Money where
  "zero_Money = \<lparr>em_Currency = [], em_AmountCents = 0\<rparr>"

definition enc_Money :: "ev_Money \<Rightarrow> json" where
  "enc_Money e =
     JObj [(''currency'', JStr (em_Currency e)),
           (''amount_cents'', JInt (em_AmountCents e))]"

definition field_Money :: "string \<Rightarrow> json \<Rightarrow> ev_Money \<Rightarrow> ev_Money \<times> bool" where
  "field_Money n v r =
     (if n = ''currency'' then put (dec_string v (em_Currency r)) (\<lambda>x. r\<lparr>em_Currency := x\<rparr>) else
      if n = ''amount_cents'' then put (dec_int is_int64 v (em_AmountCents r)) (\<lambda>x. r\<lparr>em_AmountCents := x\<rparr>) else
      (r, False))"

definition dec_Money :: "json \<Rightarrow> ev_Money \<Rightarrow> ev_Money \<times> bool" where
  "dec_Money =
     dec_struct [''currency'', ''amount_cents''] field_Money"

definition ok_Money :: "ev_Money \<Rightarrow> bool" where
  "ok_Money e \<longleftrightarrow> is_int64 (em_AmountCents e)"

lemma dec_enc_Money [simp]: "ok_Money e \<Longrightarrow> dec_Money (enc_Money e) zero_Money = (e, False)"
  by (cases e) (simp add: enc_Money_def dec_Money_def field_Money_def zero_Money_def ok_Money_def)

lemma dec_jsonb_Money [simp]: "ok_Money e \<Longrightarrow> dec_Money (jsonb (enc_Money e)) zero_Money = (e, False)"
  by (cases e) (simp add: enc_Money_def dec_Money_def field_Money_def zero_Money_def ok_Money_def key_less_def jsonb_list_map)

subsection \<open>Address\<close>

record ev_Address =
  ea_Country :: string
  ea_City :: string
  ea_Street :: string
  ea_PostalCode :: string
  ea_House :: string
  ea_Apartment :: string

definition zero_Address :: ev_Address where
  "zero_Address = \<lparr>ea_Country = [], ea_City = [], ea_Street = [], ea_PostalCode = [], ea_House = [], ea_Apartment = []\<rparr>"

definition enc_Address :: "ev_Address \<Rightarrow> json" where
  "enc_Address e =
     JObj [(''country'', JStr (ea_Country e)),
           (''city'', JStr (ea_City e)),
           (''street'', JStr (ea_Street e)),
           (''postal_code'', JStr (ea_PostalCode e)),
           (''house'', JStr (ea_House e)),
           (''apartment'', JStr (ea_Apartment e))]"

definition field_Address :: "string \<Rightarrow> json \<Rightarrow> ev_Address \<Rightarrow> ev_Address \<times> bool" where
  "field_Address n v r =
     (if n = ''country'' then put (dec_string v (ea_Country r)) (\<lambda>x. r\<lparr>ea_Country := x\<rparr>) else
      if n = ''city'' then put (dec_string v (ea_City r)) (\<lambda>x. r\<lparr>ea_City := x\<rparr>) else
      if n = ''street'' then put (dec_string v (ea_Street r)) (\<lambda>x. r\<lparr>ea_Street := x\<rparr>) else
      if n = ''postal_code'' then put (dec_string v (ea_PostalCode r)) (\<lambda>x. r\<lparr>ea_PostalCode := x\<rparr>) else
      if n = ''house'' then put (dec_string v (ea_House r)) (\<lambda>x. r\<lparr>ea_House := x\<rparr>) else
      if n = ''apartment'' then put (dec_string v (ea_Apartment r)) (\<lambda>x. r\<lparr>ea_Apartment := x\<rparr>) else
      (r, False))"

definition dec_Address :: "json \<Rightarrow> ev_Address \<Rightarrow> ev_Address \<times> bool" where
  "dec_Address =
     dec_struct [''country'', ''city'', ''street'', ''postal_code'', ''house'', ''apartment''] field_Address"

lemma dec_enc_Address [simp]: "dec_Address (enc_Address e) zero_Address = (e, False)"
  by (cases e) (simp add: enc_Address_def dec_Address_def field_Address_def zero_Address_def)

lemma dec_jsonb_Address [simp]: "dec_Address (jsonb (enc_Address e)) zero_Address = (e, False)"
  by (cases e) (simp add: enc_Address_def dec_Address_def field_Address_def zero_Address_def key_less_def jsonb_list_map)

subsection \<open>PaymentDetails\<close>

record ev_PaymentDetails =
  ep_Method :: string
  ep_MethodDetails :: string

definition zero_PaymentDetails :: ev_PaymentDetails where
  "zero_PaymentDetails = \<lparr>ep_Method = [], ep_MethodDetails = []\<rparr>"

definition enc_PaymentDetails :: "ev_PaymentDetails \<Rightarrow> json" where
  "enc_PaymentDetails e =
     JObj [(''method'', JStr (ep_Method e)),
           (''method_details'', JStr (ep_MethodDetails e))]"

definition field_PaymentDetails :: "string \<Rightarrow> json \<Rightarrow> ev_PaymentDetails \<Rightarrow> ev_PaymentDetails \<times> bool" where
  "field_PaymentDetails n v r =
     (if n = ''method'' then put (dec_string v (ep_Method r)) (\<lambda>x. r\<lparr>ep_Method := x\<rparr>) else
      if n = ''method_details'' then put (dec_string v (ep_MethodDetails r)) (\<lambda>x. r\<lparr>ep_MethodDetails := x\<rparr>) else
      (r, False))"

definition dec_PaymentDetails :: "json \<Rightarrow> ev_PaymentDetails \<Rightarrow> ev_PaymentDetails \<times> bool" where
  "dec_PaymentDetails =
     dec_struct [''method'', ''method_details''] field_PaymentDetails"

lemma dec_enc_PaymentDetails [simp]: "dec_PaymentDetails (enc_PaymentDetails e) zero_PaymentDetails = (e, False)"
  by (cases e) (simp add: enc_PaymentDetails_def dec_PaymentDetails_def field_PaymentDetails_def zero_PaymentDetails_def)

lemma dec_jsonb_PaymentDetails [simp]: "dec_PaymentDetails (jsonb (enc_PaymentDetails e)) zero_PaymentDetails = (e, False)"
  by (cases e) (simp add: enc_PaymentDetails_def dec_PaymentDetails_def field_PaymentDetails_def zero_PaymentDetails_def key_less_def jsonb_list_map)

subsection \<open>OrderCreatedItem\<close>

record ev_OrderCreatedItem =
  ei_ProductID :: string
  ei_SKU :: string
  ei_ProductName :: string
  ei_Quantity :: int
  ei_UnitPrice :: ev_Money
  ei_TotalPrice :: ev_Money

definition zero_OrderCreatedItem :: ev_OrderCreatedItem where
  "zero_OrderCreatedItem = \<lparr>ei_ProductID = [], ei_SKU = [], ei_ProductName = [], ei_Quantity = 0, ei_UnitPrice = zero_Money, ei_TotalPrice = zero_Money\<rparr>"

definition enc_OrderCreatedItem :: "ev_OrderCreatedItem \<Rightarrow> json" where
  "enc_OrderCreatedItem e =
     JObj [(''product_id'', JStr (ei_ProductID e)),
           (''sku'', JStr (ei_SKU e)),
           (''product_name'', JStr (ei_ProductName e)),
           (''quantity'', JInt (ei_Quantity e)),
           (''unit_price'', enc_Money (ei_UnitPrice e)),
           (''total_price'', enc_Money (ei_TotalPrice e))]"

definition field_OrderCreatedItem :: "string \<Rightarrow> json \<Rightarrow> ev_OrderCreatedItem \<Rightarrow> ev_OrderCreatedItem \<times> bool" where
  "field_OrderCreatedItem n v r =
     (if n = ''product_id'' then put (dec_string v (ei_ProductID r)) (\<lambda>x. r\<lparr>ei_ProductID := x\<rparr>) else
      if n = ''sku'' then put (dec_string v (ei_SKU r)) (\<lambda>x. r\<lparr>ei_SKU := x\<rparr>) else
      if n = ''product_name'' then put (dec_string v (ei_ProductName r)) (\<lambda>x. r\<lparr>ei_ProductName := x\<rparr>) else
      if n = ''quantity'' then put (dec_int is_int32 v (ei_Quantity r)) (\<lambda>x. r\<lparr>ei_Quantity := x\<rparr>) else
      if n = ''unit_price'' then put (dec_Money v (ei_UnitPrice r)) (\<lambda>x. r\<lparr>ei_UnitPrice := x\<rparr>) else
      if n = ''total_price'' then put (dec_Money v (ei_TotalPrice r)) (\<lambda>x. r\<lparr>ei_TotalPrice := x\<rparr>) else
      (r, False))"

definition dec_OrderCreatedItem :: "json \<Rightarrow> ev_OrderCreatedItem \<Rightarrow> ev_OrderCreatedItem \<times> bool" where
  "dec_OrderCreatedItem =
     dec_struct [''product_id'', ''sku'', ''product_name'', ''quantity'', ''unit_price'', ''total_price''] field_OrderCreatedItem"

definition ok_OrderCreatedItem :: "ev_OrderCreatedItem \<Rightarrow> bool" where
  "ok_OrderCreatedItem e \<longleftrightarrow> is_int32 (ei_Quantity e) \<and> ok_Money (ei_UnitPrice e) \<and> ok_Money (ei_TotalPrice e)"

lemma dec_enc_OrderCreatedItem [simp]: "ok_OrderCreatedItem e \<Longrightarrow> dec_OrderCreatedItem (enc_OrderCreatedItem e) zero_OrderCreatedItem = (e, False)"
  by (cases e) (simp add: enc_OrderCreatedItem_def dec_OrderCreatedItem_def field_OrderCreatedItem_def zero_OrderCreatedItem_def ok_OrderCreatedItem_def)

lemma dec_jsonb_OrderCreatedItem [simp]: "ok_OrderCreatedItem e \<Longrightarrow> dec_OrderCreatedItem (jsonb (enc_OrderCreatedItem e)) zero_OrderCreatedItem = (e, False)"
  by (cases e) (simp add: enc_OrderCreatedItem_def dec_OrderCreatedItem_def field_OrderCreatedItem_def zero_OrderCreatedItem_def ok_OrderCreatedItem_def key_less_def jsonb_list_map)

lemma dec_list_OrderCreatedItem:
  "list_all ok_OrderCreatedItem es \<Longrightarrow> dec_elements dec_OrderCreatedItem zero_OrderCreatedItem (map enc_OrderCreatedItem es) [] = (es, False)"
  by (rule dec_elements_map) (simp add: list_all_iff)

lemma dec_jsonb_list_OrderCreatedItem:
  "list_all ok_OrderCreatedItem es \<Longrightarrow> dec_elements dec_OrderCreatedItem zero_OrderCreatedItem (map (jsonb \<circ> enc_OrderCreatedItem) es) [] = (es, False)"
  by (rule dec_elements_map) (simp add: list_all_iff)

subsection \<open>OrderCreated\<close>

record ev_OrderCreated =
  oc_OrderID :: string
  oc_CustomerID :: string
  oc_Status :: string
  oc_TotalAmount :: ev_Money
  oc_ShippingAddress :: ev_Address
  oc_Payment :: ev_PaymentDetails
  oc_Items :: "ev_OrderCreatedItem list"

definition zero_OrderCreated :: ev_OrderCreated where
  "zero_OrderCreated = \<lparr>oc_OrderID = [], oc_CustomerID = [], oc_Status = [], oc_TotalAmount = zero_Money, oc_ShippingAddress = zero_Address, oc_Payment = zero_PaymentDetails, oc_Items = []\<rparr>"

definition enc_OrderCreated :: "ev_OrderCreated \<Rightarrow> json" where
  "enc_OrderCreated e =
     JObj [(''order_id'', JStr (oc_OrderID e)),
           (''customer_id'', JStr (oc_CustomerID e)),
           (''status'', JStr (oc_Status e)),
           (''total_amount'', enc_Money (oc_TotalAmount e)),
           (''shipping_address'', enc_Address (oc_ShippingAddress e)),
           (''payment'', enc_PaymentDetails (oc_Payment e)),
           (''items'', JArr (map enc_OrderCreatedItem (oc_Items e)))]"

definition field_OrderCreated :: "string \<Rightarrow> json \<Rightarrow> ev_OrderCreated \<Rightarrow> ev_OrderCreated \<times> bool" where
  "field_OrderCreated n v r =
     (if n = ''order_id'' then put (dec_string v (oc_OrderID r)) (\<lambda>x. r\<lparr>oc_OrderID := x\<rparr>) else
      if n = ''customer_id'' then put (dec_string v (oc_CustomerID r)) (\<lambda>x. r\<lparr>oc_CustomerID := x\<rparr>) else
      if n = ''status'' then put (dec_string v (oc_Status r)) (\<lambda>x. r\<lparr>oc_Status := x\<rparr>) else
      if n = ''total_amount'' then put (dec_Money v (oc_TotalAmount r)) (\<lambda>x. r\<lparr>oc_TotalAmount := x\<rparr>) else
      if n = ''shipping_address'' then put (dec_Address v (oc_ShippingAddress r)) (\<lambda>x. r\<lparr>oc_ShippingAddress := x\<rparr>) else
      if n = ''payment'' then put (dec_PaymentDetails v (oc_Payment r)) (\<lambda>x. r\<lparr>oc_Payment := x\<rparr>) else
      if n = ''items'' then put (dec_slice dec_OrderCreatedItem zero_OrderCreatedItem v (oc_Items r)) (\<lambda>x. r\<lparr>oc_Items := x\<rparr>) else
      (r, False))"

definition dec_OrderCreated :: "json \<Rightarrow> ev_OrderCreated \<Rightarrow> ev_OrderCreated \<times> bool" where
  "dec_OrderCreated =
     dec_struct [''order_id'', ''customer_id'', ''status'', ''total_amount'', ''shipping_address'', ''payment'', ''items''] field_OrderCreated"

definition ok_OrderCreated :: "ev_OrderCreated \<Rightarrow> bool" where
  "ok_OrderCreated e \<longleftrightarrow> ok_Money (oc_TotalAmount e) \<and> list_all ok_OrderCreatedItem (oc_Items e)"

lemma dec_enc_OrderCreated [simp]: "ok_OrderCreated e \<Longrightarrow> dec_OrderCreated (enc_OrderCreated e) zero_OrderCreated = (e, False)"
  by (cases e) (simp add: enc_OrderCreated_def dec_OrderCreated_def field_OrderCreated_def zero_OrderCreated_def ok_OrderCreated_def dec_list_OrderCreatedItem)

lemma dec_jsonb_OrderCreated [simp]: "ok_OrderCreated e \<Longrightarrow> dec_OrderCreated (jsonb (enc_OrderCreated e)) zero_OrderCreated = (e, False)"
  by (cases e) (simp add: enc_OrderCreated_def dec_OrderCreated_def field_OrderCreated_def zero_OrderCreated_def ok_OrderCreated_def key_less_def jsonb_list_map dec_jsonb_list_OrderCreatedItem)

subsection \<open>OrderCancelled\<close>

record ev_OrderCancelled =
  ox_OrderID :: string
  ox_CustomerID :: string
  ox_CancelReason :: string

definition zero_OrderCancelled :: ev_OrderCancelled where
  "zero_OrderCancelled = \<lparr>ox_OrderID = [], ox_CustomerID = [], ox_CancelReason = []\<rparr>"

definition enc_OrderCancelled :: "ev_OrderCancelled \<Rightarrow> json" where
  "enc_OrderCancelled e =
     JObj [(''order_id'', JStr (ox_OrderID e)),
           (''customer_id'', JStr (ox_CustomerID e)),
           (''cancel_reason'', JStr (ox_CancelReason e))]"

definition field_OrderCancelled :: "string \<Rightarrow> json \<Rightarrow> ev_OrderCancelled \<Rightarrow> ev_OrderCancelled \<times> bool" where
  "field_OrderCancelled n v r =
     (if n = ''order_id'' then put (dec_string v (ox_OrderID r)) (\<lambda>x. r\<lparr>ox_OrderID := x\<rparr>) else
      if n = ''customer_id'' then put (dec_string v (ox_CustomerID r)) (\<lambda>x. r\<lparr>ox_CustomerID := x\<rparr>) else
      if n = ''cancel_reason'' then put (dec_string v (ox_CancelReason r)) (\<lambda>x. r\<lparr>ox_CancelReason := x\<rparr>) else
      (r, False))"

definition dec_OrderCancelled :: "json \<Rightarrow> ev_OrderCancelled \<Rightarrow> ev_OrderCancelled \<times> bool" where
  "dec_OrderCancelled =
     dec_struct [''order_id'', ''customer_id'', ''cancel_reason''] field_OrderCancelled"

lemma dec_enc_OrderCancelled [simp]: "dec_OrderCancelled (enc_OrderCancelled e) zero_OrderCancelled = (e, False)"
  by (cases e) (simp add: enc_OrderCancelled_def dec_OrderCancelled_def field_OrderCancelled_def zero_OrderCancelled_def)

lemma dec_jsonb_OrderCancelled [simp]: "dec_OrderCancelled (jsonb (enc_OrderCancelled e)) zero_OrderCancelled = (e, False)"
  by (cases e) (simp add: enc_OrderCancelled_def dec_OrderCancelled_def field_OrderCancelled_def zero_OrderCancelled_def key_less_def jsonb_list_map)

subsection \<open>InventoryReservationItem\<close>

record ev_InventoryReservationItem =
  ri_ProductID :: string
  ri_Quantity :: int

definition zero_InventoryReservationItem :: ev_InventoryReservationItem where
  "zero_InventoryReservationItem = \<lparr>ri_ProductID = [], ri_Quantity = 0\<rparr>"

definition enc_InventoryReservationItem :: "ev_InventoryReservationItem \<Rightarrow> json" where
  "enc_InventoryReservationItem e =
     JObj [(''product_id'', JStr (ri_ProductID e)),
           (''quantity'', JInt (ri_Quantity e))]"

definition field_InventoryReservationItem :: "string \<Rightarrow> json \<Rightarrow> ev_InventoryReservationItem \<Rightarrow> ev_InventoryReservationItem \<times> bool" where
  "field_InventoryReservationItem n v r =
     (if n = ''product_id'' then put (dec_string v (ri_ProductID r)) (\<lambda>x. r\<lparr>ri_ProductID := x\<rparr>) else
      if n = ''quantity'' then put (dec_int is_int64 v (ri_Quantity r)) (\<lambda>x. r\<lparr>ri_Quantity := x\<rparr>) else
      (r, False))"

definition dec_InventoryReservationItem :: "json \<Rightarrow> ev_InventoryReservationItem \<Rightarrow> ev_InventoryReservationItem \<times> bool" where
  "dec_InventoryReservationItem =
     dec_struct [''product_id'', ''quantity''] field_InventoryReservationItem"

definition ok_InventoryReservationItem :: "ev_InventoryReservationItem \<Rightarrow> bool" where
  "ok_InventoryReservationItem e \<longleftrightarrow> is_int64 (ri_Quantity e)"

lemma dec_enc_InventoryReservationItem [simp]: "ok_InventoryReservationItem e \<Longrightarrow> dec_InventoryReservationItem (enc_InventoryReservationItem e) zero_InventoryReservationItem = (e, False)"
  by (cases e) (simp add: enc_InventoryReservationItem_def dec_InventoryReservationItem_def field_InventoryReservationItem_def zero_InventoryReservationItem_def ok_InventoryReservationItem_def)

lemma dec_jsonb_InventoryReservationItem [simp]: "ok_InventoryReservationItem e \<Longrightarrow> dec_InventoryReservationItem (jsonb (enc_InventoryReservationItem e)) zero_InventoryReservationItem = (e, False)"
  by (cases e) (simp add: enc_InventoryReservationItem_def dec_InventoryReservationItem_def field_InventoryReservationItem_def zero_InventoryReservationItem_def ok_InventoryReservationItem_def key_less_def jsonb_list_map)

lemma enc_InventoryReservationItem_not_null [simp]: "enc_InventoryReservationItem e \<noteq> JNull"
  by (simp add: enc_InventoryReservationItem_def)

lemma dec_list_InventoryReservationItem:
  "list_all ok_InventoryReservationItem es \<Longrightarrow> dec_elements dec_InventoryReservationItem zero_InventoryReservationItem (map enc_InventoryReservationItem es) [] = (es, False)"
  by (rule dec_elements_map) (simp add: list_all_iff)

lemma dec_jsonb_list_InventoryReservationItem:
  "list_all ok_InventoryReservationItem es \<Longrightarrow> dec_elements dec_InventoryReservationItem zero_InventoryReservationItem (map (jsonb \<circ> enc_InventoryReservationItem) es) [] = (es, False)"
  by (rule dec_elements_map) (simp add: list_all_iff)

subsection \<open>InventoryReserved\<close>

record ev_InventoryReserved =
  ir_OrderID :: string
  ir_CustomerID :: string
  ir_Amount :: ev_Money
  ir_Payment :: ev_PaymentDetails
  ir_Items :: "ev_InventoryReservationItem list"

definition zero_InventoryReserved :: ev_InventoryReserved where
  "zero_InventoryReserved = \<lparr>ir_OrderID = [], ir_CustomerID = [], ir_Amount = zero_Money, ir_Payment = zero_PaymentDetails, ir_Items = []\<rparr>"

definition enc_InventoryReserved :: "ev_InventoryReserved \<Rightarrow> json" where
  "enc_InventoryReserved e =
     JObj [(''order_id'', JStr (ir_OrderID e)),
           (''customer_id'', JStr (ir_CustomerID e)),
           (''amount'', enc_Money (ir_Amount e)),
           (''payment'', enc_PaymentDetails (ir_Payment e)),
           (''items'', JArr (map enc_InventoryReservationItem (ir_Items e)))]"

definition field_InventoryReserved :: "string \<Rightarrow> json \<Rightarrow> ev_InventoryReserved \<Rightarrow> ev_InventoryReserved \<times> bool" where
  "field_InventoryReserved n v r =
     (if n = ''order_id'' then put (dec_string v (ir_OrderID r)) (\<lambda>x. r\<lparr>ir_OrderID := x\<rparr>) else
      if n = ''customer_id'' then put (dec_string v (ir_CustomerID r)) (\<lambda>x. r\<lparr>ir_CustomerID := x\<rparr>) else
      if n = ''amount'' then put (dec_Money v (ir_Amount r)) (\<lambda>x. r\<lparr>ir_Amount := x\<rparr>) else
      if n = ''payment'' then put (dec_PaymentDetails v (ir_Payment r)) (\<lambda>x. r\<lparr>ir_Payment := x\<rparr>) else
      if n = ''items'' then put (dec_slice dec_InventoryReservationItem zero_InventoryReservationItem v (ir_Items r)) (\<lambda>x. r\<lparr>ir_Items := x\<rparr>) else
      (r, False))"

definition dec_InventoryReserved :: "json \<Rightarrow> ev_InventoryReserved \<Rightarrow> ev_InventoryReserved \<times> bool" where
  "dec_InventoryReserved =
     dec_struct [''order_id'', ''customer_id'', ''amount'', ''payment'', ''items''] field_InventoryReserved"

definition ok_InventoryReserved :: "ev_InventoryReserved \<Rightarrow> bool" where
  "ok_InventoryReserved e \<longleftrightarrow> ok_Money (ir_Amount e) \<and> list_all ok_InventoryReservationItem (ir_Items e)"

lemma dec_enc_InventoryReserved [simp]: "ok_InventoryReserved e \<Longrightarrow> dec_InventoryReserved (enc_InventoryReserved e) zero_InventoryReserved = (e, False)"
  by (cases e) (simp add: enc_InventoryReserved_def dec_InventoryReserved_def field_InventoryReserved_def zero_InventoryReserved_def ok_InventoryReserved_def dec_list_InventoryReservationItem)

lemma dec_jsonb_InventoryReserved [simp]: "ok_InventoryReserved e \<Longrightarrow> dec_InventoryReserved (jsonb (enc_InventoryReserved e)) zero_InventoryReserved = (e, False)"
  by (cases e) (simp add: enc_InventoryReserved_def dec_InventoryReserved_def field_InventoryReserved_def zero_InventoryReserved_def ok_InventoryReserved_def key_less_def jsonb_list_map dec_jsonb_list_InventoryReservationItem)

subsection \<open>InventoryReservationFailed\<close>

record ev_InventoryReservationFailed =
  rf_OrderID :: string
  rf_CustomerID :: string
  rf_FailedItem :: "ev_InventoryReservationItem option"
  rf_Reason :: string

definition zero_InventoryReservationFailed :: ev_InventoryReservationFailed where
  "zero_InventoryReservationFailed = \<lparr>rf_OrderID = [], rf_CustomerID = [], rf_FailedItem = None, rf_Reason = []\<rparr>"

definition enc_InventoryReservationFailed :: "ev_InventoryReservationFailed \<Rightarrow> json" where
  "enc_InventoryReservationFailed e =
     JObj ([(''order_id'', JStr (rf_OrderID e)), (''customer_id'', JStr (rf_CustomerID e))] @
           (case rf_FailedItem e of None \<Rightarrow> [] | Some x \<Rightarrow> [(''failed_item'', enc_InventoryReservationItem x)]) @
           [(''reason'', JStr (rf_Reason e))])"

definition field_InventoryReservationFailed :: "string \<Rightarrow> json \<Rightarrow> ev_InventoryReservationFailed \<Rightarrow> ev_InventoryReservationFailed \<times> bool" where
  "field_InventoryReservationFailed n v r =
     (if n = ''order_id'' then put (dec_string v (rf_OrderID r)) (\<lambda>x. r\<lparr>rf_OrderID := x\<rparr>) else
      if n = ''customer_id'' then put (dec_string v (rf_CustomerID r)) (\<lambda>x. r\<lparr>rf_CustomerID := x\<rparr>) else
      if n = ''failed_item'' then put (dec_pointer dec_InventoryReservationItem zero_InventoryReservationItem v (rf_FailedItem r)) (\<lambda>x. r\<lparr>rf_FailedItem := x\<rparr>) else
      if n = ''reason'' then put (dec_string v (rf_Reason r)) (\<lambda>x. r\<lparr>rf_Reason := x\<rparr>) else
      (r, False))"

definition dec_InventoryReservationFailed :: "json \<Rightarrow> ev_InventoryReservationFailed \<Rightarrow> ev_InventoryReservationFailed \<times> bool" where
  "dec_InventoryReservationFailed =
     dec_struct [''order_id'', ''customer_id'', ''failed_item'', ''reason''] field_InventoryReservationFailed"

definition ok_InventoryReservationFailed :: "ev_InventoryReservationFailed \<Rightarrow> bool" where
  "ok_InventoryReservationFailed e \<longleftrightarrow> pred_option ok_InventoryReservationItem (rf_FailedItem e)"

lemma dec_enc_InventoryReservationFailed [simp]: "ok_InventoryReservationFailed e \<Longrightarrow> dec_InventoryReservationFailed (enc_InventoryReservationFailed e) zero_InventoryReservationFailed = (e, False)"
  by (cases e, cases "rf_FailedItem e") (simp_all add: enc_InventoryReservationFailed_def dec_InventoryReservationFailed_def field_InventoryReservationFailed_def zero_InventoryReservationFailed_def ok_InventoryReservationFailed_def dec_pointer_value)

subsection \<open>PaymentCreated\<close>

record ev_PaymentCreated =
  pc_OrderID :: string
  pc_CustomerID :: string
  pc_PaymentID :: string
  pc_Status :: string

definition zero_PaymentCreated :: ev_PaymentCreated where
  "zero_PaymentCreated = \<lparr>pc_OrderID = [], pc_CustomerID = [], pc_PaymentID = [], pc_Status = []\<rparr>"

definition enc_PaymentCreated :: "ev_PaymentCreated \<Rightarrow> json" where
  "enc_PaymentCreated e =
     JObj [(''order_id'', JStr (pc_OrderID e)),
           (''customer_id'', JStr (pc_CustomerID e)),
           (''payment_id'', JStr (pc_PaymentID e)),
           (''status'', JStr (pc_Status e))]"

definition field_PaymentCreated :: "string \<Rightarrow> json \<Rightarrow> ev_PaymentCreated \<Rightarrow> ev_PaymentCreated \<times> bool" where
  "field_PaymentCreated n v r =
     (if n = ''order_id'' then put (dec_string v (pc_OrderID r)) (\<lambda>x. r\<lparr>pc_OrderID := x\<rparr>) else
      if n = ''customer_id'' then put (dec_string v (pc_CustomerID r)) (\<lambda>x. r\<lparr>pc_CustomerID := x\<rparr>) else
      if n = ''payment_id'' then put (dec_string v (pc_PaymentID r)) (\<lambda>x. r\<lparr>pc_PaymentID := x\<rparr>) else
      if n = ''status'' then put (dec_string v (pc_Status r)) (\<lambda>x. r\<lparr>pc_Status := x\<rparr>) else
      (r, False))"

definition dec_PaymentCreated :: "json \<Rightarrow> ev_PaymentCreated \<Rightarrow> ev_PaymentCreated \<times> bool" where
  "dec_PaymentCreated =
     dec_struct [''order_id'', ''customer_id'', ''payment_id'', ''status''] field_PaymentCreated"

lemma dec_enc_PaymentCreated [simp]: "dec_PaymentCreated (enc_PaymentCreated e) zero_PaymentCreated = (e, False)"
  by (cases e) (simp add: enc_PaymentCreated_def dec_PaymentCreated_def field_PaymentCreated_def zero_PaymentCreated_def)

lemma dec_jsonb_PaymentCreated [simp]: "dec_PaymentCreated (jsonb (enc_PaymentCreated e)) zero_PaymentCreated = (e, False)"
  by (cases e) (simp add: enc_PaymentCreated_def dec_PaymentCreated_def field_PaymentCreated_def zero_PaymentCreated_def key_less_def jsonb_list_map)

subsection \<open>PaymentCreationFailed\<close>

record ev_PaymentCreationFailed =
  pf_OrderID :: string
  pf_CustomerID :: string
  pf_FailureReason :: string

definition zero_PaymentCreationFailed :: ev_PaymentCreationFailed where
  "zero_PaymentCreationFailed = \<lparr>pf_OrderID = [], pf_CustomerID = [], pf_FailureReason = []\<rparr>"

definition enc_PaymentCreationFailed :: "ev_PaymentCreationFailed \<Rightarrow> json" where
  "enc_PaymentCreationFailed e =
     JObj [(''order_id'', JStr (pf_OrderID e)),
           (''customer_id'', JStr (pf_CustomerID e)),
           (''failure_reason'', JStr (pf_FailureReason e))]"

definition field_PaymentCreationFailed :: "string \<Rightarrow> json \<Rightarrow> ev_PaymentCreationFailed \<Rightarrow> ev_PaymentCreationFailed \<times> bool" where
  "field_PaymentCreationFailed n v r =
     (if n = ''order_id'' then put (dec_string v (pf_OrderID r)) (\<lambda>x. r\<lparr>pf_OrderID := x\<rparr>) else
      if n = ''customer_id'' then put (dec_string v (pf_CustomerID r)) (\<lambda>x. r\<lparr>pf_CustomerID := x\<rparr>) else
      if n = ''failure_reason'' then put (dec_string v (pf_FailureReason r)) (\<lambda>x. r\<lparr>pf_FailureReason := x\<rparr>) else
      (r, False))"

definition dec_PaymentCreationFailed :: "json \<Rightarrow> ev_PaymentCreationFailed \<Rightarrow> ev_PaymentCreationFailed \<times> bool" where
  "dec_PaymentCreationFailed =
     dec_struct [''order_id'', ''customer_id'', ''failure_reason''] field_PaymentCreationFailed"

lemma dec_enc_PaymentCreationFailed [simp]: "dec_PaymentCreationFailed (enc_PaymentCreationFailed e) zero_PaymentCreationFailed = (e, False)"
  by (cases e) (simp add: enc_PaymentCreationFailed_def dec_PaymentCreationFailed_def field_PaymentCreationFailed_def zero_PaymentCreationFailed_def)

lemma dec_jsonb_PaymentCreationFailed [simp]: "dec_PaymentCreationFailed (jsonb (enc_PaymentCreationFailed e)) zero_PaymentCreationFailed = (e, False)"
  by (cases e) (simp add: enc_PaymentCreationFailed_def dec_PaymentCreationFailed_def field_PaymentCreationFailed_def zero_PaymentCreationFailed_def key_less_def jsonb_list_map)

subsection \<open>PaymentCaptured\<close>

record ev_PaymentCaptured =
  pp_OrderID :: string
  pp_CustomerID :: string
  pp_PaymentID :: string
  pp_Status :: string

definition zero_PaymentCaptured :: ev_PaymentCaptured where
  "zero_PaymentCaptured = \<lparr>pp_OrderID = [], pp_CustomerID = [], pp_PaymentID = [], pp_Status = []\<rparr>"

definition enc_PaymentCaptured :: "ev_PaymentCaptured \<Rightarrow> json" where
  "enc_PaymentCaptured e =
     JObj [(''order_id'', JStr (pp_OrderID e)),
           (''customer_id'', JStr (pp_CustomerID e)),
           (''payment_id'', JStr (pp_PaymentID e)),
           (''status'', JStr (pp_Status e))]"

definition field_PaymentCaptured :: "string \<Rightarrow> json \<Rightarrow> ev_PaymentCaptured \<Rightarrow> ev_PaymentCaptured \<times> bool" where
  "field_PaymentCaptured n v r =
     (if n = ''order_id'' then put (dec_string v (pp_OrderID r)) (\<lambda>x. r\<lparr>pp_OrderID := x\<rparr>) else
      if n = ''customer_id'' then put (dec_string v (pp_CustomerID r)) (\<lambda>x. r\<lparr>pp_CustomerID := x\<rparr>) else
      if n = ''payment_id'' then put (dec_string v (pp_PaymentID r)) (\<lambda>x. r\<lparr>pp_PaymentID := x\<rparr>) else
      if n = ''status'' then put (dec_string v (pp_Status r)) (\<lambda>x. r\<lparr>pp_Status := x\<rparr>) else
      (r, False))"

definition dec_PaymentCaptured :: "json \<Rightarrow> ev_PaymentCaptured \<Rightarrow> ev_PaymentCaptured \<times> bool" where
  "dec_PaymentCaptured =
     dec_struct [''order_id'', ''customer_id'', ''payment_id'', ''status''] field_PaymentCaptured"

lemma dec_enc_PaymentCaptured [simp]: "dec_PaymentCaptured (enc_PaymentCaptured e) zero_PaymentCaptured = (e, False)"
  by (cases e) (simp add: enc_PaymentCaptured_def dec_PaymentCaptured_def field_PaymentCaptured_def zero_PaymentCaptured_def)

lemma dec_jsonb_PaymentCaptured [simp]: "dec_PaymentCaptured (jsonb (enc_PaymentCaptured e)) zero_PaymentCaptured = (e, False)"
  by (cases e) (simp add: enc_PaymentCaptured_def dec_PaymentCaptured_def field_PaymentCaptured_def zero_PaymentCaptured_def key_less_def jsonb_list_map)

subsection \<open>PaymentFailed\<close>

record ev_PaymentFailed =
  px_OrderID :: string
  px_CustomerID :: string
  px_PaymentID :: string
  px_Status :: string
  px_FailureReason :: string

definition zero_PaymentFailed :: ev_PaymentFailed where
  "zero_PaymentFailed = \<lparr>px_OrderID = [], px_CustomerID = [], px_PaymentID = [], px_Status = [], px_FailureReason = []\<rparr>"

definition enc_PaymentFailed :: "ev_PaymentFailed \<Rightarrow> json" where
  "enc_PaymentFailed e =
     JObj [(''order_id'', JStr (px_OrderID e)),
           (''customer_id'', JStr (px_CustomerID e)),
           (''payment_id'', JStr (px_PaymentID e)),
           (''status'', JStr (px_Status e)),
           (''failure_reason'', JStr (px_FailureReason e))]"

definition field_PaymentFailed :: "string \<Rightarrow> json \<Rightarrow> ev_PaymentFailed \<Rightarrow> ev_PaymentFailed \<times> bool" where
  "field_PaymentFailed n v r =
     (if n = ''order_id'' then put (dec_string v (px_OrderID r)) (\<lambda>x. r\<lparr>px_OrderID := x\<rparr>) else
      if n = ''customer_id'' then put (dec_string v (px_CustomerID r)) (\<lambda>x. r\<lparr>px_CustomerID := x\<rparr>) else
      if n = ''payment_id'' then put (dec_string v (px_PaymentID r)) (\<lambda>x. r\<lparr>px_PaymentID := x\<rparr>) else
      if n = ''status'' then put (dec_string v (px_Status r)) (\<lambda>x. r\<lparr>px_Status := x\<rparr>) else
      if n = ''failure_reason'' then put (dec_string v (px_FailureReason r)) (\<lambda>x. r\<lparr>px_FailureReason := x\<rparr>) else
      (r, False))"

definition dec_PaymentFailed :: "json \<Rightarrow> ev_PaymentFailed \<Rightarrow> ev_PaymentFailed \<times> bool" where
  "dec_PaymentFailed =
     dec_struct [''order_id'', ''customer_id'', ''payment_id'', ''status'', ''failure_reason''] field_PaymentFailed"

lemma dec_enc_PaymentFailed [simp]: "dec_PaymentFailed (enc_PaymentFailed e) zero_PaymentFailed = (e, False)"
  by (cases e) (simp add: enc_PaymentFailed_def dec_PaymentFailed_def field_PaymentFailed_def zero_PaymentFailed_def)

lemma dec_jsonb_PaymentFailed [simp]: "dec_PaymentFailed (jsonb (enc_PaymentFailed e)) zero_PaymentFailed = (e, False)"
  by (cases e) (simp add: enc_PaymentFailed_def dec_PaymentFailed_def field_PaymentFailed_def zero_PaymentFailed_def key_less_def jsonb_list_map)

section \<open>The envelope\<close>

text \<open>\<open>Payload\<close> is a \<open>json.RawMessage\<close>: an uninterpreted document, absent when the key is.\<close>

record ev_Envelope =
  en_EventID :: string
  en_EventType :: string
  en_OccurredAt :: string
  en_Payload :: "json option"

definition zero_Envelope :: ev_Envelope where
  "zero_Envelope = \<lparr>en_EventID = [], en_EventType = [], en_OccurredAt = [], en_Payload = None\<rparr>"

definition enc_Envelope :: "ev_Envelope \<Rightarrow> json" where
  "enc_Envelope e =
     JObj [(''event_id'', JStr (en_EventID e)),
           (''event_type'', JStr (en_EventType e)),
           (''occurred_at'', JStr (en_OccurredAt e)),
           (''payload'', case en_Payload e of None \<Rightarrow> JNull | Some v \<Rightarrow> v)]"

definition field_Envelope :: "string \<Rightarrow> json \<Rightarrow> ev_Envelope \<Rightarrow> ev_Envelope \<times> bool" where
  "field_Envelope n v r =
     (if n = ''event_id'' then put (dec_string v (en_EventID r)) (\<lambda>x. r\<lparr>en_EventID := x\<rparr>) else
      if n = ''event_type'' then put (dec_string v (en_EventType r)) (\<lambda>x. r\<lparr>en_EventType := x\<rparr>) else
      if n = ''occurred_at'' then put (dec_string v (en_OccurredAt r)) (\<lambda>x. r\<lparr>en_OccurredAt := x\<rparr>) else
      if n = ''payload'' then (r\<lparr>en_Payload := Some v\<rparr>, False) else
      (r, False))"

definition dec_Envelope :: "json \<Rightarrow> ev_Envelope \<Rightarrow> ev_Envelope \<times> bool" where
  "dec_Envelope =
     dec_struct [''event_id'', ''event_type'', ''occurred_at'', ''payload''] field_Envelope"

lemma dec_enc_Envelope [simp]:
  "en_Payload e = Some v \<Longrightarrow> dec_Envelope (enc_Envelope e) zero_Envelope = (e, False)"
  by (cases e) (simp add: enc_Envelope_def dec_Envelope_def field_Envelope_def zero_Envelope_def)

lemma dec_jsonb_Envelope [simp]:
  "en_Payload e = Some v \<Longrightarrow>
     dec_Envelope (jsonb (enc_Envelope e)) zero_Envelope = (e\<lparr>en_Payload := Some (jsonb v)\<rparr>, False)"
  by (cases e)
    (simp add: enc_Envelope_def dec_Envelope_def field_Envelope_def zero_Envelope_def key_less_def)

end
