(* ===== verification/Order_Messages.thy ===== *)
theory Order_Messages
  imports Order_Domain Shared_Events
begin

text \<open>
  The messages the order service puts into its outbox
  (\<open>internal/order/events/outbox_message.go\<close>): the event and its envelope for a created and
  for a cancelled order. \<open>now\<close> is what \<open>time.Now()\<close> reads there.
\<close>

record outbox_message =
  omID :: string
  omAggregateType :: string
  omAggregateID :: string
  omEventType :: string
  omTopic :: string
  omKey :: string
  omPayload :: json
  omCreatedAt :: time

definition ev_money :: "money \<Rightarrow> ev_Money" where
  "ev_money m = \<lparr>em_Currency = Currency_String (mCurrency m), em_AmountCents = mAmountCents m\<rparr>"

definition ev_created_item :: "order_item \<Rightarrow> ev_OrderCreatedItem" where
  "ev_created_item i =
     \<lparr>ei_ProductID = iProductID i, ei_SKU = iSKU i, ei_ProductName = iProductName i,
      ei_Quantity = iQuantity i, ei_UnitPrice = ev_money (iUnitPrice i),
      ei_TotalPrice = ev_money (iTotalPrice i)\<rparr>"

definition ev_order_created :: "order \<Rightarrow> ev_OrderCreated" where
  "ev_order_created o' =
     \<lparr>oc_OrderID = oID o', oc_CustomerID = oCustomerID o',
      oc_Status = OrderStatus_String (oStatus o'),
      oc_TotalAmount = ev_money (oTotalAmount o'),
      oc_ShippingAddress =
        \<lparr>ea_Country = aCountry (oShippingAddress o'), ea_City = aCity (oShippingAddress o'),
         ea_Street = aStreet (oShippingAddress o'), ea_PostalCode = aPostalCode (oShippingAddress o'),
         ea_House = aHouse (oShippingAddress o'), ea_Apartment = aApartment (oShippingAddress o')\<rparr>,
      oc_Payment =
        \<lparr>ep_Method = PaymentMethodType_String (dMethod (oPayment o')),
         ep_MethodDetails = dMethodDetails (oPayment o')\<rparr>,
      oc_Items = map ev_created_item (oItems o')\<rparr>"

definition evt_id :: "time \<Rightarrow> string" where
  "evt_id t = ''evt-'' @ itoa (UnixNano t)"

definition NewOrderCreatedOutboxMessage :: "order \<Rightarrow> string \<Rightarrow> time \<Rightarrow> outbox_message" where
  "NewOrderCreatedOutboxMessage o' topic now =
     \<lparr>omID = ''outbox-'' @ oID o', omAggregateType = ''order'', omAggregateID = oID o',
      omEventType = OrderCreatedEventType, omTopic = topic, omKey = oID o',
      omPayload = enc_Envelope
        \<lparr>en_EventID = evt_id now, en_EventType = OrderCreatedEventType,
         en_OccurredAt = RFC3339 0 now,
         en_Payload = Some (enc_OrderCreated (ev_order_created o'))\<rparr>,
      omCreatedAt = now\<rparr>"

definition NewOrderCancelledOutboxMessage :: "order \<Rightarrow> string \<Rightarrow> time \<Rightarrow> outbox_message" where
  "NewOrderCancelledOutboxMessage o' topic now =
     \<lparr>omID = ''outbox-cancelled-'' @ oID o', omAggregateType = ''order'', omAggregateID = oID o',
      omEventType = OrderCancelledEventType, omTopic = topic, omKey = oID o',
      omPayload = enc_Envelope
        \<lparr>en_EventID = evt_id now, en_EventType = OrderCancelledEventType,
         en_OccurredAt = RFC3339 0 now,
         en_Payload = Some (enc_OrderCancelled
           \<lparr>ox_OrderID = oID o', ox_CustomerID = oCustomerID o', ox_CancelReason = oCancelReason o'\<rparr>)\<rparr>,
      omCreatedAt = now\<rparr>"

text \<open>The integers of an order are within the range of their Go types.\<close>

definition money_in_range :: "money \<Rightarrow> bool" where
  "money_in_range m \<longleftrightarrow> is_int64 (mAmountCents m)"

definition item_in_range :: "order_item \<Rightarrow> bool" where
  "item_in_range i \<longleftrightarrow>
     is_int32 (iQuantity i) \<and> money_in_range (iUnitPrice i) \<and> money_in_range (iTotalPrice i)"

definition order_in_range :: "order \<Rightarrow> bool" where
  "order_in_range o' \<longleftrightarrow> money_in_range (oTotalAmount o') \<and> list_all item_in_range (oItems o')"

lemma ok_ev_order_created [simp]: "order_in_range o' \<Longrightarrow> ok_OrderCreated (ev_order_created o')"
  by (auto simp: order_in_range_def ok_OrderCreated_def ev_order_created_def ev_money_def
      ok_Money_def money_in_range_def list_all_iff ev_created_item_def item_in_range_def
      ok_OrderCreatedItem_def)

text \<open>
  What a consumer sees: the envelope of a stored message decodes to the event type and to
  the payload the message was built from, also after the \<open>JSONB\<close> column.
\<close>

definition decode_event ::
    "(json \<Rightarrow> 'e \<Rightarrow> 'e \<times> bool) \<Rightarrow> 'e \<Rightarrow> json option \<Rightarrow> (ev_Envelope \<times> 'e) option" where
  "decode_event dec zero msg =
     (case unmarshal dec_Envelope zero_Envelope msg of
        None \<Rightarrow> None
      | Some env \<Rightarrow> (case unmarshal dec zero (en_Payload env) of None \<Rightarrow> None | Some e \<Rightarrow> Some (env, e)))"

lemma decode_created_message:
  assumes "order_in_range o'"
  shows "\<exists>env. decode_event dec_OrderCreated zero_OrderCreated
            (Some (jsonb (omPayload (NewOrderCreatedOutboxMessage o' topic now)))) =
          Some (env, ev_order_created o')
        \<and> en_EventType env = OrderCreatedEventType \<and> en_EventID env = evt_id now"
  using assms by (simp add: decode_event_def unmarshal_def NewOrderCreatedOutboxMessage_def)

lemma decode_cancelled_message:
  "\<exists>env. decode_event dec_OrderCancelled zero_OrderCancelled
            (Some (jsonb (omPayload (NewOrderCancelledOutboxMessage o' topic now)))) =
          Some (env, \<lparr>ox_OrderID = oID o', ox_CustomerID = oCustomerID o', ox_CancelReason = oCancelReason o'\<rparr>)
        \<and> en_EventType env = OrderCancelledEventType \<and> en_EventID env = evt_id now"
  by (simp add: decode_event_def unmarshal_def NewOrderCancelledOutboxMessage_def)

end
