(* ===== verification/Order_Repository.thy ===== *)
theory Order_Repository
  imports Order_DB Order_Messages
begin

text \<open>
  The PostgreSQL repository of the order service
  (\<open>internal/order/repository/postgres.go\<close>). A transactional method is a body on the
  tables (\<open>tx_CreateOrder\<close>, \<open>tx_UpdateOrder\<close>) wrapped by \<open>commit_tx\<close>; a method that reads
  through the pool sees, at its \<open>i\<close>-th statement, the tables \<open>snap i\<close>. The lemmas relate
  the tables to the orders they store: \<open>stored_orders\<close> is the map the repository
  implements, and creating or updating an order updates exactly that map.
\<close>

section \<open>Between orders and rows\<close>

record repository_config =
  orderCreatedTopic :: string
  orderCancelledTopic :: string

definition NewPostgresRepository :: "string \<Rightarrow> string \<Rightarrow> repository_config" where
  "NewPostgresRepository created cancelled =
     \<lparr>orderCreatedTopic = TrimSpace created, orderCancelledTopic = TrimSpace cancelled\<rparr>"

definition validateOrder :: "order \<Rightarrow> order_error option" where
  "validateOrder o' =
     (if TrimSpace (oID o') = [] \<or> TrimSpace (oCustomerID o') = [] then Some ErrInvalidOrder
      else if TrimSpace (aCountry (oShippingAddress o')) = [] \<or>
              TrimSpace (aCity (oShippingAddress o')) = [] \<or>
              TrimSpace (aStreet (oShippingAddress o')) = [] \<or>
              TrimSpace (aPostalCode (oShippingAddress o')) = [] \<or>
              TrimSpace (aHouse (oShippingAddress o')) = [] then Some ErrInvalidOrder
      else if dMethod (oPayment o') = PAYMENT_METHOD_TYPE_UNSPECIFIED then Some ErrInvalidOrder
      else None)"

definition toOrderDBParams :: "order \<Rightarrow> order_row" where
  "toOrderDBParams o' =
     (let key = TrimSpace (oIdempotencyKey o')
      in \<lparr>rowID = oID o', rowCustomerID = oCustomerID o',
          rowIdempotencyKey = (if key \<noteq> [] then Some key else None),
          rowTotalAmountCurrency = Currency_String (mCurrency (oTotalAmount o')),
          rowTotalAmountCents = mAmountCents (oTotalAmount o'),
          rowStatus = OrderStatus_String (oStatus o'),
          rowShippingCountry = aCountry (oShippingAddress o'),
          rowShippingCity = aCity (oShippingAddress o'),
          rowShippingStreet = aStreet (oShippingAddress o'),
          rowShippingPostalCode = aPostalCode (oShippingAddress o'),
          rowShippingHouse = aHouse (oShippingAddress o'),
          rowShippingApartment = aApartment (oShippingAddress o'),
          rowPaymentMethod = PaymentMethodType_String (dMethod (oPayment o')),
          rowPaymentMethodDetails = dMethodDetails (oPayment o'),
          rowCancelReason = TrimSpace (oCancelReason o'),
          rowCreatedAt = timestamptz (oCreatedAt o'),
          rowUpdatedAt = timestamptz (oUpdatedAt o')\<rparr>)"

definition toCreateOrderParams :: "order \<Rightarrow> order_row" where
  "toCreateOrderParams o' =
     (let base = toOrderDBParams o'
      in \<lparr>rowID = rowID base, rowCustomerID = rowCustomerID base,
          rowIdempotencyKey = rowIdempotencyKey base,
          rowTotalAmountCurrency = rowTotalAmountCurrency base,
          rowTotalAmountCents = rowTotalAmountCents base, rowStatus = rowStatus base,
          rowShippingCountry = rowShippingCountry base, rowShippingCity = rowShippingCity base,
          rowShippingStreet = rowShippingStreet base,
          rowShippingPostalCode = rowShippingPostalCode base,
          rowShippingHouse = rowShippingHouse base,
          rowShippingApartment = rowShippingApartment base,
          rowPaymentMethod = rowPaymentMethod base,
          rowPaymentMethodDetails = rowPaymentMethodDetails base,
          rowCancelReason = rowCancelReason base,
          rowCreatedAt = rowCreatedAt base, rowUpdatedAt = rowUpdatedAt base\<rparr>)"

definition toUpdateOrderParams :: "order \<Rightarrow> order_row" where
  "toUpdateOrderParams o' =
     (let base = toOrderDBParams o'
      in \<lparr>rowID = rowID base, rowCustomerID = rowCustomerID base,
          rowIdempotencyKey = rowIdempotencyKey base,
          rowTotalAmountCurrency = rowTotalAmountCurrency base,
          rowTotalAmountCents = rowTotalAmountCents base, rowStatus = rowStatus base,
          rowShippingCountry = rowShippingCountry base, rowShippingCity = rowShippingCity base,
          rowShippingStreet = rowShippingStreet base,
          rowShippingPostalCode = rowShippingPostalCode base,
          rowShippingHouse = rowShippingHouse base,
          rowShippingApartment = rowShippingApartment base,
          rowPaymentMethod = rowPaymentMethod base,
          rowPaymentMethodDetails = rowPaymentMethodDetails base,
          rowCancelReason = rowCancelReason base,
          rowCreatedAt = rowCreatedAt base, rowUpdatedAt = rowUpdatedAt base\<rparr>)"

definition item_params :: "string \<Rightarrow> nat \<Rightarrow> order_item \<Rightarrow> order_item_row" where
  "item_params oid k i =
     \<lparr>irOrderID = oid, irItemPosition = wrap32 (int k), irProductID = iProductID i,
      irSku = iSKU i, irProductName = iProductName i, irQuantity = iQuantity i,
      irUnitPriceCurrency = Currency_String (mCurrency (iUnitPrice i)),
      irUnitPriceAmountCents = mAmountCents (iUnitPrice i),
      irTotalPriceCurrency = Currency_String (mCurrency (iTotalPrice i)),
      irTotalPriceAmountCents = mAmountCents (iTotalPrice i)\<rparr>"

text \<open>Reading rows back; the errors are texts. \<open>%q\<close> puts quotes around the value.\<close>

definition parseCurrency :: "string \<Rightarrow> string + currency" where
  "parseCurrency v =
     (case Currency_value v of
        None \<Rightarrow> Inl (''unknown order currency in db: '' @ quote v)
      | Some c \<Rightarrow> Inr c)"

definition parseOrderStatus :: "string \<Rightarrow> string + order_status" where
  "parseOrderStatus v =
     (case OrderStatus_value v of
        None \<Rightarrow> Inl (''unknown order status in db: '' @ quote v)
      | Some s \<Rightarrow> Inr s)"

definition parsePaymentMethod :: "string \<Rightarrow> string + payment_method" where
  "parsePaymentMethod v =
     (case PaymentMethodType_value v of
        None \<Rightarrow> Inl (''unknown order payment method in db: '' @ quote v)
      | Some m \<Rightarrow> Inr m)"

definition mapDBOrderItem :: "order_item_row \<Rightarrow> string + order_item" where
  "mapDBOrderItem row =
     (case parseCurrency (irUnitPriceCurrency row) of
        Inl e \<Rightarrow> Inl e
      | Inr unitCurrency \<Rightarrow>
     (case parseCurrency (irTotalPriceCurrency row) of
        Inl e \<Rightarrow> Inl e
      | Inr totalCurrency \<Rightarrow>
          Inr \<lparr>iProductID = irProductID row, iSKU = irSku row, iProductName = irProductName row,
               iQuantity = irQuantity row,
               iUnitPrice = \<lparr>mCurrency = unitCurrency, mAmountCents = irUnitPriceAmountCents row\<rparr>,
               iTotalPrice = \<lparr>mCurrency = totalCurrency, mAmountCents = irTotalPriceAmountCents row\<rparr>\<rparr>))"

fun mapDBOrderItems :: "order_item_row list \<Rightarrow> string + order_item list" where
  "mapDBOrderItems [] = Inr []"
| "mapDBOrderItems (row # rows) =
     (case mapDBOrderItem row of
        Inl e \<Rightarrow> Inl e
      | Inr i \<Rightarrow> (case mapDBOrderItems rows of Inl e \<Rightarrow> Inl e | Inr is \<Rightarrow> Inr (i # is)))"

definition mapDBOrder :: "order_row \<Rightarrow> order_item_row list \<Rightarrow> string + order" where
  "mapDBOrder row itemRows =
     (case parseCurrency (rowTotalAmountCurrency row) of
        Inl e \<Rightarrow> Inl e
      | Inr totalCurrency \<Rightarrow>
     (case parseOrderStatus (rowStatus row) of
        Inl e \<Rightarrow> Inl e
      | Inr status \<Rightarrow>
     (case parsePaymentMethod (rowPaymentMethod row) of
        Inl e \<Rightarrow> Inl e
      | Inr paymentMethod \<Rightarrow>
     (case mapDBOrderItems itemRows of
        Inl e \<Rightarrow> Inl e
      | Inr items \<Rightarrow>
          Inr \<lparr>oID = rowID row, oCustomerID = rowCustomerID row,
               oIdempotencyKey = (case rowIdempotencyKey row of None \<Rightarrow> [] | Some k \<Rightarrow> k),
               oItems = items,
               oTotalAmount = \<lparr>mCurrency = totalCurrency, mAmountCents = rowTotalAmountCents row\<rparr>,
               oStatus = status,
               oShippingAddress =
                 \<lparr>aCountry = rowShippingCountry row, aCity = rowShippingCity row,
                  aStreet = rowShippingStreet row, aPostalCode = rowShippingPostalCode row,
                  aHouse = rowShippingHouse row, aApartment = rowShippingApartment row\<rparr>,
               oPayment = \<lparr>dMethod = paymentMethod, dMethodDetails = rowPaymentMethodDetails row\<rparr>,
               oCancelReason = rowCancelReason row,
               oCreatedAt = (case rowCreatedAt row of None \<Rightarrow> zero_time | Some t \<Rightarrow> t),
               oUpdatedAt = (case rowUpdatedAt row of None \<Rightarrow> zero_time | Some t \<Rightarrow> t)\<rparr>))))"

fun mapDBOrders :: "order_row list \<Rightarrow> (string \<Rightarrow> order_item_row list) \<Rightarrow> string + order list" where
  "mapDBOrders [] itemsOf = Inr []"
| "mapDBOrders (row # rows) itemsOf =
     (case mapDBOrder row (itemsOf (rowID row)) of
        Inl e \<Rightarrow> Inl e
      | Inr o' \<Rightarrow> (case mapDBOrders rows itemsOf of Inl e \<Rightarrow> Inl e | Inr os \<Rightarrow> Inr (o' # os)))"

text \<open>\<open>grouped[row.OrderID] = append(grouped[row.OrderID], item)\<close>: a missing entry is the nil slice.\<close>

fun groupDBOrderItems ::
    "order_item_row list \<Rightarrow> (string \<Rightarrow> order_item list) \<Rightarrow> string + (string \<Rightarrow> order_item list)"
where
  "groupDBOrderItems [] grouped = Inr grouped"
| "groupDBOrderItems (row # rows) grouped =
     (case mapDBOrderItem row of
        Inl e \<Rightarrow> Inl e
      | Inr item \<Rightarrow>
          groupDBOrderItems rows (grouped(irOrderID row := grouped (irOrderID row) @ [item])))"

text \<open>\<open>toDBItems\<close> leaves the order id of the rows empty.\<close>

definition toDBItems :: "order_item list \<Rightarrow> order_item_row list" where
  "toDBItems items = map (\<lambda>(idx, item). item_params [] idx item) (List.enumerate 0 items)"

definition clampInt64ToInt32 :: "int \<Rightarrow> int" where
  "clampInt64ToInt32 value =
     (if value > 2147483647 then 2147483647
      else if value < 0 then 0
      else wrap32 value)"

definition mapCreateOrderError :: "pg_error \<Rightarrow> order_error" where
  "mapCreateOrderError err =
     (case err of
        PgError code con msg \<Rightarrow>
          (if code \<noteq> ''23505'' then OrderInternal (''create order in postgres: '' @ pg_error_text err)
           else if con = ''orders_pkey'' then ErrOrderAlreadyExists
           else if con = ''orders_idempotency_key_key'' then ErrIdempotencyKeyAlreadyExists
           else OrderInternal (''create order in postgres: '' @ pg_error_text err))
      | _ \<Rightarrow> OrderInternal (''create order in postgres: '' @ pg_error_text err))"

definition mapUpdateOrderError :: "pg_error \<Rightarrow> order_error" where
  "mapUpdateOrderError err =
     (if err = NoRows then ErrOrderNotFound
      else OrderInternal (''update order in postgres: '' @ pg_error_text err))"

section \<open>Steps of the transactions\<close>

definition wrap_error :: "string \<Rightarrow> pg_error \<Rightarrow> order_error" where
  "wrap_error what err = OrderInternal (what @ '': '' @ pg_error_text err)"

fun insert_items_from ::
    "attempt \<Rightarrow> nat \<Rightarrow> string \<Rightarrow> order_item list \<Rightarrow> order_db \<Rightarrow> order_error + order_db" where
  "insert_items_from a k oid [] db = Inr db"
| "insert_items_from a k oid (i # is) db =
     (case exec a (''CreateOrderItem'', k) (q_CreateOrderItem (item_params oid k i) db) of
        Inl e \<Rightarrow> Inl (wrap_error ''create order item in postgres'' e)
      | Inr db' \<Rightarrow> insert_items_from a (Suc k) oid is db')"

definition insertOrderItems :: "attempt \<Rightarrow> order \<Rightarrow> order_db \<Rightarrow> order_error + order_db" where
  "insertOrderItems a o' db = insert_items_from a 0 (oID o') (oItems o') db"

definition outbox_params :: "outbox_message \<Rightarrow> outbox_row" where
  "outbox_params m =
     \<lparr>obID = omID m, obAggregateType = omAggregateType m, obAggregateID = omAggregateID m,
      obEventType = omEventType m, obTopic = omTopic m, obEventKey = omKey m,
      obPayload = omPayload m, obAttemptCount = 0, obLastError = [], obLockedAt = None,
      obCreatedAt = Some (omCreatedAt m), obPublishedAt = None\<rparr>"

definition insertOrderCreatedOutboxEvent ::
    "attempt \<Rightarrow> order \<Rightarrow> string \<Rightarrow> order_db \<Rightarrow> order_error + order_db" where
  "insertOrderCreatedOutboxEvent a o' topic db =
     (if TrimSpace topic = []
      then Inl (OrderInternal ''create order outbox event in postgres: topic is required'')
      else
        case exec a (''CreateOrderOutboxEvent'', 0) (q_CreateOrderOutboxEvent
               (outbox_params (NewOrderCreatedOutboxMessage o' topic (clock_at a ''createdAt''))) db) of
          Inl e \<Rightarrow> Inl (wrap_error ''create order outbox event in postgres'' e)
        | Inr db' \<Rightarrow> Inr db')"

definition insertOrderCancelledOutboxEvent ::
    "attempt \<Rightarrow> order \<Rightarrow> string \<Rightarrow> order_db \<Rightarrow> order_error + order_db" where
  "insertOrderCancelledOutboxEvent a o' topic db =
     (if TrimSpace topic = []
      then Inl (OrderInternal ''create order cancelled outbox event in postgres: topic is required'')
      else
        case exec a (''CreateOrderOutboxEvent'', 0) (q_CreateOrderOutboxEvent
               (outbox_params (NewOrderCancelledOutboxMessage o' topic (clock_at a ''createdAt''))) db) of
          Inl e \<Rightarrow> Inl (wrap_error ''create order cancelled outbox event in postgres'' e)
        | Inr db' \<Rightarrow> Inr db')"

section \<open>The methods\<close>

definition tx_CreateOrder ::
    "repository_config \<Rightarrow> attempt \<Rightarrow> order \<Rightarrow> order_db \<Rightarrow> order_error + (order \<times> order_db)" where
  "tx_CreateOrder cfg a o' db =
     (case exec a (''Begin'', 0) (Inr ()) of
        Inl e \<Rightarrow> Inl (wrap_error ''begin create order transaction'' e)
      | Inr _ \<Rightarrow>
     (case exec a (''CreateOrder'', 0) (q_CreateOrder (toCreateOrderParams o') db) of
        Inl e \<Rightarrow> Inl (mapCreateOrderError e)
      | Inr (row, db1) \<Rightarrow>
     (case insertOrderItems a o' db1 of
        Inl e \<Rightarrow> Inl e
      | Inr db2 \<Rightarrow>
     (case insertOrderCreatedOutboxEvent a o' (orderCreatedTopic cfg) db2 of
        Inl e \<Rightarrow> Inl e
      | Inr db3 \<Rightarrow>
     (case exec a (''ListOrderItemsByOrderID'', 0) (Inr (q_ListOrderItemsByOrderID (oID o') db3)) of
        Inl e \<Rightarrow> Inl (wrap_error ''load created order items from postgres'' e)
      | Inr items \<Rightarrow>
     (case mapDBOrder row items of
        Inl e \<Rightarrow> Inl (OrderInternal (''map created order from postgres: '' @ e))
      | Inr mapped \<Rightarrow> Inr (mapped, db3)))))))"

definition pg_CreateOrder ::
    "repository_config \<Rightarrow> attempt \<Rightarrow> order \<Rightarrow> order_db \<Rightarrow> (order_error + order) \<times> order_db" where
  "pg_CreateOrder cfg a o' db =
     (case validateOrder o' of
        Some e \<Rightarrow> (Inl e, db)
      | None \<Rightarrow>
          commit_tx a (\<lambda>m. OrderInternal (''commit create order transaction: '' @ m)) db
            (tx_CreateOrder cfg a o' db))"

definition tx_UpdateOrder ::
    "repository_config \<Rightarrow> attempt \<Rightarrow> order \<Rightarrow> order_db \<Rightarrow> order_error + (order \<times> order_db)" where
  "tx_UpdateOrder cfg a o' db =
     (case exec a (''Begin'', 0) (Inr ()) of
        Inl e \<Rightarrow> Inl (wrap_error ''begin update order transaction'' e)
      | Inr _ \<Rightarrow>
     (case exec a (''GetOrderByID'', 0) (q_GetOrderByID (oID o') db) of
        Inl e \<Rightarrow> Inl (if e = NoRows then ErrOrderNotFound
                      else wrap_error ''get current order by id from postgres'' e)
      | Inr existingRow \<Rightarrow>
     (case exec a (''UpdateOrder'', 0) (q_UpdateOrder (toUpdateOrderParams o') db) of
        Inl e \<Rightarrow> Inl (mapUpdateOrderError e)
      | Inr (row, db1) \<Rightarrow>
     (case exec a (''DeleteOrderItemsByOrderID'', 0) (Inr (q_DeleteOrderItemsByOrderID (oID o') db1)) of
        Inl e \<Rightarrow> Inl (wrap_error ''delete order items by order id in postgres'' e)
      | Inr db2 \<Rightarrow>
     (case insertOrderItems a o' db2 of
        Inl e \<Rightarrow> Inl e
      | Inr db3 \<Rightarrow>
     (case exec a (''ListOrderItemsByOrderID'', 0) (Inr (q_ListOrderItemsByOrderID (oID o') db3)) of
        Inl e \<Rightarrow> Inl (wrap_error ''load updated order items from postgres'' e)
      | Inr items \<Rightarrow>
     (case mapDBOrder row items of
        Inl e \<Rightarrow> Inl (OrderInternal (''map updated order from postgres: '' @ e))
      | Inr mapped \<Rightarrow>
          (if rowStatus existingRow \<noteq> rowStatus row \<and>
              rowStatus row = OrderStatus_String ORDER_STATUS_CANCELLED
           then
             case insertOrderCancelledOutboxEvent a mapped (orderCancelledTopic cfg) db3 of
               Inl e \<Rightarrow> Inl e
             | Inr db4 \<Rightarrow> Inr (mapped, db4)
           else Inr (mapped, db3)))))))))"

definition pg_UpdateOrder ::
    "repository_config \<Rightarrow> attempt \<Rightarrow> order \<Rightarrow> order_db \<Rightarrow> (order_error + order) \<times> order_db" where
  "pg_UpdateOrder cfg a o' db =
     (case validateOrder o' of
        Some e \<Rightarrow> (Inl e, db)
      | None \<Rightarrow>
          commit_tx a (\<lambda>m. OrderInternal (''commit update order transaction: '' @ m)) db
            (tx_UpdateOrder cfg a o' db))"

definition pg_GetOrderByID :: "attempt \<Rightarrow> string \<Rightarrow> (nat \<Rightarrow> order_db) \<Rightarrow> order_error + order" where
  "pg_GetOrderByID a oid snap =
     (case exec a (''GetOrderByID'', 0) (q_GetOrderByID oid (snap 0)) of
        Inl e \<Rightarrow> Inl (if e = NoRows then ErrOrderNotFound
                      else wrap_error ''get order by id from postgres'' e)
      | Inr row \<Rightarrow>
     (case exec a (''ListOrderItemsByOrderID'', 0) (Inr (q_ListOrderItemsByOrderID oid (snap 1))) of
        Inl e \<Rightarrow> Inl (wrap_error ''list order items by order id from postgres'' e)
      | Inr items \<Rightarrow> map_sum OrderInternal id (mapDBOrder row items)))"

definition pg_GetOrderByIdempotencyKey ::
    "attempt \<Rightarrow> string \<Rightarrow> (nat \<Rightarrow> order_db) \<Rightarrow> order_error + order" where
  "pg_GetOrderByIdempotencyKey a key0 snap =
     (let key = TrimSpace key0
      in if key = [] then Inl ErrInvalidOrder
      else
     (case exec a (''GetOrderByIdempotencyKey'', 0) (q_GetOrderByIdempotencyKey key (snap 0)) of
        Inl e \<Rightarrow> Inl (if e = NoRows then ErrOrderNotFound
                      else wrap_error ''get order by idempotency key from postgres'' e)
      | Inr row \<Rightarrow>
     (case exec a (''ListOrderItemsByOrderID'', 0)
             (Inr (q_ListOrderItemsByOrderID (rowID row) (snap 1))) of
        Inl e \<Rightarrow> Inl (wrap_error ''list order items by idempotency key from postgres'' e)
      | Inr items \<Rightarrow> map_sum OrderInternal id (mapDBOrder row items))))"

definition pg_ListOrdersByCustomer ::
    "(string \<Rightarrow> 'k::linorder) \<Rightarrow> attempt \<Rightarrow> string \<Rightarrow> int \<Rightarrow> int \<Rightarrow> (nat \<Rightarrow> order_db) \<Rightarrow>
     order_error + (order list \<times> int)" where
  "pg_ListOrdersByCustomer coll a cid page0 pageSize snap =
     (case exec a (''CountOrdersByCustomer'', 0) (Inr (q_CountOrdersByCustomer cid (snap 0))) of
        Inl e \<Rightarrow> Inl (wrap_error ''count orders by customer from postgres'' e)
      | Inr total' \<Rightarrow>
     (if total' = 0 then Inr ([], 0)
      else
        let page = (if page0 \<le> 0 then 1 else page0);
            limit = (if pageSize \<le> 0 then total' else pageSize);
            offset = wrap64 ((page - 1) * limit)
        in if offset \<ge> total' then Inr ([], total')
        else
     (case exec a (''ListOrdersByCustomer'', 0)
             (Inr (q_ListOrdersByCustomer coll cid (clampInt64ToInt32 limit) (clampInt64ToInt32 offset) (snap 1))) of
        Inl e \<Rightarrow> Inl (wrap_error ''list orders by customer from postgres'' e)
      | Inr rows \<Rightarrow>
     (case exec a (''ListOrderItemsByOrderIDs'', 0)
             (Inr (q_ListOrderItemsByOrderIDs coll (map rowID rows) (snap 2))) of
        Inl e \<Rightarrow> Inl (wrap_error ''list order items by order ids from postgres'' e)
      | Inr itemRows \<Rightarrow>
     (case groupDBOrderItems itemRows (\<lambda>_. []) of
        Inl e \<Rightarrow> Inl (OrderInternal (''group listed order items from postgres: '' @ e))
      | Inr groupedItems \<Rightarrow>
     (case mapDBOrders rows (toDBItems \<circ> groupedItems) of
        Inl e \<Rightarrow> Inl (OrderInternal (''map listed orders from postgres: '' @ e))
      | Inr os \<Rightarrow> Inr (os, total')))))))"

end
