(* ===== verification/Order_Store.thy ===== *)
theory Order_Store
  imports Order_Repository
begin

text \<open>
  What the repository implements: the map \<open>stored_orders\<close> from ids to orders, as the code
  reads them back. A committed \<open>CreateOrder\<close> or \<open>UpdateOrder\<close> stores \<open>persisted\<close> of the order
  it was given (trimmed key and reason, microsecond timestamps), touches no other order,
  and adds exactly the outbox rows of its events.
\<close>

section \<open>Rows and orders\<close>

lemma toCreateOrderParams_eq [simp]: "toCreateOrderParams o' = toOrderDBParams o'"
  by (simp add: toCreateOrderParams_def Let_def)

lemma toUpdateOrderParams_eq [simp]: "toUpdateOrderParams o' = toOrderDBParams o'"
  by (simp add: toUpdateOrderParams_def Let_def)

lemma toOrderDBParams_simps [simp]:
  "rowID (toOrderDBParams o') = oID o'"
  "rowCustomerID (toOrderDBParams o') = oCustomerID o'"
  "rowIdempotencyKey (toOrderDBParams o') =
     (if TrimSpace (oIdempotencyKey o') = [] then None else Some (TrimSpace (oIdempotencyKey o')))"
  "rowStatus (toOrderDBParams o') = OrderStatus_String (oStatus o')"
  "rowTotalAmountCents (toOrderDBParams o') = mAmountCents (oTotalAmount o')"
  "rowCreatedAt (toOrderDBParams o') = timestamptz (oCreatedAt o')"
  "rowUpdatedAt (toOrderDBParams o') = timestamptz (oUpdatedAt o')"
  by (simp_all add: toOrderDBParams_def Let_def)

lemma timestamptz_None [simp]: "timestamptz t = None \<longleftrightarrow> t = zero_time"
  by (simp add: timestamptz_def)

lemma timestamptz_Some: "t \<noteq> zero_time \<Longrightarrow> timestamptz t = Some t"
  by (simp add: timestamptz_def)

definition persisted :: "order \<Rightarrow> order" where
  "persisted o' =
     o'\<lparr>oIdempotencyKey := TrimSpace (oIdempotencyKey o'),
        oCancelReason := TrimSpace (oCancelReason o'),
        oCreatedAt := pg_micros (oCreatedAt o'), oUpdatedAt := pg_micros (oUpdatedAt o')\<rparr>"

lemma persisted_simps [simp]:
  "oID (persisted o') = oID o'" "oCustomerID (persisted o') = oCustomerID o'"
  "oItems (persisted o') = oItems o'" "oTotalAmount (persisted o') = oTotalAmount o'"
  "oStatus (persisted o') = oStatus o'" "oShippingAddress (persisted o') = oShippingAddress o'"
  "oPayment (persisted o') = oPayment o'"
  "oIdempotencyKey (persisted o') = TrimSpace (oIdempotencyKey o')"
  "oCancelReason (persisted o') = TrimSpace (oCancelReason o')"
  "oCreatedAt (persisted o') = pg_micros (oCreatedAt o')"
  "oUpdatedAt (persisted o') = pg_micros (oUpdatedAt o')"
  by (simp_all add: persisted_def)

lemma persisted_idem [simp]: "persisted (persisted o') = persisted o'"
  by (simp add: persisted_def)

text \<open>The orders whose enumerations have names in the database.\<close>

definition readable_item :: "order_item \<Rightarrow> bool" where
  "readable_item i \<longleftrightarrow> known_currency (mCurrency (iUnitPrice i)) \<and> known_currency (mCurrency (iTotalPrice i))"

definition readable :: "order \<Rightarrow> bool" where
  "readable o' \<longleftrightarrow>
     known_currency (mCurrency (oTotalAmount o')) \<and> known_method (dMethod (oPayment o')) \<and>
     list_all readable_item (oItems o')"

definition item_rows :: "string \<Rightarrow> nat \<Rightarrow> order_item list \<Rightarrow> order_item_row list" where
  "item_rows oid n items = map (\<lambda>(k, i). item_params oid k i) (List.enumerate n items)"

lemma item_rows_simps [simp]:
  "item_rows oid n [] = []"
  "item_rows oid n (i # is) = item_params oid n i # item_rows oid (Suc n) is"
  by (simp_all add: item_rows_def)

lemma item_rows_order: "r \<in> set (item_rows oid n items) \<Longrightarrow> irOrderID r = oid"
  by (auto simp: item_rows_def item_params_def)

lemma mapDBOrderItem_params:
  "mapDBOrderItem (item_params oid k i) = Inr j \<longleftrightarrow> readable_item i \<and> j = i"
  by (auto simp: mapDBOrderItem_def item_params_def parseCurrency_def Currency_value_String
      readable_item_def)

lemma mapDBOrderItem_readable: "readable_item i \<Longrightarrow> mapDBOrderItem (item_params oid k i) = Inr i"
  by (simp add: mapDBOrderItem_params)

lemma mapDBOrderItem_unreadable:
  "\<not> readable_item i \<Longrightarrow> \<exists>e. mapDBOrderItem (item_params oid k i) = Inl e"
  by (cases "mapDBOrderItem (item_params oid k i)") (auto simp: mapDBOrderItem_params)

lemma mapDBOrderItems_readable:
  "list_all readable_item items \<Longrightarrow> mapDBOrderItems (item_rows oid n items) = Inr items"
  by (induction items arbitrary: n) (auto simp: mapDBOrderItem_readable)

lemma mapDBOrderItems_unreadable:
  "\<not> list_all readable_item items \<Longrightarrow> \<exists>e. mapDBOrderItems (item_rows oid n items) = Inl e"
proof (induction items arbitrary: n)
  case (Cons i items)
  show ?case
  proof (cases "readable_item i")
    case True
    with Cons obtain e where "mapDBOrderItems (item_rows oid (Suc n) items) = Inl e" by auto
    with True show ?thesis by (simp add: mapDBOrderItem_readable)
  next
    case False
    then show ?thesis using mapDBOrderItem_unreadable [of i oid n] by auto
  qed
qed simp

lemma mapDBOrder_readable:
  assumes "oCreatedAt o' \<noteq> zero_time" "oUpdatedAt o' \<noteq> zero_time" "readable o'"
  shows "mapDBOrder (stored_order (toOrderDBParams o')) (item_rows oid n (oItems o')) = Inr (persisted o')"
  using assms
  by (auto simp: mapDBOrder_def parseCurrency_def parseOrderStatus_def parsePaymentMethod_def
      stored_order_def toOrderDBParams_def Let_def mapDBOrderItems_readable readable_def
      persisted_def timestamptz_Some intro: order.equality money.equality)

lemma mapDBOrder_unreadable:
  assumes "\<not> readable o'"
  shows "\<exists>e. mapDBOrder (stored_order (toOrderDBParams o')) (item_rows oid n (oItems o')) = Inl e"
  using assms mapDBOrderItems_unreadable [of "oItems o'" oid n]
  by (auto simp: mapDBOrder_def parseCurrency_def parseOrderStatus_def parsePaymentMethod_def
      stored_order_def toOrderDBParams_def Let_def readable_def Currency_value_String
      PaymentMethodType_value_String)

lemma mapDBOrder_params:
  assumes "oCreatedAt o' \<noteq> zero_time" "oUpdatedAt o' \<noteq> zero_time"
  shows "mapDBOrder (stored_order (toOrderDBParams o')) (item_rows oid n (oItems o')) = Inr x \<longleftrightarrow>
     readable o' \<and> x = persisted o'"
  using mapDBOrder_readable [OF assms] mapDBOrder_unreadable [of o' oid n]
  by (cases "readable o'") auto


section \<open>Inserting the items\<close>

lemma insert_items_from_Inr:
  "insert_items_from a n oid items db = Inr db' \<longleftrightarrow>
     (\<forall>k < length items. fault_at a (''CreateOrderItem'', n + k) = Served) \<and>
     list_all item_row_ok (item_rows oid n items) \<and>
     distinct (map item_key (item_rows oid n items)) \<and>
     item_key ` set (item_rows oid n items) \<inter> item_key ` set (order_items db) = {} \<and>
     (items = [] \<or> oid \<in> rowID ` set (orders db)) \<and>
     db' = db\<lparr>order_items := order_items db @ item_rows oid n items\<rparr>"
proof (induction items arbitrary: n db)
  case (Cons i items)
  have oid [simp]: "irOrderID (item_params oid n i) = oid" by (simp add: item_params_def)
  have all: "(\<forall>k < Suc m. P (n + k)) \<longleftrightarrow> P n \<and> (\<forall>k < m. P (Suc n + k))" for m and P :: "nat \<Rightarrow> bool"
    by (auto simp: less_Suc_eq_0_disj)
  have split: "insert_items_from a n oid (i # items) db = Inr db' \<longleftrightarrow>
      fault_at a (''CreateOrderItem'', n) = Served \<and> item_row_ok (item_params oid n i) \<and>
      item_key (item_params oid n i) \<notin> item_key ` set (order_items db) \<and>
      oid \<in> rowID ` set (orders db) \<and>
      insert_items_from a (Suc n) oid items
        (db\<lparr>order_items := order_items db @ [item_params oid n i]\<rparr>) = Inr db'"
    by (auto simp: bind_Inr_iff sql_simps)
  show ?case
    unfolding split Cons.IH length_Cons all [of _ "\<lambda>j. fault_at a (''CreateOrderItem'', j) = Served"]
    by (simp add: Int_insert_right Int_insert_left) blast
qed auto

text \<open>What the table asks of the items, and how they come back.\<close>

definition valid_items :: "order_item list \<Rightarrow> bool" where
  "valid_items items \<longleftrightarrow>
     length items \<le> 2 ^ 31 \<and>
     list_all (\<lambda>i. 0 < iQuantity i \<and> 0 < mAmountCents (iUnitPrice i) \<and> 0 < mAmountCents (iTotalPrice i)) items"

lemma length_item_rows [simp]: "length (item_rows oid n items) = length items"
  by (simp add: item_rows_def)

lemma item_rows_nth:
  "k < length items \<Longrightarrow> item_rows oid n items ! k = item_params oid (n + k) (items ! k)"
  by (simp add: item_rows_def nth_enumerate_eq)

lemma item_positions:
  assumes "length items \<le> 2 ^ 31"
  shows "map irItemPosition (item_rows oid 0 items) = map int [0..<length items]"
proof (rule nth_equalityI)
  fix k assume "k < length (map irItemPosition (item_rows oid 0 items))"
  then have "k < length items" by simp
  moreover from this assms have "int k < 2 ^ 31"
    by (metis le_trans not_le of_nat_less_iff of_nat_numeral of_nat_power order_less_le_trans)
  then have "wrap32 (int k) = int k" by (intro wrap32_id) (simp add: is_int32_def)
  ultimately show "map irItemPosition (item_rows oid 0 items) ! k = map int [0..<length items] ! k"
    by (simp add: item_rows_nth item_params_def)
qed simp

lemma item_rows_ok_length:
  assumes "list_all item_row_ok (item_rows oid 0 items)"
  shows "length items \<le> 2 ^ 31"
proof (rule ccontr)
  assume "\<not> length items \<le> 2 ^ 31"
  then have k: "2 ^ 31 < length items" by simp
  then have "item_row_ok (item_rows oid 0 items ! (2 ^ 31))"
    using assms unfolding list_all_length length_item_rows by blast
  moreover have "irItemPosition (item_rows oid 0 items ! (2 ^ 31)) = wrap32 (2 ^ 31)"
    using k by (simp add: item_rows_nth item_params_def)
  moreover have "wrap32 (2 ^ 31) < 0" by (simp add: wrap32_def)
  ultimately show False by (simp add: item_row_ok_def)
qed

lemma item_rows_ok [simp]: "list_all item_row_ok (item_rows oid 0 items) \<longleftrightarrow> valid_items items"
proof (cases "length items \<le> 2 ^ 31")
  case True
  have "irItemPosition (item_rows oid 0 items ! k) = int k" if "k < length items" for k
    using arg_cong [OF item_positions [OF True, of oid], of "\<lambda>xs. xs ! k"] that by simp
  with True show ?thesis
    by (auto simp: list_all_length valid_items_def item_row_ok_def item_rows_nth)
      (simp_all add: item_params_def)
next
  case False
  then show ?thesis using item_rows_ok_length [of oid items] by (auto simp: valid_items_def)
qed

lemma item_rows_sorted:
  "valid_items items \<Longrightarrow> sort_key irItemPosition (item_rows oid 0 items) = item_rows oid 0 items"
  by (rule sort_key_id_if_sorted) (simp add: item_positions valid_items_def sorted_map)

lemma item_rows_distinct:
  assumes "valid_items items"
  shows "distinct (map item_key (item_rows oid 0 items))"
proof -
  have "distinct (map irItemPosition (item_rows oid 0 items))"
    using assms by (simp add: item_positions valid_items_def distinct_map inj_on_def)
  moreover have "map irItemPosition rs = map (snd \<circ> item_key) rs" for rs
    by (simp add: item_key_def)
  ultimately show ?thesis by (metis distinct_map map_map)
qed

definition items_served :: "attempt \<Rightarrow> order \<Rightarrow> bool" where
  "items_served a o' \<longleftrightarrow> (\<forall>k < length (oItems o'). fault_at a (''CreateOrderItem'', k) = Served)"

lemma insertOrderItems_Inr:
  assumes "oID o' \<notin> irOrderID ` set (order_items db)"
  shows "insertOrderItems a o' db = Inr db' \<longleftrightarrow>
     items_served a o' \<and> valid_items (oItems o') \<and> (oItems o' = [] \<or> oID o' \<in> rowID ` set (orders db)) \<and>
     db' = db\<lparr>order_items := order_items db @ item_rows (oID o') 0 (oItems o')\<rparr>"
proof -
  have "item_key ` set (item_rows (oID o') 0 (oItems o')) \<inter> item_key ` set (order_items db) = {}"
    using assms item_rows_order [of _ "oID o'" 0 "oItems o'"]
    unfolding item_key_def by (auto dest: sym)
  then show ?thesis
    by (auto simp: insertOrderItems_def insert_items_from_Inr items_served_def item_rows_distinct)
qed

lemma list_inserted_items:
  assumes "oID o' \<notin> irOrderID ` set is" "valid_items (oItems o')"
  shows "q_ListOrderItemsByOrderID (oID o') (db\<lparr>order_items := is @ item_rows (oID o') 0 (oItems o')\<rparr>) =
    item_rows (oID o') 0 (oItems o')"
proof -
  have "filter (\<lambda>i. irOrderID i = oID o') is = []" using assms(1) by (rule filter_absent_key)
  moreover have "filter (\<lambda>i. irOrderID i = oID o') (item_rows (oID o') 0 (oItems o')) =
      item_rows (oID o') 0 (oItems o')"
    using item_rows_order by (auto intro: filter_True)
  ultimately show ?thesis
    using item_rows_sorted [OF assms(2)] by (simp add: q_ListOrderItemsByOrderID_def)
qed

section \<open>Committed transactions\<close>

definition created_event :: "repository_config \<Rightarrow> attempt \<Rightarrow> order \<Rightarrow> outbox_row" where
  "created_event cfg a o' =
     stored_event (outbox_params
       (NewOrderCreatedOutboxMessage o' (orderCreatedTopic cfg) (clock_at a ''createdAt'')))"

definition cancelled_event :: "repository_config \<Rightarrow> attempt \<Rightarrow> order \<Rightarrow> outbox_row" where
  "cancelled_event cfg a o' =
     stored_event (outbox_params
       (NewOrderCancelledOutboxMessage o' (orderCancelledTopic cfg) (clock_at a ''createdAt'')))"

lemma created_event_simps [simp]:
  "obID (created_event cfg a o') = ''outbox-'' @ oID o'"
  "obAggregateID (created_event cfg a o') = oID o'"
  "obEventType (created_event cfg a o') = OrderCreatedEventType"
  "obTopic (created_event cfg a o') = orderCreatedTopic cfg"
  "obPublishedAt (created_event cfg a o') = None"
  "obLockedAt (created_event cfg a o') = None"
  by (simp_all add: created_event_def outbox_params_def NewOrderCreatedOutboxMessage_def)

lemma cancelled_event_simps [simp]:
  "obID (cancelled_event cfg a o') = ''outbox-cancelled-'' @ oID o'"
  "obAggregateID (cancelled_event cfg a o') = oID o'"
  "obEventType (cancelled_event cfg a o') = OrderCancelledEventType"
  "obTopic (cancelled_event cfg a o') = orderCancelledTopic cfg"
  "obPublishedAt (cancelled_event cfg a o') = None"
  "obLockedAt (cancelled_event cfg a o') = None"
  by (simp_all add: cancelled_event_def outbox_params_def NewOrderCancelledOutboxMessage_def)

text \<open>The orders the tables accept, whatever else they hold.\<close>

definition storable :: "order \<Rightarrow> bool" where
  "storable o' \<longleftrightarrow>
     oCreatedAt o' \<noteq> zero_time \<and> oUpdatedAt o' \<noteq> zero_time \<and> 0 < mAmountCents (oTotalAmount o') \<and>
     valid_items (oItems o') \<and> readable o'"

lemma storable_persisted [simp]:
  "pg_micros (oCreatedAt o') \<noteq> zero_time \<Longrightarrow> pg_micros (oUpdatedAt o') \<noteq> zero_time \<Longrightarrow>
     storable (persisted o') \<longleftrightarrow> storable o'"
  by (auto simp: storable_def readable_def)

definition fresh_order :: "order_db \<Rightarrow> order \<Rightarrow> bool" where
  "fresh_order db o' \<longleftrightarrow>
     oID o' \<notin> rowID ` set (orders db) \<and>
     \<not> key_taken (rowIdempotencyKey (toOrderDBParams o')) (orders db) \<and>
     ''outbox-'' @ oID o' \<notin> obID ` set (outbox db)"

definition add_order :: "order \<Rightarrow> outbox_row \<Rightarrow> order_db \<Rightarrow> order_db" where
  "add_order o' e db =
     \<lparr>orders = orders db @ [stored_order (toOrderDBParams o')],
      order_items = order_items db @ item_rows (oID o') 0 (oItems o'),
      outbox = outbox db @ [e]\<rparr>"

definition create_served :: "attempt \<Rightarrow> order \<Rightarrow> bool" where
  "create_served a o' \<longleftrightarrow>
     fault_at a (''Begin'', 0) = Served \<and> fault_at a (''CreateOrder'', 0) = Served \<and>
     items_served a o' \<and> fault_at a (''CreateOrderOutboxEvent'', 0) = Served \<and>
     fault_at a (''ListOrderItemsByOrderID'', 0) = Served"

lemma insertOrderCreatedOutboxEvent_Inr:
  "insertOrderCreatedOutboxEvent a o' (orderCreatedTopic cfg) db = Inr db' \<longleftrightarrow>
     TrimSpace (orderCreatedTopic cfg) \<noteq> [] \<and> fault_at a (''CreateOrderOutboxEvent'', 0) = Served \<and>
     ''outbox-'' @ oID o' \<notin> obID ` set (outbox db) \<and>
     db' = db\<lparr>outbox := outbox db @ [created_event cfg a o']\<rparr>"
  by (auto simp: insertOrderCreatedOutboxEvent_def bind_Inr_iff sql_simps created_event_def
      outbox_params_def NewOrderCreatedOutboxMessage_def)

lemma insertOrderCancelledOutboxEvent_Inr:
  "insertOrderCancelledOutboxEvent a o' (orderCancelledTopic cfg) db = Inr db' \<longleftrightarrow>
     TrimSpace (orderCancelledTopic cfg) \<noteq> [] \<and> fault_at a (''CreateOrderOutboxEvent'', 0) = Served \<and>
     ''outbox-cancelled-'' @ oID o' \<notin> obID ` set (outbox db) \<and>
     db' = db\<lparr>outbox := outbox db @ [cancelled_event cfg a o']\<rparr>"
  by (auto simp: insertOrderCancelledOutboxEvent_def bind_Inr_iff sql_simps cancelled_event_def
      outbox_params_def NewOrderCancelledOutboxMessage_def)

lemma no_items_of_new_order:
  "order_db_inv db \<Longrightarrow> oid \<notin> rowID ` set (orders db) \<Longrightarrow> oid \<notin> irOrderID ` set (order_items db)"
  using order_db_invD(5) by blast

lemma tx_CreateOrder_Inr:
  assumes inv: "order_db_inv db"
  shows "tx_CreateOrder cfg a o' db = Inr (x, db') \<longleftrightarrow>
     create_served a o' \<and> TrimSpace (orderCreatedTopic cfg) \<noteq> [] \<and> storable o' \<and> fresh_order db o' \<and>
     x = persisted o' \<and> db' = add_order o' (created_event cfg a o') db"
    (is "?L \<longleftrightarrow> ?R")
proof
  let ?row = "stored_order (toOrderDBParams o')" and ?items = "item_rows (oID o') 0 (oItems o')"
  assume ?L
  then obtain db1 db2 where
    b: "fault_at a (''Begin'', 0) = Served" "fault_at a (''CreateOrder'', 0) = Served"
       "fault_at a (''ListOrderItemsByOrderID'', 0) = Served"
    and c: "q_CreateOrder (toOrderDBParams o') db = Inr (?row, db1)"
    and i: "insertOrderItems a o' db1 = Inr db2"
    and e: "insertOrderCreatedOutboxEvent a o' (orderCreatedTopic cfg) db2 = Inr db'"
    and m: "mapDBOrder ?row (q_ListOrderItemsByOrderID (oID o') db') = Inr x"
    by (auto simp: tx_CreateOrder_def bind_Inr_iff sql_simps split: prod.splits)
  note c' = c [unfolded q_CreateOrder_Inr]
  have new: "oID o' \<notin> irOrderID ` set (order_items db)"
    using no_items_of_new_order [OF inv] c' by simp
  with c' have "oID o' \<notin> irOrderID ` set (order_items db1)" by simp
  note i' = i [unfolded insertOrderItems_Inr [OF this]]
  note e' = e [unfolded insertOrderCreatedOutboxEvent_Inr]
  have db': "db' = add_order o' (created_event cfg a o') db"
    using c' i' e' by (auto simp: add_order_def)
  have "q_ListOrderItemsByOrderID (oID o') db' = ?items"
    using list_inserted_items [OF new, of db'] i' by (simp add: db' add_order_def)
  then have "readable o' \<and> x = persisted o'"
    using m c' mapDBOrder_params [of o'] by simp
  then show ?R
    using b c' i' e' db' by (auto simp: create_served_def storable_def fresh_order_def)
next
  assume ?R
  then have s: "create_served a o'" "TrimSpace (orderCreatedTopic cfg) \<noteq> []" "storable o'"
    "fresh_order db o'" and x: "x = persisted o'" "db' = add_order o' (created_event cfg a o') db"
    by auto
  let ?db1 = "db\<lparr>orders := orders db @ [stored_order (toOrderDBParams o')]\<rparr>"
  let ?db2 = "?db1\<lparr>order_items := order_items db @ item_rows (oID o') 0 (oItems o')\<rparr>"
  have new: "oID o' \<notin> irOrderID ` set (order_items db)"
    using no_items_of_new_order [OF inv] s(4) by (simp add: fresh_order_def)
  have "q_CreateOrder (toOrderDBParams o') db = Inr (stored_order (toOrderDBParams o'), ?db1)"
    using s(3,4) unfolding q_CreateOrder_Inr by (auto simp: storable_def fresh_order_def)
  moreover have "insertOrderItems a o' ?db1 = Inr ?db2"
    using s new by (subst insertOrderItems_Inr) (auto simp: storable_def create_served_def)
  moreover have "insertOrderCreatedOutboxEvent a o' (orderCreatedTopic cfg) ?db2 = Inr db'"
    using s x unfolding insertOrderCreatedOutboxEvent_Inr
    by (auto simp: fresh_order_def create_served_def add_order_def)
  moreover have "mapDBOrder (stored_order (toOrderDBParams o')) (q_ListOrderItemsByOrderID (oID o') db') = Inr x"
    using list_inserted_items [OF new, of db'] s(3) x mapDBOrder_params [of o']
    by (simp add: storable_def add_order_def)
  ultimately show ?L
    using s(1) x by (simp add: tx_CreateOrder_def create_served_def)
qed

definition put_order :: "order \<Rightarrow> outbox_row list \<Rightarrow> order_db \<Rightarrow> order_db" where
  "put_order o' es db =
     \<lparr>orders = replace_row rowID (oID o') (\<lambda>_. stored_order (toOrderDBParams o')) (orders db),
      order_items = filter (\<lambda>i. irOrderID i \<noteq> oID o') (order_items db) @ item_rows (oID o') 0 (oItems o'),
      outbox = outbox db @ es\<rparr>"

text \<open>Whether the update turns the stored row into a cancelled order.\<close>

definition turns_cancelled :: "order_db \<Rightarrow> order \<Rightarrow> bool" where
  "turns_cancelled db o' \<longleftrightarrow>
     oStatus o' = ORDER_STATUS_CANCELLED \<and>
     (\<forall>row. find (\<lambda>r. rowID r = oID o') (orders db) = Some row \<longrightarrow>
        rowStatus row \<noteq> OrderStatus_String ORDER_STATUS_CANCELLED)"

definition update_events :: "repository_config \<Rightarrow> attempt \<Rightarrow> order \<Rightarrow> order_db \<Rightarrow> outbox_row list" where
  "update_events cfg a o' db =
     (if turns_cancelled db o' then [cancelled_event cfg a (persisted o')] else [])"

definition update_served :: "attempt \<Rightarrow> order \<Rightarrow> bool" where
  "update_served a o' \<longleftrightarrow>
     fault_at a (''Begin'', 0) = Served \<and> fault_at a (''GetOrderByID'', 0) = Served \<and>
     fault_at a (''UpdateOrder'', 0) = Served \<and>
     fault_at a (''DeleteOrderItemsByOrderID'', 0) = Served \<and> items_served a o' \<and>
     fault_at a (''ListOrderItemsByOrderID'', 0) = Served"

definition updatable :: "repository_config \<Rightarrow> attempt \<Rightarrow> order_db \<Rightarrow> order \<Rightarrow> bool" where
  "updatable cfg a db o' \<longleftrightarrow>
     oID o' \<in> rowID ` set (orders db) \<and>
     \<not> key_taken (rowIdempotencyKey (toOrderDBParams o')) (filter (\<lambda>r. rowID r \<noteq> oID o') (orders db)) \<and>
     (turns_cancelled db o' \<longrightarrow>
        TrimSpace (orderCancelledTopic cfg) \<noteq> [] \<and>
        fault_at a (''CreateOrderOutboxEvent'', 0) = Served \<and>
        ''outbox-cancelled-'' @ oID o' \<notin> obID ` set (outbox db))"

lemma tx_UpdateOrder_Inr:
  shows "tx_UpdateOrder cfg a o' db = Inr (x, db') \<longleftrightarrow>
     update_served a o' \<and> storable o' \<and> updatable cfg a db o' \<and>
     x = persisted o' \<and> db' = put_order o' (update_events cfg a o' db) db"
    (is "?L \<longleftrightarrow> ?R")
proof -
  let ?row = "stored_order (toOrderDBParams o')" and ?items = "item_rows (oID o') 0 (oItems o')"
  let ?kept = "filter (\<lambda>i. irOrderID i \<noteq> oID o') (order_items db)"
  let ?db1 = "db\<lparr>orders := replace_row rowID (oID o') (\<lambda>_. ?row) (orders db)\<rparr>"
  let ?db2 = "?db1\<lparr>order_items := ?kept\<rparr>"
  let ?db3 = "?db1\<lparr>order_items := ?kept @ ?items\<rparr>"
  have del: "q_DeleteOrderItemsByOrderID (oID o') ?db1 = ?db2"
    by (simp add: q_DeleteOrderItemsByOrderID_def)
  have new: "oID o' \<notin> irOrderID ` set ?kept" by auto
  have ids: "oID o' \<in> rowID ` set (orders ?db1)" if "oID o' \<in> rowID ` set (orders db)"
    using that by simp
  have ins: "insertOrderItems a o' ?db2 = Inr d \<longleftrightarrow> items_served a o' \<and> valid_items (oItems o') \<and> d = ?db3"
    if "oID o' \<in> rowID ` set (orders db)" for d
    using ids [OF that] new by (subst insertOrderItems_Inr) auto
  have list: "q_ListOrderItemsByOrderID (oID o') ?db3 = ?items" if "valid_items (oItems o')"
    using list_inserted_items [OF new that, of ?db1] by simp
  have cancel: "(rowStatus r \<noteq> rowStatus ?row \<and> rowStatus ?row = OrderStatus_String ORDER_STATUS_CANCELLED)
      \<longleftrightarrow> turns_cancelled db o'" if "find (\<lambda>r. rowID r = oID o') (orders db) = Some r" for r
    using that OrderStatus_String_eq_iff [of "oStatus o'" ORDER_STATUS_CANCELLED]
    by (auto simp: turns_cancelled_def)
  show ?thesis
  proof
    assume ?L
    then obtain old db1 db3 m where
      b: "fault_at a (''Begin'', 0) = Served" "fault_at a (''GetOrderByID'', 0) = Served"
         "fault_at a (''UpdateOrder'', 0) = Served" "fault_at a (''ListOrderItemsByOrderID'', 0) = Served"
         "fault_at a (''DeleteOrderItemsByOrderID'', 0) = Served"
      and g: "find (\<lambda>r. rowID r = oID o') (orders db) = Some old"
      and u: "q_UpdateOrder (toOrderDBParams o') db = Inr (?row, db1)"
      and i: "insertOrderItems a o' (q_DeleteOrderItemsByOrderID (oID o') db1) = Inr db3"
      and m: "mapDBOrder ?row (q_ListOrderItemsByOrderID (oID o') db3) = Inr m"
      and e: "(if rowStatus old \<noteq> rowStatus ?row \<and> rowStatus ?row = OrderStatus_String ORDER_STATUS_CANCELLED
        then case insertOrderCancelledOutboxEvent a m (orderCancelledTopic cfg) db3 of
               Inl e \<Rightarrow> Inl e | Inr db4 \<Rightarrow> Inr (m, db4)
        else Inr (m, db3)) = Inr (x, db')"
      by (auto simp: tx_UpdateOrder_def bind_Inr_iff q_GetOrderByID_Inr q_UpdateOrder_Inr
          simp del: exec_Inr OrderStatus_String.simps split: prod.splits dest!: exec_Inr [THEN iffD1])
    note u' = u [unfolded q_UpdateOrder_Inr]
    have here: "oID o' \<in> rowID ` set (orders db)" using u' by simp
    have db1: "db1 = ?db1" using u' by simp
    note i' = i [unfolded db1 del ins [OF here]]
    have "readable o' \<and> m = persisted o'"
      using m u' i' list mapDBOrder_params [of o'] by simp
    with e show ?R
      unfolding cancel [OF g] using b u' i'
      by (auto simp: update_served_def storable_def updatable_def update_events_def put_order_def
          bind_Inr_iff insertOrderCancelledOutboxEvent_Inr split: if_splits)
  next
    assume R: ?R
    then have here: "oID o' \<in> rowID ` set (orders db)" by (simp add: updatable_def)
    then obtain old where g: "find (\<lambda>r. rowID r = oID o') (orders db) = Some old"
      using find_key_None_iff [of rowID "oID o'" "orders db"]
      by (cases "find (\<lambda>r. rowID r = oID o') (orders db)") auto
    have u: "q_UpdateOrder (toOrderDBParams o') db = Inr (?row, ?db1)"
      using R unfolding q_UpdateOrder_Inr by (auto simp: storable_def updatable_def)
    have i: "insertOrderItems a o' ?db2 = Inr ?db3"
      using R unfolding ins [OF here] by (auto simp: storable_def update_served_def)
    have m: "mapDBOrder ?row (q_ListOrderItemsByOrderID (oID o') ?db3) = Inr (persisted o')"
      using R list mapDBOrder_params [of o'] by (simp add: storable_def)
    have c: "insertOrderCancelledOutboxEvent a (persisted o') (orderCancelledTopic cfg) ?db3 =
        Inr (put_order o' (update_events cfg a o' db) db)" if "turns_cancelled db o'"
      using R that unfolding insertOrderCancelledOutboxEvent_Inr
      by (auto simp: updatable_def update_events_def put_order_def)
    have "tx_UpdateOrder cfg a o' db =
       (if turns_cancelled db o'
        then case insertOrderCancelledOutboxEvent a (persisted o') (orderCancelledTopic cfg) ?db3 of
               Inl e \<Rightarrow> Inl e | Inr db4 \<Rightarrow> Inr (persisted o', db4)
        else Inr (persisted o', ?db3))"
      using R u i m unfolding tx_UpdateOrder_def cancel [OF g, symmetric]
      by (simp add: q_GetOrderByID_def g update_served_def del)
    then show ?L
      using R c by (auto simp: update_events_def put_order_def)
  qed
qed

section \<open>The map the tables store\<close>

definition stored_orders :: "order_db \<Rightarrow> string \<Rightarrow> order option" where
  "stored_orders db oid =
     (case find (\<lambda>r. rowID r = oid) (orders db) of
        None \<Rightarrow> None
      | Some row \<Rightarrow>
          (case mapDBOrder row (q_ListOrderItemsByOrderID oid db) of Inl _ \<Rightarrow> None | Inr o' \<Rightarrow> Some o'))"

lemma stored_orders_Some:
  "stored_orders db oid = Some o' \<longleftrightarrow>
     (\<exists>row. find (\<lambda>r. rowID r = oid) (orders db) = Some row \<and>
        mapDBOrder row (q_ListOrderItemsByOrderID oid db) = Inr o')"
  by (auto simp: stored_orders_def split: option.splits sum.splits)

lemma mapDBOrder_ID: "mapDBOrder row items = Inr o' \<Longrightarrow> oID o' = rowID row"
  by (auto simp: mapDBOrder_def bind_Inr_iff)

lemma mapDBOrder_Status: "mapDBOrder row items = Inr o' \<Longrightarrow> rowStatus row = OrderStatus_String (oStatus o')"
  by (auto simp: mapDBOrder_def bind_Inr_iff parseOrderStatus_def OrderStatus_value_def
      split: option.splits if_splits)

lemma stored_orders_ID: "stored_orders db oid = Some o' \<Longrightarrow> oID o' = oid"
  by (auto simp: stored_orders_def dest!: mapDBOrder_ID find_Some_in split: option.splits sum.splits)

lemma stored_orders_row:
  "stored_orders db oid = Some o' \<Longrightarrow>
     \<exists>row. find (\<lambda>r. rowID r = oid) (orders db) = Some row \<and> rowStatus row = OrderStatus_String (oStatus o')"
  by (auto simp: stored_orders_def dest: mapDBOrder_Status split: option.splits sum.splits)

lemma stored_orders_dom: "stored_orders db oid = Some o' \<Longrightarrow> oid \<in> rowID ` set (orders db)"
  by (auto dest!: stored_orders_row find_Some_in)

lemma stored_orders_absent [simp]: "oid \<notin> rowID ` set (orders db) \<Longrightarrow> stored_orders db oid = None"
  using find_key_None_iff [of rowID oid "orders db"] by (simp add: stored_orders_def)

lemma items_of_other:
  "oid \<noteq> oID o' \<Longrightarrow>
     filter (\<lambda>i. irOrderID i = oid) (item_rows (oID o') 0 (oItems o')) = []"
  by (auto simp: filter_empty_conv dest: item_rows_order)

lemma stored_orders_add:
  assumes "order_db_inv db" "fresh_order db o'" "storable o'"
  shows "stored_orders (add_order o' e db) = (stored_orders db)(oID o' \<mapsto> persisted o')"
proof
  fix oid
  have new: "oID o' \<notin> rowID ` set (orders db)" "find (\<lambda>r. rowID r = oID o') (orders db) = None"
    using assms(2) find_key_None_iff [of rowID "oID o'" "orders db"] by (simp_all add: fresh_order_def)
  have items: "q_ListOrderItemsByOrderID (oID o') (add_order o' e db) = item_rows (oID o') 0 (oItems o')"
    using list_inserted_items [OF no_items_of_new_order [OF assms(1) new(1)], of "add_order o' e db"] assms(3)
    by (simp add: storable_def add_order_def)
  have row: "mapDBOrder (stored_order (toOrderDBParams o')) (item_rows (oID o') 0 (oItems o')) = Inr (persisted o')"
    using assms(3) by (subst mapDBOrder_params) (auto simp: storable_def)
  show "stored_orders (add_order o' e db) oid = ((stored_orders db)(oID o' \<mapsto> persisted o')) oid"
  proof (cases "oid = oID o'")
    case True
    then show ?thesis
      using new(2) items row by (simp add: stored_orders_def) (simp add: add_order_def find_append)
  next
    case False
    then show ?thesis
      by (simp add: stored_orders_def q_ListOrderItemsByOrderID_def add_order_def find_append
          items_of_other split: option.split)
  qed
qed

lemma stored_orders_put:
  assumes "oID o' \<in> rowID ` set (orders db)" "storable o'"
  shows "stored_orders (put_order o' es db) = (stored_orders db)(oID o' \<mapsto> persisted o')"
proof
  fix oid
  have new: "oID o' \<notin> irOrderID ` set (filter (\<lambda>i. irOrderID i \<noteq> oID o') (order_items db))" by auto
  have items: "q_ListOrderItemsByOrderID (oID o') (put_order o' es db) = item_rows (oID o') 0 (oItems o')"
    using list_inserted_items [OF new, of "put_order o' es db"] assms(2)
    by (simp add: storable_def put_order_def)
  have row: "mapDBOrder (stored_order (toOrderDBParams o')) (item_rows (oID o') 0 (oItems o')) = Inr (persisted o')"
    using assms(2) by (subst mapDBOrder_params) (auto simp: storable_def)
  have find: "find (\<lambda>r. rowID r = l) (orders (put_order o' es db)) =
      (if l = oID o' then Some (stored_order (toOrderDBParams o')) else find (\<lambda>r. rowID r = l) (orders db))" for l
    using assms(1) by (auto simp: put_order_def find_replace_const)
  show "stored_orders (put_order o' es db) oid = ((stored_orders db)(oID o' \<mapsto> persisted o')) oid"
  proof (cases "oid = oID o'")
    case True
    then show ?thesis unfolding stored_orders_def find using items row by simp
  next
    case False
    have "filter (\<lambda>i. irOrderID i = oid) (filter (\<lambda>i. irOrderID i \<noteq> oID o') (order_items db)) =
        filter (\<lambda>i. irOrderID i = oid) (order_items db)"
      using False by (auto simp: filter_filter intro!: filter_cong)
    then have "q_ListOrderItemsByOrderID oid (put_order o' es db) = q_ListOrderItemsByOrderID oid db"
      using False by (simp add: q_ListOrderItemsByOrderID_def put_order_def items_of_other del: filter_filter)
    then show ?thesis unfolding stored_orders_def find using False by (simp split: option.split)
  qed
qed

subsection \<open>Reading\<close>

lemma pg_GetOrderByID_Inr:
  "pg_GetOrderByID a oid (\<lambda>_. db) = Inr o' \<longleftrightarrow>
     fault_at a (''GetOrderByID'', 0) = Served \<and> fault_at a (''ListOrderItemsByOrderID'', 0) = Served \<and>
     stored_orders db oid = Some o'"
  by (auto simp: pg_GetOrderByID_def bind_Inr_iff sql_simps stored_orders_Some)

lemma pg_GetOrderByID_NotFound:
  "pg_GetOrderByID a oid (\<lambda>_. db) = Inl ErrOrderNotFound \<longleftrightarrow>
     fault_at a (''GetOrderByID'', 0) = Served \<and> oid \<notin> rowID ` set (orders db)"
  by (auto simp: pg_GetOrderByID_def exec_NoRows q_GetOrderByID_Inl wrap_error_def
      split: sum.splits if_splits
      dest!: q_GetOrderByID_Inr [THEN iffD1] find_Some_in)

lemma mapDBOrder_Key:
  "mapDBOrder row items = Inr o' \<Longrightarrow>
     oIdempotencyKey o' = (case rowIdempotencyKey row of None \<Rightarrow> [] | Some k \<Rightarrow> k)"
  by (auto simp: mapDBOrder_def bind_Inr_iff)

lemma unique_idempotency_key:
  assumes "order_db_inv db" "r \<in> set (orders db)" "s \<in> set (orders db)"
    and "rowIdempotencyKey r = Some k" "rowIdempotencyKey s = Some k"
  shows "r = s"
proof (rule ccontr)
  assume ne: "r \<noteq> s"
  obtain xs ys where o': "orders db = xs @ r # ys" using assms(2) by (meson split_list)
  with ne assms(3) have "s \<in> set xs \<union> set ys" by auto
  then have "Some k \<in> rowIdempotencyKey ` (set xs \<union> set ys)" using assms(5) by force
  then show False
    using order_db_invD(2) [OF assms(1)] assms(4) unfolding o' by auto
qed

lemma find_by_key:
  assumes "order_db_inv db" "r \<in> set (orders db)" "rowIdempotencyKey r = Some k"
  shows "find (\<lambda>r. rowIdempotencyKey r = Some k) (orders db) = Some r"
proof (cases "find (\<lambda>r. rowIdempotencyKey r = Some k) (orders db)")
  case None
  then show ?thesis using assms(2,3) by (auto simp: find_None_iff)
next
  case (Some s)
  then have "s \<in> set (orders db)" "rowIdempotencyKey s = Some k" by (auto dest: find_Some_in)
  then have "s = r" using unique_idempotency_key [OF assms(1)] assms(2,3) by blast
  with Some show ?thesis by simp
qed

lemma pg_GetOrderByIdempotencyKey_Inr:
  assumes inv: "order_db_inv db"
  shows "pg_GetOrderByIdempotencyKey a key (\<lambda>_. db) = Inr o' \<longleftrightarrow>
     TrimSpace key \<noteq> [] \<and> fault_at a (''GetOrderByIdempotencyKey'', 0) = Served \<and>
     fault_at a (''ListOrderItemsByOrderID'', 0) = Served \<and>
     stored_orders db (oID o') = Some o' \<and> oIdempotencyKey o' = TrimSpace key"
    (is "?L \<longleftrightarrow> ?R")
proof
  assume ?L
  then obtain row where r: "find (\<lambda>r. rowIdempotencyKey r = Some (TrimSpace key)) (orders db) = Some row"
    "TrimSpace key \<noteq> []" "fault_at a (''GetOrderByIdempotencyKey'', 0) = Served"
    "fault_at a (''ListOrderItemsByOrderID'', 0) = Served"
    "mapDBOrder row (q_ListOrderItemsByOrderID (rowID row) db) = Inr o'"
    by (auto simp: pg_GetOrderByIdempotencyKey_def Let_def bind_Inr_iff q_GetOrderByIdempotencyKey_def
        split: if_splits option.splits)
  have row: "row \<in> set (orders db)" "rowIdempotencyKey row = Some (TrimSpace key)"
    using find_Some_in [OF r(1)] by auto
  then show ?R
    using r mapDBOrder_ID [OF r(5)] mapDBOrder_Key [OF r(5)]
      find_distinct_key [OF order_db_invD(1) [OF inv] row(1)]
    by (simp add: stored_orders_Some)
next
  assume R: ?R
  then obtain row where r: "find (\<lambda>r. rowID r = oID o') (orders db) = Some row"
    "mapDBOrder row (q_ListOrderItemsByOrderID (oID o') db) = Inr o'"
    by (auto simp: stored_orders_Some)
  have "rowIdempotencyKey row = Some (TrimSpace key)"
    using R mapDBOrder_Key [OF r(2)] by (auto split: option.splits)
  then have "find (\<lambda>r. rowIdempotencyKey r = Some (TrimSpace key)) (orders db) = Some row"
    using find_by_key [OF inv] find_Some_in [OF r(1)] by blast
  then show ?L
    using R r find_Some_in [OF r(1)]
    by (simp add: pg_GetOrderByIdempotencyKey_def q_GetOrderByIdempotencyKey_def)
qed

lemma pg_GetOrderByIdempotencyKey_NotFound:
  assumes "pg_GetOrderByIdempotencyKey a key (\<lambda>_. db) = Inl ErrOrderNotFound"
  shows "\<not> key_taken (Some (TrimSpace key)) (orders db)"
  using assms
  by (auto simp: pg_GetOrderByIdempotencyKey_def Let_def exec_NoRows wrap_error_def key_taken_def
      q_GetOrderByIdempotencyKey_def find_None_iff split: if_splits sum.splits option.splits)

section \<open>The invariant of the store\<close>

text \<open>
  Every committed order can be read back, is one the repository accepts, has its
  \<open>order.created\<close> event in the outbox, and has its \<open>order.cancelled\<close> event there when it is
  cancelled.
\<close>

definition sound_order :: "order \<Rightarrow> bool" where
  "sound_order o' \<longleftrightarrow>
     persisted o' = o' \<and> validateOrder o' = None \<and> 0 < mAmountCents (oTotalAmount o') \<and>
     valid_items (oItems o') \<and> readable o'"

lemma validateOrder_persisted [simp]: "validateOrder (persisted o') = validateOrder o'"
  by (simp add: validateOrder_def)

lemma sound_persisted: "storable o' \<Longrightarrow> validateOrder o' = None \<Longrightarrow> sound_order (persisted o')"
  by (simp add: sound_order_def storable_def readable_def)

definition order_store_inv :: "order_db \<Rightarrow> bool" where
  "order_store_inv db \<longleftrightarrow>
     order_db_inv db \<and>
     (\<forall>oid \<in> rowID ` set (orders db). stored_orders db oid \<noteq> None \<and> ''outbox-'' @ oid \<in> obID ` set (outbox db)) \<and>
     (\<forall>oid o'. stored_orders db oid = Some o' \<longrightarrow> sound_order o' \<and>
        (oStatus o' = ORDER_STATUS_CANCELLED \<longrightarrow> ''outbox-cancelled-'' @ oid \<in> obID ` set (outbox db)))"

lemma order_store_invD:
  assumes "order_store_inv db"
  shows "order_db_inv db"
    and "oid \<in> rowID ` set (orders db) \<Longrightarrow> stored_orders db oid \<noteq> None"
    and "oid \<in> rowID ` set (orders db) \<Longrightarrow> ''outbox-'' @ oid \<in> obID ` set (outbox db)"
    and "stored_orders db oid = Some o' \<Longrightarrow> oStatus o' = ORDER_STATUS_CANCELLED \<Longrightarrow>
      ''outbox-cancelled-'' @ oid \<in> obID ` set (outbox db)"
    and "stored_orders db oid = Some o' \<Longrightarrow> sound_order o'"
  using assms by (auto simp: order_store_inv_def)

lemma empty_order_store_inv [simp]: "order_store_inv empty_order_db"
proof -
  have "stored_orders empty_order_db oid = None" for oid
    by (simp add: stored_orders_def empty_order_db_def)
  then show ?thesis by (simp add: order_store_inv_def) (simp add: empty_order_db_def)
qed

lemma item_rows_ok_set: "valid_items items \<Longrightarrow> r \<in> set (item_rows oid 0 items) \<Longrightarrow> item_row_ok r"
  using item_rows_ok [of oid items] by (simp add: list_all_iff)

lemma item_keys_disjoint:
  "oid \<notin> irOrderID ` set is \<Longrightarrow> item_key ` set is \<inter> item_key ` set (item_rows oid 0 items) = {}"
  using item_rows_order [of _ oid 0 items] by (auto simp: item_key_def)

lemma order_db_inv_add:
  assumes inv: "order_db_inv db" and "fresh_order db o'" "storable o'"
  shows "order_db_inv (add_order o' (created_event cfg a o') db)"
proof -
  let ?r = "stored_order (toOrderDBParams o')"
  have keys: "distinct (filter (\<lambda>k. k \<noteq> None) (map rowIdempotencyKey (orders db) @ [rowIdempotencyKey ?r]))"
    unfolding distinct_filter_append
    using assms(2) order_db_invD(2) [OF inv] by (auto simp: fresh_order_def key_taken_def)
  have items: "distinct (map item_key (order_items db @ item_rows (oID o') 0 (oItems o')))"
    using order_db_invD(3) [OF inv] item_rows_distinct assms(3)
      item_keys_disjoint [of "oID o'" "order_items db"] no_items_of_new_order [OF inv, of "oID o'"] assms(2)
    by (simp add: storable_def fresh_order_def)
  have t: "stored_time (obCreatedAt (created_event cfg a o'))"
    by (simp add: created_event_def outbox_params_def)
  show ?thesis
    using inv keys items assms(2,3) t unfolding order_db_inv_def add_order_def
    by (auto simp: fresh_order_def storable_def order_row_ok_def item_rows_ok_set dest: item_rows_order)
qed

lemma order_db_inv_put:
  assumes inv: "order_db_inv db" and "updatable cfg a db o'" "storable o'"
  shows "order_db_inv (put_order o' (update_events cfg a o' db) db)"
proof -
  let ?kept = "filter (\<lambda>i. irOrderID i \<noteq> oID o') (order_items db)"
  let ?db1 = "db\<lparr>orders := replace_row rowID (oID o') (\<lambda>_. stored_order (toOrderDBParams o')) (orders db)\<rparr>"
  have here: "oID o' \<in> rowID ` set (orders db)" using assms(2) by (simp add: updatable_def)
  have "q_UpdateOrder (toOrderDBParams o') db = Inr (stored_order (toOrderDBParams o'), ?db1)"
    using assms(2,3) unfolding q_UpdateOrder_Inr by (auto simp: storable_def updatable_def)
  then have 1: "order_db_inv ?db1" using inv by (rule q_UpdateOrder_inv)
  have "item_key ` set ?kept \<inter> item_key ` set (item_rows (oID o') 0 (oItems o')) = {}"
    by (rule item_keys_disjoint) auto
  then have items: "distinct (map item_key (?kept @ item_rows (oID o') 0 (oItems o')))"
    using order_db_invD(3) [OF inv] item_rows_distinct assms(3)
    by (simp add: storable_def distinct_map_filter)
  have t: "stored_time (obCreatedAt (cancelled_event cfg a p))" for p
    by (simp add: cancelled_event_def outbox_params_def)
  show ?thesis
    using 1 items assms(2,3) t here unfolding order_db_inv_def put_order_def
    by (auto simp: updatable_def update_events_def storable_def item_rows_ok_set dest: item_rows_order)
qed

lemma keys_add_order [simp]:
  "rowID ` set (orders (add_order o' e db)) = insert (oID o') (rowID ` set (orders db))"
  "obID ` set (outbox (add_order o' e db)) = insert (obID e) (obID ` set (outbox db))"
  by (simp_all add: add_order_def)

lemma keys_put_order [simp]:
  "rowID ` set (orders (put_order o' es db)) = rowID ` set (orders db)"
  "obID ` set (outbox (put_order o' es db)) = obID ` set (outbox db) \<union> obID ` set es"
  by (simp_all add: put_order_def image_Un)

lemma order_store_inv_add:
  assumes inv: "order_store_inv db" and o': "fresh_order db o'" "storable o'"
    and valid: "validateOrder o' = None" and "oStatus o' \<noteq> ORDER_STATUS_CANCELLED"
  shows "order_store_inv (add_order o' (created_event cfg a o') db)"
proof -
  note D = order_store_invD [OF inv]
  show ?thesis
    unfolding order_store_inv_def
    using order_db_inv_add [OF D(1) o'] stored_orders_add [OF D(1) o'] D(2-5) assms(5)
      sound_persisted [OF o'(2) valid]
    by (auto split: if_splits)
qed

lemma order_store_inv_put:
  assumes inv: "order_store_inv db" and o': "updatable cfg a db o'" "storable o'"
    and valid: "validateOrder o' = None"
  shows "order_store_inv (put_order o' (update_events cfg a o' db) db)"
proof -
  note D = order_store_invD [OF inv]
  have here: "oID o' \<in> rowID ` set (orders db)" using o'(1) by (simp add: updatable_def)
  obtain old where old: "stored_orders db (oID o') = Some old" using D(2) [OF here] by auto
  have ann: "''outbox-cancelled-'' @ oID o' \<in>
      obID ` set (outbox (put_order o' (update_events cfg a o' db) db))"
    if "oStatus o' = ORDER_STATUS_CANCELLED"
  proof (cases "turns_cancelled db o'")
    case True
    then show ?thesis unfolding keys_put_order by (simp add: update_events_def)
  next
    case False
    then have "oStatus old = ORDER_STATUS_CANCELLED"
      using that stored_orders_row [OF old] OrderStatus_String_eq_iff [of "oStatus old" ORDER_STATUS_CANCELLED]
      unfolding turns_cancelled_def by auto
    then show ?thesis using D(4) [OF old] unfolding keys_put_order by blast
  qed
  have "''outbox-cancelled-'' @ oid \<in> obID ` set (outbox (put_order o' (update_events cfg a o' db) db))"
    if "stored_orders (put_order o' (update_events cfg a o' db) db) oid = Some p"
      and "oStatus p = ORDER_STATUS_CANCELLED" for oid p
  proof (cases "oid = oID o'")
    case True
    then have "p = persisted o'" using that(1) unfolding stored_orders_put [OF here o'(2)] by simp
    then have "oStatus o' = ORDER_STATUS_CANCELLED" using that(2) by simp
    then show ?thesis unfolding True by (rule ann)
  next
    case False
    then show ?thesis
      using that D(4) [of oid p] unfolding stored_orders_put [OF here o'(2)] keys_put_order by simp
  qed
  moreover have "sound_order p"
    if "stored_orders (put_order o' (update_events cfg a o' db) db) oid = Some p" for oid p
    using that D(5) [of oid p] sound_persisted [OF o'(2) valid]
    unfolding stored_orders_put [OF here o'(2)] by (auto split: if_splits)
  ultimately show ?thesis
    unfolding order_store_inv_def
    using order_db_inv_put [OF D(1) o'] stored_orders_put [OF here o'(2)] D(2,3) by auto
qed

section \<open>The methods, committed or not\<close>

definition committed :: "attempt \<Rightarrow> bool" where
  "committed a \<longleftrightarrow> fault_at a (''Commit'', 0) = Served"

lemma pg_CreateOrder_Inr:
  assumes "order_db_inv db"
  shows "pg_CreateOrder cfg a o' db = (Inr x, db') \<longleftrightarrow>
     validateOrder o' = None \<and> committed a \<and> create_served a o' \<and>
     TrimSpace (orderCreatedTopic cfg) \<noteq> [] \<and> storable o' \<and> fresh_order db o' \<and>
     x = persisted o' \<and> db' = add_order o' (created_event cfg a o') db"
  using assms
  by (auto simp: pg_CreateOrder_def commit_tx_Inr_iff tx_CreateOrder_Inr committed_def split: option.splits)

lemma pg_CreateOrder_cases:
  assumes "order_db_inv db" "pg_CreateOrder cfg a o' db = (r, db')"
  obtains (kept) "db' = db" "\<And>x. r \<noteq> Inr x"
  | (added) "db' = add_order o' (created_event cfg a o') db" "storable o'" "fresh_order db o'"
      "validateOrder o' = None" "r = Inr (persisted o') \<or> (\<exists>m. r = Inl (OrderInternal m))"
proof (cases "validateOrder o'")
  case None
  then have c: "commit_tx a (\<lambda>m. OrderInternal (''commit create order transaction: '' @ m)) db
      (tx_CreateOrder cfg a o' db) = (r, db')"
    using assms(2) by (simp add: pg_CreateOrder_def)
  then consider "db' = db" "\<forall>x. r \<noteq> Inr x"
    | x where "tx_CreateOrder cfg a o' db = Inr (x, db')" "r = Inr x \<or> (\<exists>m. r = Inl (OrderInternal m))"
    by (auto simp: commit_tx_def split: sum.splits fault.splits)
  then show ?thesis
    using that tx_CreateOrder_Inr [OF assms(1)] None by cases auto
next
  case (Some e)
  then show ?thesis using assms(2) that(1) by (auto simp: pg_CreateOrder_def)
qed

lemma pg_UpdateOrder_Inr:
  "pg_UpdateOrder cfg a o' db = (Inr x, db') \<longleftrightarrow>
     validateOrder o' = None \<and> committed a \<and> update_served a o' \<and>
     storable o' \<and> updatable cfg a db o' \<and>
     x = persisted o' \<and> db' = put_order o' (update_events cfg a o' db) db"
  by (auto simp: pg_UpdateOrder_def commit_tx_Inr_iff tx_UpdateOrder_Inr committed_def split: option.splits)

lemma pg_UpdateOrder_cases:
  assumes "pg_UpdateOrder cfg a o' db = (r, db')"
  obtains (kept) "db' = db" "\<And>x. r \<noteq> Inr x"
  | (replaced) "db' = put_order o' (update_events cfg a o' db) db" "storable o'" "updatable cfg a db o'"
      "validateOrder o' = None" "r = Inr (persisted o') \<or> (\<exists>m. r = Inl (OrderInternal m))"
proof (cases "validateOrder o'")
  case None
  then have c: "commit_tx a (\<lambda>m. OrderInternal (''commit update order transaction: '' @ m)) db
      (tx_UpdateOrder cfg a o' db) = (r, db')"
    using assms by (simp add: pg_UpdateOrder_def)
  then consider "db' = db" "\<forall>x. r \<noteq> Inr x"
    | x where "tx_UpdateOrder cfg a o' db = Inr (x, db')" "r = Inr x \<or> (\<exists>m. r = Inl (OrderInternal m))"
    by (auto simp: commit_tx_def split: sum.splits fault.splits)
  then show ?thesis
    using that tx_UpdateOrder_Inr None by cases auto
next
  case (Some e)
  then show ?thesis using assms that(1) by (auto simp: pg_UpdateOrder_def)
qed

end
