(* ===== verification/Order_Service.thy ===== *)
theory Order_Service
  imports Order_Store
begin

text \<open>
  The order service (\<open>internal/order/service/service.go\<close>). It reaches its data through the
  \<open>OrderRepository\<close> interface, here a record of functions on an abstract state \<open>'s\<close>. What
  \<open>time.Now()\<close> reads is an argument: \<open>tid\<close> in \<open>newOrderID\<close>, \<open>now\<close> for the timestamps.
\<close>

section \<open>The repository interface\<close>

record 's order_repo =
  rCreateOrder :: "order \<Rightarrow> 's \<Rightarrow> (order_error + order) \<times> 's"
  rGetOrderByID :: "string \<Rightarrow> 's \<Rightarrow> (order_error + order) \<times> 's"
  rGetOrderByIdempotencyKey :: "string \<Rightarrow> 's \<Rightarrow> (order_error + order) \<times> 's"
  rListOrdersByCustomer :: "string \<Rightarrow> int \<Rightarrow> int \<Rightarrow> 's \<Rightarrow> (order_error + (order list \<times> int)) \<times> 's"
  rUpdateOrder :: "order \<Rightarrow> 's \<Rightarrow> (order_error + order) \<times> 's"

definition pg_order_repo ::
    "repository_config \<Rightarrow> (string \<Rightarrow> 'k::linorder) \<Rightarrow> (order_db, 'm) world_scheme order_repo" where
  "pg_order_repo cfg coll =
     \<lparr>rCreateOrder = (\<lambda>o'. with_attempt (\<lambda>a. pg_CreateOrder cfg a o')),
      rGetOrderByID = (\<lambda>oid. with_read (\<lambda>a db. pg_GetOrderByID a oid (\<lambda>_. db))),
      rGetOrderByIdempotencyKey =
        (\<lambda>key. with_read (\<lambda>a db. pg_GetOrderByIdempotencyKey a key (\<lambda>_. db))),
      rListOrdersByCustomer =
        (\<lambda>cid page size. with_read (\<lambda>a db. pg_ListOrdersByCustomer coll a cid page size (\<lambda>_. db))),
      rUpdateOrder = (\<lambda>o'. with_attempt (\<lambda>a. pg_UpdateOrder cfg a o'))\<rparr>"

section \<open>Creating an order\<close>

definition normalize_item :: "order_item \<Rightarrow> order_item" where
  "normalize_item i =
     i\<lparr>iProductID := TrimSpace (iProductID i), iSKU := TrimSpace (iSKU i),
       iProductName := TrimSpace (iProductName i)\<rparr>"

definition normalizeOrderInput :: "order \<Rightarrow> order" where
  "normalizeOrderInput o' =
     o'\<lparr>oCustomerID := TrimSpace (oCustomerID o'),
        oIdempotencyKey := TrimSpace (oIdempotencyKey o'),
        oShippingAddress := \<lparr>
          aCountry = TrimSpace (aCountry (oShippingAddress o')),
          aCity = TrimSpace (aCity (oShippingAddress o')),
          aStreet = TrimSpace (aStreet (oShippingAddress o')),
          aPostalCode = TrimSpace (aPostalCode (oShippingAddress o')),
          aHouse = TrimSpace (aHouse (oShippingAddress o')),
          aApartment = TrimSpace (aApartment (oShippingAddress o'))\<rparr>,
        oPayment := (oPayment o')\<lparr>dMethodDetails := TrimSpace (dMethodDetails (oPayment o'))\<rparr>,
        oItems := map normalize_item (oItems o')\<rparr>"

definition validateCreateOrder :: "order \<Rightarrow> order_error option" where
  "validateCreateOrder o' =
     (if oCustomerID o' = [] \<or> length (oItems o') = 0 then Some ErrInvalidOrder
      else if aCountry (oShippingAddress o') = [] \<or> aCity (oShippingAddress o') = [] \<or>
              aStreet (oShippingAddress o') = [] \<or> aPostalCode (oShippingAddress o') = [] \<or>
              aHouse (oShippingAddress o') = [] then Some ErrInvalidOrder
      else if dMethod (oPayment o') = PAYMENT_METHOD_TYPE_UNSPECIFIED then Some ErrInvalidOrder
      else None)"

definition items_match :: "order_item \<Rightarrow> order_item \<Rightarrow> bool" where
  "items_match existing incoming \<longleftrightarrow>
     iProductID existing = iProductID incoming \<and> iSKU existing = iSKU incoming \<and>
     iProductName existing = iProductName incoming \<and> iQuantity existing = iQuantity incoming \<and>
     iUnitPrice existing = iUnitPrice incoming"

definition ordersMatchForIdempotency :: "order \<Rightarrow> order \<Rightarrow> bool" where
  "ordersMatchForIdempotency existing incoming \<longleftrightarrow>
     oCustomerID existing = oCustomerID incoming \<and>
     oShippingAddress existing = oShippingAddress incoming \<and>
     oPayment existing = oPayment incoming \<and>
     length (oItems existing) = length (oItems incoming) \<and>
     list_all2 items_match (oItems existing) (oItems incoming)"

definition newOrderID :: "time \<Rightarrow> string" where
  "newOrderID t = ''ord-'' @ itoa (UnixNano t)"

text \<open>
  The loop over the items: \<open>acc\<close> is \<open>totalAmount\<close>, \<open>cur\<close> is \<open>totalCurrency\<close>. The products
  and the sum are \<open>int64\<close> and wrap around.
\<close>

fun price_items :: "order_item list \<Rightarrow> int \<Rightarrow> currency \<Rightarrow> order_error + (order_item list \<times> int \<times> currency)"
where
  "price_items [] acc cur = Inr ([], acc, cur)"
| "price_items (i # is) acc cur =
     (let pid = TrimSpace (iProductID i) in
      if pid = [] \<or> iQuantity i \<le> 0 \<or> mAmountCents (iUnitPrice i) \<le> 0 \<or>
         mCurrency (iUnitPrice i) = CURRENCY_UNSPECIFIED then Inl ErrInvalidOrder
      else if cur \<noteq> CURRENCY_UNSPECIFIED \<and> mCurrency (iUnitPrice i) \<noteq> cur then Inl ErrInvalidOrder
      else
        let cur' = (if cur = CURRENCY_UNSPECIFIED then mCurrency (iUnitPrice i) else cur);
            totalPriceCents = wrap64 (iQuantity i * mAmountCents (iUnitPrice i));
            i' = i\<lparr>iProductID := pid,
                   iTotalPrice := \<lparr>mCurrency = mCurrency (iUnitPrice i), mAmountCents = totalPriceCents\<rparr>\<rparr>
        in case price_items is (wrap64 (acc + totalPriceCents)) cur' of
             Inl e \<Rightarrow> Inl e
           | Inr (is', acc', cur'') \<Rightarrow> Inr (i' # is', acc', cur''))"

definition prepare_order :: "time \<Rightarrow> time \<Rightarrow> order \<Rightarrow> order_error + order" where
  "prepare_order tid now o' =
     (let o1 = (if TrimSpace (oID o') = [] then o'\<lparr>oID := newOrderID tid\<rparr> else o')
      in case price_items (oItems o1) 0 CURRENCY_UNSPECIFIED of
           Inl e \<Rightarrow> Inl e
         | Inr (items, totalAmount, totalCurrency) \<Rightarrow>
             Inr (o1\<lparr>oItems := items,
                     oTotalAmount := \<lparr>mCurrency = totalCurrency, mAmountCents = totalAmount\<rparr>,
                     oStatus := ORDER_STATUS_PENDING, oCancelReason := [],
                     oCreatedAt := now, oUpdatedAt := now\<rparr>))"

definition replay :: "order \<Rightarrow> order \<Rightarrow> order_error + order" where
  "replay existing incoming =
     (if ordersMatchForIdempotency existing incoming then Inr existing
      else Inl ErrIdempotencyKeyConflict)"

definition submit_order :: "'s order_repo \<Rightarrow> order \<Rightarrow> 's \<Rightarrow> (order_error + order) \<times> 's" where
  "submit_order repo o' s =
     (case rCreateOrder repo o' s of
        (Inr created, s1) \<Rightarrow> (Inr created, s1)
      | (Inl err, s1) \<Rightarrow>
          (if oIdempotencyKey o' \<noteq> [] \<and> err = ErrIdempotencyKeyAlreadyExists
           then case rGetOrderByIdempotencyKey repo (oIdempotencyKey o') s1 of
                  (Inl getErr, s2) \<Rightarrow> (Inl getErr, s2)
                | (Inr existing, s2) \<Rightarrow> (replay existing o', s2)
           else (Inl err, s1)))"

definition svc_CreateOrder ::
    "'s order_repo \<Rightarrow> time \<Rightarrow> time \<Rightarrow> order \<Rightarrow> 's \<Rightarrow> (order_error + order) \<times> 's" where
  "svc_CreateOrder repo tid now order0 s =
     (let o' = normalizeOrderInput order0;
          proceed = (\<lambda>s1. case prepare_order tid now o' of
             Inl e \<Rightarrow> (Inl e, s1)
           | Inr p \<Rightarrow> submit_order repo p s1)
      in if validateCreateOrder o' \<noteq> None then (Inl ErrInvalidOrder, s)
      else if oIdempotencyKey o' \<noteq> [] then
        (case rGetOrderByIdempotencyKey repo (oIdempotencyKey o') s of
           (Inr existing, s1) \<Rightarrow> (replay existing o', s1)
         | (Inl err, s1) \<Rightarrow> if err \<noteq> ErrOrderNotFound then (Inl err, s1) else proceed s1)
      else proceed s)"

section \<open>Reading and changing an order\<close>

definition svc_GetOrderByID :: "'s order_repo \<Rightarrow> string \<Rightarrow> 's \<Rightarrow> (order_error + order) \<times> 's" where
  "svc_GetOrderByID repo oid s =
     (if TrimSpace oid = [] then (Inl ErrInvalidOrderID, s) else rGetOrderByID repo oid s)"

definition canCancelOrder :: "order_status \<Rightarrow> bool" where
  "canCancelOrder st \<longleftrightarrow>
     st \<in> {ORDER_STATUS_PENDING, ORDER_STATUS_AWAITING_PAYMENT, ORDER_STATUS_CONFIRMED}"

definition cancelOrderWithReason :: "time \<Rightarrow> order \<Rightarrow> string \<Rightarrow> order" where
  "cancelOrderWithReason now o' reason =
     o'\<lparr>oStatus := ORDER_STATUS_CANCELLED, oCancelReason := TrimSpace reason, oUpdatedAt := now\<rparr>"

definition svc_CancelOrder ::
    "'s order_repo \<Rightarrow> time \<Rightarrow> string \<Rightarrow> string \<Rightarrow> 's \<Rightarrow> (order_error + order) \<times> 's" where
  "svc_CancelOrder repo now oid reason0 s =
     (if TrimSpace oid = [] then (Inl ErrInvalidOrderID, s)
      else let reason = TrimSpace reason0 in
      if reason = [] then (Inl ErrInvalidOrder, s)
      else
        case rGetOrderByID repo oid s of
          (Inl err, s1) \<Rightarrow> (Inl err, s1)
        | (Inr o', s1) \<Rightarrow>
            (if oStatus o' = ORDER_STATUS_CANCELLED then (Inr o', s1)
             else if \<not> canCancelOrder (oStatus o') then (Inl ErrOrderCannotBeCancelled, s1)
             else rUpdateOrder repo (cancelOrderWithReason now o' reason) s1))"

text \<open>\<open>transitionOrder\<close>: read, decide, and write unless there is nothing to persist.\<close>

definition finish_transition ::
    "'s order_repo \<Rightarrow> (order \<Rightarrow> order_error + (order \<times> bool)) \<Rightarrow> order_error + order \<Rightarrow> 's \<Rightarrow>
     (order_error + order) \<times> 's" where
  "finish_transition repo step r s1 =
     (case r of
        Inl err \<Rightarrow> (Inl err, s1)
      | Inr o' \<Rightarrow>
          (case step o' of
             Inl err \<Rightarrow> (Inl err, s1)
           | Inr (updated, shouldPersist) \<Rightarrow>
               if \<not> shouldPersist then (Inr updated, s1) else rUpdateOrder repo updated s1))"

definition transitionOrder ::
    "'s order_repo \<Rightarrow> string \<Rightarrow> (order \<Rightarrow> order_error + (order \<times> bool)) \<Rightarrow> 's \<Rightarrow> (order_error + order) \<times> 's"
where
  "transitionOrder repo oid step s =
     (case rGetOrderByID repo oid s of (r, s1) \<Rightarrow> finish_transition repo step r s1)"

definition reserved_step :: "time \<Rightarrow> order \<Rightarrow> order_error + (order \<times> bool)" where
  "reserved_step now o' =
     (case oStatus o' of
        ORDER_STATUS_PENDING \<Rightarrow>
          Inr (o'\<lparr>oStatus := ORDER_STATUS_AWAITING_PAYMENT, oCancelReason := [], oUpdatedAt := now\<rparr>, True)
      | _ \<Rightarrow> Inr (o', False))"

definition captured_step :: "time \<Rightarrow> order \<Rightarrow> order_error + (order \<times> bool)" where
  "captured_step now o' =
     (if oStatus o' = ORDER_STATUS_PENDING \<or> oStatus o' = ORDER_STATUS_AWAITING_PAYMENT
      then Inr (o'\<lparr>oStatus := ORDER_STATUS_CONFIRMED, oCancelReason := [], oUpdatedAt := now\<rparr>, True)
      else Inr (o', False))"

definition failed_step :: "time \<Rightarrow> string \<Rightarrow> order \<Rightarrow> order_error + (order \<times> bool)" where
  "failed_step now reason o' =
     (if oStatus o' = ORDER_STATUS_PENDING \<or> oStatus o' = ORDER_STATUS_AWAITING_PAYMENT
      then Inr (cancelOrderWithReason now o' reason, True)
      else Inr (o', False))"

definition svc_MarkInventoryReserved ::
    "'s order_repo \<Rightarrow> time \<Rightarrow> string \<Rightarrow> 's \<Rightarrow> (order_error + order) \<times> 's" where
  "svc_MarkInventoryReserved repo now oid s = transitionOrder repo oid (reserved_step now) s"

definition svc_MarkInventoryReservationFailed ::
    "'s order_repo \<Rightarrow> time \<Rightarrow> string \<Rightarrow> string \<Rightarrow> 's \<Rightarrow> (order_error + order) \<times> 's" where
  "svc_MarkInventoryReservationFailed repo now oid reason0 s =
     (let reason = (if TrimSpace reason0 = [] then ''inventory reservation failed'' else reason0)
      in transitionOrder repo oid (failed_step now reason) s)"

definition svc_MarkPaymentCaptured ::
    "'s order_repo \<Rightarrow> time \<Rightarrow> string \<Rightarrow> 's \<Rightarrow> (order_error + order) \<times> 's" where
  "svc_MarkPaymentCaptured repo now oid s = transitionOrder repo oid (captured_step now) s"

definition svc_MarkPaymentFailed ::
    "'s order_repo \<Rightarrow> time \<Rightarrow> string \<Rightarrow> string \<Rightarrow> 's \<Rightarrow> (order_error + order) \<times> 's" where
  "svc_MarkPaymentFailed repo now oid reason0 s =
     (let reason = (if TrimSpace reason0 = [] then ''payment failed'' else reason0)
      in transitionOrder repo oid (failed_step now reason) s)"

definition svc_MarkPaymentCreationFailed ::
    "'s order_repo \<Rightarrow> time \<Rightarrow> string \<Rightarrow> string \<Rightarrow> 's \<Rightarrow> (order_error + order) \<times> 's" where
  "svc_MarkPaymentCreationFailed repo now oid reason0 s =
     (let reason = (if TrimSpace reason0 = [] then ''payment creation failed'' else reason0)
      in transitionOrder repo oid (failed_step now reason) s)"

definition svc_ListOrdersByCustomer ::
    "'s order_repo \<Rightarrow> string \<Rightarrow> int \<Rightarrow> int \<Rightarrow> 's \<Rightarrow> (order_error + (order list \<times> int)) \<times> 's" where
  "svc_ListOrdersByCustomer repo cid page pageSize s =
     (if TrimSpace cid = [] then (Inl ErrInvalidCustomerID, s)
      else rListOrdersByCustomer repo cid page pageSize s)"

end
