(* ===== verification/Order_Service_Laws.thy ===== *)
theory Order_Service_Laws
  imports Order_Service
begin

text \<open>
  What the service guarantees on any repository with the laws of \<open>order_repository\<close>, and
  more on one that no other client changes (\<open>quiet_order_repository\<close>). \<open>store s\<close> is the map
  of the stored orders; \<open>sees s m\<close> says that a call started in \<open>s\<close> may find the map \<open>m\<close>,
  since other clients write between the calls. Both contracts are then met by the
  PostgreSQL repository.
\<close>

section \<open>Lawful changes\<close>

text \<open>What no operation but creation decides.\<close>

definition same_purchase :: "order \<Rightarrow> order \<Rightarrow> bool" where
  "same_purchase o1 o2 \<longleftrightarrow>
     oID o1 = oID o2 \<and> oCustomerID o1 = oCustomerID o2 \<and> oItems o1 = oItems o2 \<and>
     oTotalAmount o1 = oTotalAmount o2 \<and> oShippingAddress o1 = oShippingAddress o2 \<and>
     oPayment o1 = oPayment o2 \<and> TrimSpace (oIdempotencyKey o1) = TrimSpace (oIdempotencyKey o2)"

lemma same_purchase_refl [simp]: "same_purchase o1 o1"
  by (simp add: same_purchase_def)

lemma same_purchase_trans: "same_purchase o1 o2 \<Longrightarrow> same_purchase o2 o3 \<Longrightarrow> same_purchase o1 o3"
  by (simp add: same_purchase_def)

lemma same_purchase_persisted [simp]: "same_purchase o1 (persisted o2) \<longleftrightarrow> same_purchase o1 o2"
  by (simp add: same_purchase_def)

inductive order_change :: "order option \<Rightarrow> order option \<Rightarrow> bool" where
  unchanged: "order_change x x"
| placed: "oStatus o' = ORDER_STATUS_PENDING \<Longrightarrow> order_change None (Some o')"
| moved: "order_step (oStatus o1) (oStatus o2) \<Longrightarrow> same_purchase o1 o2 \<Longrightarrow> order_change (Some o1) (Some o2)"

definition legal_change :: "(string \<Rightarrow> order option) \<Rightarrow> (string \<Rightarrow> order option) \<Rightarrow> bool" where
  "legal_change m m' \<longleftrightarrow> (\<forall>oid. order_change (m oid) (m' oid))"

lemma legal_change_refl [simp]: "legal_change m m"
  by (simp add: legal_change_def unchanged)

lemma legal_change_upd: "order_change (m oid) x \<Longrightarrow> legal_change m (m(oid := x))"
  by (simp add: legal_change_def unchanged)

section \<open>The steps are lawful\<close>

text \<open>A decision of \<open>transitionOrder\<close>: keep the order, or move it along \<open>order_step\<close>.\<close>

definition lawful_step :: "(order \<Rightarrow> order_error + (order \<times> bool)) \<Rightarrow> bool" where
  "lawful_step step \<longleftrightarrow>
     (\<forall>o1. \<exists>o2 b. step o1 = Inr (o2, b) \<and> same_purchase o1 o2 \<and>
        (if b then order_step (oStatus o1) (oStatus o2) else o2 = o1))"

definition cancel_step :: "time \<Rightarrow> string \<Rightarrow> order \<Rightarrow> order_error + (order \<times> bool)" where
  "cancel_step now reason o' =
     (if canCancelOrder (oStatus o') then Inr (cancelOrderWithReason now o' reason, True)
      else Inr (o', False))"

lemma canCancelOrder_step [simp]: "canCancelOrder st \<longleftrightarrow> order_step st ORDER_STATUS_CANCELLED"
  by (cases st) (simp_all add: canCancelOrder_def)

lemma lawful_stepI:
  assumes "\<And>o1. \<exists>o2 b. step o1 = Inr (o2, b) \<and> same_purchase o1 o2 \<and>
     (if b then order_step (oStatus o1) (oStatus o2) else o2 = o1)"
  shows "lawful_step step"
  using assms by (simp add: lawful_step_def)

lemma lawful_reserved [simp]: "lawful_step (reserved_step now)"
proof (rule lawful_stepI)
  fix o1 show "\<exists>o2 b. reserved_step now o1 = Inr (o2, b) \<and> same_purchase o1 o2 \<and>
      (if b then order_step (oStatus o1) (oStatus o2) else o2 = o1)"
    by (cases "oStatus o1") (simp_all add: reserved_step_def same_purchase_def ex_bool_eq)
qed

lemma lawful_captured [simp]: "lawful_step (captured_step now)"
proof (rule lawful_stepI)
  fix o1 show "\<exists>o2 b. captured_step now o1 = Inr (o2, b) \<and> same_purchase o1 o2 \<and>
      (if b then order_step (oStatus o1) (oStatus o2) else o2 = o1)"
    by (cases "oStatus o1") (simp_all add: captured_step_def same_purchase_def ex_bool_eq)
qed

lemma lawful_failed [simp]: "lawful_step (failed_step now reason)"
proof (rule lawful_stepI)
  fix o1 show "\<exists>o2 b. failed_step now reason o1 = Inr (o2, b) \<and> same_purchase o1 o2 \<and>
      (if b then order_step (oStatus o1) (oStatus o2) else o2 = o1)"
    by (cases "oStatus o1") (simp_all add: failed_step_def cancelOrderWithReason_def same_purchase_def ex_bool_eq)
qed

lemma lawful_cancel [simp]: "lawful_step (cancel_step now reason)"
proof (rule lawful_stepI)
  fix o1 show "\<exists>o2 b. cancel_step now reason o1 = Inr (o2, b) \<and> same_purchase o1 o2 \<and>
      (if b then order_step (oStatus o1) (oStatus o2) else o2 = o1)"
    by (cases "oStatus o1") (simp_all add: cancel_step_def cancelOrderWithReason_def same_purchase_def ex_bool_eq)
qed

lemma prepare_order_fields:
  assumes "prepare_order tid now o' = Inr p"
  shows "oStatus p = ORDER_STATUS_PENDING \<and> oCancelReason p = [] \<and>
    oCreatedAt p = now \<and> oUpdatedAt p = now \<and>
    oID p = (if TrimSpace (oID o') = [] then newOrderID tid else oID o') \<and>
    oCustomerID p = oCustomerID o' \<and> oIdempotencyKey p = oIdempotencyKey o' \<and>
    oShippingAddress p = oShippingAddress o' \<and> oPayment p = oPayment o'"
proof -
  let ?o = "if TrimSpace (oID o') = [] then o'\<lparr>oID := newOrderID tid\<rparr> else o'"
  obtain items amt cur where
    p: "p = ?o\<lparr>oItems := items, oTotalAmount := \<lparr>mCurrency = cur, mAmountCents = amt\<rparr>,
       oStatus := ORDER_STATUS_PENDING, oCancelReason := [], oCreatedAt := now, oUpdatedAt := now\<rparr>"
    using assms unfolding prepare_order_def Let_def bind_Inr_iff by (auto split: prod.splits)
  show ?thesis by (simp add: p)
qed

lemma prepare_order_Inr:
  assumes "prepare_order tid now o' = Inr p"
  shows "oStatus p = ORDER_STATUS_PENDING" "oCancelReason p = []"
    "oCreatedAt p = now" "oUpdatedAt p = now"
    "oID p = (if TrimSpace (oID o') = [] then newOrderID tid else oID o')"
    "oCustomerID p = oCustomerID o'" "oIdempotencyKey p = oIdempotencyKey o'"
    "oShippingAddress p = oShippingAddress o'" "oPayment p = oPayment o'"
    "price_items (oItems o') 0 CURRENCY_UNSPECIFIED =
       Inr (oItems p, mAmountCents (oTotalAmount p), mCurrency (oTotalAmount p))"
proof -
  let ?o = "if TrimSpace (oID o') = [] then o'\<lparr>oID := newOrderID tid\<rparr> else o'"
  have eq: "oItems ?o = oItems o'" by simp
  obtain items amt cur where pr: "price_items (oItems o') 0 CURRENCY_UNSPECIFIED = Inr (items, amt, cur)"
    and p: "p = ?o\<lparr>oItems := items, oTotalAmount := \<lparr>mCurrency = cur, mAmountCents = amt\<rparr>,
       oStatus := ORDER_STATUS_PENDING, oCancelReason := [], oCreatedAt := now, oUpdatedAt := now\<rparr>"
    using assms unfolding prepare_order_def Let_def bind_Inr_iff eq by (auto split: prod.splits)
  show "price_items (oItems o') 0 CURRENCY_UNSPECIFIED =
       Inr (oItems p, mAmountCents (oTotalAmount p), mCurrency (oTotalAmount p))"
    by (simp add: p pr)
qed (use assms in \<open>simp_all add: prepare_order_fields\<close>)

section \<open>The contract of the repository\<close>

text \<open>Calls that write nothing: the store is what the last of them finds.\<close>

abbreviation idle ::
    "('s \<Rightarrow> bool) \<Rightarrow> ('s \<Rightarrow> 'm) \<Rightarrow> ('s \<Rightarrow> 'm \<Rightarrow> bool) \<Rightarrow> 's \<Rightarrow> 's \<Rightarrow> bool" where
  "idle P store sees \<equiv> (\<lambda>a b. P b \<and> sees a (store b))\<^sup>*\<^sup>*"

locale order_repository =
  fixes repo :: "'s order_repo"
    and inv :: "'s \<Rightarrow> bool"
    and store :: "'s \<Rightarrow> string \<Rightarrow> order option"
    and sees :: "'s \<Rightarrow> (string \<Rightarrow> order option) \<Rightarrow> bool"
  assumes get: "inv s \<Longrightarrow> rGetOrderByID repo oid s = (r, s') \<Longrightarrow>
      inv s' \<and> sees s (store s') \<and> (\<forall>o'. r = Inr o' \<longrightarrow> store s' oid = Some o')"
    and by_key: "inv s \<Longrightarrow> rGetOrderByIdempotencyKey repo key s = (r, s') \<Longrightarrow>
      inv s' \<and> sees s (store s') \<and>
      (\<forall>o'. r = Inr o' \<longrightarrow> store s' (oID o') = Some o' \<and> oIdempotencyKey o' = TrimSpace key)"
    and by_customer: "inv s \<Longrightarrow> rListOrdersByCustomer repo cid page pageSize s = (rs, s') \<Longrightarrow>
      inv s' \<and> sees s (store s')"
    and create: "inv s \<Longrightarrow> oStatus o' \<noteq> ORDER_STATUS_CANCELLED \<Longrightarrow> rCreateOrder repo o' s = (r, s') \<Longrightarrow>
      inv s' \<and> (\<exists>m. sees s m \<and>
        (store s' = m \<and> (\<forall>x. r \<noteq> Inr x) \<or>
         store s' = m(oID o' \<mapsto> persisted o') \<and> m (oID o') = None \<and>
         (\<forall>x. r = Inr x \<longrightarrow> x = persisted o') \<and> r \<noteq> Inl ErrIdempotencyKeyAlreadyExists))"
    and update: "inv s \<Longrightarrow> rUpdateOrder repo o' s = (r, s') \<Longrightarrow>
      inv s' \<and> (\<exists>m. sees s m \<and>
        (store s' = m \<and> (\<forall>x. r \<noteq> Inr x) \<or>
         store s' = m(oID o' \<mapsto> persisted o') \<and> m (oID o') \<noteq> None \<and> (\<forall>x. r = Inr x \<longrightarrow> x = persisted o')))"
    and store_id: "inv s \<Longrightarrow> store s oid = Some o' \<Longrightarrow> oID o' = oid"
begin

lemma get_order_inv: "inv s \<Longrightarrow> svc_GetOrderByID repo oid s = (r, s') \<Longrightarrow> inv s'"
  by (auto simp: svc_GetOrderByID_def dest: get split: if_splits)

text \<open>
  A transition reads the order as some \<open>m1\<close> had it, and either writes nothing or stores the
  decided order into the map \<open>m2\<close> that its write finds.
\<close>

lemma transition_cases:
  assumes "inv s" "transitionOrder repo oid step s = (r, s')" "lawful_step step"
  obtains (failed) "inv s'" "sees s (store s')" "\<And>x. r \<noteq> Inr x"
  | (kept) o1 where "inv s'" "sees s (store s')" "store s' oid = Some o1" "step o1 = Inr (o1, False)" "r = Inr o1"
  | (lost) o1 o2 s1 where "inv s'" "inv s1" "sees s (store s1)" "sees s1 (store s')" "store s1 oid = Some o1"
      "step o1 = Inr (o2, True)" "\<And>x. r \<noteq> Inr x"
  | (stored) o1 o2 s1 m where "inv s'" "inv s1" "sees s (store s1)" "store s1 oid = Some o1"
      "step o1 = Inr (o2, True)" "sees s1 m" "m oid \<noteq> None" "oID o2 = oid"
      "store s' = m(oid \<mapsto> persisted o2)" "\<And>x. r = Inr x \<Longrightarrow> x = persisted o2"
proof -
  obtain r1 s1 where g: "rGetOrderByID repo oid s = (r1, s1)" by fastforce
  note G = get [OF assms(1) g]
  have t: "finish_transition repo step r1 s1 = (r, s')"
    using assms(2) g by (simp add: transitionOrder_def)
  show ?thesis
  proof (cases r1)
    case (Inl e)
    then show ?thesis using t G failed by (auto simp: finish_transition_def)
  next
    case (Inr o1)
    obtain o2 b where st: "step o1 = Inr (o2, b)" "same_purchase o1 o2"
      "if b then order_step (oStatus o1) (oStatus o2) else o2 = o1"
      using assms(3) unfolding lawful_step_def by blast
    have o1: "store s1 oid = Some o1" using G Inr by simp
    show ?thesis
    proof (cases b)
      case False
      then show ?thesis using t G Inr o1 st kept by (auto simp: finish_transition_def)
    next
      case True
      then have u: "rUpdateOrder repo o2 s1 = (r, s')" using t Inr st by (simp add: finish_transition_def)
      have id2: "oID o2 = oid" using st(2) store_id [OF _ o1] G by (simp add: same_purchase_def)
      from update [OF conjunct1 [OF G] u] obtain m where m: "inv s'" "sees s1 m"
        "store s' = m \<and> (\<forall>x. r \<noteq> Inr x) \<or>
         store s' = m(oid \<mapsto> persisted o2) \<and> m oid \<noteq> None \<and> (\<forall>x. r = Inr x \<longrightarrow> x = persisted o2)"
        unfolding id2 by blast
      have s1: "inv s1" "sees s (store s1)" using G by auto
      have st2: "step o1 = Inr (o2, True)" using st(1) True by simp
      from m(3) show ?thesis
      proof
        assume "store s' = m \<and> (\<forall>x. r \<noteq> Inr x)"
        then show ?thesis using lost [OF m(1) s1 _ o1 st2] m(2) by simp
      next
        assume "store s' = m(oid \<mapsto> persisted o2) \<and> m oid \<noteq> None \<and> (\<forall>x. r = Inr x \<longrightarrow> x = persisted o2)"
        then show ?thesis using stored [OF m(1) s1 o1 st2 m(2) _ id2] by blast
      qed
    qed
  qed
qed

lemma transition_inv:
  "inv s \<Longrightarrow> transitionOrder repo oid step s = (r, s') \<Longrightarrow> lawful_step step \<Longrightarrow> inv s'"
  by (erule (2) transition_cases)

lemma cancel_as_transition:
  assumes "inv s" "svc_CancelOrder repo now oid reason s = (r, s')"
  obtains "s' = s" "\<And>x. r \<noteq> Inr x"
  | r' where "transitionOrder repo oid (cancel_step now (TrimSpace reason)) s = (r', s')"
    "\<And>x. r = Inr x \<Longrightarrow> r' = Inr x"
proof -
  show ?thesis
  proof (cases "TrimSpace oid = [] \<or> TrimSpace reason = []")
    case True
    then show ?thesis using assms that(1) by (auto simp: svc_CancelOrder_def Let_def split: if_splits)
  next
    case False
    obtain r1 s1 where g: "rGetOrderByID repo oid s = (r1, s1)" by fastforce
    show ?thesis
      using assms(2) False g that(2)
      by (cases r1) (auto simp: svc_CancelOrder_def transitionOrder_def finish_transition_def
          Let_def cancel_step_def split: if_splits)
  qed
qed

lemma submit_cases:
  assumes "inv s" "oStatus o' \<noteq> ORDER_STATUS_CANCELLED" "submit_order repo o' s = (r, s')"
  obtains (failed) "inv s'" "idle inv store sees s s'" "\<And>x. r \<noteq> Inr x"
  | (replayed) x where "inv s'" "idle inv store sees s s'" "r = Inr x" "store s' (oID x) = Some x"
      "oIdempotencyKey o' \<noteq> []" "oIdempotencyKey x = TrimSpace (oIdempotencyKey o')"
      "ordersMatchForIdempotency x o'"
  | (created) m where "inv s'" "sees s m" "m (oID o') = None" "store s' = m(oID o' \<mapsto> persisted o')"
      "\<And>x. r = Inr x \<Longrightarrow> x = persisted o'"
proof -
  obtain r1 s1 where c: "rCreateOrder repo o' s = (r1, s1)" by fastforce
  from create [OF assms(1,2) c] obtain m where m: "inv s1" "sees s m"
    "store s1 = m \<and> (\<forall>x. r1 \<noteq> Inr x) \<or>
     store s1 = m(oID o' \<mapsto> persisted o') \<and> m (oID o') = None \<and>
       (\<forall>x. r1 = Inr x \<longrightarrow> x = persisted o') \<and> r1 \<noteq> Inl ErrIdempotencyKeyAlreadyExists" by blast
  show ?thesis
  proof (cases "store s1 = m \<and> (\<forall>x. r1 \<noteq> Inr x)")
    case True
    then have 1: "inv s1 \<and> sees s (store s1)" using m by simp
    obtain e where e: "r1 = Inl e" using True by (cases r1) auto
    show ?thesis
    proof (cases "oIdempotencyKey o' \<noteq> [] \<and> e = ErrIdempotencyKeyAlreadyExists")
      case retry: True
      obtain r2 s2 where k: "rGetOrderByIdempotencyKey repo (oIdempotencyKey o') s1 = (r2, s2)" by fastforce
      note K = by_key [OF m(1) k]
      have 2: "idle inv store sees s s2"
        by (rule converse_rtranclp_into_rtranclp [of _ _ s1]) (use 1 K in \<open>auto intro: r_into_rtranclp\<close>)
      show ?thesis
        using assms(3) c e retry k K 2 failed replayed
        by (cases r2) (auto simp: submit_order_def replay_def split: if_splits)
    next
      case False
      then have s': "s' = s1" "\<And>x. r \<noteq> Inr x"
        using assms(3) c e by (auto simp: submit_order_def)
      have "idle inv store sees s s1" using 1 by (intro r_into_rtranclp) simp
      then show ?thesis using failed s' m(1) by blast
    qed
  next
    case False
    then have n: "store s1 = m(oID o' \<mapsto> persisted o')" "m (oID o') = None"
      "\<And>x. r1 = Inr x \<Longrightarrow> x = persisted o'" "r1 \<noteq> Inl ErrIdempotencyKeyAlreadyExists" using m(3) by auto
    then have "(r, s') = (r1, s1)"
      using assms(3) c by (auto simp: submit_order_def split: sum.splits)
    then show ?thesis using created m(1,2) n by blast
  qed
qed

lemma create_cases:
  assumes "inv s" "svc_CreateOrder repo tid now order0 s = (r, s')"
  obtains (failed) "inv s'" "idle inv store sees s s'" "\<And>x. r \<noteq> Inr x"
  | (replayed) x o2 where "inv s'" "idle inv store sees s s'" "r = Inr x" "store s' (oID x) = Some x"
      "TrimSpace (oIdempotencyKey order0) \<noteq> []" "oIdempotencyKey x = TrimSpace (oIdempotencyKey order0)"
      "o2 = normalizeOrderInput order0 \<or> prepare_order tid now (normalizeOrderInput order0) = Inr o2"
      "ordersMatchForIdempotency x o2"
  | (created) p s1 m where "inv s'" "idle inv store sees s s1" "inv s1" "sees s1 m"
      "validateCreateOrder (normalizeOrderInput order0) = None"
      "prepare_order tid now (normalizeOrderInput order0) = Inr p"
      "m (oID p) = None" "store s' = m(oID p \<mapsto> persisted p)" "\<And>x. r = Inr x \<Longrightarrow> x = persisted p"
proof -
  let ?o = "normalizeOrderInput order0"
  have key: "oIdempotencyKey ?o = TrimSpace (oIdempotencyKey order0)"
    by (simp add: normalizeOrderInput_def)
  have proceed: thesis if i: "inv s1" "idle inv store sees s s1" "validateCreateOrder ?o = None"
    and p: "(case prepare_order tid now ?o of Inl e \<Rightarrow> (Inl e, s1) | Inr p \<Rightarrow> submit_order repo p s1) = (r, s')" for s1
  proof (cases "prepare_order tid now ?o")
    case (Inl e)
    then have "s' = s1" "\<And>x. r \<noteq> Inr x" using p by auto
    then show ?thesis using i failed by blast
  next
    case (Inr p')
    note F = prepare_order_fields [OF Inr]
    have sub: "submit_order repo p' s1 = (r, s')" and st: "oStatus p' \<noteq> ORDER_STATUS_CANCELLED"
      using p Inr F by auto
    show ?thesis
    proof (rule submit_cases [OF i(1) st sub])
      assume "inv s'" "idle inv store sees s1 s'" "\<And>x. r \<noteq> Inr x"
      then show ?thesis using failed i(2) by (meson rtranclp_trans)
    next
      fix x assume x: "inv s'" "idle inv store sees s1 s'" "r = Inr x" "store s' (oID x) = Some x"
        "oIdempotencyKey p' \<noteq> []" "oIdempotencyKey x = TrimSpace (oIdempotencyKey p')"
        "ordersMatchForIdempotency x p'"
      have "idle inv store sees s s'" using i(2) x(2) by (rule rtranclp_trans)
      then show ?thesis using replayed [of x p'] x F key Inr by simp
    next
      fix m assume "inv s'" "sees s1 m" "m (oID p') = None" "store s' = m(oID p' \<mapsto> persisted p')"
        "\<And>x. r = Inr x \<Longrightarrow> x = persisted p'"
      then show ?thesis using created [of s1 m p'] i Inr by blast
    qed
  qed
  show ?thesis
  proof (cases "validateCreateOrder ?o = None \<and> oIdempotencyKey ?o \<noteq> []")
    case True
    obtain r1 s1 where k: "rGetOrderByIdempotencyKey repo (oIdempotencyKey ?o) s = (r1, s1)" by fastforce
    note K = by_key [OF assms(1) k]
    then have 1: "idle inv store sees s s1" by (auto intro: r_into_rtranclp)
    show ?thesis
    proof (cases r1)
      case (Inl e)
      then show ?thesis
        using assms(2) True k K 1 proceed [of s1] failed
        by (auto simp: svc_CreateOrder_def Let_def split: if_splits)
    next
      case (Inr x)
      then show ?thesis
        using assms(2) True k K 1 key failed replayed [of x ?o]
        by (auto simp: svc_CreateOrder_def Let_def replay_def split: if_splits)
    qed
  next
    case False
    then show ?thesis
      using assms proceed [of s] failed
      by (auto simp: svc_CreateOrder_def Let_def split: if_splits)
  qed
qed

end

section \<open>Sequences of service calls\<close>

datatype order_call =
    CreateOrderCall time time order
  | GetOrderCall string
  | CancelOrderCall time string string
  | ListOrdersCall string int int
  | InventoryReservedCall time string
  | InventoryReservationFailedCall time string string
  | PaymentCapturedCall time string
  | PaymentFailedCall time string string
  | PaymentCreationFailedCall time string string

fun run_call :: "'s order_repo \<Rightarrow> order_call \<Rightarrow> 's \<Rightarrow> 's" where
  "run_call repo (CreateOrderCall tid now o') s = snd (svc_CreateOrder repo tid now o' s)"
| "run_call repo (GetOrderCall oid) s = snd (svc_GetOrderByID repo oid s)"
| "run_call repo (CancelOrderCall now oid reason) s = snd (svc_CancelOrder repo now oid reason s)"
| "run_call repo (ListOrdersCall cid page pageSize) s = snd (svc_ListOrdersByCustomer repo cid page pageSize s)"
| "run_call repo (InventoryReservedCall now oid) s = snd (svc_MarkInventoryReserved repo now oid s)"
| "run_call repo (InventoryReservationFailedCall now oid reason) s =
     snd (svc_MarkInventoryReservationFailed repo now oid reason s)"
| "run_call repo (PaymentCapturedCall now oid) s = snd (svc_MarkPaymentCaptured repo now oid s)"
| "run_call repo (PaymentFailedCall now oid reason) s = snd (svc_MarkPaymentFailed repo now oid reason s)"
| "run_call repo (PaymentCreationFailedCall now oid reason) s =
     snd (svc_MarkPaymentCreationFailed repo now oid reason s)"

definition run_calls :: "'s order_repo \<Rightarrow> order_call list \<Rightarrow> 's \<Rightarrow> 's" where
  "run_calls repo cs s = fold (run_call repo) cs s"

text \<open>The calls that work by \<open>transitionOrder\<close>, with their decision.\<close>

fun call_transition :: "order_call \<Rightarrow> (string \<times> (order \<Rightarrow> order_error + (order \<times> bool))) option" where
  "call_transition (InventoryReservedCall now oid) = Some (oid, reserved_step now)"
| "call_transition (InventoryReservationFailedCall now oid reason) =
     Some (oid, failed_step now (if TrimSpace reason = [] then ''inventory reservation failed'' else reason))"
| "call_transition (PaymentCapturedCall now oid) = Some (oid, captured_step now)"
| "call_transition (PaymentFailedCall now oid reason) =
     Some (oid, failed_step now (if TrimSpace reason = [] then ''payment failed'' else reason))"
| "call_transition (PaymentCreationFailedCall now oid reason) =
     Some (oid, failed_step now (if TrimSpace reason = [] then ''payment creation failed'' else reason))"
| "call_transition _ = None"

lemma run_call_transition:
  "call_transition c = Some (oid, step) \<Longrightarrow> run_call repo c s = snd (transitionOrder repo oid step s)"
  by (cases c)
    (auto simp: svc_MarkInventoryReserved_def svc_MarkInventoryReservationFailed_def
      svc_MarkPaymentCaptured_def svc_MarkPaymentFailed_def svc_MarkPaymentCreationFailed_def Let_def)

lemma call_transition_lawful: "call_transition c = Some (oid, step) \<Longrightarrow> lawful_step step"
  by (cases c) auto

section \<open>A repository nobody else writes to\<close>

locale quiet_order_repository = order_repository +
  assumes quiet: "inv s \<Longrightarrow> sees s m \<Longrightarrow> m = store s"
begin

lemma idle_store: "idle inv store sees s s' \<Longrightarrow> inv s \<Longrightarrow> inv s' \<and> store s' = store s"
  by (induction rule: rtranclp_induct) (auto dest: quiet)

lemma found_store: "inv s \<Longrightarrow> sees s (store s') \<Longrightarrow> store s' = store s"
  by (rule quiet)

lemma transition_legal:
  assumes "inv s" "transitionOrder repo oid step s = (r, s')" "lawful_step step"
  shows "inv s' \<and> legal_change (store s) (store s')"
  using assms
proof (cases rule: transition_cases)
  case (stored o1 o2 s1 m)
  have m: "m = store s" "store s1 = store s"
    using quiet [OF assms(1) stored(3)] quiet [OF stored(2) stored(6)] by auto
  obtain o3 b where "step o1 = Inr (o3, b)" "same_purchase o1 o3"
    "if b then order_step (oStatus o1) (oStatus o3) else o3 = o1"
    using assms(3) unfolding lawful_step_def by blast
  with stored(5) have st: "same_purchase o1 o2" "order_step (oStatus o1) (oStatus o2)" by auto
  have "order_change (store s oid) (Some (persisted o2))"
    using st stored(4) unfolding m by (auto intro!: order_change.moved)
  then show ?thesis
    using stored(1,9) unfolding m(1) by (auto intro: legal_change_upd)
next
  case failed
  then show ?thesis using found_store [OF assms(1) failed(2)] by simp
next
  case (kept o1)
  then show ?thesis using found_store [OF assms(1) kept(2)] by simp
next
  case (lost o1 o2 s1)
  then show ?thesis using found_store [OF assms(1) lost(3)] found_store [OF lost(2,4)] by simp
qed

lemma cancel_legal:
  assumes "inv s" "svc_CancelOrder repo now oid reason s = (r, s')"
  shows "inv s' \<and> legal_change (store s) (store s')"
  using assms
  by (cases rule: cancel_as_transition) (use assms(1) transition_legal in \<open>auto\<close>)

lemma create_legal:
  assumes "inv s" "svc_CreateOrder repo tid now o' s = (r, s')"
  shows "inv s' \<and> legal_change (store s) (store s')"
  using assms
proof (cases rule: create_cases)
  case (created p s1 m)
  have m: "m = store s"
    using idle_store [OF created(2) assms(1)] quiet [OF created(3,4)] by simp
  have "oStatus (persisted p) = ORDER_STATUS_PENDING"
    using prepare_order_fields [OF created(6)] by simp
  then have "order_change (m (oID p)) (Some (persisted p))"
    using created(7) by (simp add: order_change.placed)
  then show ?thesis using created(1,8) unfolding m by (auto intro: legal_change_upd)
next
  case failed
  then show ?thesis using idle_store [OF failed(2) assms(1)] by simp
next
  case (replayed x o2)
  then show ?thesis using idle_store [OF replayed(2) assms(1)] by simp
qed

lemma run_call_legal:
  assumes "inv s"
  shows "inv (run_call repo c s) \<and> legal_change (store s) (store (run_call repo c s))"
proof (cases "call_transition c")
  case (Some t)
  then obtain oid step where t: "call_transition c = Some (oid, step)" by (cases t) auto
  show ?thesis
    using transition_legal [OF assms _ call_transition_lawful [OF t]]
    unfolding run_call_transition [OF t] by (metis prod.collapse)
next
  case None
  then show ?thesis
  proof (cases c)
    case (CreateOrderCall tid now o')
    then show ?thesis using create_legal [OF assms] by (metis prod.collapse run_call.simps(1))
  next
    case (GetOrderCall oid)
    then show ?thesis
      using assms get [OF assms, of oid] found_store [OF assms, of "snd (rGetOrderByID repo oid s)"]
      by (cases "rGetOrderByID repo oid s") (auto simp: svc_GetOrderByID_def)
  next
    case (CancelOrderCall now oid reason)
    then show ?thesis using cancel_legal [OF assms] by (metis prod.collapse run_call.simps(3))
  next
    case (ListOrdersCall cid page pageSize)
    then show ?thesis
      using assms by_customer [OF assms, of cid page pageSize]
        found_store [OF assms, of "snd (rListOrdersByCustomer repo cid page pageSize s)"]
      by (cases "rListOrdersByCustomer repo cid page pageSize s")
        (auto simp: svc_ListOrdersByCustomer_def)
  qed auto
qed

lemma run_calls_reach:
  assumes "inv s" "store s oid = Some o1"
  shows "\<exists>o2. store (run_calls repo cs s) oid = Some o2 \<and>
    order_reaches (oStatus o1) (oStatus o2) \<and> same_purchase o1 o2"
  using assms
proof (induction cs arbitrary: s o1)
  case Nil
  then show ?case by (simp add: run_calls_def)
next
  case (Cons c cs)
  note L = run_call_legal [OF Cons.prems(1), of c]
  then have "order_change (Some o1) (store (run_call repo c s) oid)"
    using Cons.prems(2) unfolding legal_change_def by metis
  then obtain o2 where o2: "store (run_call repo c s) oid = Some o2"
    "order_reaches (oStatus o1) (oStatus o2)" "same_purchase o1 o2"
    by cases auto
  from Cons.IH [OF conjunct1 [OF L] o2(1)] o2(2,3)
  show ?case unfolding run_calls_def by (auto intro: rtranclp_trans same_purchase_trans)
qed

lemma run_calls_inv: "inv s \<Longrightarrow> inv (run_calls repo cs s)"
  unfolding run_calls_def by (induction cs arbitrary: s) (auto dest: run_call_legal)

end

end
