(* ===== verification/Order_Postgres.thy ===== *)
theory Order_Postgres
  imports Order_Service_Laws
begin

text \<open>
  The PostgreSQL repository meets the contracts of \<open>Order_Service_Laws\<close>: beside other
  clients that keep the invariant of the store, and, as the quiet repository, alone.
\<close>

definition pg_inv :: "(order_db, 'm) world_scheme \<Rightarrow> bool" where
  "pg_inv w \<longleftrightarrow> order_store_inv (tables w) \<and> others_keep order_store_inv w"

definition pg_store :: "(order_db, 'm) world_scheme \<Rightarrow> string \<Rightarrow> order option" where
  "pg_store w = stored_orders (tables w)"

definition pg_sees :: "(order_db, 'm) world_scheme \<Rightarrow> (string \<Rightarrow> order option) \<Rightarrow> bool" where
  "pg_sees w m \<longleftrightarrow> m = stored_orders (found w)"

definition pg_quiet :: "(order_db, 'm) world_scheme \<Rightarrow> bool" where
  "pg_quiet w \<longleftrightarrow> order_store_inv (tables w) \<and> alone w"

lemma pg_inv_found: "pg_inv w \<Longrightarrow> order_store_inv (found w)"
  by (simp add: pg_inv_def others_keep_found)

lemma pg_inv_update [simp]:
  "pg_inv (w\<lparr>tables := db, calls := n\<rparr>) \<longleftrightarrow> order_store_inv db \<and> others_keep order_store_inv w"
  by (simp add: pg_inv_def)

lemma pg_read_frame:
  "pg_inv w \<Longrightarrow> pg_inv (w\<lparr>tables := found w, calls := n\<rparr>) \<and>
     pg_sees w (pg_store (w\<lparr>tables := found w, calls := n\<rparr>))"
  using pg_inv_found [of w] by (simp add: pg_inv_def pg_sees_def pg_store_def)

lemma pg_create_law:
  assumes "pg_inv w" "oStatus o' \<noteq> ORDER_STATUS_CANCELLED"
    and "rCreateOrder (pg_order_repo cfg coll) o' w = (r, w')"
  shows "pg_inv w' \<and> (\<exists>m. pg_sees w m \<and>
      (pg_store w' = m \<and> (\<forall>x. r \<noteq> Inr x) \<or>
       pg_store w' = m(oID o' \<mapsto> persisted o') \<and> m (oID o') = None \<and>
       (\<forall>x. r = Inr x \<longrightarrow> x = persisted o') \<and> r \<noteq> Inl ErrIdempotencyKeyAlreadyExists))"
proof -
  note inv = pg_inv_found [OF assms(1)]
  note db = order_store_invD(1) [OF inv]
  obtain db' where c: "pg_CreateOrder cfg (the_attempt w) o' (found w) = (r, db')"
    and w': "w' = w\<lparr>tables := db', calls := Suc (calls w)\<rparr>"
    using assms(3) by (auto simp: pg_order_repo_def with_attempt_eq)
  have keep: "others_keep order_store_inv w" using assms(1) by (simp add: pg_inv_def)
  from db c show ?thesis
  proof (cases rule: pg_CreateOrder_cases)
    case kept
    then show ?thesis using inv keep w' by (simp add: pg_sees_def pg_store_def)
  next
    case added
    have "order_store_inv db'"
      unfolding added(1) using inv added(3,2,4) assms(2) by (rule order_store_inv_add)
    moreover have "pg_store w' = (stored_orders (found w))(oID o' \<mapsto> persisted o')"
      using stored_orders_add [OF db added(3,2)] by (simp add: w' pg_store_def added(1))
    moreover have "stored_orders (found w) (oID o') = None"
      using added(3) by (simp add: fresh_order_def)
    ultimately show ?thesis using keep w' added(5) by (auto simp: pg_sees_def)
  qed
qed

lemma pg_update_law:
  assumes "pg_inv w" and "rUpdateOrder (pg_order_repo cfg coll) o' w = (r, w')"
  shows "pg_inv w' \<and> (\<exists>m. pg_sees w m \<and>
      (pg_store w' = m \<and> (\<forall>x. r \<noteq> Inr x) \<or>
       pg_store w' = m(oID o' \<mapsto> persisted o') \<and> m (oID o') \<noteq> None \<and>
       (\<forall>x. r = Inr x \<longrightarrow> x = persisted o')))"
proof -
  note inv = pg_inv_found [OF assms(1)]
  obtain db' where c: "pg_UpdateOrder cfg (the_attempt w) o' (found w) = (r, db')"
    and w': "w' = w\<lparr>tables := db', calls := Suc (calls w)\<rparr>"
    using assms(2) by (auto simp: pg_order_repo_def with_attempt_eq)
  have keep: "others_keep order_store_inv w" using assms(1) by (simp add: pg_inv_def)
  from c show ?thesis
  proof (cases rule: pg_UpdateOrder_cases)
    case kept
    then show ?thesis using inv keep w' by (simp add: pg_sees_def pg_store_def)
  next
    case replaced
    have here: "oID o' \<in> rowID ` set (orders (found w))" using replaced(3) by (simp add: updatable_def)
    have "order_store_inv db'"
      unfolding replaced(1) using inv replaced(3,2,4) by (rule order_store_inv_put)
    moreover have "pg_store w' = (stored_orders (found w))(oID o' \<mapsto> persisted o')"
      using stored_orders_put [OF here replaced(2)] by (simp add: w' pg_store_def replaced(1))
    moreover have "stored_orders (found w) (oID o') \<noteq> None"
      using order_store_invD(2) [OF inv here] .
    ultimately show ?thesis using keep w' replaced(5) by (auto simp: pg_sees_def)
  qed
qed

interpretation pg: order_repository "pg_order_repo cfg coll" pg_inv pg_store pg_sees
  for cfg :: repository_config and coll :: "string \<Rightarrow> 'k::linorder"
proof
  fix w w' :: "(order_db, 'm) world_scheme" and oid key cid o' r rs page pageSize
  assume w: "pg_inv w"
  note found_inv = order_store_invD(1) [OF pg_inv_found [OF w]]
  show "pg_inv w' \<and> pg_sees w (pg_store w') \<and> (\<forall>o'. r = Inr o' \<longrightarrow> pg_store w' oid = Some o')"
    if "rGetOrderByID (pg_order_repo cfg coll) oid w = (r, w')"
    using that pg_read_frame [OF w]
    by (auto simp: pg_order_repo_def with_read_eq pg_store_def pg_GetOrderByID_Inr)
  show "pg_inv w' \<and> pg_sees w (pg_store w') \<and>
      (\<forall>o'. r = Inr o' \<longrightarrow> pg_store w' (oID o') = Some o' \<and> oIdempotencyKey o' = TrimSpace key)"
    if "rGetOrderByIdempotencyKey (pg_order_repo cfg coll) key w = (r, w')"
    using that pg_read_frame [OF w]
    by (auto simp: pg_order_repo_def with_read_eq pg_store_def
        pg_GetOrderByIdempotencyKey_Inr [OF found_inv])
  show "pg_inv w' \<and> pg_sees w (pg_store w')"
    if "rListOrdersByCustomer (pg_order_repo cfg coll) cid page pageSize w = (rs, w')"
    using that pg_read_frame [OF w] by (auto simp: pg_order_repo_def with_read_eq)
  show "pg_store w oid = Some o' \<Longrightarrow> oID o' = oid"
    by (simp add: pg_store_def stored_orders_ID)
qed (fact pg_create_law, fact pg_update_law)

lemma pg_quiet_inv: "pg_quiet w \<Longrightarrow> pg_inv w"
  by (simp add: pg_quiet_def pg_inv_def alone_others_keep)

lemma pg_quiet_iff: "pg_quiet w \<longleftrightarrow> pg_inv w \<and> alone w"
  by (auto simp: pg_quiet_def pg_inv_def alone_others_keep)

lemma pg_repo_alone:
  "rGetOrderByID (pg_order_repo cfg coll) oid w = (r, w') \<Longrightarrow> alone w \<Longrightarrow> alone w'"
  "rGetOrderByIdempotencyKey (pg_order_repo cfg coll) key w = (r, w') \<Longrightarrow> alone w \<Longrightarrow> alone w'"
  "rListOrdersByCustomer (pg_order_repo cfg coll) cid page pageSize w = (rs, w') \<Longrightarrow> alone w \<Longrightarrow> alone w'"
  "rCreateOrder (pg_order_repo cfg coll) o' w = (r, w') \<Longrightarrow> alone w \<Longrightarrow> alone w'"
  "rUpdateOrder (pg_order_repo cfg coll) o' w = (r, w') \<Longrightarrow> alone w \<Longrightarrow> alone w'"
  by (auto simp: pg_order_repo_def with_read_eq with_attempt_eq)

interpretation quiet: quiet_order_repository "pg_order_repo cfg coll" pg_quiet pg_store pg_sees
  for cfg :: repository_config and coll :: "string \<Rightarrow> 'k::linorder"
proof
  fix w w' :: "(order_db, 'm) world_scheme" and oid key cid o' r rs page pageSize m
  assume w: "pg_quiet w"
  then have inv: "pg_inv w" and al: "alone w" by (simp_all add: pg_quiet_iff)
  show "pg_quiet w' \<and> pg_sees w (pg_store w') \<and> (\<forall>o'. r = Inr o' \<longrightarrow> pg_store w' oid = Some o')"
    if "rGetOrderByID (pg_order_repo cfg coll) oid w = (r, w')"
    using pg.get [OF inv that] pg_repo_alone(1) [OF that al] by (simp add: pg_quiet_iff)
  show "pg_quiet w' \<and> pg_sees w (pg_store w') \<and>
      (\<forall>o'. r = Inr o' \<longrightarrow> pg_store w' (oID o') = Some o' \<and> oIdempotencyKey o' = TrimSpace key)"
    if "rGetOrderByIdempotencyKey (pg_order_repo cfg coll) key w = (r, w')"
    using pg.by_key [OF inv that] pg_repo_alone(2) [OF that al] by (simp add: pg_quiet_iff)
  show "pg_quiet w' \<and> pg_sees w (pg_store w')"
    if "rListOrdersByCustomer (pg_order_repo cfg coll) cid page pageSize w = (rs, w')"
    using pg.by_customer [OF inv that] pg_repo_alone(3) [OF that al] by (simp add: pg_quiet_iff)
  show "pg_quiet w' \<and> (\<exists>m. pg_sees w m \<and>
      (pg_store w' = m \<and> (\<forall>x. r \<noteq> Inr x) \<or>
       pg_store w' = m(oID o' \<mapsto> persisted o') \<and> m (oID o') = None \<and>
       (\<forall>x. r = Inr x \<longrightarrow> x = persisted o') \<and> r \<noteq> Inl ErrIdempotencyKeyAlreadyExists))"
    if "oStatus o' \<noteq> ORDER_STATUS_CANCELLED" "rCreateOrder (pg_order_repo cfg coll) o' w = (r, w')"
    using pg_create_law [OF inv that] pg_repo_alone(4) [OF that(2) al] by (simp add: pg_quiet_iff)
  show "pg_quiet w' \<and> (\<exists>m. pg_sees w m \<and>
      (pg_store w' = m \<and> (\<forall>x. r \<noteq> Inr x) \<or>
       pg_store w' = m(oID o' \<mapsto> persisted o') \<and> m (oID o') \<noteq> None \<and>
       (\<forall>x. r = Inr x \<longrightarrow> x = persisted o')))"
    if "rUpdateOrder (pg_order_repo cfg coll) o' w = (r, w')"
    using pg_update_law [OF inv that] pg_repo_alone(5) [OF that al] by (simp add: pg_quiet_iff)
  show "pg_store w oid = Some o' \<Longrightarrow> oID o' = oid"
    using pg.store_id [OF inv] .
  show "pg_sees w m \<Longrightarrow> m = pg_store w"
    using alone_found [OF al] by (simp add: pg_sees_def pg_store_def)
qed

end
