(* ===== verification/Order_Create.thy ===== *)
theory Order_Create
  imports Order_Postgres
begin

text \<open>
  Creating orders on the PostgreSQL repository: what \<open>CreateOrder\<close> leaves in the tables
  whatever fails, when a request is replayed, and how the total is computed.
\<close>

section \<open>The price loop\<close>

definition good_item :: "order_item \<Rightarrow> bool" where
  "good_item i \<longleftrightarrow>
     TrimSpace (iProductID i) \<noteq> [] \<and> 0 < iQuantity i \<and> 0 < mAmountCents (iUnitPrice i) \<and>
     mCurrency (iUnitPrice i) \<noteq> CURRENCY_UNSPECIFIED"

definition line_total :: "order_item \<Rightarrow> int" where
  "line_total i = iQuantity i * mAmountCents (iUnitPrice i)"

definition priced_item :: "order_item \<Rightarrow> order_item" where
  "priced_item i =
     i\<lparr>iProductID := TrimSpace (iProductID i),
       iTotalPrice := \<lparr>mCurrency = mCurrency (iUnitPrice i), mAmountCents = wrap64 (line_total i)\<rparr>\<rparr>"

definition one_currency :: "currency \<Rightarrow> order_item list \<Rightarrow> bool" where
  "one_currency c items \<longleftrightarrow> (\<forall>i \<in> set items. mCurrency (iUnitPrice i) = c)"

lemma wrap64_add_left [simp]: "wrap64 (wrap64 x + y) = wrap64 (x + y)"
  by (simp add: wrap64_def mod_simps algebra_simps)

lemma wrap64_add_right [simp]: "wrap64 (x + wrap64 y) = wrap64 (x + y)"
  using wrap64_add_left [of y x] by (simp add: add.commute)

lemma wrap64_accumulate: "wrap64 (wrap64 (a + wrap64 t) + s) = wrap64 (a + (t + s))"
proof -
  have "a + wrap64 t + s = wrap64 t + (a + s)" "t + (a + s) = a + (t + s)" by simp_all
  then have "wrap64 (a + wrap64 t + s) = wrap64 (a + (t + s))" by (metis wrap64_add_left)
  then show ?thesis by (simp only: wrap64_add_left)
qed

lemma wrap64_idem [simp]: "wrap64 (wrap64 x) = wrap64 x"
  by (simp add: wrap64_id)

lemma price_items_Cons:
  "price_items (i # items) acc c =
     (if good_item i \<and> (c = CURRENCY_UNSPECIFIED \<or> mCurrency (iUnitPrice i) = c) then
        case price_items items (wrap64 (acc + wrap64 (line_total i))) (mCurrency (iUnitPrice i)) of
          Inl e \<Rightarrow> Inl e
        | Inr (is', acc', c') \<Rightarrow> Inr (priced_item i # is', acc', c')
      else Inl ErrInvalidOrder)"
proof (cases "good_item i")
  case True
  then have "\<not> (TrimSpace (iProductID i) = [] \<or> iQuantity i \<le> 0 \<or> mAmountCents (iUnitPrice i) \<le> 0 \<or>
      mCurrency (iUnitPrice i) = CURRENCY_UNSPECIFIED)" by (simp add: good_item_def)
  with True show ?thesis
    unfolding priced_item_def line_total_def by (auto simp: Let_def split: sum.splits)
next
  case False
  then have "TrimSpace (iProductID i) = [] \<or> iQuantity i \<le> 0 \<or> mAmountCents (iUnitPrice i) \<le> 0 \<or>
      mCurrency (iUnitPrice i) = CURRENCY_UNSPECIFIED" unfolding good_item_def by linarith
  with False show ?thesis by (simp add: Let_def)
qed

declare price_items.simps(2) [simp del]

lemma price_items_known:
  "c \<noteq> CURRENCY_UNSPECIFIED \<Longrightarrow> price_items items acc c =
    (if list_all good_item items \<and> one_currency c items
     then Inr (map priced_item items, if items = [] then acc else wrap64 (acc + sum_list (map line_total items)), c)
     else Inl ErrInvalidOrder)"
  by (induction items arbitrary: acc)
    (auto simp: price_items_Cons one_currency_def wrap64_accumulate add.assoc)

lemma price_items_eq:
  assumes "items \<noteq> []"
  shows "price_items items 0 CURRENCY_UNSPECIFIED =
    (if list_all good_item items \<and> one_currency (mCurrency (iUnitPrice (hd items))) items
     then Inr (map priced_item items, wrap64 (sum_list (map line_total items)), mCurrency (iUnitPrice (hd items)))
     else Inl ErrInvalidOrder)"
proof (cases items)
  case (Cons i rest)
  have "good_item i \<Longrightarrow> mCurrency (iUnitPrice i) \<noteq> CURRENCY_UNSPECIFIED" by (simp add: good_item_def)
  then show ?thesis
    by (auto simp: Cons price_items_Cons price_items_known one_currency_def)
qed (use assms in simp)

section \<open>Creating an order, alone at the database\<close>

definition key_of :: "order \<Rightarrow> string" where
  "key_of o' = TrimSpace (oIdempotencyKey o')"

lemma key_of_normalized [simp]: "oIdempotencyKey (normalizeOrderInput o') = key_of o'"
  by (simp add: normalizeOrderInput_def key_of_def)

lemma pg_by_key_quiet:
  assumes "pg_quiet w" "rGetOrderByIdempotencyKey (pg_order_repo cfg coll) key w = (r, w')"
  shows "pg_quiet w' \<and> tables w' = tables w \<and> r = pg_GetOrderByIdempotencyKey (the_attempt w) key (\<lambda>_. tables w)"
  using assms alone_found by (auto simp: pg_order_repo_def with_read_eq pg_quiet_def)

lemma submit_pg:
  assumes q: "pg_quiet w" and new: "oStatus p \<noteq> ORDER_STATUS_CANCELLED"
    and s: "submit_order (pg_order_repo cfg coll) p w = (r, w')"
  obtains (kept) "pg_quiet w'" "tables w' = tables w" "\<And>x. r \<noteq> Inr x"
  | (replayed) x where "pg_quiet w'" "tables w' = tables w" "r = Inr x"
      "stored_orders (tables w) (oID x) = Some x" "oIdempotencyKey p \<noteq> []"
      "oIdempotencyKey x = TrimSpace (oIdempotencyKey p)" "ordersMatchForIdempotency x p"
  | (added) a where "pg_quiet w'" "tables w' = add_order p (created_event cfg a p) (tables w)" "storable p"
      "fresh_order (tables w) p" "r = Inr (persisted p) \<or> (\<exists>m. r = Inl (OrderInternal m))"
proof -
  have al: "alone w" and inv: "order_store_inv (tables w)" using q by (auto simp: pg_quiet_def)
  note db = order_store_invD(1) [OF inv]
  obtain r1 w1 where c: "rCreateOrder (pg_order_repo cfg coll) p w = (r1, w1)" by fastforce
  then have pc: "pg_CreateOrder cfg (the_attempt w) p (tables w) = (r1, tables w1)" "alone w1"
    using al alone_found [OF al] by (auto simp: pg_order_repo_def with_attempt_eq)
  from db pc(1) show ?thesis
  proof (cases rule: pg_CreateOrder_cases)
    case pgkept: kept
    then obtain e where e: "r1 = Inl e" by (cases r1) auto
    have q1: "pg_quiet w1" using inv pc(2) pgkept(1) by (simp add: pg_quiet_def)
    show ?thesis
    proof (cases "oIdempotencyKey p \<noteq> [] \<and> e = ErrIdempotencyKeyAlreadyExists")
      case True
      obtain r2 w2 where k: "rGetOrderByIdempotencyKey (pg_order_repo cfg coll) (oIdempotencyKey p) w1 = (r2, w2)"
        by fastforce
      note K = pg_by_key_quiet [OF q1 k]
      have r: "w' = w2" "r = (case r2 of Inl e \<Rightarrow> Inl e | Inr x \<Rightarrow> replay x p)"
        using s c e True k by (auto simp: submit_order_def split: sum.splits)
      show ?thesis
      proof (cases "\<exists>x. r = Inr x")
        case True
        then obtain x where x: "r2 = Inr x" "ordersMatchForIdempotency x p" "r = Inr x"
          using r(2) by (auto simp: replay_def split: sum.splits if_splits)
        then have "stored_orders (tables w) (oID x) = Some x \<and> oIdempotencyKey p \<noteq> [] \<and>
            oIdempotencyKey x = TrimSpace (oIdempotencyKey p)"
          using K pgkept(1) pg_GetOrderByIdempotencyKey_Inr [OF db] by auto
        then show ?thesis using replayed [of x] K x r pgkept(1) by simp
      next
        case False
        then show ?thesis using kept K r pgkept(1) by simp
      qed
    next
      case False
      then have "w' = w1" "r = Inl e" using s c e by (auto simp: submit_order_def)
      then show ?thesis using kept q1 pgkept(1) by simp
    qed
  next
    case pgadded: added
    then have "r1 \<noteq> Inl ErrIdempotencyKeyAlreadyExists" by auto
    then have eq: "w' = w1" "r = r1" using s c by (auto simp: submit_order_def split: sum.splits)
    have "order_store_inv (tables w1)"
      unfolding pgadded(1) using inv pgadded(3,2,4) new by (rule order_store_inv_add)
    then have "pg_quiet w'" using pc(2) eq by (simp add: pg_quiet_def)
    then show ?thesis using added pgadded eq by blast
  qed
qed

lemma svc_create_pg:
  assumes q: "pg_quiet w"
    and s: "svc_CreateOrder (pg_order_repo cfg coll) tid now req w = (r, w')"
  obtains (kept) "pg_quiet w'" "tables w' = tables w" "\<And>x. r \<noteq> Inr x"
  | (replayed) x o2 where "pg_quiet w'" "tables w' = tables w" "r = Inr x"
      "stored_orders (tables w) (oID x) = Some x" "key_of req \<noteq> []" "oIdempotencyKey x = key_of req"
      "ordersMatchForIdempotency x o2"
      "o2 = normalizeOrderInput req \<or> prepare_order tid now (normalizeOrderInput req) = Inr o2"
  | (added) p a where "pg_quiet w'" "tables w' = add_order p (created_event cfg a p) (tables w)" "storable p"
      "fresh_order (tables w) p" "r = Inr (persisted p) \<or> (\<exists>m. r = Inl (OrderInternal m))"
      "validateCreateOrder (normalizeOrderInput req) = None"
      "prepare_order tid now (normalizeOrderInput req) = Inr p"
proof -
  let ?o = "normalizeOrderInput req"
  have inv: "order_store_inv (tables w)" using q by (simp add: pg_quiet_def)
  have proceed: thesis if i: "pg_quiet w1" "tables w1 = tables w" "validateCreateOrder ?o = None"
    and p: "(case prepare_order tid now ?o of Inl e \<Rightarrow> (Inl e, w1)
             | Inr p \<Rightarrow> submit_order (pg_order_repo cfg coll) p w1) = (r, w')" for w1
  proof (cases "prepare_order tid now ?o")
    case (Inl e)
    then have "w' = w1" "\<And>x. r \<noteq> Inr x" using p by auto
    then show ?thesis using i kept by simp
  next
    case (Inr p')
    note F = prepare_order_fields [OF Inr]
    have sub: "submit_order (pg_order_repo cfg coll) p' w1 = (r, w')"
      and st: "oStatus p' \<noteq> ORDER_STATUS_CANCELLED" using p Inr F by auto
    have key: "TrimSpace (key_of req) = key_of req" by (simp add: key_of_def)
    from i(1) st sub show ?thesis
    proof (cases rule: submit_pg)
      case c: kept
      then show ?thesis using kept i(2) by simp
    next
      case c: (replayed x)
      then show ?thesis using replayed [of x p'] i(2) F Inr key by simp
    next
      case c: (added a)
      then show ?thesis using added [of p' a] i(2,3) Inr by simp
    qed
  qed
  show ?thesis
  proof (cases "validateCreateOrder ?o = None")
    case valid: True
    show ?thesis
    proof (cases "key_of req = []")
      case True
      then show ?thesis using s valid proceed [OF q] by (simp add: svc_CreateOrder_def)
    next
      case False
      obtain r1 w1 where k: "rGetOrderByIdempotencyKey (pg_order_repo cfg coll) (key_of req) w = (r1, w1)"
        by fastforce
      note K = pg_by_key_quiet [OF q k]
      show ?thesis
      proof (cases r1)
        case (Inl e)
        show ?thesis
        proof (cases "e = ErrOrderNotFound")
          case True
          then show ?thesis using s valid False k Inl K proceed [of w1] by (simp add: svc_CreateOrder_def)
        next
          case f: False
          then have "w' = w1" "r = Inl e" using s valid False k Inl by (auto simp: svc_CreateOrder_def)
          then show ?thesis using K kept by simp
        qed
      next
        case (Inr x)
        then have r: "w' = w1" "r = replay x ?o" using s valid False k by (auto simp: svc_CreateOrder_def)
        have x: "stored_orders (tables w) (oID x) = Some x" "oIdempotencyKey x = key_of req"
          using K Inr pg_GetOrderByIdempotencyKey_Inr [OF order_store_invD(1) [OF inv], of _ "key_of req" x]
          by (auto simp: key_of_def)
        show ?thesis
        proof (cases "ordersMatchForIdempotency x ?o")
          case True
          then show ?thesis using replayed [of x ?o] K r x False by (simp add: replay_def)
        next
          case False
          then show ?thesis using kept K r by (simp add: replay_def)
        qed
      qed
    qed
  next
    case False
    then have "w' = w" "r = Inl ErrInvalidOrder" using s by (auto simp: svc_CreateOrder_def)
    then show ?thesis using kept q by simp
  qed
qed

end
