(* ===== verification/Order_Properties.thy ===== *)
theory Order_Properties
  imports Order_Create
begin

text \<open>
  The properties of the order service on its PostgreSQL repository: creation, idempotency,
  the life of an order, cancellation, and what a second client may break.
\<close>

section \<open>Lemmas\<close>

text \<open>The integers of a request are in the range of their Go types.\<close>

definition request_in_range :: "order \<Rightarrow> bool" where
  "request_in_range req \<longleftrightarrow>
     list_all (\<lambda>i. is_int32 (iQuantity i) \<and> is_int64 (mAmountCents (iUnitPrice i))) (oItems req)"

lemma normalize_item_simps [simp]:
  "iProductID (normalize_item i) = TrimSpace (iProductID i)" "iSKU (normalize_item i) = TrimSpace (iSKU i)"
  "iProductName (normalize_item i) = TrimSpace (iProductName i)"
  "iQuantity (normalize_item i) = iQuantity i" "iUnitPrice (normalize_item i) = iUnitPrice i"
  by (simp_all add: normalize_item_def)

lemma priced_item_simps [simp]:
  "iProductID (priced_item i) = TrimSpace (iProductID i)" "iSKU (priced_item i) = iSKU i"
  "iProductName (priced_item i) = iProductName i" "iQuantity (priced_item i) = iQuantity i"
  "iUnitPrice (priced_item i) = iUnitPrice i"
  "iTotalPrice (priced_item i) = \<lparr>mCurrency = mCurrency (iUnitPrice i), mAmountCents = wrap64 (line_total i)\<rparr>"
  by (simp_all add: priced_item_def)

lemma line_total_normalized [simp]: "line_total (normalize_item i) = line_total i"
  by (simp add: line_total_def)

lemma normalize_simps [simp]:
  "oItems (normalizeOrderInput req) = map normalize_item (oItems req)"
  "oCustomerID (normalizeOrderInput req) = TrimSpace (oCustomerID req)"
  "oID (normalizeOrderInput req) = oID req"
  by (simp_all add: normalizeOrderInput_def)

definition order_total :: "order \<Rightarrow> int" where
  "order_total req = sum_list (map line_total (oItems req))"

lemma prepared_request:
  assumes "prepare_order tid now (normalizeOrderInput req) = Inr p"
    and "validateCreateOrder (normalizeOrderInput req) = None"
  shows "oItems p = map priced_item (map normalize_item (oItems req))"
    and "mAmountCents (oTotalAmount p) = wrap64 (order_total req)"
    and "list_all good_item (oItems req)"
    and "oItems req \<noteq> []"
    and "one_currency (mCurrency (oTotalAmount p)) (oItems req)"
proof -
  show ne: "oItems req \<noteq> []" using assms(2) by (auto simp: validateCreateOrder_def)
  have good: "good_item (normalize_item i) = good_item i" for i by (simp add: good_item_def)
  show "oItems p = map priced_item (map normalize_item (oItems req))"
    "list_all good_item (oItems req)"
    "one_currency (mCurrency (oTotalAmount p)) (oItems req)"
    "mAmountCents (oTotalAmount p) = wrap64 (order_total req)"
    using prepare_order_Inr(10) [OF assms(1)] ne
    by (auto simp: price_items_eq order_total_def good list_all_iff one_currency_def o_def split: if_splits)
qed

lemma prepared_match:
  assumes "prepare_order tid now (normalizeOrderInput req) = Inr p"
    and "validateCreateOrder (normalizeOrderInput req) = None"
  shows "ordersMatchForIdempotency x p \<longleftrightarrow> ordersMatchForIdempotency x (normalizeOrderInput req)"
  using prepare_order_fields [OF assms(1)] prepared_request(1) [OF assms]
  by (simp add: ordersMatchForIdempotency_def list_all2_map2 items_match_def)

lemma key_not_taken:
  assumes inv: "order_store_inv db" and "key \<noteq> []"
    and "\<And>oid o'. stored_orders db oid = Some o' \<Longrightarrow> oIdempotencyKey o' \<noteq> key"
  shows "\<not> key_taken (Some key) (orders db)"
proof
  assume "key_taken (Some key) (orders db)"
  then obtain r where r: "r \<in> set (orders db)" "rowIdempotencyKey r = Some key"
    by (auto simp: key_taken_def)
  note D = order_store_invD [OF inv]
  from r(1) D(2) [of "rowID r"] obtain o' where o': "stored_orders db (rowID r) = Some o'" by auto
  then have "oIdempotencyKey o' = key"
    using find_distinct_key [OF order_db_invD(1) [OF D(1)] r(1)] r(2)
    by (auto simp: stored_orders_Some mapDBOrder_Key)
  then show False using assms(3) [OF o'] by simp
qed

lemma line_totals_positive:
  "list_all good_item items \<Longrightarrow> i \<in> set items \<Longrightarrow> 0 < line_total i \<and> line_total i \<le> sum_list (map line_total items)"
proof (induction items)
  case (Cons j items)
  have "0 < line_total j" "0 \<le> sum_list (map line_total items)"
    using Cons.prems(1)
    by (auto simp: good_item_def line_total_def list_all_iff less_imp_le
        intro!: sum_list_nonneg mult_nonneg_nonneg)
  then show ?case using Cons by auto
qed simp

text \<open>A request the service accepts, and the conditions it needs of the store.\<close>

definition placeable :: "order \<Rightarrow> bool" where
  "placeable req \<longleftrightarrow>
     validateCreateOrder (normalizeOrderInput req) = None \<and>
     list_all good_item (oItems req) \<and>
     (\<exists>c \<in> {CURRENCY_USD, CURRENCY_EUR}. one_currency c (oItems req)) \<and>
     known_method (dMethod (oPayment req)) \<and>
     order_total req < 2 ^ 63 \<and> length (oItems req) \<le> 2 ^ 31"

definition id_of :: "time \<Rightarrow> order \<Rightarrow> string" where
  "id_of tid req = (if TrimSpace (oID req) = [] then newOrderID tid else oID req)"

lemma prepare_placeable:
  assumes p: "placeable req" and now: "now \<noteq> zero_time"
  obtains p where "prepare_order tid now (normalizeOrderInput req) = Inr p" "storable p"
    "oID p = id_of tid req" "oIdempotencyKey p = key_of req"
proof -
  let ?o = "normalizeOrderInput req"
  have good: "good_item (normalize_item i) = good_item i" for i by (simp add: good_item_def)
  obtain c where c: "c \<in> {CURRENCY_USD, CURRENCY_EUR}" "one_currency c (oItems req)"
    using p by (auto simp: placeable_def)
  have ne: "oItems req \<noteq> []" using p by (auto simp: placeable_def validateCreateOrder_def)
  have hd: "mCurrency (iUnitPrice (hd (oItems req))) = c" using c(2) ne by (simp add: one_currency_def)
  have price: "price_items (oItems ?o) 0 CURRENCY_UNSPECIFIED =
      Inr (map priced_item (oItems ?o), wrap64 (order_total req), c)"
    using p c(2) ne hd
    by (simp add: price_items_eq placeable_def good list_all_iff one_currency_def order_total_def
        list.map_sel o_def)
  then obtain q where q: "prepare_order tid now ?o = Inr q"
    by (cases "TrimSpace (oID req) = []") (auto simp: prepare_order_def Let_def)
  note F = prepare_order_fields [OF q]
  note P = prepare_order_Inr(10) [OF q, unfolded price]
  have total: "0 < order_total req" "wrap64 (order_total req) = order_total req"
    using line_totals_positive [of "oItems req" "hd (oItems req)"] p ne
    by (auto simp: placeable_def order_total_def is_int64_def intro: wrap64_id)
  have line: "wrap64 (line_total i) = line_total i" "0 < line_total i" if "i \<in> set (oItems req)" for i
    using line_totals_positive [of "oItems req" i] that p
    by (auto simp: placeable_def order_total_def is_int64_def intro!: wrap64_id)
  have q_items: "oItems q = map (priced_item \<circ> normalize_item) (oItems req)"
    and q_total: "mAmountCents (oTotalAmount q) = order_total req" "mCurrency (oTotalAmount q) = c"
    using P total(2) by simp_all
  have known: "known_currency c" using c(1) by (auto simp: known_currency_def)
  have meth: "known_method (dMethod (oPayment q))"
    using F p by (simp add: placeable_def normalizeOrderInput_def)
  have "valid_items (oItems q)"
    using line p unfolding valid_items_def q_items
    by (auto simp: list_all_iff placeable_def good_item_def)
  moreover have "readable q"
    using known meth c(2) unfolding readable_def q_total q_items
    by (auto simp: list_all_iff readable_item_def one_currency_def)
  ultimately have "storable q"
    using F now total(1) q_total by (simp add: storable_def)
  then show ?thesis using that q F by (simp add: id_of_def)
qed

lemma validate_prepared:
  assumes "prepare_order tid now (normalizeOrderInput req) = Inr p"
    and "validateCreateOrder (normalizeOrderInput req) = None"
  shows "validateOrder p = None"
proof -
  note F = prepare_order_fields [OF assms(1)]
  have "newOrderID tid \<noteq> []" "trimmed_ascii (newOrderID tid)"
    using itoa_hd(1) [of "UnixNano tid"] itoa_last by (auto simp: newOrderID_def)
  then have "TrimSpace (oID p) \<noteq> []" using F by (auto simp: TrimSpace_ascii)
  then show ?thesis
    using F assms(2) by (auto simp: validateOrder_def validateCreateOrder_def normalizeOrderInput_def
        split: if_splits)
qed

lemma by_key_not_found:
  assumes "\<not> key_taken (Some (TrimSpace key)) (orders db)" "TrimSpace key \<noteq> []"
    and "fault_at a (''GetOrderByIdempotencyKey'', 0) = Served"
  shows "pg_GetOrderByIdempotencyKey a key (\<lambda>_. db) = Inl ErrOrderNotFound"
proof -
  have "find (\<lambda>r. rowIdempotencyKey r = Some (TrimSpace key)) (orders db) = None"
    using assms(1) by (auto simp: find_None_iff key_taken_def image_iff)
  then show ?thesis
    using assms by (simp add: pg_GetOrderByIdempotencyKey_def q_GetOrderByIdempotencyKey_def)
qed

definition key_unused :: "order_db \<Rightarrow> order \<Rightarrow> bool" where
  "key_unused db req \<longleftrightarrow>
     key_of req = [] \<or> (\<forall>oid o'. stored_orders db oid = Some o' \<longrightarrow> oIdempotencyKey o' \<noteq> key_of req)"

definition id_unused :: "order_db \<Rightarrow> string \<Rightarrow> bool" where
  "id_unused db oid \<longleftrightarrow> stored_orders db oid = None \<and> ''outbox-'' @ oid \<notin> obID ` set (outbox db)"

lemma submit_succeeds:
  assumes q: "pg_quiet w" "all_served w" and topic: "TrimSpace (orderCreatedTopic cfg) \<noteq> []"
    and p: "prepare_order tid now (normalizeOrderInput req) = Inr p" "storable p"
      "oID p = id_of tid req" "oIdempotencyKey p = key_of req"
    and valid: "validateCreateOrder (normalizeOrderInput req) = None"
    and unused: "key_unused (tables w) req" "id_unused (tables w) (id_of tid req)"
  shows "\<exists>w'. submit_order (pg_order_repo cfg coll) p w = (Inr (persisted p), w')"
proof -
  have inv: "order_store_inv (tables w)" and al: "alone w" using q by (auto simp: pg_quiet_def)
  note D = order_store_invD [OF inv]
  have trimmed: "TrimSpace (oIdempotencyKey p) = key_of req" using p(4) by (simp add: key_of_def)
  have "\<not> key_taken (rowIdempotencyKey (toOrderDBParams p)) (orders (tables w))"
    using unused(1) key_not_taken [OF inv, of "key_of req"]
    by (auto simp: trimmed key_unused_def key_taken_def)
  then have "fresh_order (tables w) p"
    using unused(2) D(2) [of "oID p"] p(3) by (auto simp: fresh_order_def id_unused_def)
  then have "pg_CreateOrder cfg (the_attempt w) p (tables w) =
      (Inr (persisted p), add_order p (created_event cfg (the_attempt w) p) (tables w))"
    unfolding pg_CreateOrder_Inr [OF D(1)]
    using validate_prepared [OF p(1) valid] p(2) q(2) topic
    by (simp add: committed_def create_served_def items_served_def)
  then show ?thesis
    by (simp add: submit_order_def pg_order_repo_def with_attempt_def alone_found [OF al])
qed

lemma create_succeeds_prepared:
  assumes q: "pg_quiet w" "all_served w" and topic: "TrimSpace (orderCreatedTopic cfg) \<noteq> []"
    and valid: "validateCreateOrder (normalizeOrderInput req) = None"
    and pr: "prepare_order tid now (normalizeOrderInput req) = Inr pr" "storable pr"
      "oID pr = id_of tid req" "oIdempotencyKey pr = key_of req"
    and unused: "key_unused (tables w) req" "id_unused (tables w) (id_of tid req)"
  shows "\<exists>w'. svc_CreateOrder (pg_order_repo cfg coll) tid now req w = (Inr (persisted pr), w')"
proof (cases "key_of req = []")
  case True
  then show ?thesis
    using submit_succeeds [OF q topic pr valid unused, of coll] valid pr(1) by (auto simp: svc_CreateOrder_def)
next
  case False
  obtain r1 w1 where k: "rGetOrderByIdempotencyKey (pg_order_repo cfg coll) (key_of req) w = (r1, w1)"
    by fastforce
  note K = pg_by_key_quiet [OF q(1) k]
  have inv: "order_store_inv (tables w)" using q by (simp add: pg_quiet_def)
  have "TrimSpace (key_of req) = key_of req" by (simp add: key_of_def)
  then have "r1 = Inl ErrOrderNotFound"
    using K False q(2) by_key_not_found [of "key_of req" "tables w" "the_attempt w"]
      key_not_taken [OF inv False] unused(1) by (auto simp: key_unused_def)
  moreover have "all_served w1" using q(2) k by (auto simp: pg_order_repo_def with_read_eq)
  then obtain w' where "submit_order (pg_order_repo cfg coll) pr w1 = (Inr (persisted pr), w')"
    using submit_succeeds [OF _ _ topic pr valid, of w1 coll] K unused by auto
  ultimately show ?thesis using valid pr(1) False k by (auto simp: svc_CreateOrder_def)
qed

lemma create_succeeds:
  assumes q: "pg_quiet w" "all_served w" and topic: "TrimSpace (orderCreatedTopic cfg) \<noteq> []"
    and p: "placeable req" and now: "now \<noteq> zero_time"
    and unused: "key_unused (tables w) req" "id_unused (tables w) (id_of tid req)"
  shows "\<exists>x w'. svc_CreateOrder (pg_order_repo cfg coll) tid now req w = (Inr x, w')"
proof -
  have valid: "validateCreateOrder (normalizeOrderInput req) = None" using p by (simp add: placeable_def)
  obtain pr where pr: "prepare_order tid now (normalizeOrderInput req) = Inr pr" "storable pr"
      "oID pr = id_of tid req" "oIdempotencyKey pr = key_of req"
    using prepare_placeable [OF p now] .
  show ?thesis using create_succeeds_prepared [OF q topic valid pr unused, of coll] by blast
qed

section \<open>Samples\<close>

definition sample_request :: order where
  "sample_request = zero_order\<lparr>
     oCustomerID := ''c1'', oIdempotencyKey := ''k1'',
     oItems := [\<lparr>iProductID = ''p1'', iSKU = ''s1'', iProductName = ''tea'', iQuantity = 2,
        iUnitPrice = \<lparr>mCurrency = CURRENCY_EUR, mAmountCents = 250\<rparr>, iTotalPrice = zero_money\<rparr>],
     oShippingAddress := \<lparr>aCountry = ''DE'', aCity = ''Berlin'', aStreet = ''Allee'',
        aPostalCode = ''10115'', aHouse = ''2'', aApartment = []\<rparr>,
     oPayment := \<lparr>dMethod = PAYMENT_METHOD_TYPE_CARD, dMethodDetails = ''visa''\<rparr>\<rparr>"

definition sample_config :: repository_config where
  "sample_config = NewPostgresRepository ''order.created'' ''order.cancelled''"

definition sample_coll :: "string \<Rightarrow> nat" where
  "sample_coll s = length s"

abbreviation sample_repo :: "(order_db, 'm) world_scheme order_repo" where
  "sample_repo \<equiv> pg_order_repo sample_config sample_coll"

abbreviation sample_world :: "order_db world" where
  "sample_world \<equiv> calm_world empty_order_db 9000"

lemma sample_config_simps [simp]:
  "TrimSpace (orderCreatedTopic sample_config) \<noteq> []" "TrimSpace (orderCancelledTopic sample_config) \<noteq> []"
  by (simp_all add: sample_config_def NewPostgresRepository_def)

lemma sample_key [simp]: "key_of sample_request = ''k1''"
  by (simp add: key_of_def sample_request_def)

lemma sample_placeable [simp]: "placeable sample_request"
  by (simp add: placeable_def sample_request_def zero_order_def validateCreateOrder_def
      normalizeOrderInput_def normalize_item_def good_item_def one_currency_def known_method_def
      order_total_def line_total_def)

lemma sample_in_range [simp]: "request_in_range sample_request"
  by (simp add: request_in_range_def sample_request_def is_int32_def is_int64_def)

lemma sample_quiet [simp]: "pg_quiet sample_world"
  by (simp add: pg_quiet_def)

lemma sample_unused [simp]: "key_unused empty_order_db req" "id_unused empty_order_db oid"
  by (simp_all add: key_unused_def id_unused_def stored_orders_def empty_order_db_def)

lemma time_not_zero [simp]: "0 < t \<Longrightarrow> t \<noteq> zero_time"
  by (simp add: zero_time_def)

lemma sample_created:
  obtains x w' where "svc_CreateOrder sample_repo 7000 8000 sample_request sample_world = (Inr x, w')"
  using create_succeeds [of sample_world sample_config sample_request 8000 7000 sample_coll]
  by (auto simp del: calm_world_simps(1) simp: calm_world_simps(1))

section \<open>Creation\<close>

lemma in_range_prepared:
  assumes "prepare_order tid now (normalizeOrderInput req) = Inr p"
    and "validateCreateOrder (normalizeOrderInput req) = None" and "request_in_range req"
  shows "order_in_range p"
  using prepared_request [OF assms(1,2)] assms(3)
  by (auto simp: order_in_range_def money_in_range_def item_in_range_def request_in_range_def list_all_iff)

lemma decode_created_event:
  assumes "order_in_range p"
  shows "\<exists>env. decode_event dec_OrderCreated zero_OrderCreated (Some (obPayload (created_event cfg a p))) =
      Some (env, ev_order_created p) \<and> en_EventType env = OrderCreatedEventType"
  using decode_created_message [OF assms, of "orderCreatedTopic cfg" "clock_at a ''createdAt''"]
  by (auto simp: created_event_def outbox_params_def)

lemma match_prepared:
  assumes "prepare_order tid now (normalizeOrderInput req) = Inr p"
    and "validateCreateOrder (normalizeOrderInput req) = None"
  shows "ordersMatchForIdempotency (persisted p) (normalizeOrderInput req)"
  using prepare_order_fields [OF assms(1)] prepared_request(1) [OF assms]
  by (simp add: ordersMatchForIdempotency_def list_all2_conv_all_nth items_match_def)

lemma replayed_match:
  assumes "o2 = normalizeOrderInput req \<or> prepare_order tid now (normalizeOrderInput req) = Inr o2"
    and "ordersMatchForIdempotency x o2" and "validateCreateOrder (normalizeOrderInput req) = None"
  shows "ordersMatchForIdempotency x (normalizeOrderInput req)"
  using assms prepared_match by blast

lemma create_validates:
  "svc_CreateOrder repo tid now req s = (Inr x, s') \<Longrightarrow> validateCreateOrder (normalizeOrderInput req) = None"
  by (auto simp: svc_CreateOrder_def Let_def split: if_splits)

lemma create_order_lemma:
  assumes "pg_quiet w"
    and "svc_CreateOrder (pg_order_repo cfg coll) tid now req w = (Inr x, w')"
  shows "oIdempotencyKey x = key_of req \<and> ordersMatchForIdempotency x (normalizeOrderInput req) \<and>
    (tables w' = tables w \<and> key_of req \<noteq> [] \<and> stored_orders (tables w) (oID x) = Some x \<or>
     oStatus x = ORDER_STATUS_PENDING \<and> oCancelReason x = [] \<and>
     mAmountCents (oTotalAmount x) = wrap64 (order_total req) \<and>
     stored_orders (tables w) (oID x) = None \<and>
     stored_orders (tables w') = (stored_orders (tables w))(oID x \<mapsto> x))"
  using assms
proof (cases rule: svc_create_pg)
  case (replayed y o2)
  then show ?thesis using replayed_match create_validates [OF assms(2)] by auto
next
  case (added p a)
  have db: "order_db_inv (tables w)" using assms(1) by (simp add: pg_quiet_def order_store_inv_def)
  have x: "x = persisted p" using added(5) by auto
  have "stored_orders (tables w) (oID p) = None" using added(4) by (simp add: fresh_order_def)
  then show ?thesis
    using prepare_order_fields [OF added(7)] prepared_request(2) [OF added(7,6)] x added(2)
      match_prepared [OF added(7,6)] stored_orders_add [OF db added(4,3)]
    by (simp add: key_of_def)
qed auto

text \<open>
  C3: A successful \<open>CreateOrder\<close>, whatever faults the repository calls met, either replays the
  order stored under the request's idempotency key, with the tables unchanged, or has
  stored one new order: pending, with the key and the payload of the request, the total of
  its items, and no other order touched.
\<close>
theorem create_order_result:
  assumes "pg_quiet w"
    and "svc_CreateOrder (pg_order_repo cfg coll) tid now req w = (Inr x, w')"
  shows "oIdempotencyKey x = key_of req \<and> ordersMatchForIdempotency x (normalizeOrderInput req) \<and>
    (tables w' = tables w \<and> key_of req \<noteq> [] \<and> stored_orders (tables w) (oID x) = Some x \<or>
     oStatus x = ORDER_STATUS_PENDING \<and> oCancelReason x = [] \<and>
     mAmountCents (oTotalAmount x) = wrap64 (order_total req) \<and>
     stored_orders (tables w) (oID x) = None \<and>
     stored_orders (tables w') = (stored_orders (tables w))(oID x \<mapsto> x))"
  using create_order_lemma [OF assms] .

theorem create_order_result_witness:
  "\<exists>x w'. svc_CreateOrder sample_repo 7000 8000 sample_request sample_world = (Inr x, w') \<and>
     oIdempotencyKey x = ''k1'' \<and> ordersMatchForIdempotency x (normalizeOrderInput sample_request)"
proof -
  obtain x w' where c: "svc_CreateOrder sample_repo 7000 8000 sample_request sample_world = (Inr x, w')"
    by (rule sample_created)
  from create_order_result [OF sample_quiet c] c show ?thesis by (auto simp del: calm_world_simps)
qed

text \<open>
  C4: \<open>CreateOrder\<close> is all or nothing under any faults: the tables are unchanged, or hold
  exactly one more order row, its item rows, and one unpublished outbox event, keyed by the
  order, whose decoded payload describes the stored order.
\<close>
theorem create_order_atomic:
  assumes "pg_quiet w" and "request_in_range req"
    and "svc_CreateOrder (pg_order_repo cfg coll) tid now req w = (r, w')"
  shows "tables w' = tables w \<or>
    (\<exists>p row items e env.
       orders (tables w') = orders (tables w) @ [row] \<and>
       order_items (tables w') = order_items (tables w) @ items \<and>
       outbox (tables w') = outbox (tables w) @ [e] \<and>
       mapDBOrder row items = Inr p \<and> rowID row = oID p \<and> (\<forall>i \<in> set items. irOrderID i = oID p) \<and>
       obPublishedAt e = None \<and> obTopic e = orderCreatedTopic cfg \<and> obEventKey e = oID p \<and>
       decode_event dec_OrderCreated zero_OrderCreated (Some (obPayload e)) = Some (env, ev_order_created p) \<and>
       en_EventType env = OrderCreatedEventType)"
  using assms(1,3)
proof (cases rule: svc_create_pg)
  case (added p a)
  let ?e = "created_event cfg a p"
  obtain env where "decode_event dec_OrderCreated zero_OrderCreated (Some (obPayload ?e)) =
      Some (env, ev_order_created p)" "en_EventType env = OrderCreatedEventType"
    using decode_created_event [OF in_range_prepared [OF added(7,6) assms(2)]] by blast
  moreover have "ev_order_created (persisted p) = ev_order_created p"
    by (simp add: ev_order_created_def)
  moreover have "mapDBOrder (stored_order (toOrderDBParams p)) (item_rows (oID p) 0 (oItems p)) = Inr (persisted p)"
    using added(3) by (subst mapDBOrder_params) (auto simp: storable_def)
  moreover have "obEventKey ?e = oID p"
    by (simp add: created_event_def outbox_params_def NewOrderCreatedOutboxMessage_def)
  ultimately have "\<exists>p' row items e env.
       orders (tables w') = orders (tables w) @ [row] \<and>
       order_items (tables w') = order_items (tables w) @ items \<and>
       outbox (tables w') = outbox (tables w) @ [e] \<and>
       mapDBOrder row items = Inr p' \<and> rowID row = oID p' \<and> (\<forall>i \<in> set items. irOrderID i = oID p') \<and>
       obPublishedAt e = None \<and> obTopic e = orderCreatedTopic cfg \<and> obEventKey e = oID p' \<and>
       decode_event dec_OrderCreated zero_OrderCreated (Some (obPayload e)) = Some (env, ev_order_created p') \<and>
       en_EventType env = OrderCreatedEventType"
    unfolding added(2) add_order_def
    by (intro exI [of _ "persisted p"] exI [of _ "stored_order (toOrderDBParams p)"]
        exI [of _ "item_rows (oID p) 0 (oItems p)"] exI [of _ ?e] exI [of _ env])
      (auto dest: item_rows_order)
  then show ?thesis by (rule disjI2)
qed auto

theorem create_order_atomic_witness:
  "\<exists>r w'. svc_CreateOrder sample_repo 7000 8000 sample_request sample_world = (r, w') \<and>
     (tables w' = empty_order_db \<or> length (orders (tables w')) = 1 \<and> length (outbox (tables w')) = 1)"
proof -
  obtain r w' where c: "svc_CreateOrder sample_repo 7000 8000 sample_request sample_world = (r, w')" by fastforce
  from create_order_atomic [OF sample_quiet sample_in_range c] c show ?thesis
    by (auto simp: empty_order_db_def)
qed

section \<open>Idempotency keys\<close>

lemma stored_key_row:
  assumes "stored_orders db oid = Some x" "oIdempotencyKey x \<noteq> []"
  obtains row where "row \<in> set (orders db)" "rowID row = oid" "rowIdempotencyKey row = Some (oIdempotencyKey x)"
proof -
  obtain row where r: "find (\<lambda>r. rowID r = oid) (orders db) = Some row"
    "mapDBOrder row (q_ListOrderItemsByOrderID oid db) = Inr x"
    using assms(1) by (auto simp: stored_orders_Some)
  then show ?thesis
    using that [of row] find_Some_in [OF r(1)] mapDBOrder_Key [OF r(2)] assms(2)
    by (auto split: option.splits)
qed

lemma stored_key_unique:
  assumes "order_db_inv db" "stored_orders db a = Some x" "stored_orders db b = Some y"
    and "oIdempotencyKey x = oIdempotencyKey y" "oIdempotencyKey y \<noteq> []"
  shows "x = y"
proof -
  obtain r where r: "r \<in> set (orders db)" "rowID r = a" "rowIdempotencyKey r = Some (oIdempotencyKey y)"
    using stored_key_row [OF assms(2)] assms(4,5) by metis
  obtain s where s: "s \<in> set (orders db)" "rowID s = b" "rowIdempotencyKey s = Some (oIdempotencyKey y)"
    using stored_key_row [OF assms(3,5)] by metis
  have "r = s" using unique_idempotency_key [OF assms(1) r(1) s(1) r(3) s(3)] .
  then show ?thesis using r(2) s(2) assms(2,3) by simp
qed

lemma stored_key_taken:
  "stored_orders db oid = Some x \<Longrightarrow> oIdempotencyKey x = k \<Longrightarrow> k \<noteq> [] \<Longrightarrow> key_taken (Some k) (orders db)"
  by (erule stored_key_row) (auto simp: key_taken_def intro: rev_image_eqI)

lemma prepared_key_taken:
  assumes "key_taken (Some (key_of req)) (orders db)" "key_of req \<noteq> []"
    and "prepare_order tid now (normalizeOrderInput req) = Inr p"
  shows "\<not> fresh_order db p"
  using assms prepare_order_fields [OF assms(3)] by (simp add: fresh_order_def key_of_def)

lemma stored_key_trimmed:
  "order_store_inv db \<Longrightarrow> stored_orders db oid = Some x \<Longrightarrow> TrimSpace (oIdempotencyKey x) = oIdempotencyKey x"
  using order_store_invD(5) [of db oid x] by (metis persisted_simps(8) sound_order_def)

lemma create_again:
  assumes "pg_quiet w" "key_of req \<noteq> []" and "stored_orders (tables w) oid = Some z" "oIdempotencyKey z = key_of req"
    and "svc_CreateOrder (pg_order_repo cfg coll) tid now req w = (Inr y, w')"
  shows "tables w' = tables w \<and> y = z"
  using assms(1,5)
proof (cases rule: svc_create_pg)
  case (replayed v o2)
  then show ?thesis
    using stored_key_unique [OF _ replayed(4) assms(3)] assms(1,2,4) by (simp add: pg_quiet_def order_store_inv_def)
next
  case (added p a)
  then show ?thesis
    using prepared_key_taken [OF stored_key_taken [OF assms(3,4,2)] assms(2) added(7)] by simp
qed auto

lemma create_again_later:
  assumes "pg_quiet w" "key_of req \<noteq> []" and "stored_orders (tables w) oid = Some x" "oIdempotencyKey x = key_of req"
    and "svc_CreateOrder (pg_order_repo cfg coll) tid now req (run_calls (pg_order_repo cfg coll) cs w) = (Inr y, w')"
  shows "tables w' = tables (run_calls (pg_order_repo cfg coll) cs w) \<and> oID y = oid \<and> same_purchase x y \<and>
    order_reaches (oStatus x) (oStatus y)"
proof -
  let ?wm = "run_calls (pg_order_repo cfg coll) cs w"
  have qm: "pg_quiet ?wm" by (rule quiet.run_calls_inv [OF assms(1)])
  obtain z where z: "stored_orders (tables ?wm) oid = Some z" "order_reaches (oStatus x) (oStatus z)" "same_purchase x z"
    using quiet.run_calls_reach [OF assms(1), of oid x cfg coll cs] assms(3) by (auto simp: pg_store_def)
  have "TrimSpace (oIdempotencyKey x) = oIdempotencyKey x"
    by (rule stored_key_trimmed [OF _ assms(3)]) (use assms(1) in \<open>simp add: pg_quiet_def\<close>)
  moreover have "TrimSpace (oIdempotencyKey z) = oIdempotencyKey z"
    by (rule stored_key_trimmed [OF _ z(1)]) (use qm in \<open>simp add: pg_quiet_def\<close>)
  ultimately have "oIdempotencyKey z = key_of req" using z(3) assms(4) by (simp add: same_purchase_def)
  from create_again [OF qm assms(2) z(1) this assms(5)] show ?thesis using z stored_orders_ID [OF z(1)] by simp
qed

lemma create_twice:
  assumes "pg_quiet w" "key_of req \<noteq> []" and c1: "svc_CreateOrder (pg_order_repo cfg coll) tid now req w = (r, w1)"
    and c2: "svc_CreateOrder (pg_order_repo cfg coll) tid' now' req w1 = (Inr y, w2)"
  shows "(\<forall>x. r = Inr x \<longrightarrow> y = x \<and> tables w2 = tables w1) \<and>
    length (orders (tables w2)) \<le> length (orders (tables w)) + 1"
proof
  have q1: "pg_quiet w1" using quiet.create_legal [OF assms(1) c1] by simp
  note again = create_again [OF q1 assms(2) _ _ c2]
  show "\<forall>x. r = Inr x \<longrightarrow> y = x \<and> tables w2 = tables w1"
  proof (intro allI impI)
    fix x assume "r = Inr x"
    then have "stored_orders (tables w1) (oID x) = Some x" "oIdempotencyKey x = key_of req"
      using create_order_lemma [OF assms(1), of cfg coll tid now req x w1] c1 by auto
    from again [OF this] show "y = x \<and> tables w2 = tables w1" by simp
  qed
  from assms(1) c1 show "length (orders (tables w2)) \<le> length (orders (tables w)) + 1"
  proof (cases rule: svc_create_pg)
    case kept
    from q1 c2 have "length (orders (tables w2)) \<le> length (orders (tables w1)) + 1"
      by (cases rule: svc_create_pg) (auto simp: add_order_def)
    then show ?thesis using kept by simp
  next
    case (replayed x o2)
    then show ?thesis using again [of "oID x" x] by simp
  next
    case (added p a)
    have db: "order_db_inv (tables w)" using assms(1) by (simp add: pg_quiet_def order_store_inv_def)
    have "stored_orders (tables w1) (oID p) = Some (persisted p)"
      using stored_orders_add [OF db added(4,3)] added(2) by simp
    moreover have "oIdempotencyKey (persisted p) = key_of req"
      using prepare_order_fields [OF added(7)] by (simp add: key_of_def)
    ultimately show ?thesis using again [of "oID p" "persisted p"] added(2) by (simp add: add_order_def)
  qed
qed

text \<open>
  C5: A client that does not know the outcome of a \<open>CreateOrder\<close> may send it again, at once or
  after any other calls of the service, when no other client writes to the tables. If the
  repetition succeeds, whatever faults either attempt met, exactly one stored order carries the
  key, and it is the one returned. If the first attempt stored it, answered or not, the
  repetition changes nothing and returns that order, with the same customer, items, total,
  address and payment, in the status it has reached since. A repetition at once gives the
  response of the first attempt again unchanged.
\<close>
theorem create_order_retry:
  assumes "pg_quiet w" and "key_of req \<noteq> []" and "repo = pg_order_repo cfg coll"
    and "svc_CreateOrder repo tid now req w = (r, w1)"
    and "wm = run_calls repo cs w1" and "svc_CreateOrder repo tid' now' req wm = (Inr y, w2)"
  shows "stored_orders (tables w2) (oID y) = Some y \<and>
    {oid. \<exists>z. stored_orders (tables w2) oid = Some z \<and> oIdempotencyKey z = key_of req} = {oID y} \<and>
    (\<forall>oid x. stored_orders (tables w1) oid = Some x \<and> oIdempotencyKey x = key_of req \<longrightarrow>
       tables w2 = tables wm \<and> oID y = oid \<and> same_purchase x y \<and> order_reaches (oStatus x) (oStatus y)) \<and>
    (\<forall>x. r = Inr x \<longrightarrow> stored_orders (tables w1) (oID x) = Some x \<and> oIdempotencyKey x = key_of req) \<and>
    (cs = [] \<longrightarrow> (\<forall>x. r = Inr x \<longrightarrow> y = x \<and> tables w2 = tables w1) \<and>
       length (orders (tables w2)) \<le> length (orders (tables w)) + 1)"
proof (intro conjI)
  note c1 = assms(4) [unfolded assms(3)] and c2 = assms(6) [unfolded assms(3)]
  have q1: "pg_quiet w1" using quiet.create_legal [OF assms(1) c1] by simp
  have qm: "pg_quiet wm" unfolding assms(3,5) by (rule quiet.run_calls_inv [OF q1])
  have q2: "pg_quiet w2" using quiet.create_legal [OF qm c2] by simp
  show y: "stored_orders (tables w2) (oID y) = Some y" using create_order_lemma [OF qm c2] by auto
  have k: "oIdempotencyKey y = key_of req" using create_order_lemma [OF qm c2] by auto
  have db2: "order_db_inv (tables w2)" using q2 by (simp add: pg_quiet_def order_store_inv_def)
  have "oid = oID y" if "stored_orders (tables w2) oid = Some z" "oIdempotencyKey z = key_of req" for oid z
    using stored_key_unique [OF db2 that(1) y] that(2) k assms(2) stored_orders_ID [OF that(1)] by simp
  then show "{oid. \<exists>z. stored_orders (tables w2) oid = Some z \<and> oIdempotencyKey z = key_of req} = {oID y}"
    using y k by blast
  show old: "\<forall>oid x. stored_orders (tables w1) oid = Some x \<and> oIdempotencyKey x = key_of req \<longrightarrow>
       tables w2 = tables wm \<and> oID y = oid \<and> same_purchase x y \<and> order_reaches (oStatus x) (oStatus y)"
    using create_again_later [OF q1 assms(2) _ _ c2 [unfolded assms(5) assms(3)]] unfolding assms(3,5) by blast
  show first: "\<forall>x. r = Inr x \<longrightarrow> stored_orders (tables w1) (oID x) = Some x \<and> oIdempotencyKey x = key_of req"
  proof (intro allI impI)
    fix x assume "r = Inr x"
    with create_order_lemma [OF assms(1), of cfg coll tid now req x w1] c1
    show "stored_orders (tables w1) (oID x) = Some x \<and> oIdempotencyKey x = key_of req" by auto
  qed
  show "cs = [] \<longrightarrow> (\<forall>x. r = Inr x \<longrightarrow> y = x \<and> tables w2 = tables w1) \<and>
      length (orders (tables w2)) \<le> length (orders (tables w)) + 1"
  proof
    assume "cs = []"
    then have "wm = w1" by (simp add: assms(5) run_calls_def)
    then show "(\<forall>x. r = Inr x \<longrightarrow> y = x \<and> tables w2 = tables w1) \<and>
      length (orders (tables w2)) \<le> length (orders (tables w)) + 1"
      using create_twice [OF assms(1,2) c1] c2 by blast
  qed
qed

lemma known_key_response:
  assumes q: "pg_quiet w" "all_served w"
    and valid: "validateCreateOrder (normalizeOrderInput req) = None" and key: "key_of req \<noteq> []"
    and o': "stored_orders (tables w) oid = Some o'" "oIdempotencyKey o' = key_of req"
  shows "\<exists>w'. svc_CreateOrder (pg_order_repo cfg coll) tid now req w =
      (if ordersMatchForIdempotency o' (normalizeOrderInput req) then Inr o' else Inl ErrIdempotencyKeyConflict, w') \<and>
      tables w' = tables w"
proof -
  have db: "order_db_inv (tables w)" using q by (simp add: pg_quiet_def order_store_inv_def)
  obtain r1 w1 where k: "rGetOrderByIdempotencyKey (pg_order_repo cfg coll) (key_of req) w = (r1, w1)"
    by fastforce
  have "stored_orders (tables w) (oID o') = Some o'" using o'(1) stored_orders_ID by metis
  then have "r1 = Inr o'"
    using pg_by_key_quiet [OF q(1) k] pg_GetOrderByIdempotencyKey_Inr [OF db, of _ "key_of req" o'] q(2) key o'(2)
    by (simp add: key_of_def)
  then show ?thesis
    using k valid key pg_by_key_quiet [OF q(1) k] by (auto simp: svc_CreateOrder_def replay_def)
qed

lemma create_keeps_served:
  assumes "svc_CreateOrder (pg_order_repo cfg coll) tid now req w = (r, w')" "all_served w"
  shows "all_served w'"
proof -
  have get: "all_served w2" if "rGetOrderByIdempotencyKey (pg_order_repo cfg coll) key w1 = (x, w2)" "all_served w1"
    for key x w1 w2
    using that by (auto simp: pg_order_repo_def with_read_eq)
  have sub: "all_served w2" if "submit_order (pg_order_repo cfg coll) p w1 = (x, w2)" "all_served w1" for p x w1 w2
  proof -
    obtain r1 w3 where c: "rCreateOrder (pg_order_repo cfg coll) p w1 = (r1, w3)" by fastforce
    then have "all_served w3" using that(2) by (auto simp: pg_order_repo_def with_attempt_eq)
    then show ?thesis
      using that(1) c by (auto simp: submit_order_def split: sum.splits prod.splits if_splits dest: get)
  qed
  show ?thesis
    using assms
    by (auto simp: svc_CreateOrder_def Let_def split: if_splits sum.splits prod.splits)
      (blast intro: get sub)+
qed

theorem create_order_retry_witness:
  "\<exists>x w1 w2. svc_CreateOrder sample_repo 7000 8000 sample_request sample_world = (Inr x, w1) \<and>
     svc_CreateOrder sample_repo 7001 9999 sample_request w1 = (Inr x, w2) \<and> tables w2 = tables w1"
proof -
  obtain x w1 where c: "svc_CreateOrder sample_repo 7000 8000 sample_request sample_world = (Inr x, w1)"
    by (rule sample_created)
  have q: "pg_quiet w1" using quiet.create_legal [OF sample_quiet c] by simp
  have L: "oIdempotencyKey x = key_of sample_request"
    "ordersMatchForIdempotency x (normalizeOrderInput sample_request)"
    "stored_orders (tables w1) (oID x) = Some x"
    using create_order_lemma [OF sample_quiet c] by auto
  have "all_served w1" using create_keeps_served [OF c] by simp
  then obtain w2 where c2: "svc_CreateOrder sample_repo 7001 9999 sample_request w1 = (Inr x, w2)"
    using known_key_response [OF q _ create_validates [OF c] _ L(3,1)] L(2) by fastforce
  from create_order_retry [OF sample_quiet _ refl c _ c2, of "[]"] c c2 show ?thesis by (auto simp: run_calls_def)
qed

text \<open>
  A request with a key that an order already carries: when the reads are served, the
  response is that order if the payloads match and \<open>ErrIdempotencyKeyConflict\<close> if they do
  not, and the tables are left alone in both cases.
\<close>
theorem create_order_known_key:
  assumes "pg_quiet w" "all_served w"
    and "validateCreateOrder (normalizeOrderInput req) = None" and "key_of req \<noteq> []"
    and "stored_orders (tables w) oid = Some o'" "oIdempotencyKey o' = key_of req"
  shows "\<exists>w'. svc_CreateOrder (pg_order_repo cfg coll) tid now req w =
      (if ordersMatchForIdempotency o' (normalizeOrderInput req) then Inr o' else Inl ErrIdempotencyKeyConflict, w') \<and>
      tables w' = tables w"
  using known_key_response [OF assms] .

theorem create_order_known_key_witness:
  "\<exists>(w1 :: order_db world) w2. svc_CreateOrder sample_repo 7001 9999 (sample_request\<lparr>oCustomerID := ''c2''\<rparr>) w1 =
     (Inl ErrIdempotencyKeyConflict, w2) \<and> tables w2 = tables w1"
proof -
  let ?req = "sample_request\<lparr>oCustomerID := ''c2''\<rparr>"
  obtain x w1 where c: "svc_CreateOrder sample_repo 7000 8000 sample_request sample_world = (Inr x, w1)"
    by (rule sample_created)
  have q: "pg_quiet w1" using quiet.create_legal [OF sample_quiet c] by simp
  have L: "oIdempotencyKey x = ''k1''" "oCustomerID x = ''c1''" "stored_orders (tables w1) (oID x) = Some x"
    using create_order_lemma [OF sample_quiet c]
    by (auto simp: ordersMatchForIdempotency_def) (simp_all add: sample_request_def)
  have s: "all_served w1" using create_keeps_served [OF c] by simp
  have r: "validateCreateOrder (normalizeOrderInput ?req) = None" "key_of ?req = ''k1''"
    by (simp_all add: sample_request_def zero_order_def validateCreateOrder_def normalizeOrderInput_def key_of_def)
  have no: "\<not> ordersMatchForIdempotency x (normalizeOrderInput ?req)"
    using L(2) by (simp add: ordersMatchForIdempotency_def)
  from create_order_known_key [OF q s r(1) _ L(3), of sample_config sample_coll 7001 9999] L r no
  show ?thesis by auto
qed

end
