(* ===== verification/Order_Lifecycle.thy ===== *)
theory Order_Lifecycle
  imports Order_Properties
begin

text \<open>
  The life of a stored order: totals, the round trip through the tables, the status machine
  under any sequence of service calls, repeated and reordered events, cancellation and its
  event, and the races that the separate read and write transactions leave open.
\<close>

section \<open>Totals\<close>

lemma stored_in_empty [simp]: "stored_orders empty_order_db oid = None"
  by (simp add: stored_orders_def empty_order_db_def)

text \<open>
  C6: When the exact total of a request fits in an \<open>int64\<close>, a newly placed order carries it:
  every line is priced quantity times unit price, all in one currency, and the total is
  their sum.
\<close>
theorem create_total_exact:
  assumes "pg_quiet w" and "order_total req < 2 ^ 63"
    and "svc_CreateOrder (pg_order_repo cfg coll) tid now req w = (Inr x, w')"
    and "tables w' \<noteq> tables w"
  shows "mAmountCents (oTotalAmount x) = order_total req \<and> 0 < order_total req \<and>
    mAmountCents (oTotalAmount x) = sum_list (map (\<lambda>i. mAmountCents (iTotalPrice i)) (oItems x)) \<and>
    (\<forall>i \<in> set (oItems x).
       mAmountCents (iTotalPrice i) = iQuantity i * mAmountCents (iUnitPrice i) \<and>
       mCurrency (iUnitPrice i) = mCurrency (oTotalAmount x) \<and>
       mCurrency (iTotalPrice i) = mCurrency (oTotalAmount x))"
  using assms(1,3)
proof (cases rule: svc_create_pg)
  case (added p a)
  note P = prepared_request [OF added(7,6)]
  have x: "x = persisted p" using added(5) by auto
  have line: "wrap64 (line_total i) = line_total i" if "i \<in> set (oItems req)" for i
    using line_totals_positive [OF P(3) that] assms(2)
    by (auto simp: order_total_def is_int64_def intro!: wrap64_id)
  have pos: "0 < order_total req"
    using line_totals_positive [OF P(3), of "hd (oItems req)"] P(4) by (simp add: order_total_def)
  then have total: "wrap64 (order_total req) = order_total req"
    using assms(2) by (intro wrap64_id) (simp add: is_int64_def)
  have "map (\<lambda>i. mAmountCents (iTotalPrice i)) (oItems p) = map line_total (oItems req)"
    unfolding P(1) using line by simp
  then have sum: "sum_list (map (\<lambda>i. mAmountCents (iTotalPrice i)) (oItems p)) = order_total req"
    by (simp only: order_total_def)
  have "\<forall>i \<in> set (oItems p).
       mAmountCents (iTotalPrice i) = iQuantity i * mAmountCents (iUnitPrice i) \<and>
       mCurrency (iUnitPrice i) = mCurrency (oTotalAmount p) \<and>
       mCurrency (iTotalPrice i) = mCurrency (oTotalAmount p)"
    using line P(5) unfolding P(1) by (auto simp: one_currency_def line_total_def)
  then show ?thesis
    using P(2) total pos sum unfolding x by simp
qed (use assms(4) in auto)

theorem create_total_exact_witness:
  "\<exists>x w'. svc_CreateOrder sample_repo 7000 8000 sample_request sample_world = (Inr x, w') \<and>
     mAmountCents (oTotalAmount x) = 500"
proof -
  obtain x w' where c: "svc_CreateOrder sample_repo 7000 8000 sample_request sample_world = (Inr x, w')"
    by (rule sample_created)
  have ne: "tables w' \<noteq> tables sample_world"
    using create_order_lemma [OF sample_quiet c] stored_in_empty [of "oID x"]
    by (auto simp: fun_eq_iff split: if_splits)
  have t: "order_total sample_request = 500"
    by (simp add: order_total_def sample_request_def line_total_def)
  from create_total_exact [OF sample_quiet _ c ne] c t show ?thesis by auto
qed

text \<open>Three items at 6148914691236517206 cents each, 18446744073709551618 cents in all.\<close>

definition overflow_request :: order where
  "overflow_request = sample_request\<lparr>oItems :=
     [\<lparr>iProductID = ''p1'', iSKU = ''s1'', iProductName = ''tea'', iQuantity = 3,
       iUnitPrice = \<lparr>mCurrency = CURRENCY_EUR, mAmountCents = 6148914691236517206\<rparr>,
       iTotalPrice = zero_money\<rparr>]\<rparr>"

lemma overflow_request_simps:
  "order_total overflow_request = 18446744073709551618"
  "validateCreateOrder (normalizeOrderInput overflow_request) = None"
  "key_of overflow_request = ''k1''" "request_in_range overflow_request"
  by (simp_all add: overflow_request_def sample_request_def zero_order_def order_total_def line_total_def
      validateCreateOrder_def normalizeOrderInput_def key_of_def request_in_range_def
      is_int32_def is_int64_def)

lemma overflow_prepared:
  obtains p where "prepare_order 7000 8000 (normalizeOrderInput overflow_request) = Inr p" "storable p"
    "oID p = id_of 7000 overflow_request" "oIdempotencyKey p = key_of overflow_request"
    "mAmountCents (oTotalAmount p) = 2"
proof -
  let ?o = "normalizeOrderInput overflow_request"
  have items: "oItems ?o = map normalize_item (oItems overflow_request)" by simp
  have price: "price_items (oItems ?o) 0 CURRENCY_UNSPECIFIED =
      Inr (map priced_item (oItems ?o), 2, CURRENCY_EUR)"
    unfolding items
    by (subst price_items_eq) (simp_all add: overflow_request_def good_item_def one_currency_def
        line_total_def wrap64_def)
  then obtain p where p: "prepare_order 7000 8000 ?o = Inr p"
    by (cases "TrimSpace (oID overflow_request) = []") (auto simp: prepare_order_def Let_def)
  note F = prepare_order_fields [OF p] and P = prepare_order_Inr(10) [OF p, unfolded price]
  have "dMethod (oPayment ?o) = PAYMENT_METHOD_TYPE_CARD"
    by (simp add: overflow_request_def sample_request_def normalizeOrderInput_def)
  moreover have "oItems p = map (priced_item \<circ> normalize_item) (oItems overflow_request)"
    "mAmountCents (oTotalAmount p) = 2" "mCurrency (oTotalAmount p) = CURRENCY_EUR"
    using P unfolding items by simp_all
  ultimately have "storable p"
    using F by (simp add: storable_def valid_items_def readable_def readable_item_def known_currency_def
        known_method_def overflow_request_def line_total_def wrap64_def)
  then show ?thesis using that p F P by (simp add: id_of_def)
qed

text \<open>
  C7: The total is computed in \<open>int64\<close> without an overflow check: a request of
  18446744073709551618 cents in all, whose fields are all in range, is accepted and stored
  as an order of 2 cents.
\<close>
theorem create_total_overflow:
  "\<exists>x w'. svc_CreateOrder sample_repo 7000 8000 overflow_request sample_world = (Inr x, w') \<and>
     stored_orders (tables w') (oID x) = Some x \<and> mAmountCents (oTotalAmount x) = 2 \<and>
     order_total overflow_request = 18446744073709551618 \<and> request_in_range overflow_request"
proof -
  obtain p where p: "prepare_order 7000 8000 (normalizeOrderInput overflow_request) = Inr p" "storable p"
    "oID p = id_of 7000 overflow_request" "oIdempotencyKey p = key_of overflow_request"
    "mAmountCents (oTotalAmount p) = 2" by (rule overflow_prepared)
  obtain w' where c: "svc_CreateOrder sample_repo 7000 8000 overflow_request sample_world = (Inr (persisted p), w')"
    using create_succeeds_prepared [OF sample_quiet _ _ overflow_request_simps(2) p(1-4), of sample_config sample_coll]
    by auto
  then have "stored_orders (tables w') (oID (persisted p)) = Some (persisted p)"
    using create_order_lemma [OF sample_quiet c] by auto
  with c p(5) overflow_request_simps show ?thesis by auto
qed

section \<open>The tables give back what they were given\<close>

text \<open>
  C8: What a committed \<open>CreateOrder\<close> or \<open>UpdateOrder\<close> of the repository returns is what the
  next \<open>GetOrderByID\<close> reads: the order it was given, with the idempotency key and the cancel
  reason trimmed and the timestamps cut to microseconds.
\<close>
theorem repository_roundtrip:
  assumes "order_db_inv db"
    and "pg_CreateOrder cfg a o' db = (Inr x, db') \<or> pg_UpdateOrder cfg a o' db = (Inr x, db')"
  shows "pg_GetOrderByID (calm t) (oID o') (\<lambda>_. db') = Inr x \<and>
    x = o'\<lparr>oIdempotencyKey := TrimSpace (oIdempotencyKey o'), oCancelReason := TrimSpace (oCancelReason o'),
          oCreatedAt := pg_micros (oCreatedAt o'), oUpdatedAt := pg_micros (oUpdatedAt o')\<rparr>"
  using assms(2)
proof
  assume "pg_CreateOrder cfg a o' db = (Inr x, db')"
  then have c: "storable o'" "fresh_order db o'" "x = persisted o'" "db' = add_order o' (created_event cfg a o') db"
    unfolding pg_CreateOrder_Inr [OF assms(1)] by auto
  then show ?thesis
    unfolding pg_GetOrderByID_Inr using stored_orders_add [OF assms(1) c(2,1)]
    by (simp add: persisted_def)
next
  assume "pg_UpdateOrder cfg a o' db = (Inr x, db')"
  then have c: "storable o'" "updatable cfg a db o'" "x = persisted o'"
    "db' = put_order o' (update_events cfg a o' db) db"
    unfolding pg_UpdateOrder_Inr by auto
  then have "oID o' \<in> rowID ` set (orders db)" by (simp add: updatable_def)
  then show ?thesis
    unfolding pg_GetOrderByID_Inr using stored_orders_put [OF _ c(1)] c(3,4)
    by (simp add: persisted_def)
qed

definition sample_order :: order where
  "sample_order = sample_request\<lparr>oID := ''o1'', oTotalAmount := \<lparr>mCurrency = CURRENCY_EUR, mAmountCents = 500\<rparr>,
     oItems := map priced_item (oItems sample_request), oStatus := ORDER_STATUS_PENDING,
     oCreatedAt := 8123, oUpdatedAt := 8123\<rparr>"

lemma sample_order_simps [simp]:
  "oID sample_order = ''o1''" "oStatus sample_order = ORDER_STATUS_PENDING"
  "oCreatedAt sample_order = 8123" "oUpdatedAt sample_order = 8123" "oCancelReason sample_order = []"
  "oIdempotencyKey sample_order = ''k1''"
  by (simp_all add: sample_order_def sample_request_def zero_order_def)

lemma sample_order_valid [simp]: "storable sample_order" "validateOrder sample_order = None"
  by (simp_all add: sample_order_def sample_request_def zero_order_def storable_def validateOrder_def
      valid_items_def readable_def readable_item_def known_currency_def known_method_def
      line_total_def wrap64_def)

lemma sample_order_fresh [simp]: "fresh_order empty_order_db sample_order"
  by (simp add: fresh_order_def empty_order_db_def key_taken_def)

abbreviation sample_db :: order_db where
  "sample_db \<equiv> add_order sample_order (created_event sample_config (calm 9000) sample_order) empty_order_db"

lemma sample_pg_created:
  "pg_CreateOrder sample_config (calm 9000) sample_order empty_order_db = (Inr (persisted sample_order), sample_db)"
  by (subst pg_CreateOrder_Inr) (simp_all add: committed_def create_served_def items_served_def)

lemma sample_db_inv [simp]: "order_store_inv sample_db"
  by (rule order_store_inv_add) simp_all

lemma sample_db_stored [simp]: "stored_orders sample_db = [''o1'' \<mapsto> persisted sample_order]"
  by (subst stored_orders_add) (simp_all add: order_store_invD(1) fun_eq_iff)

theorem repository_roundtrip_witness:
  "pg_GetOrderByID (calm 1) ''o1'' (\<lambda>_. sample_db) = Inr (persisted sample_order) \<and>
     oCreatedAt (persisted sample_order) = 8000"
  using repository_roundtrip [of empty_order_db sample_config "calm 9000" sample_order _ _ 1] sample_pg_created
  by (simp add: pg_micros_def)

section \<open>The status machine\<close>

text \<open>
  C9: Any sequence of service calls, with any faults and at any times, moves a stored order
  only along the status machine, and never changes its customer, items, total, address or
  payment, as long as no other client writes to the database in between.
\<close>
theorem order_lifecycle:
  assumes "pg_quiet w" and "stored_orders (tables w) oid = Some o1"
  shows "\<exists>o2. stored_orders (tables (run_calls (pg_order_repo cfg coll) cs w)) oid = Some o2 \<and>
    order_reaches (oStatus o1) (oStatus o2) \<and> same_purchase o1 o2"
  using quiet.run_calls_reach [OF assms(1), of oid o1 cfg coll cs] assms(2) by (simp add: pg_store_def)

lemma sample_quiet_db [simp]: "pg_quiet (calm_world sample_db t)"
  by (simp add: pg_quiet_def)

theorem order_lifecycle_witness:
  "\<exists>o2. stored_orders (tables (run_calls sample_repo
       [PaymentCapturedCall 1 ''o1'', InventoryReservedCall 2 ''o1'', CancelOrderCall 3 ''o1'' ''late'']
       (calm_world sample_db 9000))) ''o1'' = Some o2 \<and>
     order_reaches ORDER_STATUS_PENDING (oStatus o2)"
  using order_lifecycle [OF sample_quiet_db [of 9000], where oid = "''o1''" and
      cfg = sample_config and coll = sample_coll and
      cs = "[PaymentCapturedCall 1 ''o1'', InventoryReservedCall 2 ''o1'', CancelOrderCall 3 ''o1'' ''late'']"]
  by auto

section \<open>Beside other clients\<close>

context order_repository
begin

lemma run_call_inv: "inv s \<Longrightarrow> inv (run_call repo c s)"
proof (cases "call_transition c")
  case (Some t)
  assume "inv s"
  obtain oid step where t: "call_transition c = Some (oid, step)" using Some by (cases t) auto
  show ?thesis
    using transition_inv [OF \<open>inv s\<close> _ call_transition_lawful [OF t]]
    unfolding run_call_transition [OF t] by (metis prod.collapse)
next
  case None
  assume i: "inv s"
  show ?thesis
  proof (cases c)
    case (CreateOrderCall tid now o')
    obtain r s' where c': "svc_CreateOrder repo tid now o' s = (r, s')" by fastforce
    with i have "inv s'" by (rule create_cases)
    then show ?thesis using c' CreateOrderCall by simp
  next
    case (GetOrderCall oid)
    then show ?thesis
      using i get_order_inv [OF i, of oid] by (cases "svc_GetOrderByID repo oid s") auto
  next
    case (CancelOrderCall now oid reason)
    obtain r s' where c': "svc_CancelOrder repo now oid reason s = (r, s')" by fastforce
    with i have "inv s'" by (rule cancel_as_transition) (use i transition_inv in \<open>auto\<close>)
    then show ?thesis using c' CancelOrderCall by simp
  next
    case (ListOrdersCall cid page pageSize)
    then show ?thesis
      using i by_customer [OF i, of cid page pageSize]
      by (cases "rListOrdersByCustomer repo cid page pageSize s") (auto simp: svc_ListOrdersByCustomer_def)
  qed (use None in auto)
qed

lemma run_calls_keep: "inv s \<Longrightarrow> inv (run_calls repo cs s)"
  unfolding run_calls_def by (induction cs arbitrary: s) (auto dest: run_call_inv)

end

text \<open>
  C10: Whatever calls the service makes, whatever faults they meet, and whatever the other
  clients write in between as long as they keep the same invariant: every committed order
  can be read back, passes the validation, has its \<open>order.created\<close> event in the outbox, and
  has an \<open>order.cancelled\<close> event there when it is cancelled.
\<close>
theorem committed_orders_announced:
  assumes "order_store_inv (tables w)" and "others_keep order_store_inv w"
    and "db = tables (run_calls (pg_order_repo cfg coll) cs w)"
  shows "order_db_inv db \<and>
    (\<forall>row \<in> set (orders db). \<exists>o'. stored_orders db (rowID row) = Some o' \<and> validateOrder o' = None \<and>
       ''outbox-'' @ rowID row \<in> obID ` set (outbox db) \<and>
       (oStatus o' = ORDER_STATUS_CANCELLED \<longrightarrow> ''outbox-cancelled-'' @ rowID row \<in> obID ` set (outbox db)))"
proof -
  have "pg_inv (run_calls (pg_order_repo cfg coll) cs w)"
    by (rule pg.run_calls_keep) (simp add: pg_inv_def assms)
  then have inv: "order_store_inv db" by (simp add: pg_inv_def assms(3))
  note D = order_store_invD [OF inv]
  show ?thesis
  proof (intro conjI ballI)
    show "order_db_inv db" by (rule D(1))
    fix row assume "row \<in> set (orders db)"
    then have here: "rowID row \<in> rowID ` set (orders db)" by simp
    then obtain o' where o': "stored_orders db (rowID row) = Some o'" using D(2) by blast
    show "\<exists>o'. stored_orders db (rowID row) = Some o' \<and> validateOrder o' = None \<and>
       ''outbox-'' @ rowID row \<in> obID ` set (outbox db) \<and>
       (oStatus o' = ORDER_STATUS_CANCELLED \<longrightarrow> ''outbox-cancelled-'' @ rowID row \<in> obID ` set (outbox db))"
      using o' D(3) [OF here] D(4) [OF o'] D(5) [OF o'] by (auto simp: sound_order_def)
  qed
qed

lemma sample_alone [simp]: "others_keep P (calm_world db t)"
  by (simp add: alone_others_keep)

theorem committed_orders_announced_witness:
  "\<exists>db. db = tables (run_calls sample_repo [CreateOrderCall 7000 8000 sample_request,
       PaymentCapturedCall 5 ''o1''] (calm_world sample_db 9000)) \<and> order_db_inv db"
  using committed_orders_announced [of "calm_world sample_db 9000", OF _ _ refl,
      of sample_config sample_coll "[CreateOrderCall 7000 8000 sample_request, PaymentCapturedCall 5 ''o1'']"]
  by simp

section \<open>Transitions on a served repository\<close>

lemma pg_update_succeeds:
  assumes inv: "order_store_inv db" and old: "stored_orders db (oID o') = Some old"
    and o': "storable o'" "validateOrder o' = None" "oIdempotencyKey o' = oIdempotencyKey old"
    and a: "\<And>site. fault_at a site = Served"
    and cancel: "oStatus o' = ORDER_STATUS_CANCELLED \<Longrightarrow> oStatus old \<noteq> ORDER_STATUS_CANCELLED \<Longrightarrow>
      TrimSpace (orderCancelledTopic cfg) \<noteq> [] \<and> ''outbox-cancelled-'' @ oID o' \<notin> obID ` set (outbox db)"
  shows "pg_UpdateOrder cfg a o' db = (Inr (persisted o'), put_order o' (update_events cfg a o' db) db)"
proof -
  note D = order_store_invD [OF inv]
  obtain row where row: "find (\<lambda>r. rowID r = oID o') (orders db) = Some row"
    "rowStatus row = OrderStatus_String (oStatus old)"
    using stored_orders_row [OF old] by blast
  have key: "\<not> key_taken (rowIdempotencyKey (toOrderDBParams o')) (filter (\<lambda>r. rowID r \<noteq> oID o') (orders db))"
  proof (cases "oIdempotencyKey old = []")
    case True
    then show ?thesis using o'(3) by (simp add: key_taken_def)
  next
    case False
    obtain r where r: "r \<in> set (orders db)" "rowID r = oID o'"
      "rowIdempotencyKey r = Some (oIdempotencyKey old)"
      using stored_key_row [OF old False] .
    have "TrimSpace (oIdempotencyKey old) = oIdempotencyKey old"
      using D(5) [OF old] by (metis persisted_simps(8) sound_order_def)
    then have "rowIdempotencyKey (toOrderDBParams o') = Some (oIdempotencyKey old)"
      using o'(3) False by (simp add: toOrderDBParams_def)
    then show ?thesis
      using r(2) unique_idempotency_key [OF D(1) r(1) _ r(3)] unfolding key_taken_def by fastforce
  qed
  have turn: "turns_cancelled db o' \<longleftrightarrow>
      oStatus o' = ORDER_STATUS_CANCELLED \<and> oStatus old \<noteq> ORDER_STATUS_CANCELLED"
    using row OrderStatus_String_eq_iff [of "oStatus old" ORDER_STATUS_CANCELLED]
    unfolding turns_cancelled_def by auto
  have "updatable cfg a db o'"
    using stored_orders_dom [OF old] key cancel a unfolding updatable_def turn by auto
  then show ?thesis
    using o' a by (simp add: pg_UpdateOrder_Inr committed_def update_served_def items_served_def)
qed

lemma pg_get_served:
  assumes "pg_quiet w" "all_served w" "stored_orders (tables w) oid = Some o'"
  shows "rGetOrderByID (pg_order_repo cfg coll) oid w = (Inr o', w\<lparr>calls := Suc (calls w)\<rparr>)"
  using assms pg_GetOrderByID_Inr [of "the_attempt w" oid "tables w" o']
  by (simp add: pg_order_repo_def with_read_def pg_quiet_def alone_found)

lemma same_purchase_storable:
  assumes "sound_order o1" "same_purchase o1 o2" "oCreatedAt o2 \<noteq> zero_time" "oUpdatedAt o2 \<noteq> zero_time"
  shows "storable o2" "validateOrder o2 = None"
proof -
  have same: "oID o2 = oID o1" "oCustomerID o2 = oCustomerID o1" "oItems o2 = oItems o1"
    "oTotalAmount o2 = oTotalAmount o1" "oShippingAddress o2 = oShippingAddress o1"
    "oPayment o2 = oPayment o1"
    using assms(2) by (simp_all add: same_purchase_def)
  have "validateOrder o2 = validateOrder o1" by (simp only: validateOrder_def same)
  then show "validateOrder o2 = None" using assms(1) by (simp add: sound_order_def)
  show "storable o2"
    using assms(1,3,4) by (simp add: storable_def readable_def same sound_order_def)
qed

lemma transition_served:
  assumes w: "pg_quiet w" "all_served w" and old: "stored_orders (tables w) oid = Some old"
    and st: "step old = Inr (new, True)" "same_purchase old new" "oIdempotencyKey new = oIdempotencyKey old"
    and time: "oCreatedAt new \<noteq> zero_time" "oUpdatedAt new \<noteq> zero_time"
    and cancel: "oStatus new = ORDER_STATUS_CANCELLED \<Longrightarrow> oStatus old \<noteq> ORDER_STATUS_CANCELLED \<Longrightarrow>
      TrimSpace (orderCancelledTopic cfg) \<noteq> [] \<and> ''outbox-cancelled-'' @ oid \<notin> obID ` set (outbox (tables w))"
  shows "\<exists>a w'. transitionOrder (pg_order_repo cfg coll) oid step w = (Inr (persisted new), w') \<and>
    tables w' = put_order new (update_events cfg a new (tables w)) (tables w) \<and> pg_quiet w' \<and> all_served w'"
proof -
  have inv: "order_store_inv (tables w)" and al: "alone w" using w by (simp_all add: pg_quiet_def)
  note D = order_store_invD [OF inv]
  have id2: "oID new = oid" using st(2) stored_orders_ID [OF old] by (simp add: same_purchase_def)
  let ?w1 = "w\<lparr>calls := Suc (calls w)\<rparr>"
  let ?a = "the_attempt ?w1"
  have served: "fault_at ?a site = Served" for site
    using w(2) by (cases site) (simp add: all_served_def the_attempt_def)
  note S = same_purchase_storable [OF D(5) [OF old] st(2) time]
  have u: "pg_UpdateOrder cfg ?a new (tables w) =
      (Inr (persisted new), put_order new (update_events cfg ?a new (tables w)) (tables w))"
    using old cancel id2 by (intro pg_update_succeeds [OF inv _ S st(3) served]) auto
  then have up: "updatable cfg ?a (tables w) new" by (simp add: pg_UpdateOrder_Inr)
  have f: "found ?w1 = tables w" using al by (simp add: found_def alone_def)
  let ?w2 = "w\<lparr>tables := put_order new (update_events cfg ?a new (tables w)) (tables w), calls := Suc (Suc (calls w))\<rparr>"
  have t: "transitionOrder (pg_order_repo cfg coll) oid step w = (Inr (persisted new), ?w2)"
    using u f st(1) by (simp add: transitionOrder_def pg_get_served [OF w old] finish_transition_def)
      (simp add: pg_order_repo_def with_attempt_def)
  have "order_store_inv (tables ?w2)"
    using order_store_inv_put [OF inv up S] by simp
  then have "pg_quiet ?w2" using al by (simp add: pg_quiet_def)
  moreover have "all_served ?w2" using w(2) by simp
  ultimately show ?thesis using t by (intro exI [of _ ?a] exI [of _ ?w2]) simp
qed

lemma transition_kept:
  assumes w: "pg_quiet w" "all_served w" and old: "stored_orders (tables w) oid = Some old"
    and st: "step old = Inr (old, False)"
  shows "transitionOrder (pg_order_repo cfg coll) oid step w = (Inr old, w\<lparr>calls := Suc (calls w)\<rparr>)"
  by (simp add: transitionOrder_def pg_get_served [OF w old] finish_transition_def st)

section \<open>Events delivered again, and in either order\<close>

lemma transition_result:
  assumes "pg_quiet w" "transitionOrder (pg_order_repo cfg coll) oid step w = (Inr x, w1)" "lawful_step step"
  obtains o1 o2 b where "pg_quiet w1" "stored_orders (tables w1) oid = Some x"
    "step o1 = Inr (o2, b)" "oStatus x = oStatus o2"
  using assms
proof (cases rule: quiet.transition_cases)
  case (kept o1)
  then show ?thesis using that by (auto simp: pg_store_def)
next
  case (stored o1 o2 s1 m)
  then show ?thesis using that by (auto simp: pg_store_def fun_upd_def)
qed auto

lemma transition_settled:
  assumes w: "pg_quiet w" "stored_orders (tables w) oid = Some x" and st: "step x = Inr (x, False)"
    and t: "transitionOrder (pg_order_repo cfg coll) oid step w = (r, w')"
  shows "tables w' = tables w \<and> (r = Inr x \<or> (\<exists>e. r = Inl e))"
proof -
  obtain r1 w1 where g: "rGetOrderByID (pg_order_repo cfg coll) oid w = (r1, w1)" by fastforce
  have "alone w" using w(1) by (simp add: pg_quiet_def)
  then have t1: "tables w1 = tables w" using g by (auto simp: pg_order_repo_def with_read_eq alone_found)
  have "r1 = Inr o' \<Longrightarrow> o' = x" for o'
    using quiet.get [OF w(1) g] w(2) t1 by (auto simp: pg_store_def)
  then show ?thesis
    using t g t1 st by (auto simp: transitionOrder_def finish_transition_def split: sum.splits)
qed

lemma reaches_pending: "order_reaches s t \<Longrightarrow> t = ORDER_STATUS_PENDING \<Longrightarrow> s = ORDER_STATUS_PENDING"
  by (induction rule: rtranclp_induct) (auto elim: order_step_toE)

lemma reaches_waiting:
  "order_reaches s t \<Longrightarrow> t = ORDER_STATUS_AWAITING_PAYMENT \<Longrightarrow> s \<in> {ORDER_STATUS_PENDING, ORDER_STATUS_AWAITING_PAYMENT}"
  by (induction rule: rtranclp_induct) (auto elim!: order_step_toE dest: reaches_pending)

lemma reaches_from:
  "order_reaches s t \<Longrightarrow>
     (t = ORDER_STATUS_PENDING \<longrightarrow> s = ORDER_STATUS_PENDING) \<and>
     (t = ORDER_STATUS_AWAITING_PAYMENT \<longrightarrow> s \<in> {ORDER_STATUS_PENDING, ORDER_STATUS_AWAITING_PAYMENT})"
  using reaches_pending reaches_waiting by blast

lemma steps_settle:
  "reserved_step t1 o1 = Inr (o2, b) \<Longrightarrow> order_reaches (oStatus o2) (oStatus x) \<Longrightarrow> reserved_step t2 x = Inr (x, False)"
  "captured_step t1 o1 = Inr (o2, b) \<Longrightarrow> order_reaches (oStatus o2) (oStatus x) \<Longrightarrow> captured_step t2 x = Inr (x, False)"
  "failed_step t1 reason o1 = Inr (o2, b) \<Longrightarrow> order_reaches (oStatus o2) (oStatus x) \<Longrightarrow> failed_step t2 reason' x = Inr (x, False)"
  by (auto simp: reserved_step_def captured_step_def failed_step_def cancelOrderWithReason_def
      split: order_status.splits if_splits dest!: reaches_from)

text \<open>A step that was made once is not made again, whatever the service did to the order since.\<close>

lemma repeated_transition:
  assumes "pg_quiet w" "lawful_step step"
    and "transitionOrder (pg_order_repo cfg coll) oid step w = (Inr x, w1)"
    and settle: "\<And>o1 o2 b z. step o1 = Inr (o2, b) \<Longrightarrow> order_reaches (oStatus o2) (oStatus z) \<Longrightarrow> step' z = Inr (z, False)"
    and same: "tables wm = tables (run_calls (pg_order_repo cfg coll) cs w1)" "pg_quiet wm"
    and "transitionOrder (pg_order_repo cfg coll) oid step' wm = (r, w2)"
  shows "tables w2 = tables wm \<and> (\<exists>z. stored_orders (tables wm) oid = Some z \<and> same_purchase x z \<and>
    order_reaches (oStatus x) (oStatus z) \<and> (cs = [] \<longrightarrow> z = x) \<and> (r = Inr z \<or> (\<exists>e. r = Inl e)))"
proof -
  obtain o1 o2 b where x: "pg_quiet w1" "stored_orders (tables w1) oid = Some x"
    "step o1 = Inr (o2, b)" "oStatus x = oStatus o2"
    using assms(1,3,2) by (rule transition_result)
  obtain z where z: "stored_orders (tables wm) oid = Some z" "order_reaches (oStatus x) (oStatus z)" "same_purchase x z"
    using quiet.run_calls_reach [OF x(1), of oid x cfg coll cs] x(2) same(1) by (auto simp: pg_store_def)
  have "cs = [] \<longrightarrow> z = x" using z(1) x(2) same(1) by (intro impI) (simp add: run_calls_def)
  moreover have "step' z = Inr (z, False)" using settle [OF x(3)] z(2) x(4) by simp
  ultimately show ?thesis using transition_settled [OF same(2) z(1) _ assms(7)] z by blast
qed

text \<open>The handlers of the status events, with the reason a failure carries.\<close>

inductive event_call ::
    "(time \<Rightarrow> string \<Rightarrow> (order_db, 'm) world_scheme \<Rightarrow> (order_error + order) \<times> (order_db, 'm) world_scheme) \<Rightarrow>
     repository_config \<Rightarrow> (string \<Rightarrow> 'k::linorder) \<Rightarrow> bool" where
  "event_call (svc_MarkInventoryReserved (pg_order_repo cfg coll)) cfg coll"
| "event_call (svc_MarkPaymentCaptured (pg_order_repo cfg coll)) cfg coll"
| "event_call (\<lambda>now oid. svc_MarkInventoryReservationFailed (pg_order_repo cfg coll) now oid reason) cfg coll"
| "event_call (\<lambda>now oid. svc_MarkPaymentFailed (pg_order_repo cfg coll) now oid reason) cfg coll"
| "event_call (\<lambda>now oid. svc_MarkPaymentCreationFailed (pg_order_repo cfg coll) now oid reason) cfg coll"

lemma event_call_transition:
  assumes "event_call event cfg coll"
  obtains step where "\<And>now oid w. event now oid w = transitionOrder (pg_order_repo cfg coll) oid (step now) w"
    "\<And>now. lawful_step (step now)"
    "\<And>t1 t2 o1 o2 b x. step t1 o1 = Inr (o2, b) \<Longrightarrow> order_reaches (oStatus o2) (oStatus x) \<Longrightarrow> step t2 x = Inr (x, False)"
  using assms
proof cases
  case 1
  then show ?thesis using that [of reserved_step] steps_settle(1) by (simp add: svc_MarkInventoryReserved_def)
next
  case 2
  then show ?thesis using that [of captured_step] steps_settle(2) by (simp add: svc_MarkPaymentCaptured_def)
next
  case (3 reason)
  then show ?thesis
    using that [of "\<lambda>now. failed_step now (if TrimSpace reason = [] then ''inventory reservation failed'' else reason)"] steps_settle(3)
    by (simp add: svc_MarkInventoryReservationFailed_def Let_def)
next
  case (4 reason)
  then show ?thesis
    using that [of "\<lambda>now. failed_step now (if TrimSpace reason = [] then ''payment failed'' else reason)"] steps_settle(3)
    by (simp add: svc_MarkPaymentFailed_def Let_def)
next
  case (5 reason)
  then show ?thesis
    using that [of "\<lambda>now. failed_step now (if TrimSpace reason = [] then ''payment creation failed'' else reason)"] steps_settle(3)
    by (simp add: svc_MarkPaymentCreationFailed_def Let_def)
qed

text \<open>
  C11: A status event that was applied once is idempotent: delivering it again, at once or after
  any other calls of the service on this or other orders, at any time and with any faults, changes
  no table, and returns the order as it is stored by then or an error, when no other client writes
  to the tables. That order has moved on along the status machine at most, and after no other
  calls it is the order that was returned the first time.
\<close>
theorem repeated_event_ignored:
  assumes "event_call event cfg coll" and "pg_quiet w"
    and "event now oid w = (Inr x, w1)" and "wm = run_calls (pg_order_repo cfg coll) cs w1"
    and "event now' oid wm = (r, w2)"
  shows "tables w2 = tables wm \<and> (\<exists>z. stored_orders (tables wm) oid = Some z \<and> same_purchase x z \<and>
    order_reaches (oStatus x) (oStatus z) \<and> (cs = [] \<longrightarrow> z = x) \<and> (r = Inr z \<or> (\<exists>e. r = Inl e)))"
  using assms(1)
proof (cases rule: event_call_transition)
  case (1 step)
  have t: "transitionOrder (pg_order_repo cfg coll) oid (step now) w = (Inr x, w1)"
    "transitionOrder (pg_order_repo cfg coll) oid (step now') wm = (r, w2)"
    using assms(3,5) by (simp_all add: 1(1))
  obtain o1 o2 b where "pg_quiet w1" using assms(2) t(1) 1(2) by (rule transition_result)
  then have "pg_quiet wm" unfolding assms(4) by (rule quiet.run_calls_inv)
  from repeated_transition [where cs = cs, OF assms(2) 1(2) t(1) 1(3) _ this t(2)] assms(4) show ?thesis by simp
qed

lemma sample_stored_quiet: "stored_orders (tables (calm_world sample_db t)) ''o1'' = Some (persisted sample_order)"
  by simp

lemma move_served:
  assumes w: "pg_quiet w" "all_served w" and old: "stored_orders (tables w) oid = Some old"
    and st: "step old = Inr (old\<lparr>oStatus := st, oCancelReason := [], oUpdatedAt := now\<rparr>, True)"
    and ok: "st \<noteq> ORDER_STATUS_CANCELLED" "oCreatedAt old \<noteq> zero_time" "now \<noteq> zero_time"
  shows "\<exists>x w'. transitionOrder (pg_order_repo cfg coll) oid step w = (Inr x, w') \<and> oStatus x = st \<and>
    oCreatedAt x = oCreatedAt old \<and> stored_orders (tables w') oid = Some x \<and> pg_quiet w' \<and> all_served w'"
proof -
  let ?o = "old\<lparr>oStatus := st, oCancelReason := [], oUpdatedAt := now\<rparr>"
  have same: "same_purchase old ?o" by (simp add: same_purchase_def)
  have sound: "sound_order old"
    using order_store_invD(5) [OF _ old] w(1) by (simp add: pg_quiet_def)
  then have micros: "pg_micros (oCreatedAt old) = oCreatedAt old"
    by (metis persisted_simps(10) sound_order_def)
  have "\<exists>a w'. transitionOrder (pg_order_repo cfg coll) oid step w = (Inr (persisted ?o), w') \<and>
    tables w' = put_order ?o (update_events cfg a ?o (tables w)) (tables w) \<and> pg_quiet w' \<and> all_served w'"
    by (rule transition_served [where step = step and new = ?o, OF w old st same]) (simp_all add: ok)
  then obtain a w' where t: "transitionOrder (pg_order_repo cfg coll) oid step w = (Inr (persisted ?o), w')"
    "tables w' = put_order ?o (update_events cfg a ?o (tables w)) (tables w)" "pg_quiet w'" "all_served w'"
    by blast
  have "oID old = oid" using old by (rule stored_orders_ID)
  moreover have "oid \<in> rowID ` set (orders (tables w))" using old by (rule stored_orders_dom)
  moreover have "storable ?o" using same_purchase_storable(1) [OF sound same] ok by simp
  ultimately have "stored_orders (tables w') oid = Some (persisted ?o)"
    using stored_orders_put [of ?o "tables w"] by (simp add: t(2))
  then show ?thesis using t micros by simp
qed

lemma captured_served:
  assumes "pg_quiet w" "all_served w" "stored_orders (tables w) oid = Some old"
    and "oStatus old = ORDER_STATUS_PENDING \<or> oStatus old = ORDER_STATUS_AWAITING_PAYMENT"
    and "oCreatedAt old \<noteq> zero_time" "now \<noteq> zero_time"
  shows "\<exists>x w'. svc_MarkPaymentCaptured (pg_order_repo cfg coll) now oid w = (Inr x, w') \<and>
    oStatus x = ORDER_STATUS_CONFIRMED \<and> oCreatedAt x = oCreatedAt old \<and>
    stored_orders (tables w') oid = Some x \<and> pg_quiet w' \<and> all_served w'"
  unfolding svc_MarkPaymentCaptured_def
  using assms(4) by (intro move_served [OF assms(1-3) _ _ assms(5,6)]) (auto simp: captured_step_def)

lemma reserved_served:
  assumes "pg_quiet w" "all_served w" "stored_orders (tables w) oid = Some old"
    and "oStatus old = ORDER_STATUS_PENDING" "oCreatedAt old \<noteq> zero_time" "now \<noteq> zero_time"
  shows "\<exists>x w'. svc_MarkInventoryReserved (pg_order_repo cfg coll) now oid w = (Inr x, w') \<and>
    oStatus x = ORDER_STATUS_AWAITING_PAYMENT \<and> oCreatedAt x = oCreatedAt old \<and>
    stored_orders (tables w') oid = Some x \<and> pg_quiet w' \<and> all_served w'"
  unfolding svc_MarkInventoryReserved_def
  using assms(4) by (intro move_served [OF assms(1-3) _ _ assms(5,6)]) (auto simp: reserved_step_def)

lemma sample_created_at: "oCreatedAt (persisted sample_order) \<noteq> zero_time"
  by (simp add: pg_micros_def zero_time_def)

theorem repeated_event_ignored_witness:
  "\<exists>x w1 r w2. svc_MarkPaymentCaptured sample_repo 7000 ''o1'' (calm_world sample_db 9000) = (Inr x, w1) \<and>
     svc_MarkPaymentCaptured sample_repo 7500 ''o1''
       (run_calls sample_repo [InventoryReservedCall 7100 ''o1'', CancelOrderCall 7200 ''o1'' ''late''] w1) = (r, w2) \<and>
     tables w2 = tables (run_calls sample_repo [InventoryReservedCall 7100 ''o1'', CancelOrderCall 7200 ''o1'' ''late''] w1)"
proof -
  let ?cs = "[InventoryReservedCall 7100 ''o1'', CancelOrderCall 7200 ''o1'' ''late'']"
  obtain x w1 where c: "svc_MarkPaymentCaptured sample_repo 7000 ''o1'' (calm_world sample_db 9000) = (Inr x, w1)"
    using captured_served [OF sample_quiet_db [of 9000] all_served_calm_world sample_stored_quiet _ sample_created_at,
        of 7000 sample_config sample_coll] by (auto simp: zero_time_def)
  obtain r w2 where d: "svc_MarkPaymentCaptured sample_repo 7500 ''o1'' (run_calls sample_repo ?cs w1) = (r, w2)" by fastforce
  show ?thesis
    using c d repeated_event_ignored [OF event_call.intros(2) sample_quiet_db c refl d] by blast
qed

text \<open>
  C12: The events of the two other services may arrive in either order: on a served database
  a pending order ends confirmed whether the reservation or the capture is reported first.
\<close>
theorem success_events_in_any_order:
  assumes "pg_quiet w" "all_served w" "stored_orders (tables w) oid = Some old"
    and "oStatus old = ORDER_STATUS_PENDING" "oCreatedAt old \<noteq> zero_time" "now \<noteq> zero_time" "now' \<noteq> zero_time"
    and "repo = pg_order_repo cfg coll"
  shows "(\<exists>x y w1 w2. svc_MarkInventoryReserved repo now oid w = (Inr x, w1) \<and>
      svc_MarkPaymentCaptured repo now' oid w1 = (Inr y, w2) \<and>
      oStatus y = ORDER_STATUS_CONFIRMED \<and> stored_orders (tables w2) oid = Some y) \<and>
    (\<exists>x y w1 w2. svc_MarkPaymentCaptured repo now' oid w = (Inr x, w1) \<and>
      svc_MarkInventoryReserved repo now oid w1 = (Inr y, w2) \<and>
      oStatus y = ORDER_STATUS_CONFIRMED \<and> stored_orders (tables w2) oid = Some y)"
proof (intro conjI)
  obtain x w1 where r: "svc_MarkInventoryReserved repo now oid w = (Inr x, w1)"
    "oStatus x = ORDER_STATUS_AWAITING_PAYMENT" "oCreatedAt x = oCreatedAt old"
    "stored_orders (tables w1) oid = Some x" "pg_quiet w1" "all_served w1"
    using reserved_served [OF assms(1-6), of cfg coll] unfolding assms(8) by blast
  have created: "oCreatedAt x \<noteq> zero_time" using r(3) assms(5) by simp
  obtain y w2 where "svc_MarkPaymentCaptured repo now' oid w1 = (Inr y, w2)"
    "oStatus y = ORDER_STATUS_CONFIRMED" "stored_orders (tables w2) oid = Some y"
    using captured_served [OF r(5,6,4) disjI2 [OF r(2)] created assms(7), of cfg coll]
    unfolding assms(8) by blast
  with r(1) show "\<exists>x y w1 w2. svc_MarkInventoryReserved repo now oid w = (Inr x, w1) \<and>
      svc_MarkPaymentCaptured repo now' oid w1 = (Inr y, w2) \<and>
      oStatus y = ORDER_STATUS_CONFIRMED \<and> stored_orders (tables w2) oid = Some y" by blast
  obtain x w1 where c: "svc_MarkPaymentCaptured repo now' oid w = (Inr x, w1)"
    "oStatus x = ORDER_STATUS_CONFIRMED" "stored_orders (tables w1) oid = Some x" "pg_quiet w1" "all_served w1"
    using captured_served [OF assms(1-3) disjI1 [OF assms(4)] assms(5,7), of cfg coll]
    unfolding assms(8) by blast
  have "reserved_step now x = Inr (x, False)" by (simp add: reserved_step_def c(2))
  from transition_kept [where step = "reserved_step now", OF c(4,5,3) this, of cfg coll]
  obtain w2 where "svc_MarkInventoryReserved repo now oid w1 = (Inr x, w2)" "tables w2 = tables w1"
    by (simp add: assms(8) svc_MarkInventoryReserved_def)
  with c show "\<exists>x y w1 w2. svc_MarkPaymentCaptured repo now' oid w = (Inr x, w1) \<and>
      svc_MarkInventoryReserved repo now oid w1 = (Inr y, w2) \<and>
      oStatus y = ORDER_STATUS_CONFIRMED \<and> stored_orders (tables w2) oid = Some y"
    by (metis (no_types, lifting))
qed

theorem success_events_in_any_order_witness:
  "\<exists>x y w1 w2. svc_MarkPaymentCaptured sample_repo 7500 ''o1'' (calm_world sample_db 9000) = (Inr x, w1) \<and>
      svc_MarkInventoryReserved sample_repo 7000 ''o1'' w1 = (Inr y, w2) \<and>
      oStatus y = ORDER_STATUS_CONFIRMED"
  using success_events_in_any_order [OF sample_quiet_db [of 9000] all_served_calm_world sample_stored_quiet _
      sample_created_at, of 7000 7500 _ sample_config sample_coll, OF _ _ _ refl]
  by (auto simp: zero_time_def)

section \<open>Cancellation\<close>

lemma cancel_transition:
  assumes "stored_orders (tables w) oid = Some old" "pg_quiet w" "all_served w"
    and "TrimSpace oid \<noteq> []" "TrimSpace reason \<noteq> []" "canCancelOrder (oStatus old)"
  shows "svc_CancelOrder (pg_order_repo cfg coll) now oid reason w =
    transitionOrder (pg_order_repo cfg coll) oid (cancel_step now (TrimSpace reason)) w"
  using assms(4-6)
  by (simp add: svc_CancelOrder_def transitionOrder_def finish_transition_def cancel_step_def Let_def
      pg_get_served [OF assms(2,3,1)] del: canCancelOrder_step) (auto simp: canCancelOrder_def)

lemma turned_cancelled:
  assumes w: "pg_quiet w" "all_served w" and old: "stored_orders (tables w) oid = Some old"
    and st: "step old = Inr (old\<lparr>oStatus := ORDER_STATUS_CANCELLED, oCancelReason := reason, oUpdatedAt := now\<rparr>, True)"
    and ok: "oStatus old \<noteq> ORDER_STATUS_CANCELLED" "oCreatedAt old \<noteq> zero_time" "now \<noteq> zero_time"
      "TrimSpace (orderCancelledTopic cfg) \<noteq> []" "''outbox-cancelled-'' @ oid \<notin> obID ` set (outbox (tables w))"
      "TrimSpace reason = reason"
  shows "\<exists>x w' e env. transitionOrder (pg_order_repo cfg coll) oid step w = (Inr x, w') \<and>
    stored_orders (tables w') = (stored_orders (tables w))(oid \<mapsto> x) \<and>
    pg_quiet w' \<and> all_served w' \<and> obID e = ''outbox-cancelled-'' @ oid \<and>
    x = persisted (old\<lparr>oStatus := ORDER_STATUS_CANCELLED, oCancelReason := reason, oUpdatedAt := now\<rparr>) \<and>
    outbox (tables w') = outbox (tables w) @ [e] \<and>
    obTopic e = orderCancelledTopic cfg \<and> obPublishedAt e = None \<and> en_EventType env = OrderCancelledEventType \<and>
    decode_event dec_OrderCancelled zero_OrderCancelled (Some (obPayload e)) =
      Some (env, \<lparr>ox_OrderID = oid, ox_CustomerID = oCustomerID old, ox_CancelReason = reason\<rparr>)"
proof -
  let ?o = "old\<lparr>oStatus := ORDER_STATUS_CANCELLED, oCancelReason := reason, oUpdatedAt := now\<rparr>"
  have inv: "order_store_inv (tables w)" using w(1) by (simp add: pg_quiet_def)
  have same: "same_purchase old ?o" by (simp add: same_purchase_def)
  have "\<exists>a w'. transitionOrder (pg_order_repo cfg coll) oid step w = (Inr (persisted ?o), w') \<and>
    tables w' = put_order ?o (update_events cfg a ?o (tables w)) (tables w) \<and> pg_quiet w' \<and> all_served w'"
    by (rule transition_served [where step = step and new = ?o, OF w old st same]) (use ok(2-5) in simp_all)
  then obtain a w' where t: "transitionOrder (pg_order_repo cfg coll) oid step w = (Inr (persisted ?o), w')"
    "tables w' = put_order ?o (update_events cfg a ?o (tables w)) (tables w)" "pg_quiet w'" "all_served w'"
    by blast
  have id_old: "oID old = oid" using old by (rule stored_orders_ID)
  have "storable ?o" using same_purchase_storable(1) [OF order_store_invD(5) [OF inv old] same] ok(2,3) by simp
  then have store: "stored_orders (tables w') = (stored_orders (tables w))(oid \<mapsto> persisted ?o)"
    using stored_orders_put [of ?o "tables w"] stored_orders_dom [OF old] by (simp add: t(2) id_old)
  obtain row where "find (\<lambda>r. rowID r = oid) (orders (tables w)) = Some row"
    "rowStatus row = OrderStatus_String (oStatus old)"
    using stored_orders_row [OF old] by blast
  then have "turns_cancelled (tables w) ?o"
    using ok(1) OrderStatus_String_eq_iff [of "oStatus old" ORDER_STATUS_CANCELLED]
    by (auto simp: turns_cancelled_def id_old)
  then have events: "outbox (tables w') = outbox (tables w) @ [cancelled_event cfg a (persisted ?o)]"
    by (simp add: t(2) put_order_def update_events_def)
  obtain env where "decode_event dec_OrderCancelled zero_OrderCancelled
      (Some (obPayload (cancelled_event cfg a (persisted ?o)))) =
      Some (env, \<lparr>ox_OrderID = oid, ox_CustomerID = oCustomerID old, ox_CancelReason = reason\<rparr>)"
    "en_EventType env = OrderCancelledEventType"
    using decode_cancelled_message [of "persisted ?o" "orderCancelledTopic cfg" "clock_at a ''createdAt''"]
    by (auto simp: cancelled_event_def outbox_params_def id_old ok(6))
  then show ?thesis
    using t(1,3,4) id_old store events by (intro exI [of _ "persisted ?o"] exI [of _ w'] exI exI [of _ env] conjI) simp_all
qed

lemma cancel_served:
  assumes "pg_quiet w" "all_served w" "stored_orders (tables w) oid = Some old"
    and "TrimSpace oid \<noteq> []" "TrimSpace reason \<noteq> []" "canCancelOrder (oStatus old)"
    and "oCreatedAt old \<noteq> zero_time" "now \<noteq> zero_time" "TrimSpace (orderCancelledTopic cfg) \<noteq> []"
    and "''outbox-cancelled-'' @ oid \<notin> obID ` set (outbox (tables w))"
  shows "\<exists>x w' e env. svc_CancelOrder (pg_order_repo cfg coll) now oid reason w = (Inr x, w') \<and>
    stored_orders (tables w') = (stored_orders (tables w))(oid \<mapsto> x) \<and>
    pg_quiet w' \<and> obID e = ''outbox-cancelled-'' @ oid \<and>
    x = persisted (old\<lparr>oStatus := ORDER_STATUS_CANCELLED, oCancelReason := TrimSpace reason, oUpdatedAt := now\<rparr>) \<and>
    outbox (tables w') = outbox (tables w) @ [e] \<and>
    obTopic e = orderCancelledTopic cfg \<and> obPublishedAt e = None \<and>
    decode_event dec_OrderCancelled zero_OrderCancelled (Some (obPayload e)) =
      Some (env, \<lparr>ox_OrderID = oid, ox_CustomerID = oCustomerID old, ox_CancelReason = TrimSpace reason\<rparr>)"
proof -
  have st: "cancel_step now (TrimSpace reason) old =
      Inr (old\<lparr>oStatus := ORDER_STATUS_CANCELLED, oCancelReason := TrimSpace reason, oUpdatedAt := now\<rparr>, True)"
    using assms(6) by (simp add: cancel_step_def cancelOrderWithReason_def)
  have "oStatus old \<noteq> ORDER_STATUS_CANCELLED"
    using assms(6) by (auto simp: canCancelOrder_def simp del: canCancelOrder_step)
  from turned_cancelled [where step = "cancel_step now (TrimSpace reason)", OF assms(1-3) st this assms(7-10) TrimSpace_idem, of coll]
  show ?thesis unfolding cancel_transition [OF assms(3,1,2,4-6)] by blast
qed



section \<open>The race that is left open\<close>

text \<open>
  Between the transaction that reads an order and the one that writes it back, another client
  may commit. Here it is a complete \<open>CancelOrder\<close>.
\<close>

definition other_cancel :: "order_db \<Rightarrow> order_db" where
  "other_cancel db = tables (snd (svc_CancelOrder sample_repo 7000 ''o1'' ''late'' (calm_world db 9000)))"

definition race_world :: "order_db world" where
  "race_world = (calm_world sample_db 9000)\<lparr>others := (\<lambda>i. if i = 1 then other_cancel else (\<lambda>db. db))\<rparr>"

lemma sample_not_cancelled: "''outbox-cancelled-'' @ ''o1'' \<notin> obID ` set (outbox (tables (calm_world sample_db t)))"
  by (simp add: add_order_def empty_order_db_def)

lemma other_cancel_commits:
  obtains x e where "order_store_inv (other_cancel sample_db)"
    "stored_orders (other_cancel sample_db) = [''o1'' \<mapsto> x]" "oStatus x = ORDER_STATUS_CANCELLED"
    "oIdempotencyKey x = ''k1''"
    "outbox (other_cancel sample_db) = outbox sample_db @ [e]" "obID e = ''outbox-cancelled-o1''"
  using cancel_served [OF sample_quiet_db [of 9000] all_served_calm_world sample_stored_quiet _ _ _
      sample_created_at _ _ sample_not_cancelled, of "''late''" 7000 sample_config sample_coll] that
  by (auto simp: zero_time_def canCancelOrder_def other_cancel_def
      pg_quiet_def simp del: canCancelOrder_step)

text \<open>
  The separate transactions lose updates. When a customer's cancellation commits between
  the read and the write of \<open>MarkPaymentCaptured\<close>, the capture overwrites it: the order is
  stored as confirmed, its cancel reason is gone, and the \<open>order.cancelled\<close> event is already
  in the outbox.
\<close>
theorem capture_overwrites_cancellation:
  "(\<exists>c. stored_orders (other_cancel sample_db) ''o1'' = Some c \<and> oStatus c = ORDER_STATUS_CANCELLED) \<and>
   (\<exists>x w'. svc_MarkPaymentCaptured sample_repo 8000 ''o1'' race_world = (Inr x, w') \<and>
      stored_orders (tables w') ''o1'' = Some x \<and> oStatus x = ORDER_STATUS_CONFIRMED \<and>
      oCancelReason x = [] \<and> ''outbox-cancelled-o1'' \<in> obID ` set (outbox (tables w')))"
proof -
  obtain c e where c: "order_store_inv (other_cancel sample_db)"
    "stored_orders (other_cancel sample_db) = [''o1'' \<mapsto> c]" "oStatus c = ORDER_STATUS_CANCELLED"
    "oIdempotencyKey c = ''k1''"
    "outbox (other_cancel sample_db) = outbox sample_db @ [e]" "obID e = ''outbox-cancelled-o1''"
    by (rule other_cancel_commits)
  let ?o = "(persisted sample_order)\<lparr>oStatus := ORDER_STATUS_CONFIRMED, oCancelReason := [], oUpdatedAt := 8000\<rparr>"
  have sound: "sound_order (persisted sample_order)" by (rule sound_persisted) simp_all
  have same: "same_purchase (persisted sample_order) ?o" by (simp add: same_purchase_def)
  have ok: "storable ?o" "validateOrder ?o = None"
    using same_purchase_storable [OF sound same] sample_created_at by (simp_all add: zero_time_def)
  have old: "stored_orders (other_cancel sample_db) (oID ?o) = Some c" by (simp add: c(2))
  have u: "pg_UpdateOrder sample_config (calm 9000) ?o (other_cancel sample_db) = (Inr (persisted ?o),
      put_order ?o (update_events sample_config (calm 9000) ?o (other_cancel sample_db)) (other_cancel sample_db))"
    by (rule pg_update_succeeds [OF c(1) old ok]) (simp_all add: c(4))
  let ?db = "put_order ?o (update_events sample_config (calm 9000) ?o (other_cancel sample_db)) (other_cancel sample_db)"
  have g: "pg_GetOrderByID (calm 9000) ''o1'' (\<lambda>_. sample_db) = Inr (persisted sample_order)"
    by (simp add: pg_GetOrderByID_Inr)
  have st: "captured_step 8000 (persisted sample_order) = Inr (?o, True)" by (simp add: captured_step_def)
  have run: "svc_MarkPaymentCaptured sample_repo 8000 ''o1'' race_world =
      (Inr (persisted ?o), race_world\<lparr>tables := ?db, calls := 2\<rparr>)"
    using g u st by (simp add: svc_MarkPaymentCaptured_def transitionOrder_def finish_transition_def
        pg_order_repo_def with_read_def with_attempt_def found_def race_world_def the_attempt_def calm_world_def)
  have "stored_orders ?db ''o1'' = Some (persisted ?o)"
    using stored_orders_put [OF stored_orders_dom [OF old] ok(1)] by simp
  moreover have "''outbox-cancelled-o1'' \<in> obID ` set (outbox ?db)"
    using c(5,6) by (simp add: put_order_def)
  ultimately show ?thesis
    unfolding run using c(2,3) by simp
qed

end
