(* ===== verification/Kafka.thy ===== *)
theory Kafka
  imports Runtime Json
begin

text \<open>
  The message broker as the services use it: a log of the messages that were written, and
  for each write whether the broker acknowledged it, refused it, or stored the message
  without the acknowledgement reaching the writer (\<open>kafka.Writer.WriteMessages\<close> with
  \<open>RequiredAcks: RequireAll\<close>). The value of a message is what its bytes parse to; bytes that are
  not JSON are \<open>None\<close>.
\<close>

record kafka_message =
  kmTopic :: string
  kmKey :: string
  kmValue :: "json option"

record 'db bus_world = "'db world" +
  sent :: "kafka_message list"
  write_fault :: "nat \<Rightarrow> fault"
  writes :: nat

definition WriteMessages :: "kafka_message \<Rightarrow> ('db, 'm) bus_world_scheme \<Rightarrow> string option \<times> ('db, 'm) bus_world_scheme" where
  "WriteMessages m w =
     (case write_fault w (writes w) of
        Served \<Rightarrow> (None, w\<lparr>sent := sent w @ [m], writes := Suc (writes w)\<rparr>)
      | Failed e \<Rightarrow> (Some e, w\<lparr>writes := Suc (writes w)\<rparr>)
      | AckLost e \<Rightarrow> (Some e, w\<lparr>sent := sent w @ [m], writes := Suc (writes w)\<rparr>))"

lemma WriteMessages_cases:
  assumes "WriteMessages m w = (r, w')"
  obtains (acked) "r = None" "w' = w\<lparr>sent := sent w @ [m], writes := Suc (writes w)\<rparr>"
  | (lost) e where "r = Some e" "w' = w\<lparr>sent := sent w @ [m], writes := Suc (writes w)\<rparr>"
  | (refused) e where "r = Some e" "w' = w\<lparr>writes := Suc (writes w)\<rparr>"
  using assms by (auto simp: WriteMessages_def split: fault.splits)

lemma WriteMessages_None:
  "fst (WriteMessages m w) = None \<Longrightarrow> m \<in> set (sent (snd (WriteMessages m w)))"
  by (auto simp: WriteMessages_def split: fault.splits)

text \<open>A broker that acknowledges every write.\<close>

definition broker_up :: "('db, 'm) bus_world_scheme \<Rightarrow> bool" where
  "broker_up w \<longleftrightarrow> (\<forall>i. write_fault w i = Served)"

lemma WriteMessages_up:
  "broker_up w \<Longrightarrow> WriteMessages m w = (None, w\<lparr>sent := sent w @ [m], writes := Suc (writes w)\<rparr>)"
  by (simp add: WriteMessages_def broker_up_def)

definition calm_bus :: "'db \<Rightarrow> int \<Rightarrow> 'db bus_world" where
  "calm_bus db t =
     world.extend (calm_world db t) \<lparr>sent = [], write_fault = (\<lambda>_. Served), writes = 0\<rparr>"

lemma calm_bus_simps [simp]:
  "tables (calm_bus db t) = db" "alone (calm_bus db t)" "the_attempt (calm_bus db t) = calm t"
  "sent (calm_bus db t) = []" "broker_up (calm_bus db t)" "all_served (calm_bus db t)"
  by (simp_all add: calm_bus_def world.defs calm_world_def alone_def the_attempt_def broker_up_def all_served_def)

end
