(* ===== verification/Order_Outbox.thy ===== *)
theory Order_Outbox
  imports Order_Lifecycle Kafka "HOL-Library.Multiset"
begin

text \<open>
  The outbox dispatcher of the order service
  (\<open>internal/order/events/outbox_dispatcher.go\<close>, \<open>kafka_publisher.go\<close>): it claims a batch
  of pending events, sends each to Kafka, and marks it published or releases it. Every
  statement commits by itself, so other dispatchers and the service write in between.
\<close>

section \<open>Configuration\<close>

record dispatcher_config =
  PollInterval :: int
  LockTimeout :: int
  PublishTimeout :: int
  BatchSize :: int

definition time_Second :: int where
  "time_Second = 10 ^ 9"

definition DefaultOutboxDispatcherConfig :: dispatcher_config where
  "DefaultOutboxDispatcherConfig =
     \<lparr>PollInterval = time_Second, LockTimeout = 30 * time_Second,
      PublishTimeout = 5 * time_Second, BatchSize = 10\<rparr>"

definition Validate :: "dispatcher_config \<Rightarrow> string option" where
  "Validate c =
     (if PollInterval c \<le> 0 then Some ''outbox poll interval must be greater than zero''
      else if LockTimeout c \<le> 0 then Some ''outbox lock timeout must be greater than zero''
      else if PublishTimeout c \<le> 0 then Some ''outbox publish timeout must be greater than zero''
      else if BatchSize c \<le> 0 then Some ''outbox batch size must be greater than zero''
      else if LockTimeout c < PublishTimeout c
        then Some ''outbox lock timeout must be greater than or equal to publish timeout''
      else None)"

text \<open>The dispatcher; \<open>hasPublisher\<close> says that its publisher is not nil.\<close>

record outbox_dispatcher =
  hasPublisher :: bool
  pollInterval :: int
  lockTimeout :: int
  publishTimeout :: int
  batchSize :: int
  statsLogInterval :: int
  lastStatsLogAt :: time

definition NewOutboxDispatcher :: "bool \<Rightarrow> dispatcher_config \<Rightarrow> outbox_dispatcher" where
  "NewOutboxDispatcher publisher cfg =
     \<lparr>hasPublisher = publisher, pollInterval = PollInterval cfg, lockTimeout = LockTimeout cfg,
      publishTimeout = PublishTimeout cfg, batchSize = BatchSize cfg,
      statsLogInterval = 30 * time_Second, lastStatsLogAt = zero_time\<rparr>"

section \<open>Backlog log lines\<close>

text \<open>\<open>Time.Sub\<close> saturates at the bounds of a \<open>time.Duration\<close>.\<close>

definition time_Sub :: "time \<Rightarrow> time \<Rightarrow> int" where
  "time_Sub t u = max (- (2 ^ 63)) (min (2 ^ 63 - 1) (t - u))"

definition outboxOldestPendingCreatedAt :: "time option \<Rightarrow> time \<times> bool" where
  "outboxOldestPendingCreatedAt v = (case v of Some t \<Rightarrow> (t, True) | None \<Rightarrow> (zero_time, False))"

record stats_line =
  slMessage :: string
  slClaimed :: "int option"
  slPending :: int
  slRetrying :: int
  slOldestAge :: "int option"

definition logBacklogStats ::
    "outbox_dispatcher \<Rightarrow> int \<Rightarrow> outbox_stats \<Rightarrow> time \<Rightarrow> stats_line option \<times> outbox_dispatcher" where
  "logBacklogStats d claimedCount stats now =
     (let age = (case outboxOldestPendingCreatedAt (OldestPendingCreatedAt stats) of
                   (t, ok) \<Rightarrow> if ok then Some (time_Sub now t) else None)
      in if claimedCount > 0
         then (Some \<lparr>slMessage = ''claimed order outbox events'', slClaimed = Some claimedCount,
                 slPending = PendingCount stats, slRetrying = RetryingCount stats, slOldestAge = age\<rparr>,
               d\<lparr>lastStatsLogAt := now\<rparr>)
         else if PendingCount stats = 0 then (None, d)
         else if lastStatsLogAt d \<noteq> zero_time \<and> time_Sub now (lastStatsLogAt d) < statsLogInterval d
           then (None, d)
         else (Some \<lparr>slMessage = ''order outbox backlog pending'', slClaimed = None,
                 slPending = PendingCount stats, slRetrying = RetryingCount stats, slOldestAge = age\<rparr>,
               d\<lparr>lastStatsLogAt := now\<rparr>))"

section \<open>Publishing\<close>

definition outbox_message_of :: "outbox_row \<Rightarrow> kafka_message" where
  "outbox_message_of e = \<lparr>kmTopic = obTopic e, kmKey = obEventKey e, kmValue = Some (obPayload e)\<rparr>"

definition kafka_Publish ::
    "string \<Rightarrow> string \<Rightarrow> json \<Rightarrow> ('db, 'm) bus_world_scheme \<Rightarrow> string option \<times> ('db, 'm) bus_world_scheme" where
  "kafka_Publish topic key payload w =
     (case WriteMessages \<lparr>kmTopic = topic, kmKey = key, kmValue = Some payload\<rparr> w of
        (r, w') \<Rightarrow> (map_option (\<lambda>e. ''write kafka message: '' @ e) r, w'))"

section \<open>One round\<close>

definition claim_events ::
    "planner \<Rightarrow> int \<Rightarrow> time \<Rightarrow> time \<Rightarrow> attempt \<Rightarrow> order_db \<Rightarrow> (pg_error + outbox_row list) \<times> order_db" where
  "claim_events plan limit stale now a db =
     autocommit a (''ClaimPendingOrderOutboxEvents'', 0) db
       (q_ClaimPendingOrderOutboxEvents plan limit stale now db)"

definition release_event :: "string \<Rightarrow> string \<Rightarrow> attempt \<Rightarrow> order_db \<Rightarrow> (pg_error + unit) \<times> order_db" where
  "release_event eid msg a db =
     autocommit a (''ReleaseOrderOutboxEvent'', 0) db
       (map_sum id (Pair ()) (q_ReleaseOrderOutboxEvent eid msg db))"

definition mark_published :: "string \<Rightarrow> attempt \<Rightarrow> order_db \<Rightarrow> (pg_error + unit) \<times> order_db" where
  "mark_published eid a db =
     autocommit a (''MarkOrderOutboxEventPublished'', 0) db
       (Inr ((), q_MarkOrderOutboxEventPublished eid (clock_at a ''publishedAt'') db))"

text \<open>The body of the loop over the claimed rows. A statement that fails is only logged.\<close>

definition publish_row :: "outbox_row \<Rightarrow> (order_db, 'm) bus_world_scheme \<Rightarrow> (order_db, 'm) bus_world_scheme" where
  "publish_row row w =
     (case kafka_Publish (obTopic row) (obEventKey row) (obPayload row) w of
        (Some err, w1) \<Rightarrow> snd (with_attempt (release_event (obID row) err) w1)
      | (None, w1) \<Rightarrow> snd (with_attempt (mark_published (obID row)) w1))"

definition dispatchOnce ::
    "(nat \<Rightarrow> planner) \<Rightarrow> outbox_dispatcher \<Rightarrow> (order_db, 'm) bus_world_scheme \<Rightarrow>
     outbox_dispatcher \<times> (order_db, 'm) bus_world_scheme" where
  "dispatchOnce plans d w =
     (let claimedAt = clock_at (the_attempt w) ''claimedAt''
      in case with_attempt (claim_events (plans (calls w)) (batchSize d) (claimedAt - lockTimeout d) claimedAt) w of
           (Inl err, w1) \<Rightarrow> (d, w1)
         | (Inr rows, w1) \<Rightarrow>
             (case with_read (\<lambda>a db. exec a (''GetOrderOutboxStats'', 0) (Inr (q_GetOrderOutboxStats db))) w1 of
                (Inl err, w2) \<Rightarrow> (d, fold publish_row rows w2)
              | (Inr stats, w2) \<Rightarrow>
                  (snd (logBacklogStats d (int (length rows)) stats claimedAt), fold publish_row rows w2)))"

text \<open>
  \<open>Run\<close>: one round at once, then one for each tick until the context is done, here after
  \<open>ticks\<close> of them.
\<close>

definition dispatcher_config_of :: "outbox_dispatcher \<Rightarrow> dispatcher_config" where
  "dispatcher_config_of d =
     \<lparr>PollInterval = pollInterval d, LockTimeout = lockTimeout d, PublishTimeout = publishTimeout d,
      BatchSize = batchSize d\<rparr>"

definition dispatcher_Run ::
    "(nat \<Rightarrow> planner) \<Rightarrow> nat \<Rightarrow> outbox_dispatcher option \<Rightarrow> (order_db, 'm) bus_world_scheme \<Rightarrow>
     string option \<times> (order_db, 'm) bus_world_scheme" where
  "dispatcher_Run plans ticks dopt w =
     (case dopt of
        None \<Rightarrow> (Some ''outbox dispatcher is not configured'', w)
      | Some d \<Rightarrow>
          if \<not> hasPublisher d then (Some ''outbox dispatcher is not configured'', w)
          else (case Validate (dispatcher_config_of d) of
                  Some err \<Rightarrow> (Some err, w)
                | None \<Rightarrow> (None, snd (((\<lambda>(d, w). dispatchOnce plans d w) ^^ Suc ticks) (d, w)))))"

section \<open>What never happens to an event\<close>

text \<open>No statement changes what an event says, and none takes a publication back.\<close>

definition same_event :: "outbox_row \<Rightarrow> outbox_row \<Rightarrow> bool" where
  "same_event e e' \<longleftrightarrow>
     obID e' = obID e \<and> outbox_message_of e' = outbox_message_of e \<and> obCreatedAt e' = obCreatedAt e \<and>
     (obPublishedAt e \<noteq> None \<longrightarrow> obPublishedAt e' \<noteq> None)"

definition outbox_evolves :: "order_db \<Rightarrow> order_db \<Rightarrow> bool" where
  "outbox_evolves db db' \<longleftrightarrow> (\<forall>e \<in> set (outbox db). \<exists>e' \<in> set (outbox db'). same_event e e')"

definition announced :: "kafka_message set \<Rightarrow> order_db \<Rightarrow> bool" where
  "announced ms db \<longleftrightarrow>
     (\<forall>e \<in> set (outbox db). obPublishedAt e \<noteq> None \<longrightarrow> outbox_message_of e \<in> ms)"

lemma same_event_refl [simp]: "same_event e e"
  by (simp add: same_event_def)

lemma same_event_trans: "same_event e1 e2 \<Longrightarrow> same_event e2 e3 \<Longrightarrow> same_event e1 e3"
  by (auto simp: same_event_def)

lemma outbox_evolves_refl [simp]: "outbox_evolves db db"
  unfolding outbox_evolves_def by (blast intro: same_event_refl)

lemma outbox_evolves_trans: "outbox_evolves db1 db2 \<Longrightarrow> outbox_evolves db2 db3 \<Longrightarrow> outbox_evolves db1 db3"
  unfolding outbox_evolves_def by (meson same_event_trans)

lemma outbox_evolves_map:
  "(\<And>e. same_event e (f e)) \<Longrightarrow> outbox_evolves db (db\<lparr>outbox := map f (outbox db)\<rparr>)"
  by (auto simp: outbox_evolves_def)

lemma announced_mono: "announced ms db \<Longrightarrow> ms \<subseteq> ms' \<Longrightarrow> announced ms' db"
  by (auto simp: announced_def)

text \<open>
  What the other clients of the tables are trusted with: they keep the schema invariant and
  the events, and publish only what is in \<open>ms\<close>.
\<close>

definition honest :: "kafka_message set \<Rightarrow> order_db \<Rightarrow> order_db \<Rightarrow> bool" where
  "honest ms db db' \<longleftrightarrow>
     (order_db_inv db \<longrightarrow> order_db_inv db') \<and> outbox_evolves db db' \<and>
     (\<forall>ms'. ms \<subseteq> ms' \<longrightarrow> announced ms' db \<longrightarrow> announced ms' db')"

definition honest_peers :: "kafka_message set \<Rightarrow> (order_db, 'm) world_scheme \<Rightarrow> bool" where
  "honest_peers ms w \<longleftrightarrow> (\<forall>i db. honest ms db (others w i db))"

lemma honest_refl [simp]: "honest ms db db"
  by (simp add: honest_def)

lemma honest_trans: "honest ms db1 db2 \<Longrightarrow> honest ms db2 db3 \<Longrightarrow> honest ms db1 db3"
  by (auto simp: honest_def intro: outbox_evolves_trans)

lemma honest_mono: "honest ms db db' \<Longrightarrow> ms \<subseteq> ms' \<Longrightarrow> honest ms' db db'"
  by (auto simp: honest_def)

lemma honest_found: "honest_peers ms w \<Longrightarrow> honest ms (tables w) (found w)"
  by (simp add: honest_peers_def found_def)

lemma honest_claim:
  assumes "claim_events plan limit stale now a db = (r, db')"
  shows "honest ms db db'"
proof -
  have "honest ms db db'" if "q_ClaimPendingOrderOutboxEvents plan limit stale now db = Inr (rs, db')" for rs db'
  proof -
    have "announced ms' db \<Longrightarrow> announced ms' db'" for ms'
      using that by (auto simp: q_ClaimPendingOrderOutboxEvents_def Let_def announced_def
          outbox_message_of_def split: if_splits)
    moreover have "outbox_evolves db db'"
      using that by (auto simp: q_ClaimPendingOrderOutboxEvents_def Let_def same_event_def outbox_message_of_def
          split: if_splits intro!: outbox_evolves_map)
    ultimately show ?thesis using q_Claim_inv [OF that] by (simp add: honest_def)
  qed
  then show ?thesis
    using assms by (auto simp: claim_events_def autocommit_def split: fault.splits sum.splits prod.splits)
qed

lemma honest_release:
  assumes "release_event eid msg a db = (r, db')"
  shows "honest ms db db'"
proof -
  have "honest ms db db'" if "q_ReleaseOrderOutboxEvent eid msg db = Inr db'" for db'
  proof -
    have "announced ms' db \<Longrightarrow> announced ms' db'" for ms'
      using that by (auto simp: q_ReleaseOrderOutboxEvent_def announced_def replace_row_def
          outbox_message_of_def split: if_splits)
    moreover have "outbox_evolves db db'"
      using that by (auto simp: q_ReleaseOrderOutboxEvent_def replace_row_def same_event_def
          outbox_message_of_def split: if_splits intro!: outbox_evolves_map)
    ultimately show ?thesis using q_Release_inv [OF that] by (simp add: honest_def)
  qed
  then show ?thesis
    using assms by (cases "q_ReleaseOrderOutboxEvent eid msg db")
      (auto simp: release_event_def autocommit_def split: fault.splits)
qed

lemma honest_mark:
  assumes db: "order_db_inv db" and row: "e \<in> set (outbox db)" "same_event row e" "outbox_message_of row \<in> ms"
    and m: "mark_published (obID row) a db = (r, db')"
  shows "honest ms db db'"
proof -
  let ?db = "\<lambda>t. q_MarkOrderOutboxEventPublished (obID row) t db"
  have only: "e' = e" if "e' \<in> set (outbox db)" "obID e' = obID row" for e'
    using that row(1,2) order_db_invD(4) [OF db]
    by (metis inj_on_contraD distinct_map same_event_def)
  have "honest ms db (?db t)" for t
  proof -
    have "announced ms' (?db t)" if "ms \<subseteq> ms'" "announced ms' db" for ms'
      using that row only by (auto simp: announced_def q_MarkOrderOutboxEventPublished_def
          replace_row_def outbox_message_of_def same_event_def)
    moreover have "outbox_evolves db (?db t)"
      by (auto simp: q_MarkOrderOutboxEventPublished_def replace_row_def same_event_def
          outbox_message_of_def intro!: outbox_evolves_map)
    ultimately show ?thesis using q_MarkPublished_inv by (simp add: honest_def)
  qed
  then show ?thesis
    using m by (auto simp: mark_published_def autocommit_def split: fault.splits)
qed

text \<open>A whole round is as honest as its peers, with what it sent itself.\<close>

definition knows :: "order_db \<Rightarrow> outbox_row list \<Rightarrow> bool" where
  "knows db rows \<longleftrightarrow> (\<forall>row \<in> set rows. \<exists>e \<in> set (outbox db). same_event row e)"

lemma knows_evolves: "knows db rows \<Longrightarrow> outbox_evolves db db' \<Longrightarrow> knows db' rows"
  unfolding knows_def outbox_evolves_def by (meson same_event_trans)

lemma WriteMessages_world [simp]:
  "tables (snd (WriteMessages m w)) = tables w" "others (snd (WriteMessages m w)) = others w"
  "calls (snd (WriteMessages m w)) = calls w" "attempts (snd (WriteMessages m w)) = attempts w"
  "set (sent w) \<subseteq> set (sent (snd (WriteMessages m w)))"
  by (auto simp: WriteMessages_def split: fault.splits)

definition honest_run :: "kafka_message set \<Rightarrow> (order_db, 'm) bus_world_scheme \<Rightarrow> (order_db, 'm) bus_world_scheme \<Rightarrow> bool" where
  "honest_run ms w w' \<longleftrightarrow>
     honest (ms \<union> set (sent w')) (tables w) (tables w') \<and> set (sent w) \<subseteq> set (sent w') \<and>
     honest_peers ms w'"

lemma honest_run_trans:
  "honest_run ms w1 w2 \<Longrightarrow> honest_run ms w2 w3 \<Longrightarrow> honest_run ms w1 w3"
  unfolding honest_run_def by (auto elim!: honest_trans [rotated] honest_mono)

lemma honest_peers_update [simp]:
  "honest_peers ms (w\<lparr>tables := db, calls := n\<rparr>) \<longleftrightarrow> honest_peers ms w"
  by (simp add: honest_peers_def)

lemma honest_run_attempt:
  assumes "honest_peers ms w" and "with_attempt f w = (r, w')"
    and "\<And>r db'. f (the_attempt w) (found w) = (r, db') \<Longrightarrow> honest (ms \<union> set (sent w)) (found w) db'"
  shows "honest_run ms w w'"
proof -
  obtain db' where f: "f (the_attempt w) (found w) = (r, db')"
    and w': "w' = w\<lparr>tables := db', calls := Suc (calls w)\<rparr>"
    using assms(2) by (auto simp: with_attempt_eq)
  have "honest (ms \<union> set (sent w)) (tables w) db'"
    using honest_trans [OF honest_mono [OF honest_found [OF assms(1)]] assms(3) [OF f]] by simp
  then show ?thesis using assms(1) by (simp add: honest_run_def w')
qed

lemma publish_row_honest:
  assumes peers: "honest_peers ms w" and db: "order_db_inv (tables w)" and row: "knows (tables w) [row]"
  shows "honest_run ms w (publish_row row w)"
proof -
  obtain r w1 where p: "kafka_Publish (obTopic row) (obEventKey row) (obPayload row) w = (r, w1)" by fastforce
  then obtain r0 where wm: "WriteMessages (outbox_message_of row) w = (r0, w1)"
    and r: "r = map_option (\<lambda>e. ''write kafka message: '' @ e) r0"
    by (auto simp: kafka_Publish_def outbox_message_of_def split: prod.splits)
  have w1: "tables w1 = tables w" "set (sent w) \<subseteq> set (sent w1)" "honest_peers ms w1"
    using WriteMessages_world [where m = "outbox_message_of row" and w = w] peers
    by (simp_all add: wm honest_peers_def)
  have start: "honest_run ms w w1" using w1 by (simp add: honest_run_def)
  have "honest_run ms w1 (publish_row row w)"
  proof (cases r)
    case (Some err)
    obtain r' w' where a: "with_attempt (release_event (obID row) err) w1 = (r', w')" by fastforce
    then have "honest_run ms w1 w'"
      by (rule honest_run_attempt [OF w1(3)]) (rule honest_release)
    then show ?thesis using p a Some by (simp add: publish_row_def)
  next
    case None
    have sent: "outbox_message_of row \<in> set (sent w1)"
      using WriteMessages_None [of "outbox_message_of row" w] wm r None by simp
    have "honest ms (tables w1) (found w1)" by (rule honest_found [OF w1(3)])
    then have there: "order_db_inv (found w1)" "knows (found w1) [row]"
      using db row unfolding honest_def w1(1) by (auto intro: knows_evolves)
    then obtain e where e: "e \<in> set (outbox (found w1))" "same_event row e" by (auto simp: knows_def)
    obtain r' w' where a: "with_attempt (mark_published (obID row)) w1 = (r', w')" by fastforce
    then have "honest_run ms w1 w'"
      by (rule honest_run_attempt [OF w1(3)]) (rule honest_mark [OF there(1) e], use sent in auto)
    then show ?thesis using p a None by (simp add: publish_row_def)
  qed
  with start show ?thesis by (rule honest_run_trans)
qed

lemma publish_rows_honest:
  "honest_peers ms w \<Longrightarrow> order_db_inv (tables w) \<Longrightarrow> knows (tables w) rows \<Longrightarrow>
     honest_run ms w (fold publish_row rows w)"
proof (induction rows arbitrary: w)
  case Nil
  then show ?case by (simp add: honest_run_def)
next
  case (Cons row rows)
  have one: "honest_run ms w (publish_row row w)"
    using Cons.prems by (intro publish_row_honest) (auto simp: knows_def)
  then have w1: "honest_peers ms (publish_row row w)" "order_db_inv (tables (publish_row row w))"
    "knows (tables (publish_row row w)) rows"
    using Cons.prems knows_evolves [of "tables w" rows]
    by (auto simp: honest_run_def honest_def knows_def)
  show ?case using honest_run_trans [OF one Cons.IH [OF w1]] by simp
qed

text \<open>
  The planner returns the rows it updated, and scans the rows of the table, in some order.
\<close>

definition planner_ok :: "planner \<Rightarrow> bool" where
  "planner_ok plan \<longleftrightarrow> (\<forall>rows. mset (scan plan rows) = mset rows \<and> mset (ret plan rows) = mset rows)"

lemma planner_set: "planner_ok plan \<Longrightarrow> set (ret plan rows) = set rows" "planner_ok plan \<Longrightarrow> set (scan plan rows) = set rows"
  by (metis planner_ok_def set_mset_mset)+

lemma claim_knows:
  assumes "claim_events plan limit stale now a db = (Inr rows, db')" "planner_ok plan"
  shows "knows db' rows"
proof -
  have "q_ClaimPendingOrderOutboxEvents plan limit stale now db = Inr (rows, db')"
    using assms(1) by (simp add: claim_events_def autocommit_Inr_iff)
  then have "set rows \<subseteq> set (outbox db')"
    using planner_set(1) [OF assms(2)]
    unfolding q_ClaimPendingOrderOutboxEvents_def Let_def by (auto split: if_splits)
  then show ?thesis unfolding knows_def by (blast intro: same_event_refl)
qed

lemma dispatchOnce_honest:
  assumes peers: "honest_peers ms w" and db: "order_db_inv (tables w)"
    and plans: "\<And>i. planner_ok (plans i)"
  shows "honest_run ms w (snd (dispatchOnce plans d w))"
proof -
  let ?at = "clock_at (the_attempt w) ''claimedAt''"
  let ?claim = "claim_events (plans (calls w)) (batchSize d) (?at - lockTimeout d) ?at"
  obtain r w1 where c: "with_attempt ?claim w = (r, w1)" by fastforce
  then have one: "honest_run ms w w1" by (rule honest_run_attempt [OF peers]) (rule honest_claim)
  show ?thesis
  proof (cases r)
    case (Inl e)
    then show ?thesis using c one by (simp add: dispatchOnce_def)
  next
    case (Inr rows)
    let ?stats = "\<lambda>a db. exec a (''GetOrderOutboxStats'', 0) (Inr (q_GetOrderOutboxStats db)) :: pg_error + outbox_stats"
    obtain s w2 where s: "with_read ?stats w1 = (s, w2)" by fastforce
    then have w2: "w2 = w1\<lparr>tables := found w1, calls := Suc (calls w1)\<rparr>" by (simp add: with_read_eq)
    have p1: "honest_peers ms w1" using one by (simp add: honest_run_def)
    have two: "honest_run ms w1 w2"
      using p1 honest_mono [OF honest_found [OF p1]] by (simp add: honest_run_def w2)
    have db1: "order_db_inv (tables w1)" using one db by (simp add: honest_run_def honest_def)
    have "knows (tables w1) rows"
      using c Inr claim_knows [OF _ plans] by (auto simp: with_attempt_eq)
    then have "honest_run ms w2 (fold publish_row rows w2)"
      using two db1 by (intro publish_rows_honest) (auto simp: honest_run_def honest_def intro: knows_evolves)
    then have "honest_run ms w (fold publish_row rows w2)"
      using one two by (blast intro: honest_run_trans)
    then show ?thesis using c Inr s by (cases s) (simp_all add: dispatchOnce_def)
  qed
qed

lemma dispatcher_Run_honest:
  assumes "honest_peers ms w" "order_db_inv (tables w)" "\<And>i. planner_ok (plans i)"
    and "dispatcher_Run plans ticks dopt w = (r, w')"
  shows "honest_run ms w w'"
proof -
  have rounds: "honest_run ms w (snd (((\<lambda>(d, w). dispatchOnce plans d w) ^^ n) (d, w)))" for n d
  proof (induction n)
    case 0
    then show ?case using assms(1) by (simp add: honest_run_def)
  next
    case (Suc n)
    let ?s = "((\<lambda>(d, w). dispatchOnce plans d w) ^^ n) (d, w)"
    have "honest_peers ms (snd ?s)" "order_db_inv (tables (snd ?s))"
      using Suc assms(2) by (auto simp: honest_run_def honest_def)
    then have "honest_run ms (snd ?s) (snd (dispatchOnce plans (fst ?s) (snd ?s)))"
      using assms(3) by (rule dispatchOnce_honest)
    with Suc have "honest_run ms w (snd (dispatchOnce plans (fst ?s) (snd ?s)))"
      by (rule honest_run_trans)
    then show ?case by (cases ?s) simp
  qed
  show ?thesis
    using assms(4) rounds [of "Suc ticks"] assms(1)
    by (auto simp: dispatcher_Run_def honest_run_def simp del: funpow.simps split: option.splits if_splits)
qed

text \<open>
  C14: The dispatcher never loses an event and never claims to have published what it did not
  send: whatever its faults, those of the broker, and whatever honest clients do in between,
  after any number of rounds every event of the outbox is still there with the same topic,
  key and payload, an event that was published stays so, and every event marked published
  is one that this dispatcher or another has handed to Kafka.
\<close>
theorem outbox_published_was_sent:
  assumes "order_db_inv (tables w)" and "\<And>i. planner_ok (plans i)"
    and "honest_peers ms w" and "announced (ms \<union> set (sent w)) (tables w)"
    and "dispatcher_Run plans ticks dopt w = (r, w')"
  shows "outbox_evolves (tables w) (tables w') \<and> announced (ms \<union> set (sent w')) (tables w') \<and>
    order_db_inv (tables w')"
proof -
  note H = dispatcher_Run_honest [OF assms(3,1,2,5), unfolded honest_run_def]
  have "announced (ms \<union> set (sent w')) (tables w)"
    using assms(4) by (rule announced_mono) (use H in auto)
  then show ?thesis using H assms(1) by (auto simp: honest_def)
qed

definition scan_order :: planner where
  "scan_order = \<lparr>busy = (\<lambda>_. False), scan = (\<lambda>rows. rows), ret = (\<lambda>rows. rows)\<rparr>"

lemma scan_order_ok [simp]: "planner_ok scan_order"
  by (simp add: planner_ok_def scan_order_def)

lemma alone_honest: "alone w \<Longrightarrow> honest_peers ms w"
  by (simp add: alone_def honest_peers_def)

definition sample_dispatcher :: outbox_dispatcher where
  "sample_dispatcher = NewOutboxDispatcher True DefaultOutboxDispatcherConfig"

theorem outbox_published_was_sent_witness:
  "\<exists>r w'. dispatcher_Run (\<lambda>_. scan_order) 3 (Some sample_dispatcher) (calm_bus sample_db 9000) = (r, w') \<and>
     announced (set (sent w')) (tables w')"
proof -
  obtain r w' where run: "dispatcher_Run (\<lambda>_. scan_order) 3 (Some sample_dispatcher) (calm_bus sample_db 9000) = (r, w')"
    by fastforce
  have "announced {} sample_db"
    by (simp add: announced_def add_order_def empty_order_db_def)
  then show ?thesis
    using outbox_published_was_sent [OF _ _ _ _ run, of "{}"] order_store_invD(1) [OF sample_db_inv]
      alone_honest [of "calm_bus sample_db 9000" "{}"] run by simp
qed

section \<open>Claims\<close>

definition claim_row :: "string set \<Rightarrow> time \<Rightarrow> outbox_row \<Rightarrow> outbox_row" where
  "claim_row ids now e = (if obID e \<in> ids then e\<lparr>obLockedAt := Some (pg_micros now)\<rparr> else e)"

lemma claim_row_simps [simp]:
  "obID (claim_row ids now e) = obID e" "obPublishedAt (claim_row ids now e) = obPublishedAt e"
  "outbox_message_of (claim_row ids now e) = outbox_message_of e"
  "obID e \<in> ids \<Longrightarrow> obLockedAt (claim_row ids now e) = Some (pg_micros now)"
  "obID e \<notin> ids \<Longrightarrow> claim_row ids now e = e"
  by (simp_all add: claim_row_def outbox_message_of_def)

lemma q_Claim_Inr:
  "q_ClaimPendingOrderOutboxEvents plan limit stale now db = Inr (rows, db') \<longleftrightarrow>
     0 \<le> limit \<and> db' = db\<lparr>outbox := map (claim_row (set (pending_ids plan limit stale db)) now) (outbox db)\<rparr> \<and>
     rows = ret plan (filter (\<lambda>e. obID e \<in> set (pending_ids plan limit stale db)) (outbox db'))"
  by (auto simp: q_ClaimPendingOrderOutboxEvents_def Let_def claim_row_def [abs_def])

lemma pending_ids_claimable:
  assumes "planner_ok plan" "i \<in> set (pending_ids plan limit stale db)"
  shows "\<exists>e \<in> set (outbox db). obID e = i \<and> claimable stale e"
  using assms(2) by (auto simp: pending_ids_def planner_set [OF assms(1)] dest!: in_set_takeD)

lemma claimed_rows:
  assumes "q_ClaimPendingOrderOutboxEvents plan limit stale now db = Inr (rows, db')" "planner_ok plan"
  shows "set rows = {e \<in> set (outbox db'). obID e \<in> set (pending_ids plan limit stale db)}"
    and "mset rows = mset (filter (\<lambda>e. obID e \<in> set (pending_ids plan limit stale db)) (outbox db'))"
    and "obID ` set rows = set (pending_ids plan limit stale db)"
proof -
  show rows: "set rows = {e \<in> set (outbox db'). obID e \<in> set (pending_ids plan limit stale db)}"
    using assms(1) by (auto simp: q_Claim_Inr planner_set [OF assms(2)])
  show "mset rows = mset (filter (\<lambda>e. obID e \<in> set (pending_ids plan limit stale db)) (outbox db'))"
    using assms by (auto simp: q_Claim_Inr planner_ok_def)
  have ids: "obID ` set (outbox db') = obID ` set (outbox db)"
    using assms(1) by (auto simp: q_Claim_Inr image_image)
  have "set (pending_ids plan limit stale db) \<subseteq> obID ` set (outbox db')"
    unfolding ids using pending_ids_claimable [OF assms(2)] by force
  then show "obID ` set rows = set (pending_ids plan limit stale db)"
    unfolding rows by blast
qed

lemma claimed_distinct:
  assumes "q_ClaimPendingOrderOutboxEvents plan limit stale now db = Inr (rows, db')" "planner_ok plan"
    and "order_db_inv db"
  shows "distinct (map obID rows)"
proof -
  have "distinct (map obID (outbox db'))"
    using order_db_invD(4) [OF q_Claim_inv [OF assms(1,3)]] .
  then have "distinct (map obID (filter (\<lambda>e. obID e \<in> set (pending_ids plan limit stale db)) (outbox db')))"
    by (rule distinct_map_filter)
  moreover have "mset (map obID rows) =
      mset (map obID (filter (\<lambda>e. obID e \<in> set (pending_ids plan limit stale db)) (outbox db')))"
    using claimed_rows(2) [OF assms(1,2)] by simp
  ultimately show ?thesis using mset_eq_imp_distinct_iff by blast
qed

text \<open>
  C16: Two dispatchers do not work on the same event while the first one's lock holds: a
  claim made at most \<open>lockTimeout\<close> after another, by the dispatchers' clocks, returns none of the
  events of the other. It returns only unpublished events, and at most \<open>batchSize\<close> of them.
\<close>
theorem outbox_claims_disjoint:
  assumes "order_db_inv db" "planner_ok plan" "planner_ok plan'"
    and "q_ClaimPendingOrderOutboxEvents plan limit stale now db = Inr (rows, db1)"
    and "q_ClaimPendingOrderOutboxEvents plan' limit' (now' - timeout) now' db1 = Inr (rows', db2)"
    and "now' - timeout \<le> now"
  shows "obID ` set rows \<inter> obID ` set rows' = {} \<and>
    (\<forall>row \<in> set rows'. obPublishedAt row = None) \<and> length rows' \<le> nat limit'"
proof (intro conjI)
  have db1: "order_db_inv db1" using q_Claim_inv [OF assms(4,1)] .
  have same: "e = e'" if "e \<in> set (outbox db1)" "e' \<in> set (outbox db1)" "obID e = obID e'" for e e'
    using that order_db_invD(4) [OF db1] by (auto simp: distinct_map dest: inj_onD)
  note C = claimed_rows [OF assms(4,2)] and C' = claimed_rows [OF assms(5,3)]
  have locked: "obLockedAt row = Some (pg_micros now)" if "row \<in> set rows" for row
    using that C(1) assms(4) by (auto simp: q_Claim_Inr)
  show "obID ` set rows \<inter> obID ` set rows' = {}"
  proof (rule ccontr)
    assume "obID ` set rows \<inter> obID ` set rows' \<noteq> {}"
    then obtain row where row: "row \<in> set rows" "obID row \<in> obID ` set rows'" by auto
    obtain e where e: "e \<in> set (outbox db1)" "obID e = obID row" "claimable (now' - timeout) e"
      using row(2) pending_ids_claimable [OF assms(3)] unfolding C'(3) by blast
    have "e = row" using same e(1,2) row(1) C(1) by blast
    then have "pg_micros now < pg_micros (now' - timeout)"
      using e(3) locked [OF row(1)] by (simp add: claimable_def)
    moreover have "pg_micros (now' - timeout) \<le> pg_micros now"
      using assms(6) by (simp add: pg_micros_def zdiv_mono1)
    ultimately show False by simp
  qed
  have "length rows' = card (obID ` set rows')"
    using distinct_card [OF claimed_distinct [OF assms(5,3) db1]] by simp
  also have "\<dots> \<le> nat limit'"
    unfolding C'(3) pending_ids_def by (rule order_trans [OF card_length]) simp
  finally show "length rows' \<le> nat limit'" .
  show "\<forall>row \<in> set rows'. obPublishedAt row = None"
  proof
    fix row assume row: "row \<in> set rows'"
    then obtain e where e: "e \<in> set (outbox db1)" "obID e = obID row" "claimable (now' - timeout) e"
      using pending_ids_claimable [OF assms(3)] C'(3) by blast
    obtain e' where "e' \<in> set (outbox db1)" "obID e' = obID row" "obPublishedAt row = obPublishedAt e'"
      using row C'(1) assms(5) by (auto simp: q_Claim_Inr)
    moreover from this e have "e' = e" using same by metis
    ultimately show "obPublishedAt row = None" using e(3) by (simp add: claimable_def)
  qed
qed

theorem outbox_claims_disjoint_witness:
  "\<exists>rows db1 rows' db2.
     q_ClaimPendingOrderOutboxEvents scan_order 10 1000 31000 sample_db = Inr (rows, db1) \<and>
     q_ClaimPendingOrderOutboxEvents scan_order 10 2000 32000 db1 = Inr (rows', db2) \<and>
     obID ` set rows \<inter> obID ` set rows' = {}"
proof -
  obtain rows db1 where c1: "q_ClaimPendingOrderOutboxEvents scan_order 10 1000 31000 sample_db = Inr (rows, db1)"
    by (simp add: q_Claim_Inr)
  obtain rows' db2 where c2: "q_ClaimPendingOrderOutboxEvents scan_order 10 (32000 - 30000) 32000 db1 = Inr (rows', db2)"
    by (simp add: q_Claim_Inr)
  show ?thesis
    using c1 c2 outbox_claims_disjoint [OF order_store_invD(1) [OF sample_db_inv] scan_order_ok scan_order_ok c1 c2]
    by auto
qed

section \<open>A working broker drains the outbox\<close>

definition pending :: "order_db \<Rightarrow> outbox_row list" where
  "pending db = filter (\<lambda>e. obPublishedAt e = None) (outbox db)"

text \<open>Nothing fails, nobody else writes, and no pending event is locked.\<close>

definition idle_outbox :: "(order_db, 'm) bus_world_scheme \<Rightarrow> bool" where
  "idle_outbox w \<longleftrightarrow>
     alone w \<and> all_served w \<and> broker_up w \<and> order_db_inv (tables w) \<and>
     (\<forall>e \<in> set (pending (tables w)). obLockedAt e = None)"

text \<open>Publishing the events \<open>ids\<close>, whatever the clock reads.\<close>

definition publishes :: "string set \<Rightarrow> outbox_row \<Rightarrow> outbox_row \<Rightarrow> bool" where
  "publishes ids e e' \<longleftrightarrow>
     (if obID e \<in> ids
      then obID e' = obID e \<and> outbox_message_of e' = outbox_message_of e \<and> obPublishedAt e' \<noteq> None
      else e' = e)"

lemma publishes_trans:
  "publishes ids e1 e2 \<Longrightarrow> publishes ids' e2 e3 \<Longrightarrow> publishes (ids \<union> ids') e1 e3"
  by (auto simp: publishes_def split: if_splits)

lemma publishes_pending:
  "list_all2 (publishes ids) xs ys \<Longrightarrow>
     filter (\<lambda>e. obPublishedAt e = None) ys = filter (\<lambda>e. obPublishedAt e = None \<and> obID e \<notin> ids) xs"
  by (induction rule: list_all2_induct) (auto simp: publishes_def split: if_splits)

lemma publish_row_served:
  fixes w :: "(order_db, 'm) bus_world_scheme"
  assumes "alone w" "all_served w" "broker_up w"
  shows "\<exists>db'. publish_row row w =
      w\<lparr>tables := db', calls := Suc (calls w), sent := sent w @ [outbox_message_of row], writes := Suc (writes w)\<rparr> \<and>
    list_all2 (publishes {obID row}) (outbox (tables w)) (outbox db') \<and> (order_db_inv (tables w) \<longrightarrow> order_db_inv db')"
proof -
  let ?w1 = "w\<lparr>sent := sent w @ [outbox_message_of row], writes := Suc (writes w)\<rparr>"
  let ?db = "q_MarkOrderOutboxEventPublished (obID row) (clock_at (the_attempt ?w1) ''publishedAt'') (tables w)"
  have "kafka_Publish (obTopic row) (obEventKey row) (obPayload row) w = (None, ?w1)"
    using WriteMessages_up [OF assms(3)] by (simp add: kafka_Publish_def outbox_message_of_def)
  moreover have "found ?w1 = tables w" using assms(1) by (simp add: found_def alone_def)
  moreover have "fault_at (the_attempt ?w1) site = Served" for site
    using assms(2) by (cases site) (simp add: all_served_def the_attempt_def)
  ultimately have "publish_row row w = ?w1\<lparr>tables := ?db, calls := Suc (calls w)\<rparr>"
    by (simp add: publish_row_def with_attempt_def mark_published_def)
  moreover have "list_all2 (publishes {obID row}) (outbox (tables w)) (outbox ?db)"
    by (auto simp: q_MarkOrderOutboxEventPublished_def replace_row_def publishes_def list.rel_map
        outbox_message_of_def intro!: list.rel_refl_strong)
  moreover have "order_db_inv (tables w) \<longrightarrow> order_db_inv ?db" by (simp add: q_MarkPublished_inv)
  ultimately show ?thesis by (intro exI [of _ ?db]) simp
qed

lemma publish_rows_served:
  fixes w :: "(order_db, 'm) bus_world_scheme"
  assumes "alone w" "all_served w" "broker_up w"
  shows "\<exists>db' n k. fold publish_row rows w =
      w\<lparr>tables := db', calls := n, sent := sent w @ map outbox_message_of rows, writes := k\<rparr> \<and>
    list_all2 (publishes (obID ` set rows)) (outbox (tables w)) (outbox db') \<and>
    (order_db_inv (tables w) \<longrightarrow> order_db_inv db')"
  using assms
proof (induction rows arbitrary: w)
  case Nil
  have "list_all2 (publishes {}) xs xs" for xs
    by (rule list.rel_refl) (simp add: publishes_def)
  moreover have "fold publish_row [] w =
      w\<lparr>tables := tables w, calls := calls w, sent := sent w @ map outbox_message_of [], writes := writes w\<rparr>"
    by simp
  ultimately show ?case by (metis image_empty list.set(1))
next
  case (Cons row rows)
  obtain db1 where one: "publish_row row w =
      w\<lparr>tables := db1, calls := Suc (calls w), sent := sent w @ [outbox_message_of row], writes := Suc (writes w)\<rparr>"
    "list_all2 (publishes {obID row}) (outbox (tables w)) (outbox db1)" "order_db_inv (tables w) \<longrightarrow> order_db_inv db1"
    using publish_row_served [OF Cons.prems] by blast
  let ?w1 = "publish_row row w"
  have w1: "alone ?w1" "broker_up ?w1" using Cons.prems by (simp_all add: one(1) alone_def broker_up_def)
  have "all_served ?w1" using Cons.prems(2) by (simp add: one(1) all_served_def)
  from Cons.IH [OF w1(1) this w1(2)]
  obtain db2 n k where rest: "fold publish_row rows ?w1 =
      ?w1\<lparr>tables := db2, calls := n, sent := sent ?w1 @ map outbox_message_of rows, writes := k\<rparr>"
    "list_all2 (publishes (obID ` set rows)) (outbox (tables ?w1)) (outbox db2)"
    "order_db_inv (tables ?w1) \<longrightarrow> order_db_inv db2" by blast
  have "list_all2 (publishes ({obID row} \<union> obID ` set rows)) (outbox (tables w)) (outbox db2)"
    by (rule list_all2_trans [OF _ one(2) rest(2) [unfolded one(1), simplified]]) (rule publishes_trans)
  moreover have "order_db_inv (tables w) \<longrightarrow> order_db_inv db2" using one rest(3) by simp
  moreover have "fold publish_row (row # rows) w =
      w\<lparr>tables := db2, calls := n, sent := sent w @ map outbox_message_of (row # rows), writes := k\<rparr>"
    using rest(1) by (simp add: one(1))
  ultimately show ?case by (intro exI conjI) simp_all
qed

lemma pending_claim:
  assumes plan: "planner_ok plan" "\<And>e. \<not> busy plan e" and idle: "\<forall>e \<in> set (pending db). obLockedAt e = None"
    and db: "order_db_inv db"
  shows "set (pending_ids plan limit stale db) \<subseteq> obID ` set (pending db)"
    and "length (filter (\<lambda>e. obID e \<in> set (pending_ids plan limit stale db)) (pending db)) =
           min (nat limit) (length (pending db))"
proof -
  have elig: "filter (\<lambda>e. claimable stale e \<and> \<not> busy plan (obID e)) (outbox db) = pending db"
    unfolding pending_def using idle plan(2)
    by (intro filter_cong) (auto simp: claimable_def pending_def)
  have scan: "mset (scan plan (pending db)) = mset (pending db)" using plan(1) by (simp add: planner_ok_def)
  let ?ids = "pending_ids plan limit stale db"
  have ids: "?ids = map obID (take (nat limit) (sort_key event_created_key (scan plan (pending db))))"
    by (simp add: pending_ids_def elig)
  show sub: "set ?ids \<subseteq> obID ` set (pending db)"
    using mset_eq_setD [OF scan] by (auto simp: ids dest!: in_set_takeD)
  have dist: "distinct (map obID (pending db))"
    using order_db_invD(4) [OF db] by (simp add: pending_def distinct_map_filter)
  have "mset (map obID (sort_key event_created_key (scan plan (pending db)))) = mset (map obID (pending db))"
    using scan by simp
  then have "distinct (map obID (sort_key event_created_key (scan plan (pending db))))"
    using dist mset_eq_imp_distinct_iff by blast
  then have dids: "distinct ?ids" unfolding ids take_map [symmetric] by (rule distinct_take)
  have len: "length (scan plan (pending db)) = length (pending db)" using scan by (rule mset_eq_length)
  have "length (filter (\<lambda>e. obID e \<in> set ?ids) (pending db)) =
      length (filter (\<lambda>i. i \<in> set ?ids) (map obID (pending db)))"
    by (simp add: filter_map o_def)
  also have "\<dots> = card (set ?ids)"
    using sub dist by (subst distinct_card [symmetric]) (auto intro: arg_cong [where f = card])
  also have "\<dots> = length ?ids" using dids by (rule distinct_card)
  also have "\<dots> = min (nat limit) (length (pending db))" by (simp add: ids len min.commute)
  finally show "length (filter (\<lambda>e. obID e \<in> set ?ids) (pending db)) = min (nat limit) (length (pending db))" .
qed

lemma pending_split:
  assumes "order_db_inv db" "ids \<subseteq> obID ` set (pending db)"
  shows "filter (\<lambda>e. obID e \<in> ids) (outbox db) = filter (\<lambda>e. obID e \<in> ids) (pending db)"
proof -
  have "obPublishedAt e = None" if e: "e \<in> set (outbox db)" and i: "obID e \<in> ids" for e
  proof -
    obtain e' where e': "e' \<in> set (outbox db)" "obPublishedAt e' = None" "obID e' = obID e"
      using i assms(2) by (force simp: pending_def)
    then have "e' = e"
      using e order_db_invD(4) [OF assms(1)] by (auto simp: distinct_map dest: inj_onD)
    with e' show ?thesis by simp
  qed
  then show ?thesis by (auto simp: pending_def filter_filter intro: filter_cong)
qed

lemma logBacklogStats_batch [simp]:
  "batchSize (snd (logBacklogStats d n stats now)) = batchSize d"
  by (simp add: logBacklogStats_def Let_def)

lemma round_drains:
  fixes w :: "(order_db, 'm) bus_world_scheme"
  assumes idle: "idle_outbox w" and plans: "\<And>i. planner_ok (plans i)" "\<And>i e. \<not> busy (plans i) e"
    and batch: "0 \<le> batchSize d"
  shows "\<exists>d' w' ms. dispatchOnce plans d w = (d', w') \<and> idle_outbox w' \<and> batchSize d' = batchSize d \<and>
    length (pending (tables w')) = length (pending (tables w)) - nat (batchSize d) \<and>
    sent w' = sent w @ ms \<and>
    mset ms + mset (map outbox_message_of (pending (tables w'))) = mset (map outbox_message_of (pending (tables w)))"
proof -
  let ?at = "clock_at (the_attempt w) ''claimedAt''" and ?db = "tables w" and ?plan = "plans (calls w)"
  have al: "alone w" and srv: "all_served w" and up: "broker_up w" and inv: "order_db_inv ?db"
    and unlocked: "\<forall>e \<in> set (pending ?db). obLockedAt e = None"
    using idle by (simp_all add: idle_outbox_def)
  obtain rows db1 where q: "q_ClaimPendingOrderOutboxEvents ?plan (batchSize d) (?at - lockTimeout d) ?at ?db = Inr (rows, db1)"
    using batch by (simp add: q_Claim_Inr)
  define ids where "ids = set (pending_ids ?plan (batchSize d) (?at - lockTimeout d) ?db)"
  note P = pending_claim [where plan = ?plan and limit = "batchSize d" and stale = "?at - lockTimeout d",
      OF plans unlocked inv, folded ids_def]
  have db1: "outbox db1 = map (claim_row ids ?at) (outbox ?db)" using q by (simp add: q_Claim_Inr ids_def)
  have rows: "obID ` set rows = ids" "mset rows = mset (filter (\<lambda>e. obID e \<in> ids) (outbox db1))"
    using claimed_rows(2,3) [OF q plans(1)] by (simp_all add: ids_def)
  let ?w2 = "w\<lparr>tables := db1, calls := Suc (Suc (calls w))\<rparr>"
  have "alone ?w2" "all_served ?w2" "broker_up ?w2" using al srv up by (simp_all add: broker_up_def)
  from publish_rows_served [OF this, of rows]
  obtain db' n k where fold: "fold publish_row rows ?w2 =
      w\<lparr>tables := db', calls := n, sent := sent w @ map outbox_message_of rows, writes := k\<rparr>"
    "list_all2 (publishes ids) (outbox db1) (outbox db')" "order_db_inv db1 \<longrightarrow> order_db_inv db'"
    by (auto simp: rows(1))
  let ?w' = "w\<lparr>tables := db', calls := n, sent := sent w @ map outbox_message_of rows, writes := k\<rparr>"
  obtain d' where run: "dispatchOnce plans d w = (d', ?w')" "batchSize d' = batchSize d"
    using q fold(1) srv al by (simp add: dispatchOnce_def Let_def with_attempt_def with_read_def
        claim_events_def alone_found found_def alone_def)
  have after: "pending db' = filter (\<lambda>e. obID e \<notin> ids) (pending ?db)"
    using publishes_pending [OF fold(2)] unfolding pending_def db1 filter_map filter_filter
    by (auto simp: o_def map_idI conj_commute intro!: map_idI filter_cong)
  have "length (pending db') = length (pending ?db) - nat (batchSize d)"
    using sum_length_filter_compl [of "\<lambda>e. obID e \<in> ids" "pending ?db"] P(2) unfolding after by simp
  moreover have "mset (map outbox_message_of rows) = mset (map outbox_message_of (filter (\<lambda>e. obID e \<in> ids) (pending ?db)))"
    using rows(2) unfolding pending_split [OF inv P(1), symmetric] db1 filter_map
    by (simp add: o_def multiset.map_comp)
  then have "mset (map outbox_message_of rows) + mset (map outbox_message_of (pending db')) =
      mset (map outbox_message_of (pending ?db))"
    unfolding after by (metis image_mset_union mset_filter mset_map multiset_partition)
  moreover have "order_db_inv db'" using fold(3) q_Claim_inv [OF q inv] by simp
  moreover have "\<forall>e \<in> set (pending db'). obLockedAt e = None" using unlocked by (simp add: after)
  ultimately show ?thesis
    using run al srv up by (intro exI [of _ d'] exI [of _ ?w'] exI [of _ "map outbox_message_of rows"])
      (simp add: idle_outbox_def alone_def all_served_def broker_up_def)
qed

text \<open>
  C15: The outbox drains: when nothing fails and no pending event is locked, \<open>Run\<close> with a
  valid configuration has published every pending event after enough rounds for them all,
  and has sent the message of each exactly once, and nothing else.
\<close>
theorem outbox_drains:
  fixes w :: "(order_db, 'm) bus_world_scheme"
  assumes "idle_outbox w" "\<And>i. planner_ok (plans i)" "\<And>i e. \<not> busy (plans i) e"
    and "hasPublisher d" "Validate (dispatcher_config_of d) = None"
    and "length (pending (tables w)) \<le> nat (batchSize d) * Suc ticks"
  shows "\<exists>w' ms. dispatcher_Run plans ticks (Some d) w = (None, w') \<and> pending (tables w') = [] \<and>
    sent w' = sent w @ ms \<and> mset ms = mset (map outbox_message_of (pending (tables w)))"
proof -
  let ?round = "\<lambda>(d, w). dispatchOnce plans d w"
  have batch: "0 \<le> batchSize d"
    using assms(5) by (simp add: Validate_def dispatcher_config_of_def split: if_splits)
  have rounds: "\<exists>d' w' ms. (?round ^^ n) (d, w) = (d', w') \<and> idle_outbox w' \<and> batchSize d' = batchSize d \<and>
      length (pending (tables w')) = length (pending (tables w)) - nat (batchSize d) * n \<and> sent w' = sent w @ ms \<and>
      mset ms + mset (map outbox_message_of (pending (tables w'))) = mset (map outbox_message_of (pending (tables w)))"
    for n
  proof (induction n)
    case 0
    then show ?case using assms(1) by simp
  next
    case (Suc n)
    then obtain d1 w1 ms1 where one: "(?round ^^ n) (d, w) = (d1, w1)" "idle_outbox w1" "batchSize d1 = batchSize d"
      "length (pending (tables w1)) = length (pending (tables w)) - nat (batchSize d) * n" "sent w1 = sent w @ ms1"
      "mset ms1 + mset (map outbox_message_of (pending (tables w1))) = mset (map outbox_message_of (pending (tables w)))"
      by blast
    have batch1: "0 \<le> batchSize d1" using batch one(3) by simp
    obtain d2 w2 ms2 where two: "dispatchOnce plans d1 w1 = (d2, w2)" "idle_outbox w2" "batchSize d2 = batchSize d1"
      "length (pending (tables w2)) = length (pending (tables w1)) - nat (batchSize d1)" "sent w2 = sent w1 @ ms2"
      "mset ms2 + mset (map outbox_message_of (pending (tables w2))) = mset (map outbox_message_of (pending (tables w1)))"
      using round_drains [where plans = plans and d = d1, OF one(2) assms(2,3) batch1] by blast
    have "mset (ms1 @ ms2) + mset (map outbox_message_of (pending (tables w2))) =
        mset (map outbox_message_of (pending (tables w)))"
      unfolding one(6) [symmetric] two(6) [symmetric] by simp
    moreover have "length (pending (tables w2)) = length (pending (tables w)) - nat (batchSize d) * Suc n"
      by (simp add: two(4) one(3,4) add.commute)
    moreover have "(?round ^^ Suc n) (d, w) = (d2, w2)" by (simp add: one(1) two(1))
    moreover have "sent w2 = sent w @ ms1 @ ms2" by (simp add: one(5) two(5))
    moreover note trans [OF two(3) one(3)]
    ultimately show ?case using two(2) by (intro exI conjI) assumption+
  qed
  obtain d' w' ms where fin: "(?round ^^ Suc ticks) (d, w) = (d', w')"
    "length (pending (tables w')) = 0" "sent w' = sent w @ ms"
    "mset ms + mset (map outbox_message_of (pending (tables w'))) = mset (map outbox_message_of (pending (tables w)))"
    using rounds [of "Suc ticks"] assms(6) by auto
  then show ?thesis using assms(4,5) by (simp add: dispatcher_Run_def del: funpow.simps)
qed

lemma sample_idle: "idle_outbox (calm_bus sample_db t)"
  by (simp add: idle_outbox_def order_store_invD(1) [OF sample_db_inv])
    (simp add: pending_def add_order_def empty_order_db_def)

theorem outbox_drains_witness:
  "\<exists>w'. dispatcher_Run (\<lambda>_. scan_order) 0 (Some sample_dispatcher) (calm_bus sample_db 9000) = (None, w') \<and>
     length (sent w') = 1 \<and> pending (tables w') = []"
proof -
  have one: "length (pending sample_db) = 1" by (simp add: pending_def add_order_def empty_order_db_def)
  obtain w' ms where w': "dispatcher_Run (\<lambda>_. scan_order) 0 (Some sample_dispatcher) (calm_bus sample_db 9000) = (None, w')"
    "pending (tables w') = []" "sent w' = ms"
    "mset ms = mset (map outbox_message_of (pending sample_db))"
    using outbox_drains [OF sample_idle [of 9000], of "\<lambda>_. scan_order" sample_dispatcher 0]
    by (auto simp: sample_dispatcher_def NewOutboxDispatcher_def DefaultOutboxDispatcherConfig_def
        Validate_def dispatcher_config_of_def time_Second_def one) (auto simp: scan_order_def)
  have "length ms = 1" using mset_eq_length [OF w'(4)] one by simp
  then show ?thesis using w' by auto
qed

section \<open>The lock and the batch\<close>

text \<open>
  \<open>Validate\<close> compares the lock timeout with the timeout of one publication, but a batch
  is published one by one under the lock of its claim. The default configuration is accepted
  although ten publications may take 50 seconds under a lock of 30: a second dispatcher that
  claims 31 seconds later receives an event that the first may still publish.
\<close>
theorem default_lock_shorter_than_batch:
  "Validate DefaultOutboxDispatcherConfig = None \<and>
   LockTimeout DefaultOutboxDispatcherConfig <
     BatchSize DefaultOutboxDispatcherConfig * PublishTimeout DefaultOutboxDispatcherConfig \<and>
   (\<exists>rows db1 rows' db2.
      q_ClaimPendingOrderOutboxEvents scan_order (BatchSize DefaultOutboxDispatcherConfig)
        (9000 - LockTimeout DefaultOutboxDispatcherConfig) 9000 sample_db = Inr (rows, db1) \<and>
      q_ClaimPendingOrderOutboxEvents scan_order (BatchSize DefaultOutboxDispatcherConfig)
        (9000 + 31 * time_Second - LockTimeout DefaultOutboxDispatcherConfig) (9000 + 31 * time_Second) db1 =
        Inr (rows', db2) \<and>
      obID ` set rows \<inter> obID ` set rows' \<noteq> {})"
proof -
  obtain e where e: "outbox sample_db = [e]" "obPublishedAt e = None" "obLockedAt e = None"
    by (simp add: add_order_def empty_order_db_def)
  then show ?thesis
    by (auto simp: q_Claim_Inr Validate_def DefaultOutboxDispatcherConfig_def time_Second_def pending_ids_def
        scan_order_def claimable_def claim_row_def pg_micros_def image_constant_conv)
qed

end
