(* ===== verification/Grpc.thy ===== *)
theory Grpc
  imports Prelude
begin

text \<open>
  gRPC statuses: the result of a handler is a response or a code with a message. A message
  field of a request may be absent (a nil pointer in Go), which is \<open>None\<close> here.
\<close>

datatype grpc_code =
    Canceled | Unknown | InvalidArgument | DeadlineExceeded | NotFound | AlreadyExists
  | PermissionDenied | ResourceExhausted | FailedPrecondition | Aborted | OutOfRange
  | Unimplemented | InternalCode | Unavailable | DataLoss | Unauthenticated

record grpc_status =
  code :: grpc_code
  description :: string

definition status_Error :: "grpc_code \<Rightarrow> string \<Rightarrow> grpc_status" where
  "status_Error c m = \<lparr>code = c, description = m\<rparr>"

lemma status_Error_simps [simp]: "code (status_Error c m) = c" "description (status_Error c m) = m"
  by (simp_all add: status_Error_def)

lemma status_Error_eq_iff [simp]: "status_Error c m = status_Error c' m' \<longleftrightarrow> c = c' \<and> m = m'"
  by (simp add: status_Error_def)

text \<open>A handler answers with the mapped error or the mapped result of its service.\<close>

definition respond :: "('e \<Rightarrow> grpc_status) \<Rightarrow> ('a \<Rightarrow> 'b) \<Rightarrow> ('e + 'a) \<times> 's \<Rightarrow> (grpc_status + 'b) \<times> 's" where
  "respond err ok r = (map_sum err ok (fst r), snd r)"

lemma respond_simps [simp]:
  "respond err ok (Inl e, s) = (Inl (err e), s)" "respond err ok (Inr x, s) = (Inr (ok x), s)"
  by (simp_all add: respond_def)

lemma snd_respond [simp]: "snd (respond err ok r) = snd r"
  by (simp add: respond_def)

lemma respond_Inr: "respond err ok r = (Inr y, s) \<longleftrightarrow> (\<exists>x. r = (Inr x, s) \<and> y = ok x)"
  by (cases r; cases "fst r") (auto simp: respond_def)

lemma respond_Inl: "respond err ok r = (Inl y, s) \<longleftrightarrow> (\<exists>e. r = (Inl e, s) \<and> y = err e)"
  by (cases r; cases "fst r") (auto simp: respond_def)

end
