(* ===== verification/Order_Handler.thy ===== *)
theory Order_Handler
  imports Order_Lifecycle Grpc
begin

text \<open>
  The gRPC surface of the order service (\<open>internal/order/handler/grpc.go\<close>): the requests and
  responses of \<open>api/proto/order\<close>, their conversion to and from the domain, and the mapping of
  the service's errors to status codes. Log lines are not modelled.
\<close>

section \<open>Messages\<close>

record pb_money =
  pmCurrency :: currency
  pmAmountCents :: int

record pb_address =
  paCountry :: string
  paCity :: string
  paStreet :: string
  paPostalCode :: string
  paHouse :: string
  paApartment :: string

record pb_payment_details =
  pdMethod :: payment_method
  pdMethodDetails :: string

record pb_create_item =
  pcProductId :: string
  pcSku :: string
  pcProductName :: string
  pcQuantity :: int
  pcUnitPrice :: "pb_money option"

record pb_order_item =
  piProductId :: string
  piSku :: string
  piProductName :: string
  piQuantity :: int
  piUnitPrice :: pb_money
  piTotalPrice :: pb_money

record pb_create_request =
  rqCustomerId :: string
  rqIdempotencyKey :: string
  rqItems :: "pb_create_item list"
  rqShippingAddress :: "pb_address option"
  rqPayment :: "pb_payment_details option"

record pb_order =
  poOrderId :: string
  poCustomerId :: string
  poItems :: "pb_order_item list"
  poTotalAmount :: pb_money
  poStatus :: order_status
  poShippingAddress :: pb_address
  poPayment :: pb_payment_details
  poCancelReason :: string
  poCreatedAt :: string
  poUpdatedAt :: string

record pb_list_response =
  rlOrders :: "pb_order list"
  rlPage :: int
  rlPageSize :: int
  rlTotal :: int

section \<open>Conversions\<close>

definition convertMoney :: "pb_money option \<Rightarrow> money" where
  "convertMoney m =
     (case m of None \<Rightarrow> zero_money
      | Some p \<Rightarrow> \<lparr>mCurrency = pmCurrency p, mAmountCents = pmAmountCents p\<rparr>)"

definition convertMoneyToProto :: "money \<Rightarrow> pb_money" where
  "convertMoneyToProto m = \<lparr>pmCurrency = mCurrency m, pmAmountCents = mAmountCents m\<rparr>"

definition convertAddress :: "pb_address option \<Rightarrow> address" where
  "convertAddress a =
     (case a of None \<Rightarrow> zero_address
      | Some p \<Rightarrow> \<lparr>aCountry = paCountry p, aCity = paCity p, aStreet = paStreet p,
                    aPostalCode = paPostalCode p, aHouse = paHouse p, aApartment = paApartment p\<rparr>)"

definition convertAddressToProto :: "address \<Rightarrow> pb_address" where
  "convertAddressToProto a =
     \<lparr>paCountry = aCountry a, paCity = aCity a, paStreet = aStreet a,
      paPostalCode = aPostalCode a, paHouse = aHouse a, paApartment = aApartment a\<rparr>"

definition convertPaymentDetails :: "pb_payment_details option \<Rightarrow> payment_details" where
  "convertPaymentDetails d =
     (case d of None \<Rightarrow> zero_payment_details
      | Some p \<Rightarrow> \<lparr>dMethod = pdMethod p, dMethodDetails = pdMethodDetails p\<rparr>)"

definition convertPaymentDetailsToProto :: "payment_details \<Rightarrow> pb_payment_details" where
  "convertPaymentDetailsToProto d = \<lparr>pdMethod = dMethod d, pdMethodDetails = dMethodDetails d\<rparr>"

definition convertCreateOrderItems :: "pb_create_item list \<Rightarrow> order_item list" where
  "convertCreateOrderItems items =
     map (\<lambda>i. \<lparr>iProductID = pcProductId i, iSKU = pcSku i, iProductName = pcProductName i,
               iQuantity = pcQuantity i, iUnitPrice = convertMoney (pcUnitPrice i),
               iTotalPrice = zero_money\<rparr>) items"

definition convertOrderItemsToProto :: "order_item list \<Rightarrow> pb_order_item list" where
  "convertOrderItemsToProto items =
     map (\<lambda>i. \<lparr>piProductId = iProductID i, piSku = iSKU i, piProductName = iProductName i,
               piQuantity = iQuantity i, piUnitPrice = convertMoneyToProto (iUnitPrice i),
               piTotalPrice = convertMoneyToProto (iTotalPrice i)\<rparr>) items"

text \<open>
  Orders carry times in the zone of the process, whose offset from UTC at time \<open>t\<close> is
  \<open>zone t\<close> seconds.
\<close>

definition convertOrderToProto :: "(time \<Rightarrow> int) \<Rightarrow> order \<Rightarrow> pb_order" where
  "convertOrderToProto zone o' =
     \<lparr>poOrderId = oID o', poCustomerId = oCustomerID o', poItems = convertOrderItemsToProto (oItems o'),
      poTotalAmount = convertMoneyToProto (oTotalAmount o'), poStatus = oStatus o',
      poShippingAddress = convertAddressToProto (oShippingAddress o'),
      poPayment = convertPaymentDetailsToProto (oPayment o'), poCancelReason = oCancelReason o',
      poCreatedAt = RFC3339 (zone (oCreatedAt o')) (oCreatedAt o'),
      poUpdatedAt = RFC3339 (zone (oUpdatedAt o')) (oUpdatedAt o')\<rparr>"

definition mapOrderError :: "order_error \<Rightarrow> grpc_status" where
  "mapOrderError err =
     (if err \<in> {ErrInvalidOrder, ErrInvalidOrderID, ErrInvalidCustomerID}
        then status_Error InvalidArgument (order_error_text err)
      else if err = ErrOrderNotFound then status_Error NotFound (order_error_text err)
      else if err \<in> {ErrOrderAlreadyExists, ErrIdempotencyKeyConflict}
        then status_Error AlreadyExists (order_error_text err)
      else if err = ErrOrderCannotBeCancelled
        then status_Error FailedPrecondition (order_error_text err)
      else status_Error InternalCode ''internal server error'')"

section \<open>Handlers\<close>

definition request_order :: "pb_create_request \<Rightarrow> order" where
  "request_order req =
     zero_order\<lparr>oCustomerID := rqCustomerId req, oIdempotencyKey := rqIdempotencyKey req,
       oItems := convertCreateOrderItems (rqItems req),
       oShippingAddress := convertAddress (rqShippingAddress req),
       oPayment := convertPaymentDetails (rqPayment req)\<rparr>"

definition grpc_CreateOrder ::
    "'s order_repo \<Rightarrow> (time \<Rightarrow> int) \<Rightarrow> time \<Rightarrow> time \<Rightarrow> pb_create_request \<Rightarrow> 's \<Rightarrow> (grpc_status + pb_order) \<times> 's" where
  "grpc_CreateOrder repo zone tid now req s =
     respond mapOrderError (convertOrderToProto zone) (svc_CreateOrder repo tid now (request_order req) s)"

definition grpc_GetOrderByID ::
    "'s order_repo \<Rightarrow> (time \<Rightarrow> int) \<Rightarrow> string \<Rightarrow> 's \<Rightarrow> (grpc_status + pb_order) \<times> 's" where
  "grpc_GetOrderByID repo zone oid s =
     respond mapOrderError (convertOrderToProto zone) (svc_GetOrderByID repo oid s)"

definition grpc_CancelOrder ::
    "'s order_repo \<Rightarrow> (time \<Rightarrow> int) \<Rightarrow> time \<Rightarrow> string \<Rightarrow> string \<Rightarrow> 's \<Rightarrow> (grpc_status + pb_order) \<times> 's" where
  "grpc_CancelOrder repo zone now oid reason s =
     respond mapOrderError (convertOrderToProto zone) (svc_CancelOrder repo now oid reason s)"

definition list_response :: "(time \<Rightarrow> int) \<Rightarrow> int \<Rightarrow> int \<Rightarrow> order list \<times> int \<Rightarrow> pb_list_response" where
  "list_response zone page pageSize r =
     (case r of (os, tot) \<Rightarrow>
        \<lparr>rlOrders = map (convertOrderToProto zone) os,
         rlPage = (if page \<le> 0 then 1 else page),
         rlPageSize = (if pageSize \<le> 0 then (if tot > 2147483647 then 2147483647 else wrap32 tot) else pageSize),
         rlTotal = tot\<rparr>)"

definition grpc_ListOrdersByCustomer ::
    "'s order_repo \<Rightarrow> (time \<Rightarrow> int) \<Rightarrow> string \<Rightarrow> int \<Rightarrow> int \<Rightarrow> 's \<Rightarrow> (grpc_status + pb_list_response) \<times> 's" where
  "grpc_ListOrdersByCustomer repo zone cid page pageSize s =
     respond mapOrderError (list_response zone page pageSize) (svc_ListOrdersByCustomer repo cid page pageSize s)"

section \<open>What a client sees\<close>

lemma mapOrderError_code:
  "code (mapOrderError e) =
     (case e of ErrInvalidOrder \<Rightarrow> InvalidArgument | ErrInvalidOrderID \<Rightarrow> InvalidArgument
      | ErrInvalidCustomerID \<Rightarrow> InvalidArgument | ErrOrderNotFound \<Rightarrow> NotFound
      | ErrOrderAlreadyExists \<Rightarrow> AlreadyExists | ErrIdempotencyKeyConflict \<Rightarrow> AlreadyExists
      | ErrOrderCannotBeCancelled \<Rightarrow> FailedPrecondition | _ \<Rightarrow> InternalCode)"
  by (cases e) (simp_all add: mapOrderError_def)

lemma mapOrderError_internal:
  "code (mapOrderError e) = InternalCode \<Longrightarrow> description (mapOrderError e) = ''internal server error''"
  by (cases e) (simp_all add: mapOrderError_def)

lemma svc_cancel_error:
  assumes "pg_quiet w" and "svc_CancelOrder (pg_order_repo cfg coll) now oid reason w = (Inl e, w')"
    and "\<And>m. e \<noteq> OrderInternal m"
  shows "tables w' = tables w"
proof -
  have al: "alone w" using assms(1) by (simp add: pg_quiet_def)
  obtain r1 w1 where g: "rGetOrderByID (pg_order_repo cfg coll) oid w = (r1, w1)" by fastforce
  then have t: "tables w1 = tables w" "alone w1"
    using al by (auto simp: pg_order_repo_def with_read_eq alone_found alone_def)
  have upd: "tables w2 = tables w1" if u0: "rUpdateOrder (pg_order_repo cfg coll) o' w1 = (Inl e, w2)" for o' w2
  proof -
    obtain db' where u: "pg_UpdateOrder cfg (the_attempt w1) o' (tables w1) = (Inl e, db')" and w2: "tables w2 = db'"
      using u0 t(2) by (auto simp: pg_order_repo_def with_attempt_eq alone_found)
    from u show ?thesis by (cases rule: pg_UpdateOrder_cases) (use assms(3) w2 in auto)
  qed
  show ?thesis
    using assms(2) g t upd by (auto simp: svc_CancelOrder_def Let_def split: sum.splits if_splits)
qed

text \<open>
  C17: The status code tells the client whether its request took effect: when \<open>CreateOrder\<close> or
  \<open>CancelOrder\<close> answers with an error other than \<open>Internal\<close>, under any faults of the
  database, no table was changed; and an \<open>Internal\<close> error never carries the text of the
  underlying failure.
\<close>
theorem handler_errors:
  assumes "pg_quiet w" and "repo = pg_order_repo cfg coll"
    and "grpc_CreateOrder repo zone tid now req w = (Inl st, w') \<or>
         grpc_CancelOrder repo zone now oid reason w = (Inl st, w')"
  shows "if code st = InternalCode then description st = ''internal server error'' else tables w' = tables w"
  using assms(3)
proof
  assume "grpc_CreateOrder repo zone tid now req w = (Inl st, w')"
  then obtain e where e: "svc_CreateOrder (pg_order_repo cfg coll) tid now (request_order req) w = (Inl e, w')"
    "st = mapOrderError e" by (auto simp: grpc_CreateOrder_def respond_Inl assms(2))
  from assms(1) e(1) show ?thesis
    by (cases rule: svc_create_pg) (use e(2) mapOrderError_internal in \<open>auto simp: mapOrderError_def\<close>)
next
  assume "grpc_CancelOrder repo zone now oid reason w = (Inl st, w')"
  then obtain e where e: "svc_CancelOrder (pg_order_repo cfg coll) now oid reason w = (Inl e, w')"
    "st = mapOrderError e" by (auto simp: grpc_CancelOrder_def respond_Inl assms(2))
  show ?thesis
    using svc_cancel_error [OF assms(1) e(1)] e(2) mapOrderError_internal [of e]
    by (cases e) (auto simp: mapOrderError_def)
qed

theorem handler_errors_witness:
  "\<exists>st w'. grpc_CancelOrder sample_repo (\<lambda>_. 0) 7000 ''o1'' [] (calm_world sample_db 9000) = (Inl st, w') \<and>
     code st = InvalidArgument \<and> tables w' = sample_db"
proof -
  have c: "grpc_CancelOrder sample_repo (\<lambda>_. 0) 7000 ''o1'' [] (calm_world sample_db 9000) =
      (Inl (mapOrderError ErrInvalidOrder), calm_world sample_db 9000)"
    by (simp add: grpc_CancelOrder_def svc_CancelOrder_def)
  show ?thesis
    using handler_errors [OF sample_quiet_db [of 9000] refl disjI2 [OF c]] c by (simp add: mapOrderError_def)
qed

definition trimmed_address :: "pb_address \<Rightarrow> pb_address" where
  "trimmed_address a =
     \<lparr>paCountry = TrimSpace (paCountry a), paCity = TrimSpace (paCity a), paStreet = TrimSpace (paStreet a),
      paPostalCode = TrimSpace (paPostalCode a), paHouse = TrimSpace (paHouse a), paApartment = TrimSpace (paApartment a)\<rparr>"

lemma read_your_writes:
  assumes "pg_quiet w" and "repo = pg_order_repo cfg coll"
    and "grpc_CreateOrder repo zone tid now req w = (Inr p, w1)" and "all_served w1"
  shows "fst (grpc_GetOrderByID repo zone (poOrderId p) w1) = Inr p \<and>
    poCustomerId p = TrimSpace (rqCustomerId req) \<and>
    (\<forall>a. rqShippingAddress req = Some a \<longrightarrow> poShippingAddress p = trimmed_address a) \<and>
    (\<forall>d. rqPayment req = Some d \<longrightarrow>
       poPayment p = \<lparr>pdMethod = pdMethod d, pdMethodDetails = TrimSpace (pdMethodDetails d)\<rparr>) \<and>
    map (\<lambda>i. (piProductId i, piSku i, piProductName i, piQuantity i)) (poItems p) =
      map (\<lambda>i. (TrimSpace (pcProductId i), TrimSpace (pcSku i), TrimSpace (pcProductName i), pcQuantity i)) (rqItems req)"
proof -
  obtain x where x: "svc_CreateOrder (pg_order_repo cfg coll) tid now (request_order req) w = (Inr x, w1)"
    "p = convertOrderToProto zone x"
    using assms(3) by (auto simp: grpc_CreateOrder_def respond_Inr assms(2))
  have L: "ordersMatchForIdempotency x (normalizeOrderInput (request_order req))"
    "stored_orders (tables w1) (oID x) = Some x"
    using create_order_lemma [OF assms(1) x(1)] by auto
  from assms(1) x(1) have q1: "pg_quiet w1" by (cases rule: svc_create_pg) auto
  have sound: "sound_order x" using order_store_invD(5) [OF _ L(2)] q1 by (simp add: pg_quiet_def)
  have "TrimSpace (oID x) \<noteq> []"
    using sound by (auto simp: sound_order_def validateOrder_def split: if_splits)
  then have get: "fst (grpc_GetOrderByID repo zone (poOrderId p) w1) = Inr p"
    using pg_get_served [OF q1 assms(4) L(2), of cfg coll]
    by (simp add: grpc_GetOrderByID_def svc_GetOrderByID_def assms(2) x(2) convertOrderToProto_def)
  let ?o = "normalizeOrderInput (request_order req)"
  have same: "oCustomerID x = oCustomerID ?o" "oShippingAddress x = oShippingAddress ?o"
    "oPayment x = oPayment ?o" "list_all2 items_match (oItems x) (oItems ?o)"
    using L(1) by (simp_all add: ordersMatchForIdempotency_def)
  have "map (\<lambda>i. (iProductID i, iSKU i, iProductName i, iQuantity i)) (oItems x) =
      map (\<lambda>i. (iProductID i, iSKU i, iProductName i, iQuantity i)) (oItems ?o)"
    using same(4) by (induction rule: list_all2_induct) (auto simp: items_match_def)
  then have "map (\<lambda>i. (piProductId i, piSku i, piProductName i, piQuantity i)) (poItems p) =
      map (\<lambda>i. (TrimSpace (pcProductId i), TrimSpace (pcSku i), TrimSpace (pcProductName i), pcQuantity i)) (rqItems req)"
    by (simp add: x(2) convertOrderToProto_def convertOrderItemsToProto_def o_def request_order_def
        convertCreateOrderItems_def normalizeOrderInput_def normalize_item_def)
  then show ?thesis
    using get by (simp add: x(2) same(1-3) convertOrderToProto_def convertAddressToProto_def
        convertPaymentDetailsToProto_def normalizeOrderInput_def request_order_def convertAddress_def
        convertPaymentDetails_def trimmed_address_def)
qed

text \<open>
  C18: Read your writes over gRPC: what a successful \<open>CreateOrder\<close> returns, \<open>GetOrderByID\<close>
  returns for its identifier, field for field, on a database that is served from then on and that
  no other client writes to. The customer, the address, the payment method and its details, and of
  every item the product, SKU, name and quantity are those of the request, without the white space
  around them.
\<close>
theorem handler_read_your_writes:
  assumes "pg_quiet w" and "repo = pg_order_repo cfg coll"
    and "grpc_CreateOrder repo zone tid now req w = (Inr p, w1)" and "all_served w1"
  shows "fst (grpc_GetOrderByID repo zone (poOrderId p) w1) = Inr p \<and>
    poCustomerId p = TrimSpace (rqCustomerId req) \<and>
    (\<forall>a. rqShippingAddress req = Some a \<longrightarrow> poShippingAddress p = trimmed_address a) \<and>
    (\<forall>d. rqPayment req = Some d \<longrightarrow>
       poPayment p = \<lparr>pdMethod = pdMethod d, pdMethodDetails = TrimSpace (pdMethodDetails d)\<rparr>) \<and>
    map (\<lambda>i. (piProductId i, piSku i, piProductName i, piQuantity i)) (poItems p) =
      map (\<lambda>i. (TrimSpace (pcProductId i), TrimSpace (pcSku i), TrimSpace (pcProductName i), pcQuantity i)) (rqItems req)"
  using read_your_writes [OF assms] .

definition sample_create :: pb_create_request where
  "sample_create =
     \<lparr>rqCustomerId = ''c1'', rqIdempotencyKey = ''k1'',
      rqItems = map (\<lambda>i. \<lparr>pcProductId = iProductID i, pcSku = iSKU i, pcProductName = iProductName i,
                          pcQuantity = iQuantity i, pcUnitPrice = Some (convertMoneyToProto (iUnitPrice i))\<rparr>)
                  (oItems sample_request),
      rqShippingAddress = Some (convertAddressToProto (oShippingAddress sample_request)),
      rqPayment = Some (convertPaymentDetailsToProto (oPayment sample_request))\<rparr>"

lemma sample_create_order: "request_order sample_create = sample_request"
  by (simp add: request_order_def sample_create_def sample_request_def zero_order_def zero_money_def
      convertCreateOrderItems_def convertMoney_def convertMoneyToProto_def convertAddress_def
      convertAddressToProto_def convertPaymentDetails_def convertPaymentDetailsToProto_def)

lemma pg_repo_attempts:
  "rGetOrderByIdempotencyKey (pg_order_repo cfg coll) key w = (r, w') \<Longrightarrow> attempts w' = attempts w"
  "rCreateOrder (pg_order_repo cfg coll) o' w = (r, w') \<Longrightarrow> attempts w' = attempts w"
  by (auto simp: pg_order_repo_def with_read_eq with_attempt_eq)

lemma svc_create_attempts:
  assumes "svc_CreateOrder (pg_order_repo cfg coll) tid now req w = (r, w')"
  shows "attempts w' = attempts w"
proof -
  have "attempts w2 = attempts w1" if "submit_order (pg_order_repo cfg coll) p w1 = (r, w2)" for p w1 w2
    using that by (auto simp: submit_order_def dest!: pg_repo_attempts split: prod.splits sum.splits if_splits)
  then show ?thesis
    using assms by (auto simp: svc_CreateOrder_def Let_def dest!: pg_repo_attempts(1)
        split: prod.splits sum.splits if_splits)
qed

theorem handler_read_your_writes_witness:
  "\<exists>p w1. grpc_CreateOrder sample_repo (\<lambda>_. 0) 7000 8000 sample_create sample_world = (Inr p, w1) \<and>
     fst (grpc_GetOrderByID sample_repo (\<lambda>_. 0) (poOrderId p) w1) = Inr p \<and> poCustomerId p = ''c1''"
proof -
  obtain x w1 where c: "svc_CreateOrder sample_repo 7000 8000 sample_request sample_world = (Inr x, w1)"
    by (rule sample_created)
  have srv: "all_served w1" using svc_create_attempts [OF c] by (simp add: all_served_def)
  from c have g: "grpc_CreateOrder sample_repo (\<lambda>_. 0) 7000 8000 sample_create sample_world =
      (Inr (convertOrderToProto (\<lambda>_. 0) x), w1)"
    by (simp add: grpc_CreateOrder_def sample_create_order)
  show ?thesis
    using handler_read_your_writes [OF sample_quiet refl g srv] g by (auto simp: sample_create_def)
qed

end
