(* ===== verification/Consumer.thy ===== *)
theory Consumer
  imports Kafka Shared_Events
begin

text \<open>
  What the event consumers of the three services share. Redis is third-party code: the model
  keeps the set of keys it stores, of which any may have expired by the time of a call, and
  lets every call fail before or after it took effect. \<open>EventDeduplicator\<close> is an interface of
  two operations and its contract the locale \<open>event_deduplicator\<close>; the Redis deduplicator
  (\<open>redis_deduplicator.go\<close>, one copy per service) meets it. \<open>consume\<close> is the loop of the
  consumers' \<open>Run\<close> methods, \<open>deduplicated\<close> the steps every \<open>handleMessage\<close> begins with.
\<close>

section \<open>Redis\<close>

record 'db node_world = "'db bus_world" +
  redis_keys :: "string set"
  redis_fault :: "nat \<Rightarrow> fault"
  redis_expired :: "nat \<Rightarrow> string set"
  redis_calls :: nat

definition redis_tick :: "('db, 'm) node_world_scheme \<Rightarrow> ('db, 'm) node_world_scheme" where
  "redis_tick w =
     w\<lparr>redis_keys := redis_keys w - redis_expired w (redis_calls w), redis_calls := Suc (redis_calls w)\<rparr>"

text \<open>\<open>EXISTS key\<close> counts the keys that exist; \<open>SET key value EX ttl\<close> stores one.\<close>

definition redis_Exists :: "string \<Rightarrow> ('db, 'm) node_world_scheme \<Rightarrow> (string + int) \<times> ('db, 'm) node_world_scheme" where
  "redis_Exists key w =
     (let w1 = redis_tick w
      in (case redis_fault w (redis_calls w) of
            Served \<Rightarrow> Inr (if key \<in> redis_keys w1 then 1 else 0)
          | Failed m \<Rightarrow> Inl m
          | AckLost m \<Rightarrow> Inl m, w1))"

definition redis_Set :: "string \<Rightarrow> ('db, 'm) node_world_scheme \<Rightarrow> string option \<times> ('db, 'm) node_world_scheme" where
  "redis_Set key w =
     (let w1 = redis_tick w; w2 = w1\<lparr>redis_keys := insert key (redis_keys w1)\<rparr>
      in case redis_fault w (redis_calls w) of
           Served \<Rightarrow> (None, w2)
         | Failed m \<Rightarrow> (Some m, w1)
         | AckLost m \<Rightarrow> (Some m, w2))"

text \<open>A Redis that serves every call and expires no key meanwhile.\<close>

definition redis_up :: "('db, 'm) node_world_scheme \<Rightarrow> bool" where
  "redis_up w \<longleftrightarrow> (\<forall>i. redis_fault w i = Served \<and> redis_expired w i = {})"

section \<open>Deduplication\<close>

datatype dedup_error = CheckFailed string | MarkFailed string

record 's event_deduper =
  IsProcessed :: "string \<Rightarrow> 's \<Rightarrow> (dedup_error + bool) \<times> 's"
  MarkProcessed :: "string \<Rightarrow> 's \<Rightarrow> dedup_error option \<times> 's"

fun dedup_error_text :: "dedup_error \<Rightarrow> string" where
  "dedup_error_text (CheckFailed m) = ''check processed event in redis: '' @ m"
| "dedup_error_text (MarkFailed m) = ''mark processed event in redis: '' @ m"

definition redis_IsProcessed ::
    "string \<Rightarrow> string \<Rightarrow> ('db, 'm) node_world_scheme \<Rightarrow> (dedup_error + bool) \<times> ('db, 'm) node_world_scheme" where
  "redis_IsProcessed key_prefix eventID w =
     (case redis_Exists (key_prefix @ eventID) w of
        (Inl e, w1) \<Rightarrow> (Inl (CheckFailed e), w1)
      | (Inr n, w1) \<Rightarrow> (Inr (n = 1), w1))"

definition redis_MarkProcessed ::
    "string \<Rightarrow> string \<Rightarrow> ('db, 'm) node_world_scheme \<Rightarrow> dedup_error option \<times> ('db, 'm) node_world_scheme" where
  "redis_MarkProcessed key_prefix eventID w =
     (case redis_Set (key_prefix @ eventID) w of (r, w1) \<Rightarrow> (map_option MarkFailed r, w1))"

definition redis_deduper :: "string \<Rightarrow> ('db, 'm) node_world_scheme event_deduper" where
  "redis_deduper key_prefix =
     \<lparr>IsProcessed = redis_IsProcessed key_prefix, MarkProcessed = redis_MarkProcessed key_prefix\<rparr>"

text \<open>
  The contract: an event is reported as processed only if it was marked, marking marks it,
  and neither touches anything but the marks (\<open>rest\<close> is what else the state holds).
\<close>

locale event_deduplicator =
  fixes dedup :: "'s event_deduper" and marked :: "'s \<Rightarrow> string set" and rest :: "'s \<Rightarrow> 'r"
  assumes check: "IsProcessed dedup eid s = (r, s') \<Longrightarrow>
      rest s' = rest s \<and> marked s' \<subseteq> marked s \<and> (r = Inr True \<longrightarrow> eid \<in> marked s) \<and>
      (\<forall>e. r = Inl e \<longrightarrow> (\<exists>m. e = CheckFailed m))"
    and mark: "MarkProcessed dedup eid s = (r', s') \<Longrightarrow>
      rest s' = rest s \<and> marked s' \<subseteq> insert eid (marked s) \<and> (r' = None \<longrightarrow> eid \<in> marked s') \<and>
      (\<forall>e. r' = Some e \<longrightarrow> (\<exists>m. e = MarkFailed m))"

section \<open>Handling a message\<close>

text \<open>
  Decode the envelope, skip what cannot be decoded or is of another type, skip what was
  processed. \<open>body\<close> does the rest. A result \<open>Inr b\<close> says whether to commit the message.
\<close>

definition deduplicated ::
    "'s event_deduper \<Rightarrow> (dedup_error \<Rightarrow> 'e) \<Rightarrow> string \<Rightarrow> (ev_Envelope \<Rightarrow> 's \<Rightarrow> ('e + bool) \<times> 's) \<Rightarrow>
     kafka_message \<Rightarrow> 's \<Rightarrow> ('e + bool) \<times> 's" where
  "deduplicated dedup err expectedEventType body msg s =
     (case unmarshal dec_Envelope zero_Envelope (kmValue msg) of
        None \<Rightarrow> (Inr True, s)
      | Some envelope \<Rightarrow>
          if en_EventType envelope \<noteq> expectedEventType then (Inr True, s)
          else (case IsProcessed dedup (en_EventID envelope) s of
                  (Inl e, s1) \<Rightarrow> (Inl (err e), s1)
                | (Inr processed, s1) \<Rightarrow> if processed then (Inr True, s1) else body envelope s1))"

definition mark_done ::
    "'s event_deduper \<Rightarrow> (dedup_error \<Rightarrow> 'e) \<Rightarrow> string \<Rightarrow> 's \<Rightarrow> ('e + bool) \<times> 's" where
  "mark_done dedup err eventID s =
     (case MarkProcessed dedup eventID s of
        (Some e, s1) \<Rightarrow> (Inl (err e), s1)
      | (None, s1) \<Rightarrow> (Inr True, s1))"

definition skipped :: "('s \<Rightarrow> string set) \<Rightarrow> string \<Rightarrow> kafka_message \<Rightarrow> 's \<Rightarrow> bool" where
  "skipped marked expected msg s \<longleftrightarrow>
     (case unmarshal dec_Envelope zero_Envelope (kmValue msg) of
        None \<Rightarrow> True
      | Some envelope \<Rightarrow> en_EventType envelope \<noteq> expected \<or> en_EventID envelope \<in> marked s)"

context event_deduplicator
begin

lemma deduplicated_cases:
  assumes "deduplicated dedup err expected body msg s = (r, s')"
  obtains (skip) "r = Inr True" "rest s' = rest s" "skipped marked expected msg s"
  | (failed) m where "r = Inl (err (CheckFailed m))" "rest s' = rest s" "marked s' \<subseteq> marked s"
  | (handled) envelope s1 where "unmarshal dec_Envelope zero_Envelope (kmValue msg) = Some envelope"
      "en_EventType envelope = expected" "rest s1 = rest s" "marked s1 \<subseteq> marked s"
      "body envelope s1 = (r, s')"
proof (cases "unmarshal dec_Envelope zero_Envelope (kmValue msg)")
  case None
  then show ?thesis using assms skip by (simp add: deduplicated_def skipped_def)
next
  case (Some envelope)
  show ?thesis
  proof (cases "en_EventType envelope = expected")
    case False
    then show ?thesis using assms skip Some by (simp add: deduplicated_def skipped_def)
  next
    case True
    obtain r1 s1 where c: "IsProcessed dedup (en_EventID envelope) s = (r1, s1)" by fastforce
    show ?thesis
    proof (cases "r1 = Inr True")
      case True
      with \<open>en_EventType envelope = expected\<close> show ?thesis
        using assms skip check [OF c] c Some by (simp add: deduplicated_def skipped_def)
    next
      case False
      with True show ?thesis
        using assms failed handled [OF Some True] check [OF c] c Some
        by (cases r1) (auto simp: deduplicated_def)
    qed
  qed
qed

lemma mark_done_cases:
  assumes "mark_done dedup err eid s = (r, s')"
  obtains (finished) "r = Inr True" "rest s' = rest s" "eid \<in> marked s'"
  | (unmarked) m where "r = Inl (err (MarkFailed m))" "rest s' = rest s"
proof -
  obtain m s1 where m: "MarkProcessed dedup eid s = (m, s1)" by fastforce
  show ?thesis
    using assms m mark [OF m] that by (cases m) (auto simp: mark_done_def)
qed

end

text \<open>Everything but Redis.\<close>

definition no_redis :: "('db, 'm) node_world_scheme \<Rightarrow> 'db bus_world" where
  "no_redis w =
     \<lparr>tables = tables w, attempts = attempts w, others = others w, calls = calls w,
      sent = sent w, write_fault = write_fault w, writes = writes w\<rparr>"

definition processed_ids :: "string \<Rightarrow> ('db, 'm) node_world_scheme \<Rightarrow> string set" where
  "processed_ids key_prefix w = {eid. key_prefix @ eid \<in> redis_keys w}"

lemma no_redis_tick [simp]:
  "no_redis (redis_tick w) = no_redis w" "no_redis (redis_tick w\<lparr>redis_keys := ks\<rparr>) = no_redis w"
  by (simp_all add: no_redis_def redis_tick_def)

interpretation redis: event_deduplicator "redis_deduper key_prefix" "processed_ids key_prefix" no_redis
  for key_prefix :: string
proof
  fix w w' :: "('db, 'm) node_world_scheme" and eid :: string
  show "no_redis w' = no_redis w \<and> processed_ids key_prefix w' \<subseteq> processed_ids key_prefix w \<and>
      (r = Inr True \<longrightarrow> eid \<in> processed_ids key_prefix w) \<and> (\<forall>e. r = Inl e \<longrightarrow> (\<exists>m. e = CheckFailed m))"
    if "IsProcessed (redis_deduper key_prefix) eid w = (r, w')" for r
    using that by (auto simp: redis_deduper_def redis_IsProcessed_def redis_Exists_def Let_def
        processed_ids_def redis_tick_def no_redis_def split: fault.splits if_splits)
  show "no_redis w' = no_redis w \<and> processed_ids key_prefix w' \<subseteq> insert eid (processed_ids key_prefix w) \<and>
      (r = None \<longrightarrow> eid \<in> processed_ids key_prefix w') \<and> (\<forall>e. r = Some e \<longrightarrow> (\<exists>m. e = MarkFailed m))"
    if "MarkProcessed (redis_deduper key_prefix) eid w = (r, w')" for r
    using that by (auto simp: redis_deduper_def redis_MarkProcessed_def redis_Set_def Let_def
        processed_ids_def redis_tick_def no_redis_def split: fault.splits)
qed

lemma no_redis_simps:
  assumes "no_redis w' = no_redis w"
  shows "tables w' = tables w" "attempts w' = attempts w" "others w' = others w" "calls w' = calls w"
    "sent w' = sent w" "write_fault w' = write_fault w" "writes w' = writes w"
  using assms by (simp_all add: no_redis_def)

text \<open>A node on which nothing fails and nothing has been processed.\<close>

definition calm_node :: "'db \<Rightarrow> int \<Rightarrow> 'db node_world" where
  "calm_node db t = bus_world.extend (calm_bus db t)
     \<lparr>redis_keys = {}, redis_fault = (\<lambda>_. Served), redis_expired = (\<lambda>_. {}), redis_calls = 0\<rparr>"

lemma calm_node_simps [simp]:
  "tables (calm_node db t) = db" "alone (calm_node db t)" "the_attempt (calm_node db t) = calm t"
  "sent (calm_node db t) = []" "broker_up (calm_node db t)" "all_served (calm_node db t)"
  "redis_up (calm_node db t)" "processed_ids p (calm_node db t) = {}"
  by (simp_all add: calm_node_def bus_world.defs calm_bus_def world.defs calm_world_def alone_def
      the_attempt_def broker_up_def all_served_def redis_up_def processed_ids_def)

lemma no_redis_world:
  assumes "no_redis w' = no_redis w"
  shows "alone w' \<longleftrightarrow> alone w" "all_served w' \<longleftrightarrow> all_served w" "broker_up w' \<longleftrightarrow> broker_up w"
  using no_redis_simps [OF assms] by (simp_all add: alone_def all_served_def broker_up_def)

lemma redis_fresh_check:
  "redis_up w \<Longrightarrow> eid \<notin> processed_ids p w \<Longrightarrow> IsProcessed (redis_deduper p) eid w = (Inr False, redis_tick w)"
  by (simp add: redis_deduper_def redis_IsProcessed_def redis_Exists_def Let_def redis_up_def
      processed_ids_def redis_tick_def)

lemma redis_up_mark:
  "redis_up w \<Longrightarrow> fst (MarkProcessed (redis_deduper p) eid w) = None"
  by (simp add: redis_deduper_def redis_MarkProcessed_def redis_Set_def Let_def redis_up_def)

lemma redis_up_update [simp]:
  "redis_up (w\<lparr>tables := db, calls := n\<rparr>) \<longleftrightarrow> redis_up w" "redis_up (redis_tick w) \<longleftrightarrow> redis_up w"
  by (simp_all add: redis_up_def redis_tick_def)

section \<open>The loop of a consumer\<close>

text \<open>
  What \<open>FetchMessage\<close> returns, with the clock of the handling; the loop ends when the context
  is done, when fetching, handling or committing fails, or with the list of fetches. It
  counts the messages whose commit was acknowledged.
\<close>

datatype fetch = Fetched time kafka_message | FetchFailed string | ContextDone

datatype 'e run_error = FetchError string | HandleError 'e | CommitError string

fun consume ::
    "(time \<Rightarrow> kafka_message \<Rightarrow> 's \<Rightarrow> ('e + bool) \<times> 's) \<Rightarrow> (nat \<Rightarrow> string option) \<Rightarrow> fetch list \<Rightarrow> nat \<Rightarrow> 's \<Rightarrow>
     ('e run_error option \<times> nat) \<times> 's" where
  "consume h commits [] k s = ((None, k), s)"
| "consume h commits (ContextDone # fs) k s = ((None, k), s)"
| "consume h commits (FetchFailed e # fs) k s = ((Some (FetchError e), k), s)"
| "consume h commits (Fetched now msg # fs) k s =
     (case h now msg s of
        (Inl e, s1) \<Rightarrow> ((Some (HandleError e), k), s1)
      | (Inr commit, s1) \<Rightarrow>
          if commit
          then (case commits k of
                  Some e \<Rightarrow> ((Some (CommitError e), k), s1)
                | None \<Rightarrow> consume h commits fs (Suc k) s1)
          else consume h commits fs k s1)"

text \<open>
  A consumer that is restarted whenever it stops: the group delivers the messages of the
  partition from the committed offset on.
\<close>

fun restarted ::
    "(time \<Rightarrow> kafka_message \<Rightarrow> 's \<Rightarrow> ('e + bool) \<times> 's) \<Rightarrow> (nat \<Rightarrow> string option) \<Rightarrow> fetch list \<Rightarrow> nat \<Rightarrow> nat \<Rightarrow> 's \<Rightarrow>
     nat \<times> 's" where
  "restarted h commits log 0 k s = (k, s)"
| "restarted h commits log (Suc n) k s =
     (case consume h commits (drop k log) k s of ((r, k'), s') \<Rightarrow> restarted h commits log n k' s')"

section \<open>What the loop of a consumer keeps\<close>

lemma consume_keeps_fetched:
  assumes "consume h commits fs k s = (x, s')" "P s"
    and "\<And>now msg s r s'. P s \<Longrightarrow> Fetched now msg \<in> set fs \<Longrightarrow> h now msg s = (r, s') \<Longrightarrow> P s'"
  shows "P s'"
  using assms
proof (induction fs arbitrary: k s)
  case (Cons f fs)
  show ?case
  proof (cases f)
    case (Fetched now msg)
    obtain r1 s1 where h: "h now msg s = (r1, s1)" by fastforce
    have P1: "P s1" by (rule Cons.prems(3) [OF Cons.prems(2) _ h]) (simp add: Fetched)
    have IH: "P s'" if "consume h commits fs k' s1 = (x, s')" for k'
      by (rule Cons.IH [OF that P1]) (meson Cons.prems(3) list.set_intros(2))
    show ?thesis
      using Cons.prems(1) Fetched h P1 IH by (auto split: sum.splits if_splits option.splits)
  qed (use Cons.prems(1,2) in auto)
qed simp

lemma consume_keeps:
  assumes "consume h commits fs k s = (x, s')" "P s"
    and "\<And>now msg s r s'. P s \<Longrightarrow> h now msg s = (r, s') \<Longrightarrow> P s'"
  shows "P s'"
  by (rule consume_keeps_fetched [where P = P, OF assms(1,2)]) (rule assms(3))

section \<open>When Redis is up\<close>

lemma deduplicated_fresh:
  assumes "redis_up w" "unmarshal dec_Envelope zero_Envelope (kmValue msg) = Some envelope"
    and "en_EventType envelope = ty" "en_EventID envelope \<notin> processed_ids p w"
  shows "deduplicated (redis_deduper p) err ty body msg w = body envelope (redis_tick w)"
  using assms redis_fresh_check [OF assms(1,4)] by (simp add: deduplicated_def)

lemma mark_done_up:
  assumes "redis_up w"
  shows "\<exists>w'. mark_done (redis_deduper p) err eid w = (Inr True, w') \<and> no_redis w' = no_redis w \<and>
    redis_up w' \<and> processed_ids p w' = insert eid (processed_ids p w)"
  using assms by (auto simp: mark_done_def redis_deduper_def redis_MarkProcessed_def redis_Set_def Let_def
      redis_up_def redis_tick_def no_redis_def processed_ids_def)

lemma processed_ids_tick: "redis_up w \<Longrightarrow> processed_ids p (redis_tick w) = processed_ids p w"
  by (simp add: processed_ids_def redis_tick_def redis_up_def)

lemma sent_update_simps [simp]:
  "broker_up (w\<lparr>sent := m, writes := n\<rparr>) = broker_up w" "redis_up (v\<lparr>sent := m, writes := n\<rparr>) = redis_up v"
  "alone (w\<lparr>sent := m, writes := n\<rparr>) = alone w" "all_served (w\<lparr>sent := m, writes := n\<rparr>) = all_served w"
  "processed_ids p (v\<lparr>sent := m, writes := n\<rparr>) = processed_ids p v"
  by (simp_all add: broker_up_def redis_up_def alone_def all_served_def processed_ids_def)

text \<open>One call at a time.\<close>

lemma check_served:
  "redis_fault w (redis_calls w) = Served \<Longrightarrow> eid \<notin> processed_ids p w \<Longrightarrow>
     IsProcessed (redis_deduper p) eid w = (Inr False, redis_tick w)"
  by (simp add: redis_deduper_def redis_IsProcessed_def redis_Exists_def Let_def processed_ids_def redis_tick_def)

lemma mark_served:
  "redis_fault w (redis_calls w) = Served \<Longrightarrow>
     \<exists>w'. mark_done (redis_deduper p) err eid w = (Inr True, w') \<and> no_redis w' = no_redis w"
  by (simp add: mark_done_def redis_deduper_def redis_MarkProcessed_def redis_Set_def Let_def)

lemma mark_refused:
  "redis_fault w (redis_calls w) = Failed m \<Longrightarrow>
     mark_done (redis_deduper p) err eid w = (Inl (err (MarkFailed m)), redis_tick w)"
  by (simp add: mark_done_def redis_deduper_def redis_MarkProcessed_def redis_Set_def Let_def)

lemma redis_tick_simps [simp]:
  "redis_calls (redis_tick w) = Suc (redis_calls w)" "redis_fault (redis_tick w) = redis_fault w"
  by (simp_all add: redis_tick_def)

lemma processed_ids_tick_le: "eid \<notin> processed_ids p w \<Longrightarrow> eid \<notin> processed_ids p (redis_tick w)"
  by (simp add: processed_ids_def redis_tick_def)

lemma fault_update_simps [simp]:
  "no_redis (w\<lparr>redis_fault := f\<rparr>) = no_redis w" "processed_ids p (w\<lparr>redis_fault := f\<rparr>) = processed_ids p w"
  by (simp_all add: no_redis_def processed_ids_def)

lemma calm_node_calls [simp]: "redis_calls (calm_node db t) = 0"
  by (simp add: calm_node_def bus_world.defs)

lemma tables_only_node:
  fixes w w' :: "('db, 'm) node_world_scheme"
  assumes "tables_only w w'"
  shows "sent w' = sent w" "broker_up w' = broker_up w" "redis_up w' = redis_up w"
    "processed_ids p w' = processed_ids p w" "redis_fault w' = redis_fault w" "redis_expired w' = redis_expired w"
    "redis_calls w' = redis_calls w" "alone w' = alone w" "others w' = others w" "write_fault w' = write_fault w"
    "writes w' = writes w"
  using assms by (auto simp: tables_only_def broker_up_def processed_ids_def alone_def)

end
