(* ===== verification/Order_Consumers.thy ===== *)
theory Order_Consumers
  imports Order_Lifecycle Consumer
begin

text \<open>
  The order service's consumers (\<open>internal/order/consumers\<close>): one \<open>TopicConsumer\<close> for each of
  the five status events, differing in the event type and in the handler that applies the
  event to the service.
\<close>

section \<open>The consumers\<close>

datatype order_consumer_error =
    OrderDedup dedup_error
  | OrderDecode string
  | OrderFailure order_error

definition order_deduper :: "('db, 'm) node_world_scheme event_deduper" where
  "order_deduper = redis_deduper ''order:event:processed:''"

record 's topic_consumer =
  deduper :: "'s event_deduper"
  expectedEventType :: string
  handleEvent :: "time \<Rightarrow> ev_Envelope \<Rightarrow> 's \<Rightarrow> (order_consumer_error + order) \<times> 's"

definition tc_handleMessage ::
    "'s topic_consumer \<Rightarrow> time \<Rightarrow> kafka_message \<Rightarrow> 's \<Rightarrow> (order_consumer_error + bool) \<times> 's" where
  "tc_handleMessage c now =
     deduplicated (deduper c) OrderDedup (expectedEventType c)
       (\<lambda>envelope s.
          case handleEvent c now envelope s of
            (Inl e, s1) \<Rightarrow> (Inl e, s1)
          | (Inr _, s1) \<Rightarrow> mark_done (deduper c) OrderDedup (en_EventID envelope) s1)"

definition tc_Run ::
    "'s topic_consumer \<Rightarrow> (nat \<Rightarrow> string option) \<Rightarrow> fetch list \<Rightarrow> nat \<Rightarrow> 's \<Rightarrow>
     (order_consumer_error run_error option \<times> nat) \<times> 's" where
  "tc_Run c = consume (tc_handleMessage c)"

text \<open>A handler decodes the payload and calls the service.\<close>

definition decoded ::
    "(json \<Rightarrow> 'e \<Rightarrow> 'e \<times> bool) \<Rightarrow> 'e \<Rightarrow> string \<Rightarrow> ('e \<Rightarrow> 's \<Rightarrow> (order_error + order) \<times> 's) \<Rightarrow>
     ev_Envelope \<Rightarrow> 's \<Rightarrow> (order_consumer_error + order) \<times> 's" where
  "decoded dec zero what apply_event envelope s =
     (case unmarshal dec zero (en_Payload envelope) of
        None \<Rightarrow> (Inl (OrderDecode what), s)
      | Some event \<Rightarrow> (case apply_event event s of (r, s1) \<Rightarrow> (map_sum OrderFailure id r, s1)))"

definition NewInventoryReservedConsumer ::
    "'s order_repo \<Rightarrow> 's event_deduper \<Rightarrow> 's topic_consumer" where
  "NewInventoryReservedConsumer repo dedup =
     \<lparr>deduper = dedup, expectedEventType = InventoryReservedEventType,
      handleEvent = (\<lambda>now. decoded dec_InventoryReserved zero_InventoryReserved ''decode inventory.reserved payload''
        (\<lambda>event. svc_MarkInventoryReserved repo now (ir_OrderID event)))\<rparr>"

definition NewInventoryReservationFailedConsumer ::
    "'s order_repo \<Rightarrow> 's event_deduper \<Rightarrow> 's topic_consumer" where
  "NewInventoryReservationFailedConsumer repo dedup =
     \<lparr>deduper = dedup, expectedEventType = InventoryReservationFailedEventType,
      handleEvent = (\<lambda>now. decoded dec_InventoryReservationFailed zero_InventoryReservationFailed
        ''decode inventory.reservation_failed payload''
        (\<lambda>event. svc_MarkInventoryReservationFailed repo now (rf_OrderID event) (rf_Reason event)))\<rparr>"

definition NewPaymentCapturedConsumer ::
    "'s order_repo \<Rightarrow> 's event_deduper \<Rightarrow> 's topic_consumer" where
  "NewPaymentCapturedConsumer repo dedup =
     \<lparr>deduper = dedup, expectedEventType = PaymentCapturedEventType,
      handleEvent = (\<lambda>now. decoded dec_PaymentCaptured zero_PaymentCaptured ''decode payment.captured payload''
        (\<lambda>event. svc_MarkPaymentCaptured repo now (pp_OrderID event)))\<rparr>"

definition NewPaymentFailedConsumer ::
    "'s order_repo \<Rightarrow> 's event_deduper \<Rightarrow> 's topic_consumer" where
  "NewPaymentFailedConsumer repo dedup =
     \<lparr>deduper = dedup, expectedEventType = PaymentFailedEventType,
      handleEvent = (\<lambda>now. decoded dec_PaymentFailed zero_PaymentFailed ''decode payment.failed payload''
        (\<lambda>event. svc_MarkPaymentFailed repo now (px_OrderID event) (px_FailureReason event)))\<rparr>"

definition NewPaymentCreationFailedConsumer ::
    "'s order_repo \<Rightarrow> 's event_deduper \<Rightarrow> 's topic_consumer" where
  "NewPaymentCreationFailedConsumer repo dedup =
     \<lparr>deduper = dedup, expectedEventType = PaymentCreationFailedEventType,
      handleEvent = (\<lambda>now. decoded dec_PaymentCreationFailed zero_PaymentCreationFailed
        ''decode payment.creation_failed payload''
        (\<lambda>event. svc_MarkPaymentCreationFailed repo now (pf_OrderID event) (pf_FailureReason event)))\<rparr>"

section \<open>Contracts\<close>

lemma tc_handleMessage_cases:
  fixes w :: "('db, 'm) node_world_scheme"
  assumes "tc_handleMessage c now msg w = (r, w')" and c: "deduper c = order_deduper"
  obtains (skip) "r = Inr True" "no_redis w' = no_redis w"
      "skipped (processed_ids ''order:event:processed:'') (expectedEventType c) msg w"
  | (failed) m where "r = Inl (OrderDedup (CheckFailed m))" "no_redis w' = no_redis w"
  | (rejected) envelope e w1 where "unmarshal dec_Envelope zero_Envelope (kmValue msg) = Some envelope"
      "en_EventType envelope = expectedEventType c" "no_redis w1 = no_redis w"
      "handleEvent c now envelope w1 = (Inl e, w')" "r = Inl e"
  | (applied) envelope x w1 w2 where "unmarshal dec_Envelope zero_Envelope (kmValue msg) = Some envelope"
      "en_EventType envelope = expectedEventType c" "no_redis w1 = no_redis w"
      "handleEvent c now envelope w1 = (Inr x, w2)" "no_redis w' = no_redis w2"
      "r = Inr True \<and> en_EventID envelope \<in> processed_ids ''order:event:processed:'' w' \<or>
       (\<exists>m. r = Inl (OrderDedup (MarkFailed m)))"
proof -
  have h: "deduplicated order_deduper OrderDedup (expectedEventType c)
      (\<lambda>envelope s. case handleEvent c now envelope s of (Inl e, s1) \<Rightarrow> (Inl e, s1)
         | (Inr _, s1) \<Rightarrow> mark_done order_deduper OrderDedup (en_EventID envelope) s1) msg w = (r, w')"
    using assms(1) unfolding tc_handleMessage_def c .
  from h [unfolded order_deduper_def] show ?thesis
  proof (cases rule: redis.deduplicated_cases)
    case skip
    then show ?thesis using that(1) by simp
  next
    case (failed m)
    then show ?thesis using that(2) by simp
  next
    case (handled envelope w1)
    obtain r2 w2 where e: "handleEvent c now envelope w1 = (r2, w2)" by fastforce
    show ?thesis
    proof (cases r2)
      case (Inl e')
      then show ?thesis using handled e that(3) by simp
    next
      case (Inr x)
      then have "mark_done (redis_deduper ''order:event:processed:'') OrderDedup (en_EventID envelope) w2 = (r, w')"
        using handled(5) e by simp
      then show ?thesis
        by (cases rule: redis.mark_done_cases) (use handled e Inr that(4) in auto)
    qed
  qed
qed

lemma pg_quiet_no_redis: "no_redis w' = no_redis w \<Longrightarrow> pg_quiet w' \<longleftrightarrow> pg_quiet w"
  using no_redis_simps [of w' w] by (auto simp: pg_quiet_def alone_def)

text \<open>The consumers of the service, each with the transition its events make.\<close>

inductive status_consumer ::
    "(order_db, 'm) node_world_scheme topic_consumer \<Rightarrow> repository_config \<Rightarrow> (string \<Rightarrow> 'k::linorder) \<Rightarrow> bool" where
  "status_consumer (NewInventoryReservedConsumer (pg_order_repo cfg coll) order_deduper) cfg coll"
| "status_consumer (NewInventoryReservationFailedConsumer (pg_order_repo cfg coll) order_deduper) cfg coll"
| "status_consumer (NewPaymentCapturedConsumer (pg_order_repo cfg coll) order_deduper) cfg coll"
| "status_consumer (NewPaymentFailedConsumer (pg_order_repo cfg coll) order_deduper) cfg coll"
| "status_consumer (NewPaymentCreationFailedConsumer (pg_order_repo cfg coll) order_deduper) cfg coll"

text \<open>Applying an event is a transition that settles: made twice, it is made once.\<close>

definition settling ::
    "(order_db, 'm) node_world_scheme topic_consumer \<Rightarrow> repository_config \<Rightarrow> (string \<Rightarrow> 'k::linorder) \<Rightarrow> bool" where
  "settling c cfg coll \<longleftrightarrow> deduper c = order_deduper \<and>
     (\<forall>envelope. (\<exists>t. \<forall>now w. handleEvent c now envelope w = (Inl (OrderDecode t), w)) \<or>
       (\<exists>oid step. (\<forall>now w. handleEvent c now envelope w =
            (case transitionOrder (pg_order_repo cfg coll) oid (step now) w of (r, w1) \<Rightarrow> (map_sum OrderFailure id r, w1))) \<and>
          (\<forall>now. lawful_step (step now)) \<and>
          (\<forall>t1 t2 o1 o2 b x. step t1 o1 = Inr (o2, b) \<longrightarrow> order_reaches (oStatus o2) (oStatus x) \<longrightarrow> step t2 x = Inr (x, False))))"

lemma settlingI:
  fixes dec :: "json \<Rightarrow> 'e \<Rightarrow> 'e \<times> bool"
  assumes "deduper c = order_deduper"
    and "\<And>now. handleEvent c now = decoded dec zero what (\<lambda>ev. transitionOrder (pg_order_repo cfg coll) (oid ev) (step ev now))"
    and "\<And>ev now. lawful_step (step ev now)"
    and "\<And>ev t1 t2 o1 o2 b x. step ev t1 o1 = Inr (o2, b) \<Longrightarrow> order_reaches (oStatus o2) (oStatus x) \<Longrightarrow> step ev t2 x = Inr (x, False)"
  shows "settling c cfg coll"
  unfolding settling_def
proof (intro conjI allI assms(1))
  fix envelope
  show "(\<exists>t. \<forall>now w. handleEvent c now envelope w = (Inl (OrderDecode t), w)) \<or>
       (\<exists>oid step. (\<forall>now w. handleEvent c now envelope w =
            (case transitionOrder (pg_order_repo cfg coll) oid (step now) w of (r, w1) \<Rightarrow> (map_sum OrderFailure id r, w1))) \<and>
          (\<forall>now. lawful_step (step now)) \<and>
          (\<forall>t1 t2 o1 o2 b x. step t1 o1 = Inr (o2, b) \<longrightarrow> order_reaches (oStatus o2) (oStatus x) \<longrightarrow> step t2 x = Inr (x, False)))"
  proof (cases "unmarshal dec zero (en_Payload envelope)")
    case None
    then show ?thesis by (simp add: assms(2) decoded_def)
  next
    case (Some ev)
    show ?thesis
      by (rule disjI2, rule exI [of _ "oid ev"], rule exI [of _ "step ev"])
        (use Some assms(3,4) in \<open>auto simp: assms(2) decoded_def\<close>)
  qed
qed

lemma status_consumer_settling: "status_consumer c cfg coll \<Longrightarrow> settling c cfg coll"
proof (induction rule: status_consumer.induct)
  case (1 cfg coll)
  show ?case
    by (rule settlingI [where step = "\<lambda>_. reserved_step"])
      (auto simp: NewInventoryReservedConsumer_def svc_MarkInventoryReserved_def [abs_def] dest: steps_settle)
next
  case (2 cfg coll)
  show ?case
    by (rule settlingI [where step = "\<lambda>ev now. failed_step now
          (if TrimSpace (rf_Reason ev) = [] then ''inventory reservation failed'' else rf_Reason ev)"])
      (auto simp: NewInventoryReservationFailedConsumer_def svc_MarkInventoryReservationFailed_def [abs_def] Let_def
        dest: steps_settle)
next
  case (3 cfg coll)
  show ?case
    by (rule settlingI [where step = "\<lambda>_. captured_step"])
      (auto simp: NewPaymentCapturedConsumer_def svc_MarkPaymentCaptured_def [abs_def] dest: steps_settle)
next
  case (4 cfg coll)
  show ?case
    by (rule settlingI [where step = "\<lambda>ev now. failed_step now
          (if TrimSpace (px_FailureReason ev) = [] then ''payment failed'' else px_FailureReason ev)"])
      (auto simp: NewPaymentFailedConsumer_def svc_MarkPaymentFailed_def [abs_def] Let_def dest: steps_settle)
next
  case (5 cfg coll)
  show ?case
    by (rule settlingI [where step = "\<lambda>ev now. failed_step now
          (if TrimSpace (pf_FailureReason ev) = [] then ''payment creation failed'' else pf_FailureReason ev)"])
      (auto simp: NewPaymentCreationFailedConsumer_def svc_MarkPaymentCreationFailed_def [abs_def] Let_def dest: steps_settle)
qed

section \<open>What the consumers guarantee\<close>

lemma settlingE:
  assumes "settling c cfg coll"
  obtains (undecodable) t where "\<And>now w. handleEvent c now envelope w = (Inl (OrderDecode t), w)"
  | (transition) oid step where "\<And>now w. handleEvent c now envelope w =
        (case transitionOrder (pg_order_repo cfg coll) oid (step now) w of (r, w1) \<Rightarrow> (map_sum OrderFailure id r, w1))"
      "\<And>now. lawful_step (step now)"
      "\<And>t1 t2 o1 o2 b x. step t1 o1 = Inr (o2, b) \<Longrightarrow> order_reaches (oStatus o2) (oStatus x) \<Longrightarrow> step t2 x = Inr (x, False)"
  using assms unfolding settling_def by (elim conjE allE [of _ envelope] disjE exE) blast+

lemma settling_error:
  assumes "settling c cfg coll" "handleEvent c now envelope w = (Inl e, w')"
  shows "e \<noteq> OrderDedup d"
  using assms(1)
proof (cases rule: settlingE [where envelope = envelope])
  case (undecodable t)
  then show ?thesis using assms(2) by auto
next
  case (transition oid step)
  then show ?thesis using assms(2) by (auto split: prod.splits sum.splits)
qed

text \<open>
  Once applied, an event is not applied again, whatever the service did to its orders and Redis to
  the marks since.
\<close>

lemma settling_applied:
  assumes c: "settling c cfg coll" and w: "pg_quiet w"
    and h: "handleEvent c now envelope w = (Inr x, wb)" and same: "no_redis w1 = no_redis wb"
      "no_redis wm = no_redis (run_calls (pg_order_repo cfg coll) cs w1)"
    and h2: "handleEvent c now' envelope wm = (r, w3)"
  shows "tables w3 = tables wm"
proof -
  from c obtain oid step where st: "\<And>now w. handleEvent c now envelope w =
        (case transitionOrder (pg_order_repo cfg coll) oid (step now) w of (r, w1) \<Rightarrow> (map_sum OrderFailure id r, w1))"
    "\<And>now. lawful_step (step now)"
    "\<And>t1 t2 o1 o2 b x. step t1 o1 = Inr (o2, b) \<Longrightarrow> order_reaches (oStatus o2) (oStatus x) \<Longrightarrow> step t2 x = Inr (x, False)"
    by (cases rule: settlingE [where envelope = envelope]) (use h in auto)
  have "transitionOrder (pg_order_repo cfg coll) oid (step now) w = (Inr x, wb)"
    using h by (auto simp: st(1) split: prod.splits sum.splits)
  then obtain o1 o2 b where x: "pg_quiet wb" "stored_orders (tables wb) oid = Some x"
    "step now o1 = Inr (o2, b)" "oStatus x = oStatus o2"
    using w st(2) by (metis transition_result)
  have w1: "pg_quiet w1" "stored_orders (tables w1) oid = Some x"
    using x(1,2) pg_quiet_no_redis [OF same(1)] no_redis_simps(1) [OF same(1)] by simp_all
  obtain z where z: "stored_orders (tables wm) oid = Some z" "order_reaches (oStatus x) (oStatus z)"
    using quiet.run_calls_reach [OF w1(1), of oid x cfg coll cs] w1(2) no_redis_simps(1) [OF same(2)] by (auto simp: pg_store_def)
  have wm: "pg_quiet wm" using quiet.run_calls_inv [OF w1(1)] pg_quiet_no_redis [OF same(2)] by simp
  obtain r' where t: "transitionOrder (pg_order_repo cfg coll) oid (step now') wm = (r', w3)"
    using h2 by (auto simp: st(1) split: prod.splits)
  have "step now' z = Inr (z, False)" using st(3) [OF x(3)] z(2) x(4) by simp
  from transition_settled [OF wm z(1) this t] show ?thesis by simp
qed

text \<open>
  C19: A status event takes effect once. Suppose a message that was not marked as processed
  was handled up to its mark: it was acknowledged, or only the mark failed. When Kafka
  delivers it again, at once or after any other calls of the service, and under any faults of the
  database and of Redis, whatever marks Redis holds by then (this one may have expired), handling
  it changes no table of the order service. No other client writes to the tables meanwhile.
\<close>
theorem redelivered_event_changes_nothing:
  assumes "status_consumer c cfg coll" and "pg_quiet w"
    and "tc_handleMessage c now msg w = (r, w1)" and "r = Inr True \<or> r = Inl (OrderDedup (MarkFailed e))"
    and "\<not> skipped (processed_ids ''order:event:processed:'') (expectedEventType c) msg w"
    and "no_redis wm = no_redis (run_calls (pg_order_repo cfg coll) cs w1)"
    and "tc_handleMessage c now' msg wm = (r', w2)"
  shows "tables w2 = tables wm"
proof -
  have S: "settling c cfg coll" using assms(1) by (rule status_consumer_settling)
  then have d: "deduper c = order_deduper" by (simp add: settling_def)
  from assms(3) d obtain envelope x wa wb where
    first: "unmarshal dec_Envelope zero_Envelope (kmValue msg) = Some envelope"
      "no_redis wa = no_redis w" "handleEvent c now envelope wa = (Inr x, wb)" "no_redis w1 = no_redis wb"
  proof (cases rule: tc_handleMessage_cases)
    case skip
    then show ?thesis using assms(5) by simp
  next
    case (failed m)
    then show ?thesis using assms(4) by simp
  next
    case (rejected envelope e' wc)
    then show ?thesis using assms(4) settling_error [OF S] by blast
  qed auto
  have wa: "pg_quiet wa" using assms(2) pg_quiet_no_redis [OF first(2)] by simp
  note again = settling_applied [OF S wa first(3,4)]
  from assms(7) d show ?thesis
  proof (cases rule: tc_handleMessage_cases)
    case (rejected envelope' e' wc)
    then show ?thesis
      using again [of wc cs] first(1) assms(6) no_redis_simps(1) [OF rejected(3)] by simp
  next
    case (applied envelope' x' wc wd)
    then show ?thesis
      using again [of wc cs] first(1) assms(6) no_redis_simps(1) [OF applied(3)] no_redis_simps(1) [OF applied(5)] by simp
  qed (use no_redis_simps(1) in auto)
qed

text \<open>A message of the payment service.\<close>

definition captured_message :: "string \<Rightarrow> string \<Rightarrow> kafka_message" where
  "captured_message eventID orderID =
     \<lparr>kmTopic = ''payments.captured'', kmKey = orderID,
      kmValue = Some (enc_Envelope \<lparr>en_EventID = eventID, en_EventType = PaymentCapturedEventType,
        en_OccurredAt = RFC3339 0 0,
        en_Payload = Some (enc_PaymentCaptured
          \<lparr>pp_OrderID = orderID, pp_CustomerID = ''c1'', pp_PaymentID = ''pay-1'', pp_Status = ''PAYMENT_STATUS_CAPTURED''\<rparr>)\<rparr>)\<rparr>"

lemma captured_message_decodes:
  obtains envelope where "unmarshal dec_Envelope zero_Envelope (kmValue (captured_message eventID orderID)) = Some envelope"
    "en_EventType envelope = PaymentCapturedEventType" "en_EventID envelope = eventID"
    "unmarshal dec_PaymentCaptured zero_PaymentCaptured (en_Payload envelope) =
       Some \<lparr>pp_OrderID = orderID, pp_CustomerID = ''c1'', pp_PaymentID = ''pay-1'', pp_Status = ''PAYMENT_STATUS_CAPTURED''\<rparr>"
  by (simp add: captured_message_def unmarshal_def)

abbreviation sample_consumer :: "order_db node_world topic_consumer" where
  "sample_consumer \<equiv> NewPaymentCapturedConsumer sample_repo order_deduper"

lemma sample_quiet_node: "pg_quiet (calm_node sample_db t)"
  by (simp add: pg_quiet_def)

lemma transition_frame:
  assumes "transitionOrder (pg_order_repo cfg coll) oid step w = (r, w')"
  shows "\<exists>db n. w' = w\<lparr>tables := db, calls := n\<rparr>"
proof -
  obtain r1 w1 where g: "rGetOrderByID (pg_order_repo cfg coll) oid w = (r1, w1)" by fastforce
  then have w1: "w1 = w\<lparr>tables := found w, calls := Suc (calls w)\<rparr>" by (simp add: pg_order_repo_def with_read_eq)
  have "\<exists>db n. w' = w1\<lparr>tables := db, calls := n\<rparr> \<or> w' = w1"
    using assms g by (auto simp: transitionOrder_def finish_transition_def pg_order_repo_def with_attempt_eq
        split: sum.splits if_splits) blast+
  then show ?thesis unfolding w1 by auto
qed

lemma sample_captured_message:
  obtains w1 where "tc_handleMessage sample_consumer 7000 (captured_message ''e1'' ''o1'') (calm_node sample_db 9000) = (Inr True, w1)"
    "\<exists>x. stored_orders (tables w1) ''o1'' = Some x \<and> oStatus x = ORDER_STATUS_CONFIRMED"
proof -
  let ?w = "redis_tick (calm_node sample_db 9000 :: order_db node_world)"
  have same: "no_redis ?w = no_redis (calm_node sample_db 9000 :: order_db node_world)" by simp
  obtain envelope where d: "unmarshal dec_Envelope zero_Envelope (kmValue (captured_message ''e1'' ''o1'')) = Some envelope"
    "en_EventType envelope = PaymentCapturedEventType" "en_EventID envelope = ''e1''"
    "unmarshal dec_PaymentCaptured zero_PaymentCaptured (en_Payload envelope) =
       Some \<lparr>pp_OrderID = ''o1'', pp_CustomerID = ''c1'', pp_PaymentID = ''pay-1'', pp_Status = ''PAYMENT_STATUS_CAPTURED''\<rparr>"
    by (rule captured_message_decodes)
  have "pg_quiet ?w" "all_served ?w" "stored_orders (tables ?w) ''o1'' = Some (persisted sample_order)"
    using sample_quiet_node [of 9000] pg_quiet_no_redis [OF same] no_redis_world(2) [OF same]
      no_redis_simps(1) [OF same] by simp_all
  from captured_served [OF this, of 7000 sample_config sample_coll] sample_created_at
  obtain x w2 where x: "svc_MarkPaymentCaptured sample_repo 7000 ''o1'' ?w = (Inr x, w2)"
    "oStatus x = ORDER_STATUS_CONFIRMED" "stored_orders (tables w2) ''o1'' = Some x"
    by (auto simp: zero_time_def)
  have "redis_up w2"
    using transition_frame [OF x(1) [unfolded svc_MarkPaymentCaptured_def]] by auto
  then obtain w1 where "MarkProcessed (redis_deduper ''order:event:processed:'') ''e1'' w2 = (None, w1)"
    using redis_up_mark [of w2] by (metis prod.collapse)
  then have m: "mark_done order_deduper OrderDedup ''e1'' w2 = (Inr True, w1)"
    by (simp add: mark_done_def order_deduper_def)
  have run: "tc_handleMessage sample_consumer 7000 (captured_message ''e1'' ''o1'') (calm_node sample_db 9000) = (Inr True, w1)"
    using d x(1) m redis_fresh_check [of "calm_node sample_db 9000" "''e1''" "''order:event:processed:''"]
    by (simp add: tc_handleMessage_def deduplicated_def NewPaymentCapturedConsumer_def decoded_def order_deduper_def)
  from m [unfolded order_deduper_def] show ?thesis
    by (cases rule: redis.mark_done_cases) (use run x that no_redis_simps(1) [of w1 w2] in auto)
qed

theorem redelivered_event_changes_nothing_witness:
  "\<exists>r w1 r' w2. tc_handleMessage sample_consumer 7000 (captured_message ''e1'' ''o1'') (calm_node sample_db 9000) = (r, w1) \<and>
     tc_handleMessage sample_consumer 7500 (captured_message ''e1'' ''o1'')
       (run_calls sample_repo [InventoryReservedCall 7100 ''o1''] w1\<lparr>redis_keys := {}\<rparr>) = (r', w2) \<and>
     tables w2 = tables (run_calls sample_repo [InventoryReservedCall 7100 ''o1''] w1) \<and> tables w1 \<noteq> sample_db"
proof -
  let ?cs = "[InventoryReservedCall 7100 ''o1'']"
  obtain w1 where h: "tc_handleMessage sample_consumer 7000 (captured_message ''e1'' ''o1'') (calm_node sample_db 9000) = (Inr True, w1)"
    "\<exists>x. stored_orders (tables w1) ''o1'' = Some x \<and> oStatus x = ORDER_STATUS_CONFIRMED"
    by (rule sample_captured_message)
  let ?wm = "run_calls sample_repo ?cs w1\<lparr>redis_keys := {}\<rparr>"
  obtain r' w2 where h2: "tc_handleMessage sample_consumer 7500 (captured_message ''e1'' ''o1'') ?wm = (r', w2)" by fastforce
  have same: "no_redis ?wm = no_redis (run_calls sample_repo ?cs w1)" by (simp add: no_redis_def)
  obtain envelope where "unmarshal dec_Envelope zero_Envelope (kmValue (captured_message ''e1'' ''o1'')) = Some envelope"
    "en_EventType envelope = PaymentCapturedEventType" by (rule captured_message_decodes)
  then have "\<not> skipped (processed_ids ''order:event:processed:'') (expectedEventType sample_consumer)
      (captured_message ''e1'' ''o1'') (calm_node sample_db 9000 :: order_db node_world)"
    by (simp add: skipped_def NewPaymentCapturedConsumer_def)
  from redelivered_event_changes_nothing [OF status_consumer.intros(3) sample_quiet_node h(1) disjI1 [OF refl] this same h2]
  have "tables w2 = tables (run_calls sample_repo ?cs w1)" by simp
  moreover have "tables w1 \<noteq> sample_db" using h(2) by auto
  ultimately show ?thesis using h(1) h2 by blast
qed

text \<open>
  C20: A committed \<open>payment.captured\<close> was applied: when the consumer commits a message it did
  not skip, the payload named an order, and that order is now stored in a status that no
  longer waits for a payment, and the event is marked as processed.
\<close>
theorem committed_capture_applied:
  assumes "pg_quiet w" and "c = NewPaymentCapturedConsumer (pg_order_repo cfg coll) order_deduper"
    and "tc_handleMessage c now msg w = (Inr b, w')"
    and "\<not> skipped (processed_ids ''order:event:processed:'') PaymentCapturedEventType msg w"
  shows "b \<and> (\<exists>envelope event x. unmarshal dec_Envelope zero_Envelope (kmValue msg) = Some envelope \<and>
    unmarshal dec_PaymentCaptured zero_PaymentCaptured (en_Payload envelope) = Some event \<and>
    stored_orders (tables w') (pp_OrderID event) = Some x \<and>
    oStatus x \<notin> {ORDER_STATUS_PENDING, ORDER_STATUS_AWAITING_PAYMENT} \<and>
    en_EventID envelope \<in> processed_ids ''order:event:processed:'' w')"
proof -
  have d: "deduper c = order_deduper" "expectedEventType c = PaymentCapturedEventType"
    by (simp_all add: assms(2) NewPaymentCapturedConsumer_def)
  from assms(3) d(1) show ?thesis
  proof (cases rule: tc_handleMessage_cases)
    case (applied envelope x w1 w2)
    then obtain event where ev: "unmarshal dec_PaymentCaptured zero_PaymentCaptured (en_Payload envelope) = Some event"
      "transitionOrder (pg_order_repo cfg coll) (pp_OrderID event) (captured_step now) w1 = (Inr x, w2)"
      by (auto simp: assms(2) NewPaymentCapturedConsumer_def decoded_def svc_MarkPaymentCaptured_def
          split: option.splits prod.splits sum.splits)
    have "pg_quiet w1" using assms(1) pg_quiet_no_redis [OF applied(3)] by simp
    from this ev(2) lawful_captured obtain o1 o2 b' where x: "stored_orders (tables w2) (pp_OrderID event) = Some x"
      "captured_step now o1 = Inr (o2, b')" "oStatus x = oStatus o2"
      by (rule transition_result)
    have "oStatus x \<notin> {ORDER_STATUS_PENDING, ORDER_STATUS_AWAITING_PAYMENT}"
      using x(2,3) by (auto simp: captured_step_def split: if_splits)
    then show ?thesis
      using applied(1,6) ev(1) x(1) no_redis_simps(1) [OF applied(5)] by auto
  qed (use assms(4) d in auto)
qed

theorem committed_capture_applied_witness:
  "\<exists>w1. tc_handleMessage sample_consumer 7000 (captured_message ''e1'' ''o1'') (calm_node sample_db 9000) = (Inr True, w1) \<and>
     ''e1'' \<in> processed_ids ''order:event:processed:'' w1"
proof -
  obtain w1 where h: "tc_handleMessage sample_consumer 7000 (captured_message ''e1'' ''o1'') (calm_node sample_db 9000) = (Inr True, w1)"
    by (rule sample_captured_message)
  obtain envelope where e: "unmarshal dec_Envelope zero_Envelope (kmValue (captured_message ''e1'' ''o1'')) = Some envelope"
    "en_EventType envelope = PaymentCapturedEventType" "en_EventID envelope = ''e1''"
    by (rule captured_message_decodes)
  then have "\<not> skipped (processed_ids ''order:event:processed:'') PaymentCapturedEventType
      (captured_message ''e1'' ''o1'') (calm_node sample_db 9000 :: order_db node_world)"
    by (simp add: skipped_def)
  from committed_capture_applied [OF sample_quiet_node refl h this] h e show ?thesis by auto
qed

section \<open>A message that cannot be handled\<close>

lemma absent_order_rejected:
  assumes "pg_quiet w" "stored_orders (tables w) oid = None"
  shows "\<exists>e w' n. svc_MarkPaymentCaptured (pg_order_repo cfg coll) now oid w = (Inl e, w') \<and>
    w' = w\<lparr>calls := n\<rparr>"
proof -
  obtain r w' where t: "transitionOrder (pg_order_repo cfg coll) oid (captured_step now) w = (r, w')" by fastforce
  obtain r1 w1 where g: "rGetOrderByID (pg_order_repo cfg coll) oid w = (r1, w1)" by fastforce
  have al: "alone w" using assms(1) by (simp add: pg_quiet_def)
  have w1: "w1 = w\<lparr>calls := Suc (calls w)\<rparr>"
    using g al by (simp add: pg_order_repo_def with_read_eq alone_found)
  obtain e where "r1 = Inl e"
    using quiet.get [OF assms(1) g] assms(2) w1 by (cases r1) (auto simp: pg_store_def)
  then show ?thesis
    using g w1 by (auto simp: svc_MarkPaymentCaptured_def transitionOrder_def finish_transition_def)
qed

text \<open>
  A message the service cannot apply stops the partition for good: as long as the order
  of a \<open>payment.captured\<close> event is not stored, the consumer returns an error at that message
  whatever else happens, so however often the process is restarted, no message behind it is
  ever handled and its offset is never committed.
\<close>
theorem poison_message_blocks:
  assumes "pg_quiet w" and "c = NewPaymentCapturedConsumer (pg_order_repo cfg coll) order_deduper"
    and "unmarshal dec_Envelope zero_Envelope (kmValue msg) = Some envelope"
    and "en_EventType envelope = PaymentCapturedEventType"
    and "en_EventID envelope \<notin> processed_ids ''order:event:processed:'' w"
    and "unmarshal dec_PaymentCaptured zero_PaymentCaptured (en_Payload envelope) = Some event"
    and "stored_orders (tables w) (pp_OrderID event) = None"
    and "restarted (tc_handleMessage c) commits (Fetched now msg # behind) n 0 w = (k, w')"
  shows "k = 0 \<and> tables w' = tables w"
  using assms(1,5,7,8)
proof (induction n arbitrary: w)
  case 0
  then show ?case by simp
next
  case (Suc n)
  have d: "deduper c = order_deduper" "expectedEventType c = PaymentCapturedEventType"
    by (simp_all add: assms(2) NewPaymentCapturedConsumer_def)
  obtain r w1 where h: "tc_handleMessage c now msg w = (r, w1)" by fastforce
  have "\<exists>e. r = Inl e \<and> tables w1 = tables w \<and> pg_quiet w1 \<and>
      processed_ids ''order:event:processed:'' w1 \<subseteq> processed_ids ''order:event:processed:'' w"
    using h [unfolded tc_handleMessage_def d order_deduper_def]
  proof (cases rule: redis.deduplicated_cases)
    case skip
    then show ?thesis using Suc.prems(2) assms(3,4) by (simp add: skipped_def)
  next
    case (failed m)
    then show ?thesis
      using Suc.prems(1) no_redis_simps(1) [OF failed(2)] pg_quiet_no_redis [OF failed(2)] by simp
  next
    case (handled envelope' s1)
    have q: "pg_quiet s1" "tables s1 = tables w"
      using Suc.prems(1) no_redis_simps(1) [OF handled(3)] pg_quiet_no_redis [OF handled(3)] by simp_all
    obtain e s2 n where "svc_MarkPaymentCaptured (pg_order_repo cfg coll) now (pp_OrderID event) s1 = (Inl e, s2)"
      "s2 = s1\<lparr>calls := n\<rparr>"
      using absent_order_rejected [OF q(1), of "pp_OrderID event" cfg coll now] Suc.prems(3)
      unfolding q(2) by blast
    then show ?thesis
      using handled assms(2,3,6) q
      by (auto simp: NewPaymentCapturedConsumer_def decoded_def pg_quiet_def alone_def processed_ids_def)
  qed
  then have w1: "pg_quiet w1" "en_EventID envelope \<notin> processed_ids ''order:event:processed:'' w1"
    "stored_orders (tables w1) (pp_OrderID event) = None" "tables w1 = tables w" "\<exists>e. r = Inl e"
    using Suc.prems(2,3) by auto
  then have "restarted (tc_handleMessage c) commits (Fetched now msg # behind) n 0 w1 = (k, w')"
    using Suc.prems(4) h by auto
  then show ?case using Suc.IH [OF w1(1-3)] w1(4) by simp
qed

theorem poison_message_blocks_witness:
  "\<exists>w'. restarted (tc_handleMessage sample_consumer) (\<lambda>_. None)
       [Fetched 7000 (captured_message ''e2'' ''o2''), Fetched 7000 (captured_message ''e1'' ''o1'')]
       1000 0 (calm_node sample_db 9000) = (0, w') \<and> tables w' = sample_db"
proof -
  obtain k w' where r: "restarted (tc_handleMessage sample_consumer) (\<lambda>_. None)
       [Fetched 7000 (captured_message ''e2'' ''o2''), Fetched 7000 (captured_message ''e1'' ''o1'')]
       1000 0 (calm_node sample_db 9000) = (k, w')" by fastforce
  obtain envelope where e: "unmarshal dec_Envelope zero_Envelope (kmValue (captured_message ''e2'' ''o2'')) = Some envelope"
    "en_EventType envelope = PaymentCapturedEventType" "en_EventID envelope = ''e2''"
    "unmarshal dec_PaymentCaptured zero_PaymentCaptured (en_Payload envelope) =
       Some \<lparr>pp_OrderID = ''o2'', pp_CustomerID = ''c1'', pp_PaymentID = ''pay-1'', pp_Status = ''PAYMENT_STATUS_CAPTURED''\<rparr>"
    by (rule captured_message_decodes)
  from poison_message_blocks [OF sample_quiet_node refl e(1,2) _ e(4) _ r] r show ?thesis by simp
qed

end
