(* ===== verification/Inventory_DB.thy ===== *)
theory Inventory_DB
  imports Runtime
begin

text \<open>
  The inventory service's tables (\<open>db/schema/inventory.sql\<close>) and the statements of its
  \<open>sqlc\<close> package, and the invariant of the stock: the schema's constraints, and that the
  reserved quantity of a product is the sum of its reservations.
\<close>

section \<open>Rows\<close>

record stock_row =
  skProductID :: string
  skAvailable :: int
  skReserved :: int
  skTotal :: int
  skCreatedAt :: "time option"
  skUpdatedAt :: "time option"

record reservation_row =
  rvProductID :: string
  rvOrderID :: string
  rvQuantity :: int
  rvCreatedAt :: "time option"
  rvUpdatedAt :: "time option"

record inventory_db =
  stocks :: "stock_row list"
  reservations :: "reservation_row list"

definition rv_key :: "reservation_row \<Rightarrow> string \<times> string" where
  "rv_key r = (rvProductID r, rvOrderID r)"

section \<open>Statements\<close>

text \<open>What a row of \<open>inventory_stocks\<close> must satisfy, in the order PostgreSQL checks it.\<close>

definition bigint_out_of_range :: pg_error where
  "bigint_out_of_range = PgError ''22003'' [] ''bigint out of range''"

definition check_stock :: "stock_row \<Rightarrow> pg_error option" where
  "check_stock s =
     (if skCreatedAt s = None \<or> skUpdatedAt s = None then Some not_null_violation
      else if skAvailable s < 0 then Some (check_violation ''inventory_stocks_available_quantity_check'')
      else if \<not> is_int64 (skAvailable s + skReserved s) then Some bigint_out_of_range
      else if skAvailable s + skReserved s \<noteq> skTotal s then Some (check_violation ''inventory_stocks_check'')
      else if skReserved s < 0 then Some (check_violation ''inventory_stocks_reserved_quantity_check'')
      else if skTotal s < 0 then Some (check_violation ''inventory_stocks_total_quantity_check'')
      else None)"

definition q_CreateInventoryStock :: "stock_row \<Rightarrow> inventory_db \<Rightarrow> pg_error + (stock_row \<times> inventory_db)" where
  "q_CreateInventoryStock arg db =
     (let s = arg\<lparr>skCreatedAt := map_option pg_micros (skCreatedAt arg),
                  skUpdatedAt := map_option pg_micros (skUpdatedAt arg)\<rparr>
      in case check_stock s of
           Some e \<Rightarrow> Inl e
         | None \<Rightarrow>
             if skProductID arg \<in> set (map skProductID (stocks db))
             then Inl (unique_violation ''inventory_stocks_pkey'')
             else Inr (s, db\<lparr>stocks := stocks db @ [s]\<rparr>))"

definition q_GetStockByProductID :: "string \<Rightarrow> inventory_db \<Rightarrow> pg_error + stock_row" where
  "q_GetStockByProductID pid db =
     (case find (\<lambda>s. skProductID s = pid) (stocks db) of None \<Rightarrow> Inl NoRows | Some s \<Rightarrow> Inr s)"

definition q_GetStockByProductIDForUpdate :: "string \<Rightarrow> inventory_db \<Rightarrow> pg_error + stock_row" where
  "q_GetStockByProductIDForUpdate pid db =
     (case find (\<lambda>s. skProductID s = pid) (stocks db) of None \<Rightarrow> Inl NoRows | Some s \<Rightarrow> Inr s)"

text \<open>\<open>UPDATE inventory_stocks SET available_quantity = ..., reserved_quantity = ...\<close>.\<close>

definition move_stock :: "stock_row \<Rightarrow> int \<Rightarrow> time option \<Rightarrow> inventory_db \<Rightarrow> pg_error + (stock_row \<times> inventory_db)" where
  "move_stock s q t db =
     (let s' = s\<lparr>skAvailable := skAvailable s - q, skReserved := skReserved s + q,
                 skUpdatedAt := map_option pg_micros t\<rparr>
      in if \<not> is_int64 (skAvailable s - q) \<or> \<not> is_int64 (skReserved s + q) then Inl bigint_out_of_range
         else case check_stock s' of
                Some e \<Rightarrow> Inl e
              | None \<Rightarrow> Inr (s', db\<lparr>stocks := replace_row skProductID (skProductID s) (\<lambda>_. s') (stocks db)\<rparr>))"

definition q_ReserveInventoryStock ::
    "string \<Rightarrow> int \<Rightarrow> time option \<Rightarrow> inventory_db \<Rightarrow> pg_error + (stock_row \<times> inventory_db)" where
  "q_ReserveInventoryStock pid q t db =
     (case find (\<lambda>s. skProductID s = pid) (stocks db) of
        None \<Rightarrow> Inl NoRows
      | Some s \<Rightarrow> if skAvailable s \<ge> q then move_stock s q t db else Inl NoRows)"

definition q_ReleaseInventoryStock ::
    "string \<Rightarrow> int \<Rightarrow> time option \<Rightarrow> inventory_db \<Rightarrow> pg_error + (stock_row \<times> inventory_db)" where
  "q_ReleaseInventoryStock pid q t db =
     (case find (\<lambda>s. skProductID s = pid) (stocks db) of
        None \<Rightarrow> Inl NoRows
      | Some s \<Rightarrow> if skReserved s \<ge> q then move_stock s (- q) t db else Inl NoRows)"

definition q_GetReservationByProductIDAndOrderID ::
    "string \<Rightarrow> string \<Rightarrow> inventory_db \<Rightarrow> pg_error + reservation_row" where
  "q_GetReservationByProductIDAndOrderID pid oid db =
     (case find (\<lambda>r. rv_key r = (pid, oid)) (reservations db) of None \<Rightarrow> Inl NoRows | Some r \<Rightarrow> Inr r)"

definition q_GetReservationByProductIDAndOrderIDForUpdate ::
    "string \<Rightarrow> string \<Rightarrow> inventory_db \<Rightarrow> pg_error + reservation_row" where
  "q_GetReservationByProductIDAndOrderIDForUpdate pid oid db =
     (case find (\<lambda>r. rv_key r = (pid, oid)) (reservations db) of None \<Rightarrow> Inl NoRows | Some r \<Rightarrow> Inr r)"

text \<open>\<open>ORDER BY product_id\<close>: text is compared by the collation's sort keys \<open>coll\<close>.\<close>

definition q_ListReservationsByOrderID ::
    "(string \<Rightarrow> 'k::linorder) \<Rightarrow> string \<Rightarrow> inventory_db \<Rightarrow> reservation_row list" where
  "q_ListReservationsByOrderID coll oid db =
     sort_key (\<lambda>r. coll (rvProductID r)) (filter (\<lambda>r. rvOrderID r = oid) (reservations db))"

definition q_UpsertInventoryReservation :: "reservation_row \<Rightarrow> inventory_db \<Rightarrow> pg_error + inventory_db" where
  "q_UpsertInventoryReservation arg db =
     (let upd = map_option pg_micros (rvUpdatedAt arg);
          new = arg\<lparr>rvCreatedAt := map_option pg_micros (rvCreatedAt arg), rvUpdatedAt := upd\<rparr>
      in if rvCreatedAt arg = None \<or> rvUpdatedAt arg = None then Inl not_null_violation
      else if rvQuantity arg \<le> 0 then Inl (check_violation ''inventory_reservations_quantity_check'')
      else case find (\<lambda>r. rv_key r = rv_key arg) (reservations db) of
        None \<Rightarrow>
          if rvProductID arg \<notin> skProductID ` set (stocks db)
          then Inl (foreign_key_violation ''inventory_reservations_product_id_fkey'')
          else Inr (db\<lparr>reservations := reservations db @ [new]\<rparr>)
      | Some r \<Rightarrow>
          if \<not> is_int64 (rvQuantity r + rvQuantity arg) then Inl bigint_out_of_range
          else if rvQuantity r + rvQuantity arg \<le> 0
            then Inl (check_violation ''inventory_reservations_quantity_check'')
          else Inr (db\<lparr>reservations := replace_row rv_key (rv_key arg)
                  (\<lambda>r. r\<lparr>rvQuantity := rvQuantity r + rvQuantity arg, rvUpdatedAt := upd\<rparr>) (reservations db)\<rparr>))"

definition q_UpdateInventoryReservationQuantity ::
    "string \<Rightarrow> string \<Rightarrow> int \<Rightarrow> time option \<Rightarrow> inventory_db \<Rightarrow> pg_error + inventory_db" where
  "q_UpdateInventoryReservationQuantity pid oid q t db =
     (if (pid, oid) \<notin> set (map rv_key (reservations db)) then Inr db
      else if t = None then Inl not_null_violation
      else if q \<le> 0 then Inl (check_violation ''inventory_reservations_quantity_check'')
      else Inr (db\<lparr>reservations := replace_row rv_key (pid, oid)
              (\<lambda>r. r\<lparr>rvQuantity := q, rvUpdatedAt := map_option pg_micros t\<rparr>) (reservations db)\<rparr>))"

definition q_DeleteInventoryReservation :: "string \<Rightarrow> string \<Rightarrow> inventory_db \<Rightarrow> inventory_db" where
  "q_DeleteInventoryReservation pid oid db =
     db\<lparr>reservations := filter (\<lambda>r. rv_key r \<noteq> (pid, oid)) (reservations db)\<rparr>"

section \<open>The invariant\<close>

definition reserved_sum :: "string \<Rightarrow> reservation_row list \<Rightarrow> int" where
  "reserved_sum pid rs = sum_list (map rvQuantity (filter (\<lambda>r. rvProductID r = pid) rs))"

definition stock_row_ok :: "stock_row \<Rightarrow> bool" where
  "stock_row_ok s \<longleftrightarrow>
     0 \<le> skAvailable s \<and> 0 \<le> skReserved s \<and> skAvailable s + skReserved s = skTotal s \<and> is_int64 (skTotal s) \<and>
     skCreatedAt s \<noteq> None \<and> skUpdatedAt s \<noteq> None"

definition inventory_db_inv :: "inventory_db \<Rightarrow> bool" where
  "inventory_db_inv db \<longleftrightarrow>
     distinct (map skProductID (stocks db)) \<and> (\<forall>s \<in> set (stocks db). stock_row_ok s) \<and>
     distinct (map rv_key (reservations db)) \<and>
     (\<forall>r \<in> set (reservations db). 0 < rvQuantity r \<and> rvProductID r \<in> skProductID ` set (stocks db))"

definition balanced :: "inventory_db \<Rightarrow> bool" where
  "balanced db \<longleftrightarrow> (\<forall>s \<in> set (stocks db). skReserved s = reserved_sum (skProductID s) (reservations db))"

definition stock_inv :: "inventory_db \<Rightarrow> bool" where
  "stock_inv db \<longleftrightarrow> inventory_db_inv db \<and> balanced db"

lemma reserved_sum_simps [simp]:
  "reserved_sum pid [] = 0"
  "reserved_sum pid (xs @ ys) = reserved_sum pid xs + reserved_sum pid ys"
  "reserved_sum pid (r # xs) = (if rvProductID r = pid then rvQuantity r else 0) + reserved_sum pid xs"
  by (simp_all add: reserved_sum_def)

lemma rv_key_simps [simp]:
  "rv_key (r\<lparr>rvQuantity := q\<rparr>) = rv_key r" "rv_key (r\<lparr>rvUpdatedAt := t\<rparr>) = rv_key r"
  "rv_key (r\<lparr>rvCreatedAt := t\<rparr>) = rv_key r" "fst (rv_key r) = rvProductID r" "snd (rv_key r) = rvOrderID r"
  by (simp_all add: rv_key_def)

lemma reserved_sum_replace:
  assumes "distinct (map rv_key rs)" "r \<in> set rs" "rv_key r = k" "\<And>r. rv_key (upd r) = rv_key r"
  shows "reserved_sum pid (replace_row rv_key k upd rs) =
    reserved_sum pid rs + (if fst k = pid then rvQuantity (upd r) - rvQuantity r else 0)"
proof -
  obtain ys zs where "rs = ys @ r # zs" "\<And>upd. replace_row rv_key (rv_key r) upd rs = ys @ upd r # zs"
    using replace_row_split [OF assms(1,2)] by metis
  moreover have "rvProductID (upd r) = rvProductID r" using assms(4) [of r] by (simp add: rv_key_def)
  ultimately show ?thesis using assms(3) by (auto simp: rv_key_def)
qed

lemma reserved_sum_delete:
  assumes "distinct (map rv_key rs)" "r \<in> set rs" "rv_key r = k"
  shows "reserved_sum pid (filter (\<lambda>r. rv_key r \<noteq> k) rs) =
    reserved_sum pid rs - (if fst k = pid then rvQuantity r else 0)"
proof -
  obtain ys zs where s: "rs = ys @ r # zs" "filter (\<lambda>y. rv_key y \<noteq> rv_key r) rs = ys @ zs"
    using replace_row_split [OF assms(1,2)] by metis
  have "reserved_sum pid (filter (\<lambda>r. rv_key r \<noteq> k) rs) = reserved_sum pid (ys @ zs)"
    using s(2) assms(3) by simp
  then show ?thesis using s(1) assms(3) by (auto simp: rv_key_def)
qed

lemma reserved_sum_member:
  assumes "\<forall>r \<in> set rs. 0 < rvQuantity r" "r \<in> set rs"
  shows "rvQuantity r \<le> reserved_sum (rvProductID r) rs"
proof -
  have nonneg: "0 \<le> reserved_sum pid xs" if "\<forall>r \<in> set xs. 0 < rvQuantity r" for pid xs
    using that by (induction xs) auto
  obtain ys zs where "rs = ys @ r # zs" using assms(2) by (meson split_list)
  then show ?thesis using assms(1) nonneg [of ys] nonneg [of zs] by simp
qed

lemma reserved_sum_nonneg: "\<forall>r \<in> set xs. 0 < rvQuantity r \<Longrightarrow> 0 \<le> reserved_sum pid xs"
  by (induction xs) auto

end
