(* ===== verification/Inventory_Repository.thy ===== *)
theory Inventory_Repository
  imports Inventory_DB
begin

text \<open>
  The inventory service's domain, its PostgreSQL repository
  (\<open>internal/inventory/repository/postgres.go\<close>) and the service above it
  (\<open>internal/inventory/service/service.go\<close>). A method is one transaction; the row locks it
  takes make it atomic but for the list of reservations that \<open>ReleaseReservationsByOrderID\<close>
  reads without a lock, which is therefore an argument: the tables at the time of the list.
\<close>

section \<open>Domain\<close>

record stock =
  sProductID :: string
  sAvailableQuantity :: int
  sReservedQuantity :: int
  sTotalQuantity :: int

record stock_reservation =
  resProductID :: string
  resOrderID :: string
  resQuantity :: int

datatype inventory_error =
    ErrStockNotFound
  | ErrInvalidStock
  | ErrInsufficientStock
  | ErrReservationNotFound
  | InventoryInternal string

fun inventory_error_text :: "inventory_error \<Rightarrow> string" where
  "inventory_error_text ErrStockNotFound = ''stock not found''"
| "inventory_error_text ErrInvalidStock = ''invalid stock''"
| "inventory_error_text ErrInsufficientStock = ''insufficient stock''"
| "inventory_error_text ErrReservationNotFound = ''reservation not found''"
| "inventory_error_text (InventoryInternal t) = t"

section \<open>Repository\<close>

definition inventory_wrap :: "string \<Rightarrow> pg_error \<Rightarrow> inventory_error" where
  "inventory_wrap what err = InventoryInternal (what @ '': '' @ pg_error_text err)"

definition mapDBStock :: "stock_row \<Rightarrow> stock" where
  "mapDBStock row =
     \<lparr>sProductID = skProductID row, sAvailableQuantity = skAvailable row,
      sReservedQuantity = skReserved row, sTotalQuantity = skTotal row\<rparr>"

definition validateStockReservation :: "stock_reservation \<Rightarrow> inventory_error option" where
  "validateStockReservation r =
     (if TrimSpace (resOrderID r) = [] \<or> TrimSpace (resProductID r) = [] \<or> resQuantity r \<le> 0
      then Some ErrInvalidStock else None)"

definition pg_GetStockByProductID :: "attempt \<Rightarrow> string \<Rightarrow> inventory_db \<Rightarrow> inventory_error + stock" where
  "pg_GetStockByProductID a pid db =
     (if TrimSpace pid = [] then Inl ErrInvalidStock
      else case exec a (''GetStockByProductID'', 0) (q_GetStockByProductID pid db) of
             Inl e \<Rightarrow> Inl (if e = NoRows then ErrStockNotFound
                           else inventory_wrap ''get stock by id from postgres'' e)
           | Inr row \<Rightarrow> Inr (mapDBStock row))"

definition tx_ReserveStock ::
    "attempt \<Rightarrow> stock_reservation \<Rightarrow> inventory_db \<Rightarrow> inventory_error + (stock \<times> inventory_db)" where
  "tx_ReserveStock a r db =
     (case exec a (''Begin'', 0) (Inr ()) of
        Inl e \<Rightarrow> Inl (inventory_wrap ''begin reserve stock transaction'' e)
      | Inr _ \<Rightarrow>
     (case exec a (''GetStockByProductIDForUpdate'', 0) (q_GetStockByProductIDForUpdate (resProductID r) db) of
        Inl e \<Rightarrow> Inl (if e = NoRows then ErrStockNotFound
                      else inventory_wrap ''get stock by id from postgres for update'' e)
      | Inr stock_row \<Rightarrow>
     (if resQuantity r > skAvailable stock_row then Inl ErrInsufficientStock
      else
        let nowTz = Some (clock_at a ''now'')
        in case exec a (''ReserveInventoryStock'', 0)
                  (q_ReserveInventoryStock (resProductID r) (resQuantity r) nowTz db) of
             Inl e \<Rightarrow> Inl (if e = NoRows then ErrInsufficientStock
                           else inventory_wrap ''reserve stock in postgres'' e)
           | Inr (row, db1) \<Rightarrow>
               (case exec a (''UpsertInventoryReservation'', 0)
                       (q_UpsertInventoryReservation
                         \<lparr>rvProductID = resProductID r, rvOrderID = resOrderID r, rvQuantity = resQuantity r,
                          rvCreatedAt = nowTz, rvUpdatedAt = nowTz\<rparr> db1) of
                  Inl e \<Rightarrow> Inl (inventory_wrap ''upsert inventory reservation in postgres'' e)
                | Inr db2 \<Rightarrow> Inr (mapDBStock row, db2)))))"

definition pg_ReserveStock ::
    "attempt \<Rightarrow> stock_reservation \<Rightarrow> inventory_db \<Rightarrow> (inventory_error + stock) \<times> inventory_db" where
  "pg_ReserveStock a r db =
     (case validateStockReservation r of
        Some e \<Rightarrow> (Inl e, db)
      | None \<Rightarrow> commit_tx a (\<lambda>m. InventoryInternal (''commit reserve stock transaction: '' @ m)) db
                  (tx_ReserveStock a r db))"

definition tx_ReleaseStock ::
    "attempt \<Rightarrow> stock_reservation \<Rightarrow> inventory_db \<Rightarrow> inventory_error + (stock \<times> inventory_db)" where
  "tx_ReleaseStock a r db =
     (case exec a (''Begin'', 0) (Inr ()) of
        Inl e \<Rightarrow> Inl (inventory_wrap ''begin release stock transaction'' e)
      | Inr _ \<Rightarrow>
     (case exec a (''GetStockByProductIDForUpdate'', 0) (q_GetStockByProductIDForUpdate (resProductID r) db) of
        Inl e \<Rightarrow> Inl (if e = NoRows then ErrStockNotFound
                      else inventory_wrap ''get stock by id from postgres for update'' e)
      | Inr _ \<Rightarrow>
     (case exec a (''GetReservationByProductIDAndOrderIDForUpdate'', 0)
             (q_GetReservationByProductIDAndOrderIDForUpdate (resProductID r) (resOrderID r) db) of
        Inl e \<Rightarrow> Inl (if e = NoRows then ErrReservationNotFound
                      else inventory_wrap ''get inventory reservation from postgres for update'' e)
      | Inr reserved \<Rightarrow>
     (if rvQuantity reserved < resQuantity r then Inl ErrReservationNotFound
      else
        let nowTz = Some (clock_at a ''now'')
        in case exec a (''ReleaseInventoryStock'', 0)
                  (q_ReleaseInventoryStock (resProductID r) (resQuantity r) nowTz db) of
             Inl e \<Rightarrow> Inl (inventory_wrap ''release stock in postgres'' e)
           | Inr (row, db1) \<Rightarrow>
               if rvQuantity reserved = resQuantity r
               then (case exec a (''DeleteInventoryReservation'', 0)
                            (Inr (q_DeleteInventoryReservation (resProductID r) (resOrderID r) db1)) of
                       Inl e \<Rightarrow> Inl (inventory_wrap ''delete inventory reservation in postgres'' e)
                     | Inr db2 \<Rightarrow> Inr (mapDBStock row, db2))
               else (case exec a (''UpdateInventoryReservationQuantity'', 0)
                            (q_UpdateInventoryReservationQuantity (resProductID r) (resOrderID r)
                              (wrap64 (rvQuantity reserved - resQuantity r)) nowTz db1) of
                       Inl e \<Rightarrow> Inl (inventory_wrap ''update inventory reservation quantity in postgres'' e)
                     | Inr db2 \<Rightarrow> Inr (mapDBStock row, db2))))))"

definition pg_ReleaseStock ::
    "attempt \<Rightarrow> stock_reservation \<Rightarrow> inventory_db \<Rightarrow> (inventory_error + stock) \<times> inventory_db" where
  "pg_ReleaseStock a r db =
     (case validateStockReservation r of
        Some e \<Rightarrow> (Inl e, db)
      | None \<Rightarrow> commit_tx a (\<lambda>m. InventoryInternal (''commit release stock transaction: '' @ m)) db
                  (tx_ReleaseStock a r db))"

text \<open>The loop over the listed reservations; \<open>k\<close> counts the iterations.\<close>

fun release_listed ::
    "attempt \<Rightarrow> nat \<Rightarrow> time option \<Rightarrow> reservation_row list \<Rightarrow> inventory_db \<Rightarrow> inventory_error + inventory_db" where
  "release_listed a k nowTz [] db = Inr db"
| "release_listed a k nowTz (r # rs) db =
     (case exec a (''GetStockByProductIDForUpdate'', k) (q_GetStockByProductIDForUpdate (rvProductID r) db) of
        Inl e \<Rightarrow> Inl (if e = NoRows then ErrStockNotFound
                      else inventory_wrap ''get stock by id from postgres for order release'' e)
      | Inr _ \<Rightarrow>
     (case exec a (''ReleaseInventoryStock'', k)
             (q_ReleaseInventoryStock (rvProductID r) (rvQuantity r) nowTz db) of
        Inl e \<Rightarrow> Inl (inventory_wrap ''release reserved stock in postgres'' e)
      | Inr (_, db1) \<Rightarrow>
     (case exec a (''DeleteInventoryReservation'', k)
             (Inr (q_DeleteInventoryReservation (rvProductID r) (rvOrderID r) db1)) of
        Inl e \<Rightarrow> Inl (inventory_wrap ''delete reservation by order id in postgres'' e)
      | Inr db2 \<Rightarrow> release_listed a (Suc k) nowTz rs db2)))"

definition tx_ReleaseReservationsByOrderID ::
    "(string \<Rightarrow> 'k::linorder) \<Rightarrow> attempt \<Rightarrow> string \<Rightarrow> inventory_db \<Rightarrow> inventory_db \<Rightarrow>
     inventory_error + (unit \<times> inventory_db)" where
  "tx_ReleaseReservationsByOrderID coll a oid listed db =
     (case exec a (''Begin'', 0) (Inr ()) of
        Inl e \<Rightarrow> Inl (inventory_wrap ''begin release reservations by order transaction'' e)
      | Inr _ \<Rightarrow>
     (case exec a (''ListReservationsByOrderID'', 0) (Inr (q_ListReservationsByOrderID coll oid listed)) of
        Inl e \<Rightarrow> Inl (inventory_wrap ''list reservations by order id in postgres'' e)
      | Inr rs \<Rightarrow>
          (if length rs = 0 then Inr ((), db)
           else case release_listed a 0 (Some (clock_at a ''now'')) rs db of
                  Inl e \<Rightarrow> Inl e
                | Inr db' \<Rightarrow> Inr ((), db'))))"

text \<open>The two commits report their failure in different words.\<close>

definition pg_ReleaseReservationsByOrderID ::
    "(string \<Rightarrow> 'k::linorder) \<Rightarrow> attempt \<Rightarrow> string \<Rightarrow> inventory_db \<Rightarrow> inventory_db \<Rightarrow>
     (inventory_error + unit) \<times> inventory_db" where
  "pg_ReleaseReservationsByOrderID coll a orderID listed db =
     (let oid = TrimSpace orderID
      in if oid = [] then (Inl ErrInvalidStock, db)
         else commit_tx a
                (\<lambda>m. InventoryInternal
                   ((if q_ListReservationsByOrderID coll oid listed = []
                     then ''commit empty release reservations by order transaction: ''
                     else ''commit release reservations by order transaction: '') @ m))
                db (tx_ReleaseReservationsByOrderID coll a oid listed db))"

section \<open>Service\<close>

record 's inventory_repo =
  rGetStockByProductID :: "string \<Rightarrow> 's \<Rightarrow> (inventory_error + stock) \<times> 's"
  rReserveStock :: "stock_reservation \<Rightarrow> 's \<Rightarrow> (inventory_error + stock) \<times> 's"
  rReleaseStock :: "stock_reservation \<Rightarrow> 's \<Rightarrow> (inventory_error + stock) \<times> 's"
  rReleaseReservationsByOrderID :: "string \<Rightarrow> 's \<Rightarrow> (inventory_error + unit) \<times> 's"

text \<open>
  Between the list of an order's reservations and the row locks of the loop other clients may
  change the tables.
\<close>

definition pg_inventory_repo :: "(string \<Rightarrow> 'k::linorder) \<Rightarrow> (inventory_db, 'm) world_scheme inventory_repo" where
  "pg_inventory_repo coll =
     \<lparr>rGetStockByProductID = (\<lambda>pid. with_read (\<lambda>a. pg_GetStockByProductID a pid)),
      rReserveStock = (\<lambda>r. with_attempt (\<lambda>a. pg_ReserveStock a r)),
      rReleaseStock = (\<lambda>r. with_attempt (\<lambda>a. pg_ReleaseStock a r)),
      rReleaseReservationsByOrderID =
        (\<lambda>oid. with_read_attempt (\<lambda>a listed db. pg_ReleaseReservationsByOrderID coll a oid listed db))\<rparr>"

definition validateReservationRequest :: "stock_reservation \<Rightarrow> inventory_error option" where
  "validateReservationRequest r =
     (if TrimSpace (resProductID r) = [] \<or> TrimSpace (resOrderID r) = [] \<or> resQuantity r \<le> 0
      then Some ErrInvalidStock else None)"

definition isvc_GetStockByProductID ::
    "'s inventory_repo \<Rightarrow> string \<Rightarrow> 's \<Rightarrow> (inventory_error + stock) \<times> 's" where
  "isvc_GetStockByProductID repo pid s =
     (if TrimSpace pid = [] then (Inl ErrInvalidStock, s) else rGetStockByProductID repo pid s)"

definition isvc_ReserveStock ::
    "'s inventory_repo \<Rightarrow> stock_reservation \<Rightarrow> 's \<Rightarrow> (inventory_error + stock) \<times> 's" where
  "isvc_ReserveStock repo r s =
     (case validateReservationRequest r of Some e \<Rightarrow> (Inl e, s) | None \<Rightarrow> rReserveStock repo r s)"

definition isvc_ReleaseStock ::
    "'s inventory_repo \<Rightarrow> stock_reservation \<Rightarrow> 's \<Rightarrow> (inventory_error + stock) \<times> 's" where
  "isvc_ReleaseStock repo r s =
     (case validateReservationRequest r of Some e \<Rightarrow> (Inl e, s) | None \<Rightarrow> rReleaseStock repo r s)"

definition isvc_ReleaseReservationsByOrderID ::
    "'s inventory_repo \<Rightarrow> string \<Rightarrow> 's \<Rightarrow> (inventory_error + unit) \<times> 's" where
  "isvc_ReleaseReservationsByOrderID repo oid s =
     (if TrimSpace oid = [] then (Inl ErrInvalidStock, s) else rReleaseReservationsByOrderID repo oid s)"

end
