(* ===== verification/Inventory_Ledger.thy ===== *)
theory Inventory_Ledger
  imports Inventory_Repository "HOL-Library.Multiset"
begin

text \<open>
  What the inventory promises, as an abstract ledger: how much of each product is available,
  and how much of it each order holds. The repository implements it: each method either
  leaves the tables alone or makes exactly the ledger's move, and keeps \<open>stock_inv\<close>.
\<close>

section \<open>The ledger\<close>

record ledger =
  available :: "string \<Rightarrow> int option"
  held :: "string \<Rightarrow> string \<Rightarrow> int"

definition ledger_of :: "inventory_db \<Rightarrow> ledger" where
  "ledger_of db =
     \<lparr>available = (\<lambda>pid. map_option skAvailable (find (\<lambda>s. skProductID s = pid) (stocks db))),
      held = (\<lambda>pid oid. case find (\<lambda>r. rv_key r = (pid, oid)) (reservations db) of
                           None \<Rightarrow> 0 | Some r \<Rightarrow> rvQuantity r)\<rparr>"

definition l_reserve :: "string \<Rightarrow> string \<Rightarrow> int \<Rightarrow> ledger \<Rightarrow> inventory_error + ledger" where
  "l_reserve pid oid q l =
     (case available l pid of
        None \<Rightarrow> Inl ErrStockNotFound
      | Some n \<Rightarrow>
          if q > n then Inl ErrInsufficientStock
          else Inr \<lparr>available = (available l)(pid \<mapsto> n - q),
                    held = (held l)(pid := (held l pid)(oid := held l pid oid + q))\<rparr>)"

definition l_release :: "string \<Rightarrow> string \<Rightarrow> int \<Rightarrow> ledger \<Rightarrow> inventory_error + ledger" where
  "l_release pid oid q l =
     (case available l pid of
        None \<Rightarrow> Inl ErrStockNotFound
      | Some n \<Rightarrow>
          if held l pid oid < q then Inl ErrReservationNotFound
          else Inr \<lparr>available = (available l)(pid \<mapsto> n + q),
                    held = (held l)(pid := (held l pid)(oid := held l pid oid - q))\<rparr>)"

definition l_release_order :: "string \<Rightarrow> ledger \<Rightarrow> ledger" where
  "l_release_order oid l =
     \<lparr>available = (\<lambda>pid. map_option (\<lambda>n. n + held l pid oid) (available l pid)),
      held = (\<lambda>pid o'. if o' = oid then 0 else held l pid o')\<rparr>"

text \<open>Reserving and releasing the same quantity is the identity.\<close>

lemma l_release_reserve:
  "l_reserve pid oid q l = Inr l' \<Longrightarrow> 0 \<le> held l pid oid \<Longrightarrow> l_release pid oid q l' = Inr l"
  by (auto simp: l_reserve_def l_release_def fun_upd_idem split: option.splits if_splits)

section \<open>The invariant in use\<close>

lemma stock_invD:
  assumes "stock_inv db"
  shows "distinct (map skProductID (stocks db))" "distinct (map rv_key (reservations db))"
    and "s \<in> set (stocks db) \<Longrightarrow> stock_row_ok s"
    and "s \<in> set (stocks db) \<Longrightarrow> skReserved s = reserved_sum (skProductID s) (reservations db)"
    and "r \<in> set (reservations db) \<Longrightarrow> 0 < rvQuantity r \<and> rvProductID r \<in> skProductID ` set (stocks db)"
  using assms by (auto simp: stock_inv_def inventory_db_inv_def balanced_def)

lemma stock_inv_find:
  assumes "stock_inv db" "find (\<lambda>s. skProductID s = pid) (stocks db) = Some s"
  shows "s \<in> set (stocks db)" "skProductID s = pid" "stock_row_ok s"
    "skReserved s = reserved_sum pid (reservations db)"
  using assms stock_invD [OF assms(1)] by (auto dest!: find_Some_in)

lemma held_le_reserved:
  assumes "stock_inv db" "find (\<lambda>s. skProductID s = pid) (stocks db) = Some s"
    and "find (\<lambda>r. rv_key r = (pid, oid)) (reservations db) = Some r"
  shows "0 < rvQuantity r" "rvQuantity r \<le> skReserved s"
proof -
  have r: "r \<in> set (reservations db)" "rvProductID r = pid"
    using assms(3) by (auto dest!: find_Some_in simp: rv_key_def)
  show "0 < rvQuantity r" using stock_invD(5) [OF assms(1) r(1)] by simp
  show "rvQuantity r \<le> skReserved s"
    using reserved_sum_member [of "reservations db" r] stock_invD(5) [OF assms(1)] r
      stock_inv_find(4) [OF assms(1,2)] by auto
qed

definition moved :: "stock_row \<Rightarrow> int \<Rightarrow> time \<Rightarrow> stock_row" where
  "moved s q t =
     s\<lparr>skAvailable := skAvailable s - q, skReserved := skReserved s + q, skUpdatedAt := Some (pg_micros t)\<rparr>"

lemma moved_simps [simp]:
  "skProductID (moved s q t) = skProductID s" "skAvailable (moved s q t) = skAvailable s - q"
  "skReserved (moved s q t) = skReserved s + q" "skTotal (moved s q t) = skTotal s"
  by (simp_all add: moved_def)

lemma stock_row_ok_moved:
  "stock_row_ok s \<Longrightarrow> 0 \<le> skAvailable s - q \<Longrightarrow> 0 \<le> skReserved s + q \<Longrightarrow> stock_row_ok (moved s q t)"
  by (simp add: stock_row_ok_def) (simp add: moved_def)

lemma move_stock_ok:
  assumes "stock_row_ok s" "0 \<le> skAvailable s - q" "0 \<le> skReserved s + q"
  shows "move_stock s q (Some t) db =
    Inr (moved s q t, db\<lparr>stocks := replace_row skProductID (skProductID s) (\<lambda>_. moved s q t) (stocks db)\<rparr>)"
proof -
  have range: "is_int64 (skAvailable s - q)" "is_int64 (skReserved s + q)"
    using assms by (auto simp: stock_row_ok_def is_int64_def)
  have "check_stock (moved s q t) = None"
    using stock_row_ok_moved [OF assms, of t] by (auto simp: check_stock_def stock_row_ok_def)
  then show ?thesis
    using range by (simp add: move_stock_def moved_def Let_def)
qed

text \<open>Moving one product's stock together with its reservations keeps the invariant.\<close>

lemma stock_inv_move:
  assumes inv: "stock_inv db" and s: "find (\<lambda>s. skProductID s = pid) (stocks db) = Some s"
    and ok: "0 \<le> skAvailable s - q" "0 \<le> skReserved s + q"
    and rs: "distinct (map rv_key rs)" "\<And>r. r \<in> set rs \<Longrightarrow> 0 < rvQuantity r \<and> rvProductID r \<in> skProductID ` set (stocks db)"
    and sums: "\<And>p. reserved_sum p rs = reserved_sum p (reservations db) + (if p = pid then q else 0)"
    and db': "db' = \<lparr>stocks = replace_row skProductID pid (\<lambda>_. moved s q t) (stocks db), reservations = rs\<rparr>"
  shows "stock_inv db'"
proof -
  note S = stock_inv_find [OF inv s]
  have ids: "map skProductID (stocks db') = map skProductID (stocks db)"
    using S(2) by (simp add: db')
  have ok': "stock_row_ok (moved s q t)" using S(3) ok by (rule stock_row_ok_moved)
  have row: "stock_row_ok y \<and> skReserved y = reserved_sum (skProductID y) rs" if "y \<in> set (stocks db')" for y
    using that ok' stock_invD(3,4) [OF inv, of y] S(2,4) sums
    by (auto simp: db' replace_row_def split: if_splits)
  show ?thesis
    using ids row rs stock_invD(1) [OF inv]
    by (auto simp: stock_inv_def inventory_db_inv_def balanced_def db') (metis list.set_map)+
qed

lemma available_move:
  assumes "find (\<lambda>s. skProductID s = pid) (stocks db) = Some s"
  shows "available (ledger_of \<lparr>stocks = replace_row skProductID pid (\<lambda>_. moved s q t) (stocks db), reservations = rs\<rparr>) =
    (available (ledger_of db))(pid \<mapsto> skAvailable s - q)"
proof -
  have "skProductID (moved s q t) = pid" "pid \<in> skProductID ` set (stocks db)"
    using find_Some_in [OF assms] by auto
  then show ?thesis by (auto simp: ledger_of_def find_replace_const)
qed

section \<open>Reserving\<close>

definition upserted :: "string \<Rightarrow> string \<Rightarrow> int \<Rightarrow> time \<Rightarrow> reservation_row list \<Rightarrow> reservation_row list" where
  "upserted pid oid q t rs =
     (if (pid, oid) \<in> rv_key ` set rs
      then replace_row rv_key (pid, oid)
             (\<lambda>r. r\<lparr>rvQuantity := rvQuantity r + q, rvUpdatedAt := Some (pg_micros t)\<rparr>) rs
      else rs @ [\<lparr>rvProductID = pid, rvOrderID = oid, rvQuantity = q,
                  rvCreatedAt = Some (pg_micros t), rvUpdatedAt = Some (pg_micros t)\<rparr>])"

lemma rv_key_update2 [simp]: "rv_key (r\<lparr>rvQuantity := q, rvUpdatedAt := t\<rparr>) = rv_key r"
  by (simp add: rv_key_def)

lemma rv_key_make [simp]: "rv_key \<lparr>rvProductID = pid, rvOrderID = oid, rvQuantity = q, rvCreatedAt = c, rvUpdatedAt = u\<rparr> = (pid, oid)"
  by (simp add: rv_key_def)

lemma upserted_keys:
  "distinct (map rv_key rs) \<Longrightarrow> distinct (map rv_key (upserted pid oid q t rs))"
  by (auto simp: upserted_def)

lemma upserted_sum:
  assumes "distinct (map rv_key rs)"
  shows "reserved_sum p (upserted pid oid q t rs) = reserved_sum p rs + (if p = pid then q else 0)"
proof (cases "(pid, oid) \<in> rv_key ` set rs")
  case True
  then obtain r where "r \<in> set rs" "rv_key r = (pid, oid)" by auto
  then show ?thesis
    using True by (simp add: upserted_def reserved_sum_replace [OF assms])
next
  case False
  then show ?thesis by (simp add: upserted_def)
qed

lemma upserted_ok:
  assumes "\<forall>r \<in> set rs. 0 < rvQuantity r \<and> rvProductID r \<in> ids" "0 < q" "pid \<in> ids"
    and "r \<in> set (upserted pid oid q t rs)"
  shows "0 < rvQuantity r \<and> rvProductID r \<in> ids"
  using assms by (fastforce simp: upserted_def rv_key_def dest!: set_replace_row_subset split: if_splits)

lemma upserted_held:
  "held (ledger_of \<lparr>stocks = ss, reservations = upserted pid oid q t (reservations db)\<rparr>) =
     (held (ledger_of db))(pid := (held (ledger_of db) pid)(oid := held (ledger_of db) pid oid + q))"
proof -
  have "find (\<lambda>r. rv_key r = (p, o')) (upserted pid oid q t rs) =
      (if (p, o') = (pid, oid)
       then Some (case find (\<lambda>r. rv_key r = (pid, oid)) rs of
              None \<Rightarrow> \<lparr>rvProductID = pid, rvOrderID = oid, rvQuantity = q,
                  rvCreatedAt = Some (pg_micros t), rvUpdatedAt = Some (pg_micros t)\<rparr>
            | Some r \<Rightarrow> r\<lparr>rvQuantity := rvQuantity r + q, rvUpdatedAt := Some (pg_micros t)\<rparr>)
       else find (\<lambda>r. rv_key r = (p, o')) rs)" for p o' rs
  proof (cases "find (\<lambda>r. rv_key r = (pid, oid)) rs")
    case None
    then have "(pid, oid) \<notin> rv_key ` set rs" by (simp add: find_key_None_iff)
    then show ?thesis
      using None by (cases "find (\<lambda>r. rv_key r = (p, o')) rs") (auto simp: upserted_def find_append)
  next
    case (Some r)
    then have "(pid, oid) \<in> rv_key ` set rs" using find_key_None_iff [of rv_key "(pid, oid)" rs] by simp
    then show ?thesis using Some by (simp add: upserted_def find_replace_row)
  qed
  then show ?thesis by (auto simp: ledger_of_def fun_eq_iff split: option.splits)
qed

definition reserve_served :: "attempt \<Rightarrow> bool" where
  "reserve_served a \<longleftrightarrow>
     fault_at a (''Begin'', 0) = Served \<and> fault_at a (''GetStockByProductIDForUpdate'', 0) = Served \<and>
     fault_at a (''ReserveInventoryStock'', 0) = Served \<and> fault_at a (''UpsertInventoryReservation'', 0) = Served"

definition reserve_db :: "stock_row \<Rightarrow> stock_reservation \<Rightarrow> time \<Rightarrow> inventory_db \<Rightarrow> inventory_db" where
  "reserve_db s r t db =
     \<lparr>stocks = replace_row skProductID (resProductID r) (\<lambda>_. moved s (resQuantity r) t) (stocks db),
      reservations = upserted (resProductID r) (resOrderID r) (resQuantity r) t (reservations db)\<rparr>"

lemma reserve_statements:
  assumes inv: "stock_inv db" and s: "find (\<lambda>s. skProductID s = resProductID r) (stocks db) = Some s"
    and q: "0 < resQuantity r" "resQuantity r \<le> skAvailable s"
  shows "q_ReserveInventoryStock (resProductID r) (resQuantity r) (Some t) db =
      Inr (moved s (resQuantity r) t,
        db\<lparr>stocks := replace_row skProductID (resProductID r) (\<lambda>_. moved s (resQuantity r) t) (stocks db)\<rparr>)"
    and "q_UpsertInventoryReservation
        \<lparr>rvProductID = resProductID r, rvOrderID = resOrderID r, rvQuantity = resQuantity r,
         rvCreatedAt = Some t, rvUpdatedAt = Some t\<rparr>
        (db\<lparr>stocks := replace_row skProductID (resProductID r) (\<lambda>_. moved s (resQuantity r) t) (stocks db)\<rparr>) =
      Inr (reserve_db s r t db)"
proof -
  note S = stock_inv_find [OF inv s]
  have ok: "stock_row_ok s" "0 \<le> skAvailable s - resQuantity r" "0 \<le> skReserved s + resQuantity r"
    using S(3) q by (auto simp: stock_row_ok_def)
  show "q_ReserveInventoryStock (resProductID r) (resQuantity r) (Some t) db =
      Inr (moved s (resQuantity r) t,
        db\<lparr>stocks := replace_row skProductID (resProductID r) (\<lambda>_. moved s (resQuantity r) t) (stocks db)\<rparr>)"
    using s q(2) move_stock_ok [OF ok, of t db] S(2) by (simp add: q_ReserveInventoryStock_def)
  let ?db = "db\<lparr>stocks := replace_row skProductID (resProductID r) (\<lambda>_. moved s (resQuantity r) t) (stocks db)\<rparr>"
  have "resProductID r \<in> skProductID ` set (stocks db)" using S(1,2) by force
  then have ids: "resProductID r \<in> skProductID ` set (stocks ?db)" using S(2) by simp
  show "q_UpsertInventoryReservation
        \<lparr>rvProductID = resProductID r, rvOrderID = resOrderID r, rvQuantity = resQuantity r,
         rvCreatedAt = Some t, rvUpdatedAt = Some t\<rparr> ?db = Inr (reserve_db s r t db)"
  proof (cases "find (\<lambda>x. rv_key x = (resProductID r, resOrderID r)) (reservations db)")
    case None
    then have "(resProductID r, resOrderID r) \<notin> rv_key ` set (reservations db)"
      by (simp add: find_key_None_iff)
    then show ?thesis
      using None q(1) ids by (simp add: q_UpsertInventoryReservation_def reserve_db_def upserted_def Let_def)
  next
    case (Some x)
    note x = held_le_reserved [OF inv s Some]
    have "(resProductID r, resOrderID r) \<in> rv_key ` set (reservations db)"
      using Some find_key_None_iff [of rv_key "(resProductID r, resOrderID r)" "reservations db"] by simp
    moreover have "is_int64 (rvQuantity x + resQuantity r)" "\<not> rvQuantity x + resQuantity r \<le> 0"
      using x q S(3) by (auto simp: stock_row_ok_def is_int64_def)
    ultimately show ?thesis
      using Some q(1) by (simp add: q_UpsertInventoryReservation_def reserve_db_def upserted_def Let_def)
  qed
qed

lemma tx_ReserveStock_Inr:
  assumes "stock_inv db" "0 < resQuantity r"
  shows "tx_ReserveStock a r db = Inr (x, db') \<longleftrightarrow> reserve_served a \<and>
    (\<exists>s. find (\<lambda>s. skProductID s = resProductID r) (stocks db) = Some s \<and> resQuantity r \<le> skAvailable s \<and>
       x = mapDBStock (moved s (resQuantity r) (clock_at a ''now'')) \<and> db' = reserve_db s r (clock_at a ''now'') db)"
proof (cases "find (\<lambda>s. skProductID s = resProductID r) (stocks db)")
  case None
  then show ?thesis
    by (auto simp: tx_ReserveStock_def bind_Inr_iff q_GetStockByProductIDForUpdate_def)
next
  case (Some s)
  show ?thesis
  proof (cases "resQuantity r \<le> skAvailable s")
    case True
    show ?thesis
      using True Some reserve_statements [OF assms(1) Some assms(2) True, of "clock_at a ''now''"]
      by (auto simp: tx_ReserveStock_def bind_Inr_iff q_GetStockByProductIDForUpdate_def reserve_served_def Let_def)
  next
    case False
    then show ?thesis
      using Some by (auto simp: tx_ReserveStock_def bind_Inr_iff q_GetStockByProductIDForUpdate_def)
  qed
qed

lemma reserve_db_ledger:
  assumes inv: "stock_inv db" and s: "find (\<lambda>s. skProductID s = resProductID r) (stocks db) = Some s"
    and q: "0 < resQuantity r" "resQuantity r \<le> skAvailable s"
  shows "stock_inv (reserve_db s r t db)"
    and "l_reserve (resProductID r) (resOrderID r) (resQuantity r) (ledger_of db) = Inr (ledger_of (reserve_db s r t db))"
proof -
  note S = stock_inv_find [OF inv s]
  have ok: "0 \<le> skAvailable s - resQuantity r" "0 \<le> skReserved s + resQuantity r"
    using S(3) q by (auto simp: stock_row_ok_def)
  show "stock_inv (reserve_db s r t db)"
  proof (rule stock_inv_move [OF inv s ok _ _ _ reserve_db_def])
    show "distinct (map rv_key (upserted (resProductID r) (resOrderID r) (resQuantity r) t (reservations db)))"
      using stock_invD(2) [OF inv] by (rule upserted_keys)
    show "0 < rvQuantity x \<and> rvProductID x \<in> skProductID ` set (stocks db)"
      if "x \<in> set (upserted (resProductID r) (resOrderID r) (resQuantity r) t (reservations db))" for x
      using upserted_ok [OF _ q(1) _ that] stock_invD(5) [OF inv] S(1,2) by blast
    show "reserved_sum p (upserted (resProductID r) (resOrderID r) (resQuantity r) t (reservations db)) =
        reserved_sum p (reservations db) + (if p = resProductID r then resQuantity r else 0)" for p
      using stock_invD(2) [OF inv] by (rule upserted_sum)
  qed
  have "available (ledger_of db) (resProductID r) = Some (skAvailable s)" using s by (simp add: ledger_of_def)
  then show "l_reserve (resProductID r) (resOrderID r) (resQuantity r) (ledger_of db) = Inr (ledger_of (reserve_db s r t db))"
    using q(2) available_move [OF s] upserted_held
    by (simp add: l_reserve_def reserve_db_def)
qed

text \<open>What a method may do: keep the tables, or make the ledger's move and commit it.\<close>

definition totals :: "inventory_db \<Rightarrow> (string \<times> int) list" where
  "totals db = map (\<lambda>s. (skProductID s, skTotal s)) (stocks db)"

definition moves :: "(inventory_error + ledger) \<Rightarrow> (inventory_error + 'a) \<Rightarrow> inventory_db \<Rightarrow> inventory_db \<Rightarrow> bool" where
  "moves spec res db db' \<longleftrightarrow>
     db' = db \<and> (\<forall>x. res \<noteq> Inr x) \<or>
     stock_inv db' \<and> totals db' = totals db \<and> spec = Inr (ledger_of db') \<and>
       ((\<exists>x. res = Inr x) \<or> (\<exists>m. res = Inl (InventoryInternal m)))"

lemma commit_moves:
  assumes "commit_tx a (\<lambda>m. InventoryInternal (f m)) db r = (res, db')"
    and "\<And>x db2. r = Inr (x, db2) \<Longrightarrow> stock_inv db2 \<and> totals db2 = totals db \<and> spec = Inr (ledger_of db2)"
  shows "moves spec res db db'"
  using assms by (auto simp: commit_tx_def moves_def split: sum.splits fault.splits)

lemma totals_move:
  assumes "stock_inv db" "find (\<lambda>s. skProductID s = pid) (stocks db) = Some s"
  shows "totals \<lparr>stocks = replace_row skProductID pid (\<lambda>_. moved s q t) (stocks db), reservations = rs\<rparr> = totals db"
proof -
  note S = stock_inv_find [OF assms]
  have "s' = s" if "s' \<in> set (stocks db)" "skProductID s' = pid" for s'
    using that S(1,2) stock_invD(1) [OF assms(1)] by (auto simp: distinct_map dest: inj_onD)
  then show ?thesis using S(2) by (auto simp: totals_def replace_row_def)
qed

lemma pg_ReserveStock_moves:
  assumes inv: "stock_inv db" and p: "pg_ReserveStock a r db = (res, db')"
  shows "moves (l_reserve (resProductID r) (resOrderID r) (resQuantity r) (ledger_of db)) res db db'"
proof (cases "validateStockReservation r")
  case (Some e)
  then show ?thesis using p by (auto simp: pg_ReserveStock_def moves_def)
next
  case None
  then have q: "0 < resQuantity r" by (simp add: validateStockReservation_def split: if_splits)
  show ?thesis
    using p None by (auto simp: pg_ReserveStock_def tx_ReserveStock_Inr [OF inv q] reserve_db_ledger [OF inv _ q]
        totals_move [OF inv] reserve_db_def intro!: commit_moves)
      (auto simp: reserve_db_def [symmetric] reserve_db_ledger [OF inv _ q])
qed

lemma pg_ReserveStock_served:
  assumes inv: "stock_inv db" and v: "validateStockReservation r = None" and a: "\<And>site. fault_at a site = Served"
  shows "case l_reserve (resProductID r) (resOrderID r) (resQuantity r) (ledger_of db) of
      Inl e \<Rightarrow> pg_ReserveStock a r db = (Inl e, db)
    | Inr l \<Rightarrow> \<exists>x db'. pg_ReserveStock a r db = (Inr x, db') \<and> ledger_of db' = l \<and> stock_inv db'"
proof -
  have q: "0 < resQuantity r" using v by (simp add: validateStockReservation_def split: if_splits)
  have av: "available (ledger_of db) (resProductID r) =
      map_option skAvailable (find (\<lambda>s. skProductID s = resProductID r) (stocks db))"
    by (simp add: ledger_of_def)
  show ?thesis
  proof (cases "find (\<lambda>s. skProductID s = resProductID r) (stocks db)")
    case None
    then show ?thesis
      using v av a by (simp add: l_reserve_def pg_ReserveStock_def tx_ReserveStock_def q_GetStockByProductIDForUpdate_def)
  next
    case (Some s)
    show ?thesis
    proof (cases "resQuantity r \<le> skAvailable s")
      case False
      then show ?thesis
        using v av a Some
        by (simp add: l_reserve_def pg_ReserveStock_def tx_ReserveStock_def q_GetStockByProductIDForUpdate_def)
    next
      case True
      then have tx: "tx_ReserveStock a r db = Inr (mapDBStock (moved s (resQuantity r) (clock_at a ''now'')),
          reserve_db s r (clock_at a ''now'') db)"
        using Some a by (simp add: tx_ReserveStock_Inr [OF inv q] reserve_served_def)
      note L = reserve_db_ledger [OF inv Some q True, of "clock_at a ''now''"]
      show ?thesis
        using v a L by (simp add: pg_ReserveStock_def tx commit_tx_def)
    qed
  qed
qed

section \<open>Releasing\<close>

definition shrunk :: "string \<Rightarrow> string \<Rightarrow> int \<Rightarrow> int \<Rightarrow> time \<Rightarrow> reservation_row list \<Rightarrow> reservation_row list" where
  "shrunk pid oid old q t rs =
     (if old = q then filter (\<lambda>r. rv_key r \<noteq> (pid, oid)) rs
      else replace_row rv_key (pid, oid) (\<lambda>r. r\<lparr>rvQuantity := old - q, rvUpdatedAt := Some (pg_micros t)\<rparr>) rs)"

definition release_db :: "stock_row \<Rightarrow> int \<Rightarrow> stock_reservation \<Rightarrow> time \<Rightarrow> inventory_db \<Rightarrow> inventory_db" where
  "release_db s old r t db =
     \<lparr>stocks = replace_row skProductID (resProductID r) (\<lambda>_. moved s (- resQuantity r) t) (stocks db),
      reservations = shrunk (resProductID r) (resOrderID r) old (resQuantity r) t (reservations db)\<rparr>"

lemma find_filter_key:
  "find (\<lambda>x. key x = k) (filter (\<lambda>x. key x \<noteq> k') xs) = (if k = k' then None else find (\<lambda>x. key x = k) xs)"
  by (induction xs) auto

lemma shrunk_held:
  assumes "find (\<lambda>r. rv_key r = (pid, oid)) (reservations db) = Some x"
  shows "held (ledger_of \<lparr>stocks = ss, reservations = shrunk pid oid (rvQuantity x) q t (reservations db)\<rparr>) =
     (held (ledger_of db))(pid := (held (ledger_of db) pid)(oid := held (ledger_of db) pid oid - q))"
proof (cases "rvQuantity x = q")
  case True
  then show ?thesis
    using assms by (auto simp: ledger_of_def shrunk_def fun_eq_iff find_filter_key)
next
  case False
  then show ?thesis
    using assms by (auto simp: ledger_of_def shrunk_def fun_eq_iff find_replace_row split: option.splits)
qed

lemma shrunk_keys: "distinct (map rv_key rs) \<Longrightarrow> distinct (map rv_key (shrunk pid oid old q t rs))"
  by (auto simp: shrunk_def distinct_map_filter)

lemma shrunk_sum:
  assumes "distinct (map rv_key rs)" "x \<in> set rs" "rv_key x = (pid, oid)"
  shows "reserved_sum p (shrunk pid oid (rvQuantity x) q t rs) = reserved_sum p rs + (if p = pid then - q else 0)"
  by (auto simp: shrunk_def reserved_sum_replace [OF assms] reserved_sum_delete [OF assms])

lemma shrunk_ok:
  assumes "\<forall>r \<in> set rs. 0 < rvQuantity r \<and> rvProductID r \<in> ids" "q \<le> old"
    and "r \<in> set (shrunk pid oid old q t rs)"
  shows "0 < rvQuantity r \<and> rvProductID r \<in> ids"
  using assms by (fastforce simp: shrunk_def dest!: set_replace_row_subset split: if_splits)

definition release_served :: "attempt \<Rightarrow> bool \<Rightarrow> bool" where
  "release_served a whole \<longleftrightarrow>
     fault_at a (''Begin'', 0) = Served \<and> fault_at a (''GetStockByProductIDForUpdate'', 0) = Served \<and>
     fault_at a (''GetReservationByProductIDAndOrderIDForUpdate'', 0) = Served \<and>
     fault_at a (''ReleaseInventoryStock'', 0) = Served \<and>
     fault_at a (if whole then ''DeleteInventoryReservation'' else ''UpdateInventoryReservationQuantity'', 0) = Served"

lemma release_stock_ok:
  assumes inv: "stock_inv db" and s: "find (\<lambda>s. skProductID s = pid) (stocks db) = Some s"
    and x: "find (\<lambda>r. rv_key r = (pid, oid)) (reservations db) = Some x" and q: "0 < q" "q \<le> rvQuantity x"
  shows "q_ReleaseInventoryStock pid q (Some t) db =
    Inr (moved s (- q) t, db\<lparr>stocks := replace_row skProductID pid (\<lambda>_. moved s (- q) t) (stocks db)\<rparr>)"
    and "0 \<le> skAvailable s - - q" "0 \<le> skReserved s + - q"
proof -
  note S = stock_inv_find [OF inv s] and X = held_le_reserved [OF inv s x]
  show ok: "0 \<le> skAvailable s - - q" "0 \<le> skReserved s + - q"
    using S(3) q X by (auto simp: stock_row_ok_def)
  show "q_ReleaseInventoryStock pid q (Some t) db =
    Inr (moved s (- q) t, db\<lparr>stocks := replace_row skProductID pid (\<lambda>_. moved s (- q) t) (stocks db)\<rparr>)"
    using s q X move_stock_ok [OF S(3) ok, of t db] S(2) by (simp add: q_ReleaseInventoryStock_def)
qed

lemma tx_ReleaseStock_Inr:
  assumes inv: "stock_inv db" and q: "0 < resQuantity r"
  shows "tx_ReleaseStock a r db = Inr (x, db') \<longleftrightarrow>
    (\<exists>s v. find (\<lambda>s. skProductID s = resProductID r) (stocks db) = Some s \<and>
       find (\<lambda>v. rv_key v = (resProductID r, resOrderID r)) (reservations db) = Some v \<and>
       resQuantity r \<le> rvQuantity v \<and> release_served a (rvQuantity v = resQuantity r) \<and>
       x = mapDBStock (moved s (- resQuantity r) (clock_at a ''now'')) \<and>
       db' = release_db s (rvQuantity v) r (clock_at a ''now'') db)"
proof (cases "find (\<lambda>s. skProductID s = resProductID r) (stocks db)")
  case None
  then show ?thesis
    by (auto simp: tx_ReleaseStock_def bind_Inr_iff q_GetStockByProductIDForUpdate_def)
next
  case s: (Some s)
  show ?thesis
  proof (cases "find (\<lambda>v. rv_key v = (resProductID r, resOrderID r)) (reservations db)")
    case None
    then show ?thesis
      by (auto simp: tx_ReleaseStock_def bind_Inr_iff q_GetReservationByProductIDAndOrderIDForUpdate_def)
  next
    case v: (Some v)
    show ?thesis
    proof (cases "resQuantity r \<le> rvQuantity v")
      case False
      then show ?thesis
        using v by (auto simp: tx_ReleaseStock_def bind_Inr_iff q_GetReservationByProductIDAndOrderIDForUpdate_def)
    next
      case True
      note R = release_stock_ok(1) [OF inv s v q True, of "clock_at a ''now''"]
      have key: "(resProductID r, resOrderID r) \<in> rv_key ` set (reservations db)"
        using v find_key_None_iff [of rv_key "(resProductID r, resOrderID r)" "reservations db"] by simp
      have "wrap64 (rvQuantity v - resQuantity r) = rvQuantity v - resQuantity r"
        using stock_inv_find(3) [OF inv s] held_le_reserved [OF inv s v] q True
        by (intro wrap64_id) (auto simp: stock_row_ok_def is_int64_def)
      then show ?thesis
        using s v True R key q
        by (auto simp: tx_ReleaseStock_def bind_Inr_iff q_GetStockByProductIDForUpdate_def
            q_GetReservationByProductIDAndOrderIDForUpdate_def release_served_def release_db_def shrunk_def Let_def
            q_DeleteInventoryReservation_def q_UpdateInventoryReservationQuantity_def)
    qed
  qed
qed

lemma release_db_ledger:
  assumes inv: "stock_inv db" and s: "find (\<lambda>s. skProductID s = resProductID r) (stocks db) = Some s"
    and v: "find (\<lambda>v. rv_key v = (resProductID r, resOrderID r)) (reservations db) = Some v"
    and q: "0 < resQuantity r" "resQuantity r \<le> rvQuantity v"
  shows "stock_inv (release_db s (rvQuantity v) r t db)"
    and "l_release (resProductID r) (resOrderID r) (resQuantity r) (ledger_of db) =
           Inr (ledger_of (release_db s (rvQuantity v) r t db))"
    and "totals (release_db s (rvQuantity v) r t db) = totals db"
proof -
  note ok = release_stock_ok(2,3) [OF inv s v q]
  have x: "v \<in> set (reservations db)" "rv_key v = (resProductID r, resOrderID r)"
    using find_Some_in [OF v] by auto
  show "stock_inv (release_db s (rvQuantity v) r t db)"
  proof (rule stock_inv_move [OF inv s ok _ _ _ release_db_def])
    show "distinct (map rv_key (shrunk (resProductID r) (resOrderID r) (rvQuantity v) (resQuantity r) t (reservations db)))"
      using stock_invD(2) [OF inv] by (rule shrunk_keys)
    show "0 < rvQuantity y \<and> rvProductID y \<in> skProductID ` set (stocks db)"
      if "y \<in> set (shrunk (resProductID r) (resOrderID r) (rvQuantity v) (resQuantity r) t (reservations db))" for y
      using shrunk_ok [OF _ q(2) that] stock_invD(5) [OF inv] by blast
    show "reserved_sum p (shrunk (resProductID r) (resOrderID r) (rvQuantity v) (resQuantity r) t (reservations db)) =
        reserved_sum p (reservations db) + (if p = resProductID r then - resQuantity r else 0)" for p
      using stock_invD(2) [OF inv] x by (rule shrunk_sum)
  qed
  show "l_release (resProductID r) (resOrderID r) (resQuantity r) (ledger_of db) =
           Inr (ledger_of (release_db s (rvQuantity v) r t db))"
  proof -
    have "available (ledger_of db) (resProductID r) = Some (skAvailable s)"
      "held (ledger_of db) (resProductID r) (resOrderID r) = rvQuantity v"
      using s v by (simp_all add: ledger_of_def)
    then show ?thesis
      using q(2) available_move [OF s] shrunk_held [OF v] by (simp add: l_release_def release_db_def)
  qed
  show "totals (release_db s (rvQuantity v) r t db) = totals db"
    by (simp add: release_db_def totals_move [OF inv s])
qed

lemma pg_ReleaseStock_moves:
  assumes inv: "stock_inv db" and p: "pg_ReleaseStock a r db = (res, db')"
  shows "moves (l_release (resProductID r) (resOrderID r) (resQuantity r) (ledger_of db)) res db db'"
proof (cases "validateStockReservation r")
  case (Some e)
  then show ?thesis using p by (auto simp: pg_ReleaseStock_def moves_def)
next
  case None
  then have q: "0 < resQuantity r" by (simp add: validateStockReservation_def split: if_splits)
  show ?thesis
    using p None by (auto simp: pg_ReleaseStock_def tx_ReleaseStock_Inr [OF inv q] release_db_ledger [OF inv _ _ q]
        intro!: commit_moves)
qed

lemma pg_ReleaseStock_served:
  assumes inv: "stock_inv db" and v: "validateStockReservation r = None" and a: "\<And>site. fault_at a site = Served"
  shows "case l_release (resProductID r) (resOrderID r) (resQuantity r) (ledger_of db) of
      Inl e \<Rightarrow> pg_ReleaseStock a r db = (Inl e, db)
    | Inr l \<Rightarrow> \<exists>x db'. pg_ReleaseStock a r db = (Inr x, db') \<and> ledger_of db' = l \<and> stock_inv db'"
proof -
  have q: "0 < resQuantity r" using v by (simp add: validateStockReservation_def split: if_splits)
  show ?thesis
  proof (cases "find (\<lambda>s. skProductID s = resProductID r) (stocks db)")
    case None
    then show ?thesis
      using v a by (simp add: l_release_def ledger_of_def pg_ReleaseStock_def tx_ReleaseStock_def
          q_GetStockByProductIDForUpdate_def)
  next
    case s: (Some s)
    show ?thesis
    proof (cases "find (\<lambda>v. rv_key v = (resProductID r, resOrderID r)) (reservations db)")
      case None
      then show ?thesis
        using v a s q by (simp add: l_release_def ledger_of_def pg_ReleaseStock_def tx_ReleaseStock_def
            q_GetStockByProductIDForUpdate_def q_GetReservationByProductIDAndOrderIDForUpdate_def)
    next
      case x: (Some x)
      show ?thesis
      proof (cases "resQuantity r \<le> rvQuantity x")
        case False
        then show ?thesis
          using v a s x by (simp add: l_release_def ledger_of_def pg_ReleaseStock_def tx_ReleaseStock_def
              q_GetStockByProductIDForUpdate_def q_GetReservationByProductIDAndOrderIDForUpdate_def)
      next
        case True
        then have tx: "tx_ReleaseStock a r db = Inr (mapDBStock (moved s (- resQuantity r) (clock_at a ''now'')),
            release_db s (rvQuantity x) r (clock_at a ''now'') db)"
          using s x a by (simp add: tx_ReleaseStock_Inr [OF inv q] release_served_def)
        show ?thesis
          using v a release_db_ledger [OF inv s x q True, of "clock_at a ''now''"]
          by (simp add: pg_ReleaseStock_def tx commit_tx_def)
      qed
    qed
  qed
qed

section \<open>Releasing an order\<close>

definition released_db :: "stock_row \<Rightarrow> reservation_row \<Rightarrow> time \<Rightarrow> inventory_db \<Rightarrow> inventory_db" where
  "released_db s r t db =
     \<lparr>stocks = replace_row skProductID (rvProductID r) (\<lambda>_. moved s (- rvQuantity r) t) (stocks db),
      reservations = filter (\<lambda>v. rv_key v \<noteq> rv_key r) (reservations db)\<rparr>"

lemma released_db_ledger:
  assumes inv: "stock_inv db" and r: "r \<in> set (reservations db)"
  obtains s where "find (\<lambda>s. skProductID s = rvProductID r) (stocks db) = Some s"
    "q_ReleaseInventoryStock (rvProductID r) (rvQuantity r) (Some t) db =
       Inr (moved s (- rvQuantity r) t,
         db\<lparr>stocks := replace_row skProductID (rvProductID r) (\<lambda>_. moved s (- rvQuantity r) t) (stocks db)\<rparr>)"
    "stock_inv (released_db s r t db)" "totals (released_db s r t db) = totals db"
    "available (ledger_of (released_db s r t db)) =
       (available (ledger_of db))(rvProductID r \<mapsto> skAvailable s + rvQuantity r)"
proof -
  have pos: "0 < rvQuantity r" and "rvProductID r \<in> skProductID ` set (stocks db)"
    using stock_invD(5) [OF inv r] by auto
  then obtain s where s: "find (\<lambda>s. skProductID s = rvProductID r) (stocks db) = Some s"
    using find_key_None_iff [of skProductID "rvProductID r" "stocks db"] by (cases "find (\<lambda>s. skProductID s = rvProductID r) (stocks db)") auto
  have v: "find (\<lambda>v. rv_key v = (rvProductID r, rvOrderID r)) (reservations db) = Some r"
    using find_distinct_key [OF stock_invD(2) [OF inv] r] by (simp add: rv_key_def)
  note R = release_stock_ok(1) [OF inv s v pos order_refl, of t]
  define q where "q = \<lparr>resProductID = rvProductID r, resOrderID = rvOrderID r, resQuantity = rvQuantity r\<rparr>"
  have same: "released_db s r t db = release_db s (rvQuantity r) q t db"
    by (simp add: released_db_def release_db_def shrunk_def q_def rv_key_def)
  have "stock_inv (released_db s r t db)" "totals (released_db s r t db) = totals db"
    unfolding same using release_db_ledger [of db q s r t] inv s v pos by (simp_all add: q_def)
  moreover have "available (ledger_of (released_db s r t db)) =
       (available (ledger_of db))(rvProductID r \<mapsto> skAvailable s + rvQuantity r)"
    using available_move [OF s, of "- rvQuantity r"] by (simp add: released_db_def)
  ultimately show ?thesis using that [OF s R] by blast
qed

definition order_release_served :: "attempt \<Rightarrow> nat \<Rightarrow> nat \<Rightarrow> bool" where
  "order_release_served a k n \<longleftrightarrow> (\<forall>i. k \<le> i \<longrightarrow> i < k + n \<longrightarrow>
     fault_at a (''GetStockByProductIDForUpdate'', i) = Served \<and> fault_at a (''ReleaseInventoryStock'', i) = Served \<and>
     fault_at a (''DeleteInventoryReservation'', i) = Served)"

lemma order_release_served_Suc:
  "order_release_served a k (Suc n) \<longleftrightarrow>
     fault_at a (''GetStockByProductIDForUpdate'', k) = Served \<and> fault_at a (''ReleaseInventoryStock'', k) = Served \<and>
     fault_at a (''DeleteInventoryReservation'', k) = Served \<and> order_release_served a (Suc k) n"
  unfolding order_release_served_def by (metis Suc_leD Suc_le_eq add_Suc_right add_Suc le_neq_implies_less le_refl less_add_Suc1)

lemma release_listed_moves:
  assumes "stock_inv db" "set rs \<subseteq> set (reservations db)" "distinct (map rv_key rs)"
  shows "case release_listed a k (Some t) rs db of
      Inl _ \<Rightarrow> \<not> order_release_served a k (length rs)
    | Inr db' \<Rightarrow> stock_inv db' \<and> totals db' = totals db \<and>
        reservations db' = filter (\<lambda>v. rv_key v \<notin> rv_key ` set rs) (reservations db) \<and>
        available (ledger_of db') = (\<lambda>pid. map_option (\<lambda>n. n + reserved_sum pid rs) (available (ledger_of db) pid))"
  using assms
proof (induction rs arbitrary: db k)
  case Nil
  then show ?case by (simp add: option.map_ident)
next
  case (Cons r rs)
  have r: "r \<in> set (reservations db)" using Cons.prems(2) by simp
  obtain s where s: "find (\<lambda>s. skProductID s = rvProductID r) (stocks db) = Some s"
    "q_ReleaseInventoryStock (rvProductID r) (rvQuantity r) (Some t) db =
       Inr (moved s (- rvQuantity r) t,
         db\<lparr>stocks := replace_row skProductID (rvProductID r) (\<lambda>_. moved s (- rvQuantity r) t) (stocks db)\<rparr>)"
    "stock_inv (released_db s r t db)" "totals (released_db s r t db) = totals db"
    "available (ledger_of (released_db s r t db)) =
       (available (ledger_of db))(rvProductID r \<mapsto> skAvailable s + rvQuantity r)"
    using released_db_ledger [OF Cons.prems(1) r] .
  have del: "q_DeleteInventoryReservation (rvProductID r) (rvOrderID r)
      (db\<lparr>stocks := replace_row skProductID (rvProductID r) (\<lambda>_. moved s (- rvQuantity r) t) (stocks db)\<rparr>) =
      released_db s r t db"
    by (simp add: q_DeleteInventoryReservation_def released_db_def rv_key_def)
  have rest: "set rs \<subseteq> set (reservations (released_db s r t db))" "distinct (map rv_key rs)"
    using Cons.prems(2,3) by (auto simp: released_db_def) (metis imageI)
  have av: "available (ledger_of db) (rvProductID r) = Some (skAvailable s)"
    using s(1) by (simp add: ledger_of_def)
  show ?case
  proof (cases "order_release_served a k 1")
    case True
    then have f: "fault_at a (''GetStockByProductIDForUpdate'', k) = Served"
      "fault_at a (''ReleaseInventoryStock'', k) = Served" "fault_at a (''DeleteInventoryReservation'', k) = Served"
      by (auto simp: order_release_served_def)
    then have step: "release_listed a k (Some t) (r # rs) db = release_listed a (Suc k) (Some t) rs (released_db s r t db)"
      using s(1,2) del by (simp add: q_GetStockByProductIDForUpdate_def)
    show ?thesis
    proof (cases "release_listed a (Suc k) (Some t) rs (released_db s r t db)")
      case (Inl e)
      then show ?thesis
        using Cons.IH [OF s(3) rest, of "Suc k"] step by (simp add: order_release_served_Suc)
    next
      case (Inr db')
      then have IH: "stock_inv db'" "totals db' = totals db"
        "reservations db' = filter (\<lambda>v. rv_key v \<notin> rv_key ` set rs) (reservations (released_db s r t db))"
        "available (ledger_of db') =
           (\<lambda>pid. map_option (\<lambda>n. n + reserved_sum pid rs) (available (ledger_of (released_db s r t db)) pid))"
        using Cons.IH [OF s(3) rest, of "Suc k"] s(4) by simp_all
      have "reservations db' = filter (\<lambda>v. rv_key v \<notin> rv_key ` set (r # rs)) (reservations db)"
        unfolding IH(3) released_db_def by (auto simp: filter_filter intro: filter_cong)
      moreover have "available (ledger_of db') =
          (\<lambda>pid. map_option (\<lambda>n. n + reserved_sum pid (r # rs)) (available (ledger_of db) pid))"
        unfolding IH(4) s(5) using av by (auto simp: fun_eq_iff)
      ultimately show ?thesis using step Inr IH(1,2) by simp
    qed
  next
    case False
    then have f: "\<not> (fault_at a (''GetStockByProductIDForUpdate'', k) = Served \<and>
        fault_at a (''ReleaseInventoryStock'', k) = Served \<and> fault_at a (''DeleteInventoryReservation'', k) = Served)"
      using order_release_served_Suc [of a k 0] by (auto simp: order_release_served_def [of a "Suc k" 0])
    then have "\<exists>e. release_listed a k (Some t) (r # rs) db = Inl e"
      using s(2) del by (auto simp: exec_def split: fault.splits sum.splits)
    then show ?thesis using f by (auto simp: order_release_served_Suc)
  qed
qed

lemma reserved_sum_sum_mset:
  "reserved_sum pid xs = sum_mset (image_mset rvQuantity (filter_mset (\<lambda>r. rvProductID r = pid) (mset xs)))"
  by (simp add: reserved_sum_def flip: mset_filter mset_map sum_mset_sum_list)

lemma reserved_sum_mset: "mset xs = mset ys \<Longrightarrow> reserved_sum pid xs = reserved_sum pid ys"
  by (simp add: reserved_sum_sum_mset)

lemma reserved_sum_order:
  "distinct (map rv_key xs) \<Longrightarrow>
     reserved_sum pid (filter (\<lambda>r. rvOrderID r = oid) xs) =
     (case find (\<lambda>r. rv_key r = (pid, oid)) xs of None \<Rightarrow> 0 | Some r \<Rightarrow> rvQuantity r)"
proof (induction xs)
  case (Cons r xs)
  have none: "find (\<lambda>r. rv_key r = (pid, oid)) xs = None" if "rv_key r = (pid, oid)"
    using Cons.prems that by (auto simp: find_key_None_iff)
  then show ?case using Cons by (auto simp: rv_key_def)
qed simp

lemma find_filter_order:
  "find (\<lambda>r. rv_key r = (p, o')) (filter (\<lambda>r. rvOrderID r \<noteq> oid) xs) =
     (if o' = oid then None else find (\<lambda>r. rv_key r = (p, o')) xs)"
  by (induction xs) (auto simp: rv_key_def)

text \<open>What an order holds. The tables may have changed since the list, but not this.\<close>

definition order_rows :: "string \<Rightarrow> inventory_db \<Rightarrow> reservation_row set" where
  "order_rows oid db = {r \<in> set (reservations db). rvOrderID r = oid}"

lemma listed_order_rows:
  assumes "stock_inv listed" "stock_inv db" "order_rows oid listed = order_rows oid db"
  shows "mset (q_ListReservationsByOrderID coll oid listed) = mset (filter (\<lambda>r. rvOrderID r = oid) (reservations db))"
proof -
  have "distinct (filter (\<lambda>r. rvOrderID r = oid) (reservations d))" if "stock_inv d" for d
    using stock_invD(2) [OF that] by (auto simp: distinct_map)
  moreover have "set (filter (\<lambda>r. rvOrderID r = oid) (reservations listed)) = set (filter (\<lambda>r. rvOrderID r = oid) (reservations db))"
    using assms(3) by (simp add: order_rows_def)
  ultimately have "mset (filter (\<lambda>r. rvOrderID r = oid) (reservations listed)) =
      mset (filter (\<lambda>r. rvOrderID r = oid) (reservations db))"
    using assms(1,2) set_eq_iff_mset_eq_distinct by blast
  then show ?thesis by (simp add: q_ListReservationsByOrderID_def)
qed

lemma tx_ReleaseReservations_moves:
  assumes inv: "stock_inv db" and listed: "stock_inv listed" "order_rows oid listed = order_rows oid db"
  shows "case tx_ReleaseReservationsByOrderID coll a oid listed db of
      Inl _ \<Rightarrow> \<exists>site. fault_at a site \<noteq> Served
    | Inr (u, db') \<Rightarrow> stock_inv db' \<and> totals db' = totals db \<and> ledger_of db' = l_release_order oid (ledger_of db)"
proof -
  define rs where "rs = q_ListReservationsByOrderID coll oid listed"
  have ms: "mset rs = mset (filter (\<lambda>r. rvOrderID r = oid) (reservations db))"
    unfolding rs_def by (rule listed_order_rows [OF listed(1) inv listed(2)])
  then have set: "set rs = {r \<in> set (reservations db). rvOrderID r = oid}"
    using mset_eq_setD [OF ms] by auto
  have "distinct (map rv_key (filter (\<lambda>r. rvOrderID r = oid) (reservations db)))"
    using stock_invD(2) [OF inv] by (simp add: distinct_map_filter)
  moreover have "mset (map rv_key rs) = mset (map rv_key (filter (\<lambda>r. rvOrderID r = oid) (reservations db)))"
    using ms by simp
  ultimately have dist: "distinct (map rv_key rs)" using mset_eq_imp_distinct_iff by blast
  have sums: "reserved_sum pid rs = held (ledger_of db) pid oid" for pid
    using reserved_sum_mset [OF ms] reserved_sum_order [OF stock_invD(2) [OF inv]] by (simp add: ledger_of_def)
  have held: "held (ledger_of db') = held (l_release_order oid (ledger_of db))"
    if "reservations db' = filter (\<lambda>v. rv_key v \<notin> rv_key ` set rs) (reservations db)" for db'
  proof -
    have "rv_key v \<in> rv_key ` set rs \<longleftrightarrow> rvOrderID v = oid" if "v \<in> set (reservations db)" for v
      using that stock_invD(2) [OF inv] unfolding set by (auto simp: distinct_map dest: inj_onD)
    then have "reservations db' = filter (\<lambda>v. rvOrderID v \<noteq> oid) (reservations db)"
      unfolding that by (auto intro: filter_cong)
    then show ?thesis by (auto simp: ledger_of_def l_release_order_def find_filter_order fun_eq_iff)
  qed
  show ?thesis
  proof (cases "fault_at a (''Begin'', 0) = Served \<and> fault_at a (''ListReservationsByOrderID'', 0) = Served")
    case False
    then show ?thesis
      by (auto simp: tx_ReleaseReservationsByOrderID_def exec_def split: fault.splits)
  next
    case True
    show ?thesis
    proof (cases "rs = []")
      case True
      with sums have "held (ledger_of db) pid oid = 0" for pid by simp
      then have "ledger_of db = l_release_order oid (ledger_of db)"
        by (simp add: l_release_order_def option.map_ident fun_eq_iff)
      then show ?thesis
        using True \<open>_ \<and> _\<close> inv by (simp add: tx_ReleaseReservationsByOrderID_def rs_def)
    next
      case False
      note M = release_listed_moves [OF inv _ dist, of a 0 "clock_at a ''now''"]
      show ?thesis
        using M True False set held sums
        by (auto simp: tx_ReleaseReservationsByOrderID_def rs_def [symmetric] order_release_served_def
            l_release_order_def split: sum.splits)
    qed
  qed
qed

lemma pg_ReleaseReservations_moves:
  assumes inv: "stock_inv db" and listed: "stock_inv listed" "order_rows (TrimSpace oid) listed = order_rows (TrimSpace oid) db"
    and p: "pg_ReleaseReservationsByOrderID coll a oid listed db = (res, db')"
  shows "moves (Inr (l_release_order (TrimSpace oid) (ledger_of db))) res db db'"
proof (cases "TrimSpace oid = []")
  case True
  then show ?thesis using p by (auto simp: pg_ReleaseReservationsByOrderID_def moves_def)
next
  case False
  have "stock_inv db2 \<and> totals db2 = totals db \<and> l_release_order (TrimSpace oid) (ledger_of db) = ledger_of db2"
    if "tx_ReleaseReservationsByOrderID coll a (TrimSpace oid) listed db = Inr (x, db2)" for x db2
    using tx_ReleaseReservations_moves [OF inv listed, where coll = coll and a = a] that by simp
  then show ?thesis
    using p False by (auto simp: pg_ReleaseReservationsByOrderID_def Let_def intro!: commit_moves)
qed

lemma pg_ReleaseReservations_served:
  assumes inv: "stock_inv db" and a: "\<And>site. fault_at a site = Served" and oid: "TrimSpace oid \<noteq> []"
  shows "\<exists>db'. pg_ReleaseReservationsByOrderID coll a oid db db = (Inr (), db') \<and>
    ledger_of db' = l_release_order (TrimSpace oid) (ledger_of db) \<and> stock_inv db'"
  using tx_ReleaseReservations_moves [OF inv inv refl, where coll = coll and a = a and oid = "TrimSpace oid"] a oid
  by (auto simp: pg_ReleaseReservationsByOrderID_def Let_def commit_tx_def split: sum.splits)

end
