(* ===== verification/Inventory_Properties.thy ===== *)
theory Inventory_Properties
  imports Inventory_Ledger
begin

text \<open>
  The inventory service over any repository that keeps a ledger (the locale
  \<open>stock_repository\<close>), the PostgreSQL repository as one beside honest other clients, and what
  follows: stock is never oversold or lost, and the operations implement the ledger.
\<close>

section \<open>The contract of a stock repository\<close>

text \<open>
  \<open>view s\<close> is the ledger of the state, \<open>sees s l\<close> that a call made in state \<open>s\<close> finds the
  ledger \<open>l\<close> (other clients may have moved stock since). Only the orders of \<open>own\<close> may be
  released as a whole: nobody else changes what they hold.
\<close>

definition lmoves :: "('e + ledger) \<Rightarrow> (inventory_error + 'a) \<Rightarrow> ledger \<Rightarrow> ledger \<Rightarrow> bool" where
  "lmoves spec res l l' \<longleftrightarrow>
     l' = l \<and> (\<forall>x. res \<noteq> Inr x) \<or>
     spec = Inr l' \<and> ((\<exists>x. res = Inr x) \<or> (\<exists>m. res = Inl (InventoryInternal m)))"

locale stock_repository =
  fixes repo :: "'s inventory_repo" and inv :: "'s \<Rightarrow> bool" and view :: "'s \<Rightarrow> ledger"
    and sees :: "'s \<Rightarrow> ledger \<Rightarrow> bool" and own :: "string set"
  assumes get: "inv s \<Longrightarrow> rGetStockByProductID repo pid s = (g, s') \<Longrightarrow> inv s' \<and> sees s (view s')"
    and reserve: "inv s \<Longrightarrow> rReserveStock repo r s = (g, s') \<Longrightarrow> inv s' \<and>
      (\<exists>l. sees s l \<and> lmoves (l_reserve (resProductID r) (resOrderID r) (resQuantity r) l) g l (view s'))"
    and release: "inv s \<Longrightarrow> rReleaseStock repo r s = (g, s') \<Longrightarrow> inv s' \<and>
      (\<exists>l. sees s l \<and> lmoves (l_release (resProductID r) (resOrderID r) (resQuantity r) l) g l (view s'))"
    and release_order: "inv s \<Longrightarrow> TrimSpace oid \<in> own \<Longrightarrow> rReleaseReservationsByOrderID repo oid s = (u, s') \<Longrightarrow> inv s' \<and>
      (\<exists>l. sees s l \<and> lmoves (Inr (l_release_order (TrimSpace oid) l) :: unit + ledger) u l (view s'))"

text \<open>The calls of the service.\<close>

datatype inventory_call =
    GetStockCall string
  | ReserveCall stock_reservation
  | ReleaseCall stock_reservation
  | ReleaseOrderCall string

fun run_icall :: "'s inventory_repo \<Rightarrow> inventory_call \<Rightarrow> 's \<Rightarrow> 's" where
  "run_icall repo (GetStockCall pid) s = snd (isvc_GetStockByProductID repo pid s)"
| "run_icall repo (ReserveCall r) s = snd (isvc_ReserveStock repo r s)"
| "run_icall repo (ReleaseCall r) s = snd (isvc_ReleaseStock repo r s)"
| "run_icall repo (ReleaseOrderCall oid) s = snd (isvc_ReleaseReservationsByOrderID repo oid s)"

fun releases_own :: "string set \<Rightarrow> inventory_call \<Rightarrow> bool" where
  "releases_own own (ReleaseOrderCall oid) \<longleftrightarrow> TrimSpace oid \<in> own"
| "releases_own own _ \<longleftrightarrow> True"

context stock_repository
begin

lemma run_icall_inv: "inv s \<Longrightarrow> releases_own own c \<Longrightarrow> inv (run_icall repo c s)"
proof (cases c)
  case (GetStockCall pid)
  then show "inv s \<Longrightarrow> ?thesis"
    using get [of s pid] by (cases "rGetStockByProductID repo pid s") (auto simp: isvc_GetStockByProductID_def)
next
  case (ReserveCall r)
  then show "inv s \<Longrightarrow> ?thesis"
    using reserve [of s r] by (cases "rReserveStock repo r s") (auto simp: isvc_ReserveStock_def split: option.splits)
next
  case (ReleaseCall r)
  then show "inv s \<Longrightarrow> ?thesis"
    using release [of s r] by (cases "rReleaseStock repo r s") (auto simp: isvc_ReleaseStock_def split: option.splits)
next
  case (ReleaseOrderCall oid)
  then show "inv s \<Longrightarrow> releases_own own c \<Longrightarrow> ?thesis"
    using release_order [of s oid]
    by (cases "rReleaseReservationsByOrderID repo oid s") (auto simp: isvc_ReleaseReservationsByOrderID_def)
qed

lemma run_icalls_inv: "inv s \<Longrightarrow> list_all (releases_own own) cs \<Longrightarrow> inv (fold (run_icall repo) cs s)"
  by (induction cs arbitrary: s) (auto dest: run_icall_inv)

end

section \<open>The PostgreSQL repository\<close>

text \<open>Other clients that do not change what the given orders hold, whatever else they do.\<close>

definition others_leave :: "string set \<Rightarrow> (inventory_db, 'm) world_scheme \<Rightarrow> bool" where
  "others_leave own w \<longleftrightarrow> (\<forall>i db. stock_inv db \<longrightarrow> (\<forall>oid\<in>own. order_rows oid (others w i db) = order_rows oid db))"

lemma others_leave_alone: "alone w \<Longrightarrow> others_leave own w"
  by (simp add: others_leave_def alone_def)

definition istore_inv :: "(string \<times> int) list \<Rightarrow> string set \<Rightarrow> (inventory_db, 'm) world_scheme \<Rightarrow> bool" where
  "istore_inv ts own w \<longleftrightarrow>
     stock_inv (tables w) \<and> totals (tables w) = ts \<and> others_keep (\<lambda>db. stock_inv db \<and> totals db = ts) w \<and>
     others_leave own w"

definition iview :: "(inventory_db, 'm) world_scheme \<Rightarrow> ledger" where
  "iview w = ledger_of (tables w)"

text \<open>The ledger at the first look, or for a method with two looks at the second.\<close>

definition isees :: "(inventory_db, 'm) world_scheme \<Rightarrow> ledger \<Rightarrow> bool" where
  "isees w l \<longleftrightarrow> l = ledger_of (found w) \<or> l = ledger_of (found_next w)"

lemma istore_found: "istore_inv ts own w \<Longrightarrow> stock_inv (found w) \<and> totals (found w) = ts"
  using others_keep_found [of "\<lambda>db. stock_inv db \<and> totals db = ts" w] by (auto simp: istore_inv_def)

lemma istore_found_next: "istore_inv ts own w \<Longrightarrow> stock_inv (found_next w) \<and> totals (found_next w) = ts"
  using others_keep_found_next [of "\<lambda>db. stock_inv db \<and> totals db = ts" w] by (auto simp: istore_inv_def)

lemma moves_attempt:
  assumes inv: "istore_inv ts own w" and f: "with_attempt f w = (g, w')"
    and m: "\<And>a db g db'. stock_inv db \<Longrightarrow> f a db = (g, db') \<Longrightarrow> moves (spec (ledger_of db)) g db db'"
  shows "istore_inv ts own w' \<and> (\<exists>l. isees w l \<and> lmoves (spec l) g l (iview w'))"
proof -
  obtain db' where d: "f (the_attempt w) (found w) = (g, db')" and w': "w' = w\<lparr>tables := db', calls := Suc (calls w)\<rparr>"
    using f by (auto simp: with_attempt_eq)
  have "moves (spec (ledger_of (found w))) g (found w) db'" using istore_found [OF inv] m [OF _ d] by simp
  then show ?thesis
    using istore_found [OF inv] inv
    by (auto simp: w' moves_def lmoves_def istore_inv_def iview_def isees_def others_leave_def)
qed

interpretation pg_stock: stock_repository "pg_inventory_repo coll" "istore_inv ts own" iview isees own
  for coll :: "string \<Rightarrow> 'k::linorder" and ts :: "(string \<times> int) list" and own :: "string set"
proof
  fix w w' :: "(inventory_db, 'm) world_scheme" and pid oid r g u
  assume inv: "istore_inv ts own w"
  show "istore_inv ts own w' \<and> isees w (iview w')" if "rGetStockByProductID (pg_inventory_repo coll) pid w = (g, w')"
    using that istore_found [OF inv] inv
    by (auto simp: pg_inventory_repo_def with_read_eq istore_inv_def isees_def iview_def others_leave_def)
  show "istore_inv ts own w' \<and> (\<exists>l. isees w l \<and>
      lmoves (l_reserve (resProductID r) (resOrderID r) (resQuantity r) l) g l (iview w'))"
    if "rReserveStock (pg_inventory_repo coll) r w = (g, w')"
    by (rule moves_attempt [OF inv]) (use that pg_ReserveStock_moves in \<open>auto simp: pg_inventory_repo_def\<close>)
  show "istore_inv ts own w' \<and> (\<exists>l. isees w l \<and>
      lmoves (l_release (resProductID r) (resOrderID r) (resQuantity r) l) g l (iview w'))"
    if "rReleaseStock (pg_inventory_repo coll) r w = (g, w')"
    by (rule moves_attempt [OF inv]) (use that pg_ReleaseStock_moves in \<open>auto simp: pg_inventory_repo_def\<close>)
  show "istore_inv ts own w' \<and> (\<exists>l. isees w l \<and>
      lmoves (Inr (l_release_order (TrimSpace oid) l) :: unit + ledger) u l (iview w'))"
    if own: "TrimSpace oid \<in> own" and rel: "rReleaseReservationsByOrderID (pg_inventory_repo coll) oid w = (u, w')"
  proof -
    obtain db' where d: "pg_ReleaseReservationsByOrderID coll (the_attempt w) oid (found w) (found_next w) = (u, db')"
      and w': "w' = w\<lparr>tables := db', calls := Suc (Suc (calls w))\<rparr>"
      using rel by (auto simp: pg_inventory_repo_def with_read_attempt_eq)
    note F = istore_found [OF inv] and G = istore_found_next [OF inv]
    have "order_rows (TrimSpace oid) (found w) = order_rows (TrimSpace oid) (found_next w)"
      using inv F own by (simp add: istore_inv_def others_leave_def found_next_def)
    with pg_ReleaseReservations_moves [OF _ _ _ d] F G
    have "moves (Inr (l_release_order (TrimSpace oid) (ledger_of (found_next w))) :: inventory_error + ledger) u (found_next w) db'"
      by blast
    then show ?thesis
      using G inv by (auto simp: w' moves_def lmoves_def istore_inv_def iview_def isees_def others_leave_def)
  qed
qed

section \<open>Stock is never oversold or lost\<close>


definition sample_stock :: inventory_db where
  "sample_stock =
     \<lparr>stocks = [\<lparr>skProductID = ''p1'', skAvailable = 7, skReserved = 3, skTotal = 10, skCreatedAt = Some 0, skUpdatedAt = Some 0\<rparr>,
                \<lparr>skProductID = ''p2'', skAvailable = 2, skReserved = 0, skTotal = 2, skCreatedAt = Some 0, skUpdatedAt = Some 0\<rparr>],
      reservations = [\<lparr>rvProductID = ''p1'', rvOrderID = ''o1'', rvQuantity = 3, rvCreatedAt = Some 0, rvUpdatedAt = Some 0\<rparr>]\<rparr>"

lemma sample_stock_inv [simp]: "stock_inv sample_stock"
  by (simp add: sample_stock_def stock_inv_def inventory_db_inv_def balanced_def stock_row_ok_def is_int64_def)

abbreviation sample_inventory :: "(inventory_db, 'm) world_scheme inventory_repo" where
  "sample_inventory \<equiv> pg_inventory_repo (\<lambda>_. 0 :: nat)"


section \<open>The service implements the ledger\<close>

text \<open>A world with only this client, in which no call fails.\<close>

definition served_alone :: "(inventory_db, 'm) world_scheme \<Rightarrow> bool" where
  "served_alone w \<longleftrightarrow> alone w \<and> all_served w \<and> stock_inv (tables w)"

lemma served_alone_update [simp]:
  "served_alone (w\<lparr>tables := db, calls := n\<rparr>) \<longleftrightarrow> alone w \<and> all_served w \<and> stock_inv db"
  by (simp add: served_alone_def)

lemma validate_same: "validateReservationRequest r = validateStockReservation r"
  by (auto simp: validateReservationRequest_def validateStockReservation_def)

definition valid_reservation :: "stock_reservation \<Rightarrow> bool" where
  "valid_reservation r \<longleftrightarrow> TrimSpace (resProductID r) \<noteq> [] \<and> TrimSpace (resOrderID r) \<noteq> [] \<and> 0 < resQuantity r"

lemma valid_reservation_iff [simp]: "validateStockReservation r = None \<longleftrightarrow> valid_reservation r"
  by (auto simp: valid_reservation_def validateStockReservation_def)

lemma valid_reservation_request [simp]: "valid_reservation r \<Longrightarrow> validateReservationRequest r = None"
  by (simp add: validate_same)

lemma service_attempt:
  assumes w: "served_alone w" and f: "case spec of Inl e \<Rightarrow> f (the_attempt w) (tables w) = (Inl e, tables w)
      | Inr l \<Rightarrow> \<exists>x db'. f (the_attempt w) (tables w) = (Inr x, db') \<and> ledger_of db' = l \<and> stock_inv db'"
  shows "case spec of
      Inl e \<Rightarrow> \<exists>w'. with_attempt f w = (Inl e, w') \<and> tables w' = tables w \<and> served_alone w'
    | Inr l \<Rightarrow> \<exists>x w'. with_attempt f w = (Inr x, w') \<and> iview w' = l \<and> served_alone w'"
proof -
  have "found w = tables w" using w by (simp add: served_alone_def alone_found)
  then show ?thesis
    using f w by (auto simp: with_attempt_def iview_def served_alone_def alone_def all_served_def split: sum.splits)
qed

lemma reserve_served:
  assumes "served_alone w" "valid_reservation r"
  shows "case l_reserve (resProductID r) (resOrderID r) (resQuantity r) (iview w) of
      Inl e \<Rightarrow> \<exists>w'. isvc_ReserveStock (pg_inventory_repo coll) r w = (Inl e, w') \<and> tables w' = tables w \<and> served_alone w'
    | Inr l \<Rightarrow> \<exists>x w'. isvc_ReserveStock (pg_inventory_repo coll) r w = (Inr x, w') \<and> iview w' = l \<and> served_alone w'"
proof -
  have inv: "stock_inv (tables w)" "\<And>site. fault_at (the_attempt w) site = Served"
    using assms(1) by (simp_all add: served_alone_def)
  have service: "isvc_ReserveStock (pg_inventory_repo coll) r w = with_attempt (\<lambda>a. pg_ReserveStock a r) w"
    using assms(2) by (simp add: isvc_ReserveStock_def pg_inventory_repo_def)
  show ?thesis
    using service_attempt [where f = "\<lambda>a. pg_ReserveStock a r", OF assms(1) pg_ReserveStock_served [OF inv(1) _ inv(2), of r]] assms(2)
    unfolding service iview_def by simp
qed

lemma release_served:
  assumes "served_alone w" "valid_reservation r"
  shows "case l_release (resProductID r) (resOrderID r) (resQuantity r) (iview w) of
      Inl e \<Rightarrow> \<exists>w'. isvc_ReleaseStock (pg_inventory_repo coll) r w = (Inl e, w') \<and> tables w' = tables w \<and> served_alone w'
    | Inr l \<Rightarrow> \<exists>x w'. isvc_ReleaseStock (pg_inventory_repo coll) r w = (Inr x, w') \<and> iview w' = l \<and> served_alone w'"
proof -
  have inv: "stock_inv (tables w)" "\<And>site. fault_at (the_attempt w) site = Served"
    using assms(1) by (simp_all add: served_alone_def)
  have service: "isvc_ReleaseStock (pg_inventory_repo coll) r w = with_attempt (\<lambda>a. pg_ReleaseStock a r) w"
    using assms(2) by (simp add: isvc_ReleaseStock_def pg_inventory_repo_def)
  show ?thesis
    using service_attempt [where f = "\<lambda>a. pg_ReleaseStock a r", OF assms(1) pg_ReleaseStock_served [OF inv(1) _ inv(2), of r]] assms(2)
    unfolding service iview_def by simp
qed

lemma release_order_served:
  assumes "served_alone w" "TrimSpace oid \<noteq> []"
  shows "\<exists>w'. isvc_ReleaseReservationsByOrderID (pg_inventory_repo coll) oid w = (Inr (), w') \<and>
    iview w' = l_release_order (TrimSpace oid) (iview w) \<and> served_alone w'"
proof -
  have inv: "stock_inv (tables w)" "\<And>site. fault_at (the_attempt w) site = Served"
    using assms(1) by (simp_all add: served_alone_def)
  have "found w = tables w" "found_next w = tables w"
    using assms(1) by (simp_all add: served_alone_def alone_found alone_found_next)
  then show ?thesis
    using pg_ReleaseReservations_served [OF inv(1) inv(2) assms(2), of coll] assms
    by (auto simp: isvc_ReleaseReservationsByOrderID_def pg_inventory_repo_def iview_def with_read_attempt_eq served_alone_def)
qed

text \<open>
  C22: The inventory service refines the ledger: for a valid reservation, on a served database,
  \<open>ReserveStock\<close> and \<open>ReleaseStock\<close> succeed exactly when the ledger's move does, return the
  ledger's error otherwise with no table changed, and the tables they leave abstract to the
  ledger after the move.
\<close>
theorem inventory_refines_ledger:
  assumes "served_alone w" "valid_reservation r" "repo = pg_inventory_repo coll"
  shows "(case l_reserve (resProductID r) (resOrderID r) (resQuantity r) (iview w) of
      Inl e \<Rightarrow> \<exists>w'. isvc_ReserveStock repo r w = (Inl e, w') \<and> tables w' = tables w
    | Inr l \<Rightarrow> \<exists>x w'. isvc_ReserveStock repo r w = (Inr x, w') \<and> iview w' = l) \<and>
    (case l_release (resProductID r) (resOrderID r) (resQuantity r) (iview w) of
      Inl e \<Rightarrow> \<exists>w'. isvc_ReleaseStock repo r w = (Inl e, w') \<and> tables w' = tables w
    | Inr l \<Rightarrow> \<exists>x w'. isvc_ReleaseStock repo r w = (Inr x, w') \<and> iview w' = l)"
  using reserve_served [OF assms(1,2), of coll] release_served [OF assms(1,2), of coll]
  unfolding assms(3) by (auto split: sum.splits)

lemma sample_served [simp]: "served_alone (calm_world sample_stock t)"
  by (simp add: served_alone_def)

lemma sample_available: "iview (calm_world sample_stock t) =
    \<lparr>available = [''p1'' \<mapsto> 7, ''p2'' \<mapsto> 2], held = (\<lambda>p o'. if p = ''p1'' \<and> o' = ''o1'' then 3 else 0)\<rparr>"
  by (auto simp: iview_def ledger_of_def sample_stock_def rv_key_def fun_eq_iff)

theorem inventory_refines_ledger_witness:
  "\<exists>x w'. isvc_ReserveStock sample_inventory \<lparr>resProductID = ''p1'', resOrderID = ''o2'', resQuantity = 4\<rparr>
       (calm_world sample_stock 1000) = (Inr x, w') \<and> available (iview w') ''p1'' = Some 3"
  using inventory_refines_ledger [OF sample_served _ refl, of
      "\<lparr>resProductID = ''p1'', resOrderID = ''o2'', resQuantity = 4\<rparr>" "\<lambda>_. 0 :: nat" 1000]
  by (auto simp: valid_reservation_def sample_available l_reserve_def)

text \<open>
  C23: A reservation can be undone: \<open>ReleaseStock\<close> of what \<open>ReserveStock\<close> has just reserved
  restores the ledger exactly, also when the order already held some of the product.
\<close>
theorem reserve_release_roundtrip:
  assumes "served_alone w" "repo = pg_inventory_repo coll"
    and "isvc_ReserveStock repo r w = (Inr x, w1)"
  shows "\<exists>y w2. isvc_ReleaseStock repo r w1 = (Inr y, w2) \<and> iview w2 = iview w"
proof -
  have v: "valid_reservation r"
    using assms(3) by (auto simp: isvc_ReserveStock_def validate_same split: option.splits)
  then obtain l where l: "l_reserve (resProductID r) (resOrderID r) (resQuantity r) (iview w) = Inr l"
    "iview w1 = l" "served_alone w1"
    using reserve_served [OF assms(1) v, of coll] assms(2,3) by (auto split: sum.splits)
  have "0 \<le> held (iview w) (resProductID r) (resOrderID r)"
    using stock_invD(5) [of "tables w"] assms(1)
    by (force simp: iview_def ledger_of_def served_alone_def dest: find_Some_in split: option.splits)
  then have "l_release (resProductID r) (resOrderID r) (resQuantity r) (iview w1) = Inr (iview w)"
    using l_release_reserve [OF l(1)] l(2) by simp
  then show ?thesis using release_served [OF l(3) v, of coll] assms(2) by auto
qed

theorem reserve_release_roundtrip_witness:
  "\<exists>x w1 y w2. isvc_ReserveStock sample_inventory \<lparr>resProductID = ''p1'', resOrderID = ''o1'', resQuantity = 2\<rparr>
       (calm_world sample_stock 1000) = (Inr x, w1) \<and>
     isvc_ReleaseStock sample_inventory \<lparr>resProductID = ''p1'', resOrderID = ''o1'', resQuantity = 2\<rparr> w1 = (Inr y, w2) \<and>
     available (iview w2) ''p1'' = Some 7"
proof -
  obtain x w1 where c: "isvc_ReserveStock sample_inventory \<lparr>resProductID = ''p1'', resOrderID = ''o1'', resQuantity = 2\<rparr>
       (calm_world sample_stock 1000) = (Inr x, w1)"
    using reserve_served [OF sample_served, of "\<lparr>resProductID = ''p1'', resOrderID = ''o1'', resQuantity = 2\<rparr>" "\<lambda>_. 0 :: nat" 1000]
    by (auto simp: valid_reservation_def sample_available l_reserve_def)
  from reserve_release_roundtrip [OF sample_served refl c] c show ?thesis by (auto simp: sample_available)
qed

text \<open>
  Cancelling an order gives back all of its stock and nothing else: on a served database
  \<open>ReleaseReservationsByOrderID\<close> makes every quantity the order held available again, leaves
  the order with none, and does not touch what other orders hold.
\<close>
theorem release_order_returns_all:
  assumes "served_alone w" "TrimSpace oid = oid" "oid \<noteq> []"
  shows "\<exists>w'. isvc_ReleaseReservationsByOrderID (pg_inventory_repo coll) oid w = (Inr (), w') \<and>
    (\<forall>pid. available (iview w') pid = map_option (\<lambda>n. n + held (iview w) pid oid) (available (iview w) pid)) \<and>
    (\<forall>pid. held (iview w') pid oid = 0) \<and>
    (\<forall>pid o'. o' \<noteq> oid \<longrightarrow> held (iview w') pid o' = held (iview w) pid o')"
  using release_order_served [OF assms(1), of oid coll] assms(2,3) by (auto simp: l_release_order_def)

theorem release_order_returns_all_witness:
  "\<exists>w'. isvc_ReleaseReservationsByOrderID sample_inventory ''o1'' (calm_world sample_stock 1000) = (Inr (), w') \<and>
     available (iview w') ''p1'' = Some 10"
  using release_order_returns_all [OF sample_served, of "''o1''" "\<lambda>_. 0 :: nat" 1000]
  by (auto simp: sample_available)

section \<open>Two releases of the same order\<close>

text \<open>
  \<open>ReleaseReservationsByOrderID\<close> lists the reservations without locking them, and trusts the
  quantities it listed.
\<close>

definition contested_stock :: inventory_db where
  "contested_stock =
     \<lparr>stocks = [\<lparr>skProductID = ''p1'', skAvailable = 4, skReserved = 6, skTotal = 10, skCreatedAt = Some 0, skUpdatedAt = Some 0\<rparr>],
      reservations = [\<lparr>rvProductID = ''p1'', rvOrderID = ''o1'', rvQuantity = 3, rvCreatedAt = Some 0, rvUpdatedAt = Some 0\<rparr>,
                      \<lparr>rvProductID = ''p1'', rvOrderID = ''o2'', rvQuantity = 3, rvCreatedAt = Some 0, rvUpdatedAt = Some 0\<rparr>]\<rparr>"

definition contested_world :: "inventory_db world" where
  "contested_world = calm_world contested_stock 2000
     \<lparr>others := (\<lambda>i db. if i = 1 then snd (pg_ReleaseReservationsByOrderID (\<lambda>_. 0 :: nat) (calm 1000) ''o1'' db db) else db)\<rparr>"

lemma contested_world_simps [simp]:
  "tables contested_world = contested_stock" "calls contested_world = 0" "attempts contested_world = (\<lambda>_. calm 2000)"
  by (simp_all add: contested_world_def calm_world_def)

lemma contested_others:
  "others contested_world 0 db = db"
  "others contested_world (Suc 0) db = snd (pg_ReleaseReservationsByOrderID (\<lambda>_. 0 :: nat) (calm 1000) ''o1'' db db)"
  by (simp_all add: contested_world_def)

text \<open>
  Two concurrent releases of one order free another order's stock. When the other client
  releases the same order between the list and the row locks, both succeed: the quantity is
  returned twice, and the reserved quantity of the product no longer covers the reservations
  that remain. The other client keeps the invariant; what it does not do is leave the order alone.
\<close>
theorem concurrent_releases_free_twice:
  "stock_inv (tables contested_world) \<and>
   others_keep (\<lambda>db. stock_inv db \<and> totals db = totals (tables contested_world)) contested_world \<and>
   (\<exists>w'. isvc_ReleaseReservationsByOrderID sample_inventory ''o1'' contested_world = (Inr (), w') \<and>
      available (iview w') ''p1'' = Some 10 \<and> held (iview w') ''p1'' ''o2'' = 3 \<and> \<not> stock_inv (tables w'))"
proof (intro conjI)
  show "stock_inv (tables contested_world)"
    by (simp add: contested_stock_def stock_inv_def inventory_db_inv_def balanced_def stock_row_ok_def is_int64_def)
  have "stock_inv db' \<and> totals db' = totals db"
    if "pg_ReleaseReservationsByOrderID (\<lambda>_. 0 :: nat) (calm 1000) ''o1'' db db = (u, db')" "stock_inv db" for u db db'
    using pg_ReleaseReservations_moves [OF that(2,2) refl that(1)] that(2) by (auto simp: moves_def)
  then show "others_keep (\<lambda>db. stock_inv db \<and> totals db = totals (tables contested_world)) contested_world"
    by (auto simp: others_keep_def contested_world_def prod_eq_iff)
  show "\<exists>w'. isvc_ReleaseReservationsByOrderID sample_inventory ''o1'' contested_world = (Inr (), w') \<and>
      available (iview w') ''p1'' = Some 10 \<and> held (iview w') ''p1'' ''o2'' = 3 \<and> \<not> stock_inv (tables w')"
    by (simp add: isvc_ReleaseReservationsByOrderID_def pg_inventory_repo_def with_read_attempt_def Let_def found_def
        the_attempt_def contested_others contested_stock_def stock_inv_def inventory_db_inv_def balanced_def stock_row_ok_def
        is_int64_def pg_ReleaseReservationsByOrderID_def tx_ReleaseReservationsByOrderID_def q_ListReservationsByOrderID_def
        q_GetStockByProductIDForUpdate_def q_ReleaseInventoryStock_def move_stock_def check_stock_def
        q_DeleteInventoryReservation_def commit_tx_def replace_row_def rv_key_def iview_def ledger_of_def pg_micros_def)
qed

end
