(* ===== verification/Inventory_Handler.thy ===== *)
theory Inventory_Handler
  imports Inventory_Properties Grpc
begin

text \<open>
  The gRPC surface of the inventory service (\<open>internal/inventory/handler/grpc.go\<close>). Log lines
  are not modelled.
\<close>

record pb_stock =
  psProductId :: string
  psAvailableQuantity :: int
  psReservedQuantity :: int
  psTotalQuantity :: int

record pb_stock_request =
  prProductId :: string
  prOrderId :: string
  prQuantity :: int

definition convertStockToProto :: "stock \<Rightarrow> pb_stock" where
  "convertStockToProto s =
     \<lparr>psProductId = sProductID s, psAvailableQuantity = sAvailableQuantity s,
      psReservedQuantity = sReservedQuantity s, psTotalQuantity = sTotalQuantity s\<rparr>"

definition mapInventoryError :: "inventory_error \<Rightarrow> grpc_status" where
  "mapInventoryError err =
     (if err = ErrInvalidStock then status_Error InvalidArgument (inventory_error_text err)
      else if err \<in> {ErrStockNotFound, ErrReservationNotFound}
        then status_Error NotFound (inventory_error_text err)
      else if err = ErrInsufficientStock then status_Error FailedPrecondition (inventory_error_text err)
      else status_Error InternalCode ''internal server error'')"

definition request_reservation :: "pb_stock_request \<Rightarrow> stock_reservation" where
  "request_reservation req =
     \<lparr>resProductID = prProductId req, resOrderID = prOrderId req, resQuantity = prQuantity req\<rparr>"

definition grpc_GetStockByProductID ::
    "'s inventory_repo \<Rightarrow> string \<Rightarrow> 's \<Rightarrow> (grpc_status + pb_stock) \<times> 's" where
  "grpc_GetStockByProductID repo productId s =
     respond mapInventoryError convertStockToProto (isvc_GetStockByProductID repo productId s)"

definition grpc_ReserveStock ::
    "'s inventory_repo \<Rightarrow> pb_stock_request \<Rightarrow> 's \<Rightarrow> (grpc_status + pb_stock) \<times> 's" where
  "grpc_ReserveStock repo req s =
     respond mapInventoryError convertStockToProto (isvc_ReserveStock repo (request_reservation req) s)"

definition grpc_ReleaseStock ::
    "'s inventory_repo \<Rightarrow> pb_stock_request \<Rightarrow> 's \<Rightarrow> (grpc_status + pb_stock) \<times> 's" where
  "grpc_ReleaseStock repo req s =
     respond mapInventoryError convertStockToProto (isvc_ReleaseStock repo (request_reservation req) s)"

section \<open>Which status a reservation gets\<close>

lemma invalid_reservation_request:
  "\<not> valid_reservation r \<Longrightarrow> validateReservationRequest r = Some ErrInvalidStock"
  by (auto simp: validateReservationRequest_def valid_reservation_def)

text \<open>What the ledger and the request say about the answer: \<open>None\<close> is success.\<close>

definition reserve_status :: "pb_stock_request \<Rightarrow> ledger \<Rightarrow> grpc_code option" where
  "reserve_status req l =
     (if TrimSpace (prProductId req) = [] \<or> TrimSpace (prOrderId req) = [] \<or> prQuantity req \<le> 0
      then Some InvalidArgument
      else case available l (prProductId req) of
             None \<Rightarrow> Some NotFound
           | Some n \<Rightarrow> if prQuantity req > n then Some FailedPrecondition else None)"

definition release_status :: "pb_stock_request \<Rightarrow> ledger \<Rightarrow> grpc_code option" where
  "release_status req l =
     (if TrimSpace (prProductId req) = [] \<or> TrimSpace (prOrderId req) = [] \<or> prQuantity req \<le> 0
      then Some InvalidArgument
      else if available l (prProductId req) = None \<or> held l (prProductId req) (prOrderId req) < prQuantity req
      then Some NotFound else None)"

text \<open>
  The status codes of the inventory service tell the caller what is wrong: on a served
  database \<open>ReserveStock\<close> answers \<open>InvalidArgument\<close> for a blank identifier or a quantity that
  is not positive, \<open>NotFound\<close> for an unknown product, \<open>FailedPrecondition\<close> when less is
  available, and otherwise succeeds; \<open>ReleaseStock\<close> answers \<open>NotFound\<close> when the order does not
  hold that much. A failed call changes no table.
\<close>
theorem inventory_handler_status:
  assumes "served_alone w" and "repo = pg_inventory_repo coll"
    and "grpc_ReserveStock repo req w = (r1, w1)" and "grpc_ReleaseStock repo req w = (r2, w2)"
  shows "(case reserve_status req (iview w) of
      Some c \<Rightarrow> (\<exists>st. r1 = Inl st \<and> code st = c) \<and> tables w1 = tables w
    | None \<Rightarrow> \<exists>x. r1 = Inr x) \<and>
    (case release_status req (iview w) of
      Some c \<Rightarrow> (\<exists>st. r2 = Inl st \<and> code st = c) \<and> tables w2 = tables w
    | None \<Rightarrow> \<exists>x. r2 = Inr x)"
proof (cases "valid_reservation (request_reservation req)")
  case False
  then have "reserve_status req (iview w) = Some InvalidArgument" "release_status req (iview w) = Some InvalidArgument"
    by (auto simp: valid_reservation_def request_reservation_def reserve_status_def release_status_def)
  then show ?thesis
    using assms(3,4) invalid_reservation_request [OF False]
    by (auto simp: grpc_ReserveStock_def grpc_ReleaseStock_def isvc_ReserveStock_def isvc_ReleaseStock_def
        mapInventoryError_def)
next
  case True
  then have v: "TrimSpace (prProductId req) \<noteq> []" "TrimSpace (prOrderId req) \<noteq> []" "\<not> prQuantity req \<le> 0"
    by (auto simp: valid_reservation_def request_reservation_def)
  show ?thesis
    using reserve_served [OF assms(1) True, of coll] release_served [OF assms(1) True, of coll] assms(3,4) v
    unfolding assms(2)
    by (auto simp: grpc_ReserveStock_def grpc_ReleaseStock_def reserve_status_def release_status_def
        l_reserve_def l_release_def request_reservation_def mapInventoryError_def split: option.splits if_splits)
qed

theorem inventory_handler_status_witness:
  "\<exists>st w1. grpc_ReserveStock sample_inventory \<lparr>prProductId = ''p1'', prOrderId = ''o2'', prQuantity = 8\<rparr>
     (calm_world sample_stock 1000) = (Inl st, w1) \<and> code st = FailedPrecondition \<and> tables w1 = sample_stock"
proof -
  let ?req = "\<lparr>prProductId = ''p1'', prOrderId = ''o2'', prQuantity = 8\<rparr>"
  obtain r1 w1 r2 w2 where c: "grpc_ReserveStock sample_inventory ?req (calm_world sample_stock 1000) = (r1, w1)"
    "grpc_ReleaseStock sample_inventory ?req (calm_world sample_stock 1000) = (r2, w2)" by fastforce
  from inventory_handler_status [OF sample_served refl c] c show ?thesis
    by (auto simp: reserve_status_def sample_available)
qed

end
