(* ===== verification/Event_Publisher.thy ===== *)
theory Event_Publisher
  imports Consumer
begin

text \<open>
  How the inventory and the payment service publish an event without an outbox: the payload
  in an envelope whose identifier is that of the cause with a time stamp, written to the topic
  of the writer with the order's identifier as its key (\<open>writeEvent\<close> in both
  \<open>kafka_publisher.go\<close>). One reading of the clock stands for the consecutive ones of the
  function. The marshalling of these structs cannot fail.
\<close>

definition event_envelope :: "time \<Rightarrow> string \<Rightarrow> string \<Rightarrow> json \<Rightarrow> ev_Envelope" where
  "event_envelope now eventType sourceEventID payload =
     \<lparr>en_EventID = sourceEventID @ '':'' @ itoa (UnixNano now), en_EventType = eventType,
      en_OccurredAt = RFC3339 0 now, en_Payload = Some payload\<rparr>"

definition event_message :: "time \<Rightarrow> string \<Rightarrow> string \<Rightarrow> string \<Rightarrow> string \<Rightarrow> json \<Rightarrow> kafka_message" where
  "event_message now topic eventType sourceEventID key payload =
     \<lparr>kmTopic = topic, kmKey = key,
      kmValue = Some (enc_Envelope (event_envelope now eventType sourceEventID payload))\<rparr>"

definition writeEvent ::
    "time \<Rightarrow> string \<Rightarrow> string \<Rightarrow> string \<Rightarrow> string \<Rightarrow> json \<Rightarrow> ('db, 'm) bus_world_scheme \<Rightarrow>
     string option \<times> ('db, 'm) bus_world_scheme" where
  "writeEvent now topic eventType sourceEventID key payload w =
     (case WriteMessages (event_message now topic eventType sourceEventID key payload) w of
        (Some e, w1) \<Rightarrow> (Some (''write '' @ eventType @ '' event to kafka: '' @ e), w1)
      | (None, w1) \<Rightarrow> (None, w1))"

lemma writeEvent_cases:
  assumes "writeEvent now topic ty src key p w = (r, w')"
  obtains (acked) "r = None" "w' = w\<lparr>sent := sent w @ [event_message now topic ty src key p], writes := Suc (writes w)\<rparr>"
  | (lost) e where "r = Some e" "w' = w\<lparr>sent := sent w @ [event_message now topic ty src key p], writes := Suc (writes w)\<rparr>"
  | (refused) e where "r = Some e" "w' = w\<lparr>writes := Suc (writes w)\<rparr>"
proof -
  obtain r1 w1 where m: "WriteMessages (event_message now topic ty src key p) w = (r1, w1)" by fastforce
  from m show ?thesis
    by (cases rule: WriteMessages_cases) (use assms that m in \<open>auto simp: writeEvent_def\<close>)
qed

lemma writeEvent_up:
  "broker_up w \<Longrightarrow> writeEvent now topic ty src key p w =
     (None, w\<lparr>sent := sent w @ [event_message now topic ty src key p], writes := Suc (writes w)\<rparr>)"
  by (simp add: writeEvent_def WriteMessages_up)

text \<open>The consumers at the other end read back what was put in.\<close>

lemma event_message_decodes [simp]:
  "unmarshal dec_Envelope zero_Envelope (kmValue (event_message now topic ty src key p)) =
     Some (event_envelope now ty src p)"
  by (simp add: unmarshal_def event_message_def dec_enc_Envelope [of _ p] event_envelope_def)

lemma event_envelope_simps [simp]:
  "en_EventType (event_envelope now ty src p) = ty" "en_Payload (event_envelope now ty src p) = Some p"
  "en_EventID (event_envelope now ty src p) = src @ '':'' @ itoa (UnixNano now)"
  by (simp_all add: event_envelope_def)

lemma event_message_topic [simp]: "kmTopic (event_message now topic ty src key p) = topic"
  by (simp add: event_message_def)

end
