(* ===== verification/Inventory_Consumers.thy ===== *)
theory Inventory_Consumers
  imports Inventory_Properties Event_Publisher
begin

text \<open>
  The inventory service's consumers (\<open>internal/inventory/events\<close>): \<open>order.created\<close> reserves every
  item of the order or none and announces the outcome, \<open>order.cancelled\<close> gives back what the
  order holds.
\<close>

section \<open>Publisher and errors\<close>

record 's inventory_publisher =
  PublishInventoryReserved :: "time \<Rightarrow> string \<Rightarrow> ev_InventoryReserved \<Rightarrow> 's \<Rightarrow> string option \<times> 's"
  PublishInventoryReservationFailed ::
    "time \<Rightarrow> string \<Rightarrow> ev_InventoryReservationFailed \<Rightarrow> 's \<Rightarrow> string option \<times> 's"

definition kafka_PublishInventoryReserved ::
    "string \<Rightarrow> time \<Rightarrow> string \<Rightarrow> ev_InventoryReserved \<Rightarrow> ('db, 'm) bus_world_scheme \<Rightarrow>
     string option \<times> ('db, 'm) bus_world_scheme" where
  "kafka_PublishInventoryReserved topic now sourceEventID event =
     writeEvent now topic InventoryReservedEventType sourceEventID (ir_OrderID event) (enc_InventoryReserved event)"

definition kafka_PublishInventoryReservationFailed ::
    "string \<Rightarrow> time \<Rightarrow> string \<Rightarrow> ev_InventoryReservationFailed \<Rightarrow> ('db, 'm) bus_world_scheme \<Rightarrow>
     string option \<times> ('db, 'm) bus_world_scheme" where
  "kafka_PublishInventoryReservationFailed topic now sourceEventID event =
     writeEvent now topic InventoryReservationFailedEventType sourceEventID (rf_OrderID event)
       (enc_InventoryReservationFailed event)"

definition inventory_kafka_publisher ::
    "string \<Rightarrow> string \<Rightarrow> ('db, 'm) bus_world_scheme inventory_publisher" where
  "inventory_kafka_publisher reservedTopic failedTopic =
     \<lparr>PublishInventoryReserved = kafka_PublishInventoryReserved reservedTopic,
      PublishInventoryReservationFailed = kafka_PublishInventoryReservationFailed failedTopic\<rparr>"

definition inventory_deduper :: "('db, 'm) node_world_scheme event_deduper" where
  "inventory_deduper = redis_deduper ''inventory:event:processed:''"

datatype inventory_consumer_error =
    InventoryDedup dedup_error
  | InventoryRollback string inventory_error
  | InventoryPublish string
  | InventoryFailure inventory_error

section \<open>order.created\<close>

text \<open>The loop of \<open>releaseReserved\<close> runs from the last reserved item to the first.\<close>

fun release_items ::
    "'s inventory_repo \<Rightarrow> string \<Rightarrow> ev_InventoryReservationItem list \<Rightarrow> 's \<Rightarrow>
     inventory_consumer_error option \<times> 's" where
  "release_items repo orderID [] s = (None, s)"
| "release_items repo orderID (item # items) s =
     (case isvc_ReleaseStock repo
             \<lparr>resProductID = ri_ProductID item, resOrderID = orderID, resQuantity = ri_Quantity item\<rparr> s of
        (Inl err, s1) \<Rightarrow> (Some (InventoryRollback (ri_ProductID item) err), s1)
      | (Inr _, s1) \<Rightarrow> release_items repo orderID items s1)"

definition releaseReserved ::
    "'s inventory_repo \<Rightarrow> string \<Rightarrow> ev_InventoryReservationItem list \<Rightarrow> 's \<Rightarrow>
     inventory_consumer_error option \<times> 's" where
  "releaseReserved repo orderID reservedItems = release_items repo orderID (rev reservedItems)"

text \<open>
  The results of \<open>reserveAll\<close>: reserved items, failed item, error of the reservation, error of
  the rollback. Widening the \<open>int32\<close> quantity to \<open>int64\<close> keeps its value.
\<close>

type_synonym reserve_result =
  "ev_InventoryReservationItem list \<times> ev_InventoryReservationItem option \<times> inventory_error option \<times>
   inventory_consumer_error option"

definition reservation_item :: "ev_OrderCreatedItem \<Rightarrow> ev_InventoryReservationItem" where
  "reservation_item item = \<lparr>ri_ProductID = ei_ProductID item, ri_Quantity = ei_Quantity item\<rparr>"

fun reserve_items ::
    "'s inventory_repo \<Rightarrow> string \<Rightarrow> ev_OrderCreatedItem list \<Rightarrow> ev_InventoryReservationItem list \<Rightarrow> 's \<Rightarrow>
     reserve_result \<times> 's" where
  "reserve_items repo orderID [] reservedItems s = ((reservedItems, None, None, None), s)"
| "reserve_items repo orderID (item # items) reservedItems s =
     (case isvc_ReserveStock repo
             \<lparr>resProductID = ei_ProductID item, resOrderID = orderID, resQuantity = ei_Quantity item\<rparr> s of
        (Inl err, s1) \<Rightarrow>
          (case releaseReserved repo orderID reservedItems s1 of (rollbackErr, s2) \<Rightarrow>
             (([], Some (reservation_item item), Some err, rollbackErr), s2))
      | (Inr _, s1) \<Rightarrow> reserve_items repo orderID items (reservedItems @ [reservation_item item]) s1)"

definition reserveAll :: "'s inventory_repo \<Rightarrow> ev_OrderCreated \<Rightarrow> 's \<Rightarrow> reserve_result \<times> 's" where
  "reserveAll repo event = reserve_items repo (oc_OrderID event) (oc_Items event) []"

text \<open>Publish, then mark.\<close>

definition publish_and_mark ::
    "'s event_deduper \<Rightarrow> string \<Rightarrow> string option \<times> 's \<Rightarrow> (inventory_consumer_error + bool) \<times> 's" where
  "publish_and_mark dedup eventID r =
     (case r of
        (Some e, s) \<Rightarrow> (Inl (InventoryPublish e), s)
      | (None, s) \<Rightarrow> mark_done dedup InventoryDedup eventID s)"

definition handle_order_created ::
    "'s inventory_repo \<Rightarrow> 's event_deduper \<Rightarrow> 's inventory_publisher \<Rightarrow> time \<Rightarrow> ev_Envelope \<Rightarrow> 's \<Rightarrow>
     (inventory_consumer_error + bool) \<times> 's" where
  "handle_order_created repo dedup publisher now envelope s =
     (case unmarshal dec_OrderCreated zero_OrderCreated (en_Payload envelope) of
        None \<Rightarrow> (Inr True, s)
      | Some event \<Rightarrow>
          (case reserveAll repo event s of
             ((reservedItems, failedItem, reservationErr, Some rollbackErr), s1) \<Rightarrow> (Inl rollbackErr, s1)
           | ((reservedItems, failedItem, Some reservationErr, None), s1) \<Rightarrow>
               publish_and_mark dedup (en_EventID envelope)
                 (PublishInventoryReservationFailed publisher now (en_EventID envelope)
                    \<lparr>rf_OrderID = oc_OrderID event, rf_CustomerID = oc_CustomerID event,
                     rf_FailedItem = failedItem, rf_Reason = inventory_error_text reservationErr\<rparr> s1)
           | ((reservedItems, failedItem, None, None), s1) \<Rightarrow>
               publish_and_mark dedup (en_EventID envelope)
                 (PublishInventoryReserved publisher now (en_EventID envelope)
                    \<lparr>ir_OrderID = oc_OrderID event, ir_CustomerID = oc_CustomerID event,
                     ir_Amount = oc_TotalAmount event, ir_Payment = oc_Payment event,
                     ir_Items = reservedItems\<rparr> s1)))"

definition OrderCreated_handleMessage ::
    "'s inventory_repo \<Rightarrow> 's event_deduper \<Rightarrow> 's inventory_publisher \<Rightarrow> time \<Rightarrow> kafka_message \<Rightarrow> 's \<Rightarrow>
     (inventory_consumer_error + bool) \<times> 's" where
  "OrderCreated_handleMessage repo dedup publisher now =
     deduplicated dedup InventoryDedup OrderCreatedEventType (handle_order_created repo dedup publisher now)"

definition OrderCreated_Run ::
    "'s inventory_repo \<Rightarrow> 's event_deduper \<Rightarrow> 's inventory_publisher \<Rightarrow> (nat \<Rightarrow> string option) \<Rightarrow> fetch list \<Rightarrow>
     nat \<Rightarrow> 's \<Rightarrow> (inventory_consumer_error run_error option \<times> nat) \<times> 's" where
  "OrderCreated_Run repo dedup publisher = consume (OrderCreated_handleMessage repo dedup publisher)"

section \<open>order.cancelled\<close>

definition handle_order_cancelled ::
    "'s inventory_repo \<Rightarrow> 's event_deduper \<Rightarrow> ev_Envelope \<Rightarrow> 's \<Rightarrow> (inventory_consumer_error + bool) \<times> 's" where
  "handle_order_cancelled repo dedup envelope s =
     (case unmarshal dec_OrderCancelled zero_OrderCancelled (en_Payload envelope) of
        None \<Rightarrow> (Inr True, s)
      | Some event \<Rightarrow>
          (case isvc_ReleaseReservationsByOrderID repo (ox_OrderID event) s of
             (Inl e, s1) \<Rightarrow> (Inl (InventoryFailure e), s1)
           | (Inr _, s1) \<Rightarrow> mark_done dedup InventoryDedup (en_EventID envelope) s1))"

definition OrderCancelled_handleMessage ::
    "'s inventory_repo \<Rightarrow> 's event_deduper \<Rightarrow> kafka_message \<Rightarrow> 's \<Rightarrow> (inventory_consumer_error + bool) \<times> 's" where
  "OrderCancelled_handleMessage repo dedup =
     deduplicated dedup InventoryDedup OrderCancelledEventType (handle_order_cancelled repo dedup)"

definition OrderCancelled_Run ::
    "'s inventory_repo \<Rightarrow> 's event_deduper \<Rightarrow> (nat \<Rightarrow> string option) \<Rightarrow> fetch list \<Rightarrow> nat \<Rightarrow> 's \<Rightarrow>
     (inventory_consumer_error run_error option \<times> nat) \<times> 's" where
  "OrderCancelled_Run repo dedup = consume (\<lambda>_. OrderCancelled_handleMessage repo dedup)"

section \<open>The demand of an order\<close>

definition demand :: "string \<Rightarrow> ev_OrderCreatedItem list \<Rightarrow> int" where
  "demand pid items = sum_list (map ei_Quantity (filter (\<lambda>i. ei_ProductID i = pid) items))"

definition valid_item :: "string \<Rightarrow> ev_OrderCreatedItem \<Rightarrow> bool" where
  "valid_item oid i \<longleftrightarrow> TrimSpace (ei_ProductID i) \<noteq> [] \<and> TrimSpace oid \<noteq> [] \<and> 0 < ei_Quantity i"

text \<open>All items can be reserved together, and the ledger when they are.\<close>

definition reservable :: "string \<Rightarrow> ev_OrderCreatedItem list \<Rightarrow> ledger \<Rightarrow> bool" where
  "reservable oid items l \<longleftrightarrow>
     (\<forall>i \<in> set items. valid_item oid i \<and>
        (case available l (ei_ProductID i) of None \<Rightarrow> False | Some n \<Rightarrow> demand (ei_ProductID i) items \<le> n))"

definition l_reserve_all :: "string \<Rightarrow> ev_OrderCreatedItem list \<Rightarrow> ledger \<Rightarrow> ledger" where
  "l_reserve_all oid items l =
     \<lparr>available = (\<lambda>pid. map_option (\<lambda>n. n - demand pid items) (available l pid)),
      held = (\<lambda>pid o'. held l pid o' + (if o' = oid then demand pid items else 0))\<rparr>"

lemma demand_simps [simp]:
  "demand pid [] = 0"
  "demand pid (xs @ ys) = demand pid xs + demand pid ys"
  "demand pid (i # xs) = (if ei_ProductID i = pid then ei_Quantity i else 0) + demand pid xs"
  by (simp_all add: demand_def)

lemma demand_nonneg: "\<forall>i \<in> set items. valid_item oid i \<Longrightarrow> 0 \<le> demand pid items"
  by (induction items) (auto simp: valid_item_def)

lemma demand_absent: "pid \<notin> ei_ProductID ` set items \<Longrightarrow> demand pid items = 0"
  by (induction items) auto

lemma l_reserve_all_Nil [simp]: "l_reserve_all oid [] l = l"
  by (cases l) (simp add: l_reserve_all_def option.map_ident cong: if_cong)

lemma reservable_Nil [simp]: "reservable oid [] l"
  by (simp add: reservable_def)

lemma reservable_prefix:
  assumes r: "reservable oid (xs @ ys) l"
  shows "reservable oid xs l"
  unfolding reservable_def
proof
  fix i assume "i \<in> set xs"
  then have i: "valid_item oid i" "case available l (ei_ProductID i) of None \<Rightarrow> False
      | Some n \<Rightarrow> demand (ei_ProductID i) (xs @ ys) \<le> n"
    using r by (simp_all add: reservable_def)
  have "0 \<le> demand (ei_ProductID i) ys"
    by (rule demand_nonneg [of ys oid]) (use r in \<open>simp add: reservable_def\<close>)
  then show "valid_item oid i \<and> (case available l (ei_ProductID i) of None \<Rightarrow> False
      | Some n \<Rightarrow> demand (ei_ProductID i) xs \<le> n)"
    using i by (auto split: option.splits)
qed

lemma l_reserve_all_snoc:
  assumes "reservable oid xs l" "valid_item oid i"
  shows "if reservable oid (xs @ [i]) l
    then l_reserve (ei_ProductID i) oid (ei_Quantity i) (l_reserve_all oid xs l) = Inr (l_reserve_all oid (xs @ [i]) l)
    else \<exists>e. l_reserve (ei_ProductID i) oid (ei_Quantity i) (l_reserve_all oid xs l) = Inl e"
proof (cases "available l (ei_ProductID i)")
  case None
  then show ?thesis by (auto simp: reservable_def l_reserve_def l_reserve_all_def)
next
  case (Some n)
  have d: "demand p xs = 0" if "p \<notin> ei_ProductID ` set xs" for p using that by (rule demand_absent)
  have "reservable oid (xs @ [i]) l \<longleftrightarrow> ei_Quantity i \<le> n - demand (ei_ProductID i) xs"
    using assms Some unfolding reservable_def by (auto split: option.splits)
  then show ?thesis
    using Some by (auto simp: l_reserve_def l_reserve_all_def fun_eq_iff)
qed

text \<open>Why an item is refused once the items before it are reserved.\<close>

definition refusal :: "string \<Rightarrow> ev_OrderCreatedItem list \<Rightarrow> ev_OrderCreatedItem \<Rightarrow> ledger \<Rightarrow> inventory_error option" where
  "refusal oid before i l =
     (if \<not> valid_item oid i then Some ErrInvalidStock
      else case l_reserve (ei_ProductID i) oid (ei_Quantity i) (l_reserve_all oid before l) of
             Inl e \<Rightarrow> Some e
           | Inr _ \<Rightarrow> None)"

lemma refusal_not_reservable: "reservable oid before l \<Longrightarrow> refusal oid before i l = Some e \<Longrightarrow> \<not> reservable oid (before @ [i]) l"
  using l_reserve_all_snoc [of oid before l i] by (auto simp: refusal_def reservable_def split: sum.splits if_splits)

section \<open>Reserving on a served database\<close>

lemma service_tables_only:
  "isvc_ReserveStock (pg_inventory_repo coll) r w = (x, w') \<Longrightarrow> tables_only w w'"
  "isvc_ReleaseStock (pg_inventory_repo coll) r w = (x, w') \<Longrightarrow> tables_only w w'"
  "isvc_ReleaseReservationsByOrderID (pg_inventory_repo coll) oid w = (u, w') \<Longrightarrow> tables_only w w'"
  by (auto simp: isvc_ReserveStock_def isvc_ReleaseStock_def isvc_ReleaseReservationsByOrderID_def
      pg_inventory_repo_def dest: tables_only_attempt tables_only_read_attempt split: option.splits if_splits)

lemma invalid_request: "\<not> valid_reservation r \<Longrightarrow> validateReservationRequest r = Some ErrInvalidStock"
  by (auto simp: validateReservationRequest_def valid_reservation_def)

lemma valid_item_reservation:
  "valid_reservation \<lparr>resProductID = ei_ProductID i, resOrderID = oid, resQuantity = ei_Quantity i\<rparr> \<longleftrightarrow> valid_item oid i"
  by (auto simp: valid_reservation_def valid_item_def)

lemma reservation_item_simps [simp]:
  "ri_ProductID (reservation_item i) = ei_ProductID i" "ri_Quantity (reservation_item i) = ei_Quantity i"
  by (simp_all add: reservation_item_def)

text \<open>The rollback undoes what was reserved, in the opposite order.\<close>

lemma rollback_served:
  assumes "served_alone w" "reservable oid ds l" "iview w = l_reserve_all oid ds l" "\<forall>p. 0 \<le> held l p oid"
  shows "\<exists>w'. releaseReserved (pg_inventory_repo coll) oid (map reservation_item ds) w = (None, w') \<and>
    iview w' = l \<and> served_alone w' \<and> tables_only w w'"
  using assms
proof (induction ds arbitrary: w rule: rev_induct)
  case Nil
  then show ?case by (simp add: releaseReserved_def)
next
  case (snoc d ds)
  let ?r = "\<lparr>resProductID = ei_ProductID d, resOrderID = oid, resQuantity = ei_Quantity d\<rparr>"
  have ds: "reservable oid ds l" "valid_item oid d"
    using snoc.prems(2) by (auto simp: reservable_prefix) (simp add: reservable_def)
  then have r: "l_reserve (ei_ProductID d) oid (ei_Quantity d) (l_reserve_all oid ds l) = Inr (iview w)"
    using l_reserve_all_snoc [OF ds] snoc.prems(2,3) by simp
  have "0 \<le> held (l_reserve_all oid ds l) (ei_ProductID d) oid"
    using snoc.prems(4) demand_nonneg [of ds oid "ei_ProductID d"] ds(1)
    by (auto simp: l_reserve_all_def reservable_def intro!: add_nonneg_nonneg)
  from l_release_reserve [OF r this] obtain x w1 where w1:
    "isvc_ReleaseStock (pg_inventory_repo coll) ?r w = (Inr x, w1)" "iview w1 = l_reserve_all oid ds l" "served_alone w1"
    using release_served [OF snoc.prems(1), of ?r coll] ds(2) by (auto simp: valid_item_reservation)
  from snoc.IH [OF w1(3) ds(1) w1(2) snoc.prems(4)] obtain w' where
    "releaseReserved (pg_inventory_repo coll) oid (map reservation_item ds) w1 = (None, w')"
    "iview w' = l" "served_alone w'" "tables_only w1 w'" by blast
  then show ?case
    using w1(1) tables_only_trans [OF service_tables_only(2) [OF w1(1)]] by (simp add: releaseReserved_def)
qed

lemma reserve_items_served:
  assumes "served_alone w" "reservable oid ds l" "iview w = l_reserve_all oid ds l" "\<forall>p. 0 \<le> held l p oid"
  shows "\<exists>w'. served_alone w' \<and> tables_only w w' \<and>
    (if reservable oid (ds @ items) l
     then reserve_items (pg_inventory_repo coll) oid items (map reservation_item ds) w =
            ((map reservation_item (ds @ items), None, None, None), w') \<and> iview w' = l_reserve_all oid (ds @ items) l
     else \<exists>before i after err. items = before @ i # after \<and> reservable oid (ds @ before) l \<and>
            refusal oid (ds @ before) i l = Some err \<and>
            reserve_items (pg_inventory_repo coll) oid items (map reservation_item ds) w =
              (([], Some (reservation_item i), Some err, None), w') \<and> iview w' = l)"
  using assms(1-3)
proof (induction items arbitrary: w ds)
  case Nil
  then show ?case by (auto intro: exI [of _ w])
next
  case (Cons i items)
  let ?r = "\<lparr>resProductID = ei_ProductID i, resOrderID = oid, resQuantity = ei_Quantity i\<rparr>"
  show ?case
  proof (cases "reservable oid (ds @ [i]) l")
    case True
    then have v: "valid_item oid i" by (simp add: reservable_def)
    from l_reserve_all_snoc [OF Cons.prems(2) v] True obtain x w1 where w1:
      "isvc_ReserveStock (pg_inventory_repo coll) ?r w = (Inr x, w1)" "iview w1 = l_reserve_all oid (ds @ [i]) l" "served_alone w1"
      using reserve_served [OF Cons.prems(1), of ?r coll] v Cons.prems(3) by (auto simp: valid_item_reservation)
    obtain w' where IH: "served_alone w'" "tables_only w1 w'"
      "if reservable oid ((ds @ [i]) @ items) l
       then reserve_items (pg_inventory_repo coll) oid items (map reservation_item (ds @ [i])) w1 =
              ((map reservation_item ((ds @ [i]) @ items), None, None, None), w') \<and> iview w' = l_reserve_all oid ((ds @ [i]) @ items) l
       else \<exists>before j after err. items = before @ j # after \<and> reservable oid ((ds @ [i]) @ before) l \<and>
              refusal oid ((ds @ [i]) @ before) j l = Some err \<and>
              reserve_items (pg_inventory_repo coll) oid items (map reservation_item (ds @ [i])) w1 =
                (([], Some (reservation_item j), Some err, None), w') \<and> iview w' = l"
      using Cons.IH [OF w1(3) True w1(2)] by blast
    have step: "reserve_items (pg_inventory_repo coll) oid (i # items) (map reservation_item ds) w =
        reserve_items (pg_inventory_repo coll) oid items (map reservation_item (ds @ [i])) w1"
      using w1(1) by simp
    have only: "tables_only w w'" by (rule tables_only_trans [OF service_tables_only(1) [OF w1(1)] IH(2)])
    show ?thesis
    proof (cases "reservable oid (ds @ i # items) l")
      case True
      then show ?thesis using IH only unfolding step by auto
    next
      case False
      then obtain before j after err where e: "items = before @ j # after" "reservable oid ((ds @ [i]) @ before) l"
        "refusal oid ((ds @ [i]) @ before) j l = Some err"
        "reserve_items (pg_inventory_repo coll) oid items (map reservation_item (ds @ [i])) w1 =
           (([], Some (reservation_item j), Some err, None), w')" "iview w' = l"
        using IH(3) by auto
      have "\<exists>before j after err. i # items = before @ j # after \<and> reservable oid (ds @ before) l \<and>
          refusal oid (ds @ before) j l = Some err \<and>
          reserve_items (pg_inventory_repo coll) oid (i # items) (map reservation_item ds) w =
            (([], Some (reservation_item j), Some err, None), w') \<and> iview w' = l"
        by (rule exI [of _ "i # before"], rule exI [of _ j], rule exI [of _ after], rule exI [of _ err]) (use e step in simp)
      then show ?thesis using False IH(1) only by (simp only: if_False) blast
    qed
  next
    case False
    have nr: "\<not> reservable oid (ds @ i # items) l"
      using False reservable_prefix [of oid "ds @ [i]" items l] by auto
    obtain err w1 where w1: "isvc_ReserveStock (pg_inventory_repo coll) ?r w = (Inl err, w1)"
      "tables w1 = tables w" "served_alone w1" "refusal oid ds i l = Some err"
    proof (cases "valid_item oid i")
      case True
      from l_reserve_all_snoc [OF Cons.prems(2) this] False show ?thesis
        using reserve_served [OF Cons.prems(1), of ?r coll] True Cons.prems(3) that
        by (auto simp: valid_item_reservation refusal_def)
    next
      case False
      then show ?thesis
        using that [of ErrInvalidStock w] Cons.prems(1) valid_item_reservation [of i oid]
        by (auto simp: isvc_ReserveStock_def validateReservationRequest_def valid_item_def refusal_def)
    qed
    then have "iview w1 = l_reserve_all oid ds l" using Cons.prems(3) by (simp add: iview_def)
    from rollback_served [OF w1(3) Cons.prems(2) this assms(4), of coll] obtain w' where
      "releaseReserved (pg_inventory_repo coll) oid (map reservation_item ds) w1 = (None, w')"
      "iview w' = l" "served_alone w'" "tables_only w1 w'" by blast
    then show ?thesis
      using nr w1(1,4) tables_only_trans [OF service_tables_only(1) [OF w1(1)]] Cons.prems(2)
      by (intro exI [of _ w'] conjI) (auto intro!: exI [of _ "[] :: ev_OrderCreatedItem list"])
  qed
qed

section \<open>Handling order.created\<close>

definition reserved_event :: "ev_OrderCreated \<Rightarrow> ev_InventoryReserved" where
  "reserved_event event =
     \<lparr>ir_OrderID = oc_OrderID event, ir_CustomerID = oc_CustomerID event, ir_Amount = oc_TotalAmount event,
      ir_Payment = oc_Payment event, ir_Items = map reservation_item (oc_Items event)\<rparr>"

definition failed_event :: "ev_OrderCreated \<Rightarrow> ev_OrderCreatedItem \<Rightarrow> inventory_error \<Rightarrow> ev_InventoryReservationFailed" where
  "failed_event event i err =
     \<lparr>rf_OrderID = oc_OrderID event, rf_CustomerID = oc_CustomerID event,
      rf_FailedItem = Some (reservation_item i), rf_Reason = inventory_error_text err\<rparr>"

abbreviation inventory_processed :: "('db, 'm) node_world_scheme \<Rightarrow> string set" where
  "inventory_processed \<equiv> processed_ids ''inventory:event:processed:''"

lemma served_alone_no_redis:
  assumes "no_redis w' = no_redis w"
  shows "served_alone w' = served_alone w" "iview w' = iview w"
  using no_redis_world [OF assms] no_redis_simps(1) [OF assms] by (simp_all add: served_alone_def iview_def)

lemma served_alone_sent [simp]:
  "served_alone (w\<lparr>sent := m, writes := n\<rparr>) = served_alone w" "iview (w\<lparr>sent := m, writes := n\<rparr>) = iview w"
  by (simp_all add: served_alone_def iview_def)

lemma held_nonneg:
  assumes "served_alone w" shows "0 \<le> held (iview w) p oid"
  using stock_invD(5) [of "tables w"] assms
  by (force simp: iview_def ledger_of_def served_alone_def dest: find_Some_in split: option.splits)

text \<open>
  The two outcomes: everything is reserved and announced, or nothing is, and what is announced
  is the first item that cannot be reserved after those before it, with the reason.
\<close>

definition order_created_outcome ::
    "string \<Rightarrow> string \<Rightarrow> time \<Rightarrow> string \<Rightarrow> ev_OrderCreated \<Rightarrow>
     (inventory_db, 'm) node_world_scheme \<Rightarrow> (inventory_db, 'm) node_world_scheme \<Rightarrow> bool" where
  "order_created_outcome rt ft now eventID event w w' \<longleftrightarrow>
     (if reservable (oc_OrderID event) (oc_Items event) (iview w)
      then iview w' = l_reserve_all (oc_OrderID event) (oc_Items event) (iview w) \<and>
        sent w' = sent w @ [event_message now rt InventoryReservedEventType eventID (oc_OrderID event)
          (enc_InventoryReserved (reserved_event event))]
      else iview w' = iview w \<and> (\<exists>before i after err. oc_Items event = before @ i # after \<and>
        reservable (oc_OrderID event) before (iview w) \<and> refusal (oc_OrderID event) before i (iview w) = Some err \<and>
        sent w' = sent w @ [event_message now ft InventoryReservationFailedEventType eventID (oc_OrderID event)
          (enc_InventoryReservationFailed (failed_event event i err))]))"

lemma order_created_outcome_no_redis:
  assumes "no_redis v = no_redis w" "no_redis v' = no_redis w'"
  shows "order_created_outcome rt ft now eid event v v' = order_created_outcome rt ft now eid event w w'"
  using served_alone_no_redis(2) [OF assms(1)] no_redis_simps(5) [OF assms(1)]
    served_alone_no_redis(2) [OF assms(2)] no_redis_simps(5) [OF assms(2)]
  by (simp add: order_created_outcome_def)

text \<open>Up to the mark: the outcome is decided by the ledger, published and left to be marked.\<close>

lemma handle_order_created_served:
  fixes w :: "(inventory_db, 'm) node_world_scheme"
  assumes "served_alone w" "broker_up w"
    and ev: "unmarshal dec_OrderCreated zero_OrderCreated (en_Payload envelope) = Some event"
  shows "\<exists>w1. handle_order_created (pg_inventory_repo coll) dedup (inventory_kafka_publisher rt ft) now envelope w =
      mark_done dedup InventoryDedup (en_EventID envelope) w1 \<and>
    served_alone w1 \<and> broker_up w1 \<and> redis_up w1 = redis_up w \<and> (\<forall>p. processed_ids p w1 = processed_ids p w) \<and>
    redis_calls w1 = redis_calls w \<and> redis_fault w1 = redis_fault w \<and>
    order_created_outcome rt ft now (en_EventID envelope) event w w1"
proof -
  let ?l = "iview w" and ?oid = "oc_OrderID event" and ?items = "oc_Items event"
  obtain w1 where w1: "served_alone w1" "tables_only w w1"
    "if reservable ?oid ?items ?l
     then reserveAll (pg_inventory_repo coll) event w = ((map reservation_item ?items, None, None, None), w1) \<and>
       iview w1 = l_reserve_all ?oid ?items ?l
     else \<exists>before i after err. ?items = before @ i # after \<and> reservable ?oid before ?l \<and> refusal ?oid before i ?l = Some err \<and>
       reserveAll (pg_inventory_repo coll) event w = (([], Some (reservation_item i), Some err, None), w1) \<and> iview w1 = ?l"
    using reserve_items_served [OF assms(1) reservable_Nil, of "?oid" ?l ?items coll,
        unfolded list.map(1) append_Nil l_reserve_all_Nil] held_nonneg [OF assms(1)]
    unfolding reserveAll_def by blast
  note same = tables_only_node [OF w1(2)]
  have up: "broker_up w1" using assms(2) same(2) by simp
  show ?thesis
  proof (cases "reservable ?oid ?items ?l")
    case True
    let ?m = "event_message now rt InventoryReservedEventType (en_EventID envelope) ?oid
        (enc_InventoryReserved (reserved_event event))"
    show ?thesis
      by (rule exI [of _ "w1\<lparr>sent := sent w1 @ [?m], writes := Suc (writes w1)\<rparr>"])
        (use True w1 same up ev in \<open>simp add: handle_order_created_def publish_and_mark_def order_created_outcome_def
          inventory_kafka_publisher_def kafka_PublishInventoryReserved_def writeEvent_up reserved_event_def\<close>)
  next
    case False
    then obtain before i after err where i: "?items = before @ i # after" "reservable ?oid before ?l" "refusal ?oid before i ?l = Some err"
      "reserveAll (pg_inventory_repo coll) event w = (([], Some (reservation_item i), Some err, None), w1)" "iview w1 = ?l"
      using w1(3) by auto
    let ?m = "event_message now ft InventoryReservationFailedEventType (en_EventID envelope) ?oid
        (enc_InventoryReservationFailed (failed_event event i err))"
    show ?thesis
      by (rule exI [of _ "w1\<lparr>sent := sent w1 @ [?m], writes := Suc (writes w1)\<rparr>"])
        (use False i w1(1) same up ev in \<open>force simp: handle_order_created_def publish_and_mark_def order_created_outcome_def
          inventory_kafka_publisher_def kafka_PublishInventoryReservationFailed_def writeEvent_up failed_event_def\<close>)
  qed
qed

text \<open>A message that is decoded and was not processed, with the mark left open.\<close>

lemma order_created_to_mark:
  fixes w :: "(inventory_db, 'm) node_world_scheme"
  assumes "served_alone w" "broker_up w" "IsProcessed inventory_deduper (en_EventID envelope) w = (Inr False, w0)"
    and "unmarshal dec_Envelope zero_Envelope (kmValue msg) = Some envelope" "en_EventType envelope = OrderCreatedEventType"
    and "unmarshal dec_OrderCreated zero_OrderCreated (en_Payload envelope) = Some event"
  shows "\<exists>w1. OrderCreated_handleMessage (pg_inventory_repo coll) inventory_deduper (inventory_kafka_publisher rt ft) now msg w =
      mark_done inventory_deduper InventoryDedup (en_EventID envelope) w1 \<and>
    served_alone w1 \<and> broker_up w1 \<and> redis_up w1 = redis_up w0 \<and> (\<forall>p. processed_ids p w1 = processed_ids p w0) \<and>
    redis_calls w1 = redis_calls w0 \<and> redis_fault w1 = redis_fault w0 \<and>
    order_created_outcome rt ft now (en_EventID envelope) event w w1"
proof -
  have n: "no_redis w0 = no_redis w" using redis.check assms(3) unfolding inventory_deduper_def by blast
  have "served_alone w0" "broker_up w0"
    using assms(1,2) served_alone_no_redis(1) [OF n] no_redis_world(3) [OF n] by simp_all
  from handle_order_created_served [OF this assms(6), of coll inventory_deduper rt ft now]
  show ?thesis
    using order_created_outcome_no_redis [OF n refl] assms(3-5)
    by (simp add: OrderCreated_handleMessage_def deduplicated_def)
qed

lemma order_created_handled:
  fixes w :: "(inventory_db, 'm) node_world_scheme"
  assumes "served_alone w" "broker_up w" "redis_up w"
    and "unmarshal dec_Envelope zero_Envelope (kmValue msg) = Some envelope"
    and "en_EventType envelope = OrderCreatedEventType" "en_EventID envelope \<notin> inventory_processed w"
    and "unmarshal dec_OrderCreated zero_OrderCreated (en_Payload envelope) = Some event"
  shows "\<exists>w'. OrderCreated_handleMessage (pg_inventory_repo coll) inventory_deduper (inventory_kafka_publisher rt ft)
        now msg w = (Inr True, w') \<and>
    en_EventID envelope \<in> inventory_processed w' \<and> order_created_outcome rt ft now (en_EventID envelope) event w w'"
proof -
  have "IsProcessed inventory_deduper (en_EventID envelope) w = (Inr False, redis_tick w)"
    unfolding inventory_deduper_def by (rule redis_fresh_check [OF assms(3,6)])
  from order_created_to_mark [OF assms(1,2) this assms(4,5,7), of coll rt ft now] assms(3) obtain w1 where
    w1: "OrderCreated_handleMessage (pg_inventory_repo coll) inventory_deduper (inventory_kafka_publisher rt ft) now msg w =
      mark_done inventory_deduper InventoryDedup (en_EventID envelope) w1" "redis_up w1"
      "order_created_outcome rt ft now (en_EventID envelope) event w w1" by auto
  obtain w' where w': "mark_done inventory_deduper InventoryDedup (en_EventID envelope) w1 = (Inr True, w')"
    "no_redis w' = no_redis w1" "inventory_processed w' = insert (en_EventID envelope) (inventory_processed w1)"
    using mark_done_up [OF w1(2)] unfolding inventory_deduper_def by blast
  show ?thesis using w1 w' order_created_outcome_no_redis [OF refl w'(2)] by simp
qed

text \<open>
  C24: An \<open>order.created\<close> event reserves all of the order or nothing, and says which. With
  PostgreSQL, Kafka and Redis up, a message that was not processed before is committed and
  marked; if every item is valid and the total demand for each product is available, each
  product's stock moves from available to the order by exactly that demand and
  \<open>inventory.reserved\<close> is sent with all items; otherwise the stock is as it was (what had been
  reserved is rolled back) and \<open>inventory.reservation_failed\<close> is sent with the item that failed:
  the first one that is invalid or that the stock left by the items before it does not cover,
  with the reason of the refusal.
\<close>
theorem order_created_all_or_nothing:
  fixes w :: "(inventory_db, 'm) node_world_scheme"
  assumes "served_alone w" "broker_up w" "redis_up w"
    and "unmarshal dec_Envelope zero_Envelope (kmValue msg) = Some envelope"
    and "en_EventType envelope = OrderCreatedEventType" "en_EventID envelope \<notin> inventory_processed w"
    and "unmarshal dec_OrderCreated zero_OrderCreated (en_Payload envelope) = Some event"
  shows "\<exists>w'. OrderCreated_handleMessage (pg_inventory_repo coll) inventory_deduper (inventory_kafka_publisher rt ft)
        now msg w = (Inr True, w') \<and>
    en_EventID envelope \<in> inventory_processed w' \<and> order_created_outcome rt ft now (en_EventID envelope) event w w'"
  using order_created_handled [OF assms] .

definition created_message :: "string \<Rightarrow> ev_OrderCreated \<Rightarrow> kafka_message" where
  "created_message eid event = event_message 0 ''order.created'' OrderCreatedEventType eid (oc_OrderID event) (enc_OrderCreated event)"

definition sample_created :: ev_OrderCreated where
  "sample_created = zero_OrderCreated\<lparr>oc_OrderID := ''o2'',
     oc_Items := [zero_OrderCreatedItem\<lparr>ei_ProductID := ''p1'', ei_Quantity := 2\<rparr>,
       zero_OrderCreatedItem\<lparr>ei_ProductID := ''p2'', ei_Quantity := 1\<rparr>,
       zero_OrderCreatedItem\<lparr>ei_ProductID := ''p1'', ei_Quantity := 1\<rparr>]\<rparr>"

lemma sample_created_simps [simp]:
  "oc_OrderID sample_created = ''o2''" "demand ''p1'' (oc_Items sample_created) = 3"
  "demand ''p2'' (oc_Items sample_created) = 1"
  by (simp_all add: sample_created_def zero_OrderCreatedItem_def)

lemma sample_created_decodes:
  "unmarshal dec_OrderCreated zero_OrderCreated (Some (enc_OrderCreated sample_created)) = Some sample_created"
proof -
  have "ok_OrderCreated sample_created"
    by (simp add: ok_OrderCreated_def ok_OrderCreatedItem_def ok_Money_def sample_created_def
      zero_OrderCreated_def zero_OrderCreatedItem_def zero_Money_def is_int64_def is_int32_def)
  then show ?thesis by (simp add: unmarshal_def)
qed

lemma sample_stock_iview:
  "tables w = sample_stock \<Longrightarrow> available (iview w) = [''p1'' \<mapsto> 7, ''p2'' \<mapsto> 2]"
  by (auto simp: iview_def ledger_of_def sample_stock_def fun_eq_iff)

lemma sample_reservable:
  assumes "available l ''p1'' = Some n" "3 \<le> n" "available l ''p2'' = Some m" "1 \<le> m"
  shows "reservable ''o2'' (oc_Items sample_created) l"
  using assms by (simp add: reservable_def sample_created_def zero_OrderCreatedItem_def valid_item_def)

lemma sample_served_node: "served_alone (calm_node sample_stock t)"
  by (simp add: served_alone_def)

theorem order_created_all_or_nothing_witness:
  "\<exists>w'. OrderCreated_handleMessage sample_inventory inventory_deduper
       (inventory_kafka_publisher ''inventory.reserved'' ''inventory.reservation_failed'') 5000
       (created_message ''e1'' sample_created) (calm_node sample_stock 1000) = (Inr True, w') \<and>
     available (iview w') ''p1'' = Some 4 \<and> held (iview w') ''p2'' ''o2'' = 1"
proof -
  let ?w = "calm_node sample_stock 1000 :: inventory_db node_world"
  let ?e = "event_envelope 0 OrderCreatedEventType ''e1'' (enc_OrderCreated sample_created)"
  have av: "available (iview ?w) = [''p1'' \<mapsto> 7, ''p2'' \<mapsto> 2]" by (rule sample_stock_iview) simp
  have "reservable ''o2'' (oc_Items sample_created) (iview ?w)" by (rule sample_reservable [of _ 7 2]) (simp_all add: av)
  moreover have "held (iview ?w) ''p2'' ''o2'' = 0"
    by (simp add: iview_def ledger_of_def sample_stock_def rv_key_def)
  moreover have "\<exists>w'. OrderCreated_handleMessage sample_inventory inventory_deduper
       (inventory_kafka_publisher ''inventory.reserved'' ''inventory.reservation_failed'') 5000
       (created_message ''e1'' sample_created) ?w = (Inr True, w') \<and>
     en_EventID ?e \<in> inventory_processed w' \<and>
     order_created_outcome ''inventory.reserved'' ''inventory.reservation_failed'' 5000 (en_EventID ?e) sample_created ?w w'"
    by (rule order_created_all_or_nothing [OF sample_served_node])
      (simp_all add: created_message_def sample_created_decodes)
  ultimately show ?thesis
    by (auto simp: order_created_outcome_def l_reserve_all_def av)
qed

section \<open>Redelivery\<close>

text \<open>
  A redelivered \<open>order.created\<close> is reserved again. The event is published and reserved
  before it is marked as processed, and the reservation is not idempotent: when the mark fails
  (here Redis times out once) the handler returns an error, Kafka delivers the message again,
  and the order ends up holding twice what it asked for, announced twice.
\<close>
theorem redelivered_order_reserved_twice:
  "\<exists>w1 w2. OrderCreated_handleMessage sample_inventory inventory_deduper (inventory_kafka_publisher rt ft) 5000
       (created_message ''e1'' sample_created)
       (calm_node sample_stock 1000\<lparr>redis_fault := (\<lambda>i. if i = 1 then Failed ''i/o timeout'' else Served)\<rparr>) =
         (Inl (InventoryDedup (MarkFailed ''i/o timeout'')), w1) \<and>
     OrderCreated_handleMessage sample_inventory inventory_deduper (inventory_kafka_publisher rt ft) 6000
       (created_message ''e1'' sample_created) w1 = (Inr True, w2) \<and>
     held (iview w2) ''p1'' ''o2'' = 2 * demand ''p1'' (oc_Items sample_created) \<and> length (sent w2) = 2"
proof -
  define f where "f = (\<lambda>i :: nat. if i = 1 then Failed ''i/o timeout'' else Served)"
  have f: "f 0 = Served" "f (Suc 0) = Failed ''i/o timeout''" "f (Suc (Suc 0)) = Served" "f 3 = Served" by (simp_all add: f_def)
  let ?w = "calm_node sample_stock 1000\<lparr>redis_fault := f\<rparr> :: inventory_db node_world"
  let ?e = "event_envelope 0 OrderCreatedEventType ''e1'' (enc_OrderCreated sample_created)"
  let ?pub = "inventory_kafka_publisher rt ft"
  let ?h = "\<lambda>now. OrderCreated_handleMessage sample_inventory inventory_deduper ?pub now (created_message ''e1'' sample_created)"
  have d: "unmarshal dec_Envelope zero_Envelope (kmValue (created_message ''e1'' sample_created)) = Some ?e"
    "en_EventType ?e = OrderCreatedEventType"
    "unmarshal dec_OrderCreated zero_OrderCreated (en_Payload ?e) = Some sample_created"
    by (simp_all add: created_message_def sample_created_decodes)
  have w: "no_redis ?w = no_redis (calm_node sample_stock 1000)" by simp
  have "served_alone ?w" "broker_up ?w" "sent ?w = []" "iview ?w = iview (calm_node sample_stock 1000 :: inventory_db node_world)"
    using sample_served_node served_alone_no_redis [OF w] no_redis_world(3) [OF w] no_redis_simps(5) [OF w] by simp_all
  note first = this
  have av: "available (iview ?w) = [''p1'' \<mapsto> 7, ''p2'' \<mapsto> 2]" "held (iview ?w) ''p1'' ''o2'' = 0"
    unfolding first(4) by (simp_all add: sample_stock_iview) (simp add: iview_def ledger_of_def sample_stock_def rv_key_def)
  have "IsProcessed inventory_deduper (en_EventID ?e) ?w = (Inr False, redis_tick ?w)"
    unfolding inventory_deduper_def by (rule check_served) (simp_all add: f)
  from order_created_to_mark [OF first(1,2) this d, of "\<lambda>_. 0 :: nat" rt ft 5000] obtain v1 where
    v1: "?h 5000 ?w = mark_done inventory_deduper InventoryDedup (en_EventID ?e) v1" "served_alone v1" "broker_up v1"
      "redis_calls v1 = 1" "redis_fault v1 = f"
      "\<And>p. processed_ids p v1 = processed_ids p (redis_tick ?w)"
      "order_created_outcome rt ft 5000 (en_EventID ?e) sample_created ?w v1" by auto
  have t: "no_redis (redis_tick v1) = no_redis v1" by simp
  have "reservable ''o2'' (oc_Items sample_created) (iview ?w)" by (rule sample_reservable [of _ 7 2]) (simp_all add: av)
  then have o1: "iview v1 = l_reserve_all ''o2'' (oc_Items sample_created) (iview ?w)" "length (sent v1) = 1"
    using v1(7) first(3) by (simp_all add: order_created_outcome_def)
  have m1: "?h 5000 ?w = (Inl (InventoryDedup (MarkFailed ''i/o timeout'')), redis_tick v1)"
    unfolding v1(1) unfolding inventory_deduper_def by (rule mark_refused) (simp add: v1(4,5) f)
  have "processed_ids p ?w = {}" for p by simp
  then have "en_EventID ?e \<notin> processed_ids p (redis_tick v1)" for p
    using processed_ids_tick_le [of _ p v1] processed_ids_tick_le [of _ p ?w] v1(6) [of p] by blast
  then have "IsProcessed inventory_deduper (en_EventID ?e) (redis_tick v1) = (Inr False, redis_tick (redis_tick v1))"
    unfolding inventory_deduper_def by (intro check_served) (simp_all add: v1(4,5) f)
  moreover have "served_alone (redis_tick v1)" "broker_up (redis_tick v1)" "iview (redis_tick v1) = iview v1" "sent (redis_tick v1) = sent v1"
    using v1(2,3) served_alone_no_redis [OF t] no_redis_world(3) [OF t] no_redis_simps(5) [OF t] by simp_all
  ultimately obtain v2 where v2: "?h 6000 (redis_tick v1) = mark_done inventory_deduper InventoryDedup (en_EventID ?e) v2"
      "redis_calls v2 = 3" "redis_fault v2 = f"
      "order_created_outcome rt ft 6000 (en_EventID ?e) sample_created v1 v2"
    using order_created_to_mark [OF _ _ _ d, of "redis_tick v1" "redis_tick (redis_tick v1)" "\<lambda>_. 0 :: nat" rt ft 6000]
      order_created_outcome_no_redis [OF t refl] v1(4,5) f by auto
  have "reservable ''o2'' (oc_Items sample_created) (iview v1)"
    by (rule sample_reservable [of _ 4 1]) (simp_all add: o1 l_reserve_all_def av)
  then have o2: "held (iview v2) ''p1'' ''o2'' = 6" "length (sent v2) = 2"
    using v2(4) o1 by (simp_all add: order_created_outcome_def l_reserve_all_def av)
  obtain w2 where w2: "mark_done inventory_deduper InventoryDedup (en_EventID ?e) v2 = (Inr True, w2)" "no_redis w2 = no_redis v2"
    using mark_served [of v2] unfolding v2(2,3) f inventory_deduper_def by blast
  show ?thesis
    unfolding f_def [symmetric]
    by (rule exI [of _ "redis_tick v1"], rule exI [of _ w2])
      (use m1 v2(1) w2(1) o2 served_alone_no_redis(2) [OF w2(2)] no_redis_simps(5) [OF w2(2)] in simp)
qed

section \<open>Handling order.cancelled\<close>

lemma order_cancelled_served:
  fixes w :: "(inventory_db, 'm) node_world_scheme"
  assumes "served_alone w" "redis_up w"
    and "unmarshal dec_Envelope zero_Envelope (kmValue msg) = Some envelope"
    and "en_EventType envelope = OrderCancelledEventType" "en_EventID envelope \<notin> inventory_processed w"
    and ev: "unmarshal dec_OrderCancelled zero_OrderCancelled (en_Payload envelope) = Some event"
    and oid: "TrimSpace (ox_OrderID event) \<noteq> []"
  shows "\<exists>w'. OrderCancelled_handleMessage (pg_inventory_repo coll) inventory_deduper msg w = (Inr True, w') \<and>
    served_alone w' \<and> redis_up w' \<and> broker_up w' = broker_up w \<and> sent w' = sent w \<and>
    inventory_processed w' = insert (en_EventID envelope) (inventory_processed w) \<and>
    iview w' = l_release_order (TrimSpace (ox_OrderID event)) (iview w)"
proof -
  have t: "no_redis (redis_tick w) = no_redis w" by simp
  have tick: "served_alone (redis_tick w)" "iview (redis_tick w) = iview w" "sent (redis_tick w) = sent w"
    "broker_up (redis_tick w) = broker_up w"
    using assms(1) served_alone_no_redis [OF t] no_redis_world(3) [OF t] no_redis_simps(5) [OF t] by simp_all
  obtain w1 where w1: "isvc_ReleaseReservationsByOrderID (pg_inventory_repo coll) (ox_OrderID event) (redis_tick w) = (Inr (), w1)"
    "iview w1 = l_release_order (TrimSpace (ox_OrderID event)) (iview w)" "served_alone w1"
    using release_order_served [OF tick(1) oid, of coll] tick(2) by auto
  note same = tables_only_node [OF service_tables_only(3) [OF w1(1)]]
  have up: "redis_up w1" using same(3) assms(2) by simp
  obtain w' where w': "mark_done inventory_deduper InventoryDedup (en_EventID envelope) w1 = (Inr True, w')"
    "no_redis w' = no_redis w1" "redis_up w'" "inventory_processed w' = insert (en_EventID envelope) (inventory_processed w1)"
    using mark_done_up [OF up] unfolding inventory_deduper_def by blast
  have "OrderCancelled_handleMessage (pg_inventory_repo coll) inventory_deduper msg w = (Inr True, w')"
    using deduplicated_fresh [OF assms(2-5), of InventoryDedup] w1(1) w'(1) ev
    by (simp add: OrderCancelled_handleMessage_def handle_order_cancelled_def inventory_deduper_def)
  then show ?thesis
    using w' w1(2,3) served_alone_no_redis [OF w'(2)] no_redis_world(3) [OF w'(2)] no_redis_simps(5) [OF w'(2)]
      same(1,2,4) tick(3,4) processed_ids_tick [OF assms(2)] by auto
qed

text \<open>
  \<open>order.cancelled\<close> gives back everything the order holds. With PostgreSQL and Redis up, a
  message that was not processed before is committed and marked, every quantity the order held
  is available again, the order holds nothing, other orders keep what they hold, and no event
  is sent.
\<close>
theorem order_cancelled_returns_stock:
  fixes w :: "(inventory_db, 'm) node_world_scheme"
  assumes "served_alone w" "redis_up w"
    and "unmarshal dec_Envelope zero_Envelope (kmValue msg) = Some envelope"
    and "en_EventType envelope = OrderCancelledEventType" "en_EventID envelope \<notin> inventory_processed w"
    and "unmarshal dec_OrderCancelled zero_OrderCancelled (en_Payload envelope) = Some event"
    and "TrimSpace (ox_OrderID event) = oid" "oid \<noteq> []"
  shows "\<exists>w'. OrderCancelled_handleMessage (pg_inventory_repo coll) inventory_deduper msg w = (Inr True, w') \<and>
    en_EventID envelope \<in> inventory_processed w' \<and> sent w' = sent w \<and>
    (\<forall>pid. available (iview w') pid = map_option (\<lambda>n. n + held (iview w) pid oid) (available (iview w) pid)) \<and>
    (\<forall>pid. held (iview w') pid oid = 0) \<and>
    (\<forall>pid o'. o' \<noteq> oid \<longrightarrow> held (iview w') pid o' = held (iview w) pid o')"
  using order_cancelled_served [OF assms(1-6), of coll] assms(7,8) by (auto simp: l_release_order_def)

definition cancelled_message :: "string \<Rightarrow> string \<Rightarrow> kafka_message" where
  "cancelled_message eid oid = event_message 0 ''order.cancelled'' OrderCancelledEventType eid oid
     (enc_OrderCancelled \<lparr>ox_OrderID = oid, ox_CustomerID = ''c1'', ox_CancelReason = ''changed my mind''\<rparr>)"

lemma cancelled_message_decodes:
  "unmarshal dec_Envelope zero_Envelope (kmValue (cancelled_message eid oid)) =
     Some (event_envelope 0 OrderCancelledEventType eid
       (enc_OrderCancelled \<lparr>ox_OrderID = oid, ox_CustomerID = ''c1'', ox_CancelReason = ''changed my mind''\<rparr>))"
  "unmarshal dec_OrderCancelled zero_OrderCancelled (Some (enc_OrderCancelled e)) = Some e"
  by (simp_all add: cancelled_message_def) (simp add: unmarshal_def)

theorem order_cancelled_returns_stock_witness:
  "\<exists>w'. OrderCancelled_handleMessage sample_inventory inventory_deduper (cancelled_message ''e1'' ''o1'')
       (calm_node sample_stock 1000) = (Inr True, w') \<and> available (iview w') ''p1'' = Some 10"
proof -
  let ?w = "calm_node sample_stock 1000 :: inventory_db node_world"
  have av: "available (iview ?w) ''p1'' = Some 7" "held (iview ?w) ''p1'' ''o1'' = 3"
    by (simp_all add: iview_def ledger_of_def sample_stock_def rv_key_def)
  show ?thesis
    using order_cancelled_returns_stock [OF sample_served_node _ cancelled_message_decodes(1), of 1000 "''e1''" "''o1''" _ "''o1''" "\<lambda>_. 0 :: nat"]
    by (auto simp: cancelled_message_decodes(2) av)
qed

section \<open>Cancellation overtaking creation\<close>

lemma l_release_nothing: "\<forall>p. held l p oid = 0 \<Longrightarrow> l_release_order oid l = l"
  by (cases l) (auto simp: l_release_order_def fun_eq_iff option.map_ident)

text \<open>
  A cancellation that overtakes the creation leaks the stock. The two events are on
  different topics, read by different consumers: when \<open>order.cancelled\<close> of an order is handled
  before its \<open>order.created\<close>, the first releases nothing and is marked as processed, the second
  reserves the stock, and both are committed: the cancelled order holds its full demand with no
  event left that would release it.
\<close>
theorem cancelled_before_created_leaks:
  fixes w :: "(inventory_db, 'm) node_world_scheme"
  assumes "served_alone w" "redis_up w" "broker_up w"
    and "unmarshal dec_Envelope zero_Envelope (kmValue cancelled) = Some envelope_x"
    and "en_EventType envelope_x = OrderCancelledEventType" "en_EventID envelope_x \<notin> inventory_processed w"
    and "unmarshal dec_OrderCancelled zero_OrderCancelled (en_Payload envelope_x) = Some event_x"
    and "unmarshal dec_Envelope zero_Envelope (kmValue created) = Some envelope_c"
    and "en_EventType envelope_c = OrderCreatedEventType" "en_EventID envelope_c \<notin> inventory_processed w"
    and "unmarshal dec_OrderCreated zero_OrderCreated (en_Payload envelope_c) = Some event_c"
    and "en_EventID envelope_c \<noteq> en_EventID envelope_x"
    and "ox_OrderID event_x = oid" "oc_OrderID event_c = oid" "TrimSpace oid = oid" "oid \<noteq> []"
    and "\<forall>p. held (iview w) p oid = 0" "reservable oid (oc_Items event_c) (iview w)"
  shows "\<exists>w1 w2. OrderCancelled_handleMessage (pg_inventory_repo coll) inventory_deduper cancelled w = (Inr True, w1) \<and>
    OrderCreated_handleMessage (pg_inventory_repo coll) inventory_deduper (inventory_kafka_publisher rt ft) now created w1 = (Inr True, w2) \<and>
    (\<forall>p. held (iview w2) p oid = demand p (oc_Items event_c))"
proof -
  obtain w1 where w1: "OrderCancelled_handleMessage (pg_inventory_repo coll) inventory_deduper cancelled w = (Inr True, w1)"
    "served_alone w1" "redis_up w1" "broker_up w1" "en_EventID envelope_c \<notin> inventory_processed w1" "iview w1 = iview w"
    using order_cancelled_served [OF assms(1,2,4-7), of coll] assms(3,10,12-17) l_release_nothing [OF assms(17)] by auto
  have "IsProcessed inventory_deduper (en_EventID envelope_c) w1 = (Inr False, redis_tick w1)"
    unfolding inventory_deduper_def by (rule redis_fresh_check [OF w1(3,5)])
  from order_created_to_mark [OF w1(2,4) this assms(8,9,11), of coll rt ft now] w1(3) obtain v where
    v: "OrderCreated_handleMessage (pg_inventory_repo coll) inventory_deduper (inventory_kafka_publisher rt ft) now created w1 =
      mark_done inventory_deduper InventoryDedup (en_EventID envelope_c) v" "redis_up v"
      "order_created_outcome rt ft now (en_EventID envelope_c) event_c w1 v" by auto
  obtain w2 where w2: "mark_done inventory_deduper InventoryDedup (en_EventID envelope_c) v = (Inr True, w2)"
    "no_redis w2 = no_redis v"
    using mark_done_up [OF v(2)] unfolding inventory_deduper_def by blast
  show ?thesis
    using w1 v(1,3) w2(1) served_alone_no_redis(2) [OF w2(2)] assms(14,17,18)
    by (auto simp: order_created_outcome_def l_reserve_all_def)
qed

theorem cancelled_before_created_leaks_witness:
  "\<exists>w1 w2. OrderCancelled_handleMessage sample_inventory inventory_deduper (cancelled_message ''e2'' ''o2'')
       (calm_node sample_stock 1000) = (Inr True, w1) \<and>
     OrderCreated_handleMessage sample_inventory inventory_deduper
       (inventory_kafka_publisher ''inventory.reserved'' ''inventory.reservation_failed'') 5000
       (created_message ''e1'' sample_created) w1 = (Inr True, w2) \<and> held (iview w2) ''p1'' ''o2'' = 3"
proof -
  let ?w = "calm_node sample_stock 1000 :: inventory_db node_world"
  have h: "held (iview ?w) p ''o2'' = 0" for p
    by (simp add: iview_def ledger_of_def sample_stock_def rv_key_def)
  have av: "available (iview ?w) = [''p1'' \<mapsto> 7, ''p2'' \<mapsto> 2]" by (rule sample_stock_iview) simp
  have r: "reservable ''o2'' (oc_Items sample_created) (iview ?w)" by (rule sample_reservable [of _ 7 2]) (simp_all add: av)
  have d: "unmarshal dec_Envelope zero_Envelope (kmValue (created_message ''e1'' sample_created)) =
      Some (event_envelope 0 OrderCreatedEventType ''e1'' (enc_OrderCreated sample_created))"
    by (simp add: created_message_def)
  have x: "unmarshal dec_OrderCancelled zero_OrderCancelled (en_Payload (event_envelope 0 OrderCancelledEventType ''e2''
       (enc_OrderCancelled \<lparr>ox_OrderID = ''o2'', ox_CustomerID = ''c1'', ox_CancelReason = ''changed my mind''\<rparr>))) =
      Some \<lparr>ox_OrderID = ''o2'', ox_CustomerID = ''c1'', ox_CancelReason = ''changed my mind''\<rparr>"
    by (simp add: cancelled_message_decodes(2))
  have "\<exists>w1 w2. OrderCancelled_handleMessage sample_inventory inventory_deduper (cancelled_message ''e2'' ''o2'') ?w = (Inr True, w1) \<and>
     OrderCreated_handleMessage sample_inventory inventory_deduper
       (inventory_kafka_publisher ''inventory.reserved'' ''inventory.reservation_failed'') 5000
       (created_message ''e1'' sample_created) w1 = (Inr True, w2) \<and>
     (\<forall>p. held (iview w2) p ''o2'' = demand p (oc_Items sample_created))"
    by (rule cancelled_before_created_leaks [OF sample_served_node _ _ cancelled_message_decodes(1) _ _ x d])
      (simp_all add: sample_created_decodes h r)
  then show ?thesis by auto
qed

end
