(* ===== verification/Inventory_Consumer_Safety.thy ===== *)
theory Inventory_Consumer_Safety
  imports Inventory_Consumers
begin

text \<open>
  What the inventory consumers keep whatever fails: PostgreSQL, Kafka and Redis may refuse any
  call or lose its acknowledgement, and messages may hold anything.
\<close>

section \<open>The consumers keep every invariant of the repository\<close>

context stock_repository
begin

lemma reserve_inv: "inv s \<Longrightarrow> isvc_ReserveStock repo r s = (x, s') \<Longrightarrow> inv s'"
  using run_icall_inv [of s "ReserveCall r"] by simp

lemma release_inv: "inv s \<Longrightarrow> isvc_ReleaseStock repo r s = (x, s') \<Longrightarrow> inv s'"
  using run_icall_inv [of s "ReleaseCall r"] by simp

lemma release_order_inv: "inv s \<Longrightarrow> TrimSpace oid \<in> own \<Longrightarrow> isvc_ReleaseReservationsByOrderID repo oid s = (u, s') \<Longrightarrow> inv s'"
  using run_icall_inv [of s "ReleaseOrderCall oid"] by simp

lemma release_items_inv: "inv s \<Longrightarrow> release_items repo oid items s = (e, s') \<Longrightarrow> inv s'"
  by (induction items arbitrary: s) (auto split: prod.splits sum.splits dest: release_inv)

lemma reserve_items_inv: "inv s \<Longrightarrow> reserve_items repo oid items rs s = (e, s') \<Longrightarrow> inv s'"
proof (induction items arbitrary: rs s)
  case (Cons i items)
  obtain x s1 where x: "isvc_ReserveStock repo
      \<lparr>resProductID = ei_ProductID i, resOrderID = oid, resQuantity = ei_Quantity i\<rparr> s = (x, s1)" by fastforce
  have "inv s1" by (rule reserve_inv [OF Cons.prems(1) x])
  then show ?case
    using Cons.IH [of s1] Cons.prems(2) x release_items_inv
    by (auto simp: releaseReserved_def split: sum.splits prod.splits)
qed simp

end

lemma istore_inv_cong:
  assumes "istore_inv ts own w" "tables w' = tables w" "others w' = others w"
  shows "istore_inv ts own w'"
  using assms(1) unfolding istore_inv_def others_keep_def others_leave_def assms(2,3) .

lemma istore_inv_no_redis: "no_redis w' = no_redis w \<Longrightarrow> istore_inv ts own w \<Longrightarrow> istore_inv ts own w'"
  by (erule istore_inv_cong) (rule no_redis_simps(1,3), assumption)+

lemma istore_inv_write: "writeEvent now topic ty src key p w = (r, w') \<Longrightarrow> istore_inv ts own w \<Longrightarrow> istore_inv ts own w'"
  by (elim writeEvent_cases) (erule istore_inv_cong, simp_all)+

lemma istore_inv_mark: "mark_done (redis_deduper p) err eid w = (r, w') \<Longrightarrow> istore_inv ts own w \<Longrightarrow> istore_inv ts own w'"
  by (elim redis.mark_done_cases) (rule istore_inv_no_redis, assumption+)+

lemma istore_inv_publish:
  assumes "publish_and_mark (redis_deduper p) eid (writeEvent now topic ty src key v w) = (r, w')" "istore_inv ts own w"
  shows "istore_inv ts own w'"
proof -
  obtain e w1 where w1: "writeEvent now topic ty src key v w = (e, w1)" by fastforce
  show ?thesis
  proof (cases e)
    case None
    then show ?thesis
      using istore_inv_mark [of p InventoryDedup eid w1 r w'] istore_inv_write [OF w1 assms(2)] assms(1)
      by (simp add: publish_and_mark_def w1)
  next
    case (Some m)
    then show ?thesis using istore_inv_write [OF w1 assms(2)] assms(1) by (simp add: publish_and_mark_def w1)
  qed
qed

lemma order_created_keeps:
  assumes "istore_inv ts own w"
    and "OrderCreated_handleMessage (pg_inventory_repo coll) inventory_deduper (inventory_kafka_publisher rt ft) now msg w = (r, w')"
  shows "istore_inv ts own w'"
  using assms(2) [unfolded OrderCreated_handleMessage_def, unfolded inventory_deduper_def]
proof (cases rule: redis.deduplicated_cases)
  case (handled envelope w1)
  have i1: "istore_inv ts own w1" by (rule istore_inv_no_redis [OF handled(3) assms(1)])
  show ?thesis
  proof (cases "unmarshal dec_OrderCreated zero_OrderCreated (en_Payload envelope)")
    case None
    then show ?thesis using handled(5) i1 by (simp add: handle_order_created_def)
  next
    case (Some event)
    obtain rs f e rb w2 where a: "reserveAll (pg_inventory_repo coll) event w1 = ((rs, f, e, rb), w2)"
      by (cases "reserveAll (pg_inventory_repo coll) event w1") auto
    have "istore_inv ts own w2"
      by (rule pg_stock.reserve_items_inv [OF i1 a [unfolded reserveAll_def]])
    then show ?thesis
      using handled(5) Some a
      by (cases rb; cases e) (auto simp: handle_order_created_def inventory_kafka_publisher_def
          kafka_PublishInventoryReserved_def kafka_PublishInventoryReservationFailed_def dest: istore_inv_publish)
  qed
qed (rule istore_inv_no_redis, assumption, rule assms(1))+

text \<open>The order a message cancels.\<close>

definition cancelled_order :: "kafka_message \<Rightarrow> string option" where
  "cancelled_order msg =
     (case unmarshal dec_Envelope zero_Envelope (kmValue msg) of
        None \<Rightarrow> None
      | Some envelope \<Rightarrow> map_option ox_OrderID (unmarshal dec_OrderCancelled zero_OrderCancelled (en_Payload envelope)))"

lemma order_cancelled_keeps:
  assumes "istore_inv ts own w" and "\<And>oid. cancelled_order msg = Some oid \<Longrightarrow> TrimSpace oid \<in> own"
    and "OrderCancelled_handleMessage (pg_inventory_repo coll) inventory_deduper msg w = (r, w')"
  shows "istore_inv ts own w'"
  using assms(3) [unfolded OrderCancelled_handleMessage_def, unfolded inventory_deduper_def]
proof (cases rule: redis.deduplicated_cases)
  case (handled envelope w1)
  have i1: "istore_inv ts own w1" by (rule istore_inv_no_redis [OF handled(3) assms(1)])
  show ?thesis
  proof (cases "unmarshal dec_OrderCancelled zero_OrderCancelled (en_Payload envelope)")
    case None
    then show ?thesis using handled(5) i1 by (simp add: handle_order_cancelled_def)
  next
    case (Some event)
    obtain u w2 where a: "isvc_ReleaseReservationsByOrderID (pg_inventory_repo coll) (ox_OrderID event) w1 = (u, w2)"
      by fastforce
    have "cancelled_order msg = Some (ox_OrderID event)" using handled(1) Some by (simp add: cancelled_order_def)
    then have "istore_inv ts own w2" by (rule pg_stock.release_order_inv [OF i1 assms(2) a])
    then show ?thesis
      using handled(5) Some a by (cases u) (auto simp: handle_order_cancelled_def dest: istore_inv_mark)
  qed
qed (rule istore_inv_no_redis, assumption, rule assms(1))+



section \<open>What is announced is reserved\<close>

lemma release_items_tables_only:
  "release_items (pg_inventory_repo coll) oid items w = (e, w') \<Longrightarrow> tables_only w w'"
proof (induction items arbitrary: w)
  case (Cons i items)
  then show ?case
    using tables_only_trans service_tables_only(2) by (auto split: prod.splits sum.splits) blast+
qed simp

lemma reserve_items_tables_only:
  "reserve_items (pg_inventory_repo coll) oid items rs w = (e, w') \<Longrightarrow> tables_only w w'"
proof (induction items arbitrary: rs w)
  case (Cons i items)
  obtain x w1 where x: "isvc_ReserveStock (pg_inventory_repo coll)
      \<lparr>resProductID = ei_ProductID i, resOrderID = oid, resQuantity = ei_Quantity i\<rparr> w = (x, w1)" by fastforce
  have "tables_only w1 w'"
    using Cons x release_items_tables_only [where w' = w' and w = w1]
    by (auto simp: releaseReserved_def split: sum.splits prod.splits)
  with service_tables_only(1) [OF x] show ?case by (rule tables_only_trans)
qed simp

text \<open>A loop that came to its end reserved every item, whatever failed otherwise.\<close>

lemma reserve_items_complete:
  assumes "alone w" "stock_inv (tables w)" "reservable oid ds l" "iview w = l_reserve_all oid ds l"
    and "reserve_items (pg_inventory_repo coll) oid items (map reservation_item ds) w = ((rs, f, None, None), w')"
  shows "reservable oid (ds @ items) l \<and> iview w' = l_reserve_all oid (ds @ items) l \<and> rs = map reservation_item (ds @ items)"
  using assms
proof (induction items arbitrary: w ds)
  case (Cons i items)
  let ?r = "\<lparr>resProductID = ei_ProductID i, resOrderID = oid, resQuantity = ei_Quantity i\<rparr>"
  obtain x w1 where x: "isvc_ReserveStock (pg_inventory_repo coll) ?r w = (Inr x, w1)"
    using Cons.prems(5) by (auto split: prod.splits sum.splits)
  then have v: "valid_item oid i" and r: "rReserveStock (pg_inventory_repo coll) ?r w = (Inr x, w1)"
    using invalid_request [of ?r] valid_item_reservation [of i oid]
    by (auto simp: isvc_ReserveStock_def split: option.splits)
  have inv: "istore_inv (totals (tables w)) {} w"
    using Cons.prems(1,2) by (simp add: istore_inv_def alone_others_keep others_leave_def)
  from pg_stock.reserve [OF inv r] have w1: "istore_inv (totals (tables w)) {} w1"
    "l_reserve (ei_ProductID i) oid (ei_Quantity i) (iview w) = Inr (iview w1)"
    using Cons.prems(1) by (auto simp: isees_def lmoves_def iview_def alone_found alone_found_next)
  have "reservable oid (ds @ [i]) l" "iview w1 = l_reserve_all oid (ds @ [i]) l"
    using l_reserve_all_snoc [OF Cons.prems(3) v] w1(2) Cons.prems(4) by (auto split: if_splits)
  moreover have "alone w1" using tables_only_alone [OF service_tables_only(1) [OF x]] Cons.prems(1) by simp
  ultimately show ?case
    using Cons.IH [of w1 "ds @ [i]"] Cons.prems(5) x w1(1) by (simp add: istore_inv_def)
qed simp

lemma publish_and_mark_sent:
  fixes w :: "(inventory_db, 'm) node_world_scheme"
  assumes "publish_and_mark (redis_deduper p) eid (writeEvent now topic ty src key v w) = (r, w')"
  shows "iview w' = iview w \<and> sent w' \<in> {sent w, sent w @ [event_message now topic ty src key v]}"
proof -
  obtain e w1 where w1: "writeEvent now topic ty src key v w = (e, w1)" by fastforce
  have s1: "iview w1 = iview w \<and> sent w1 \<in> {sent w, sent w @ [event_message now topic ty src key v]}"
    using w1 by (cases rule: writeEvent_cases) (simp_all add: iview_def)
  have s2: "iview w' = iview w1 \<and> sent w' = sent w1"
  proof (cases e)
    case None
    then have m: "mark_done (redis_deduper p) InventoryDedup eid w1 = (r, w')"
      using assms by (simp add: publish_and_mark_def w1)
    have "no_redis w' = no_redis w1" using m by (cases rule: redis.mark_done_cases)
    then show ?thesis using served_alone_no_redis(2) [of w' w1] no_redis_simps(5) [of w' w1] by simp
  next
    case (Some m)
    then show ?thesis using assms by (simp add: publish_and_mark_def w1)
  qed
  show ?thesis using s1 s2 by simp
qed

lemma handle_order_created_sent:
  fixes w :: "(inventory_db, 'm) node_world_scheme"
  assumes "alone w" "stock_inv (tables w)" "unmarshal dec_OrderCreated zero_OrderCreated (en_Payload envelope) = Some event"
    and "handle_order_created (pg_inventory_repo coll) (redis_deduper ''inventory:event:processed:'') (inventory_kafka_publisher rt ft)
      now envelope w = (r, w')"
  shows "sent w' = sent w \<or>
    (\<exists>payload. sent w' = sent w @ [event_message now ft InventoryReservationFailedEventType
       (en_EventID envelope) (oc_OrderID event) payload]) \<or>
    sent w' = sent w @ [event_message now rt InventoryReservedEventType
       (en_EventID envelope) (oc_OrderID event) (enc_InventoryReserved (reserved_event event))] \<and>
    reservable (oc_OrderID event) (oc_Items event) (iview w) \<and>
    iview w' = l_reserve_all (oc_OrderID event) (oc_Items event) (iview w)"
proof -
  obtain rs f e rb w2 where a: "reserveAll (pg_inventory_repo coll) event w = ((rs, f, e, rb), w2)"
    by (cases "reserveAll (pg_inventory_repo coll) event w") auto
  have s2: "sent w2 = sent w" using tables_only_node(1) [OF reserve_items_tables_only [OF a [unfolded reserveAll_def]]] by simp
  consider (rollback) x where "rb = Some x" | (failed) err where "rb = None" "e = Some err" | (complete) "rb = None" "e = None"
    by (cases rb; cases e) auto
  then show ?thesis
  proof cases
    case (rollback x)
    then show ?thesis using assms(3,4) a s2 by (cases e) (simp_all add: handle_order_created_def)
  next
    case (failed err)
    then have "sent w' \<in> {sent w2, sent w2 @ [event_message now ft InventoryReservationFailedEventType (en_EventID envelope) (oc_OrderID event)
        (enc_InventoryReservationFailed \<lparr>rf_OrderID = oc_OrderID event, rf_CustomerID = oc_CustomerID event,
           rf_FailedItem = f, rf_Reason = inventory_error_text err\<rparr>)]}"
      using assms(3,4) a publish_and_mark_sent [where w' = w' and w = w2 and r = r]
      by (fastforce simp: handle_order_created_def inventory_kafka_publisher_def kafka_PublishInventoryReservationFailed_def)
    then show ?thesis using s2 by auto
  next
    case complete
    then have "reserve_items (pg_inventory_repo coll) (oc_OrderID event) (oc_Items event) (map reservation_item []) w =
        ((rs, f, None, None), w2)"
      using a by (simp add: reserveAll_def)
    from reserve_items_complete [OF assms(1) _ reservable_Nil _ this, of "iview w"] assms(2)
    have c: "reservable (oc_OrderID event) (oc_Items event) (iview w)" "rs = map reservation_item (oc_Items event)"
      "iview w2 = l_reserve_all (oc_OrderID event) (oc_Items event) (iview w)" by simp_all
    have "publish_and_mark (redis_deduper ''inventory:event:processed:'') (en_EventID envelope)
        (writeEvent now rt InventoryReservedEventType (en_EventID envelope) (oc_OrderID event)
          (enc_InventoryReserved (reserved_event event)) w2) = (r, w')"
      using assms(3,4) a complete c(2)
      by (simp add: handle_order_created_def inventory_kafka_publisher_def kafka_PublishInventoryReserved_def reserved_event_def)
    from publish_and_mark_sent [OF this] show ?thesis using s2 c by auto
  qed
qed

text \<open>
  C26: Without other clients of the tables meanwhile, an \<open>inventory.reserved\<close> event is never sent
  for stock that is not reserved. However PostgreSQL, Kafka and Redis fail, handling one message
  sends at most one event: either \<open>inventory.reservation_failed\<close>, or \<open>inventory.reserved\<close> with
  all the items of the order, and then every item was available and the ledger has moved the full
  demand to the order. (Another client, such as the consumer of \<open>order.cancelled\<close>, could release
  the stock between the reservation and the announcement.)
\<close>
theorem announced_means_reserved:
  fixes w :: "(inventory_db, 'm) node_world_scheme"
  assumes "alone w" "stock_inv (tables w)"
    and "OrderCreated_handleMessage (pg_inventory_repo coll) inventory_deduper (inventory_kafka_publisher rt ft) now msg w = (r, w')"
  shows "sent w' = sent w \<or> (\<exists>envelope event.
    unmarshal dec_Envelope zero_Envelope (kmValue msg) = Some envelope \<and>
    unmarshal dec_OrderCreated zero_OrderCreated (en_Payload envelope) = Some event \<and>
    ((\<exists>payload. sent w' = sent w @ [event_message now ft InventoryReservationFailedEventType
        (en_EventID envelope) (oc_OrderID event) payload]) \<or>
     sent w' = sent w @ [event_message now rt InventoryReservedEventType
        (en_EventID envelope) (oc_OrderID event) (enc_InventoryReserved (reserved_event event))] \<and>
     reservable (oc_OrderID event) (oc_Items event) (iview w) \<and>
     iview w' = l_reserve_all (oc_OrderID event) (oc_Items event) (iview w)))"
  using assms(3) [unfolded OrderCreated_handleMessage_def, unfolded inventory_deduper_def]
proof (cases rule: redis.deduplicated_cases)
  case (handled envelope w1)
  have i: "alone w1" "tables w1 = tables w" "iview w1 = iview w" "sent w1 = sent w"
    using assms(1) no_redis_world(1) [OF handled(3)] no_redis_simps(1,5) [OF handled(3)] by (simp_all add: iview_def)
  show ?thesis
  proof (cases "unmarshal dec_OrderCreated zero_OrderCreated (en_Payload envelope)")
    case None
    then show ?thesis using handled(5) i by (simp add: handle_order_created_def)
  next
    case (Some event)
    show ?thesis
      using handle_order_created_sent [OF i(1) _ Some handled(5)] handled(1) Some assms(2) i(2-4) by auto
  qed
qed (use no_redis_simps(5) in blast)+

theorem announced_means_reserved_witness:
  "\<exists>r w'. OrderCreated_handleMessage sample_inventory inventory_deduper (inventory_kafka_publisher ''a'' ''b'') 5000
       (created_message ''e1'' sample_created) (calm_node sample_stock 1000) = (r, w') \<and> length (sent w') \<le> 1"
proof -
  obtain r w' where h: "OrderCreated_handleMessage sample_inventory inventory_deduper (inventory_kafka_publisher ''a'' ''b'') 5000
       (created_message ''e1'' sample_created) (calm_node sample_stock 1000) = (r, w')" by fastforce
  from announced_means_reserved [OF _ _ h] h show ?thesis by auto
qed

end
