(* ===== verification/Payment_Repository.thy ===== *)
theory Payment_Repository
  imports Proto_Enums Runtime "HOL-Library.Product_Lexorder"
begin

text \<open>
  The payment service's domain, its table with the statements of the \<open>sqlc\<close> package
  (\<open>internal/payment/repository/sqlc\<close>, constraints of \<open>db/schema/payment.sql\<close>) and its
  PostgreSQL repository (\<open>internal/payment/repository/postgres.go\<close>). Every method runs single
  statements outside a transaction.
\<close>

section \<open>Domain\<close>

datatype payment_status =
    PAYMENT_STATUS_UNSPECIFIED
  | PAYMENT_STATUS_PENDING
  | PAYMENT_STATUS_CAPTURED
  | PAYMENT_STATUS_FAILED
  | PAYMENT_STATUS_CANCELLED

fun PaymentStatus_String :: "payment_status \<Rightarrow> string" where
  "PaymentStatus_String PAYMENT_STATUS_UNSPECIFIED = ''PAYMENT_STATUS_UNSPECIFIED''"
| "PaymentStatus_String PAYMENT_STATUS_PENDING = ''PAYMENT_STATUS_PENDING''"
| "PaymentStatus_String PAYMENT_STATUS_CAPTURED = ''PAYMENT_STATUS_CAPTURED''"
| "PaymentStatus_String PAYMENT_STATUS_FAILED = ''PAYMENT_STATUS_FAILED''"
| "PaymentStatus_String PAYMENT_STATUS_CANCELLED = ''PAYMENT_STATUS_CANCELLED''"

definition PaymentStatus_value :: "string \<Rightarrow> payment_status option" where
  "PaymentStatus_value s =
     find (\<lambda>st. PaymentStatus_String st = s)
       [PAYMENT_STATUS_UNSPECIFIED, PAYMENT_STATUS_PENDING, PAYMENT_STATUS_CAPTURED,
        PAYMENT_STATUS_FAILED, PAYMENT_STATUS_CANCELLED]"

lemma PaymentStatus_value_String [simp]: "PaymentStatus_value (PaymentStatus_String s) = Some s"
  by (cases s) (simp_all add: PaymentStatus_value_def)

record payment_money =
  ymCurrency :: currency
  ymAmountCents :: int

record payment =
  yID :: string
  yOrderID :: string
  yCustomerID :: string
  yAmount :: payment_money
  yMethod :: payment_method
  yMethodDetails :: string
  yIdempotencyKey :: string
  yStatus :: payment_status
  yCancelReason :: string
  yCreatedAt :: time
  yUpdatedAt :: time

datatype payment_error =
    ErrPaymentNotFound
  | ErrInvalidPayment
  | ErrPaymentAlreadyExists
  | ErrInvalidPaymentID
  | ErrInvalidIdempotencyKey
  | ErrPaymentKeyAlreadyExists
  | ErrPaymentCannotBeCancelled
  | ErrPaymentCannotBeCaptured
  | ErrPaymentCannotBeFailed
  | PaymentInternal string

fun payment_error_text :: "payment_error \<Rightarrow> string" where
  "payment_error_text ErrPaymentNotFound = ''payment not found''"
| "payment_error_text ErrInvalidPayment = ''invalid payment''"
| "payment_error_text ErrPaymentAlreadyExists = ''payment already exists''"
| "payment_error_text ErrInvalidPaymentID = ''invalid payment id''"
| "payment_error_text ErrInvalidIdempotencyKey = ''invalid idempotency key''"
| "payment_error_text ErrPaymentKeyAlreadyExists = ''payment already exists for idempotency key''"
| "payment_error_text ErrPaymentCannotBeCancelled = ''payment cannot be cancelled in current status''"
| "payment_error_text ErrPaymentCannotBeCaptured = ''payment cannot be captured in current status''"
| "payment_error_text ErrPaymentCannotBeFailed = ''payment cannot be marked as failed in current status''"
| "payment_error_text (PaymentInternal t) = t"

section \<open>The table\<close>

record payment_row =
  pyID :: string
  pyOrderID :: string
  pyCustomerID :: string
  pyAmountCurrency :: string
  pyAmountCents :: int
  pyMethod :: string
  pyMethodDetails :: string
  pyKey :: "string option"
  pyStatus :: string
  pyCancelReason :: string
  pyCreatedAt :: "time option"
  pyUpdatedAt :: "time option"

record payment_db =
  payments :: "payment_row list"

definition stored_payment_row :: "payment_row \<Rightarrow> payment_row" where
  "stored_payment_row r =
     r\<lparr>pyCreatedAt := map_option pg_micros (pyCreatedAt r),
       pyUpdatedAt := map_option pg_micros (pyUpdatedAt r)\<rparr>"

text \<open>The constraints a new version of a row must meet beside the rows \<open>rs\<close>.\<close>

definition check_payment_row :: "payment_row \<Rightarrow> payment_row list \<Rightarrow> pg_error option" where
  "check_payment_row arg rs =
     (if pyCreatedAt arg = None \<or> pyUpdatedAt arg = None then Some not_null_violation
      else if pyAmountCents arg \<le> 0 then Some (check_violation ''payments_amount_cents_check'')
      else if pyID arg \<in> set (map pyID rs) then Some (unique_violation ''payments_pkey'')
      else if pyOrderID arg \<in> set (map pyOrderID rs) then Some (unique_violation ''payments_order_id_key'')
      else if pyKey arg \<noteq> None \<and> pyKey arg \<in> set (map pyKey rs)
        then Some (unique_violation ''payments_idempotency_key_key'')
      else None)"

definition q_CreatePayment :: "payment_row \<Rightarrow> payment_db \<Rightarrow> pg_error + (payment_row \<times> payment_db)" where
  "q_CreatePayment arg db =
     (case check_payment_row arg (payments db) of
        Some e \<Rightarrow> Inl e
      | None \<Rightarrow> Inr (stored_payment_row arg, db\<lparr>payments := payments db @ [stored_payment_row arg]\<rparr>))"

definition q_UpdatePayment :: "payment_row \<Rightarrow> payment_db \<Rightarrow> pg_error + (payment_row \<times> payment_db)" where
  "q_UpdatePayment arg db =
     (if pyID arg \<notin> set (map pyID (payments db)) then Inl NoRows
      else case check_payment_row arg (filter (\<lambda>r. pyID r \<noteq> pyID arg) (payments db)) of
        Some e \<Rightarrow> Inl e
      | None \<Rightarrow> Inr (stored_payment_row arg,
          db\<lparr>payments := replace_row pyID (pyID arg) (\<lambda>_. stored_payment_row arg) (payments db)\<rparr>))"

definition q_GetPaymentByID :: "string \<Rightarrow> payment_db \<Rightarrow> pg_error + payment_row" where
  "q_GetPaymentByID pid db =
     (case find (\<lambda>r. pyID r = pid) (payments db) of None \<Rightarrow> Inl NoRows | Some r \<Rightarrow> Inr r)"

definition q_GetPaymentByIdempotencyKey :: "string option \<Rightarrow> payment_db \<Rightarrow> pg_error + payment_row" where
  "q_GetPaymentByIdempotencyKey key db =
     (case find (\<lambda>r. key \<noteq> None \<and> pyKey r = key) (payments db) of None \<Rightarrow> Inl NoRows | Some r \<Rightarrow> Inr r)"

definition q_GetPaymentByOrderID :: "string \<Rightarrow> payment_db \<Rightarrow> pg_error + payment_row" where
  "q_GetPaymentByOrderID oid db =
     (case find (\<lambda>r. pyOrderID r = oid) (payments db) of None \<Rightarrow> Inl NoRows | Some r \<Rightarrow> Inr r)"

definition q_CountPaymentsByCustomer :: "string \<Rightarrow> payment_db \<Rightarrow> int" where
  "q_CountPaymentsByCustomer cid db = int (length (filter (\<lambda>r. pyCustomerID r = cid) (payments db)))"

definition payment_created_key :: "payment_row \<Rightarrow> time" where
  "payment_created_key r = (case pyCreatedAt r of None \<Rightarrow> 0 | Some t \<Rightarrow> t)"

definition q_ListPaymentsByCustomer ::
    "(string \<Rightarrow> 'k::linorder) \<Rightarrow> string \<Rightarrow> int \<Rightarrow> int \<Rightarrow> payment_db \<Rightarrow> payment_row list" where
  "q_ListPaymentsByCustomer coll cid limit offset db =
     page_of limit offset
       (sort_key (\<lambda>r. (payment_created_key r, coll (pyID r))) (filter (\<lambda>r. pyCustomerID r = cid) (payments db)))"

section \<open>Rows and payments\<close>

definition toPaymentDBParams :: "payment \<Rightarrow> payment_row" where
  "toPaymentDBParams p =
     \<lparr>pyID = yID p, pyOrderID = yOrderID p, pyCustomerID = yCustomerID p,
      pyAmountCurrency = Currency_String (ymCurrency (yAmount p)), pyAmountCents = ymAmountCents (yAmount p),
      pyMethod = PaymentMethodType_String (yMethod p), pyMethodDetails = yMethodDetails p,
      pyKey = (let key = TrimSpace (yIdempotencyKey p) in if key \<noteq> [] then Some key else None),
      pyStatus = PaymentStatus_String (yStatus p), pyCancelReason = yCancelReason p,
      pyCreatedAt = timestamptz (yCreatedAt p), pyUpdatedAt = timestamptz (yUpdatedAt p)\<rparr>"

definition toCreatePaymentParams :: "payment \<Rightarrow> payment_row" where
  "toCreatePaymentParams p =
     (let base = toPaymentDBParams p
      in \<lparr>pyID = pyID base, pyOrderID = pyOrderID base, pyCustomerID = pyCustomerID base,
          pyAmountCurrency = pyAmountCurrency base, pyAmountCents = pyAmountCents base,
          pyMethod = pyMethod base, pyMethodDetails = pyMethodDetails base, pyKey = pyKey base,
          pyStatus = pyStatus base, pyCancelReason = pyCancelReason base,
          pyCreatedAt = pyCreatedAt base, pyUpdatedAt = pyUpdatedAt base\<rparr>)"

definition toUpdatePaymentParams :: "payment \<Rightarrow> payment_row" where
  "toUpdatePaymentParams p =
     (let base = toPaymentDBParams p
      in \<lparr>pyID = pyID base, pyOrderID = pyOrderID base, pyCustomerID = pyCustomerID base,
          pyAmountCurrency = pyAmountCurrency base, pyAmountCents = pyAmountCents base,
          pyMethod = pyMethod base, pyMethodDetails = pyMethodDetails base, pyKey = pyKey base,
          pyStatus = pyStatus base, pyCancelReason = pyCancelReason base,
          pyCreatedAt = pyCreatedAt base, pyUpdatedAt = pyUpdatedAt base\<rparr>)"

definition parsePaymentCurrency :: "string \<Rightarrow> string + currency" where
  "parsePaymentCurrency v =
     (case Currency_value v of
        None \<Rightarrow> Inl (''unknown payment currency in db: '' @ quote v)
      | Some c \<Rightarrow> Inr c)"

definition parseStoredMethod :: "string \<Rightarrow> string + payment_method" where
  "parseStoredMethod v =
     (case PaymentMethodType_value v of
        None \<Rightarrow> Inl (''unknown payment method in db: '' @ quote v)
      | Some m \<Rightarrow> Inr m)"

definition parsePaymentStatus :: "string \<Rightarrow> string + payment_status" where
  "parsePaymentStatus v =
     (case PaymentStatus_value v of
        None \<Rightarrow> Inl (''unknown payment status in db: '' @ quote v)
      | Some s \<Rightarrow> Inr s)"

definition mapDBPayment :: "payment_row \<Rightarrow> string + payment" where
  "mapDBPayment row =
     (case parsePaymentCurrency (pyAmountCurrency row) of
        Inl e \<Rightarrow> Inl e
      | Inr currency \<Rightarrow>
     (case parseStoredMethod (pyMethod row) of
        Inl e \<Rightarrow> Inl e
      | Inr m \<Rightarrow>
     (case parsePaymentStatus (pyStatus row) of
        Inl e \<Rightarrow> Inl e
      | Inr status \<Rightarrow>
          Inr \<lparr>yID = pyID row, yOrderID = pyOrderID row, yCustomerID = pyCustomerID row,
               yAmount = \<lparr>ymCurrency = currency, ymAmountCents = pyAmountCents row\<rparr>,
               yMethod = m, yMethodDetails = pyMethodDetails row,
               yIdempotencyKey = (case pyKey row of None \<Rightarrow> [] | Some k \<Rightarrow> k),
               yStatus = status, yCancelReason = pyCancelReason row,
               yCreatedAt = (case pyCreatedAt row of None \<Rightarrow> zero_time | Some t \<Rightarrow> t),
               yUpdatedAt = (case pyUpdatedAt row of None \<Rightarrow> zero_time | Some t \<Rightarrow> t)\<rparr>)))"

fun mapDBPayments :: "payment_row list \<Rightarrow> string + payment list" where
  "mapDBPayments [] = Inr []"
| "mapDBPayments (row # rows) =
     (case mapDBPayment row of
        Inl e \<Rightarrow> Inl e
      | Inr p \<Rightarrow> (case mapDBPayments rows of Inl e \<Rightarrow> Inl e | Inr ps \<Rightarrow> Inr (p # ps)))"

definition payment_clampInt64ToInt32 :: "int \<Rightarrow> int" where
  "payment_clampInt64ToInt32 value =
     (if value > 2147483647 then 2147483647 else if value < 0 then 0 else wrap32 value)"

section \<open>The methods\<close>

definition payment_wrap :: "string \<Rightarrow> pg_error \<Rightarrow> payment_error" where
  "payment_wrap what err = PaymentInternal (what @ '': '' @ pg_error_text err)"

definition mapCreatePaymentError :: "pg_error \<Rightarrow> payment_error" where
  "mapCreatePaymentError err =
     (case err of
        PgError code con msg \<Rightarrow>
          (if code \<noteq> ''23505'' then payment_wrap ''create payment in postgres'' err
           else if con \<in> {''payments_pkey'', ''payments_order_id_key''} then ErrPaymentAlreadyExists
           else if con = ''payments_idempotency_key_key'' then ErrPaymentKeyAlreadyExists
           else payment_wrap ''create payment in postgres'' err)
      | _ \<Rightarrow> payment_wrap ''create payment in postgres'' err)"

definition mapUpdatePaymentError :: "pg_error \<Rightarrow> payment_error" where
  "mapUpdatePaymentError err =
     (case err of
        NoRows \<Rightarrow> ErrPaymentNotFound
      | PgError code con msg \<Rightarrow>
          (if code \<noteq> ''23505'' then payment_wrap ''update payment in postgres'' err
           else if con = ''payments_order_id_key'' then ErrPaymentAlreadyExists
           else if con = ''payments_idempotency_key_key'' then ErrPaymentKeyAlreadyExists
           else payment_wrap ''update payment in postgres'' err)
      | ConnError m \<Rightarrow> payment_wrap ''update payment in postgres'' err)"

definition validatePayment :: "payment \<Rightarrow> payment_error option" where
  "validatePayment p =
     (if TrimSpace (yID p) = [] then Some ErrInvalidPaymentID
      else if TrimSpace (yOrderID p) = [] \<or> TrimSpace (yCustomerID p) = [] then Some ErrInvalidPayment
      else None)"

definition pg_CreatePayment :: "attempt \<Rightarrow> payment \<Rightarrow> payment_db \<Rightarrow> (payment_error + payment) \<times> payment_db" where
  "pg_CreatePayment a p db =
     (case validatePayment p of
        Some e \<Rightarrow> (Inl e, db)
      | None \<Rightarrow>
          (case autocommit a (''CreatePayment'', 0) db (q_CreatePayment (toCreatePaymentParams p) db) of
             (Inl e, db') \<Rightarrow> (Inl (mapCreatePaymentError e), db')
           | (Inr row, db') \<Rightarrow>
               (map_sum (\<lambda>e. PaymentInternal (''map created payment from postgres: '' @ e)) id (mapDBPayment row), db')))"

definition pg_UpdatePayment :: "attempt \<Rightarrow> payment \<Rightarrow> payment_db \<Rightarrow> (payment_error + payment) \<times> payment_db" where
  "pg_UpdatePayment a p db =
     (case validatePayment p of
        Some e \<Rightarrow> (Inl e, db)
      | None \<Rightarrow>
          (case autocommit a (''UpdatePayment'', 0) db (q_UpdatePayment (toUpdatePaymentParams p) db) of
             (Inl e, db') \<Rightarrow> (Inl (mapUpdatePaymentError e), db')
           | (Inr row, db') \<Rightarrow>
               (map_sum (\<lambda>e. PaymentInternal (''map updated payment from postgres: '' @ e)) id (mapDBPayment row), db')))"

text \<open>The three lookups end alike.\<close>

definition found_payment :: "string \<Rightarrow> pg_error + payment_row \<Rightarrow> payment_error + payment" where
  "found_payment what r =
     (case r of
        Inl e \<Rightarrow> Inl (if e = NoRows then ErrPaymentNotFound else payment_wrap what e)
      | Inr row \<Rightarrow> map_sum PaymentInternal id (mapDBPayment row))"

definition pg_GetPaymentByID :: "attempt \<Rightarrow> string \<Rightarrow> payment_db \<Rightarrow> payment_error + payment" where
  "pg_GetPaymentByID a pid db =
     (if TrimSpace pid = [] then Inl ErrInvalidPaymentID
      else found_payment ''get payment by id from postgres''
             (exec a (''GetPaymentByID'', 0) (q_GetPaymentByID pid db)))"

definition pg_GetPaymentByIdempotencyKey :: "attempt \<Rightarrow> string \<Rightarrow> payment_db \<Rightarrow> payment_error + payment" where
  "pg_GetPaymentByIdempotencyKey a key0 db =
     (let key = TrimSpace key0
      in if key = [] then Inl ErrInvalidIdempotencyKey
         else found_payment ''get payment by idempotency key from postgres''
                (exec a (''GetPaymentByIdempotencyKey'', 0) (q_GetPaymentByIdempotencyKey (Some key) db)))"

definition pg_GetPaymentByOrderID :: "attempt \<Rightarrow> string \<Rightarrow> payment_db \<Rightarrow> payment_error + payment" where
  "pg_GetPaymentByOrderID a oid0 db =
     (let oid = TrimSpace oid0
      in if oid = [] then Inl ErrInvalidPayment
         else found_payment ''get payment by order id from postgres''
                (exec a (''GetPaymentByOrderID'', 0) (q_GetPaymentByOrderID oid db)))"

text \<open>The two statements of a listing may see different states: \<open>snap i\<close> is what the \<open>i\<close>th finds.\<close>

definition pg_ListPaymentsByCustomer ::
    "(string \<Rightarrow> 'k::linorder) \<Rightarrow> attempt \<Rightarrow> string \<Rightarrow> int \<Rightarrow> int \<Rightarrow> (nat \<Rightarrow> payment_db) \<Rightarrow>
     payment_error + (payment list \<times> int)" where
  "pg_ListPaymentsByCustomer coll a cid0 page0 pageSize snap =
     (let cid = TrimSpace cid0
      in if cid = [] then Inl ErrInvalidPayment
      else
     (case exec a (''CountPaymentsByCustomer'', 0) (Inr (q_CountPaymentsByCustomer cid (snap 0))) of
        Inl e \<Rightarrow> Inl (payment_wrap ''count payments by customer from postgres'' e)
      | Inr total' \<Rightarrow>
     (if total' = 0 then Inr ([], 0)
      else
        let page = (if page0 \<le> 0 then 1 else page0);
            limit = (if pageSize \<le> 0 then total' else pageSize);
            offset = wrap64 ((page - 1) * limit)
        in if offset \<ge> total' then Inr ([], total')
        else
     (case exec a (''ListPaymentsByCustomer'', 0)
             (Inr (q_ListPaymentsByCustomer coll cid
                (payment_clampInt64ToInt32 limit) (payment_clampInt64ToInt32 offset) (snap 1))) of
        Inl e \<Rightarrow> Inl (payment_wrap ''list payments by customer from postgres'' e)
      | Inr rows \<Rightarrow>
     (case mapDBPayments rows of
        Inl e \<Rightarrow> Inl (PaymentInternal (''map listed payments from postgres: '' @ e))
      | Inr ps \<Rightarrow> Inr (ps, total'))))))"

record 's payment_repo =
  rCreatePayment :: "payment \<Rightarrow> 's \<Rightarrow> (payment_error + payment) \<times> 's"
  rGetPaymentByID :: "string \<Rightarrow> 's \<Rightarrow> (payment_error + payment) \<times> 's"
  rGetPaymentByIdempotencyKey :: "string \<Rightarrow> 's \<Rightarrow> (payment_error + payment) \<times> 's"
  rGetPaymentByOrderID :: "string \<Rightarrow> 's \<Rightarrow> (payment_error + payment) \<times> 's"
  rListPaymentsByCustomer :: "string \<Rightarrow> int \<Rightarrow> int \<Rightarrow> 's \<Rightarrow> (payment_error + (payment list \<times> int)) \<times> 's"
  rUpdatePayment :: "payment \<Rightarrow> 's \<Rightarrow> (payment_error + payment) \<times> 's"

definition pg_payment_repo :: "(string \<Rightarrow> 'k::linorder) \<Rightarrow> (payment_db, 'm) world_scheme payment_repo" where
  "pg_payment_repo coll =
     \<lparr>rCreatePayment = (\<lambda>p. with_attempt (\<lambda>a. pg_CreatePayment a p)),
      rGetPaymentByID = (\<lambda>pid. with_read (\<lambda>a. pg_GetPaymentByID a pid)),
      rGetPaymentByIdempotencyKey = (\<lambda>key. with_read (\<lambda>a. pg_GetPaymentByIdempotencyKey a key)),
      rGetPaymentByOrderID = (\<lambda>oid. with_read (\<lambda>a. pg_GetPaymentByOrderID a oid)),
      rListPaymentsByCustomer = (\<lambda>cid page pageSize.
        with_read (\<lambda>a db. pg_ListPaymentsByCustomer coll a cid page pageSize (\<lambda>_. db))),
      rUpdatePayment = (\<lambda>p. with_attempt (\<lambda>a. pg_UpdatePayment a p))\<rparr>"

end
