(* ===== verification/Payment_Service.thy ===== *)
theory Payment_Service
  imports Payment_Repository
begin

text \<open>
  The payment service (\<open>internal/payment/service/service.go\<close>) over any repository, the contract
  of a payment repository (the locale \<open>payment_repository\<close>), and what the service keeps over any
  repository that meets it.
\<close>

section \<open>The operations\<close>

definition newPaymentID :: "time \<Rightarrow> string" where
  "newPaymentID t = ''pay-'' @ itoa (UnixNano t)"

definition validateCreatePayment :: "payment \<Rightarrow> payment_error option" where
  "validateCreatePayment p =
     (if TrimSpace (yOrderID p) = [] \<or> TrimSpace (yCustomerID p) = [] then Some ErrInvalidPayment
      else if ymAmountCents (yAmount p) \<le> 0 \<or> ymCurrency (yAmount p) = CURRENCY_UNSPECIFIED then Some ErrInvalidPayment
      else if yMethod p = PAYMENT_METHOD_TYPE_UNSPECIFIED then Some ErrInvalidPayment
      else None)"

text \<open>What is stored: identifier and times come from the clock (read twice, \<open>idNow\<close> and \<open>now\<close>).\<close>

definition new_payment :: "time \<Rightarrow> time \<Rightarrow> payment \<Rightarrow> payment" where
  "new_payment idNow now p =
     p\<lparr>yID := (if TrimSpace (yID p) = [] then newPaymentID idNow else yID p),
       yStatus := PAYMENT_STATUS_PENDING, yCreatedAt := now, yUpdatedAt := now, yCancelReason := []\<rparr>"

definition store_payment :: "'s payment_repo \<Rightarrow> payment \<Rightarrow> 's \<Rightarrow> (payment_error + payment) \<times> 's" where
  "store_payment repo p s =
     (case rCreatePayment repo p s of
        (Inr created, s1) \<Rightarrow> (Inr created, s1)
      | (Inl e, s1) \<Rightarrow>
          if TrimSpace (yIdempotencyKey p) \<noteq> [] \<and> e = ErrPaymentKeyAlreadyExists
          then rGetPaymentByIdempotencyKey repo (yIdempotencyKey p) s1
          else (Inl e, s1))"

definition psvc_CreatePayment ::
    "'s payment_repo \<Rightarrow> time \<Rightarrow> time \<Rightarrow> payment \<Rightarrow> 's \<Rightarrow> (payment_error + payment) \<times> 's" where
  "psvc_CreatePayment repo idNow now p s =
     (case validateCreatePayment p of
        Some e \<Rightarrow> (Inl e, s)
      | None \<Rightarrow>
          if TrimSpace (yIdempotencyKey p) \<noteq> []
          then (case rGetPaymentByIdempotencyKey repo (TrimSpace (yIdempotencyKey p)) s of
                  (Inr existing, s1) \<Rightarrow> (Inr existing, s1)
                | (Inl e, s1) \<Rightarrow>
                    if e \<noteq> ErrPaymentNotFound then (Inl e, s1)
                    else store_payment repo (new_payment idNow now p) s1)
          else store_payment repo (new_payment idNow now p) s)"

definition psvc_GetPaymentByID :: "'s payment_repo \<Rightarrow> string \<Rightarrow> 's \<Rightarrow> (payment_error + payment) \<times> 's" where
  "psvc_GetPaymentByID repo pid s =
     (if TrimSpace pid = [] then (Inl ErrInvalidPaymentID, s) else rGetPaymentByID repo pid s)"

definition psvc_GetPaymentByOrderID :: "'s payment_repo \<Rightarrow> string \<Rightarrow> 's \<Rightarrow> (payment_error + payment) \<times> 's" where
  "psvc_GetPaymentByOrderID repo oid s =
     (if TrimSpace oid = [] then (Inl ErrInvalidPayment, s) else rGetPaymentByOrderID repo oid s)"

definition psvc_ListPaymentsByCustomer ::
    "'s payment_repo \<Rightarrow> string \<Rightarrow> int \<Rightarrow> int \<Rightarrow> 's \<Rightarrow> (payment_error + (payment list \<times> int)) \<times> 's" where
  "psvc_ListPaymentsByCustomer repo cid page pageSize s =
     (if TrimSpace cid = [] then (Inl ErrInvalidPayment, s) else rListPaymentsByCustomer repo cid page pageSize s)"

definition psvc_CancelPayment ::
    "'s payment_repo \<Rightarrow> time \<Rightarrow> string \<Rightarrow> string \<Rightarrow> 's \<Rightarrow> (payment_error + payment) \<times> 's" where
  "psvc_CancelPayment repo now pid reason s =
     (if TrimSpace pid = [] then (Inl ErrInvalidPaymentID, s)
      else case rGetPaymentByID repo pid s of
        (Inl e, s1) \<Rightarrow> (Inl e, s1)
      | (Inr p, s1) \<Rightarrow>
          if yStatus p = PAYMENT_STATUS_CANCELLED then (Inr p, s1)
          else if yStatus p = PAYMENT_STATUS_PENDING
          then rUpdatePayment repo
                 (p\<lparr>yStatus := PAYMENT_STATUS_CANCELLED, yCancelReason := TrimSpace reason, yUpdatedAt := now\<rparr>) s1
          else (Inl ErrPaymentCannotBeCancelled, s1))"

text \<open>The result's flag says whether this call made the transition.\<close>

definition with_flag :: "('e + 'a) \<times> 's \<Rightarrow> ('e + ('a \<times> bool)) \<times> 's" where
  "with_flag r = (map_sum id (\<lambda>p. (p, True)) (fst r), snd r)"

definition psvc_CapturePayment ::
    "'s payment_repo \<Rightarrow> time \<Rightarrow> string \<Rightarrow> 's \<Rightarrow> (payment_error + (payment \<times> bool)) \<times> 's" where
  "psvc_CapturePayment repo now pid s =
     (if TrimSpace pid = [] then (Inl ErrInvalidPaymentID, s)
      else case rGetPaymentByID repo pid s of
        (Inl e, s1) \<Rightarrow> (Inl e, s1)
      | (Inr p, s1) \<Rightarrow>
          if yStatus p = PAYMENT_STATUS_CAPTURED then (Inr (p, False), s1)
          else if yStatus p = PAYMENT_STATUS_PENDING
          then with_flag (rUpdatePayment repo (p\<lparr>yStatus := PAYMENT_STATUS_CAPTURED, yUpdatedAt := now\<rparr>) s1)
          else (Inl ErrPaymentCannotBeCaptured, s1))"

definition psvc_FailPayment ::
    "'s payment_repo \<Rightarrow> time \<Rightarrow> string \<Rightarrow> string \<Rightarrow> 's \<Rightarrow> (payment_error + (payment \<times> bool)) \<times> 's" where
  "psvc_FailPayment repo now pid reason0 s =
     (if TrimSpace pid = [] then (Inl ErrInvalidPaymentID, s)
      else let reason = TrimSpace reason0
      in if reason = [] then (Inl ErrInvalidPayment, s)
      else case rGetPaymentByID repo pid s of
        (Inl e, s1) \<Rightarrow> (Inl e, s1)
      | (Inr p, s1) \<Rightarrow>
          if yStatus p = PAYMENT_STATUS_FAILED then (Inr (p, False), s1)
          else if yStatus p = PAYMENT_STATUS_PENDING
          then with_flag (rUpdatePayment repo
                 (p\<lparr>yStatus := PAYMENT_STATUS_FAILED, yCancelReason := reason, yUpdatedAt := now\<rparr>) s1)
          else (Inl ErrPaymentCannotBeFailed, s1))"

section \<open>What a stored payment looks like\<close>

text \<open>
  The payment a later read gives back: times lose what is below a microsecond, the
  idempotency key its surrounding blanks. It exists when the enumerations have names.
\<close>

definition saved :: "payment \<Rightarrow> payment" where
  "saved p = p\<lparr>yIdempotencyKey := TrimSpace (yIdempotencyKey p),
     yCreatedAt := pg_micros (yCreatedAt p), yUpdatedAt := pg_micros (yUpdatedAt p)\<rparr>"

definition named :: "payment \<Rightarrow> bool" where
  "named p \<longleftrightarrow> known_currency (ymCurrency (yAmount p)) \<and> known_method (yMethod p)"

lemma saved_simps [simp]:
  "yID (saved p) = yID p" "yOrderID (saved p) = yOrderID p" "yCustomerID (saved p) = yCustomerID p"
  "yAmount (saved p) = yAmount p" "yMethod (saved p) = yMethod p" "yMethodDetails (saved p) = yMethodDetails p"
  "yIdempotencyKey (saved p) = TrimSpace (yIdempotencyKey p)" "yStatus (saved p) = yStatus p"
  "yCancelReason (saved p) = yCancelReason p" "yCreatedAt (saved p) = pg_micros (yCreatedAt p)"
  "yUpdatedAt (saved p) = pg_micros (yUpdatedAt p)" "named (saved p) = named p" "saved (saved p) = saved p"
  by (simp_all add: saved_def named_def)

section \<open>The contract of a payment repository\<close>

text \<open>
  \<open>view s\<close> is the map from identifiers to the payments that can be read; a call made in state
  \<open>s\<close> may find any view that \<open>s\<close> sees. A read gives what is there, an update or a creation
  either fails and changes nothing, or the payment is stored (even when the call reports an
  error: the acknowledgement was lost).
\<close>

locale payment_repository =
  fixes repo :: "'s payment_repo" and inv :: "'s \<Rightarrow> bool" and view :: "'s \<Rightarrow> string \<Rightarrow> payment option"
    and sees :: "'s \<Rightarrow> (string \<Rightarrow> payment option) \<Rightarrow> bool"
  assumes get: "inv s \<Longrightarrow> rGetPaymentByID repo pid s = (g, s') \<Longrightarrow>
      inv s' \<and> sees s (view s') \<and> (\<forall>p. g = Inr p \<longrightarrow> view s' pid = Some p)"
    and get_key: "inv s \<Longrightarrow> rGetPaymentByIdempotencyKey repo key s = (g, s') \<Longrightarrow>
      inv s' \<and> sees s (view s') \<and> (\<forall>p. g = Inr p \<longrightarrow> view s' (yID p) = Some p \<and> yIdempotencyKey p = TrimSpace key)"
    and get_order: "inv s \<Longrightarrow> rGetPaymentByOrderID repo oid s = (g, s') \<Longrightarrow>
      inv s' \<and> sees s (view s') \<and> (\<forall>p. g = Inr p \<longrightarrow> view s' (yID p) = Some p \<and> yOrderID p = TrimSpace oid)"
    and list: "inv s \<Longrightarrow> rListPaymentsByCustomer repo cid page pageSize s = (l, s') \<Longrightarrow> inv s' \<and> sees s (view s')"
    and create: "inv s \<Longrightarrow> rCreatePayment repo p s = (g, s') \<Longrightarrow> inv s' \<and> (\<exists>m. sees s m \<and>
      (view s' = m \<and> (\<forall>x. g \<noteq> Inr x) \<or>
       m (yID p) = None \<and> view s' = m(yID p \<mapsto> saved p) \<and> (\<forall>x. g = Inr x \<longrightarrow> x = saved p)))"
    and update: "inv s \<Longrightarrow> named p \<Longrightarrow> rUpdatePayment repo p s = (g, s') \<Longrightarrow> inv s' \<and> (\<exists>m. sees s m \<and>
      (view s' = m \<and> (\<forall>x. g \<noteq> Inr x) \<or>
       view s' = m(yID p \<mapsto> saved p) \<and> (\<forall>x. g = Inr x \<longrightarrow> x = saved p)))"
    and view_ok: "inv s \<Longrightarrow> view s pid = Some p \<Longrightarrow> yID p = pid \<and> named p \<and> saved p = p"

text \<open>A repository no other client writes to.\<close>

locale quiet_payment_repository = payment_repository +
  assumes quiet: "inv s \<Longrightarrow> sees s m \<Longrightarrow> m = view s"

section \<open>The status machine\<close>

inductive payment_step :: "payment_status \<Rightarrow> payment_status \<Rightarrow> bool" where
  captured: "payment_step PAYMENT_STATUS_PENDING PAYMENT_STATUS_CAPTURED"
| failed: "payment_step PAYMENT_STATUS_PENDING PAYMENT_STATUS_FAILED"
| cancelled: "payment_step PAYMENT_STATUS_PENDING PAYMENT_STATUS_CANCELLED"

code_pred payment_step .

inductive_simps payment_step_from_simps [simp]:
  "payment_step PAYMENT_STATUS_UNSPECIFIED t"
  "payment_step PAYMENT_STATUS_PENDING t"
  "payment_step PAYMENT_STATUS_CAPTURED t"
  "payment_step PAYMENT_STATUS_FAILED t"
  "payment_step PAYMENT_STATUS_CANCELLED t"

text \<open>A payment may only make one step, which leaves everything but status, reason and update time.\<close>

definition payment_evolves :: "payment \<Rightarrow> payment \<Rightarrow> bool" where
  "payment_evolves p q \<longleftrightarrow> q = p \<or>
     payment_step (yStatus p) (yStatus q) \<and>
     q = p\<lparr>yStatus := yStatus q, yCancelReason := yCancelReason q, yUpdatedAt := yUpdatedAt q\<rparr>"

lemma payment_evolves_refl [simp]: "payment_evolves p p"
  by (simp add: payment_evolves_def)

lemma payment_step_final: "payment_step s t \<Longrightarrow> \<not> payment_step t u"
  by (auto elim: payment_step.cases)

lemma payment_evolves_trans: "payment_evolves p q \<Longrightarrow> payment_evolves q r \<Longrightarrow> payment_evolves p r"
  using payment_step_final by (auto simp: payment_evolves_def)

definition views_evolve :: "(string \<Rightarrow> payment option) \<Rightarrow> (string \<Rightarrow> payment option) \<Rightarrow> bool" where
  "views_evolve m m' \<longleftrightarrow> (\<forall>pid p. m pid = Some p \<longrightarrow> (\<exists>q. m' pid = Some q \<and> payment_evolves p q))"

lemma views_evolve_refl [simp]: "views_evolve m m"
  by (simp add: views_evolve_def)

lemma views_evolve_trans: "views_evolve m m1 \<Longrightarrow> views_evolve m1 m2 \<Longrightarrow> views_evolve m m2"
  unfolding views_evolve_def by (meson payment_evolves_trans)

text \<open>The calls of the service.\<close>

datatype payment_call =
    CreatePaymentCall time time payment
  | CancelPaymentCall time string string
  | CapturePaymentCall time string
  | FailPaymentCall time string string
  | GetPaymentCall string
  | GetPaymentByOrderCall string
  | ListPaymentsCall string int int

fun run_pcall :: "'s payment_repo \<Rightarrow> payment_call \<Rightarrow> 's \<Rightarrow> 's" where
  "run_pcall repo (CreatePaymentCall t1 t2 p) s = snd (psvc_CreatePayment repo t1 t2 p s)"
| "run_pcall repo (CancelPaymentCall t pid reason) s = snd (psvc_CancelPayment repo t pid reason s)"
| "run_pcall repo (CapturePaymentCall t pid) s = snd (psvc_CapturePayment repo t pid s)"
| "run_pcall repo (FailPaymentCall t pid reason) s = snd (psvc_FailPayment repo t pid reason s)"
| "run_pcall repo (GetPaymentCall pid) s = snd (psvc_GetPaymentByID repo pid s)"
| "run_pcall repo (GetPaymentByOrderCall oid) s = snd (psvc_GetPaymentByOrderID repo oid s)"
| "run_pcall repo (ListPaymentsCall cid page n) s = snd (psvc_ListPaymentsByCustomer repo cid page n s)"

context quiet_payment_repository
begin

lemma read_view: "inv s \<Longrightarrow> rGetPaymentByID repo pid s = (g, s') \<Longrightarrow>
    inv s' \<and> view s' = view s \<and> (\<forall>p. g = Inr p \<longrightarrow> view s pid = Some p)"
  using get [of s pid g s'] quiet [of s "view s'"] by auto

lemma create_evolves:
  assumes "inv s" "rCreatePayment repo p s = (g, s')"
  shows "inv s' \<and> views_evolve (view s) (view s')"
  using create [OF assms] quiet [OF assms(1)] by (auto simp: views_evolve_def)

lemma key_view: "inv s \<Longrightarrow> rGetPaymentByIdempotencyKey repo key s = (g, s') \<Longrightarrow> inv s' \<and> view s' = view s"
  using get_key [of s key g s'] quiet [of s "view s'"] by auto

lemma store_payment_evolves:
  assumes "inv s" "store_payment repo p s = (g, s')"
  shows "inv s' \<and> views_evolve (view s) (view s')"
proof -
  obtain g1 s1 where c: "rCreatePayment repo p s = (g1, s1)" by fastforce
  note e = create_evolves [OF assms(1) c]
  show ?thesis
    using assms(2) c e key_view [of s1 "yIdempotencyKey p" g s']
    by (auto simp: store_payment_def split: sum.splits if_splits)
qed

text \<open>Writing back a payment that was read, moved one step on.\<close>

lemma update_evolves:
  assumes "inv s" "view s pid = Some p" "rUpdatePayment repo q s = (g, s')"
    and "yStatus p = PAYMENT_STATUS_PENDING" "payment_step (yStatus p) (yStatus q)"
    and "q = p\<lparr>yStatus := yStatus q, yCancelReason := yCancelReason q, yUpdatedAt := yUpdatedAt q\<rparr>"
  shows "inv s' \<and> views_evolve (view s) (view s')"
proof -
  note p = view_ok [OF assms(1,2)]
  have "named q" by (subst assms(6)) (use p in \<open>simp add: named_def\<close>)
  moreover have "yID q = pid" by (subst assms(6)) (use p in simp)
  ultimately have q: "named q" "yID q = pid" .
  have "payment_evolves p (saved q)"
  proof -
    have "saved q = (saved p)\<lparr>yStatus := yStatus q, yCancelReason := yCancelReason q, yUpdatedAt := pg_micros (yUpdatedAt q)\<rparr>"
      by (subst assms(6)) (simp add: saved_def)
    then show ?thesis using p assms(5) by (simp add: payment_evolves_def)
  qed
  then show ?thesis
    using update [OF assms(1) q(1) assms(3)] quiet [OF assms(1)] assms(2) q(2)
    by (auto simp: views_evolve_def)
qed

lemma run_pcall_evolves: "inv s \<Longrightarrow> inv (run_pcall repo c s) \<and> views_evolve (view s) (view (run_pcall repo c s))"
proof (cases c)
  case (CreatePaymentCall t1 t2 p)
  assume s: "inv s"
  obtain g s' where c: "psvc_CreatePayment repo t1 t2 p s = (g, s')" by fastforce
  obtain k s1 where k: "rGetPaymentByIdempotencyKey repo (TrimSpace (yIdempotencyKey p)) s = (k, s1)" by fastforce
  show ?thesis
    using c k s key_view [OF s k] store_payment_evolves [of s1 "new_payment t1 t2 p" g s']
      store_payment_evolves [of s "new_payment t1 t2 p" g s'] CreatePaymentCall
    by (auto simp: psvc_CreatePayment_def split: option.splits if_splits sum.splits)
next
  case (CancelPaymentCall t pid reason)
  assume s: "inv s"
  obtain g s1 where g: "rGetPaymentByID repo pid s = (g, s1)" by fastforce
  note r = read_view [OF s g]
  show ?thesis
    using r s g CancelPaymentCall
    by (cases "rUpdatePayment repo ((projr g)\<lparr>yStatus := PAYMENT_STATUS_CANCELLED, yCancelReason := TrimSpace reason, yUpdatedAt := t\<rparr>) s1")
      (auto simp: psvc_CancelPayment_def split: sum.splits dest!: update_evolves [of s1 pid])
next
  case (CapturePaymentCall t pid)
  assume s: "inv s"
  obtain g s1 where g: "rGetPaymentByID repo pid s = (g, s1)" by fastforce
  note r = read_view [OF s g]
  show ?thesis
    using r s g CapturePaymentCall
    by (cases "rUpdatePayment repo ((projr g)\<lparr>yStatus := PAYMENT_STATUS_CAPTURED, yUpdatedAt := t\<rparr>) s1")
      (auto simp: psvc_CapturePayment_def with_flag_def split: sum.splits dest!: update_evolves [of s1 pid])
next
  case (FailPaymentCall t pid reason)
  assume s: "inv s"
  obtain g s1 where g: "rGetPaymentByID repo pid s = (g, s1)" by fastforce
  note r = read_view [OF s g]
  show ?thesis
    using r s g FailPaymentCall
    by (cases "rUpdatePayment repo ((projr g)\<lparr>yStatus := PAYMENT_STATUS_FAILED, yCancelReason := TrimSpace reason, yUpdatedAt := t\<rparr>) s1")
      (auto simp: psvc_FailPayment_def with_flag_def Let_def split: sum.splits dest!: update_evolves [of s1 pid])
next
  case (GetPaymentCall pid)
  assume s: "inv s"
  show ?thesis
    using s GetPaymentCall read_view [of s pid] by (cases "rGetPaymentByID repo pid s") (auto simp: psvc_GetPaymentByID_def)
next
  case (GetPaymentByOrderCall oid)
  assume s: "inv s"
  show ?thesis
    using s GetPaymentByOrderCall get_order [of s oid] quiet [of s]
    by (cases "rGetPaymentByOrderID repo oid s") (auto simp: psvc_GetPaymentByOrderID_def)
next
  case (ListPaymentsCall cid page n)
  assume s: "inv s"
  show ?thesis
    using s ListPaymentsCall list [of s cid page n] quiet [of s]
    by (cases "rListPaymentsByCustomer repo cid page n s") (auto simp: psvc_ListPaymentsByCustomer_def)
qed

lemma run_pcalls_evolve: "inv s \<Longrightarrow> inv (fold (run_pcall repo) cs s) \<and> views_evolve (view s) (view (fold (run_pcall repo) cs s))"
proof (induction cs arbitrary: s)
  case (Cons c cs)
  from run_pcall_evolves [OF Cons.prems, of c] Cons.IH [of "run_pcall repo c s"] show ?case
    using views_evolve_trans by auto
qed simp

end

end
