(* ===== verification/Payment_Postgres.thy ===== *)
theory Payment_Postgres
  imports Payment_Service
begin

text \<open>
  The PostgreSQL repository of the payment service meets the contract of \<open>payment_repository\<close>,
  beside other clients that keep the table's invariant, and is quiet when it is alone.
\<close>

section \<open>Rows\<close>

abbreviation row_of :: "payment \<Rightarrow> payment_row" where
  "row_of p \<equiv> stored_payment_row (toPaymentDBParams p)"

lemma params_eq [simp]: "toCreatePaymentParams p = toPaymentDBParams p" "toUpdatePaymentParams p = toPaymentDBParams p"
  by (simp_all add: toCreatePaymentParams_def toUpdatePaymentParams_def Let_def)

lemma stored_payment_row_simps [simp]:
  "pyID (stored_payment_row r) = pyID r" "pyOrderID (stored_payment_row r) = pyOrderID r"
  "pyCustomerID (stored_payment_row r) = pyCustomerID r" "pyKey (stored_payment_row r) = pyKey r"
  "pyAmountCents (stored_payment_row r) = pyAmountCents r" "pyStatus (stored_payment_row r) = pyStatus r"
  "pyCreatedAt (stored_payment_row r) = map_option pg_micros (pyCreatedAt r)"
  "pyUpdatedAt (stored_payment_row r) = map_option pg_micros (pyUpdatedAt r)"
  "stored_payment_row (stored_payment_row r) = stored_payment_row r"
  by (simp_all add: stored_payment_row_def option.map_comp o_def)

lemma params_simps [simp]:
  "pyID (toPaymentDBParams p) = yID p" "pyOrderID (toPaymentDBParams p) = yOrderID p"
  "pyCustomerID (toPaymentDBParams p) = yCustomerID p" "pyAmountCents (toPaymentDBParams p) = ymAmountCents (yAmount p)"
  "pyKey (toPaymentDBParams p) = (if TrimSpace (yIdempotencyKey p) = [] then None else Some (TrimSpace (yIdempotencyKey p)))"
  "pyCreatedAt (toPaymentDBParams p) = timestamptz (yCreatedAt p)"
  "pyUpdatedAt (toPaymentDBParams p) = timestamptz (yUpdatedAt p)"
  by (simp_all add: toPaymentDBParams_def Let_def)

lemma mapDBPayment_row_of:
  "mapDBPayment (row_of p) = Inr q \<longleftrightarrow> named p \<and> q = saved p"
proof -
  have "pg_micros zero_time = zero_time" by simp
  then show ?thesis
    by (cases p; cases "yAmount p")
      (auto simp: mapDBPayment_def parsePaymentCurrency_def parseStoredMethod_def parsePaymentStatus_def stored_payment_row_def
        toPaymentDBParams_def Let_def named_def saved_def timestamptz_def Currency_value_String PaymentMethodType_value_String)
qed

lemma mapDBPayment_named: "named p \<Longrightarrow> mapDBPayment (row_of p) = Inr (saved p)"
  by (simp add: mapDBPayment_row_of)

lemma mapDBPayment_unnamed: "\<not> named p \<Longrightarrow> \<exists>e. mapDBPayment (row_of p) = Inl e"
  using mapDBPayment_row_of [of p] by (cases "mapDBPayment (row_of p)") auto

definition payment_row_ok :: "payment_row \<Rightarrow> bool" where
  "payment_row_ok r \<longleftrightarrow>
     pyCreatedAt r \<noteq> None \<and> pyUpdatedAt r \<noteq> None \<and> stored_payment_row r = r \<and> 0 < pyAmountCents r \<and>
     TrimSpace (pyID r) \<noteq> [] \<and> TrimSpace (pyOrderID r) \<noteq> [] \<and> TrimSpace (pyCustomerID r) \<noteq> [] \<and>
     (\<forall>k. pyKey r = Some k \<longrightarrow> k \<noteq> [] \<and> TrimSpace k = k)"

definition payment_db_inv :: "payment_db \<Rightarrow> bool" where
  "payment_db_inv db \<longleftrightarrow>
     distinct (map pyID (payments db)) \<and> distinct (map pyOrderID (payments db)) \<and>
     distinct (filter (\<lambda>k. k \<noteq> None) (map pyKey (payments db))) \<and> (\<forall>r \<in> set (payments db). payment_row_ok r)"

definition stored_payments :: "payment_db \<Rightarrow> string \<Rightarrow> payment option" where
  "stored_payments db pid =
     (case find (\<lambda>r. pyID r = pid) (payments db) of
        None \<Rightarrow> None
      | Some r \<Rightarrow> (case mapDBPayment r of Inl e \<Rightarrow> None | Inr p \<Rightarrow> Some p))"

lemma mapDBPayment_fields:
  "mapDBPayment r = Inr p \<Longrightarrow> yID p = pyID r \<and> yOrderID p = pyOrderID r \<and> yCustomerID p = pyCustomerID r \<and>
     yIdempotencyKey p = (case pyKey r of None \<Rightarrow> [] | Some k \<Rightarrow> k) \<and> ymAmountCents (yAmount p) = pyAmountCents r \<and> named p"
  by (auto simp: mapDBPayment_def parsePaymentCurrency_def parseStoredMethod_def parsePaymentStatus_def named_def
      dest!: Currency_value_Some PaymentMethodType_value_Some split: sum.splits option.splits)

lemma mapDBPayment_saved:
  assumes "mapDBPayment r = Inr p" "payment_row_ok r"
  shows "saved p = p"
proof -
  obtain t u where t: "pyCreatedAt r = Some t" "pyUpdatedAt r = Some u" using assms(2) by (auto simp: payment_row_ok_def)
  have "stored_payment_row r = r" using assms(2) by (simp add: payment_row_ok_def)
  then have "map_option pg_micros (pyCreatedAt r) = pyCreatedAt r" "map_option pg_micros (pyUpdatedAt r) = pyUpdatedAt r"
    by (metis stored_payment_row_simps(7)) (metis \<open>stored_payment_row r = r\<close> stored_payment_row_simps(8))
  then have m: "pg_micros t = t" "pg_micros u = u" using t by simp_all
  have k: "TrimSpace (yIdempotencyKey p) = yIdempotencyKey p"
    using mapDBPayment_fields [OF assms(1)] assms(2) by (auto simp: payment_row_ok_def split: option.splits)
  have "yCreatedAt p = t" "yUpdatedAt p = u"
    using assms(1) t by (auto simp: mapDBPayment_def split: sum.splits)
  then show ?thesis using m k by (simp add: saved_def)
qed

lemma row_of_ok:
  "check_payment_row (toPaymentDBParams p) rs = None \<Longrightarrow> validatePayment p = None \<Longrightarrow> payment_row_ok (row_of p)"
  by (auto simp: check_payment_row_def payment_row_ok_def validatePayment_def split: if_splits)

section \<open>Lookups\<close>

lemma find_unique_key:
  assumes "distinct (filter (\<lambda>k. k \<noteq> None) (map f xs))" "x \<in> set xs" "f x = Some k"
  shows "find (\<lambda>y. f y = Some k) xs = Some x"
  using assms
proof (induction xs)
  case (Cons y ys)
  show ?case
  proof (cases "f y = Some k")
    case True
    then have "Some k \<notin> f ` set ys" using Cons.prems(1) by (auto simp: image_iff)
    then have "x = y" using Cons.prems(2,3) by (metis image_eqI set_ConsD)
    then show ?thesis using True by simp
  next
    case False
    then show ?thesis using Cons by (auto split: if_splits)
  qed
qed simp

lemma stored_payments_row:
  assumes "payment_db_inv db" "r \<in> set (payments db)" "mapDBPayment r = Inr p"
  shows "stored_payments db (yID p) = Some p"
  using assms find_distinct_key [of pyID "payments db" r] mapDBPayment_fields [OF assms(3)]
  by (simp add: payment_db_inv_def stored_payments_def)

lemma stored_payments_ok:
  assumes "payment_db_inv db" "stored_payments db pid = Some p"
  shows "yID p = pid \<and> named p \<and> saved p = p"
proof -
  obtain r where r: "find (\<lambda>r. pyID r = pid) (payments db) = Some r" "mapDBPayment r = Inr p"
    using assms(2) by (auto simp: stored_payments_def split: option.splits sum.splits)
  then have "payment_row_ok r" using assms(1) by (auto simp: payment_db_inv_def dest: find_Some_in)
  with r show ?thesis
    using mapDBPayment_saved [OF r(2)] mapDBPayment_fields [OF r(2)] find_Some_in [OF r(1)] by simp
qed

lemma one_payment_per_order:
  assumes "payment_db_inv db" "stored_payments db pid = Some p" "stored_payments db pid' = Some p'" "yOrderID p' = yOrderID p"
  shows "pid' = pid"
proof -
  obtain r r' where r: "find (\<lambda>r. pyID r = pid) (payments db) = Some r" "mapDBPayment r = Inr p"
    "find (\<lambda>r. pyID r = pid') (payments db) = Some r'" "mapDBPayment r' = Inr p'"
    using assms(2,3) by (auto simp: stored_payments_def split: option.splits sum.splits)
  have "pyOrderID r' = pyOrderID r"
    using mapDBPayment_fields [OF r(2)] mapDBPayment_fields [OF r(4)] assms(4) by simp
  then have "r' = r"
    using assms(1) find_Some_in [OF r(1)] find_Some_in [OF r(3)]
    by (auto simp: payment_db_inv_def distinct_map dest: inj_onD)
  then show ?thesis using find_Some_in [OF r(1)] find_Some_in [OF r(3)] by simp
qed

lemma stored_payments_find:
  assumes "payment_db_inv db" "stored_payments db pid = Some p"
  obtains r where "r \<in> set (payments db)" "mapDBPayment r = Inr p" "payment_row_ok r" "pyID r = pid"
    "find (\<lambda>r. pyID r = pid) (payments db) = Some r"
proof -
  obtain r where "find (\<lambda>r. pyID r = pid) (payments db) = Some r" "mapDBPayment r = Inr p"
    using assms(2) by (auto simp: stored_payments_def split: option.splits sum.splits)
  then show thesis using that [of r] find_Some_in [of _ "payments db" r] assms(1) by (auto simp: payment_db_inv_def)
qed

lemma pg_GetPaymentByID_Inr:
  "pg_GetPaymentByID a pid db = Inr p \<Longrightarrow> stored_payments db pid = Some p"
  by (auto simp: pg_GetPaymentByID_def found_payment_def q_GetPaymentByID_def stored_payments_def
      split: if_splits sum.splits option.splits)

lemma pg_GetPaymentByIdempotencyKey_Inr:
  assumes "payment_db_inv db" "pg_GetPaymentByIdempotencyKey a key db = Inr p"
  shows "stored_payments db (yID p) = Some p \<and> yIdempotencyKey p = TrimSpace key"
proof -
  obtain r where r: "find (\<lambda>r. pyKey r = Some (TrimSpace key)) (payments db) = Some r" "mapDBPayment r = Inr p"
    using assms(2) by (auto simp: pg_GetPaymentByIdempotencyKey_def found_payment_def q_GetPaymentByIdempotencyKey_def Let_def
      split: if_splits sum.splits option.splits)
  show ?thesis
    using stored_payments_row [OF assms(1) _ r(2)] find_Some_in [OF r(1)] mapDBPayment_fields [OF r(2)] by simp
qed

lemma pg_GetPaymentByOrderID_Inr:
  assumes "payment_db_inv db" "pg_GetPaymentByOrderID a oid db = Inr p"
  shows "stored_payments db (yID p) = Some p \<and> yOrderID p = TrimSpace oid"
proof -
  obtain r where r: "find (\<lambda>r. pyOrderID r = TrimSpace oid) (payments db) = Some r" "mapDBPayment r = Inr p"
    using assms(2) by (auto simp: pg_GetPaymentByOrderID_def found_payment_def q_GetPaymentByOrderID_def Let_def
      split: if_splits sum.splits option.splits)
  show ?thesis
    using stored_payments_row [OF assms(1) _ r(2)] find_Some_in [OF r(1)] mapDBPayment_fields [OF r(2)] by simp
qed

section \<open>Writes\<close>

definition add_payment :: "payment \<Rightarrow> payment_db \<Rightarrow> payment_db" where
  "add_payment p db = db\<lparr>payments := payments db @ [row_of p]\<rparr>"

definition put_payment :: "payment \<Rightarrow> payment_db \<Rightarrow> payment_db" where
  "put_payment p db = db\<lparr>payments := replace_row pyID (yID p) (\<lambda>_. row_of p) (payments db)\<rparr>"

lemma pg_CreatePayment_cases:
  assumes "pg_CreatePayment a p db = (g, db')"
  obtains (kept) "db' = db" "\<And>x. g \<noteq> Inr x"
  | (added) "db' = add_payment p db" "check_payment_row (toPaymentDBParams p) (payments db) = None"
      "validatePayment p = None" "\<And>x. g = Inr x \<Longrightarrow> named p \<and> x = saved p"
proof (cases "validatePayment p")
  case (Some e)
  then show ?thesis using assms kept by (auto simp: pg_CreatePayment_def)
next
  case None
  show ?thesis
  proof (cases "check_payment_row (toPaymentDBParams p) (payments db)")
    case (Some e)
    then show ?thesis
      using assms kept None by (auto simp: pg_CreatePayment_def q_CreatePayment_def autocommit_def split: fault.splits)
  next
    case N: None
    have row: "\<And>x f. map_sum f id (mapDBPayment (row_of p)) = Inr x \<Longrightarrow> named p \<and> x = saved p"
      using mapDBPayment_row_of by simp
    have q: "q_CreatePayment (toCreatePaymentParams p) db = Inr (row_of p, add_payment p db)"
      using N by (simp add: q_CreatePayment_def add_payment_def)
    show ?thesis
      using assms None kept added [OF _ N None] row unfolding pg_CreatePayment_def q
      by (auto simp: autocommit_def split: fault.splits)
  qed
qed

lemma pg_UpdatePayment_cases:
  assumes "pg_UpdatePayment a p db = (g, db')"
  obtains (kept) "db' = db" "\<And>x. g \<noteq> Inr x"
  | (replaced) "db' = put_payment p db" "yID p \<in> set (map pyID (payments db))"
      "check_payment_row (toPaymentDBParams p) (filter (\<lambda>r. pyID r \<noteq> yID p) (payments db)) = None"
      "validatePayment p = None" "\<And>x. g = Inr x \<Longrightarrow> named p \<and> x = saved p"
proof (cases "validatePayment p")
  case (Some e)
  then show ?thesis using assms kept by (auto simp: pg_UpdatePayment_def)
next
  case None
  show ?thesis
  proof (cases "q_UpdatePayment (toUpdatePaymentParams p) db")
    case (Inl e)
    then show ?thesis
      using assms kept None by (auto simp: pg_UpdatePayment_def autocommit_def split: fault.splits)
  next
    case (Inr r)
    then have N: "yID p \<in> set (map pyID (payments db))"
      "check_payment_row (toPaymentDBParams p) (filter (\<lambda>r. pyID r \<noteq> yID p) (payments db)) = None"
      "r = (row_of p, put_payment p db)"
      by (auto simp: q_UpdatePayment_def put_payment_def split: if_splits option.splits)
    have row: "\<And>x f. map_sum f id (mapDBPayment (row_of p)) = Inr x \<Longrightarrow> named p \<and> x = saved p"
      using mapDBPayment_row_of by simp
    show ?thesis
      using assms None kept replaced [OF _ N(1,2) None] row unfolding pg_UpdatePayment_def Inr N(3)
      by (auto simp: autocommit_def split: fault.splits)
  qed
qed

lemma distinct_some_append:
  "distinct (filter (\<lambda>k. k \<noteq> None) (xs @ [k])) \<longleftrightarrow>
     distinct (filter (\<lambda>k. k \<noteq> None) xs) \<and> (k = None \<or> k \<notin> set xs)"
  by auto

lemma distinct_filter_replace:
  "distinct (filter P (xs @ a # zs)) \<Longrightarrow> \<not> P b \<or> b \<notin> set (xs @ zs) \<Longrightarrow> distinct (filter P (xs @ b # zs))"
  by (cases "P a"; cases "P b") auto

lemma add_payment_inv:
  assumes "payment_db_inv db" "check_payment_row (toPaymentDBParams p) (payments db) = None" "validatePayment p = None"
  shows "payment_db_inv (add_payment p db)"
    and "stored_payments (add_payment p db) =
      (if named p then (stored_payments db)(yID p \<mapsto> saved p) else stored_payments db)"
    and "stored_payments db (yID p) = None"
proof -
  have c: "yID p \<notin> pyID ` set (payments db)" "yOrderID p \<notin> pyOrderID ` set (payments db)"
    "pyKey (toPaymentDBParams p) = None \<or> pyKey (toPaymentDBParams p) \<notin> set (map pyKey (payments db))"
    using assms(2) by (auto simp: check_payment_row_def split: if_splits)
  have k: "distinct (filter (\<lambda>k. k \<noteq> None) (map pyKey (payments db) @ [pyKey (toPaymentDBParams p)]))"
    using assms(1) c(3) unfolding distinct_some_append by (simp add: payment_db_inv_def)
  show "payment_db_inv (add_payment p db)"
    using assms(1) c(1,2) k row_of_ok [OF assms(2,3)] unfolding payment_db_inv_def add_payment_def
    by (simp del: params_simps(5))
  have n: "find (\<lambda>r. pyID r = yID p) (payments db) = None" using c(1) unfolding find_None_iff by (metis image_eqI)
  then show "stored_payments db (yID p) = None" by (simp add: stored_payments_def)
  show "stored_payments (add_payment p db) =
      (if named p then (stored_payments db)(yID p \<mapsto> saved p) else stored_payments db)"
    using n mapDBPayment_named [of p] mapDBPayment_unnamed [of p]
    by (cases "named p") (auto simp: fun_eq_iff stored_payments_def add_payment_def find_append split: option.splits)
qed

lemma put_payment_inv:
  assumes inv: "payment_db_inv db" and here: "yID p \<in> set (map pyID (payments db))"
    and chk: "check_payment_row (toPaymentDBParams p) (filter (\<lambda>r. pyID r \<noteq> yID p) (payments db)) = None"
    and ok: "validatePayment p = None"
  shows "payment_db_inv (put_payment p db)"
    and "named p \<Longrightarrow> stored_payments (put_payment p db) = (stored_payments db)(yID p \<mapsto> saved p)"
proof -
  obtain x where x: "x \<in> set (payments db)" "pyID x = yID p" using here by auto
  have d: "distinct (map pyID (payments db))" using inv by (simp add: payment_db_inv_def)
  obtain ys zs where s: "payments db = ys @ x # zs"
    "\<And>upd. replace_row pyID (pyID x) upd (payments db) = ys @ upd x # zs"
    "filter (\<lambda>y. pyID y \<noteq> pyID x) (payments db) = ys @ zs"
    using replace_row_split [OF d x(1)] by metis
  have db': "payments (put_payment p db) = ys @ row_of p # zs" using s(2) x(2) by (simp add: put_payment_def)
  have c: "yOrderID p \<notin> pyOrderID ` set (ys @ zs)"
    "pyKey (toPaymentDBParams p) = None \<or> pyKey (toPaymentDBParams p) \<notin> set (map pyKey (ys @ zs))"
    using chk unfolding s(3) [unfolded x(2)] by (auto simp: check_payment_row_def split: if_splits)
  have k: "distinct (filter (\<lambda>k. k \<noteq> None) (map pyKey ys @ pyKey (row_of p) # map pyKey zs))"
    by (rule distinct_filter_replace [where a = "pyKey x"])
      (use inv c(2) in \<open>simp_all add: payment_db_inv_def s(1) del: params_simps(5)\<close>)
  show "payment_db_inv (put_payment p db)"
    using inv c(1) k d x(2) row_of_ok [OF chk ok] unfolding payment_db_inv_def db' s(1) by (auto simp del: params_simps(5))
  show "stored_payments (put_payment p db) = (stored_payments db)(yID p \<mapsto> saved p)" if "named p"
  proof
    fix pid
    have "find (\<lambda>r. pyID r = pid) (payments (put_payment p db)) =
        (if pid = yID p then Some (row_of p) else find (\<lambda>r. pyID r = pid) (payments db))"
    proof (cases "pid = yID p")
      case True
      have "find (\<lambda>r. pyID r = yID p) ys = None"
        using d x(2) unfolding s(1) by (auto simp: find_None_iff image_iff)
      with True show ?thesis unfolding db' by (simp add: find_append)
    next
      case False
      with x(2) show ?thesis unfolding db' s(1) by (simp add: find_append split: option.split)
    qed
    then show "stored_payments (put_payment p db) pid = ((stored_payments db)(yID p \<mapsto> saved p)) pid"
      using that mapDBPayment_row_of [of p "saved p"] by (simp add: stored_payments_def)
  qed
qed

section \<open>The contract\<close>

definition pay_inv :: "(payment_db, 'm) world_scheme \<Rightarrow> bool" where
  "pay_inv w \<longleftrightarrow> payment_db_inv (tables w) \<and> others_keep payment_db_inv w"

definition pay_view :: "(payment_db, 'm) world_scheme \<Rightarrow> string \<Rightarrow> payment option" where
  "pay_view w = stored_payments (tables w)"

definition pay_sees :: "(payment_db, 'm) world_scheme \<Rightarrow> (string \<Rightarrow> payment option) \<Rightarrow> bool" where
  "pay_sees w m \<longleftrightarrow> m = stored_payments (found w)"

definition pay_quiet :: "(payment_db, 'm) world_scheme \<Rightarrow> bool" where
  "pay_quiet w \<longleftrightarrow> payment_db_inv (tables w) \<and> alone w"

lemma pay_found: "pay_inv w \<Longrightarrow> payment_db_inv (found w)"
  by (simp add: pay_inv_def others_keep_found)

lemma pay_update [simp]:
  "pay_inv (w\<lparr>tables := db, calls := n\<rparr>) \<longleftrightarrow> payment_db_inv db \<and> others_keep payment_db_inv w"
  by (simp add: pay_inv_def)

lemma pay_read:
  "pay_inv w \<Longrightarrow> pay_inv (w\<lparr>tables := found w, calls := n\<rparr>) \<and> pay_sees w (pay_view (w\<lparr>tables := found w, calls := n\<rparr>))"
  using pay_found [of w] by (simp add: pay_inv_def pay_sees_def pay_view_def)

lemma pay_create_law:
  assumes inv: "pay_inv w" and c: "rCreatePayment (pg_payment_repo coll) p w = (g, w')"
  shows "pay_inv w' \<and> (\<exists>m. pay_sees w m \<and>
      (pay_view w' = m \<and> (\<forall>x. g \<noteq> Inr x) \<or>
       m (yID p) = None \<and> pay_view w' = m(yID p \<mapsto> saved p) \<and> (\<forall>x. g = Inr x \<longrightarrow> x = saved p)))"
proof -
  obtain db' where d: "pg_CreatePayment (the_attempt w) p (found w) = (g, db')" and w': "w' = w\<lparr>tables := db', calls := Suc (calls w)\<rparr>"
    using c by (auto simp: pg_payment_repo_def with_attempt_eq)
  have keep: "others_keep payment_db_inv w" using inv by (simp add: pay_inv_def)
  from d show ?thesis
  proof (cases rule: pg_CreatePayment_cases)
    case kept
    then show ?thesis using pay_found [OF inv] keep w' by (simp add: pay_sees_def pay_view_def)
  next
    case added
    note a = add_payment_inv [OF pay_found [OF inv] added(2,3)]
    show ?thesis
      using a added(1,4) keep w' by (cases "named p") (auto simp: pay_sees_def pay_view_def)
  qed
qed

lemma pay_update_law:
  assumes inv: "pay_inv w" and n: "named p" and c: "rUpdatePayment (pg_payment_repo coll) p w = (g, w')"
  shows "pay_inv w' \<and> (\<exists>m. pay_sees w m \<and>
      (pay_view w' = m \<and> (\<forall>x. g \<noteq> Inr x) \<or>
       pay_view w' = m(yID p \<mapsto> saved p) \<and> (\<forall>x. g = Inr x \<longrightarrow> x = saved p)))"
proof -
  obtain db' where d: "pg_UpdatePayment (the_attempt w) p (found w) = (g, db')" and w': "w' = w\<lparr>tables := db', calls := Suc (calls w)\<rparr>"
    using c by (auto simp: pg_payment_repo_def with_attempt_eq)
  have keep: "others_keep payment_db_inv w" using inv by (simp add: pay_inv_def)
  from d show ?thesis
  proof (cases rule: pg_UpdatePayment_cases)
    case kept
    then show ?thesis using pay_found [OF inv] keep w' by (simp add: pay_sees_def pay_view_def)
  next
    case replaced
    show ?thesis
      using put_payment_inv [OF pay_found [OF inv] replaced(2-4)] n replaced(1,5) keep w'
      by (auto simp: pay_sees_def pay_view_def)
  qed
qed

interpretation pgpay: payment_repository "pg_payment_repo coll" pay_inv pay_view pay_sees
  for coll :: "string \<Rightarrow> 'k::linorder"
proof
  fix w w' :: "(payment_db, 'm) world_scheme" and pid key oid cid page pageSize g l p
  assume w: "pay_inv w"
  note r = pay_read [OF w] and i = pay_found [OF w]
  show "pay_inv w' \<and> pay_sees w (pay_view w') \<and> (\<forall>p. g = Inr p \<longrightarrow> pay_view w' pid = Some p)"
    if "rGetPaymentByID (pg_payment_repo coll) pid w = (g, w')"
    using that r by (auto simp: pg_payment_repo_def with_read_eq pay_view_def pg_GetPaymentByID_Inr)
  show "pay_inv w' \<and> pay_sees w (pay_view w') \<and>
      (\<forall>p. g = Inr p \<longrightarrow> pay_view w' (yID p) = Some p \<and> yIdempotencyKey p = TrimSpace key)"
    if "rGetPaymentByIdempotencyKey (pg_payment_repo coll) key w = (g, w')"
    using that r pg_GetPaymentByIdempotencyKey_Inr [OF i] by (auto simp: pg_payment_repo_def with_read_eq pay_view_def)
  show "pay_inv w' \<and> pay_sees w (pay_view w') \<and>
      (\<forall>p. g = Inr p \<longrightarrow> pay_view w' (yID p) = Some p \<and> yOrderID p = TrimSpace oid)"
    if "rGetPaymentByOrderID (pg_payment_repo coll) oid w = (g, w')"
    using that r pg_GetPaymentByOrderID_Inr [OF i] by (auto simp: pg_payment_repo_def with_read_eq pay_view_def)
  show "pay_inv w' \<and> pay_sees w (pay_view w')"
    if "rListPaymentsByCustomer (pg_payment_repo coll) cid page pageSize w = (l, w')"
    using that r by (auto simp: pg_payment_repo_def with_read_eq)
  show "yID p = pid \<and> named p \<and> saved p = p" if "pay_view w pid = Some p"
    using that stored_payments_ok w by (auto simp: pay_view_def pay_inv_def)
qed (fact pay_create_law, fact pay_update_law)

lemma pay_quiet_iff: "pay_quiet w \<longleftrightarrow> pay_inv w \<and> alone w"
  by (auto simp: pay_quiet_def pay_inv_def alone_others_keep)

interpretation pgpay_quiet: quiet_payment_repository "pg_payment_repo coll" pay_quiet pay_view pay_sees
  for coll :: "string \<Rightarrow> 'k::linorder"
proof
  fix w w' :: "(payment_db, 'm) world_scheme" and pid key oid cid page pageSize g l p
  assume "pay_quiet w"
  then have w: "pay_inv w" "alone w" by (simp_all add: pay_quiet_iff)
  have al: "alone w'" if "w' = w\<lparr>tables := db, calls := n\<rparr>" for db n using that w(2) by simp
  have up: "pay_inv w' \<Longrightarrow> w' = w\<lparr>tables := db, calls := n\<rparr> \<Longrightarrow> pay_quiet w'" for db n
    using w(2) by (simp add: pay_quiet_iff)
  show "pay_quiet w' \<and> pay_sees w (pay_view w') \<and> (\<forall>p. g = Inr p \<longrightarrow> pay_view w' pid = Some p)"
    if "rGetPaymentByID (pg_payment_repo coll) pid w = (g, w')"
    using pgpay.get [OF w(1) that] up that by (auto simp: pg_payment_repo_def with_read_eq)
  show "pay_quiet w' \<and> pay_sees w (pay_view w') \<and>
      (\<forall>p. g = Inr p \<longrightarrow> pay_view w' (yID p) = Some p \<and> yIdempotencyKey p = TrimSpace key)"
    if "rGetPaymentByIdempotencyKey (pg_payment_repo coll) key w = (g, w')"
    using pgpay.get_key [OF w(1) that] up that by (auto simp: pg_payment_repo_def with_read_eq)
  show "pay_quiet w' \<and> pay_sees w (pay_view w') \<and>
      (\<forall>p. g = Inr p \<longrightarrow> pay_view w' (yID p) = Some p \<and> yOrderID p = TrimSpace oid)"
    if "rGetPaymentByOrderID (pg_payment_repo coll) oid w = (g, w')"
    using pgpay.get_order [OF w(1) that] up that by (auto simp: pg_payment_repo_def with_read_eq)
  show "pay_quiet w' \<and> pay_sees w (pay_view w')"
    if "rListPaymentsByCustomer (pg_payment_repo coll) cid page pageSize w = (l, w')"
    using pgpay.list [OF w(1) that] up that by (auto simp: pg_payment_repo_def with_read_eq)
  show "pay_quiet w' \<and> (\<exists>m. pay_sees w m \<and> (pay_view w' = m \<and> (\<forall>x. g \<noteq> Inr x) \<or>
       m (yID p) = None \<and> pay_view w' = m(yID p \<mapsto> saved p) \<and> (\<forall>x. g = Inr x \<longrightarrow> x = saved p)))"
    if "rCreatePayment (pg_payment_repo coll) p w = (g, w')"
    using pgpay.create [OF w(1) that] up that by (auto simp: pg_payment_repo_def with_attempt_eq)
  show "pay_quiet w' \<and> (\<exists>m. pay_sees w m \<and> (pay_view w' = m \<and> (\<forall>x. g \<noteq> Inr x) \<or>
       pay_view w' = m(yID p \<mapsto> saved p) \<and> (\<forall>x. g = Inr x \<longrightarrow> x = saved p)))"
    if "named p" "rUpdatePayment (pg_payment_repo coll) p w = (g, w')"
    using pgpay.update [OF w(1) that] up that(2) by (auto simp: pg_payment_repo_def with_attempt_eq)
  show "yID p = pid \<and> named p \<and> saved p = p" if "pay_view w pid = Some p"
    by (rule pgpay.view_ok [OF w(1) that])
  show "m = pay_view w" if "pay_sees w m" for m
    using that w(2) by (simp add: pay_sees_def pay_view_def alone_found)
qed

end
