(* ===== verification/Payment_Events.thy ===== *)
theory Payment_Events
  imports Payment_Postgres Event_Publisher Grpc
begin

text \<open>
  What the payment service exchanges with the others: its Kafka publisher, the consumer of
  \<open>inventory.reserved\<close> (\<open>internal/payment/events\<close>) and its gRPC surface
  (\<open>internal/payment/handler/grpc.go\<close>). One reading of the clock stands for the consecutive ones
  of a handled message or request. Log lines are not modelled.
\<close>

section \<open>Publisher\<close>

record 's payment_publisher =
  PublishPaymentCreated :: "time \<Rightarrow> string \<Rightarrow> ev_PaymentCreated \<Rightarrow> 's \<Rightarrow> string option \<times> 's"
  PublishPaymentCreationFailed :: "time \<Rightarrow> string \<Rightarrow> ev_PaymentCreationFailed \<Rightarrow> 's \<Rightarrow> string option \<times> 's"
  PublishPaymentCaptured :: "time \<Rightarrow> string \<Rightarrow> ev_PaymentCaptured \<Rightarrow> 's \<Rightarrow> string option \<times> 's"
  PublishPaymentFailed :: "time \<Rightarrow> string \<Rightarrow> ev_PaymentFailed \<Rightarrow> 's \<Rightarrow> string option \<times> 's"

text \<open>The topics of the four writers.\<close>

record payment_topics =
  createdTopic :: string
  failedTopic :: string
  capturedTopic :: string
  paymentFailedTopic :: string

definition kafka_PublishPaymentCreated ::
    "string \<Rightarrow> time \<Rightarrow> string \<Rightarrow> ev_PaymentCreated \<Rightarrow> ('db, 'm) bus_world_scheme \<Rightarrow> string option \<times> ('db, 'm) bus_world_scheme" where
  "kafka_PublishPaymentCreated topic now sourceEventID event =
     writeEvent now topic PaymentCreatedEventType sourceEventID (pc_OrderID event) (enc_PaymentCreated event)"

definition kafka_PublishPaymentCreationFailed ::
    "string \<Rightarrow> time \<Rightarrow> string \<Rightarrow> ev_PaymentCreationFailed \<Rightarrow> ('db, 'm) bus_world_scheme \<Rightarrow> string option \<times> ('db, 'm) bus_world_scheme" where
  "kafka_PublishPaymentCreationFailed topic now sourceEventID event =
     writeEvent now topic PaymentCreationFailedEventType sourceEventID (pf_OrderID event) (enc_PaymentCreationFailed event)"

definition kafka_PublishPaymentCaptured ::
    "string \<Rightarrow> time \<Rightarrow> string \<Rightarrow> ev_PaymentCaptured \<Rightarrow> ('db, 'm) bus_world_scheme \<Rightarrow> string option \<times> ('db, 'm) bus_world_scheme" where
  "kafka_PublishPaymentCaptured topic now sourceEventID event =
     writeEvent now topic PaymentCapturedEventType sourceEventID (pp_OrderID event) (enc_PaymentCaptured event)"

definition kafka_PublishPaymentFailed ::
    "string \<Rightarrow> time \<Rightarrow> string \<Rightarrow> ev_PaymentFailed \<Rightarrow> ('db, 'm) bus_world_scheme \<Rightarrow> string option \<times> ('db, 'm) bus_world_scheme" where
  "kafka_PublishPaymentFailed topic now sourceEventID event =
     writeEvent now topic PaymentFailedEventType sourceEventID (px_OrderID event) (enc_PaymentFailed event)"

definition payment_kafka_publisher :: "payment_topics \<Rightarrow> ('db, 'm) bus_world_scheme payment_publisher" where
  "payment_kafka_publisher ts =
     \<lparr>PublishPaymentCreated = kafka_PublishPaymentCreated (createdTopic ts),
      PublishPaymentCreationFailed = kafka_PublishPaymentCreationFailed (failedTopic ts),
      PublishPaymentCaptured = kafka_PublishPaymentCaptured (capturedTopic ts),
      PublishPaymentFailed = kafka_PublishPaymentFailed (paymentFailedTopic ts)\<rparr>"

definition payment_deduper :: "('db, 'm) node_world_scheme event_deduper" where
  "payment_deduper = redis_deduper ''payment:event:processed:''"

section \<open>inventory.reserved\<close>

datatype payment_consumer_error = PaymentDedup dedup_error | PaymentPublish string

definition parseEventCurrency :: "string \<Rightarrow> string + currency" where
  "parseEventCurrency v =
     (if v = ''CURRENCY_USD'' \<or> v = ''USD'' then Inr CURRENCY_USD
      else if v = ''CURRENCY_EUR'' \<or> v = ''EUR'' then Inr CURRENCY_EUR
      else Inl (''unsupported payment currency: '' @ quote v))"

definition parseEventMethod :: "string \<Rightarrow> string + payment_method" where
  "parseEventMethod v =
     (if v = ''PAYMENT_METHOD_TYPE_CARD'' \<or> v = ''CARD'' then Inr PAYMENT_METHOD_TYPE_CARD
      else if v = ''PAYMENT_METHOD_TYPE_CASH'' \<or> v = ''CASH'' then Inr PAYMENT_METHOD_TYPE_CASH
      else Inl (''unsupported payment method: '' @ quote v))"

definition event_payment :: "ev_InventoryReserved \<Rightarrow> currency \<Rightarrow> payment_method \<Rightarrow> payment" where
  "event_payment event currency m =
     \<lparr>yID = [], yOrderID = ir_OrderID event, yCustomerID = ir_CustomerID event,
      yAmount = \<lparr>ymCurrency = currency, ymAmountCents = em_AmountCents (ir_Amount event)\<rparr>,
      yMethod = m, yMethodDetails = ep_MethodDetails (ir_Payment event),
      yIdempotencyKey = ''payment:create:'' @ ir_OrderID event,
      yStatus = PAYMENT_STATUS_UNSPECIFIED, yCancelReason = [], yCreatedAt = zero_time, yUpdatedAt = zero_time\<rparr>"

text \<open>Only the text of an error is used.\<close>

definition createPayment :: "'s payment_repo \<Rightarrow> time \<Rightarrow> ev_InventoryReserved \<Rightarrow> 's \<Rightarrow> (string + payment) \<times> 's" where
  "createPayment repo now event s =
     (case parseEventCurrency (em_Currency (ir_Amount event)) of
        Inl e \<Rightarrow> (Inl e, s)
      | Inr currency \<Rightarrow>
     (case parseEventMethod (ep_Method (ir_Payment event)) of
        Inl e \<Rightarrow> (Inl e, s)
      | Inr m \<Rightarrow>
     (case psvc_CreatePayment repo now now (event_payment event currency m) s of
        (r, s1) \<Rightarrow> (map_sum payment_error_text id r, s1))))"

definition payment_publish_and_mark ::
    "'s event_deduper \<Rightarrow> string \<Rightarrow> string option \<times> 's \<Rightarrow> (payment_consumer_error + bool) \<times> 's" where
  "payment_publish_and_mark dedup eventID r =
     (case r of
        (Some e, s) \<Rightarrow> (Inl (PaymentPublish e), s)
      | (None, s) \<Rightarrow> mark_done dedup PaymentDedup eventID s)"

definition created_event_of :: "payment \<Rightarrow> ev_PaymentCreated" where
  "created_event_of p =
     \<lparr>pc_OrderID = yOrderID p, pc_CustomerID = yCustomerID p, pc_PaymentID = yID p,
      pc_Status = PaymentStatus_String (yStatus p)\<rparr>"

definition handle_inventory_reserved ::
    "'s payment_repo \<Rightarrow> 's event_deduper \<Rightarrow> 's payment_publisher \<Rightarrow> time \<Rightarrow> ev_Envelope \<Rightarrow> 's \<Rightarrow>
     (payment_consumer_error + bool) \<times> 's" where
  "handle_inventory_reserved repo dedup publisher now envelope s =
     (case unmarshal dec_InventoryReserved zero_InventoryReserved (en_Payload envelope) of
        None \<Rightarrow> (Inr True, s)
      | Some event \<Rightarrow>
          (case createPayment repo now event s of
             (Inl creationErr, s1) \<Rightarrow>
               payment_publish_and_mark dedup (en_EventID envelope)
                 (PublishPaymentCreationFailed publisher now (en_EventID envelope)
                    \<lparr>pf_OrderID = ir_OrderID event, pf_CustomerID = ir_CustomerID event, pf_FailureReason = creationErr\<rparr> s1)
           | (Inr p, s1) \<Rightarrow>
               payment_publish_and_mark dedup (en_EventID envelope)
                 (PublishPaymentCreated publisher now (en_EventID envelope) (created_event_of p) s1)))"

definition InventoryReserved_handleMessage ::
    "'s payment_repo \<Rightarrow> 's event_deduper \<Rightarrow> 's payment_publisher \<Rightarrow> time \<Rightarrow> kafka_message \<Rightarrow> 's \<Rightarrow>
     (payment_consumer_error + bool) \<times> 's" where
  "InventoryReserved_handleMessage repo dedup publisher now =
     deduplicated dedup PaymentDedup InventoryReservedEventType (handle_inventory_reserved repo dedup publisher now)"

definition InventoryReserved_Run ::
    "'s payment_repo \<Rightarrow> 's event_deduper \<Rightarrow> 's payment_publisher \<Rightarrow> (nat \<Rightarrow> string option) \<Rightarrow> fetch list \<Rightarrow> nat \<Rightarrow>
     's \<Rightarrow> (payment_consumer_error run_error option \<times> nat) \<times> 's" where
  "InventoryReserved_Run repo dedup publisher = consume (InventoryReserved_handleMessage repo dedup publisher)"

section \<open>gRPC\<close>

record pb_payment_money =
  pymCurrency :: currency
  pymAmountCents :: int

record pb_create_payment =
  pyrOrderId :: string
  pyrCustomerId :: string
  pyrAmount :: "pb_payment_money option"
  pyrPaymentMethod :: payment_method
  pyrPaymentMethodDetails :: string
  pyrIdempotencyKey :: string

record pb_payment =
  pypPaymentId :: string
  pypOrderId :: string
  pypCustomerId :: string
  pypAmount :: pb_payment_money
  pypPaymentMethod :: payment_method
  pypStatus :: payment_status

record pb_payment_list =
  pylPayments :: "pb_payment list"
  pylPage :: int
  pylPageSize :: int
  pylTotal :: int

definition convertPaymentMoney :: "pb_payment_money option \<Rightarrow> payment_money" where
  "convertPaymentMoney m =
     (case m of
        None \<Rightarrow> \<lparr>ymCurrency = CURRENCY_UNSPECIFIED, ymAmountCents = 0\<rparr>
      | Some p \<Rightarrow> \<lparr>ymCurrency = pymCurrency p, ymAmountCents = pymAmountCents p\<rparr>)"

definition convertPaymentMoneyToProto :: "payment_money \<Rightarrow> pb_payment_money" where
  "convertPaymentMoneyToProto m = \<lparr>pymCurrency = ymCurrency m, pymAmountCents = ymAmountCents m\<rparr>"

definition convertPaymentToProto :: "payment \<Rightarrow> pb_payment" where
  "convertPaymentToProto p =
     \<lparr>pypPaymentId = yID p, pypOrderId = yOrderID p, pypCustomerId = yCustomerID p,
      pypAmount = convertPaymentMoneyToProto (yAmount p), pypPaymentMethod = yMethod p, pypStatus = yStatus p\<rparr>"

definition mapPaymentError :: "payment_error \<Rightarrow> grpc_status" where
  "mapPaymentError err =
     (if err \<in> {ErrInvalidPayment, ErrInvalidPaymentID, ErrInvalidIdempotencyKey}
        then status_Error InvalidArgument (payment_error_text err)
      else if err = ErrPaymentNotFound then status_Error NotFound (payment_error_text err)
      else if err \<in> {ErrPaymentAlreadyExists, ErrPaymentKeyAlreadyExists}
        then status_Error AlreadyExists (payment_error_text err)
      else if err \<in> {ErrPaymentCannotBeCancelled, ErrPaymentCannotBeCaptured, ErrPaymentCannotBeFailed}
        then status_Error FailedPrecondition (payment_error_text err)
      else status_Error InternalCode ''internal server error'')"

definition request_payment :: "pb_create_payment \<Rightarrow> payment" where
  "request_payment req =
     \<lparr>yID = [], yOrderID = pyrOrderId req, yCustomerID = pyrCustomerId req,
      yAmount = convertPaymentMoney (pyrAmount req), yMethod = pyrPaymentMethod req,
      yMethodDetails = pyrPaymentMethodDetails req, yIdempotencyKey = pyrIdempotencyKey req,
      yStatus = PAYMENT_STATUS_UNSPECIFIED, yCancelReason = [], yCreatedAt = zero_time, yUpdatedAt = zero_time\<rparr>"

definition grpc_CreatePayment ::
    "'s payment_repo \<Rightarrow> time \<Rightarrow> pb_create_payment \<Rightarrow> 's \<Rightarrow> (grpc_status + pb_payment) \<times> 's" where
  "grpc_CreatePayment repo now req s =
     respond mapPaymentError convertPaymentToProto (psvc_CreatePayment repo now now (request_payment req) s)"

definition grpc_GetPaymentByID :: "'s payment_repo \<Rightarrow> string \<Rightarrow> 's \<Rightarrow> (grpc_status + pb_payment) \<times> 's" where
  "grpc_GetPaymentByID repo pid s =
     respond mapPaymentError convertPaymentToProto (psvc_GetPaymentByID repo pid s)"

definition grpc_GetPaymentByOrderID :: "'s payment_repo \<Rightarrow> string \<Rightarrow> 's \<Rightarrow> (grpc_status + pb_payment) \<times> 's" where
  "grpc_GetPaymentByOrderID repo oid s =
     respond mapPaymentError convertPaymentToProto (psvc_GetPaymentByOrderID repo oid s)"

definition payment_list_response :: "int \<Rightarrow> int \<Rightarrow> payment list \<times> int \<Rightarrow> pb_payment_list" where
  "payment_list_response page pageSize r =
     (case r of (ps, total') \<Rightarrow>
        \<lparr>pylPayments = map convertPaymentToProto ps,
         pylPage = (if page \<le> 0 then 1 else page),
         pylPageSize =
           (if pageSize \<le> 0 then (if total' > 2147483647 then 2147483647 else wrap32 total') else pageSize),
         pylTotal = total'\<rparr>)"

definition grpc_ListPaymentsByCustomer ::
    "'s payment_repo \<Rightarrow> string \<Rightarrow> int \<Rightarrow> int \<Rightarrow> 's \<Rightarrow> (grpc_status + pb_payment_list) \<times> 's" where
  "grpc_ListPaymentsByCustomer repo cid page pageSize s =
     respond mapPaymentError (payment_list_response page pageSize) (psvc_ListPaymentsByCustomer repo cid page pageSize s)"

definition grpc_CancelPayment ::
    "'s payment_repo \<Rightarrow> time \<Rightarrow> string \<Rightarrow> string \<Rightarrow> 's \<Rightarrow> (grpc_status + pb_payment) \<times> 's" where
  "grpc_CancelPayment repo now pid reason s =
     respond mapPaymentError convertPaymentToProto (psvc_CancelPayment repo now pid reason s)"

text \<open>Capturing and failing publish an event when, and only when, they made the transition.\<close>

definition captured_event_of :: "payment \<Rightarrow> ev_PaymentCaptured" where
  "captured_event_of p =
     \<lparr>pp_OrderID = yOrderID p, pp_CustomerID = yCustomerID p, pp_PaymentID = yID p,
      pp_Status = PaymentStatus_String (yStatus p)\<rparr>"

definition failed_event_of :: "payment \<Rightarrow> ev_PaymentFailed" where
  "failed_event_of p =
     \<lparr>px_OrderID = yOrderID p, px_CustomerID = yCustomerID p, px_PaymentID = yID p,
      px_Status = PaymentStatus_String (yStatus p), px_FailureReason = yCancelReason p\<rparr>"

definition grpc_CapturePayment ::
    "'s payment_repo \<Rightarrow> 's payment_publisher \<Rightarrow> time \<Rightarrow> string \<Rightarrow> 's \<Rightarrow> (grpc_status + pb_payment) \<times> 's" where
  "grpc_CapturePayment repo publisher now pid s =
     (case psvc_CapturePayment repo now pid s of
        (Inl e, s1) \<Rightarrow> (Inl (mapPaymentError e), s1)
      | (Inr (p, transitioned), s1) \<Rightarrow>
          if transitioned
          then (case PublishPaymentCaptured publisher now (yID p) (captured_event_of p) s1 of
                  (Some e, s2) \<Rightarrow> (Inl (status_Error InternalCode ''failed to publish payment.captured event''), s2)
                | (None, s2) \<Rightarrow> (Inr (convertPaymentToProto p), s2))
          else (Inr (convertPaymentToProto p), s1))"

definition grpc_FailPayment ::
    "'s payment_repo \<Rightarrow> 's payment_publisher \<Rightarrow> time \<Rightarrow> string \<Rightarrow> string \<Rightarrow> 's \<Rightarrow> (grpc_status + pb_payment) \<times> 's" where
  "grpc_FailPayment repo publisher now pid reason s =
     (case psvc_FailPayment repo now pid reason s of
        (Inl e, s1) \<Rightarrow> (Inl (mapPaymentError e), s1)
      | (Inr (p, transitioned), s1) \<Rightarrow>
          if transitioned
          then (case PublishPaymentFailed publisher now (yID p) (failed_event_of p) s1 of
                  (Some e, s2) \<Rightarrow> (Inl (status_Error InternalCode ''failed to publish payment.failed event''), s2)
                | (None, s2) \<Rightarrow> (Inr (convertPaymentToProto p), s2))
          else (Inr (convertPaymentToProto p), s1))"

end
