(* ===== verification/Payment_Properties.thy ===== *)
theory Payment_Properties
  imports Payment_Events
begin

text \<open>
  What the payment service guarantees: a payment moves once, to a final status; an order has at
  most one payment, however often its event is handled; captures are announced. And what it does
  not: an announcement that fails is never made up for.
\<close>

section \<open>Life of a payment\<close>

lemma payment_step_iff:
  "payment_step s t \<longleftrightarrow> s = PAYMENT_STATUS_PENDING \<and>
     t \<in> {PAYMENT_STATUS_CAPTURED, PAYMENT_STATUS_FAILED, PAYMENT_STATUS_CANCELLED}"
  by (cases s) auto

text \<open>
  C27: A payment is settled once. Whatever calls a payment service makes on its own database,
  under any faults, every payment it holds either stays exactly as it is or moves from
  \<open>PENDING\<close> to \<open>CAPTURED\<close>, \<open>FAILED\<close> or \<open>CANCELLED\<close>, after which it never changes again; order,
  customer, amount, method and key never change, and two payments never belong to one order.
\<close>
theorem payment_settles_once:
  fixes w :: "(payment_db, 'm) world_scheme"
  assumes "payment_db_inv (tables w)" "alone w"
    and "w1 = fold (run_pcall (pg_payment_repo coll)) cs w" and "w2 = fold (run_pcall (pg_payment_repo coll)) ds w1"
    and "pay_view w1 pid = Some p"
  shows "\<exists>q. pay_view w2 pid = Some q \<and>
    (q = p \<or> yStatus p = PAYMENT_STATUS_PENDING \<and>
       yStatus q \<in> {PAYMENT_STATUS_CAPTURED, PAYMENT_STATUS_FAILED, PAYMENT_STATUS_CANCELLED} \<and>
       q = p\<lparr>yStatus := yStatus q, yCancelReason := yCancelReason q, yUpdatedAt := yUpdatedAt q\<rparr>) \<and>
    (\<forall>pid' q'. pay_view w2 pid' = Some q' \<and> yOrderID q' = yOrderID q \<longrightarrow> pid' = pid)"
proof -
  have "pay_quiet w" using assms(1,2) by (simp add: pay_quiet_def)
  then have q1: "pay_quiet w1" unfolding assms(3) by (rule pgpay_quiet.run_pcalls_evolve [THEN conjunct1])
  have q2: "pay_quiet w2" and v: "views_evolve (pay_view w1) (pay_view w2)"
    unfolding assms(4) using pgpay_quiet.run_pcalls_evolve [OF q1] by blast+
  obtain q where q: "pay_view w2 pid = Some q" "payment_evolves p q"
    using v assms(5) by (auto simp: views_evolve_def)
  have inv: "payment_db_inv (tables w2)" using q2 by (simp add: pay_quiet_def)
  have "pid' = pid" if "pay_view w2 pid' = Some q'" "yOrderID q' = yOrderID q" for pid' q'
    using one_payment_per_order [OF inv] that q(1) by (simp add: pay_view_def)
  then show ?thesis
    using q unfolding payment_evolves_def payment_step_iff by blast
qed

definition sample_payment :: payment where
  "sample_payment =
     \<lparr>yID = ''pay-1'', yOrderID = ''o1'', yCustomerID = ''c1'', yAmount = \<lparr>ymCurrency = CURRENCY_EUR, ymAmountCents = 1500\<rparr>,
      yMethod = PAYMENT_METHOD_TYPE_CARD, yMethodDetails = [], yIdempotencyKey = ''payment:create:o1'',
      yStatus = PAYMENT_STATUS_PENDING, yCancelReason = [], yCreatedAt = 1000, yUpdatedAt = 1000\<rparr>"

definition sample_payment_db :: payment_db where
  "sample_payment_db = \<lparr>payments = [row_of sample_payment]\<rparr>"

lemma sample_payment_inv [simp]: "payment_db_inv sample_payment_db"
  by (simp add: sample_payment_db_def sample_payment_def payment_db_inv_def payment_row_ok_def timestamptz_def zero_time_def)

lemma sample_saved: "saved sample_payment = sample_payment" "named sample_payment"
  by (simp_all add: sample_payment_def saved_def named_def known_currency_def known_method_def pg_micros_def)

lemma sample_view: "stored_payments sample_payment_db ''pay-1'' = Some sample_payment"
  using mapDBPayment_named [OF sample_saved(2)] sample_saved(1)
  by (simp add: stored_payments_def sample_payment_db_def) (simp add: sample_payment_def)

abbreviation sample_payments :: "(payment_db, 'm) world_scheme payment_repo" where
  "sample_payments \<equiv> pg_payment_repo (\<lambda>_. 0 :: nat)"

definition sample_topics :: payment_topics where
  "sample_topics =
     \<lparr>createdTopic = ''payment.created'', failedTopic = ''payment.creation_failed'',
      capturedTopic = ''payment.captured'', paymentFailedTopic = ''payment.failed''\<rparr>"

theorem payment_settles_once_witness:
  "\<exists>q. pay_view (fold (run_pcall sample_payments) [CancelPaymentCall 3000 ''pay-1'' ''fraud'', CapturePaymentCall 4000 ''pay-1'']
      (calm_world sample_payment_db 2000)) ''pay-1'' = Some q \<and> yAmount q = yAmount sample_payment"
proof -
  have v: "pay_view (fold (run_pcall sample_payments) [] (calm_world sample_payment_db 2000)) ''pay-1'' = Some sample_payment"
    by (simp add: pay_view_def sample_view)
  from payment_settles_once [OF _ _ refl refl v, of "[CancelPaymentCall 3000 ''pay-1'' ''fraud'', CapturePaymentCall 4000 ''pay-1'']"]
  obtain q where "pay_view (fold (run_pcall sample_payments) [CancelPaymentCall 3000 ''pay-1'' ''fraud'', CapturePaymentCall 4000 ''pay-1'']
      (calm_world sample_payment_db 2000)) ''pay-1'' = Some q"
    "q = sample_payment \<or> q = sample_payment\<lparr>yStatus := yStatus q, yCancelReason := yCancelReason q, yUpdatedAt := yUpdatedAt q\<rparr>"
    by (simp del: run_pcall.simps) blast
  moreover from this(2) have "yAmount q = yAmount sample_payment" by (metis payment.surjective payment.update_convs payment.select_convs(4))
  ultimately show ?thesis by blast
qed

section \<open>Served calls\<close>

lemma payment_repo_tables_only:
  "rCreatePayment (pg_payment_repo coll) p w = (g, w') \<Longrightarrow> tables_only w w'"
  "rUpdatePayment (pg_payment_repo coll) p w = (g, w') \<Longrightarrow> tables_only w w'"
  "rGetPaymentByID (pg_payment_repo coll) pid w = (g, w') \<Longrightarrow> tables_only w w'"
  "rGetPaymentByIdempotencyKey (pg_payment_repo coll) key w = (g, w') \<Longrightarrow> tables_only w w'"
  by (auto simp: pg_payment_repo_def dest: tables_only_attempt tables_only_read)

lemma read_served:
  assumes "pay_quiet w" "all_served w" "pay_view w pid = Some p"
  shows "\<exists>w'. rGetPaymentByID (pg_payment_repo coll) pid w = (Inr p, w') \<and> tables w' = tables w \<and>
    pay_quiet w' \<and> all_served w'"
proof -
  obtain r where r: "mapDBPayment r = Inr p" "payment_row_ok r" "pyID r = pid" "find (\<lambda>r. pyID r = pid) (payments (tables w)) = Some r"
    using assms(1,3) by (auto simp: pay_quiet_def pay_view_def elim: stored_payments_find)
  have "TrimSpace pid \<noteq> []" using r(2,3) by (auto simp: payment_row_ok_def)
  then show ?thesis
    using assms(1,2) r(1,4)
    by (simp add: pg_payment_repo_def with_read_def pg_GetPaymentByID_def found_payment_def q_GetPaymentByID_def
        pay_quiet_def alone_found)
qed

lemma distinct_others:
  assumes "distinct (filter (\<lambda>k. k \<noteq> None) (map f xs))" "r \<in> set xs" "f r = Some k" "x \<in> set xs" "f x = Some k"
  shows "x = r"
  using find_unique_key [OF assms(1-3)] find_unique_key [OF assms(1,4,5)] by simp

lemma update_allowed:
  assumes inv: "payment_db_inv db" and r: "r \<in> set (payments db)" "mapDBPayment r = Inr p"
    and q: "q = p\<lparr>yStatus := st, yCancelReason := reason, yUpdatedAt := now\<rparr>" "now \<noteq> zero_time" "yCreatedAt p \<noteq> zero_time"
  shows "check_payment_row (toPaymentDBParams q) (filter (\<lambda>r. pyID r \<noteq> yID q) (payments db)) = None"
    and "validatePayment q = None"
proof -
  note f = mapDBPayment_fields [OF r(2)]
  have ok: "payment_row_ok r" using inv r(1) by (simp add: payment_db_inv_def)
  have k: "pyKey (toPaymentDBParams q) = pyKey r"
    using f ok by (auto simp: q(1) payment_row_ok_def split: option.splits)
  have others: "pyOrderID x \<noteq> pyOrderID r \<and> (pyKey r = None \<or> pyKey x \<noteq> pyKey r)"
    if "x \<in> set (payments db)" "pyID x \<noteq> pyID r" for x
    using that inv r(1) distinct_others [of pyKey "payments db" r _ x]
    by (cases "pyKey r") (auto simp: payment_db_inv_def distinct_map dest: inj_onD)
  have c: "yID q = pyID r" "yOrderID q = pyOrderID r" "0 < ymAmountCents (yAmount q)"
    "yCreatedAt q \<noteq> zero_time" "yUpdatedAt q \<noteq> zero_time"
    using f ok q by (simp_all add: payment_row_ok_def)
  show "check_payment_row (toPaymentDBParams q) (filter (\<lambda>r. pyID r \<noteq> yID q) (payments db)) = None"
  proof -
    have "yOrderID q \<notin> set (map pyOrderID (filter (\<lambda>r. pyID r \<noteq> yID q) (payments db)))"
      "pyKey r = None \<or> pyKey r \<notin> set (map pyKey (filter (\<lambda>r. pyID r \<noteq> yID q) (payments db)))"
      using others c(1,2) by fastforce+
    moreover have "yID q \<notin> set (map pyID (filter (\<lambda>r. pyID r \<noteq> yID q) (payments db)))" by auto
    ultimately show ?thesis unfolding check_payment_row_def k using c by (simp add: timestamptz_def)
  qed
  show "validatePayment q = None"
    using f ok by (auto simp: q(1) validatePayment_def payment_row_ok_def)
qed

lemma update_served:
  assumes w: "pay_quiet w" "all_served w" and v: "pay_view w pid = Some p"
    and q: "q = p\<lparr>yStatus := st, yCancelReason := reason, yUpdatedAt := now\<rparr>" "now \<noteq> zero_time" "yCreatedAt p \<noteq> zero_time"
  shows "\<exists>w'. rUpdatePayment (pg_payment_repo coll) q w = (Inr (saved q), w') \<and>
    pay_view w' = (pay_view w)(pid \<mapsto> saved q) \<and> pay_quiet w' \<and> all_served w'"
proof -
  have inv: "payment_db_inv (tables w)" and al: "alone w" using w(1) by (simp_all add: pay_quiet_def)
  obtain r where r: "r \<in> set (payments (tables w))" "mapDBPayment r = Inr p" "pyID r = pid"
    using inv v by (auto simp: pay_view_def elim: stored_payments_find)
  note up = update_allowed [OF inv r(1,2) q]
  have n: "named q" "yID q = pid" using mapDBPayment_fields [OF r(2)] r(3) by (simp_all add: q(1) named_def)
  have here: "yID q \<in> set (map pyID (payments (tables w)))" using r(1,3) n(2) by auto
  have "pg_UpdatePayment (the_attempt w) q (tables w) = (Inr (saved q), put_payment q (tables w))"
    using up here w(2) mapDBPayment_named [OF n(1)]
    by (simp add: pg_UpdatePayment_def q_UpdatePayment_def put_payment_def autocommit_def)
  then show ?thesis
    using put_payment_inv [OF inv here up] n w al
    by (simp add: pg_payment_repo_def with_attempt_def alone_found pay_view_def pay_quiet_def)
qed

lemma capture_served:
  assumes w: "pay_quiet w" "all_served w" and v: "pay_view w pid = Some p" "yStatus p = PAYMENT_STATUS_PENDING"
    and t: "now \<noteq> zero_time" "yCreatedAt p \<noteq> zero_time"
  shows "\<exists>q w'. psvc_CapturePayment (pg_payment_repo coll) now pid w = (Inr (q, True), w') \<and>
    q = saved (p\<lparr>yStatus := PAYMENT_STATUS_CAPTURED, yUpdatedAt := now\<rparr>) \<and>
    pay_view w' = (pay_view w)(pid \<mapsto> q) \<and> pay_quiet w' \<and> all_served w' \<and> tables_only w w'"
proof -
  let ?q = "p\<lparr>yStatus := PAYMENT_STATUS_CAPTURED, yUpdatedAt := now\<rparr>"
  obtain w1 where w1: "rGetPaymentByID (pg_payment_repo coll) pid w = (Inr p, w1)" "tables w1 = tables w" "pay_quiet w1" "all_served w1"
    using read_served [OF w v(1)] by blast
  have v1: "pay_view w1 = pay_view w" using w1(2) by (simp add: pay_view_def)
  have "?q = p\<lparr>yStatus := PAYMENT_STATUS_CAPTURED, yCancelReason := yCancelReason p, yUpdatedAt := now\<rparr>" by simp
  from update_served [OF w1(3,4) v(1) [folded v1] this t] obtain w' where
    w': "rUpdatePayment (pg_payment_repo coll) ?q w1 = (Inr (saved ?q), w')" "pay_view w' = (pay_view w)(pid \<mapsto> saved ?q)"
    "pay_quiet w'" "all_served w'" unfolding v1 by blast
  have "TrimSpace pid \<noteq> []"
    using w v(1) by (auto simp: pay_quiet_def pay_view_def payment_row_ok_def elim: stored_payments_find)
  then show ?thesis
    using w1(1) w' v(2) tables_only_trans [OF payment_repo_tables_only(3) [OF w1(1)] payment_repo_tables_only(2) [OF w'(1)]]
    by (simp add: psvc_CapturePayment_def with_flag_def)
qed

section \<open>Captures are announced\<close>

lemma pay_quiet_tables_only: "tables_only w w' \<Longrightarrow> tables w' = tables w \<Longrightarrow> pay_quiet w' = pay_quiet w"
  by (simp add: pay_quiet_def tables_only_alone)

text \<open>
  C29: A capture that is answered was announced. When \<open>CapturePayment\<close> of a pending payment
  returns a payment, whatever faults the database and Kafka show otherwise, the payment is
  stored as captured with its amount and order, and exactly one message was sent: the
  \<open>payment.captured\<close> event of this payment, keyed by its order. Capturing a captured payment
  again changes no payment and sends nothing.
\<close>
theorem capture_announced:
  fixes w :: "(payment_db, 'm) bus_world_scheme"
  assumes "pay_quiet w" "pay_view w pid = Some p" "repo = pg_payment_repo coll"
    and "grpc_CapturePayment repo (payment_kafka_publisher ts) now pid w = (Inr x, w1)"
  shows "pypStatus x = PAYMENT_STATUS_CAPTURED \<and>
    (if yStatus p = PAYMENT_STATUS_PENDING
     then \<exists>q. pay_view w1 pid = Some q \<and> yStatus q = PAYMENT_STATUS_CAPTURED \<and> yOrderID q = yOrderID p \<and> yAmount q = yAmount p \<and>
       sent w1 = sent w @ [event_message now (capturedTopic ts) PaymentCapturedEventType pid (yOrderID p)
         (enc_PaymentCaptured (captured_event_of q))]
     else pay_view w1 = pay_view w \<and> sent w1 = sent w)"
proof -
  obtain g v1 where g: "rGetPaymentByID (pg_payment_repo coll) pid w = (g, v1)" by fastforce
  note r = pgpay_quiet.read_view [OF assms(1) g]
  have ok: "yID p = pid" "named p" using pgpay_quiet.view_ok [OF assms(1,2)] by simp_all
  have s1: "sent v1 = sent w" using payment_repo_tables_only(3) [OF g] by (auto simp: tables_only_def)
  obtain p' where p': "g = Inr p'" using assms(4) g unfolding assms(3)
    by (cases g) (auto simp: grpc_CapturePayment_def psvc_CapturePayment_def split: if_splits)
  then have pp: "p' = p" using r assms(2) by simp
  show ?thesis
  proof (cases "yStatus p = PAYMENT_STATUS_PENDING")
    case False
    then show ?thesis
      using assms(4) g p' pp r s1 unfolding assms(3)
      by (auto simp: grpc_CapturePayment_def psvc_CapturePayment_def convertPaymentToProto_def split: if_splits)
  next
    case True
    let ?q = "p\<lparr>yStatus := PAYMENT_STATUS_CAPTURED, yUpdatedAt := now\<rparr>"
    obtain u v2 where u: "rUpdatePayment (pg_payment_repo coll) ?q v1 = (u, v2)" by fastforce
    obtain q where uq: "u = Inr q"
      using assms(4) g p' pp u True unfolding assms(3)
      by (cases u) (auto simp: grpc_CapturePayment_def psvc_CapturePayment_def with_flag_def split: if_splits)
    have "named ?q" using ok(2) by (simp add: named_def)
    from pgpay_quiet.update [OF conjunct1 [OF r] this u] have q: "q = saved ?q" "pay_view v2 pid = Some q"
      using uq ok(1) by auto
    obtain e v3 where e: "writeEvent now (capturedTopic ts) PaymentCapturedEventType (yID q) (yOrderID q)
        (enc_PaymentCaptured (captured_event_of q)) v2 = (e, v3)" by fastforce
    have k: "kafka_PublishPaymentCaptured (capturedTopic ts) now (yID q) (captured_event_of q) v2 = (e, v3)"
      using e by (simp add: kafka_PublishPaymentCaptured_def captured_event_of_def)
    have res: "e = None" "v3 = w1" "x = convertPaymentToProto q"
      using assms(4) g p' pp u uq True k unfolding assms(3)
      by (auto simp: grpc_CapturePayment_def psvc_CapturePayment_def with_flag_def payment_kafka_publisher_def
          split: if_splits option.splits)
    have s2: "sent v2 = sent w" using payment_repo_tables_only(2) [OF u] s1 by (auto simp: tables_only_def)
    have "pay_view v3 = pay_view v2 \<and> sent v3 = sent v2 @ [event_message now (capturedTopic ts) PaymentCapturedEventType (yID q) (yOrderID q)
        (enc_PaymentCaptured (captured_event_of q))]"
      using e res(1) by (auto simp: pay_view_def elim: writeEvent_cases)
    then show ?thesis
      using True q ok(1) res s2 by (simp add: convertPaymentToProto_def)
  qed
qed

theorem capture_announced_witness:
  "\<exists>x w1. grpc_CapturePayment sample_payments (payment_kafka_publisher
       \<lparr>createdTopic = ''payment.created'', failedTopic = ''payment.creation_failed'',
        capturedTopic = ''payment.captured'', paymentFailedTopic = ''payment.failed''\<rparr>) 5000 ''pay-1''
       (calm_bus sample_payment_db 2000) = (Inr x, w1) \<and> length (sent w1) = 1"
proof -
  let ?w = "calm_bus sample_payment_db 2000"
  let ?ts = "\<lparr>createdTopic = ''payment.created'', failedTopic = ''payment.creation_failed'',
        capturedTopic = ''payment.captured'', paymentFailedTopic = ''payment.failed''\<rparr>"
  have w: "pay_quiet ?w" "pay_view ?w ''pay-1'' = Some sample_payment" "all_served ?w" "broker_up ?w"
    by (simp_all add: pay_quiet_def pay_view_def sample_view)
  have t: "(5000::int) \<noteq> zero_time" "yCreatedAt sample_payment \<noteq> zero_time" "yStatus sample_payment = PAYMENT_STATUS_PENDING"
    by (simp_all add: zero_time_def sample_payment_def)
  obtain q w' where q: "psvc_CapturePayment sample_payments 5000 ''pay-1'' ?w = (Inr (q, True), w')" "tables_only ?w w'"
    using capture_served [OF w(1,3,2) t(3,1,2), of "\<lambda>_. 0 :: nat"] by blast
  have "broker_up w'" using q(2) w(4) by (auto simp: tables_only_def broker_up_def)
  then obtain x w1 where c: "grpc_CapturePayment sample_payments (payment_kafka_publisher ?ts) 5000 ''pay-1'' ?w = (Inr x, w1)"
    using q(1) by (auto simp: grpc_CapturePayment_def payment_kafka_publisher_def kafka_PublishPaymentCaptured_def writeEvent_up)
  from capture_announced [OF w(1,2) refl c] c show ?thesis by (auto simp: t(3))
qed

text \<open>
  An announcement that fails is lost. When Kafka refuses the \<open>payment.captured\<close> event, the
  caller gets an error although the payment is captured; the retry finds it captured, answers
  with success, and sends nothing: the order service never learns of the capture.
\<close>
theorem lost_capture_stays_lost:
  fixes w :: "(payment_db, 'm) bus_world_scheme"
  assumes "pay_quiet w" "all_served w" "pay_view w pid = Some p" "yStatus p = PAYMENT_STATUS_PENDING"
    and "now \<noteq> zero_time" "yCreatedAt p \<noteq> zero_time" "write_fault w (writes w) = Failed m"
    and "grpc_CapturePayment (pg_payment_repo coll) (payment_kafka_publisher ts) now pid w = (r1, w1)"
    and "grpc_CapturePayment (pg_payment_repo coll) (payment_kafka_publisher ts) later pid w1 = (r2, w2)"
  shows "r1 = Inl (status_Error InternalCode ''failed to publish payment.captured event'') \<and>
    (\<exists>q. pay_view w1 pid = Some q \<and> yStatus q = PAYMENT_STATUS_CAPTURED) \<and>
    (\<exists>x. r2 = Inr x \<and> pypStatus x = PAYMENT_STATUS_CAPTURED) \<and> sent w2 = sent w"
proof -
  obtain q v where q: "psvc_CapturePayment (pg_payment_repo coll) now pid w = (Inr (q, True), v)"
    "q = saved (p\<lparr>yStatus := PAYMENT_STATUS_CAPTURED, yUpdatedAt := now\<rparr>)"
    "pay_view v = (pay_view w)(pid \<mapsto> q)" "pay_quiet v" "all_served v" "tables_only w v"
    using capture_served [OF assms(1-6), of coll] by blast
  have b: "sent v = sent w" "write_fault v (writes v) = Failed m"
    using q(6) assms(7) by (auto simp: tables_only_def)
  have w1: "w1 = v\<lparr>writes := Suc (writes v)\<rparr>" and r1: "r1 = Inl (status_Error InternalCode ''failed to publish payment.captured event'')"
    using assms(8) q(1) b(2) by (simp_all add: grpc_CapturePayment_def payment_kafka_publisher_def
        kafka_PublishPaymentCaptured_def writeEvent_def WriteMessages_def)
  have f1: "pay_quiet w1" "all_served w1" "pay_view w1 pid = Some q" "sent w1 = sent w"
    using q(3-5) b(1) by (simp_all add: w1 pay_quiet_def alone_def all_served_def pay_view_def)
  obtain v2 where v2: "rGetPaymentByID (pg_payment_repo coll) pid w1 = (Inr q, v2)"
    using read_served [OF f1(1-3)] by blast
  have "TrimSpace pid \<noteq> []"
    using f1(1,3) by (auto simp: pay_quiet_def pay_view_def payment_row_ok_def elim: stored_payments_find)
  moreover have "sent v2 = sent w1" using payment_repo_tables_only(3) [OF v2] by (auto simp: tables_only_def)
  ultimately show ?thesis
    using assms(9) v2 f1(3,4) r1 q(2)
    by (auto simp: grpc_CapturePayment_def psvc_CapturePayment_def convertPaymentToProto_def)
qed

theorem lost_capture_stays_lost_witness:
  "\<exists>r1 w1 r2 w2. grpc_CapturePayment sample_payments (payment_kafka_publisher sample_topics) 5000 ''pay-1''
       (calm_bus sample_payment_db 2000\<lparr>write_fault := (\<lambda>i. if i = 0 then Failed ''no leader'' else Served)\<rparr>) = (r1, w1) \<and>
     grpc_CapturePayment sample_payments (payment_kafka_publisher sample_topics) 6000 ''pay-1'' w1 = (r2, w2) \<and>
     (\<exists>x. r2 = Inr x) \<and> sent w2 = []"
proof -
  let ?w = "calm_bus sample_payment_db 2000\<lparr>write_fault := (\<lambda>i. if i = 0 then Failed ''no leader'' else Served)\<rparr>"
  have w: "pay_quiet ?w" "all_served ?w" "pay_view ?w ''pay-1'' = Some sample_payment" "sent ?w = []"
    "write_fault ?w (writes ?w) = Failed ''no leader''"
    by (simp_all add: pay_quiet_def pay_view_def sample_view all_served_def alone_def calm_bus_def world.defs calm_world_def)
  have t: "yStatus sample_payment = PAYMENT_STATUS_PENDING" "(5000::int) \<noteq> zero_time" "yCreatedAt sample_payment \<noteq> zero_time"
    by (simp_all add: zero_time_def sample_payment_def)
  obtain r1 w1 where c1: "grpc_CapturePayment sample_payments (payment_kafka_publisher sample_topics) 5000 ''pay-1'' ?w = (r1, w1)" by fastforce
  obtain r2 w2 where c2: "grpc_CapturePayment sample_payments (payment_kafka_publisher sample_topics) 6000 ''pay-1'' w1 = (r2, w2)" by fastforce
  from lost_capture_stays_lost [OF w(1-3) t w(5) c1 c2] c1 c2 w(4) show ?thesis by auto
qed

section \<open>One payment for an order\<close>

lemma strip_left_Nil:
  "strip_left ws s = [] \<Longrightarrow> s \<noteq> [] \<Longrightarrow> \<exists>w \<in> set ws. w \<noteq> [] \<and> last w = last s"
proof (induction ws s rule: strip_left.induct)
  case (1 ws s)
  obtain w where w: "find (\<lambda>w. w \<noteq> [] \<and> prefix w s) ws = Some w"
    using 1(2,3) by (cases "find (\<lambda>w. w \<noteq> [] \<and> prefix w s) ws") (auto simp: strip_left_stop)
  then have m: "w \<in> set ws" "w \<noteq> []" "prefix w s" by (auto dest: find_Some_in)
  show ?case
  proof (cases "drop (length w) s = []")
    case True
    then have "w = s" using m(3) by (auto simp: prefix_def)
    then show ?thesis using m by auto
  next
    case False
    then have "last (drop (length w) s) = last s" by (simp add: last_drop)
    then show ?thesis using 1(1) [OF w] 1(2) w False by (simp add: strip_left.simps [of ws s])
  qed
qed

lemma TrimSpace_graphic: "graphic c \<Longrightarrow> TrimSpace (c # s) \<noteq> []"
proof
  assume c: "graphic c" and t: "TrimSpace (c # s) = []"
  have "strip_left space_runes (c # s) = c # s"
    using c space_runes_not_graphic by (intro strip_left_graphic) auto
  then have "strip_left (map rev space_runes) (rev (c # s)) = []"
    using t unfolding TrimSpace_def strip_right_def by simp
  from strip_left_Nil [OF this] obtain w where "w \<in> set space_runes" "w \<noteq> []" "last (rev w) = last (rev (c # s))" by auto
  then show False using space_runes_not_graphic [of w] c by (simp add: last_rev)
qed

lemma creation_key_not_blank: "TrimSpace (''payment:create:'' @ oid) \<noteq> []"
  using TrimSpace_graphic [of "CHR ''p''" "''ayment:create:'' @ oid"] by simp

text \<open>Creating: the payment of the key when there is one, a new one when nothing is in its way.\<close>

lemma create_known_key:
  assumes w: "pay_quiet w" "all_served w" and v: "pay_view w pid = Some x" "yIdempotencyKey x = TrimSpace (yIdempotencyKey p)"
    and p: "validateCreatePayment p = None" "TrimSpace (yIdempotencyKey p) \<noteq> []"
  shows "\<exists>w'. psvc_CreatePayment (pg_payment_repo coll) t1 t2 p w = (Inr x, w') \<and> tables w' = tables w \<and> tables_only w w'"
proof -
  obtain r where r: "r \<in> set (payments (tables w))" "mapDBPayment r = Inr x"
    using w(1) v(1) by (auto simp: pay_quiet_def pay_view_def elim: stored_payments_find)
  have "pyKey r = Some (TrimSpace (yIdempotencyKey p))"
    using mapDBPayment_fields [OF r(2)] v(2) p(2) by (auto split: option.splits)
  then have "find (\<lambda>r. pyKey r = Some (TrimSpace (yIdempotencyKey p))) (payments (tables w)) = Some r"
    using find_unique_key [of pyKey "payments (tables w)" r] w(1) r(1) by (simp add: pay_quiet_def payment_db_inv_def)
  then obtain w' where "rGetPaymentByIdempotencyKey (pg_payment_repo coll) (TrimSpace (yIdempotencyKey p)) w = (Inr x, w')" "tables w' = tables w"
    using w p(2) r(2) by (simp add: pg_payment_repo_def with_read_def pg_GetPaymentByIdempotencyKey_def Let_def
        found_payment_def q_GetPaymentByIdempotencyKey_def pay_quiet_def alone_found)
  then show ?thesis using p payment_repo_tables_only(4) by (auto simp: psvc_CreatePayment_def)
qed

definition no_payment_yet :: "payment_db \<Rightarrow> payment \<Rightarrow> bool" where
  "no_payment_yet db q \<longleftrightarrow>
     yID q \<notin> set (map pyID (payments db)) \<and> yOrderID q \<notin> set (map pyOrderID (payments db)) \<and>
     Some (TrimSpace (yIdempotencyKey q)) \<notin> set (map pyKey (payments db))"

lemma create_new:
  assumes w: "pay_quiet w" "all_served w" and p: "validateCreatePayment p = None" "TrimSpace (yIdempotencyKey p) \<noteq> []"
    and q: "q = new_payment t1 t2 p" "named q" "no_payment_yet (tables w) q" "t2 \<noteq> zero_time"
  shows "\<exists>w'. psvc_CreatePayment (pg_payment_repo coll) t1 t2 p w = (Inr (saved q), w') \<and> pay_quiet w' \<and> all_served w' \<and>
    pay_view w' = (pay_view w)(yID q \<mapsto> saved q) \<and> tables_only w w'"
proof -
  have inv: "payment_db_inv (tables w)" and al: "alone w" using w(1) by (simp_all add: pay_quiet_def)
  have k: "yIdempotencyKey q = yIdempotencyKey p" by (simp add: q(1) new_payment_def)
  obtain w1 where g: "rGetPaymentByIdempotencyKey (pg_payment_repo coll) (TrimSpace (yIdempotencyKey p)) w = (Inl ErrPaymentNotFound, w1)"
    and w1: "tables w1 = tables w" "alone w1" "all_served w1"
  proof -
    have "find (\<lambda>r. pyKey r = Some (TrimSpace (yIdempotencyKey p))) (payments (tables w)) = None"
      using q(3) k by (force simp: no_payment_yet_def find_None_iff)
    then show thesis
      using w p(2) that al by (simp add: pg_payment_repo_def with_read_def pg_GetPaymentByIdempotencyKey_def Let_def
        found_payment_def q_GetPaymentByIdempotencyKey_def alone_found)
  qed
  have nid: "TrimSpace (newPaymentID t1) \<noteq> []"
    using TrimSpace_graphic [of "CHR ''p''" "''ay-'' @ itoa (UnixNano t1)"] by (simp add: newPaymentID_def)
  have v: "validatePayment q = None"
    using p(1) nid by (auto simp: validateCreatePayment_def validatePayment_def q(1) new_payment_def split: if_splits)
  have c: "check_payment_row (toPaymentDBParams q) (payments (tables w)) = None"
  proof -
    have "0 < ymAmountCents (yAmount q)" "yCreatedAt q = t2" "yUpdatedAt q = t2"
      using p(1) by (auto simp: validateCreatePayment_def q(1) new_payment_def split: if_splits)
    then show ?thesis using q(3,4) by (simp add: check_payment_row_def no_payment_yet_def timestamptz_def)
  qed
  have s: "pg_CreatePayment (the_attempt w1) q (tables w) = (Inr (saved q), add_payment q (tables w))"
    using v c w1(3) mapDBPayment_named [OF q(2)]
    by (simp add: pg_CreatePayment_def q_CreatePayment_def add_payment_def autocommit_def)
  then obtain w' where w': "rCreatePayment (pg_payment_repo coll) q w1 = (Inr (saved q), w')"
    "w' = w1\<lparr>tables := add_payment q (tables w), calls := Suc (calls w1)\<rparr>"
    using w1 by (simp add: pg_payment_repo_def with_attempt_def alone_found)
  have "psvc_CreatePayment (pg_payment_repo coll) t1 t2 p w = (Inr (saved q), w')"
    using p g w'(1) by (simp add: psvc_CreatePayment_def store_payment_def q(1))
  moreover have "tables_only w w'"
    by (rule tables_only_trans [OF payment_repo_tables_only(4) [OF g] payment_repo_tables_only(1) [OF w'(1)]])
  ultimately show ?thesis
    using add_payment_inv [OF inv c v] q(2) w1(2,3) by (simp add: w'(2) pay_quiet_def pay_view_def)
qed

section \<open>Handling inventory.reserved\<close>

abbreviation payment_processed :: "('db, 'm) node_world_scheme \<Rightarrow> string set" where
  "payment_processed \<equiv> processed_ids ''payment:event:processed:''"

text \<open>An event a payment can be made from, with the currency and the method it names.\<close>

definition payable :: "ev_InventoryReserved \<Rightarrow> currency \<Rightarrow> payment_method \<Rightarrow> bool" where
  "payable event c m \<longleftrightarrow>
     parseEventCurrency (em_Currency (ir_Amount event)) = Inr c \<and> parseEventMethod (ep_Method (ir_Payment event)) = Inr m \<and>
     TrimSpace (ir_OrderID event) \<noteq> [] \<and> TrimSpace (ir_CustomerID event) \<noteq> [] \<and> 0 < em_AmountCents (ir_Amount event)"

lemma payableD:
  assumes "payable event c m"
  shows "validateCreatePayment (event_payment event c m) = None" "named (event_payment event c m)"
    "createPayment repo now event s =
      (case psvc_CreatePayment repo now now (event_payment event c m) s of (r, s1) \<Rightarrow> (map_sum payment_error_text id r, s1))"
  using assms by (auto simp: payable_def validateCreatePayment_def event_payment_def named_def known_currency_def known_method_def
      parseEventCurrency_def parseEventMethod_def createPayment_def split: if_splits)

lemma pay_no_redis:
  assumes "no_redis w' = no_redis w"
  shows "pay_quiet w' = pay_quiet w" "pay_view w' = pay_view w"
  using no_redis_world(1) [OF assms] no_redis_simps(1) [OF assms] by (simp_all add: pay_quiet_def pay_view_def)

lemma pay_sent [simp]:
  "pay_quiet (w\<lparr>sent := m, writes := n\<rparr>) = pay_quiet w" "pay_view (w\<lparr>sent := m, writes := n\<rparr>) = pay_view w"
  by (simp_all add: pay_quiet_def pay_view_def)

lemma event_payment_key: "yIdempotencyKey (event_payment event c m) = ''payment:create:'' @ ir_OrderID event"
  by (simp add: event_payment_def)

text \<open>From the decoded event to the committed message, given what the service answers.\<close>

lemma inventory_reserved_handled:
  fixes w :: "(payment_db, 'm) node_world_scheme"
  assumes "redis_up w" "broker_up w"
    and "unmarshal dec_Envelope zero_Envelope (kmValue msg) = Some envelope"
    and "en_EventType envelope = InventoryReservedEventType" "en_EventID envelope \<notin> payment_processed w"
    and "unmarshal dec_InventoryReserved zero_InventoryReserved (en_Payload envelope) = Some event"
    and "payable event c m"
    and svc: "psvc_CreatePayment repo now now (event_payment event c m) (redis_tick w) = (Inr p, w1)" "tables_only (redis_tick w) w1"
  shows "\<exists>w'. InventoryReserved_handleMessage repo payment_deduper (payment_kafka_publisher ts) now msg w = (Inr True, w') \<and>
    en_EventID envelope \<in> payment_processed w' \<and> tables w' = tables w1 \<and> pay_quiet w' = pay_quiet w1 \<and>
    all_served w' = all_served w1 \<and> broker_up w' \<and> redis_up w' \<and>
    sent w' = sent w @ [event_message now (createdTopic ts) PaymentCreatedEventType (en_EventID envelope) (yOrderID p)
      (enc_PaymentCreated (created_event_of p))]"
proof -
  let ?m = "event_message now (createdTopic ts) PaymentCreatedEventType (en_EventID envelope) (yOrderID p)
      (enc_PaymentCreated (created_event_of p))"
  have t: "no_redis (redis_tick w) = no_redis w" by simp
  note same = tables_only_node [OF svc(2)]
  have b: "broker_up w1" "redis_up w1" "sent w1 = sent w"
    using same(1-3) assms(1,2) no_redis_world(3) [OF t] no_redis_simps(5) [OF t] by simp_all
  let ?w2 = "w1\<lparr>sent := sent w1 @ [?m], writes := Suc (writes w1)\<rparr>"
  have up2: "redis_up ?w2" using b(2) by simp
  obtain w' where w': "mark_done payment_deduper PaymentDedup (en_EventID envelope) ?w2 = (Inr True, w')"
    "no_redis w' = no_redis ?w2" "redis_up w'" "payment_processed w' = insert (en_EventID envelope) (payment_processed ?w2)"
    using mark_done_up [OF up2] unfolding payment_deduper_def by blast
  have "InventoryReserved_handleMessage repo payment_deduper (payment_kafka_publisher ts) now msg w = (Inr True, w')"
    using deduplicated_fresh [OF assms(1,3-5), of PaymentDedup] assms(6) payableD(3) [OF assms(7), of repo now "redis_tick w"] svc(1) w'(1) b(1)
    by (simp add: InventoryReserved_handleMessage_def handle_inventory_reserved_def payment_deduper_def
        payment_publish_and_mark_def payment_kafka_publisher_def kafka_PublishPaymentCreated_def writeEvent_up created_event_of_def)
  then show ?thesis
    using w'(3,4) b pay_no_redis(1) [OF w'(2)] no_redis_world(2,3) [OF w'(2)] no_redis_simps(1,5) [OF w'(2)] by simp
qed

lemma payment_event_new:
  fixes w :: "(payment_db, 'm) node_world_scheme"
  assumes "pay_quiet w" "all_served w" "redis_up w" "broker_up w"
    and "unmarshal dec_Envelope zero_Envelope (kmValue msg) = Some envelope"
    and "en_EventType envelope = InventoryReservedEventType" "en_EventID envelope \<notin> payment_processed w"
    and "unmarshal dec_InventoryReserved zero_InventoryReserved (en_Payload envelope) = Some event"
    and "payable event c m" "now \<noteq> zero_time"
    and "no_payment_yet (tables w) (new_payment now now (event_payment event c m))"
    and p: "p = saved (new_payment now now (event_payment event c m))"
  shows "\<exists>w'. InventoryReserved_handleMessage (pg_payment_repo coll) payment_deduper (payment_kafka_publisher ts) now msg w = (Inr True, w') \<and>
    en_EventID envelope \<in> payment_processed w' \<and> pay_view w' = (pay_view w)(yID p \<mapsto> p) \<and>
    sent w' = sent w @ [event_message now (createdTopic ts) PaymentCreatedEventType (en_EventID envelope) (yOrderID p)
      (enc_PaymentCreated (created_event_of p))] \<and>
    pay_quiet w' \<and> all_served w' \<and> broker_up w' \<and> redis_up w'"
proof -
  have t: "no_redis (redis_tick w) = no_redis w" by simp
  have w: "pay_quiet (redis_tick w)" "all_served (redis_tick w)" "pay_view (redis_tick w) = pay_view w" "tables (redis_tick w) = tables w"
    using assms(1,2) pay_no_redis [OF t] no_redis_world(2) [OF t] no_redis_simps(1) [OF t] by simp_all
  have k: "TrimSpace (yIdempotencyKey (event_payment event c m)) \<noteq> []"
    unfolding event_payment_key by (rule creation_key_not_blank)
  have n: "named (new_payment now now (event_payment event c m))"
    using payableD(2) [OF assms(9)] by (simp add: named_def new_payment_def)
  obtain w1 where w1: "psvc_CreatePayment (pg_payment_repo coll) now now (event_payment event c m) (redis_tick w) = (Inr p, w1)"
    "pay_quiet w1" "all_served w1" "pay_view w1 = (pay_view w)(yID p \<mapsto> p)" "tables_only (redis_tick w) w1"
    using create_new [OF w(1,2) payableD(1) [OF assms(9)] k refl n _ assms(10), of coll] assms(11) w(3,4) p by auto
  show ?thesis
    using inventory_reserved_handled [OF assms(3-9) w1(1,5), of ts] w1(2-4) by (auto simp: pay_view_def)
qed

text \<open>
  C28: A reserved order gets its payment. With PostgreSQL, Kafka and Redis up, an
  \<open>inventory.reserved\<close> message that was not processed, names a supported currency and method, a
  customer and a positive amount, and whose order has no payment yet, is committed and marked;
  one pending payment of exactly the event's order, customer and amount is stored and announced
  by one \<open>payment.created\<close> event, and no other payment changes.
\<close>
theorem reserved_order_gets_payment:
  fixes w :: "(payment_db, 'm) node_world_scheme"
  assumes "pay_quiet w" "all_served w" "redis_up w" "broker_up w"
    and "unmarshal dec_Envelope zero_Envelope (kmValue msg) = Some envelope"
    and "en_EventType envelope = InventoryReservedEventType" "en_EventID envelope \<notin> payment_processed w"
    and "unmarshal dec_InventoryReserved zero_InventoryReserved (en_Payload envelope) = Some event"
    and "payable event c m" "now \<noteq> zero_time"
    and "no_payment_yet (tables w) (new_payment now now (event_payment event c m))"
  shows "\<exists>w' p. InventoryReserved_handleMessage (pg_payment_repo coll) payment_deduper (payment_kafka_publisher ts) now msg w =
      (Inr True, w') \<and> en_EventID envelope \<in> payment_processed w' \<and>
    pay_view w' = (pay_view w)(yID p \<mapsto> p) \<and> yStatus p = PAYMENT_STATUS_PENDING \<and>
    yOrderID p = ir_OrderID event \<and> yCustomerID p = ir_CustomerID event \<and> yMethod p = m \<and>
    yAmount p = \<lparr>ymCurrency = c, ymAmountCents = em_AmountCents (ir_Amount event)\<rparr> \<and>
    sent w' = sent w @ [event_message now (createdTopic ts) PaymentCreatedEventType (en_EventID envelope) (ir_OrderID event)
      (enc_PaymentCreated (created_event_of p))]"
proof -
  define p where "p = saved (new_payment now now (event_payment event c m))"
  have f: "yStatus p = PAYMENT_STATUS_PENDING" "yOrderID p = ir_OrderID event" "yCustomerID p = ir_CustomerID event"
    "yMethod p = m" "yAmount p = \<lparr>ymCurrency = c, ymAmountCents = em_AmountCents (ir_Amount event)\<rparr>"
    by (simp_all add: p_def new_payment_def event_payment_def)
  show ?thesis using payment_event_new [OF assms p_def, of coll ts] f by auto
qed

text \<open>
  The same order is not paid twice. When a payment with the key of the order's event is
  stored, in whatever status, handling \<open>inventory.reserved\<close> of that order again (the mark was
  lost, or the inventory service announced it twice) leaves the table as it is, and announces
  the same payment again.
\<close>
theorem reserved_again_same_payment:
  fixes w :: "(payment_db, 'm) node_world_scheme"
  assumes "pay_quiet w" "all_served w" "redis_up w" "broker_up w"
    and "unmarshal dec_Envelope zero_Envelope (kmValue msg) = Some envelope"
    and "en_EventType envelope = InventoryReservedEventType" "en_EventID envelope \<notin> payment_processed w"
    and "unmarshal dec_InventoryReserved zero_InventoryReserved (en_Payload envelope) = Some event"
    and "payable event c m"
    and "pay_view w pid = Some p" "yIdempotencyKey p = TrimSpace (''payment:create:'' @ ir_OrderID event)"
  shows "\<exists>w'. InventoryReserved_handleMessage (pg_payment_repo coll) payment_deduper (payment_kafka_publisher ts) now msg w =
      (Inr True, w') \<and> tables w' = tables w \<and>
    sent w' = sent w @ [event_message now (createdTopic ts) PaymentCreatedEventType (en_EventID envelope) (yOrderID p)
      (enc_PaymentCreated (created_event_of p))]"
proof -
  have t: "no_redis (redis_tick w) = no_redis w" by simp
  have w: "pay_quiet (redis_tick w)" "all_served (redis_tick w)" "pay_view (redis_tick w) pid = Some p" "tables (redis_tick w) = tables w"
    using assms(1,2,10) pay_no_redis [OF t] no_redis_world(2) [OF t] no_redis_simps(1) [OF t] by simp_all
  have k: "TrimSpace (yIdempotencyKey (event_payment event c m)) \<noteq> []"
    "yIdempotencyKey p = TrimSpace (yIdempotencyKey (event_payment event c m))"
    unfolding event_payment_key by (rule creation_key_not_blank, rule assms(11))
  obtain w1 where w1: "psvc_CreatePayment (pg_payment_repo coll) now now (event_payment event c m) (redis_tick w) = (Inr p, w1)"
    "tables w1 = tables w" "tables_only (redis_tick w) w1"
    using create_known_key [OF w(1-3) k(2) payableD(1) [OF assms(9)] k(1), of coll now now] w(4) by auto
  show ?thesis
    using inventory_reserved_handled [OF assms(3-9) w1(1,3), of ts] w1(2) by auto
qed

definition sample_reserved :: ev_InventoryReserved where
  "sample_reserved = \<lparr>ir_OrderID = ''o1'', ir_CustomerID = ''c1'', ir_Amount = \<lparr>em_Currency = ''CURRENCY_EUR'', em_AmountCents = 1500\<rparr>,
     ir_Payment = \<lparr>ep_Method = ''PAYMENT_METHOD_TYPE_CARD'', ep_MethodDetails = []\<rparr>, ir_Items = []\<rparr>"

definition reserved_message :: "string \<Rightarrow> kafka_message" where
  "reserved_message eid = event_message 0 ''inventory.reserved'' InventoryReservedEventType eid ''o1'' (enc_InventoryReserved sample_reserved)"

lemma reserved_message_decodes:
  "unmarshal dec_Envelope zero_Envelope (kmValue (reserved_message eid)) =
     Some (event_envelope 0 InventoryReservedEventType eid (enc_InventoryReserved sample_reserved))"
  "unmarshal dec_InventoryReserved zero_InventoryReserved (en_Payload (event_envelope t ty eid (enc_InventoryReserved sample_reserved))) = Some sample_reserved"
proof -
  have "ok_InventoryReserved sample_reserved"
    by (simp add: ok_InventoryReserved_def sample_reserved_def ok_Money_def is_int64_def)
  then show "unmarshal dec_InventoryReserved zero_InventoryReserved (en_Payload (event_envelope t ty eid (enc_InventoryReserved sample_reserved))) = Some sample_reserved"
    by (simp add: unmarshal_def)
qed (simp add: reserved_message_def)

lemma sample_payable: "payable sample_reserved CURRENCY_EUR PAYMENT_METHOD_TYPE_CARD"
  by (simp add: payable_def sample_reserved_def parseEventCurrency_def parseEventMethod_def)

theorem reserved_order_gets_payment_witness:
  "\<exists>w' p. InventoryReserved_handleMessage sample_payments payment_deduper (payment_kafka_publisher sample_topics) 5000
       (reserved_message ''e1'') (calm_node \<lparr>payments = []\<rparr> 2000) = (Inr True, w') \<and>
     pay_view w' (yID p) = Some p \<and> yAmount p = \<lparr>ymCurrency = CURRENCY_EUR, ymAmountCents = 1500\<rparr>"
proof -
  let ?w = "calm_node \<lparr>payments = []\<rparr> 2000 :: payment_db node_world"
  have "pay_quiet ?w" by (simp add: pay_quiet_def payment_db_inv_def)
  moreover have "no_payment_yet (tables ?w) (new_payment 5000 5000 (event_payment sample_reserved CURRENCY_EUR PAYMENT_METHOD_TYPE_CARD))"
    by (simp add: no_payment_yet_def)
  moreover have "(5000::int) \<noteq> zero_time" by (simp add: zero_time_def)
  ultimately have "\<exists>w' p. InventoryReserved_handleMessage sample_payments payment_deduper (payment_kafka_publisher sample_topics) 5000
       (reserved_message ''e1'') ?w = (Inr True, w') \<and>
    en_EventID (event_envelope 0 InventoryReservedEventType ''e1'' (enc_InventoryReserved sample_reserved)) \<in> payment_processed w' \<and>
    pay_view w' = (pay_view ?w)(yID p \<mapsto> p) \<and> yStatus p = PAYMENT_STATUS_PENDING \<and>
    yOrderID p = ir_OrderID sample_reserved \<and> yCustomerID p = ir_CustomerID sample_reserved \<and> yMethod p = PAYMENT_METHOD_TYPE_CARD \<and>
    yAmount p = \<lparr>ymCurrency = CURRENCY_EUR, ymAmountCents = em_AmountCents (ir_Amount sample_reserved)\<rparr> \<and>
    sent w' = sent ?w @ [event_message 5000 (createdTopic sample_topics) PaymentCreatedEventType
      (en_EventID (event_envelope 0 InventoryReservedEventType ''e1'' (enc_InventoryReserved sample_reserved))) (ir_OrderID sample_reserved)
      (enc_PaymentCreated (created_event_of p))]"
    by (intro reserved_order_gets_payment [OF _ _ _ _ reserved_message_decodes(1) _ _ reserved_message_decodes(2) sample_payable]) simp_all
  then show ?thesis by (auto simp: sample_reserved_def)
qed

theorem reserved_again_same_payment_witness:
  "\<exists>w'. InventoryReserved_handleMessage sample_payments payment_deduper (payment_kafka_publisher sample_topics) 5000
       (reserved_message ''e1'') (calm_node sample_payment_db 2000) = (Inr True, w') \<and> tables w' = sample_payment_db"
proof -
  let ?w = "calm_node sample_payment_db 2000 :: payment_db node_world"
  have "pay_quiet ?w" "pay_view ?w ''pay-1'' = Some sample_payment" by (simp_all add: pay_quiet_def pay_view_def sample_view)
  moreover have "yIdempotencyKey sample_payment = TrimSpace (''payment:create:'' @ ir_OrderID sample_reserved)"
    by (simp add: sample_payment_def sample_reserved_def)
  ultimately have "\<exists>w'. InventoryReserved_handleMessage sample_payments payment_deduper (payment_kafka_publisher sample_topics) 5000
       (reserved_message ''e1'') ?w = (Inr True, w') \<and> tables w' = tables ?w \<and>
    sent w' = sent ?w @ [event_message 5000 (createdTopic sample_topics) PaymentCreatedEventType
      (en_EventID (event_envelope 0 InventoryReservedEventType ''e1'' (enc_InventoryReserved sample_reserved))) (yOrderID sample_payment)
      (enc_PaymentCreated (created_event_of sample_payment))]"
    by (intro reserved_again_same_payment [OF _ _ _ _ reserved_message_decodes(1) _ _ reserved_message_decodes(2) sample_payable]) simp_all
  then show ?thesis by auto
qed

section \<open>A currency without a name\<close>

lemma create_without_key:
  assumes "TrimSpace (yIdempotencyKey p) = []" "validateCreatePayment p = None"
  shows "psvc_CreatePayment (pg_payment_repo coll) t1 t2 p w = with_attempt (\<lambda>a. pg_CreatePayment a (new_payment t1 t2 p)) w"
proof -
  have "TrimSpace (yIdempotencyKey (new_payment t1 t2 p)) = []" using assms(1) by (simp add: new_payment_def)
  then show ?thesis
    using assms by (auto simp: psvc_CreatePayment_def store_payment_def pg_payment_repo_def split: prod.splits sum.splits)
qed

definition eur_request :: pb_create_payment where
  "eur_request =
     \<lparr>pyrOrderId = ''o1'', pyrCustomerId = ''c1'', pyrAmount = Some \<lparr>pymCurrency = CURRENCY_EUR, pymAmountCents = 1500\<rparr>,
      pyrPaymentMethod = PAYMENT_METHOD_TYPE_CARD, pyrPaymentMethodDetails = [], pyrIdempotencyKey = []\<rparr>"

definition odd_request :: pb_create_payment where
  "odd_request = eur_request\<lparr>pyrAmount := Some \<lparr>pymCurrency = CURRENCY_OTHER 7, pymAmountCents = 1500\<rparr>\<rparr>"

lemma request_payment_simps:
  "validateCreatePayment (request_payment eur_request) = None" "TrimSpace (yIdempotencyKey (request_payment eur_request)) = []"
  "validateCreatePayment (request_payment odd_request) = None" "TrimSpace (yIdempotencyKey (request_payment odd_request)) = []"
  "TrimSpace (yOrderID (request_payment eur_request)) \<noteq> []" "TrimSpace (yCustomerID (request_payment eur_request)) \<noteq> []"
  "TrimSpace (yOrderID (request_payment odd_request)) \<noteq> []" "TrimSpace (yCustomerID (request_payment odd_request)) \<noteq> []"
  "TrimSpace (yID (request_payment eur_request)) = []" "TrimSpace (yID (request_payment odd_request)) = []"
  "yOrderID (request_payment eur_request) = ''o1''" "yOrderID (request_payment odd_request) = ''o1''"
  "ymAmountCents (yAmount (request_payment eur_request)) = 1500" "ymAmountCents (yAmount (request_payment odd_request)) = 1500"
  "ymCurrency (yAmount (request_payment odd_request)) = CURRENCY_OTHER 7"
  by (simp_all add: request_payment_def eur_request_def odd_request_def validateCreatePayment_def convertPaymentMoney_def)

lemma newPaymentID_not_blank: "TrimSpace (newPaymentID t) \<noteq> []"
  using TrimSpace_graphic [of "CHR ''p''" "''ay-'' @ itoa (UnixNano t)"] by (simp add: newPaymentID_def)

text \<open>
  A request with a currency number the API does not define blocks its order. The service
  only refuses the unspecified currency and the row is committed before it is mapped back:
  the caller gets an internal error, the row stays, it cannot be read, and no other payment
  of the order can be created.
\<close>
theorem unknown_currency_blocks_order:
  "\<exists>w1 w2 w3. grpc_CreatePayment sample_payments 5000 odd_request
       (calm_world \<lparr>payments = []\<rparr> 2000) = (Inl (status_Error InternalCode ''internal server error''), w1) \<and>
     grpc_GetPaymentByOrderID sample_payments ''o1'' w1 = (Inl (status_Error InternalCode ''internal server error''), w2) \<and>
     grpc_CreatePayment sample_payments 6000 eur_request w2 = (Inl (status_Error AlreadyExists ''payment already exists''), w3)"
proof -
  define p where "p = new_payment 5000 5000 (request_payment odd_request)"
  define q where "q = new_payment 6000 6000 (request_payment eur_request)"
  have p: "yID p = newPaymentID 5000" "yOrderID p = ''o1''" "TrimSpace (yCustomerID p) \<noteq> []" "ymAmountCents (yAmount p) = 1500"
    "TrimSpace (yIdempotencyKey p) = []" "yCreatedAt p = 5000" "yUpdatedAt p = 5000" "\<not> named p"
    by (simp_all add: p_def new_payment_def request_payment_simps named_def known_currency_def)
  have q: "yID q = newPaymentID 6000" "yOrderID q = ''o1''" "TrimSpace (yCustomerID q) \<noteq> []" "ymAmountCents (yAmount q) = 1500"
    "TrimSpace (yIdempotencyKey q) = []" "yCreatedAt q = 6000" "yUpdatedAt q = 6000"
    by (simp_all add: q_def new_payment_def request_payment_simps)
  have t: "(5000::int) \<noteq> zero_time" "(6000::int) \<noteq> zero_time" by (simp_all add: zero_time_def)
  have ids: "newPaymentID 6000 \<noteq> newPaymentID 5000" unfolding newPaymentID_def UnixNano_def wrap64_def
    by (simp add: itoa_inject)
  have o1: "TrimSpace ''o1'' = ''o1''" by simp
  obtain e where e: "mapDBPayment (row_of p) = Inl e" using mapDBPayment_unnamed [OF p(8)] by blast
  let ?db = "\<lparr>payments = [row_of p]\<rparr>"
  have v: "validatePayment p = None" "validatePayment q = None"
    using p(1-3) q(1-3) newPaymentID_not_blank by (simp_all add: validatePayment_def)
  have cp: "check_payment_row (toPaymentDBParams p) [] = None"
    using p t by (simp add: check_payment_row_def timestamptz_def)
  have cq: "check_payment_row (toPaymentDBParams q) [row_of p] = Some (unique_violation ''payments_order_id_key'')"
    using p(1,2) q t ids by (simp add: check_payment_row_def timestamptz_def)
  have c1: "pg_CreatePayment (calm 2000) p \<lparr>payments = []\<rparr> = (Inl (PaymentInternal (''map created payment from postgres: '' @ e)), ?db)"
    using v(1) cp e by (simp add: pg_CreatePayment_def q_CreatePayment_def)
  have c2: "pg_GetPaymentByOrderID (calm 2000) ''o1'' ?db = Inl (PaymentInternal e)"
    using e p(2) o1 by (simp add: pg_GetPaymentByOrderID_def q_GetPaymentByOrderID_def found_payment_def)
  have c3: "pg_CreatePayment (calm 2000) q ?db = (Inl ErrPaymentAlreadyExists, ?db)"
    using v(2) cq by (simp add: pg_CreatePayment_def q_CreatePayment_def mapCreatePaymentError_def)
  let ?w = "\<lambda>db n. calm_world db 2000\<lparr>calls := n\<rparr>"
  have w: "the_attempt (?w db n) = calm 2000" "found (?w db n) = db" for db :: payment_db and n
    by (simp_all add: calm_world_def the_attempt_def found_def)
  have "grpc_CreatePayment sample_payments 5000 odd_request (calm_world \<lparr>payments = []\<rparr> 2000) =
      (Inl (status_Error InternalCode ''internal server error''), ?w ?db 1)"
    using c1 w [of 0 "\<lparr>payments = []\<rparr>"] unfolding grpc_CreatePayment_def create_without_key [OF request_payment_simps(4,3)] p_def [symmetric]
    by (simp add: with_attempt_def calm_world_def mapPaymentError_def)
  moreover have "grpc_GetPaymentByOrderID sample_payments ''o1'' (?w ?db 1) =
      (Inl (status_Error InternalCode ''internal server error''), ?w ?db 2)"
    using c2 w [of 1 ?db] o1 by (simp add: grpc_GetPaymentByOrderID_def psvc_GetPaymentByOrderID_def pg_payment_repo_def with_read_def
        calm_world_def mapPaymentError_def)
  moreover have "grpc_CreatePayment sample_payments 6000 eur_request (?w ?db 2) =
      (Inl (status_Error AlreadyExists ''payment already exists''), ?w ?db 3)"
    using c3 w [of 2 ?db] unfolding grpc_CreatePayment_def create_without_key [OF request_payment_simps(2,1)] q_def [symmetric]
    by (simp add: with_attempt_def calm_world_def mapPaymentError_def)
  ultimately show ?thesis by blast
qed

section \<open>Captured and cancelled at once\<close>

text \<open>
  A cancellation can overwrite a capture. Both read the payment before they write it, and
  the update is not conditional on the status read: when another instance captures the payment
  (and announces it) between the read and the write of \<open>CancelPayment\<close>, both calls succeed and
  the payment ends up cancelled.
\<close>
theorem cancel_overwrites_capture:
  "\<exists>captured q w'. psvc_CapturePayment sample_payments 4000 ''pay-1'' (calm_world sample_payment_db 4000) = (Inr (q, True), captured) \<and>
     psvc_CancelPayment sample_payments 5000 ''pay-1'' ''changed my mind''
       (calm_world sample_payment_db 5000\<lparr>others := (\<lambda>i db. if i = 1 then tables captured else db)\<rparr>) =
       (Inr (sample_payment\<lparr>yStatus := PAYMENT_STATUS_CANCELLED, yCancelReason := ''changed my mind'', yUpdatedAt := 5000\<rparr>), w') \<and>
     (\<exists>x. pay_view w' ''pay-1'' = Some x \<and> yStatus x = PAYMENT_STATUS_CANCELLED)"
proof -
  have t: "(4000::int) \<noteq> zero_time" "(5000::int) \<noteq> zero_time" "yCreatedAt sample_payment \<noteq> zero_time" "yStatus sample_payment = PAYMENT_STATUS_PENDING"
    by (simp_all add: zero_time_def sample_payment_def)
  have w0: "pay_quiet (calm_world sample_payment_db 4000)" "pay_view (calm_world sample_payment_db 4000) ''pay-1'' = Some sample_payment"
    by (simp_all add: pay_quiet_def pay_view_def sample_view)
  obtain p captured where c: "psvc_CapturePayment sample_payments 4000 ''pay-1'' (calm_world sample_payment_db 4000) = (Inr (p, True), captured)"
    "p = saved (sample_payment\<lparr>yStatus := PAYMENT_STATUS_CAPTURED, yUpdatedAt := 4000\<rparr>)"
    "pay_view captured = (pay_view (calm_world sample_payment_db 4000))(''pay-1'' \<mapsto> p)" "pay_quiet captured"
    using capture_served [OF w0(1) all_served_calm_world w0(2) t(4,1,3), of "\<lambda>_. 0 :: nat"] by blast
  let ?others = "\<lambda>i db. if i = (1::nat) then tables captured else db"
  let ?w = "calm_world sample_payment_db 5000\<lparr>others := ?others\<rparr>"
  let ?w1 = "?w\<lparr>tables := sample_payment_db, calls := 1\<rparr>"
  let ?q = "sample_payment\<lparr>yStatus := PAYMENT_STATUS_CANCELLED, yCancelReason := ''changed my mind'', yUpdatedAt := 5000\<rparr>"
  have r: "mapDBPayment (row_of sample_payment) = Inr sample_payment" using mapDBPayment_named [OF sample_saved(2)] sample_saved(1) by simp
  have g: "rGetPaymentByID sample_payments ''pay-1'' ?w = (Inr sample_payment, ?w1)"
    using r by (simp add: pg_payment_repo_def with_read_def pg_GetPaymentByID_def q_GetPaymentByID_def found_payment_def calm_world_def
        found_def the_attempt_def sample_payment_db_def) (simp add: sample_payment_def)
  have inv: "payment_db_inv (tables captured)" and pv: "stored_payments (tables captured) ''pay-1'' = Some p"
    using c(3,4) by (simp_all add: pay_quiet_def pay_view_def)
  obtain x where x: "x \<in> set (payments (tables captured))" "mapDBPayment x = Inr p" "pyID x = ''pay-1''"
    using inv pv by (auto elim: stored_payments_find)
  have q: "?q = p\<lparr>yStatus := PAYMENT_STATUS_CANCELLED, yCancelReason := ''changed my mind'', yUpdatedAt := 5000\<rparr>"
    "yCreatedAt p \<noteq> zero_time" "yID ?q = ''pay-1''" "saved ?q = ?q" "named ?q"
    using sample_saved t(3) unfolding c(2) by (simp_all add: sample_payment_def saved_def named_def pg_micros_def)
  note up = update_allowed [OF inv x(1,2) q(1) t(2) q(2)]
  have here: "yID ?q \<in> set (map pyID (payments (tables captured)))" using x(1,3) q(3) by force
  have "pg_UpdatePayment (calm 5000) ?q (tables captured) = (Inr ?q, put_payment ?q (tables captured))"
    using up here mapDBPayment_named [OF q(5)] q(4)
    by (simp add: pg_UpdatePayment_def q_UpdatePayment_def put_payment_def autocommit_def)
  then have u: "rUpdatePayment sample_payments ?q ?w1 = (Inr ?q, ?w1\<lparr>tables := put_payment ?q (tables captured), calls := 2\<rparr>)"
    by (simp add: pg_payment_repo_def with_attempt_def found_def the_attempt_def calm_world_def)
  have "stored_payments (put_payment ?q (tables captured)) ''pay-1'' = Some ?q"
    using put_payment_inv [OF inv here up] q(3-5) by simp
  moreover have "TrimSpace ''pay-1'' = ''pay-1''" "TrimSpace ''changed my mind'' = ''changed my mind''" by simp_all
  ultimately show ?thesis
    using c(1) g u t(4) by (auto simp: psvc_CancelPayment_def pay_view_def)
qed

end
