(* ===== verification/Catalog_Repository.thy ===== *)
theory Catalog_Repository
  imports Runtime Proto_Enums
begin

text \<open>
  The catalog's products and its two repositories: the documents of MongoDB
  (\<open>repository/mongo.go\<close>, the one the service starts with) and the rows of PostgreSQL
  (\<open>repository/postgres.go\<close> with its \<open>sqlc\<close> queries). Both store the currency as the number
  of its enumeration value.
\<close>

section \<open>Products\<close>

datatype product_error = ErrInvalidProduct | ErrProductNotFound | ProductInternal string

fun product_error_text :: "product_error \<Rightarrow> string" where
  "product_error_text ErrInvalidProduct = ''invalid product''"
| "product_error_text ErrProductNotFound = ''product not found''"
| "product_error_text (ProductInternal m) = m"

record product =
  prID :: string
  prName :: string
  prDescription :: string
  prPriceCents :: int
  prCurrency :: currency

record product_patch =
  ppName :: "string option"
  ppDescription :: "string option"
  ppPriceCents :: "int option"
  ppCurrency :: "currency option"

definition patch_empty :: "product_patch \<Rightarrow> bool" where
  "patch_empty p \<longleftrightarrow> ppName p = None \<and> ppDescription p = None \<and> ppPriceCents p = None \<and> ppCurrency p = None"

text \<open>The numbers of the enumeration: \<open>int32(currency)\<close> and \<open>catalogv1.Currency(value)\<close>.\<close>

fun Currency_number :: "currency \<Rightarrow> int" where
  "Currency_number CURRENCY_UNSPECIFIED = 0"
| "Currency_number CURRENCY_USD = 1"
| "Currency_number CURRENCY_EUR = 2"
| "Currency_number (CURRENCY_OTHER n) = n"

definition mapDBCurrency :: "int \<Rightarrow> string + currency" where
  "mapDBCurrency v =
     (if v = 1 then Inr CURRENCY_USD
      else if v = 2 then Inr CURRENCY_EUR
      else Inl (''unknown catalog currency value: '' @ itoa v))"

definition validateProduct :: "product \<Rightarrow> product_error option" where
  "validateProduct p =
     (if TrimSpace (prID p) = [] \<or> TrimSpace (prName p) = [] \<or> prPriceCents p \<le> 0 \<or>
         prCurrency p = CURRENCY_UNSPECIFIED
      then Some ErrInvalidProduct else None)"

definition validateProductPatch :: "product_patch \<Rightarrow> product_error option" where
  "validateProductPatch patch =
     (if (case ppName patch of None \<Rightarrow> False | Some n \<Rightarrow> TrimSpace n = []) then Some ErrInvalidProduct
      else if (case ppPriceCents patch of None \<Rightarrow> False | Some c \<Rightarrow> c \<le> 0) then Some ErrInvalidProduct
      else if ppCurrency patch = Some CURRENCY_UNSPECIFIED then Some ErrInvalidProduct
      else None)"

definition catalog_clampInt64ToInt32 :: "int \<Rightarrow> int" where
  "catalog_clampInt64ToInt32 value =
     (if value > 2147483647 then 2147483647
      else if value < - 2147483648 then - 2147483648 else wrap32 value)"

text \<open>The limit and the offset of a page, computed alike by both repositories.\<close>

definition page_limit :: "int \<Rightarrow> int \<Rightarrow> int" where
  "page_limit pageSize total' = (if pageSize \<le> 0 then total' else pageSize)"

definition page_offset :: "int \<Rightarrow> int \<Rightarrow> int" where
  "page_offset page limit = wrap64 (wrap32 ((if page \<le> 0 then 1 else page) - 1) * limit)"

text \<open>\<open>repository.ProductRepository\<close>\<close>

record 's product_repo =
  rGetProductByID :: "string \<Rightarrow> 's \<Rightarrow> (product_error + product) \<times> 's"
  rListProducts :: "int \<Rightarrow> int \<Rightarrow> 's \<Rightarrow> (product_error + (product list \<times> int)) \<times> 's"
  rCreateProduct :: "product \<Rightarrow> 's \<Rightarrow> (product_error + product) \<times> 's"
  rUpdateProduct :: "string \<Rightarrow> product_patch \<Rightarrow> 's \<Rightarrow> (product_error + product) \<times> 's"
  rDeleteProduct :: "string \<Rightarrow> 's \<Rightarrow> product_error option \<times> 's"

section \<open>The table of PostgreSQL\<close>

record product_row =
  ctID :: string
  ctName :: string
  ctDescription :: string
  ctPriceCents :: int
  ctCurrency :: int
  ctCreatedAt :: time
  ctUpdatedAt :: time

record catalog_db =
  catalog_products :: "product_row list"

definition check_product_row :: "product_row \<Rightarrow> pg_error option" where
  "check_product_row r =
     (if ctPriceCents r \<le> 0 then Some (check_violation ''catalog_products_price_cents_check'')
      else if ctCurrency r \<notin> {1, 2} then Some (check_violation ''catalog_products_currency_check'')
      else None)"

definition stored_product_row :: "product_row \<Rightarrow> product_row" where
  "stored_product_row r = r\<lparr>ctCreatedAt := pg_micros (ctCreatedAt r), ctUpdatedAt := pg_micros (ctUpdatedAt r)\<rparr>"

text \<open>An insertion that meets its key updates the row there and keeps its creation time.\<close>

definition q_CreateCatalogProduct :: "product_row \<Rightarrow> catalog_db \<Rightarrow> pg_error + (product_row \<times> catalog_db)" where
  "q_CreateCatalogProduct arg db =
     (case check_product_row arg of
        Some e \<Rightarrow> Inl e
      | None \<Rightarrow>
          (let excluded = stored_product_row arg
           in case find (\<lambda>r. ctID r = ctID arg) (catalog_products db) of
                None \<Rightarrow> Inr (excluded, db\<lparr>catalog_products := catalog_products db @ [excluded]\<rparr>)
              | Some r \<Rightarrow>
                  (let r' = excluded\<lparr>ctCreatedAt := ctCreatedAt r\<rparr>
                   in Inr (r', db\<lparr>catalog_products := replace_row ctID (ctID arg) (\<lambda>_. r') (catalog_products db)\<rparr>))))"

definition q_UpdateCatalogProduct :: "product_row \<Rightarrow> catalog_db \<Rightarrow> pg_error + (product_row \<times> catalog_db)" where
  "q_UpdateCatalogProduct arg db =
     (case find (\<lambda>r. ctID r = ctID arg) (catalog_products db) of
        None \<Rightarrow> Inl NoRows
      | Some r \<Rightarrow>
          (case check_product_row arg of
             Some e \<Rightarrow> Inl e
           | None \<Rightarrow>
               (let r' = (stored_product_row arg)\<lparr>ctCreatedAt := ctCreatedAt r\<rparr>
                in Inr (r', db\<lparr>catalog_products := replace_row ctID (ctID arg) (\<lambda>_. r') (catalog_products db)\<rparr>))))"

definition q_DeleteCatalogProduct :: "string \<Rightarrow> catalog_db \<Rightarrow> pg_error + (string \<times> catalog_db)" where
  "q_DeleteCatalogProduct pid db =
     (if pid \<in> ctID ` set (catalog_products db)
      then Inr (pid, db\<lparr>catalog_products := filter (\<lambda>r. ctID r \<noteq> pid) (catalog_products db)\<rparr>)
      else Inl NoRows)"

definition q_GetCatalogProductByID :: "string \<Rightarrow> catalog_db \<Rightarrow> pg_error + product_row" where
  "q_GetCatalogProductByID pid db =
     (case find (\<lambda>r. ctID r = pid) (catalog_products db) of None \<Rightarrow> Inl NoRows | Some r \<Rightarrow> Inr r)"

definition q_CountCatalogProducts :: "catalog_db \<Rightarrow> int" where
  "q_CountCatalogProducts db = int (length (catalog_products db))"

definition q_ListCatalogProducts :: "(string \<Rightarrow> 'k::linorder) \<Rightarrow> int \<Rightarrow> int \<Rightarrow> catalog_db \<Rightarrow> product_row list" where
  "q_ListCatalogProducts coll limit offset db = page_of limit offset (sort_key (\<lambda>r. coll (ctID r)) (catalog_products db))"

section \<open>The repository on PostgreSQL\<close>

text \<open>The times of a new row are given; an update's creation time is not written.\<close>

definition toCreateCatalogProductParams :: "time \<Rightarrow> product \<Rightarrow> product_row" where
  "toCreateCatalogProductParams now p =
     \<lparr>ctID = prID p, ctName = prName p, ctDescription = prDescription p, ctPriceCents = prPriceCents p,
      ctCurrency = Currency_number (prCurrency p), ctCreatedAt = now, ctUpdatedAt = now\<rparr>"

definition toUpdateCatalogProductParams :: "time \<Rightarrow> product \<Rightarrow> product_row" where
  "toUpdateCatalogProductParams now p =
     \<lparr>ctID = prID p, ctName = prName p, ctDescription = prDescription p, ctPriceCents = prPriceCents p,
      ctCurrency = Currency_number (prCurrency p), ctCreatedAt = zero_time, ctUpdatedAt = now\<rparr>"

definition mapDBProduct :: "product_row \<Rightarrow> string + product" where
  "mapDBProduct row =
     (case mapDBCurrency (ctCurrency row) of
        Inl e \<Rightarrow> Inl e
      | Inr c \<Rightarrow> Inr \<lparr>prID = ctID row, prName = ctName row, prDescription = ctDescription row,
          prPriceCents = ctPriceCents row, prCurrency = c\<rparr>)"

fun mapDBProducts :: "product_row list \<Rightarrow> string + product list" where
  "mapDBProducts [] = Inr []"
| "mapDBProducts (row # rows) =
     (case mapDBProduct row of
        Inl e \<Rightarrow> Inl e
      | Inr p \<Rightarrow> (case mapDBProducts rows of Inl e \<Rightarrow> Inl e | Inr ps \<Rightarrow> Inr (p # ps)))"

definition product_wrap :: "string \<Rightarrow> pg_error \<Rightarrow> product_error" where
  "product_wrap what e = ProductInternal (what @ '': '' @ pg_error_text e)"

text \<open>The methods run each statement by itself: other clients may write between two of them.\<close>

definition pg_GetProductByID :: "string \<Rightarrow> (catalog_db, 'm) world_scheme \<Rightarrow> (product_error + product) \<times> (catalog_db, 'm) world_scheme" where
  "pg_GetProductByID pid w =
     (if TrimSpace pid = [] then (Inl ErrInvalidProduct, w)
      else case with_read (\<lambda>a db. exec a (''GetCatalogProductByID'', 0) (q_GetCatalogProductByID pid db)) w of
        (Inl e, w1) \<Rightarrow> (Inl (if e = NoRows then ErrProductNotFound
                            else product_wrap ''get catalog product by id from postgres'' e), w1)
      | (Inr row, w1) \<Rightarrow> (map_sum ProductInternal id (mapDBProduct row), w1))"

definition pg_ListProducts ::
    "(string \<Rightarrow> 'k::linorder) \<Rightarrow> int \<Rightarrow> int \<Rightarrow> (catalog_db, 'm) world_scheme \<Rightarrow>
     (product_error + (product list \<times> int)) \<times> (catalog_db, 'm) world_scheme" where
  "pg_ListProducts coll page pageSize w =
     (if page < 0 \<or> pageSize < 0 then (Inl ErrInvalidProduct, w)
      else case with_read (\<lambda>a db. exec a (''CountCatalogProducts'', 0) (Inr (q_CountCatalogProducts db))) w of
        (Inl e, w1) \<Rightarrow> (Inl (product_wrap ''count catalog products from postgres'' e), w1)
      | (Inr total', w1) \<Rightarrow>
          if total' = 0 then (Inr ([], 0), w1)
          else
            let limit = page_limit pageSize total'; offset = page_offset page limit
            in if offset \<ge> total' then (Inr ([], total'), w1)
               else case with_read (\<lambda>a db. exec a (''ListCatalogProducts'', 0)
                        (Inr (q_ListCatalogProducts coll (catalog_clampInt64ToInt32 limit) (catalog_clampInt64ToInt32 offset) db))) w1 of
                 (Inl e, w2) \<Rightarrow> (Inl (product_wrap ''list catalog products from postgres'' e), w2)
               | (Inr rows, w2) \<Rightarrow>
                   (case mapDBProducts rows of
                      Inl e \<Rightarrow> Inl (ProductInternal (''map listed catalog products from postgres: '' @ e))
                    | Inr ps \<Rightarrow> Inr (ps, total'), w2))"

definition pg_CreateProduct :: "product \<Rightarrow> (catalog_db, 'm) world_scheme \<Rightarrow> (product_error + product) \<times> (catalog_db, 'm) world_scheme" where
  "pg_CreateProduct p w =
     (case validateProduct p of
        Some e \<Rightarrow> (Inl e, w)
      | None \<Rightarrow>
          case with_attempt (\<lambda>a db. autocommit a (''CreateCatalogProduct'', 0) db
                 (q_CreateCatalogProduct (toCreateCatalogProductParams (clock_at a ''currentTimestamp'') p) db)) w of
            (Inl e, w1) \<Rightarrow> (Inl (product_wrap ''create catalog product in postgres'' e), w1)
          | (Inr row, w1) \<Rightarrow>
              (map_sum (\<lambda>e. ProductInternal (''map created catalog product from postgres: '' @ e)) id (mapDBProduct row), w1))"

definition pg_patched :: "product_patch \<Rightarrow> product \<Rightarrow> product" where
  "pg_patched patch p =
     p\<lparr>prName := (case ppName patch of None \<Rightarrow> prName p | Some n \<Rightarrow> TrimSpace n),
       prDescription := (case ppDescription patch of None \<Rightarrow> prDescription p | Some d \<Rightarrow> TrimSpace d),
       prPriceCents := (case ppPriceCents patch of None \<Rightarrow> prPriceCents p | Some c \<Rightarrow> c),
       prCurrency := (case ppCurrency patch of None \<Rightarrow> prCurrency p | Some c \<Rightarrow> c)\<rparr>"

definition pg_UpdateProduct ::
    "string \<Rightarrow> product_patch \<Rightarrow> (catalog_db, 'm) world_scheme \<Rightarrow> (product_error + product) \<times> (catalog_db, 'm) world_scheme" where
  "pg_UpdateProduct pid patch w =
     (if TrimSpace pid = [] \<or> patch_empty patch then (Inl ErrInvalidProduct, w)
      else case validateProductPatch patch of
        Some e \<Rightarrow> (Inl e, w)
      | None \<Rightarrow>
          (case pg_GetProductByID pid w of
             (Inl e, w1) \<Rightarrow> (Inl e, w1)
           | (Inr p0, w1) \<Rightarrow>
               (let p = pg_patched patch p0
                in case validateProduct p of
                     Some e \<Rightarrow> (Inl e, w1)
                   | None \<Rightarrow>
                       (case with_attempt (\<lambda>a db. autocommit a (''UpdateCatalogProduct'', 0) db
                               (q_UpdateCatalogProduct (toUpdateCatalogProductParams (clock_at a ''currentTimestamp'') p) db)) w1 of
                          (Inl e, w2) \<Rightarrow> (Inl (if e = NoRows then ErrProductNotFound
                                             else product_wrap ''update catalog product in postgres'' e), w2)
                        | (Inr row, w2) \<Rightarrow>
                            (map_sum (\<lambda>e. ProductInternal (''map updated catalog product from postgres: '' @ e)) id (mapDBProduct row), w2)))))"

definition pg_DeleteProduct :: "string \<Rightarrow> (catalog_db, 'm) world_scheme \<Rightarrow> product_error option \<times> (catalog_db, 'm) world_scheme" where
  "pg_DeleteProduct pid w =
     (if TrimSpace pid = [] then (Some ErrInvalidProduct, w)
      else case with_attempt (\<lambda>a db. autocommit a (''DeleteCatalogProduct'', 0) db (q_DeleteCatalogProduct pid db)) w of
        (Inl e, w1) \<Rightarrow> (Some (if e = NoRows then ErrProductNotFound
                             else product_wrap ''delete catalog product from postgres'' e), w1)
      | (Inr deleted, w1) \<Rightarrow> (None, w1))"

definition pg_product_repo :: "(string \<Rightarrow> 'k::linorder) \<Rightarrow> (catalog_db, 'm) world_scheme product_repo" where
  "pg_product_repo coll =
     \<lparr>rGetProductByID = pg_GetProductByID, rListProducts = pg_ListProducts coll,
      rCreateProduct = pg_CreateProduct, rUpdateProduct = pg_UpdateProduct, rDeleteProduct = pg_DeleteProduct\<rparr>"

end
