(* ===== verification/Catalog_Service.thy ===== *)
theory Catalog_Service
  imports Catalog_Repository Grpc
begin

text \<open>
  The catalog service and its gRPC handler over any product repository; the reference
  catalog, a plain list of products; and the contract that makes a repository a store of it.
\<close>

section \<open>The service\<close>

definition csvc_GetProductByID :: "'s product_repo \<Rightarrow> string \<Rightarrow> 's \<Rightarrow> (product_error + product) \<times> 's" where
  "csvc_GetProductByID repo pid s =
     (if TrimSpace pid = [] then (Inl ErrInvalidProduct, s) else rGetProductByID repo pid s)"

definition csvc_ListProducts :: "'s product_repo \<Rightarrow> int \<Rightarrow> int \<Rightarrow> 's \<Rightarrow> (product_error + (product list \<times> int)) \<times> 's" where
  "csvc_ListProducts repo page pageSize s =
     (if page < 0 \<or> pageSize < 0 then (Inl ErrInvalidProduct, s) else rListProducts repo page pageSize s)"

definition csvc_CreateProduct :: "'s product_repo \<Rightarrow> product \<Rightarrow> 's \<Rightarrow> (product_error + product) \<times> 's" where
  "csvc_CreateProduct repo p s =
     (if TrimSpace (prID p) = [] \<or> TrimSpace (prName p) = [] then (Inl ErrInvalidProduct, s)
      else rCreateProduct repo p s)"

definition csvc_UpdateProduct :: "'s product_repo \<Rightarrow> string \<Rightarrow> product_patch \<Rightarrow> 's \<Rightarrow> (product_error + product) \<times> 's" where
  "csvc_UpdateProduct repo pid patch s =
     (if TrimSpace pid = [] \<or> patch_empty patch then (Inl ErrInvalidProduct, s)
      else if (case ppName patch of None \<Rightarrow> False | Some n \<Rightarrow> TrimSpace n = []) then (Inl ErrInvalidProduct, s)
      else
        let trimmed = patch\<lparr>ppName := map_option TrimSpace (ppName patch),
                            ppDescription := map_option TrimSpace (ppDescription patch)\<rparr>
        in if (case ppPriceCents patch of None \<Rightarrow> False | Some c \<Rightarrow> c \<le> 0) then (Inl ErrInvalidProduct, s)
           else if ppCurrency patch = Some CURRENCY_UNSPECIFIED then (Inl ErrInvalidProduct, s)
           else rUpdateProduct repo pid trimmed s)"

definition csvc_DeleteProduct :: "'s product_repo \<Rightarrow> string \<Rightarrow> 's \<Rightarrow> product_error option \<times> 's" where
  "csvc_DeleteProduct repo pid s =
     (if TrimSpace pid = [] then (Some ErrInvalidProduct, s) else rDeleteProduct repo pid s)"

section \<open>The handler\<close>

record pb_product =
  ppbProductId :: string
  ppbName :: string
  ppbDescription :: string
  ppbPriceCents :: int
  ppbCurrency :: currency

record pb_update_product =
  puProductId :: string
  puName :: "string option"
  puDescription :: "string option"
  puPriceCents :: "int option"
  puCurrency :: "currency option"

record pb_product_list =
  pplProducts :: "pb_product list"
  pplPage :: int
  pplPageSize :: int
  pplTotal :: int

definition convertProductToProto :: "product \<Rightarrow> pb_product" where
  "convertProductToProto p =
     \<lparr>ppbProductId = prID p, ppbName = prName p, ppbDescription = prDescription p,
      ppbPriceCents = prPriceCents p, ppbCurrency = prCurrency p\<rparr>"

definition mapCatalogError :: "product_error \<Rightarrow> grpc_status" where
  "mapCatalogError err =
     (case err of
        ErrInvalidProduct \<Rightarrow> status_Error InvalidArgument (product_error_text err)
      | ErrProductNotFound \<Rightarrow> status_Error NotFound (product_error_text err)
      | ProductInternal m \<Rightarrow> status_Error InternalCode ''internal server error'')"

definition grpc_GetProductByID :: "'s product_repo \<Rightarrow> string \<Rightarrow> 's \<Rightarrow> (grpc_status + pb_product) \<times> 's" where
  "grpc_GetProductByID repo pid s = respond mapCatalogError convertProductToProto (csvc_GetProductByID repo pid s)"

definition product_list_response :: "int \<Rightarrow> int \<Rightarrow> product list \<times> int \<Rightarrow> pb_product_list" where
  "product_list_response page pageSize r =
     (case r of (ps, total') \<Rightarrow>
        \<lparr>pplProducts = map convertProductToProto ps,
         pplPage = (if page \<le> 0 then 1 else page),
         pplPageSize =
           (if pageSize \<le> 0 then (if total' > 2147483647 then 2147483647 else wrap32 total') else pageSize),
         pplTotal = total'\<rparr>)"

definition grpc_ListProducts :: "'s product_repo \<Rightarrow> int \<Rightarrow> int \<Rightarrow> 's \<Rightarrow> (grpc_status + pb_product_list) \<times> 's" where
  "grpc_ListProducts repo page pageSize s =
     respond mapCatalogError (product_list_response page pageSize) (csvc_ListProducts repo page pageSize s)"

definition request_product :: "pb_product \<Rightarrow> product" where
  "request_product p =
     \<lparr>prID = ppbProductId p, prName = ppbName p, prDescription = ppbDescription p,
      prPriceCents = ppbPriceCents p, prCurrency = ppbCurrency p\<rparr>"

definition grpc_CreateProduct :: "'s product_repo \<Rightarrow> pb_product option \<Rightarrow> 's \<Rightarrow> (grpc_status + pb_product) \<times> 's" where
  "grpc_CreateProduct repo req s =
     (case req of
        None \<Rightarrow> (Inl (status_Error InvalidArgument ''product is required''), s)
      | Some p \<Rightarrow> respond mapCatalogError convertProductToProto (csvc_CreateProduct repo (request_product p) s))"

definition request_patch :: "pb_update_product \<Rightarrow> product_patch" where
  "request_patch req =
     \<lparr>ppName = puName req, ppDescription = puDescription req, ppPriceCents = puPriceCents req, ppCurrency = puCurrency req\<rparr>"

definition grpc_UpdateProduct :: "'s product_repo \<Rightarrow> pb_update_product \<Rightarrow> 's \<Rightarrow> (grpc_status + pb_product) \<times> 's" where
  "grpc_UpdateProduct repo req s =
     respond mapCatalogError convertProductToProto (csvc_UpdateProduct repo (puProductId req) (request_patch req) s)"

definition grpc_DeleteProduct :: "'s product_repo \<Rightarrow> string \<Rightarrow> 's \<Rightarrow> (grpc_status + unit) \<times> 's" where
  "grpc_DeleteProduct repo pid s =
     (case csvc_DeleteProduct repo pid s of
        (Some e, s1) \<Rightarrow> (Inl (mapCatalogError e), s1)
      | (None, s1) \<Rightarrow> (Inr (), s1))"

section \<open>The reference catalog\<close>

definition cat_find :: "string \<Rightarrow> product list \<Rightarrow> product option" where
  "cat_find pid ps = find (\<lambda>p. prID p = pid) ps"

definition cat_put :: "product \<Rightarrow> product list \<Rightarrow> product list" where
  "cat_put p ps =
     (if prID p \<in> prID ` set ps then replace_row prID (prID p) (\<lambda>_. p) ps else ps @ [p])"

definition cat_remove :: "string \<Rightarrow> product list \<Rightarrow> product list" where
  "cat_remove pid ps = filter (\<lambda>p. prID p \<noteq> pid) ps"

definition cat_page :: "(string \<Rightarrow> 'k::linorder) \<Rightarrow> int \<Rightarrow> int \<Rightarrow> product list \<Rightarrow> product list \<times> int" where
  "cat_page key page n ps =
     (let limit = (if n = 0 then int (length ps) else n);
          offset = (max 1 page - 1) * limit
      in (page_of limit offset (sort_key (\<lambda>p. key (prID p)) ps), int (length ps)))"

definition priced_currency :: "currency \<Rightarrow> bool" where
  "priced_currency c \<longleftrightarrow> c \<in> {CURRENCY_USD, CURRENCY_EUR}"

text \<open>The calls of the service, their answers, and what the reference answers.\<close>

datatype catalog_call =
    GetProductCall string
  | ListProductsCall int int
  | CreateProductCall product
  | UpdateProductCall string product_patch
  | DeleteProductCall string

datatype catalog_answer =
    ProductAnswer "product_error + product"
  | ListAnswer "product_error + (product list \<times> int)"
  | DeleteAnswer "product_error option"

fun run_ccall :: "'s product_repo \<Rightarrow> catalog_call \<Rightarrow> 's \<Rightarrow> catalog_answer \<times> 's" where
  "run_ccall repo (GetProductCall pid) s = apfst ProductAnswer (csvc_GetProductByID repo pid s)"
| "run_ccall repo (ListProductsCall page n) s = apfst ListAnswer (csvc_ListProducts repo page n s)"
| "run_ccall repo (CreateProductCall p) s = apfst ProductAnswer (csvc_CreateProduct repo p s)"
| "run_ccall repo (UpdateProductCall pid patch) s = apfst ProductAnswer (csvc_UpdateProduct repo pid patch s)"
| "run_ccall repo (DeleteProductCall pid) s = apfst DeleteAnswer (csvc_DeleteProduct repo pid s)"

fun run_ccalls :: "'s product_repo \<Rightarrow> catalog_call list \<Rightarrow> 's \<Rightarrow> catalog_answer list \<times> 's" where
  "run_ccalls repo [] s = ([], s)"
| "run_ccalls repo (c # cs) s =
     (case run_ccall repo c s of (x, s1) \<Rightarrow> (case run_ccalls repo cs s1 of (xs, s2) \<Rightarrow> (x # xs, s2)))"

fun spec_ccall :: "(string \<Rightarrow> 'k::linorder) \<Rightarrow> catalog_call \<Rightarrow> product list \<Rightarrow> catalog_answer \<times> product list" where
  "spec_ccall key (GetProductCall pid) ps =
     (ProductAnswer (if TrimSpace pid = [] then Inl ErrInvalidProduct
        else case cat_find pid ps of None \<Rightarrow> Inl ErrProductNotFound | Some p \<Rightarrow> Inr p), ps)"
| "spec_ccall key (ListProductsCall page n) ps =
     (ListAnswer (if page < 0 \<or> n < 0 then Inl ErrInvalidProduct else Inr (cat_page key page n ps)), ps)"
| "spec_ccall key (CreateProductCall p) ps =
     (if validateProduct p \<noteq> None then (ProductAnswer (Inl ErrInvalidProduct), ps)
      else (ProductAnswer (Inr p), cat_put p ps))"
| "spec_ccall key (UpdateProductCall pid patch) ps =
     (if TrimSpace pid = [] \<or> patch_empty patch \<or> validateProductPatch patch \<noteq> None
      then (ProductAnswer (Inl ErrInvalidProduct), ps)
      else case cat_find pid ps of
        None \<Rightarrow> (ProductAnswer (Inl ErrProductNotFound), ps)
      | Some p \<Rightarrow> (ProductAnswer (Inr (pg_patched patch p)), cat_put (pg_patched patch p) ps))"
| "spec_ccall key (DeleteProductCall pid) ps =
     (if TrimSpace pid = [] then (DeleteAnswer (Some ErrInvalidProduct), ps)
      else (DeleteAnswer (if pid \<in> prID ` set ps then None else Some ErrProductNotFound), cat_remove pid ps))"

fun spec_ccalls :: "(string \<Rightarrow> 'k::linorder) \<Rightarrow> catalog_call list \<Rightarrow> product list \<Rightarrow> catalog_answer list \<times> product list" where
  "spec_ccalls key [] ps = ([], ps)"
| "spec_ccalls key (c # cs) ps =
     (case spec_ccall key c ps of (x, ps1) \<Rightarrow> (case spec_ccalls key cs ps1 of (xs, ps2) \<Rightarrow> (x # xs, ps2)))"

text \<open>The requests the gateway can send: numbers in range, no currency without a name.\<close>

fun call_ok :: "catalog_call \<Rightarrow> bool" where
  "call_ok (ListProductsCall page n) \<longleftrightarrow> is_int32 page \<and> is_int32 n"
| "call_ok (CreateProductCall p) \<longleftrightarrow> known_currency (prCurrency p)"
| "call_ok (UpdateProductCall pid patch) \<longleftrightarrow> (case ppCurrency patch of None \<Rightarrow> True | Some c \<Rightarrow> known_currency c)"
| "call_ok _ \<longleftrightarrow> True"

section \<open>The contract of a store\<close>

text \<open>A call answers \<open>x\<close> and leaves the contents \<open>ps\<close>.\<close>

definition leaves :: "('s \<Rightarrow> bool) \<Rightarrow> ('s \<Rightarrow> 'c) \<Rightarrow> 'x \<times> 's \<Rightarrow> 'x \<Rightarrow> 'c \<Rightarrow> bool" where
  "leaves ok contents r x ps \<longleftrightarrow> fst r = x \<and> ok (snd r) \<and> contents (snd r) = ps"

lemma leaves_pair [simp]: "leaves ok contents (y, s) x ps \<longleftrightarrow> y = x \<and> ok s \<and> contents s = ps"
  by (simp add: leaves_def)

lemma leaves_apfst: "leaves ok contents r x ps \<Longrightarrow> leaves ok contents (apfst f r) (f x) ps"
  by (cases r) simp

locale product_store =
  fixes repo :: "'s product_repo" and ok :: "'s \<Rightarrow> bool" and contents :: "'s \<Rightarrow> product list"
    and key :: "string \<Rightarrow> 'k::linorder"
  assumes get: "ok s \<Longrightarrow> TrimSpace pid \<noteq> [] \<Longrightarrow> leaves ok contents (rGetProductByID repo pid s)
      (case cat_find pid (contents s) of None \<Rightarrow> Inl ErrProductNotFound | Some p \<Rightarrow> Inr p) (contents s)"
    and list: "ok s \<Longrightarrow> 0 \<le> page \<Longrightarrow> 0 \<le> n \<Longrightarrow> is_int32 page \<Longrightarrow> is_int32 n \<Longrightarrow> int (length (contents s)) < 2 ^ 31 \<Longrightarrow>
      leaves ok contents (rListProducts repo page n s) (Inr (cat_page key page n (contents s))) (contents s)"
    and create_invalid: "ok s \<Longrightarrow> validateProduct p \<noteq> None \<Longrightarrow>
      leaves ok contents (rCreateProduct repo p s) (Inl ErrInvalidProduct) (contents s)"
    and create: "ok s \<Longrightarrow> validateProduct p = None \<Longrightarrow> priced_currency (prCurrency p) \<Longrightarrow>
      leaves ok contents (rCreateProduct repo p s) (Inr p) (cat_put p (contents s))"
    and update: "ok s \<Longrightarrow> TrimSpace pid \<noteq> [] \<Longrightarrow> \<not> patch_empty patch \<Longrightarrow> validateProductPatch patch = None \<Longrightarrow>
      (case ppCurrency patch of None \<Rightarrow> True | Some c \<Rightarrow> priced_currency c) \<Longrightarrow>
      leaves ok contents (rUpdateProduct repo pid patch s)
        (case cat_find pid (contents s) of None \<Rightarrow> Inl ErrProductNotFound | Some p \<Rightarrow> Inr (pg_patched patch p))
        (case cat_find pid (contents s) of None \<Rightarrow> contents s | Some p \<Rightarrow> cat_put (pg_patched patch p) (contents s))"
    and delete: "ok s \<Longrightarrow> TrimSpace pid \<noteq> [] \<Longrightarrow> leaves ok contents (rDeleteProduct repo pid s)
      (if pid \<in> prID ` set (contents s) then None else Some ErrProductNotFound) (cat_remove pid (contents s))"

text \<open>Trimming twice is trimming once.\<close>

lemma pg_patched_trimmed:
  "pg_patched (patch\<lparr>ppName := map_option TrimSpace (ppName patch), ppDescription := map_option TrimSpace (ppDescription patch)\<rparr>) p =
     pg_patched patch p"
  by (cases "ppName patch"; cases "ppDescription patch") (simp_all add: pg_patched_def)

lemma known_priced: "known_currency c \<Longrightarrow> c \<noteq> CURRENCY_UNSPECIFIED \<Longrightarrow> priced_currency c"
  by (auto simp: known_currency_def priced_currency_def)

context product_store
begin

lemma update_call:
  assumes "ok s" "case ppCurrency patch of None \<Rightarrow> True | Some c \<Rightarrow> known_currency c"
  shows "leaves ok contents (run_ccall repo (UpdateProductCall pid patch) s)
    (fst (spec_ccall key (UpdateProductCall pid patch) (contents s))) (snd (spec_ccall key (UpdateProductCall pid patch) (contents s)))"
proof (cases "TrimSpace pid = [] \<or> patch_empty patch \<or> validateProductPatch patch \<noteq> None")
  case True
  then show ?thesis
    using assms(1) by (auto simp: csvc_UpdateProduct_def validateProductPatch_def split: option.splits if_splits)
next
  case False
  let ?t = "patch\<lparr>ppName := map_option TrimSpace (ppName patch), ppDescription := map_option TrimSpace (ppDescription patch)\<rparr>"
  have t: "\<not> patch_empty ?t" "validateProductPatch ?t = None" "case ppCurrency ?t of None \<Rightarrow> True | Some c \<Rightarrow> priced_currency c"
    using False assms(2) known_priced by (auto simp: patch_empty_def validateProductPatch_def split: option.splits if_splits)
  have "csvc_UpdateProduct repo pid patch s = rUpdateProduct repo pid ?t s"
    using False by (auto simp: csvc_UpdateProduct_def validateProductPatch_def Let_def split: option.splits if_splits)
  moreover have pid: "TrimSpace pid \<noteq> []" using False by simp
  ultimately show ?thesis
    using leaves_apfst [OF update [OF assms(1) pid t], of ProductAnswer] False
    by (cases "cat_find pid (contents s)") (simp_all add: pg_patched_trimmed)
qed

lemma call: 
  assumes "ok s" "call_ok c" "int (length (contents s)) < 2 ^ 31"
  shows "leaves ok contents (run_ccall repo c s) (fst (spec_ccall key c (contents s))) (snd (spec_ccall key c (contents s)))"
proof (cases c)
  case (GetProductCall pid)
  then show ?thesis using get [OF assms(1), of pid] assms(1)
    by (auto simp: csvc_GetProductByID_def intro: leaves_apfst)
next
  case (ListProductsCall page n)
  then show ?thesis using list [OF assms(1), of page n] assms
    by (auto simp: csvc_ListProducts_def intro: leaves_apfst)
next
  case (CreateProductCall p)
  show ?thesis
  proof (cases "validateProduct p")
    case None
    then have "priced_currency (prCurrency p)"
      using assms(2) CreateProductCall known_priced by (auto simp: validateProduct_def split: if_splits)
    moreover have "csvc_CreateProduct repo p s = rCreateProduct repo p s"
      using None by (auto simp: csvc_CreateProduct_def validateProduct_def split: if_splits)
    ultimately show ?thesis using create [OF assms(1) None] None CreateProductCall by (auto intro: leaves_apfst)
  next
    case (Some e)
    then show ?thesis using create_invalid [OF assms(1), of p] assms(1) CreateProductCall
      by (auto simp: csvc_CreateProduct_def intro: leaves_apfst)
  qed
next
  case (UpdateProductCall pid patch)
  then show ?thesis using update_call [OF assms(1), of patch pid] assms(2) by simp
next
  case (DeleteProductCall pid)
  then show ?thesis using delete [OF assms(1), of pid] assms(1)
    by (auto simp: csvc_DeleteProduct_def intro: leaves_apfst)
qed

lemma calls:
  assumes "ok s" "\<forall>c \<in> set cs. call_ok c" "int (length (contents s)) + int (length cs) < 2 ^ 31"
  shows "leaves ok contents (run_ccalls repo cs s) (fst (spec_ccalls key cs (contents s))) (snd (spec_ccalls key cs (contents s)))"
  using assms
proof (induction cs arbitrary: s)
  case (Cons c cs)
  obtain x s1 where r: "run_ccall repo c s = (x, s1)" by fastforce
  obtain y ps1 where p: "spec_ccall key c (contents s) = (y, ps1)" by fastforce
  have l: "x = y" "ok s1" "contents s1 = ps1" using call [of s c] Cons.prems r p by auto
  have "length ps1 \<le> Suc (length (contents s))"
    using p by (cases c) (auto simp: cat_put_def cat_remove_def le_SucI split: if_splits option.splits)
  then have "int (length (contents s1)) + int (length cs) < 2 ^ 31" using Cons.prems(3) l(3) by simp
  from Cons.IH [OF l(2) _ this] Cons.prems(2) show ?case
    using r p l by (auto simp: leaves_def split: prod.splits)
qed simp

end

end
