(* ===== verification/Catalog_Mongo.thy ===== *)
theory Catalog_Mongo
  imports Catalog_Repository "HOL-Library.List_Lexorder"
begin

text \<open>
  The catalog's repository on MongoDB. A collection is the list of its documents; the
  filters, update documents and options the methods pass are those of the source, with their
  documented meaning: \<open>$set\<close> replaces fields, \<open>$setOnInsert\<close> gives those of a document an
  upsert inserts, identifiers are unique, and a sort by \<open>_id\<close> compares the bytes. A command
  may fail, or be carried out with its answer lost.
\<close>

section \<open>The collection\<close>

datatype mongo_error = NoDocuments | MongoFailure string

fun mongo_error_text :: "mongo_error \<Rightarrow> string" where
  "mongo_error_text NoDocuments = ''mongo: no documents in result''"
| "mongo_error_text (MongoFailure m) = m"

record product_doc =
  pdID :: string
  pdName :: string
  pdDescription :: string
  pdPriceCents :: int
  pdCurrency :: int
  pdCreatedAt :: time
  pdUpdatedAt :: time

record catalog_collection =
  documents :: "product_doc list"

text \<open>BSON dates count milliseconds.\<close>

definition bson_millis :: "time \<Rightarrow> time" where
  "bson_millis t = (t div 1000000) * 1000000"

definition bson_key :: "string \<Rightarrow> nat list" where
  "bson_key s = map of_char s"

definition mongo_query :: "attempt \<Rightarrow> string \<times> nat \<Rightarrow> mongo_error + 'a \<Rightarrow> mongo_error + 'a" where
  "mongo_query a site r =
     (case fault_at a site of Served \<Rightarrow> r | Failed m \<Rightarrow> Inl (MongoFailure m) | AckLost m \<Rightarrow> Inl (MongoFailure m))"

definition mongo_command ::
    "attempt \<Rightarrow> string \<times> nat \<Rightarrow> 'db \<Rightarrow> mongo_error + ('a \<times> 'db) \<Rightarrow> (mongo_error + 'a) \<times> 'db" where
  "mongo_command a site c r =
     (case fault_at a site of
        Served \<Rightarrow> (case r of Inl e \<Rightarrow> (Inl e, c) | Inr (x, c') \<Rightarrow> (Inr x, c'))
      | Failed m \<Rightarrow> (Inl (MongoFailure m), c)
      | AckLost m \<Rightarrow> (Inl (MongoFailure m), case r of Inl e \<Rightarrow> c | Inr (x, c') \<Rightarrow> c'))"

definition FindOne :: "string \<Rightarrow> catalog_collection \<Rightarrow> mongo_error + product_doc" where
  "FindOne pid c = (case find (\<lambda>d. pdID d = pid) (documents c) of None \<Rightarrow> Inl NoDocuments | Some d \<Rightarrow> Inr d)"

text \<open>
  \<open>FindOneAndUpdate\<close> by identifier, returning the document after the update: \<open>upd\<close> is the
  \<open>$set\<close>, \<open>onInsert\<close> the \<open>$setOnInsert\<close> document when the option \<open>upsert\<close> is on.
\<close>

definition FindOneAndUpdate ::
    "string \<Rightarrow> (product_doc \<Rightarrow> product_doc) \<Rightarrow> product_doc option \<Rightarrow> catalog_collection \<Rightarrow>
     mongo_error + (product_doc \<times> catalog_collection)" where
  "FindOneAndUpdate pid upd onInsert c =
     (case find (\<lambda>d. pdID d = pid) (documents c) of
        Some d \<Rightarrow> Inr (upd d, c\<lparr>documents := replace_row pdID pid upd (documents c)\<rparr>)
      | None \<Rightarrow>
          (case onInsert of
             None \<Rightarrow> Inl NoDocuments
           | Some d \<Rightarrow> Inr (upd d, c\<lparr>documents := documents c @ [upd d]\<rparr>)))"

text \<open>\<open>DeletedCount\<close> and the collection without the document.\<close>

definition DeleteOne :: "string \<Rightarrow> catalog_collection \<Rightarrow> mongo_error + (nat \<times> catalog_collection)" where
  "DeleteOne pid c =
     Inr (if pid \<in> pdID ` set (documents c) then 1 else 0,
          c\<lparr>documents := filter (\<lambda>d. pdID d \<noteq> pid) (documents c)\<rparr>)"

definition Find :: "int \<Rightarrow> int \<Rightarrow> catalog_collection \<Rightarrow> product_doc list" where
  "Find skip limit c =
     (let docs = drop (nat skip) (sort_key (\<lambda>d. bson_key (pdID d)) (documents c))
      in if limit = 0 then docs else take (nat limit) docs)"

section \<open>The methods\<close>

definition mapMongoProduct :: "product_doc \<Rightarrow> string + product" where
  "mapMongoProduct d =
     (case mapDBCurrency (pdCurrency d) of
        Inl e \<Rightarrow> Inl e
      | Inr c \<Rightarrow> Inr \<lparr>prID = pdID d, prName = pdName d, prDescription = pdDescription d,
          prPriceCents = pdPriceCents d, prCurrency = c\<rparr>)"

fun mapMongoProducts :: "product_doc list \<Rightarrow> string + product list" where
  "mapMongoProducts [] = Inr []"
| "mapMongoProducts (d # ds) =
     (case mapMongoProduct d of
        Inl e \<Rightarrow> Inl e
      | Inr p \<Rightarrow> (case mapMongoProducts ds of Inl e \<Rightarrow> Inl e | Inr ps \<Rightarrow> Inr (p # ps)))"

definition mongo_wrap :: "string \<Rightarrow> mongo_error \<Rightarrow> product_error" where
  "mongo_wrap what e = ProductInternal (what @ '': '' @ mongo_error_text e)"

definition mongo_GetProductByID ::
    "string \<Rightarrow> (catalog_collection, 'm) world_scheme \<Rightarrow> (product_error + product) \<times> (catalog_collection, 'm) world_scheme" where
  "mongo_GetProductByID pid w =
     (if TrimSpace pid = [] then (Inl ErrInvalidProduct, w)
      else case with_read (\<lambda>a c. mongo_query a (''FindOne'', 0) (FindOne pid c)) w of
        (Inl e, w1) \<Rightarrow> (Inl (if e = NoDocuments then ErrProductNotFound
                            else mongo_wrap ''get catalog product by id from mongo'' e), w1)
      | (Inr d, w1) \<Rightarrow> (map_sum ProductInternal id (mapMongoProduct d), w1))"

definition mongo_ListProducts ::
    "int \<Rightarrow> int \<Rightarrow> (catalog_collection, 'm) world_scheme \<Rightarrow>
     (product_error + (product list \<times> int)) \<times> (catalog_collection, 'm) world_scheme" where
  "mongo_ListProducts page pageSize w =
     (if page < 0 \<or> pageSize < 0 then (Inl ErrInvalidProduct, w)
      else case with_read (\<lambda>a c. mongo_query a (''CountDocuments'', 0) (Inr (int (length (documents c))))) w of
        (Inl e, w1) \<Rightarrow> (Inl (mongo_wrap ''count catalog products from mongo'' e), w1)
      | (Inr total', w1) \<Rightarrow>
          if total' = 0 then (Inr ([], 0), w1)
          else
            let limit = page_limit pageSize total'; offset = page_offset page limit
            in if offset \<ge> total' then (Inr ([], total'), w1)
               else case with_read (\<lambda>a c. mongo_query a (''Find'', 0) (Inr (Find offset limit c))) w1 of
                 (Inl e, w2) \<Rightarrow> (Inl (mongo_wrap ''list catalog products from mongo'' e), w2)
               | (Inr docs, w2) \<Rightarrow>
                   (case mapMongoProducts docs of
                      Inl e \<Rightarrow> Inl (ProductInternal (''map listed catalog products from mongo: '' @ e))
                    | Inr ps \<Rightarrow> Inr (ps, total'), w2))"

text \<open>The \<open>$set\<close> and \<open>$setOnInsert\<close> documents of the upsert.\<close>

definition create_set :: "time \<Rightarrow> product \<Rightarrow> product_doc \<Rightarrow> product_doc" where
  "create_set now p d =
     d\<lparr>pdName := prName p, pdDescription := prDescription p, pdPriceCents := prPriceCents p,
       pdCurrency := Currency_number (prCurrency p), pdUpdatedAt := bson_millis now\<rparr>"

definition create_on_insert :: "time \<Rightarrow> product \<Rightarrow> product_doc" where
  "create_on_insert now p =
     \<lparr>pdID = prID p, pdName = [], pdDescription = [], pdPriceCents = 0, pdCurrency = 0,
      pdCreatedAt = bson_millis now, pdUpdatedAt = 0\<rparr>"

definition mongo_CreateProduct ::
    "product \<Rightarrow> (catalog_collection, 'm) world_scheme \<Rightarrow> (product_error + product) \<times> (catalog_collection, 'm) world_scheme" where
  "mongo_CreateProduct p w =
     (case validateProduct p of
        Some e \<Rightarrow> (Inl e, w)
      | None \<Rightarrow>
          case with_attempt (\<lambda>a c. mongo_command a (''FindOneAndUpdate'', 0) c
                 (FindOneAndUpdate (prID p) (create_set (clock_at a ''now'') p) (Some (create_on_insert (clock_at a ''now'') p)) c)) w of
            (Inl e, w1) \<Rightarrow> (Inl (mongo_wrap ''upsert catalog product in mongo'' e), w1)
          | (Inr d, w1) \<Rightarrow> (map_sum ProductInternal id (mapMongoProduct d), w1))"

definition update_set :: "time \<Rightarrow> product_patch \<Rightarrow> product_doc \<Rightarrow> product_doc" where
  "update_set now patch d =
     d\<lparr>pdUpdatedAt := bson_millis now,
       pdName := (case ppName patch of None \<Rightarrow> pdName d | Some n \<Rightarrow> TrimSpace n),
       pdDescription := (case ppDescription patch of None \<Rightarrow> pdDescription d | Some t \<Rightarrow> TrimSpace t),
       pdPriceCents := (case ppPriceCents patch of None \<Rightarrow> pdPriceCents d | Some n \<Rightarrow> n),
       pdCurrency := (case ppCurrency patch of None \<Rightarrow> pdCurrency d | Some k \<Rightarrow> Currency_number k)\<rparr>"

definition mongo_UpdateProduct ::
    "string \<Rightarrow> product_patch \<Rightarrow> (catalog_collection, 'm) world_scheme \<Rightarrow>
     (product_error + product) \<times> (catalog_collection, 'm) world_scheme" where
  "mongo_UpdateProduct pid patch w =
     (if TrimSpace pid = [] \<or> patch_empty patch then (Inl ErrInvalidProduct, w)
      else case validateProductPatch patch of
        Some e \<Rightarrow> (Inl e, w)
      | None \<Rightarrow>
          (case with_attempt (\<lambda>a c. mongo_command a (''FindOneAndUpdate'', 0) c
                  (FindOneAndUpdate pid (update_set (clock_at a ''now'') patch) None c)) w of
             (Inl e, w1) \<Rightarrow> (Inl (if e = NoDocuments then ErrProductNotFound
                                 else mongo_wrap ''update catalog product in mongo'' e), w1)
           | (Inr d, w1) \<Rightarrow> (map_sum ProductInternal id (mapMongoProduct d), w1)))"

definition mongo_DeleteProduct ::
    "string \<Rightarrow> (catalog_collection, 'm) world_scheme \<Rightarrow> product_error option \<times> (catalog_collection, 'm) world_scheme" where
  "mongo_DeleteProduct pid w =
     (if TrimSpace pid = [] then (Some ErrInvalidProduct, w)
      else case with_attempt (\<lambda>a c. mongo_command a (''DeleteOne'', 0) c (DeleteOne pid c)) w of
        (Inl e, w1) \<Rightarrow> (Some (mongo_wrap ''delete catalog product from mongo'' e), w1)
      | (Inr n, w1) \<Rightarrow> (if n = 0 then (Some ErrProductNotFound, w1) else (None, w1)))"

definition mongo_product_repo :: "(catalog_collection, 'm) world_scheme product_repo" where
  "mongo_product_repo =
     \<lparr>rGetProductByID = mongo_GetProductByID, rListProducts = mongo_ListProducts,
      rCreateProduct = mongo_CreateProduct, rUpdateProduct = mongo_UpdateProduct, rDeleteProduct = mongo_DeleteProduct\<rparr>"

end
