(* ===== verification/Catalog_Stores.thy ===== *)
theory Catalog_Stores
  imports Catalog_Service Catalog_Mongo
begin

text \<open>
  Both repositories are stores of the reference catalog, as long as their server answers and
  no other client writes: the interpretations of \<open>product_store\<close>.
\<close>

section \<open>Lists of rows as lists of products\<close>

lemma insort_key_map: "insort_key g (f x) (map f xs) = map f (insort_key (\<lambda>x. g (f x)) x xs)"
  by (induction xs) auto

lemma sort_key_map: "sort_key g (map f xs) = map f (sort_key (\<lambda>x. g (f x)) xs)"
  by (induction xs) (simp_all add: insort_key_map)

lemma page_of_map: "page_of limit offset (map f xs) = map f (page_of limit offset xs)"
  by (simp add: page_of_def take_map drop_map)

lemma map_replace_row:
  "(\<And>x. k' (f x) = k x) \<Longrightarrow> (\<And>x. x \<in> set xs \<Longrightarrow> k x = i \<Longrightarrow> f (upd x) = p) \<Longrightarrow>
     map f (replace_row k i upd xs) = replace_row k' i (\<lambda>_. p) (map f xs)"
  by (simp add: replace_row_def)

lemma cat_find_map: "(\<And>x. prID (f x) = k x) \<Longrightarrow> cat_find pid (map f xs) = map_option f (find (\<lambda>x. k x = pid) xs)"
  by (simp add: cat_find_def, induction xs) auto

lemma cat_remove_map: "(\<And>x. prID (f x) = k x) \<Longrightarrow> cat_remove pid (map f xs) = map f (filter (\<lambda>x. k x \<noteq> pid) xs)"
  by (simp add: cat_remove_def filter_map o_def)

text \<open>Tables of valid rows with a key, and the products \<open>f\<close> reads from them.\<close>

definition rows_inv :: "('r \<Rightarrow> 'k) \<Rightarrow> ('r \<Rightarrow> bool) \<Rightarrow> 'r list \<Rightarrow> bool" where
  "rows_inv k good xs \<longleftrightarrow> distinct (map k xs) \<and> (\<forall>x \<in> set xs. good x)"

lemma put_rows:
  assumes "rows_inv k good xs" "\<And>x. prID (f x) = k x" "good r" "f r = p" "k r = i" "find (\<lambda>x. k x = i) xs = Some x"
  shows "rows_inv k good (replace_row k i (\<lambda>_. r) xs)" "map f (replace_row k i (\<lambda>_. r) xs) = cat_put p (map f xs)"
proof -
  show "rows_inv k good (replace_row k i (\<lambda>_. r) xs)"
    using assms(1,3,5) by (auto simp: rows_inv_def dest: set_replace_row_subset)
  have "i \<in> k ` set xs" using find_Some_in [OF assms(6)] by (metis image_eqI)
  moreover have "prID p = i" using assms(2,4,5) by metis
  ultimately show "map f (replace_row k i (\<lambda>_. r) xs) = cat_put p (map f xs)"
    using assms(2,4) map_replace_row [of prID f k xs i "\<lambda>_. r" p] by (simp add: cat_put_def image_image)
qed

lemma add_rows:
  assumes "rows_inv k good xs" "\<And>x. prID (f x) = k x" "good r" "f r = p" "k r = i" "find (\<lambda>x. k x = i) xs = None"
  shows "rows_inv k good (xs @ [r])" "map f xs @ [p] = cat_put p (map f xs)"
proof -
  have a: "i \<notin> k ` set xs" using assms(6) by (auto simp: find_None_iff)
  then show "rows_inv k good (xs @ [r])" using assms(1,3,5) by (auto simp: rows_inv_def)
  have "prID p = i" using assms(2,4,5) by metis
  with a assms(2) show "map f xs @ [p] = cat_put p (map f xs)" by (simp add: cat_put_def image_image)
qed

lemma remove_rows: "rows_inv k good xs \<Longrightarrow> rows_inv k good (filter P xs)"
  by (auto simp: rows_inv_def distinct_map_filter)

lemma cat_remove_absent: "pid \<notin> prID ` set ps \<Longrightarrow> cat_remove pid ps = ps"
  unfolding cat_remove_def by (intro filter_True) auto

lemma replace_row_found:
  assumes "rows_inv k good xs" "find (\<lambda>x. k x = i) xs = Some x"
  shows "replace_row k i upd xs = replace_row k i (\<lambda>_. upd x) xs"
proof -
  have "y = x" if "y \<in> set xs" "k y = i" for y
    using assms find_Some_in [OF assms(2)] that by (auto simp: rows_inv_def distinct_map dest: inj_onD)
  then show ?thesis by (auto simp: replace_row_def)
qed

text \<open>The arithmetic of a page: within the bounds of the types nothing wraps around.\<close>

lemma paging:
  assumes "0 \<le> page" "is_int32 page" "0 \<le> n" "is_int32 n" "0 < total'" "total' < 2 ^ 31"
  shows "page_offset page (page_limit n total') = (max 1 page - 1) * page_limit n total'"
    and "0 < page_limit n total'" "page_limit n total' < 2 ^ 31" "0 \<le> (max 1 page - 1) * page_limit n total'"
    and "(if n = 0 then total' else n) = page_limit n total'"
proof -
  show l: "0 < page_limit n total'" "page_limit n total' < 2 ^ 31"
    using assms(3-6) by (auto simp: page_limit_def is_int32_def)
  show "(if n = 0 then total' else n) = page_limit n total'" using assms(3) by (auto simp: page_limit_def)
  have p: "0 \<le> max 1 page - 1" "max 1 page - 1 < 2 ^ 31" using assms(1,2) by (auto simp: is_int32_def)
  show o: "0 \<le> (max 1 page - 1) * page_limit n total'" using p l by simp
  have "(max 1 page - 1) * page_limit n total' < 2 ^ 31 * 2 ^ 31"
    using p l by (intro mult_strict_mono) auto
  then have "is_int64 ((max 1 page - 1) * page_limit n total')" using o by (simp add: is_int64_def)
  moreover have "(if page \<le> 0 then 1 else page) - 1 = max 1 page - 1" "is_int32 (max 1 page - 1)" using p assms(1) by (auto simp: is_int32_def)
  ultimately show "page_offset page (page_limit n total') = (max 1 page - 1) * page_limit n total'"
    unfolding page_offset_def by (simp add: wrap32_id wrap64_id)
qed

lemma cat_page_none: "int (length ps) \<le> (max 1 page - 1) * (if n = 0 then int (length ps) else n) \<Longrightarrow>
    cat_page key page n ps = ([], int (length ps))"
  by (simp add: cat_page_def Let_def page_of_def)

lemma cat_page_Nil: "cat_page key page n [] = ([], 0)"
  by (simp add: cat_page_def Let_def page_of_def)

lemma catalog_clamp_id: "0 \<le> x \<Longrightarrow> x < 2 ^ 31 \<Longrightarrow> catalog_clampInt64ToInt32 x = x"
  by (simp add: catalog_clampInt64ToInt32_def wrap32_id is_int32_def)

lemma served_read:
  "alone w \<Longrightarrow> with_read f w = (f (the_attempt w) (tables w), w\<lparr>calls := Suc (calls w)\<rparr>)"
  by (simp add: with_read_def alone_found)

lemma served_attempt:
  "alone w \<Longrightarrow> f (the_attempt w) (tables w) = (x, db) \<Longrightarrow> with_attempt f w = (x, w\<lparr>tables := db, calls := Suc (calls w)\<rparr>)"
  by (simp add: with_attempt_def alone_found)

section \<open>PostgreSQL\<close>

definition product_row_ok :: "product_row \<Rightarrow> bool" where
  "product_row_ok r \<longleftrightarrow>
     TrimSpace (ctID r) \<noteq> [] \<and> TrimSpace (ctName r) \<noteq> [] \<and> 0 < ctPriceCents r \<and> ctCurrency r \<in> {1, 2}"

definition catalog_db_inv :: "catalog_db \<Rightarrow> bool" where
  "catalog_db_inv db \<longleftrightarrow> rows_inv ctID product_row_ok (catalog_products db)"

definition row_product :: "product_row \<Rightarrow> product" where
  "row_product r =
     \<lparr>prID = ctID r, prName = ctName r, prDescription = ctDescription r, prPriceCents = ctPriceCents r,
      prCurrency = (if ctCurrency r = 1 then CURRENCY_USD else CURRENCY_EUR)\<rparr>"

definition pg_store_ok :: "(catalog_db, 'm) world_scheme \<Rightarrow> bool" where
  "pg_store_ok w \<longleftrightarrow> alone w \<and> all_served w \<and> catalog_db_inv (tables w)"

definition pg_contents :: "(catalog_db, 'm) world_scheme \<Rightarrow> product list" where
  "pg_contents w = map row_product (catalog_products (tables w))"

lemma row_product_ID [simp]: "prID (row_product r) = ctID r"
  by (simp add: row_product_def)

lemma mapDBProduct_ok: "product_row_ok r \<Longrightarrow> mapDBProduct r = Inr (row_product r)"
  by (auto simp: mapDBProduct_def mapDBCurrency_def product_row_ok_def row_product_def)

lemma mapDBProducts_ok: "\<forall>r \<in> set rs. product_row_ok r \<Longrightarrow> mapDBProducts rs = Inr (map row_product rs)"
  by (induction rs) (simp_all add: mapDBProduct_ok)

lemma priced_number: "priced_currency c \<Longrightarrow> Currency_number c \<in> {1, 2} \<and> (if Currency_number c = 1 then CURRENCY_USD else CURRENCY_EUR) = c"
  by (auto simp: priced_currency_def)

lemma pg_store_ok_calls [simp]: "pg_store_ok (w\<lparr>calls := n\<rparr>) = pg_store_ok w" "pg_contents (w\<lparr>calls := n\<rparr>) = pg_contents w"
  by (simp_all add: pg_store_ok_def pg_contents_def alone_def all_served_def)

lemma pg_store_tables [simp]:
  "pg_store_ok w \<Longrightarrow> pg_store_ok (w\<lparr>tables := db\<rparr>) = catalog_db_inv db"
  "pg_contents (w\<lparr>tables := db\<rparr>) = map row_product (catalog_products db)"
  by (simp_all add: pg_store_ok_def pg_contents_def alone_def all_served_def)

lemma pg_product_served:
  assumes "pg_store_ok w" "TrimSpace pid \<noteq> []"
  shows "pg_GetProductByID pid w =
    (case cat_find pid (pg_contents w) of None \<Rightarrow> Inl ErrProductNotFound | Some p \<Rightarrow> Inr p, w\<lparr>calls := Suc (calls w)\<rparr>)"
proof -
  have c: "cat_find pid (pg_contents w) = map_option row_product (find (\<lambda>r. ctID r = pid) (catalog_products (tables w)))"
    by (simp add: pg_contents_def cat_find_map)
  show ?thesis
  proof (cases "find (\<lambda>r. ctID r = pid) (catalog_products (tables w))")
    case None
    then show ?thesis using assms c by (simp add: pg_GetProductByID_def pg_store_ok_def served_read q_GetCatalogProductByID_def)
  next
    case (Some r)
    then have "product_row_ok r" using assms(1) by (auto simp: pg_store_ok_def catalog_db_inv_def rows_inv_def dest: find_Some_in)
    then show ?thesis using Some assms c
      by (simp add: pg_GetProductByID_def pg_store_ok_def served_read q_GetCatalogProductByID_def mapDBProduct_ok)
  qed
qed

lemma pg_list_served:
  assumes w: "pg_store_ok w" and p: "0 \<le> page" "0 \<le> n" "is_int32 page" "is_int32 n" "int (length (pg_contents w)) < 2 ^ 31"
  shows "leaves pg_store_ok pg_contents (pg_ListProducts coll page n w) (Inr (cat_page coll page n (pg_contents w))) (pg_contents w)"
proof (cases "catalog_products (tables w) = []")
  case True
  then have "alone w" "all_served w" "pg_contents w = []" using w by (simp_all add: pg_store_ok_def pg_contents_def)
  then show ?thesis using w p(1,2) True
    by (simp add: pg_ListProducts_def served_read q_CountCatalogProducts_def cat_page_Nil)
next
  case False
  let ?rs = "catalog_products (tables w)"
  have t: "0 < int (length ?rs)" "int (length ?rs) < 2 ^ 31" using False p(5) by (simp_all add: pg_contents_def)
  define limit where "limit = page_limit n (int (length ?rs))"
  note pg = paging [OF p(1,3,2,4) t, folded limit_def]
  let ?offset = "(max 1 page - 1) * limit"
  have al: "alone w" "all_served w" and ok: "\<forall>r \<in> set ?rs. product_row_ok r"
    using w by (simp_all add: pg_store_ok_def catalog_db_inv_def rows_inv_def)
  have page: "cat_page coll page n (pg_contents w) =
      (map row_product (page_of limit ?offset (sort_key (\<lambda>r. coll (ctID r)) ?rs)), int (length ?rs))"
    using pg(5) by (auto simp: cat_page_def pg_contents_def sort_key_map page_of_map Let_def)
  show ?thesis
  proof (cases "int (length ?rs) \<le> ?offset")
    case True
    then have "page_of limit ?offset (sort_key (\<lambda>r. coll (ctID r)) ?rs) = []" by (simp add: page_of_def)
    then show ?thesis using w p(1,2) True pg(1) False al page
      by (simp add: pg_ListProducts_def served_read q_CountCatalogProducts_def limit_def [symmetric] Let_def)
  next
    case off: False
    have "?offset < 2 ^ 31" using off t(2) by linarith
    then have "catalog_clampInt64ToInt32 limit = limit" "catalog_clampInt64ToInt32 ?offset = ?offset"
      using catalog_clamp_id pg(2-4) less_imp_le by blast+
    moreover have "\<forall>r \<in> set (page_of limit ?offset (sort_key (\<lambda>r. coll (ctID r)) ?rs)). product_row_ok r"
      using ok by (auto simp: page_of_def dest!: in_set_takeD in_set_dropD)
    ultimately show ?thesis using w p(1,2) off pg(1) False al page
      by (simp add: pg_ListProducts_def served_read q_CountCatalogProducts_def limit_def [symmetric] Let_def
          q_ListCatalogProducts_def mapDBProducts_ok)
  qed
qed

text \<open>Writing a product: the row that is stored under its identifier.\<close>

lemma contents_IDs: "prID ` set (pg_contents w) = ctID ` set (catalog_products (tables w))"
  by (simp add: pg_contents_def image_image)

lemma create_row_ok:
  assumes "validateProduct p = None" "priced_currency (prCurrency p)"
  shows "check_product_row (toCreateCatalogProductParams t p) = None" "check_product_row (toUpdateCatalogProductParams t p) = None"
    and "ctID (toCreateCatalogProductParams t p) = prID p" "ctID (toUpdateCatalogProductParams t p) = prID p"
    and "product_row_ok ((stored_product_row (toCreateCatalogProductParams t p))\<lparr>ctCreatedAt := u\<rparr>)"
    and "product_row_ok ((stored_product_row (toUpdateCatalogProductParams t p))\<lparr>ctCreatedAt := u\<rparr>)"
    and "row_product ((stored_product_row (toCreateCatalogProductParams t p))\<lparr>ctCreatedAt := u\<rparr>) = p"
    and "row_product ((stored_product_row (toUpdateCatalogProductParams t p))\<lparr>ctCreatedAt := u\<rparr>) = p"
    and "product_row_ok (stored_product_row (toCreateCatalogProductParams t p))"
    and "row_product (stored_product_row (toCreateCatalogProductParams t p)) = p"
  using assms
  by (auto simp: check_product_row_def toCreateCatalogProductParams_def toUpdateCatalogProductParams_def
      validateProduct_def priced_currency_def product_row_ok_def row_product_def stored_product_row_def split: if_splits)

lemma stored_product_row_ID [simp]: "ctID (stored_product_row r) = ctID r"
  by (simp add: stored_product_row_def)

lemma pg_create_served:
  assumes w: "pg_store_ok w" and p: "validateProduct p = None" "priced_currency (prCurrency p)"
  shows "leaves pg_store_ok pg_contents (pg_CreateProduct p w) (Inr p) (cat_put p (pg_contents w))"
proof -
  let ?t = "clock_at (the_attempt w) ''currentTimestamp''"
  let ?x = "stored_product_row (toCreateCatalogProductParams ?t p)"
  have al: "alone w" "all_served w" and inv: "catalog_db_inv (tables w)" using w by (simp_all add: pg_store_ok_def)
  note ok = create_row_ok [OF p]
  show ?thesis
  proof (cases "find (\<lambda>r. ctID r = prID p) (catalog_products (tables w))")
    case None
    then have "q_CreateCatalogProduct (toCreateCatalogProductParams ?t p) (tables w) =
        Inr (?x, (tables w)\<lparr>catalog_products := catalog_products (tables w) @ [?x]\<rparr>)"
      using ok(1,3) by (simp add: q_CreateCatalogProduct_def Let_def)
    moreover have i: "ctID ?x = prID p" using ok(3) by simp
    ultimately show ?thesis
      using add_rows [OF inv [unfolded catalog_db_inv_def] row_product_ID ok(9,10) i None] ok(9,10) al w p(1)
      by (simp add: pg_CreateProduct_def served_attempt mapDBProduct_ok catalog_db_inv_def) (simp add: pg_contents_def)
  next
    case (Some r)
    let ?y = "?x\<lparr>ctCreatedAt := ctCreatedAt r\<rparr>"
    have "q_CreateCatalogProduct (toCreateCatalogProductParams ?t p) (tables w) =
        Inr (?y, (tables w)\<lparr>catalog_products := replace_row ctID (prID p) (\<lambda>_. ?y) (catalog_products (tables w))\<rparr>)"
      using ok(1,3) Some by (simp add: q_CreateCatalogProduct_def Let_def)
    moreover have y: "product_row_ok ?y" "row_product ?y = p" "ctID ?y = prID p" using ok(3,5,7) by simp_all
    ultimately show ?thesis
      using put_rows [OF inv [unfolded catalog_db_inv_def] row_product_ID y Some] y Some al w p(1)
      by (simp add: pg_CreateProduct_def served_attempt mapDBProduct_ok catalog_db_inv_def) (simp add: pg_contents_def)
  qed
qed

lemma patched_ok:
  assumes "validateProduct p0 = None" "validateProductPatch patch = None"
  shows "validateProduct (pg_patched patch p0) = None"
  using assms by (auto simp: validateProduct_def validateProductPatch_def pg_patched_def split: if_splits option.splits)

lemma patched_priced:
  assumes "priced_currency (prCurrency p0)" "case ppCurrency patch of None \<Rightarrow> True | Some c \<Rightarrow> priced_currency c"
  shows "priced_currency (prCurrency (pg_patched patch p0))"
  using assms by (auto simp: pg_patched_def split: option.splits)

lemma pg_patched_ID [simp]: "prID (pg_patched patch p) = prID p"
  by (simp add: pg_patched_def)

lemma row_product_valid: "product_row_ok r \<Longrightarrow> validateProduct (row_product r) = None \<and> priced_currency (prCurrency (row_product r))"
  by (auto simp: product_row_ok_def validateProduct_def row_product_def priced_currency_def)

lemma pg_update_served:
  assumes w: "pg_store_ok w" and pid: "TrimSpace pid \<noteq> []" and patch: "\<not> patch_empty patch" "validateProductPatch patch = None"
    "case ppCurrency patch of None \<Rightarrow> True | Some c \<Rightarrow> priced_currency c"
  shows "leaves pg_store_ok pg_contents (pg_UpdateProduct pid patch w)
    (case cat_find pid (pg_contents w) of None \<Rightarrow> Inl ErrProductNotFound | Some p \<Rightarrow> Inr (pg_patched patch p))
    (case cat_find pid (pg_contents w) of None \<Rightarrow> pg_contents w | Some p \<Rightarrow> cat_put (pg_patched patch p) (pg_contents w))"
proof -
  have al: "alone w" "all_served w" and inv: "catalog_db_inv (tables w)" using w by (simp_all add: pg_store_ok_def)
  have c: "cat_find pid (pg_contents w) = map_option row_product (find (\<lambda>r. ctID r = pid) (catalog_products (tables w)))"
    by (simp add: pg_contents_def cat_find_map)
  show ?thesis
  proof (cases "find (\<lambda>r. ctID r = pid) (catalog_products (tables w))")
    case None
    then show ?thesis using w pid patch c by (simp add: pg_UpdateProduct_def pg_product_served)
  next
    case (Some r)
    then have r: "product_row_ok r" "ctID r = pid" using inv by (auto simp: catalog_db_inv_def rows_inv_def dest: find_Some_in)
    let ?p = "pg_patched patch (row_product r)"
    let ?w = "w\<lparr>calls := Suc (calls w)\<rparr>"
    let ?t = "clock_at (the_attempt ?w) ''currentTimestamp''"
    let ?y = "(stored_product_row (toUpdateCatalogProductParams ?t ?p))\<lparr>ctCreatedAt := ctCreatedAt r\<rparr>"
    have v: "validateProduct ?p = None" "priced_currency (prCurrency ?p)"
      using row_product_valid [OF r(1)] patched_ok patched_priced patch(2,3) by blast+
    note ok = create_row_ok [OF v]
    have id: "prID ?p = pid" using r(2) by simp
    have "q_UpdateCatalogProduct (toUpdateCatalogProductParams ?t ?p) (tables w) =
        Inr (?y, (tables w)\<lparr>catalog_products := replace_row ctID pid (\<lambda>_. ?y) (catalog_products (tables w))\<rparr>)"
      using ok(2,4) Some id by (simp add: q_UpdateCatalogProduct_def Let_def)
    moreover have "alone ?w" "all_served ?w" "tables ?w = tables w" using al by (simp_all add: alone_def all_served_def)
    moreover have y: "product_row_ok ?y" "row_product ?y = ?p" "ctID ?y = pid" using ok(4,6,8) id by simp_all
    ultimately show ?thesis
      using put_rows [OF inv [unfolded catalog_db_inv_def] row_product_ID y Some] y Some al w pid patch c v(1)
      by (simp add: pg_UpdateProduct_def pg_product_served served_attempt mapDBProduct_ok Let_def catalog_db_inv_def) (simp add: pg_contents_def)
  qed
qed

lemma pg_delete_served:
  assumes w: "pg_store_ok w" and pid: "TrimSpace pid \<noteq> []"
  shows "leaves pg_store_ok pg_contents (pg_DeleteProduct pid w)
    (if pid \<in> prID ` set (pg_contents w) then None else Some ErrProductNotFound) (cat_remove pid (pg_contents w))"
proof -
  have al: "alone w" "all_served w" and inv: "catalog_db_inv (tables w)" using w by (simp_all add: pg_store_ok_def)
  let ?db = "(tables w)\<lparr>catalog_products := filter (\<lambda>r. ctID r \<noteq> pid) (catalog_products (tables w))\<rparr>"
  have inv': "catalog_db_inv ?db" using inv by (simp add: catalog_db_inv_def remove_rows)
  have m: "map row_product (catalog_products ?db) = cat_remove pid (pg_contents w)"
    by (simp add: pg_contents_def cat_remove_map)
  show ?thesis
  proof (cases "pid \<in> ctID ` set (catalog_products (tables w))")
    case True
    then show ?thesis using w pid al inv' m
      by (simp add: pg_DeleteProduct_def served_attempt q_DeleteCatalogProduct_def contents_IDs)
  next
    case False
    then have "cat_remove pid (pg_contents w) = pg_contents w" by (simp add: cat_remove_absent contents_IDs)
    moreover have "pg_contents (w\<lparr>tables := tables w, calls := Suc (calls w)\<rparr>) = pg_contents w" by (simp add: pg_contents_def)
    ultimately show ?thesis using w pid al False inv
      by (simp add: pg_DeleteProduct_def served_attempt q_DeleteCatalogProduct_def contents_IDs)
  qed
qed

interpretation pg_store: product_store "pg_product_repo coll" pg_store_ok pg_contents coll
  for coll :: "string \<Rightarrow> 'k::linorder"
proof
  fix w :: "(catalog_db, 'm) world_scheme" and pid page n p patch
  assume w: "pg_store_ok w"
  show "leaves pg_store_ok pg_contents (rGetProductByID (pg_product_repo coll) pid w)
      (case cat_find pid (pg_contents w) of None \<Rightarrow> Inl ErrProductNotFound | Some p \<Rightarrow> Inr p) (pg_contents w)"
    if "TrimSpace pid \<noteq> []"
    using w that by (simp add: pg_product_repo_def pg_product_served)
  show "leaves pg_store_ok pg_contents (rCreateProduct (pg_product_repo coll) p w) (Inl ErrInvalidProduct) (pg_contents w)"
    if "validateProduct p \<noteq> None"
    using w that by (auto simp: pg_product_repo_def pg_CreateProduct_def validateProduct_def split: if_splits)
qed (simp_all add: pg_product_repo_def pg_list_served pg_create_served pg_update_served pg_delete_served)

section \<open>MongoDB\<close>

definition product_doc_ok :: "product_doc \<Rightarrow> bool" where
  "product_doc_ok d \<longleftrightarrow>
     TrimSpace (pdID d) \<noteq> [] \<and> TrimSpace (pdName d) \<noteq> [] \<and> 0 < pdPriceCents d \<and> pdCurrency d \<in> {1, 2}"

definition catalog_collection_inv :: "catalog_collection \<Rightarrow> bool" where
  "catalog_collection_inv c \<longleftrightarrow> rows_inv pdID product_doc_ok (documents c)"

definition doc_product :: "product_doc \<Rightarrow> product" where
  "doc_product d =
     \<lparr>prID = pdID d, prName = pdName d, prDescription = pdDescription d, prPriceCents = pdPriceCents d,
      prCurrency = (if pdCurrency d = 1 then CURRENCY_USD else CURRENCY_EUR)\<rparr>"

definition mongo_store_ok :: "(catalog_collection, 'm) world_scheme \<Rightarrow> bool" where
  "mongo_store_ok w \<longleftrightarrow> alone w \<and> all_served w \<and> catalog_collection_inv (tables w)"

definition mongo_contents :: "(catalog_collection, 'm) world_scheme \<Rightarrow> product list" where
  "mongo_contents w = map doc_product (documents (tables w))"

lemma doc_product_ID [simp]: "prID (doc_product d) = pdID d"
  by (simp add: doc_product_def)

lemma mapMongoProduct_ok: "product_doc_ok d \<Longrightarrow> mapMongoProduct d = Inr (doc_product d)"
  by (auto simp: mapMongoProduct_def mapDBCurrency_def product_doc_ok_def doc_product_def)

lemma mapMongoProducts_ok: "\<forall>d \<in> set ds. product_doc_ok d \<Longrightarrow> mapMongoProducts ds = Inr (map doc_product ds)"
  by (induction ds) (simp_all add: mapMongoProduct_ok)

lemma mongo_query_served [simp]: "fault_at a site = Served \<Longrightarrow> mongo_query a site r = r"
  by (simp add: mongo_query_def)

lemma mongo_command_served [simp]:
  "fault_at a site = Served \<Longrightarrow> mongo_command a site c (Inr (x, c')) = (Inr x, c')"
  "fault_at a site = Served \<Longrightarrow> mongo_command a site c (Inl e) = (Inl e, c)"
  by (simp_all add: mongo_command_def)

lemma mongo_store_simps [simp]:
  "mongo_store_ok (w\<lparr>calls := n\<rparr>) = mongo_store_ok w" "mongo_contents (w\<lparr>calls := n\<rparr>) = mongo_contents w"
  "mongo_store_ok w \<Longrightarrow> mongo_store_ok (w\<lparr>tables := c\<rparr>) = catalog_collection_inv c"
  "mongo_contents (w\<lparr>tables := c\<rparr>) = map doc_product (documents c)"
  by (simp_all add: mongo_store_ok_def mongo_contents_def)

lemma mongo_found:
  "cat_find pid (mongo_contents w) = map_option doc_product (find (\<lambda>d. pdID d = pid) (documents (tables w)))"
  by (simp add: mongo_contents_def cat_find_map)

lemma mongo_get_served:
  assumes "mongo_store_ok w" "TrimSpace pid \<noteq> []"
  shows "mongo_GetProductByID pid w =
    (case cat_find pid (mongo_contents w) of None \<Rightarrow> Inl ErrProductNotFound | Some p \<Rightarrow> Inr p, w\<lparr>calls := Suc (calls w)\<rparr>)"
proof (cases "find (\<lambda>d. pdID d = pid) (documents (tables w))")
  case None
  then show ?thesis using assms mongo_found [of pid w]
    by (simp add: mongo_GetProductByID_def mongo_store_ok_def served_read FindOne_def)
next
  case (Some d)
  then have "product_doc_ok d"
    using assms(1) by (auto simp: mongo_store_ok_def catalog_collection_inv_def rows_inv_def dest: find_Some_in)
  then show ?thesis using Some assms mongo_found [of pid w]
    by (simp add: mongo_GetProductByID_def mongo_store_ok_def served_read FindOne_def mapMongoProduct_ok)
qed

lemma mongo_list_served:
  assumes w: "mongo_store_ok w" and p: "0 \<le> page" "0 \<le> n" "is_int32 page" "is_int32 n" "int (length (mongo_contents w)) < 2 ^ 31"
  shows "leaves mongo_store_ok mongo_contents (mongo_ListProducts page n w) (Inr (cat_page bson_key page n (mongo_contents w))) (mongo_contents w)"
proof (cases "documents (tables w) = []")
  case True
  then have "alone w" "all_served w" "mongo_contents w = []" using w by (simp_all add: mongo_store_ok_def mongo_contents_def)
  then show ?thesis using w p(1,2) True by (simp add: mongo_ListProducts_def served_read cat_page_Nil)
next
  case False
  let ?ds = "documents (tables w)"
  have t: "0 < int (length ?ds)" "int (length ?ds) < 2 ^ 31" using False p(5) by (simp_all add: mongo_contents_def)
  define limit where "limit = page_limit n (int (length ?ds))"
  note pg = paging [OF p(1,3,2,4) t, folded limit_def]
  let ?offset = "(max 1 page - 1) * limit"
  let ?docs = "page_of limit ?offset (sort_key (\<lambda>d. bson_key (pdID d)) ?ds)"
  have al: "alone w" "all_served w" and ok: "\<forall>d \<in> set ?ds. product_doc_ok d"
    using w by (simp_all add: mongo_store_ok_def catalog_collection_inv_def rows_inv_def)
  have page: "cat_page bson_key page n (mongo_contents w) = (map doc_product ?docs, int (length ?ds))"
    using pg(5) by (auto simp: cat_page_def mongo_contents_def sort_key_map page_of_map Let_def)
  show ?thesis
  proof (cases "int (length ?ds) \<le> ?offset")
    case True
    then have "?docs = []" by (simp add: page_of_def)
    then show ?thesis using w p(1,2) True pg(1) False al page
      by (simp add: mongo_ListProducts_def served_read limit_def [symmetric] Let_def)
  next
    case off: False
    have "Find ?offset limit (tables w) = ?docs" using pg(2) by (simp add: Find_def page_of_def)
    moreover have "\<forall>d \<in> set ?docs. product_doc_ok d"
      using ok by (auto simp: page_of_def dest!: in_set_takeD in_set_dropD)
    ultimately show ?thesis using w p(1,2) off pg(1) False al page
      by (simp add: mongo_ListProducts_def served_read limit_def [symmetric] Let_def mapMongoProducts_ok)
  qed
qed

lemma create_doc_ok:
  assumes "validateProduct p = None" "priced_currency (prCurrency p)" "pdID d = prID p"
  shows "product_doc_ok (create_set t p d)" "doc_product (create_set t p d) = p" "pdID (create_set t p d) = prID p"
  using assms
  by (auto simp: create_set_def validateProduct_def priced_currency_def product_doc_ok_def doc_product_def split: if_splits)

lemma mongo_create_served:
  assumes w: "mongo_store_ok w" and p: "validateProduct p = None" "priced_currency (prCurrency p)"
  shows "leaves mongo_store_ok mongo_contents (mongo_CreateProduct p w) (Inr p) (cat_put p (mongo_contents w))"
proof -
  let ?t = "clock_at (the_attempt w) ''now''"
  have al: "alone w" "all_served w" and inv: "rows_inv pdID product_doc_ok (documents (tables w))"
    using w by (simp_all add: mongo_store_ok_def catalog_collection_inv_def)
  show ?thesis
  proof (cases "find (\<lambda>d. pdID d = prID p) (documents (tables w))")
    case None
    have i: "pdID (create_on_insert ?t p) = prID p" by (simp add: create_on_insert_def)
    note ok = create_doc_ok [OF p i, of ?t]
    show ?thesis
      using add_rows [OF inv doc_product_ID ok None] None ok al w p(1)
      by (simp add: mongo_CreateProduct_def served_attempt FindOneAndUpdate_def mapMongoProduct_ok catalog_collection_inv_def)
        (simp add: mongo_contents_def)
  next
    case (Some d)
    note ok = create_doc_ok [OF p conjunct2 [OF find_Some_in [OF Some]], of ?t]
    show ?thesis
      using put_rows [OF inv doc_product_ID ok Some] Some ok al w p(1) replace_row_found [OF inv Some, of "create_set ?t p"]
      by (simp add: mongo_CreateProduct_def served_attempt FindOneAndUpdate_def mapMongoProduct_ok catalog_collection_inv_def)
        (simp add: mongo_contents_def)
  qed
qed

lemma update_doc_ok:
  assumes "product_doc_ok d" "validateProductPatch patch = None"
    "case ppCurrency patch of None \<Rightarrow> True | Some c \<Rightarrow> priced_currency c" "pdID d = pid"
  shows "product_doc_ok (update_set t patch d)" "doc_product (update_set t patch d) = pg_patched patch (doc_product d)"
    "pdID (update_set t patch d) = pid"
  using assms
  by (auto simp: update_set_def validateProductPatch_def priced_currency_def product_doc_ok_def doc_product_def pg_patched_def
      split: if_splits option.splits)

lemma mongo_update_served:
  assumes w: "mongo_store_ok w" and pid: "TrimSpace pid \<noteq> []" and patch: "\<not> patch_empty patch" "validateProductPatch patch = None"
    "case ppCurrency patch of None \<Rightarrow> True | Some c \<Rightarrow> priced_currency c"
  shows "leaves mongo_store_ok mongo_contents (mongo_UpdateProduct pid patch w)
    (case cat_find pid (mongo_contents w) of None \<Rightarrow> Inl ErrProductNotFound | Some p \<Rightarrow> Inr (pg_patched patch p))
    (case cat_find pid (mongo_contents w) of None \<Rightarrow> mongo_contents w | Some p \<Rightarrow> cat_put (pg_patched patch p) (mongo_contents w))"
proof -
  let ?t = "clock_at (the_attempt w) ''now''"
  have al: "alone w" "all_served w" and inv: "rows_inv pdID product_doc_ok (documents (tables w))"
    using w by (simp_all add: mongo_store_ok_def catalog_collection_inv_def)
  show ?thesis
  proof (cases "find (\<lambda>d. pdID d = pid) (documents (tables w))")
    case None
    then show ?thesis using w al pid patch mongo_found [of pid w]
      by (simp add: mongo_UpdateProduct_def served_attempt FindOneAndUpdate_def)
  next
    case (Some d)
    have d: "product_doc_ok d" "pdID d = pid" using find_Some_in [OF Some] inv by (simp_all add: rows_inv_def)
    note ok = update_doc_ok [OF d(1) patch(2,3) d(2), of ?t]
    show ?thesis
      using put_rows [OF inv doc_product_ID ok Some] Some ok al w pid patch mongo_found [of pid w]
        replace_row_found [OF inv Some, of "update_set ?t patch"]
      by (simp add: mongo_UpdateProduct_def served_attempt FindOneAndUpdate_def mapMongoProduct_ok catalog_collection_inv_def)
        (simp add: mongo_contents_def)
  qed
qed

lemma mongo_delete_served:
  assumes w: "mongo_store_ok w" and pid: "TrimSpace pid \<noteq> []"
  shows "leaves mongo_store_ok mongo_contents (mongo_DeleteProduct pid w)
    (if pid \<in> prID ` set (mongo_contents w) then None else Some ErrProductNotFound) (cat_remove pid (mongo_contents w))"
proof -
  have al: "alone w" "all_served w" and inv: "rows_inv pdID product_doc_ok (documents (tables w))"
    using w by (simp_all add: mongo_store_ok_def catalog_collection_inv_def)
  have "map doc_product (filter (\<lambda>d. pdID d \<noteq> pid) (documents (tables w))) = cat_remove pid (mongo_contents w)"
    by (simp add: mongo_contents_def cat_remove_map)
  moreover have "pid \<in> prID ` set (mongo_contents w) \<longleftrightarrow> pid \<in> pdID ` set (documents (tables w))"
    by (simp add: mongo_contents_def image_image)
  ultimately show ?thesis
    using w pid al remove_rows [OF inv, of "\<lambda>d. pdID d \<noteq> pid"]
    by (simp add: mongo_DeleteProduct_def served_attempt DeleteOne_def catalog_collection_inv_def)
qed

interpretation mongo_store: product_store mongo_product_repo mongo_store_ok mongo_contents bson_key
proof
  fix w :: "(catalog_collection, 'm) world_scheme" and pid page n p patch
  assume w: "mongo_store_ok w"
  show "leaves mongo_store_ok mongo_contents (rGetProductByID mongo_product_repo pid w)
      (case cat_find pid (mongo_contents w) of None \<Rightarrow> Inl ErrProductNotFound | Some p \<Rightarrow> Inr p) (mongo_contents w)"
    if "TrimSpace pid \<noteq> []"
    using w that by (simp add: mongo_product_repo_def mongo_get_served)
  show "leaves mongo_store_ok mongo_contents (rCreateProduct mongo_product_repo p w) (Inl ErrInvalidProduct) (mongo_contents w)"
    if "validateProduct p \<noteq> None"
    using w that by (auto simp: mongo_product_repo_def mongo_CreateProduct_def validateProduct_def split: if_splits)
qed (simp_all add: mongo_product_repo_def mongo_list_served mongo_create_served mongo_update_served mongo_delete_served)

end
