(* ===== verification/Catalog_Properties.thy ===== *)
theory Catalog_Properties
  imports Catalog_Stores
begin

text \<open>
  What the catalog guarantees: its two stores cannot be told apart by a client, its pages
  cover the products, the products of PostgreSQL are well formed whatever is sent. And what
  MongoDB does not: refuse a currency without a name.
\<close>

section \<open>One catalog, two stores\<close>

text \<open>
  C38: The two repositories are interchangeable. Started with the same products, as long as
  the servers answer, no one else writes and the requests name the currencies of the API, the
  service answers every sequence of calls the same way on PostgreSQL (collating by bytes) as
  on MongoDB, namely as the reference catalog (a plain list of products) does, and both end
  with the reference's products.
\<close>
theorem catalog_stores_agree:
  fixes w :: "(catalog_db, 'm) world_scheme" and v :: "(catalog_collection, 'n) world_scheme"
  assumes "pg_store_ok w" "mongo_store_ok v" "pg_contents w = ps" "mongo_contents v = ps"
    and "\<forall>c \<in> set cs. call_ok c" "int (length ps) + int (length cs) < 2 ^ 31"
    and "run_ccalls (pg_product_repo bson_key) cs w = (xs, w')" "run_ccalls mongo_product_repo cs v = (ys, v')"
  shows "xs = ys \<and> spec_ccalls bson_key cs ps = (xs, pg_contents w') \<and> mongo_contents v' = pg_contents w' \<and>
    pg_store_ok w' \<and> mongo_store_ok v'"
  using pg_store.calls [OF assms(1,5), of bson_key] mongo_store.calls [OF assms(2,5)] assms(3,4,6-8)
  by (auto simp: prod_eq_iff)

definition sample_product :: product where
  "sample_product =
     \<lparr>prID = ''p1'', prName = ''Coffee'', prDescription = [], prPriceCents = 1599, prCurrency = CURRENCY_USD\<rparr>"

definition sample_products :: "(catalog_db, unit) world_scheme" where
  "sample_products = calm_world \<lparr>catalog_products = []\<rparr> 0"

definition sample_documents :: "(catalog_collection, unit) world_scheme" where
  "sample_documents = calm_world \<lparr>documents = []\<rparr> 0"

lemma sample_stores:
  "pg_store_ok sample_products" "mongo_store_ok sample_documents" "pg_contents sample_products = []" "mongo_contents sample_documents = []"
  by (simp_all add: sample_products_def sample_documents_def pg_store_ok_def mongo_store_ok_def catalog_db_inv_def
      catalog_collection_inv_def rows_inv_def pg_contents_def mongo_contents_def)

definition sample_calls :: "catalog_call list" where
  "sample_calls =
     [CreateProductCall sample_product, CreateProductCall (sample_product\<lparr>prPriceCents := 0\<rparr>),
      UpdateProductCall ''p1'' \<lparr>ppName = None, ppDescription = Some ''fresh '', ppPriceCents = Some 1399, ppCurrency = None\<rparr>,
      ListProductsCall 0 10, DeleteProductCall ''p2'']"

theorem catalog_stores_agree_witness:
  "\<exists>xs w' v'. run_ccalls (pg_product_repo bson_key) sample_calls sample_products = (xs, w') \<and>
     run_ccalls mongo_product_repo sample_calls sample_documents = (xs, v') \<and>
     xs = [ProductAnswer (Inr sample_product), ProductAnswer (Inl ErrInvalidProduct),
           ProductAnswer (Inr (sample_product\<lparr>prDescription := ''fresh'', prPriceCents := 1399\<rparr>)),
           ListAnswer (Inr ([sample_product\<lparr>prDescription := ''fresh'', prPriceCents := 1399\<rparr>], 1)),
           DeleteAnswer (Some ErrProductNotFound)]"
proof -
  obtain xs w' ys v' where r: "run_ccalls (pg_product_repo bson_key) sample_calls sample_products = (xs, w')"
    "run_ccalls mongo_product_repo sample_calls sample_documents = (ys, v')" by fastforce
  have ok: "\<forall>c \<in> set sample_calls. call_ok c" "int (length ([]::product list)) + int (length sample_calls) < 2 ^ 31"
    by (simp_all add: sample_calls_def sample_product_def known_currency_def is_int32_def)
  have t: "TrimSpace ''p1'' = ''p1''" "TrimSpace ''p2'' = ''p2''" "TrimSpace ''Coffee'' = ''Coffee''" "TrimSpace ''fresh '' = ''fresh''"
    by code_simp+
  have "fst (spec_ccalls bson_key sample_calls []) =
      [ProductAnswer (Inr sample_product), ProductAnswer (Inl ErrInvalidProduct),
           ProductAnswer (Inr (sample_product\<lparr>prDescription := ''fresh'', prPriceCents := 1399\<rparr>)),
           ListAnswer (Inr ([sample_product\<lparr>prDescription := ''fresh'', prPriceCents := 1399\<rparr>], 1)),
           DeleteAnswer (Some ErrProductNotFound)]"
    by (simp add: sample_calls_def sample_product_def validateProduct_def validateProductPatch_def patch_empty_def cat_put_def
        cat_find_def cat_remove_def cat_page_def page_of_def pg_patched_def replace_row_def t)
  then show ?thesis
    using catalog_stores_agree [OF sample_stores(1-4) ok r] r by auto
qed

section \<open>Pages\<close>

lemma pages_of_list:
  assumes "0 < n"
  shows "concat (map (\<lambda>i. page_of n (int i * n) xs) [0..<k]) = take (k * nat n) xs"
proof (induction k)
  case (Suc k)
  have "nat (int k * n) = k * nat n" using assms by (simp add: nat_mult_distrib)
  moreover have "take (Suc k * nat n) xs = take (k * nat n) xs @ take (nat n) (drop (k * nat n) xs)"
    by (metis add.commute mult_Suc take_add)
  ultimately show ?case using Suc by (simp add: page_of_def)
qed simp

text \<open>
  C39: Paging loses nothing. When a client asks the service for the pages \<open>1, \<dots>, k\<close> of \<open>n\<close>
  products each, one after the other, and \<open>k * n\<close> reaches the number of products, every page
  is answered with the total, and the pages one after the other are all products, each once, in
  the order of their identifiers.
\<close>
theorem catalog_pages_cover:
  fixes v :: "(catalog_collection, 'n) world_scheme"
  assumes "mongo_store_ok v" "mongo_contents v = ps" "int (length ps) + int k < 2 ^ 31" "0 < n" "n < 2 ^ 31"
    and "int (length ps) \<le> int k * n"
    and "run_ccalls mongo_product_repo (map (\<lambda>i. ListProductsCall (int i + 1) n) [0..<k]) v = (xs, v')"
  shows "\<exists>pages. xs = map (\<lambda>page. ListAnswer (Inr (page, int (length ps)))) pages \<and>
    concat pages = sort_key (\<lambda>p. bson_key (prID p)) ps \<and> (\<forall>page \<in> set pages. int (length page) \<le> n)"
proof -
  let ?page = "\<lambda>i. page_of n (int i * n) (sort_key (\<lambda>p. bson_key (prID p)) ps)"
  have spec: "fst (spec_ccalls bson_key (map (\<lambda>i. ListProductsCall (int i + 1) n) is) ps) =
      map (\<lambda>i. ListAnswer (Inr (?page i, int (length ps)))) is" for "is"
  proof (induction "is")
    case (Cons i "is")
    have "cat_page bson_key (int i + 1) n ps = (?page i, int (length ps))"
      using assms(4) by (simp add: cat_page_def Let_def)
    then show ?case using Cons assms(4) by (auto split: prod.splits)
  qed simp
  have k: "int k < 2 ^ 31" using assms(3) by linarith
  have "\<forall>c \<in> set (map (\<lambda>i. ListProductsCall (int i + 1) n) [0..<k]). call_ok c"
    using assms(4,5) k by (auto simp: is_int32_def)
  from mongo_store.calls [OF assms(1) this] assms(2,3,7)
  have "xs = fst (spec_ccalls bson_key (map (\<lambda>i. ListProductsCall (int i + 1) n) [0..<k]) ps)" by (auto simp: leaves_def)
  then have "xs = map (\<lambda>page. ListAnswer (Inr (page, int (length ps)))) (map ?page [0..<k])" by (simp add: spec)
  moreover have "concat (map ?page [0..<k]) = sort_key (\<lambda>p. bson_key (prID p)) ps"
  proof -
    have "length ps \<le> k * nat n" using assms(4,6) by (simp add: nat_le_iff [symmetric] nat_mult_distrib zle_int [symmetric])
    then show ?thesis by (simp add: pages_of_list [OF assms(4)])
  qed
  moreover have "\<forall>page \<in> set (map ?page [0..<k]). int (length page) \<le> n"
    using assms(4) by (auto simp: page_of_def)
  ultimately show ?thesis by blast
qed

theorem catalog_pages_cover_witness:
  "\<exists>pages. fst (run_ccalls mongo_product_repo (map (\<lambda>i. ListProductsCall (int i + 1) 1) [0..<2])
       (calm_world \<lparr>documents = [create_set 0 (sample_product\<lparr>prID := ''p2''\<rparr>) (create_on_insert 0 (sample_product\<lparr>prID := ''p2''\<rparr>)),
          create_set 0 sample_product (create_on_insert 0 sample_product)]\<rparr> 0)) =
       map (\<lambda>page. ListAnswer (Inr (page, 2))) pages \<and>
     concat pages = [sample_product, sample_product\<lparr>prID := ''p2''\<rparr>]"
proof -
  let ?w = "calm_world \<lparr>documents = [create_set 0 (sample_product\<lparr>prID := ''p2''\<rparr>) (create_on_insert 0 (sample_product\<lparr>prID := ''p2''\<rparr>)),
          create_set 0 sample_product (create_on_insert 0 sample_product)]\<rparr> 0"
  have w: "mongo_store_ok ?w" "mongo_contents ?w = [sample_product\<lparr>prID := ''p2''\<rparr>, sample_product]"
    by (simp_all add: mongo_store_ok_def catalog_collection_inv_def rows_inv_def product_doc_ok_def create_set_def
        create_on_insert_def sample_product_def mongo_contents_def doc_product_def)
  obtain xs v' where r: "run_ccalls mongo_product_repo (map (\<lambda>i. ListProductsCall (int i + 1) 1) [0..<2]) ?w = (xs, v')" by fastforce
  have "sort_key (\<lambda>p. bson_key (prID p)) [sample_product\<lparr>prID := ''p2''\<rparr>, sample_product] = [sample_product, sample_product\<lparr>prID := ''p2''\<rparr>]"
    by (simp add: sample_product_def bson_key_def)
  with catalog_pages_cover [OF w _ _ _ _ r] obtain pages where
    "xs = map (\<lambda>page. ListAnswer (Inr (page, 2))) pages" "concat pages = [sample_product, sample_product\<lparr>prID := ''p2''\<rparr>]"
    by (simp del: sort_key_simps) blast
  then show ?thesis using r by auto
qed

section \<open>Well-formed products\<close>

definition product_ok :: "product \<Rightarrow> bool" where
  "product_ok p \<longleftrightarrow> validateProduct p = None \<and> priced_currency (prCurrency p)"

definition priced_product :: "product \<Rightarrow> bool" where
  "priced_product p \<longleftrightarrow> 0 < prPriceCents p \<and> priced_currency (prCurrency p)"

fun answers :: "(product \<Rightarrow> bool) \<Rightarrow> catalog_answer \<Rightarrow> bool" where
  "answers good (ProductAnswer (Inr p)) \<longleftrightarrow> good p"
| "answers good (ListAnswer (Inr (ps, n))) \<longleftrightarrow> (\<forall>p \<in> set ps. good p)"
| "answers good _ \<longleftrightarrow> True"

fun writes_product :: "catalog_call \<Rightarrow> bool" where
  "writes_product (CreateProductCall p) = True"
| "writes_product (UpdateProductCall pid patch) = True"
| "writes_product _ = False"

definition table_inv :: "(product_row \<Rightarrow> bool) \<Rightarrow> catalog_db \<Rightarrow> bool" where
  "table_inv good db \<longleftrightarrow> rows_inv ctID good (catalog_products db)"

text \<open>What the schema demands: the primary key and the two checks.\<close>

abbreviation schema_ok :: "catalog_db \<Rightarrow> bool" where
  "schema_ok \<equiv> table_inv (\<lambda>r. check_product_row r = None)"

text \<open>The invariant that calls of any kind keep, beside other clients that keep it.\<close>

definition pg_catalog_inv :: "(product_row \<Rightarrow> bool) \<Rightarrow> (catalog_db, 'm) world_scheme \<Rightarrow> bool" where
  "pg_catalog_inv good w \<longleftrightarrow> table_inv good (tables w) \<and> others_keep (table_inv good) w"

lemma pg_catalog_found: "pg_catalog_inv good w \<Longrightarrow> table_inv good (found w)"
  by (simp add: pg_catalog_inv_def others_keep_found)

lemma pg_catalog_inv_update [simp]:
  "pg_catalog_inv good (w\<lparr>tables := db, calls := n\<rparr>) \<longleftrightarrow> table_inv good db \<and> others_keep (table_inv good) w"
  by (simp add: pg_catalog_inv_def)

lemma mapDBProduct_checked: "check_product_row r = None \<Longrightarrow> mapDBProduct r = Inr (row_product r)"
  by (auto simp: mapDBProduct_def mapDBCurrency_def check_product_row_def row_product_def split: if_splits)

lemma mapDBProducts_checked: "\<forall>r \<in> set rs. check_product_row r = None \<Longrightarrow> mapDBProducts rs = Inr (map row_product rs)"
  by (induction rs) (simp_all add: mapDBProduct_checked)

lemma row_product_priced: "check_product_row r = None \<Longrightarrow> priced_product (row_product r)"
  by (auto simp: check_product_row_def priced_product_def row_product_def priced_currency_def split: if_splits)

lemma row_product_ok: "product_row_ok r \<Longrightarrow> product_ok (row_product r)"
  using row_product_valid [of r] by (simp add: product_ok_def)

lemma product_row_checked: "product_row_ok r \<Longrightarrow> check_product_row r = None"
  by (auto simp: product_row_ok_def check_product_row_def)

lemma checked_row_ok:
  assumes "validateProduct p = None" "check_product_row r = None" "ctID r = prID p" "ctName r = prName p"
  shows "product_row_ok ((stored_product_row r)\<lparr>ctCreatedAt := t\<rparr>)" "product_row_ok (stored_product_row r)"
  using assms by (auto simp: validateProduct_def check_product_row_def product_row_ok_def stored_product_row_def split: if_splits)

lemma autocommit_keeps:
  assumes "autocommit a site db r = (x, d)" "P db" "\<And>y db'. r = Inr (y, db') \<Longrightarrow> P db' \<and> Q y"
  shows "P d \<and> (\<forall>y. x = Inr y \<longrightarrow> Q y)"
  using assms by (auto simp: autocommit_def split: fault.splits sum.splits prod.splits)

text \<open>
  The statements, for any property of rows between what the service writes and what the schema
  demands: \<open>good_product\<close> is what the rows' products have.
\<close>

locale product_rows =
  fixes good :: "product_row \<Rightarrow> bool" and good_product :: "product \<Rightarrow> bool"
  assumes own_row: "product_row_ok r \<Longrightarrow> good r"
    and checked_row: "good r \<Longrightarrow> check_product_row r = None"
    and row_good_product: "good r \<Longrightarrow> good_product (row_product r)"
begin

lemma put_row_inv:
  assumes "table_inv good db" "product_row_ok r" "ctID r = i"
  shows "table_inv good (db\<lparr>catalog_products := replace_row ctID i (\<lambda>_. r) (catalog_products db)\<rparr>)"
  using assms own_row by (auto simp: table_inv_def rows_inv_def dest: set_replace_row_subset)

lemma q_CreateCatalogProduct_typed:
  assumes "table_inv good db" "validateProduct p = None" "q_CreateCatalogProduct (toCreateCatalogProductParams t p) db = Inr (r, db')"
  shows "table_inv good db' \<and> product_row_ok r"
proof -
  let ?r = "toCreateCatalogProductParams t p"
  have n: "ctID ?r = prID p" "ctName ?r = prName p" by (simp_all add: toCreateCatalogProductParams_def)
  have c: "check_product_row ?r = None" using assms(3) by (auto simp: q_CreateCatalogProduct_def split: option.splits)
  note ok = checked_row_ok [OF assms(2) c n]
  show ?thesis
  proof (cases "find (\<lambda>x. ctID x = ctID ?r) (catalog_products db)")
    case None
    then have "ctID ?r \<notin> ctID ` set (catalog_products db)" by (auto simp: find_None_iff)
    then show ?thesis using assms(1,3) c None ok(2) own_row
      by (auto simp: q_CreateCatalogProduct_def table_inv_def rows_inv_def Let_def)
  next
    case (Some x)
    then show ?thesis using assms(1,3) c ok(1) put_row_inv [OF assms(1) ok(1), where i = "ctID ?r"]
      by (auto simp: q_CreateCatalogProduct_def Let_def)
  qed
qed

lemma q_UpdateCatalogProduct_typed:
  assumes "table_inv good db" "validateProduct p = None" "q_UpdateCatalogProduct (toUpdateCatalogProductParams t p) db = Inr (r, db')"
  shows "table_inv good db' \<and> product_row_ok r"
proof -
  let ?r = "toUpdateCatalogProductParams t p"
  have n: "ctID ?r = prID p" "ctName ?r = prName p" by (simp_all add: toUpdateCatalogProductParams_def)
  have c: "check_product_row ?r = None" using assms(3) by (auto simp: q_UpdateCatalogProduct_def split: option.splits)
  note ok = checked_row_ok [OF assms(2) c n]
  show ?thesis using assms(1,3) c ok(1) put_row_inv [OF assms(1) ok(1), where i = "ctID ?r"]
    by (auto simp: q_UpdateCatalogProduct_def Let_def split: option.splits)
qed

lemma q_DeleteCatalogProduct_typed:
  "table_inv good db \<Longrightarrow> q_DeleteCatalogProduct pid db = Inr (x, db') \<Longrightarrow> table_inv good db'"
  by (auto simp: q_DeleteCatalogProduct_def table_inv_def remove_rows split: if_splits)

lemma own_product: "product_row_ok r \<Longrightarrow> mapDBProduct r = Inr p \<Longrightarrow> product_ok p \<and> good_product p"
  using row_product_ok [of r] mapDBProduct_ok [of r] row_good_product [OF own_row, of r] by simp

lemma pg_get_typed:
  assumes "pg_catalog_inv good w" "pg_GetProductByID pid w = (x, w')"
  shows "pg_catalog_inv good w' \<and> (\<forall>p. x = Inr p \<longrightarrow> good_product p)"
proof -
  have f: "table_inv good (found w)" by (rule pg_catalog_found [OF assms(1)])
  have "good r" if "find (\<lambda>r. ctID r = pid) (catalog_products (found w)) = Some r" for r
    using f find_Some_in [OF that] by (simp add: table_inv_def rows_inv_def)
  then have "good_product (row_product r) \<and> mapDBProduct r = Inr (row_product r)"
    if "find (\<lambda>r. ctID r = pid) (catalog_products (found w)) = Some r" for r
    using that row_good_product mapDBProduct_checked checked_row by blast
  then show ?thesis
    using assms f
    by (auto simp: pg_GetProductByID_def with_read_def exec_def q_GetCatalogProductByID_def pg_catalog_inv_def
        split: if_splits fault.splits option.splits)
qed

lemma pg_create_typed:
  assumes "pg_catalog_inv good w" "pg_CreateProduct p w = (x, w')"
  shows "pg_catalog_inv good w' \<and> (\<forall>p. x = Inr p \<longrightarrow> product_ok p \<and> good_product p)"
proof (cases "validateProduct p")
  case (Some e)
  then show ?thesis using assms by (auto simp: pg_CreateProduct_def)
next
  case None
  let ?a = "the_attempt w"
  obtain y db where c: "autocommit ?a (''CreateCatalogProduct'', 0) (found w)
      (q_CreateCatalogProduct (toCreateCatalogProductParams (clock_at ?a ''currentTimestamp'') p) (found w)) = (y, db)" by fastforce
  from autocommit_keeps [where P = "table_inv good" and Q = product_row_ok, OF c pg_catalog_found [OF assms(1)]]
    q_CreateCatalogProduct_typed [OF pg_catalog_found [OF assms(1)] None]
  have "table_inv good db" "\<forall>r. y = Inr r \<longrightarrow> product_row_ok r" by blast+
  then show ?thesis
    using assms c None own_product
    by (cases y) (auto simp: pg_CreateProduct_def with_attempt_def pg_catalog_inv_def mapDBProduct_ok)
qed

lemma pg_update_typed:
  assumes "pg_catalog_inv good w" "pg_UpdateProduct pid patch w = (x, w')"
  shows "pg_catalog_inv good w' \<and> (\<forall>p. x = Inr p \<longrightarrow> product_ok p \<and> good_product p)"
proof (cases "TrimSpace pid = [] \<or> patch_empty patch \<or> validateProductPatch patch \<noteq> None")
  case True
  then show ?thesis using assms by (auto simp: pg_UpdateProduct_def split: option.splits if_splits)
next
  case False
  obtain g w1 where g: "pg_GetProductByID pid w = (g, w1)" by fastforce
  note g1 = pg_get_typed [OF assms(1) g]
  show ?thesis
  proof (cases "\<exists>p0. g = Inr p0 \<and> validateProduct (pg_patched patch p0) = None")
    case no: False
    then show ?thesis using assms(2) g g1 False
      by (cases g) (auto simp: pg_UpdateProduct_def Let_def)
  next
    case True
    then obtain p0 where p0: "g = Inr p0" "validateProduct (pg_patched patch p0) = None" by blast
    let ?a = "the_attempt w1"
    obtain y db where c: "autocommit ?a (''UpdateCatalogProduct'', 0) (found w1)
        (q_UpdateCatalogProduct (toUpdateCatalogProductParams (clock_at ?a ''currentTimestamp'') (pg_patched patch p0)) (found w1)) = (y, db)"
      by fastforce
    have f: "table_inv good (found w1)" using g1 pg_catalog_found by blast
    from autocommit_keeps [where P = "table_inv good" and Q = product_row_ok, OF c f] q_UpdateCatalogProduct_typed [OF f p0(2)]
    have "table_inv good db" "\<forall>r. y = Inr r \<longrightarrow> product_row_ok r" by blast+
    then show ?thesis
      using assms(2) c g p0 False g1 own_product
      by (cases y) (auto simp: pg_UpdateProduct_def with_attempt_def pg_catalog_inv_def mapDBProduct_ok Let_def)
  qed
qed

lemma pg_delete_typed:
  assumes "pg_catalog_inv good w" "pg_DeleteProduct pid w = (x, w')"
  shows "pg_catalog_inv good w'"
proof -
  obtain y db where c: "autocommit (the_attempt w) (''DeleteCatalogProduct'', 0) (found w) (q_DeleteCatalogProduct pid (found w)) = (y, db)"
    by fastforce
  have f: "table_inv good (found w)" by (rule pg_catalog_found [OF assms(1)])
  from autocommit_keeps [where P = "table_inv good" and Q = "\<lambda>_. True", OF c f] q_DeleteCatalogProduct_typed [OF f] have "table_inv good db" by blast
  then show ?thesis
    using assms c by (cases y) (auto simp: pg_DeleteProduct_def with_attempt_def pg_catalog_inv_def split: if_splits)
qed

lemma pg_list_typed:
  assumes "pg_catalog_inv good w" "pg_ListProducts coll page n w = (x, w')"
  shows "pg_catalog_inv good w' \<and> (\<forall>ps m. x = Inr (ps, m) \<longrightarrow> (\<forall>p \<in> set ps. good_product p))"
proof -
  obtain c w1 where c: "with_read (\<lambda>a db. exec a (''CountCatalogProducts'', 0) (Inr (q_CountCatalogProducts db) :: pg_error + int)) w = (c, w1)"
    by fastforce
  have i1: "pg_catalog_inv good w1" using c assms(1) pg_catalog_found [OF assms(1)] by (auto simp: with_read_eq pg_catalog_inv_def)
  have f: "table_inv good (found w1)" by (rule pg_catalog_found [OF i1])
  have i2: "pg_catalog_inv good (w1\<lparr>tables := found w1, calls := m\<rparr>)" for m using i1 f by (simp add: pg_catalog_inv_def)
  have ok: "\<forall>r \<in> set (q_ListCatalogProducts coll l off (found w1)). good r" for l off
    using f by (auto simp: q_ListCatalogProducts_def table_inv_def rows_inv_def page_of_def dest!: in_set_takeD in_set_dropD)
  then have m: "mapDBProducts (q_ListCatalogProducts coll l off (found w1)) = Inr (map row_product (q_ListCatalogProducts coll l off (found w1)))"
    for l off using checked_row by (intro mapDBProducts_checked) blast
  show ?thesis
    using assms c i1 i2 ok row_good_product
    by (cases c) (auto simp: pg_ListProducts_def Let_def with_read_def [where w = w1] m exec_def
        split: if_splits fault.splits sum.splits)
qed

lemma pg_call_typed:
  assumes "pg_catalog_inv good w" "run_ccall (pg_product_repo coll) c w = (x, w')"
  shows "pg_catalog_inv good w' \<and> answers good_product x \<and> (writes_product c \<longrightarrow> answers product_ok x)"
proof (cases c)
  case (GetProductCall pid)
  then show ?thesis using assms pg_get_typed [OF assms(1), of pid]
    by (cases "pg_GetProductByID pid w"; cases "fst (pg_GetProductByID pid w)")
      (auto simp: csvc_GetProductByID_def pg_product_repo_def split: if_splits)
next
  case (ListProductsCall page n)
  then show ?thesis using assms pg_list_typed [OF assms(1), of coll page n]
    by (cases "pg_ListProducts coll page n w"; cases "fst (pg_ListProducts coll page n w)")
      (auto simp: csvc_ListProducts_def pg_product_repo_def split: if_splits)
next
  case (CreateProductCall p)
  then show ?thesis using assms pg_create_typed [OF assms(1), of p]
    by (cases "pg_CreateProduct p w"; cases "fst (pg_CreateProduct p w)")
      (auto simp: csvc_CreateProduct_def pg_product_repo_def split: if_splits)
next
  case (UpdateProductCall pid patch)
  let ?t = "patch\<lparr>ppName := map_option TrimSpace (ppName patch), ppDescription := map_option TrimSpace (ppDescription patch)\<rparr>"
  show ?thesis using assms pg_update_typed [OF assms(1), of pid ?t] UpdateProductCall
    by (cases "pg_UpdateProduct pid ?t w"; cases "fst (pg_UpdateProduct pid ?t w)")
      (auto simp: csvc_UpdateProduct_def pg_product_repo_def Let_def split: if_splits)
next
  case (DeleteProductCall pid)
  then show ?thesis using assms pg_delete_typed [OF assms(1), of pid]
    by (cases "pg_DeleteProduct pid w") (auto simp: csvc_DeleteProduct_def pg_product_repo_def split: if_splits)
qed

lemma pg_calls_typed:
  "run_ccalls (pg_product_repo coll) cs w = (xs, w') \<Longrightarrow> pg_catalog_inv good w \<Longrightarrow>
     pg_catalog_inv good w' \<and> (\<forall>x \<in> set xs. answers good_product x) \<and>
     (\<forall>(c, x) \<in> set (zip cs xs). writes_product c \<longrightarrow> answers product_ok x)"
proof (induction cs arbitrary: w xs)
  case (Cons c cs)
  obtain x w1 where x: "run_ccall (pg_product_repo coll) c w = (x, w1)" by fastforce
  obtain ys w2 where ys: "run_ccalls (pg_product_repo coll) cs w1 = (ys, w2)" by fastforce
  note one = pg_call_typed [OF Cons.prems(2) x]
  have eq: "xs = x # ys" "w2 = w'" using Cons.prems(1) x ys by simp_all
  show ?case using one Cons.IH [OF ys [unfolded eq(2)]] unfolding eq(1) by (simp only: list.set zip_Cons_Cons ball_simps prod.case) blast
qed simp

end

interpretation checked_rows: product_rows "\<lambda>r. check_product_row r = None" priced_product
  by unfold_locales (simp_all add: product_row_checked row_product_priced)

interpretation named_rows: product_rows product_row_ok product_ok
  by unfold_locales (simp_all add: product_row_checked row_product_ok)

lemma table_inv_product_rows: "table_inv product_row_ok = catalog_db_inv"
  by (simp add: fun_eq_iff table_inv_def catalog_db_inv_def)

text \<open>
  C40: The service on PostgreSQL answers with well-formed products only. Whatever other clients
  write that the schema accepts (a unique identifier, a positive price, one of the two
  currencies), every product in an answer has a positive price and a currency of the API, and a
  product that answers a creation or an update also has an identifier and a name that are not
  blank. The schema does not ask for that; but where no row of the table has a blank identifier
  or name and the other clients write none, every product in any answer has both. This holds
  for any sequence of requests, currency numbers the API does not define included, under any
  faults.
\<close>
theorem catalog_answers_well_formed:
  fixes w :: "(catalog_db, 'm) world_scheme"
  assumes "schema_ok (tables w)" "others_keep schema_ok w"
    and "run_ccalls (pg_product_repo coll) cs w = (xs, w')"
  shows "schema_ok (tables w') \<and> (\<forall>x \<in> set xs. answers priced_product x) \<and>
    (\<forall>(c, x) \<in> set (zip cs xs). writes_product c \<longrightarrow> answers product_ok x) \<and>
    (catalog_db_inv (tables w) \<and> others_keep catalog_db_inv w \<longrightarrow>
       catalog_db_inv (tables w') \<and> (\<forall>x \<in> set xs. answers product_ok x))"
  using checked_rows.pg_calls_typed [OF assms(3)] named_rows.pg_calls_typed [OF assms(3)] assms(1,2)
  unfolding pg_catalog_inv_def table_inv_product_rows by blast

text \<open>Creating a product whose currency the API does not define is refused by the table's constraint.\<close>

definition odd_product :: product where
  "odd_product = sample_product\<lparr>prID := ''p0'', prCurrency := CURRENCY_OTHER 7\<rparr>"

lemma odd_product_accepted:
  "validateProduct odd_product = None" "TrimSpace (prID odd_product) \<noteq> []" "TrimSpace (prName odd_product) \<noteq> []"
  by (simp_all add: odd_product_def sample_product_def validateProduct_def)

theorem catalog_answers_well_formed_witness:
  "\<exists>e x w'. run_ccalls (pg_product_repo bson_key) [CreateProductCall odd_product, CreateProductCall sample_product, ListProductsCall 0 0]
       sample_products = ([ProductAnswer (Inl e), ProductAnswer (Inr sample_product), x], w') \<and> answers product_ok x"
proof -
  have "pg_store_ok sample_products" by (fact sample_stores(1))
  then have s: "alone sample_products" "all_served sample_products" "catalog_db_inv (tables sample_products)"
    by (simp_all add: pg_store_ok_def)
  have "q_CreateCatalogProduct (toCreateCatalogProductParams t odd_product) db =
      Inl (check_violation ''catalog_products_currency_check'')" for t db
    by (simp add: q_CreateCatalogProduct_def check_product_row_def toCreateCatalogProductParams_def odd_product_def sample_product_def)
  then obtain e where e: "pg_CreateProduct odd_product sample_products = (Inl e, sample_products\<lparr>calls := 1\<rparr>)"
    using s odd_product_accepted(1) by (simp add: pg_CreateProduct_def with_attempt_def alone_found sample_products_def calm_world_def)
  have ok: "pg_store_ok (sample_products\<lparr>calls := 1\<rparr>)" using sample_stores(1) by simp
  have p: "validateProduct sample_product = None" "priced_currency (prCurrency sample_product)"
    "TrimSpace (prID sample_product) \<noteq> []" "TrimSpace (prName sample_product) \<noteq> []"
    by (simp_all add: validateProduct_def sample_product_def priced_currency_def)
  obtain w2 where w2: "pg_CreateProduct sample_product (sample_products\<lparr>calls := 1\<rparr>) = (Inr sample_product, w2)"
    using pg_create_served [OF ok p(1,2)] by (auto simp: leaves_def prod_eq_iff)
  obtain x w3 where x: "csvc_ListProducts (pg_product_repo bson_key) 0 0 w2 = (x, w3)" by fastforce
  have r: "run_ccalls (pg_product_repo bson_key) [CreateProductCall odd_product, CreateProductCall sample_product, ListProductsCall 0 0]
       sample_products = ([ProductAnswer (Inl e), ProductAnswer (Inr sample_product), ListAnswer x], w3)"
    using e w2 x p(3,4) odd_product_accepted by (simp add: csvc_CreateProduct_def pg_product_repo_def)
  have "schema_ok (tables sample_products)"
    using s(3) product_row_checked by (auto simp: catalog_db_inv_def table_inv_def rows_inv_def)
  from catalog_answers_well_formed [OF this alone_others_keep [OF s(1)] r] s(3) alone_others_keep [OF s(1)] r show ?thesis by auto
qed

text \<open>
  MongoDB stores it. The document is written before it is mapped back: the creation is
  answered with an internal error, and from then on so is every listing that meets the
  document, although it worked before.
\<close>
theorem mongo_unknown_currency_hides_catalog:
  "\<exists>w v e w1 e' w2. csvc_CreateProduct mongo_product_repo sample_product sample_documents = (Inr sample_product, w) \<and>
     csvc_ListProducts mongo_product_repo 1 20 w = (Inr ([sample_product], 1), v) \<and>
     csvc_CreateProduct mongo_product_repo odd_product w = (Inl (ProductInternal e), w1) \<and>
     csvc_ListProducts mongo_product_repo 1 20 w1 = (Inl (ProductInternal e'), w2)"
proof -
  let ?d = "create_set 0 sample_product (create_on_insert 0 sample_product)"
  let ?o = "create_set 0 odd_product (create_on_insert 0 odd_product)"
  let ?w = "\<lambda>ds n. calm_world \<lparr>documents = ds\<rparr> 0\<lparr>calls := n\<rparr>"
  have w: "the_attempt (?w ds n) = calm 0" "found (?w ds n) = \<lparr>documents = ds\<rparr>" "calm_world \<lparr>documents = ds\<rparr> 0\<lparr>tables := \<lparr>documents = es\<rparr>\<rparr> = calm_world \<lparr>documents = es\<rparr> 0"
    for ds es n by (simp_all add: calm_world_def the_attempt_def found_def)
  have p: "validateProduct sample_product = None" "TrimSpace (prID sample_product) \<noteq> []" "TrimSpace (prName sample_product) \<noteq> []"
    by (simp_all add: validateProduct_def sample_product_def)
  have d: "mapMongoProduct ?d = Inr sample_product" "pdID ?d = ''p1''" "pdID ?o = ''p0''" "prID odd_product = ''p0''" "prID sample_product = ''p1''"
    by (simp_all add: mapMongoProduct_def mapDBCurrency_def create_set_def create_on_insert_def sample_product_def odd_product_def)
  obtain e where e: "mapMongoProduct ?o = Inl e"
    by (simp add: mapMongoProduct_def mapDBCurrency_def create_set_def odd_product_def)
  have k: "sort_key (\<lambda>d. bson_key (pdID d)) [?d, ?o] = [?o, ?d]"
    using d(2,3) by (simp add: bson_key_def)
  have off: "page_offset 1 20 = 0" "page_limit 20 n = 20" for n by (simp_all add: page_offset_def page_limit_def wrap32_def wrap64_def)
  have c1: "csvc_CreateProduct mongo_product_repo sample_product (?w [] 0) = (Inr sample_product, ?w [?d] 1)"
    using p d by (simp add: csvc_CreateProduct_def mongo_product_repo_def mongo_CreateProduct_def with_attempt_def w FindOneAndUpdate_def)
  have l1: "csvc_ListProducts mongo_product_repo 1 20 (?w [?d] 1) = (Inr ([sample_product], 1), ?w [?d] 3)"
    using d by (simp add: csvc_ListProducts_def mongo_product_repo_def mongo_ListProducts_def with_read_def w off Find_def)
  have c2: "csvc_CreateProduct mongo_product_repo odd_product (?w [?d] 1) = (Inl (ProductInternal e), ?w [?d, ?o] 2)"
    using odd_product_accepted d e by (simp add: csvc_CreateProduct_def mongo_product_repo_def mongo_CreateProduct_def with_attempt_def w FindOneAndUpdate_def)
  have l2: "csvc_ListProducts mongo_product_repo 1 20 (?w [?d, ?o] 2) =
      (Inl (ProductInternal (''map listed catalog products from mongo: '' @ e)), ?w [?d, ?o] 4)"
    using e k by (simp add: csvc_ListProducts_def mongo_product_repo_def mongo_ListProducts_def with_read_def w off Find_def del: sort_key_simps)
  have "sample_documents = ?w [] 0" by (simp add: sample_documents_def calm_world_def)
  with c1 l1 c2 l2 show ?thesis by metis
qed

end
