(* ===== verification/Gateway_Client.thy ===== *)
theory Gateway_Client
  imports Order_Handler Payment_Events Catalog_Service Inventory_Handler
begin

text \<open>
  The gRPC clients of the gateway (\<open>internal/gateway/client\<close>). The connection is a
  parameter: a \<open>backend\<close> answers each procedure with a response or an error, which is a status
  (of the service, or of the transport, such as \<open>Unavailable\<close>) or the end of the caller's
  context. A response's message pointer may be nil, which is \<open>None\<close>. The request identifier
  the clients attach is for logs only and left out.
\<close>

section \<open>Errors of a call\<close>

datatype client_error =
    RpcStatus grpc_status
  | ContextDeadlineExceeded
  | ContextCanceled
  | ClientError string

text \<open>\<open>status.Code(err)\<close>: errors that carry no status have the code \<open>Unknown\<close>.\<close>

definition status_Code :: "client_error \<Rightarrow> grpc_code" where
  "status_Code e = (case e of RpcStatus st \<Rightarrow> code st | _ \<Rightarrow> Unknown)"

fun client_error_text :: "client_error \<Rightarrow> string" where
  "client_error_text (RpcStatus st) = ''rpc error: '' @ description st"
| "client_error_text ContextDeadlineExceeded = ''context deadline exceeded''"
| "client_error_text ContextCanceled = ''context canceled''"
| "client_error_text (ClientError m) = m"

section \<open>The services behind the connections\<close>

record 's backend =
  rpcCreateOrder :: "pb_create_request \<Rightarrow> 's \<Rightarrow> (client_error + pb_order option) \<times> 's"
  rpcGetOrderByID :: "string \<Rightarrow> 's \<Rightarrow> (client_error + pb_order option) \<times> 's"
  rpcListOrdersByCustomer :: "string \<Rightarrow> int \<Rightarrow> int \<Rightarrow> 's \<Rightarrow> (client_error + pb_list_response) \<times> 's"
  rpcCancelOrder :: "string \<Rightarrow> string \<Rightarrow> 's \<Rightarrow> (client_error + pb_order option) \<times> 's"
  rpcCreatePayment :: "pb_create_payment \<Rightarrow> 's \<Rightarrow> (client_error + pb_payment option) \<times> 's"
  rpcGetPaymentByID :: "string \<Rightarrow> 's \<Rightarrow> (client_error + pb_payment option) \<times> 's"
  rpcGetPaymentByOrderID :: "string \<Rightarrow> 's \<Rightarrow> (client_error + pb_payment option) \<times> 's"
  rpcListPaymentsByCustomer :: "string \<Rightarrow> int \<Rightarrow> int \<Rightarrow> 's \<Rightarrow> (client_error + pb_payment_list) \<times> 's"
  rpcCancelPayment :: "string \<Rightarrow> string \<Rightarrow> 's \<Rightarrow> (client_error + pb_payment option) \<times> 's"
  rpcCapturePayment :: "string \<Rightarrow> 's \<Rightarrow> (client_error + pb_payment option) \<times> 's"
  rpcCreateProduct :: "pb_product option \<Rightarrow> 's \<Rightarrow> (client_error + pb_product option) \<times> 's"
  rpcUpdateProduct :: "pb_update_product \<Rightarrow> 's \<Rightarrow> (client_error + pb_product option) \<times> 's"
  rpcGetProductByID :: "string \<Rightarrow> 's \<Rightarrow> (client_error + pb_product option) \<times> 's"
  rpcListProducts :: "int \<Rightarrow> int \<Rightarrow> 's \<Rightarrow> (client_error + pb_product_list) \<times> 's"
  rpcDeleteProduct :: "string \<Rightarrow> 's \<Rightarrow> (client_error + unit) \<times> 's"
  rpcGetStockByProductID :: "string \<Rightarrow> 's \<Rightarrow> (client_error + pb_stock option) \<times> 's"
  rpcReserveStock :: "pb_stock_request \<Rightarrow> 's \<Rightarrow> (client_error + pb_stock option) \<times> 's"
  rpcReleaseStock :: "pb_stock_request \<Rightarrow> 's \<Rightarrow> (client_error + pb_stock option) \<times> 's"

text \<open>Passing an error on, and converting a response.\<close>

definition forward :: "('a \<Rightarrow> 'b) \<Rightarrow> ('e + 'a) \<times> 's \<Rightarrow> ('e + 'b) \<times> 's" where
  "forward f r = apfst (map_sum id f) r"

lemma forward_simps [simp]: "forward f (Inl e, s) = (Inl e, s)" "forward f (Inr x, s) = (Inr (f x), s)"
  by (simp_all add: forward_def)

section \<open>Values\<close>

text \<open>
  The structures of the client packages and of the gateway service that have the same fields
  share one record here: money, addresses, payment details, order items, payments, products.
\<close>

record gw_money =
  gmCurrency :: string
  gmAmountCents :: int

record gw_address =
  gaCountry :: string
  gaCity :: string
  gaStreet :: string
  gaPostalCode :: string
  gaHouse :: string
  gaApartment :: string

record gw_payment_details =
  gdMethod :: string
  gdMethodDetails :: string

record gw_create_item =
  gcProductID :: string
  gcSKU :: string
  gcProductName :: string
  gcQuantity :: int
  gcUnitPrice :: gw_money

record gw_item =
  giProductID :: string
  giSKU :: string
  giProductName :: string
  giQuantity :: int
  giUnitPrice :: gw_money
  giTotalPrice :: gw_money

record gw_order =
  goID :: string
  goCustomerID :: string
  goItems :: "gw_item list"
  goTotalAmount :: gw_money
  goStatus :: string
  goShippingAddress :: gw_address
  goPayment :: gw_payment_details
  goCancelReason :: string
  goCreatedAt :: string
  goUpdatedAt :: string

record gw_create_order =
  gqCustomerID :: string
  gqItems :: "gw_create_item list"
  gqShippingAddress :: gw_address
  gqIdempotencyKey :: string
  gqPayment :: gw_payment_details

record gw_payment =
  gyID :: string
  gyOrderID :: string
  gyCustomerID :: string
  gyStatus :: string
  gyAmount :: gw_money
  gyPaymentMethod :: string

record gw_create_payment =
  gyrOrderID :: string
  gyrCustomerID :: string
  gyrAmount :: gw_money
  gyrPaymentMethod :: string
  gyrPaymentMethodDetails :: string
  gyrIdempotencyKey :: string

record gw_product =
  gpID :: string
  gpName :: string
  gpDescription :: string
  gpPriceCents :: int
  gpCurrency :: string

record gw_product_update =
  guProductID :: string
  guName :: "string option"
  guDescription :: "string option"
  guPriceCents :: "int option"
  guCurrency :: "string option"

record gw_stock =
  gsProductID :: string
  gsAvailable :: int
  gsReserved :: int
  gsTotal :: int

text \<open>A page of a listing.\<close>

record 'a gw_page =
  gwItems :: "'a list"
  gwPage :: int
  gwPageSize :: int
  gwTotal :: int

section \<open>Conversions of the order client\<close>

definition client_parseCurrency :: "string \<Rightarrow> string \<Rightarrow> client_error + currency" where
  "client_parseCurrency what value =
     (let v = ToUpper (TrimSpace value)
      in if v \<in> {''USD'', ''CURRENCY_USD''} then Inr CURRENCY_USD
         else if v \<in> {''EUR'', ''CURRENCY_EUR''} then Inr CURRENCY_EUR
         else Inl (ClientError (what @ '': '' @ quote value)))"

definition client_parsePaymentMethod :: "string \<Rightarrow> client_error + payment_method" where
  "client_parsePaymentMethod value =
     (let v = ToUpper (TrimSpace value)
      in if v \<in> {''CARD'', ''PAYMENT_METHOD_TYPE_CARD''} then Inr PAYMENT_METHOD_TYPE_CARD
         else if v \<in> {''CASH'', ''PAYMENT_METHOD_TYPE_CASH''} then Inr PAYMENT_METHOD_TYPE_CASH
         else Inl (ClientError (''unsupported payment method: '' @ quote value)))"

definition mapMoneyToProto :: "gw_money \<Rightarrow> client_error + pb_money" where
  "mapMoneyToProto m =
     (case client_parseCurrency ''unsupported order currency'' (gmCurrency m) of
        Inl e \<Rightarrow> Inl e
      | Inr c \<Rightarrow> Inr \<lparr>pmCurrency = c, pmAmountCents = gmAmountCents m\<rparr>)"

fun mapCreateOrderItemsToProto :: "gw_create_item list \<Rightarrow> client_error + pb_create_item list" where
  "mapCreateOrderItemsToProto [] = Inr []"
| "mapCreateOrderItemsToProto (item # items) =
     (case mapMoneyToProto (gcUnitPrice item) of
        Inl e \<Rightarrow> Inl e
      | Inr price \<Rightarrow>
          (case mapCreateOrderItemsToProto items of
             Inl e \<Rightarrow> Inl e
           | Inr rest \<Rightarrow>
               Inr (\<lparr>pcProductId = TrimSpace (gcProductID item), pcSku = TrimSpace (gcSKU item),
                     pcProductName = TrimSpace (gcProductName item), pcQuantity = gcQuantity item,
                     pcUnitPrice = Some price\<rparr> # rest)))"

definition mapAddressToProto :: "gw_address \<Rightarrow> pb_address" where
  "mapAddressToProto a =
     \<lparr>paCountry = TrimSpace (gaCountry a), paCity = TrimSpace (gaCity a), paStreet = TrimSpace (gaStreet a),
      paPostalCode = TrimSpace (gaPostalCode a), paHouse = TrimSpace (gaHouse a), paApartment = TrimSpace (gaApartment a)\<rparr>"

definition mapPaymentDetailsToProto :: "gw_payment_details \<Rightarrow> client_error + (payment_method \<times> string)" where
  "mapPaymentDetailsToProto d =
     (case client_parsePaymentMethod (gdMethod d) of
        Inl e \<Rightarrow> Inl e
      | Inr m \<Rightarrow> Inr (m, TrimSpace (gdMethodDetails d)))"

definition zero_gw_money :: gw_money where
  "zero_gw_money = \<lparr>gmCurrency = [], gmAmountCents = 0\<rparr>"

definition mapProtoMoney :: "pb_money option \<Rightarrow> gw_money" where
  "mapProtoMoney m =
     (case m of None \<Rightarrow> zero_gw_money
      | Some p \<Rightarrow> \<lparr>gmCurrency = Currency_String (pmCurrency p), gmAmountCents = pmAmountCents p\<rparr>)"

definition mapProtoAddress :: "pb_address option \<Rightarrow> gw_address" where
  "mapProtoAddress a =
     (case a of
        None \<Rightarrow> \<lparr>gaCountry = [], gaCity = [], gaStreet = [], gaPostalCode = [], gaHouse = [], gaApartment = []\<rparr>
      | Some p \<Rightarrow> \<lparr>gaCountry = paCountry p, gaCity = paCity p, gaStreet = paStreet p,
                    gaPostalCode = paPostalCode p, gaHouse = paHouse p, gaApartment = paApartment p\<rparr>)"

definition mapProtoPaymentDetails :: "pb_payment_details option \<Rightarrow> gw_payment_details" where
  "mapProtoPaymentDetails d =
     (case d of None \<Rightarrow> \<lparr>gdMethod = [], gdMethodDetails = []\<rparr>
      | Some p \<Rightarrow> \<lparr>gdMethod = PaymentMethodType_String (pdMethod p), gdMethodDetails = pdMethodDetails p\<rparr>)"

definition mapProtoOrderItems :: "pb_order_item list \<Rightarrow> gw_item list" where
  "mapProtoOrderItems items =
     map (\<lambda>i. \<lparr>giProductID = piProductId i, giSKU = piSku i, giProductName = piProductName i,
               giQuantity = piQuantity i, giUnitPrice = mapProtoMoney (Some (piUnitPrice i)),
               giTotalPrice = mapProtoMoney (Some (piTotalPrice i))\<rparr>) items"

definition mapProtoOrder :: "pb_order option \<Rightarrow> gw_order option" where
  "mapProtoOrder order =
     (case order of None \<Rightarrow> None
      | Some p \<Rightarrow> Some
          \<lparr>goID = poOrderId p, goCustomerID = poCustomerId p, goItems = mapProtoOrderItems (poItems p),
           goTotalAmount = mapProtoMoney (Some (poTotalAmount p)), goStatus = OrderStatus_String (poStatus p),
           goShippingAddress = mapProtoAddress (Some (poShippingAddress p)),
           goPayment = mapProtoPaymentDetails (Some (poPayment p)), goCancelReason = poCancelReason p,
           goCreatedAt = poCreatedAt p, goUpdatedAt = poUpdatedAt p\<rparr>)"

definition mapProtoOrders :: "pb_order list \<Rightarrow> gw_order list" where
  "mapProtoOrders os = List.map_filter (\<lambda>p. mapProtoOrder (Some p)) os"

section \<open>The order client\<close>

definition oc_CreateOrder :: "'s backend \<Rightarrow> gw_create_order option \<Rightarrow> 's \<Rightarrow> (client_error + gw_order option) \<times> 's" where
  "oc_CreateOrder conn req s =
     (case req of
        None \<Rightarrow> (Inl (ClientError ''create order request is nil''), s)
      | Some q \<Rightarrow>
     (case mapCreateOrderItemsToProto (gqItems q) of
        Inl e \<Rightarrow> (Inl e, s)
      | Inr items \<Rightarrow>
     (case mapPaymentDetailsToProto (gqPayment q) of
        Inl e \<Rightarrow> (Inl e, s)
      | Inr (m, details) \<Rightarrow>
          forward mapProtoOrder (rpcCreateOrder conn
            \<lparr>rqCustomerId = gqCustomerID q, rqIdempotencyKey = gqIdempotencyKey q, rqItems = items,
             rqShippingAddress = Some (mapAddressToProto (gqShippingAddress q)),
             rqPayment = Some \<lparr>pdMethod = m, pdMethodDetails = details\<rparr>\<rparr> s))))"

definition oc_GetOrderByID :: "'s backend \<Rightarrow> string \<Rightarrow> 's \<Rightarrow> (client_error + gw_order option) \<times> 's" where
  "oc_GetOrderByID conn oid s =
     (if TrimSpace oid = [] then (Inl (ClientError ''order id is required''), s)
      else forward mapProtoOrder (rpcGetOrderByID conn oid s))"

text \<open>Page and page size are \<open>int\<close> in the gateway and converted to \<open>int32\<close>.\<close>

definition oc_ListOrdersByCustomer ::
    "'s backend \<Rightarrow> (string \<times> int \<times> int) option \<Rightarrow> 's \<Rightarrow> (client_error + gw_order gw_page) \<times> 's" where
  "oc_ListOrdersByCustomer conn req s =
     (case req of
        None \<Rightarrow> (Inl (ClientError ''list orders by customer request is nil''), s)
      | Some (cid, page, pageSize) \<Rightarrow>
          if TrimSpace cid = [] then (Inl (ClientError ''customer id is required''), s)
          else forward (\<lambda>r. \<lparr>gwItems = mapProtoOrders (rlOrders r), gwPage = rlPage r, gwPageSize = rlPageSize r, gwTotal = rlTotal r\<rparr>)
                 (rpcListOrdersByCustomer conn cid (wrap32 page) (wrap32 pageSize) s))"

definition oc_CancelOrder :: "'s backend \<Rightarrow> (string \<times> string) option \<Rightarrow> 's \<Rightarrow> (client_error + gw_order option) \<times> 's" where
  "oc_CancelOrder conn req s =
     (case req of
        None \<Rightarrow> (Inl (ClientError ''cancel order request is nil''), s)
      | Some (oid, reason) \<Rightarrow> forward mapProtoOrder (rpcCancelOrder conn oid reason s))"

section \<open>The payment client\<close>

definition payment_mapMoneyToProto :: "gw_money \<Rightarrow> client_error + pb_payment_money" where
  "payment_mapMoneyToProto m =
     (case client_parseCurrency ''unsupported payment currency'' (gmCurrency m) of
        Inl e \<Rightarrow> Inl e
      | Inr c \<Rightarrow> Inr \<lparr>pymCurrency = c, pymAmountCents = gmAmountCents m\<rparr>)"

definition payment_mapProtoMoney :: "pb_payment_money option \<Rightarrow> gw_money" where
  "payment_mapProtoMoney m =
     (case m of None \<Rightarrow> zero_gw_money
      | Some p \<Rightarrow> \<lparr>gmCurrency = Currency_String (pymCurrency p), gmAmountCents = pymAmountCents p\<rparr>)"

definition mapProtoPayment :: "pb_payment option \<Rightarrow> gw_payment option" where
  "mapProtoPayment payment =
     (case payment of None \<Rightarrow> None
      | Some p \<Rightarrow> Some
          \<lparr>gyID = pypPaymentId p, gyOrderID = pypOrderId p, gyCustomerID = pypCustomerId p,
           gyStatus = PaymentStatus_String (pypStatus p), gyAmount = payment_mapProtoMoney (Some (pypAmount p)),
           gyPaymentMethod = PaymentMethodType_String (pypPaymentMethod p)\<rparr>)"

definition mapProtoPayments :: "pb_payment list \<Rightarrow> gw_payment list" where
  "mapProtoPayments ps = List.map_filter (\<lambda>p. mapProtoPayment (Some p)) ps"

definition yc_CreatePayment :: "'s backend \<Rightarrow> gw_create_payment option \<Rightarrow> 's \<Rightarrow> (client_error + gw_payment option) \<times> 's" where
  "yc_CreatePayment conn req s =
     (case req of
        None \<Rightarrow> (Inl (ClientError ''create payment request is nil''), s)
      | Some q \<Rightarrow>
     (case payment_mapMoneyToProto (gyrAmount q) of
        Inl e \<Rightarrow> (Inl e, s)
      | Inr amount \<Rightarrow>
     (case client_parsePaymentMethod (gyrPaymentMethod q) of
        Inl e \<Rightarrow> (Inl e, s)
      | Inr m \<Rightarrow>
          forward mapProtoPayment (rpcCreatePayment conn
            \<lparr>pyrOrderId = gyrOrderID q, pyrCustomerId = gyrCustomerID q, pyrAmount = Some amount, pyrPaymentMethod = m,
             pyrPaymentMethodDetails = gyrPaymentMethodDetails q, pyrIdempotencyKey = gyrIdempotencyKey q\<rparr> s))))"

definition yc_GetPaymentByID :: "'s backend \<Rightarrow> string option \<Rightarrow> 's \<Rightarrow> (client_error + gw_payment option) \<times> 's" where
  "yc_GetPaymentByID conn req s =
     (case req of
        None \<Rightarrow> (Inl (ClientError ''get payment by id request is nil''), s)
      | Some pid \<Rightarrow>
          if TrimSpace pid = [] then (Inl (ClientError ''payment id is required''), s)
          else forward mapProtoPayment (rpcGetPaymentByID conn pid s))"

definition yc_GetPaymentByOrderID :: "'s backend \<Rightarrow> string option \<Rightarrow> 's \<Rightarrow> (client_error + gw_payment option) \<times> 's" where
  "yc_GetPaymentByOrderID conn req s =
     (case req of
        None \<Rightarrow> (Inl (ClientError ''get payment by order id request is nil''), s)
      | Some oid0 \<Rightarrow>
          (let oid = TrimSpace oid0
           in if oid = [] then (Inl (ClientError ''order id is required''), s)
              else forward mapProtoPayment (rpcGetPaymentByOrderID conn oid s)))"

definition yc_ListPaymentsByCustomer ::
    "'s backend \<Rightarrow> (string \<times> int \<times> int) option \<Rightarrow> 's \<Rightarrow> (client_error + gw_payment gw_page) \<times> 's" where
  "yc_ListPaymentsByCustomer conn req s =
     (case req of
        None \<Rightarrow> (Inl (ClientError ''list payments by customer request is nil''), s)
      | Some (cid0, page, pageSize) \<Rightarrow>
          (let cid = TrimSpace cid0
           in if cid = [] then (Inl (ClientError ''customer id is required''), s)
              else forward (\<lambda>r. \<lparr>gwItems = mapProtoPayments (pylPayments r), gwPage = pylPage r, gwPageSize = pylPageSize r, gwTotal = pylTotal r\<rparr>)
                     (rpcListPaymentsByCustomer conn cid (wrap32 page) (wrap32 pageSize) s)))"

definition yc_CancelPayment :: "'s backend \<Rightarrow> (string \<times> string) option \<Rightarrow> 's \<Rightarrow> (client_error + gw_payment option) \<times> 's" where
  "yc_CancelPayment conn req s =
     (case req of
        None \<Rightarrow> (Inl (ClientError ''cancel payment request is nil''), s)
      | Some (pid0, reason) \<Rightarrow>
          (let pid = TrimSpace pid0
           in if pid = [] then (Inl (ClientError ''payment id is required''), s)
              else forward mapProtoPayment (rpcCancelPayment conn pid (TrimSpace reason) s)))"

definition yc_CapturePayment :: "'s backend \<Rightarrow> string option \<Rightarrow> 's \<Rightarrow> (client_error + gw_payment option) \<times> 's" where
  "yc_CapturePayment conn req s =
     (case req of
        None \<Rightarrow> (Inl (ClientError ''capture payment request is nil''), s)
      | Some pid0 \<Rightarrow>
          (let pid = TrimSpace pid0
           in if pid = [] then (Inl (ClientError ''payment id is required''), s)
              else forward mapProtoPayment (rpcCapturePayment conn pid s)))"

section \<open>The catalog client\<close>

definition mapProtoProduct :: "pb_product option \<Rightarrow> gw_product option" where
  "mapProtoProduct product =
     (case product of None \<Rightarrow> None
      | Some p \<Rightarrow> Some \<lparr>gpID = ppbProductId p, gpName = ppbName p, gpDescription = ppbDescription p,
          gpPriceCents = ppbPriceCents p, gpCurrency = Currency_String (ppbCurrency p)\<rparr>)"

definition mapProtoProducts :: "pb_product list \<Rightarrow> gw_product list" where
  "mapProtoProducts ps = List.map_filter (\<lambda>p. mapProtoProduct (Some p)) ps"

definition cc_CreateProduct :: "'s backend \<Rightarrow> gw_product option \<Rightarrow> 's \<Rightarrow> (client_error + gw_product option) \<times> 's" where
  "cc_CreateProduct conn req s =
     (case req of
        None \<Rightarrow> (Inl (ClientError ''create product request is nil''), s)
      | Some q \<Rightarrow>
     (case client_parseCurrency ''unsupported catalog currency'' (gpCurrency q) of
        Inl e \<Rightarrow> (Inl e, s)
      | Inr c \<Rightarrow>
          forward mapProtoProduct (rpcCreateProduct conn
            (Some \<lparr>ppbProductId = TrimSpace (gpID q), ppbName = TrimSpace (gpName q), ppbDescription = TrimSpace (gpDescription q),
                   ppbPriceCents = gpPriceCents q, ppbCurrency = c\<rparr>) s)))"

definition cc_UpdateProduct :: "'s backend \<Rightarrow> gw_product_update option \<Rightarrow> 's \<Rightarrow> (client_error + gw_product option) \<times> 's" where
  "cc_UpdateProduct conn req s =
     (case req of
        None \<Rightarrow> (Inl (ClientError ''update product request is nil''), s)
      | Some q \<Rightarrow>
     (let pid = TrimSpace (guProductID q)
      in if pid = [] then (Inl (ClientError ''product id is required''), s)
      else
        let send = (\<lambda>c. forward mapProtoProduct (rpcUpdateProduct conn
              \<lparr>puProductId = pid, puName = map_option TrimSpace (guName q),
               puDescription = map_option TrimSpace (guDescription q), puPriceCents = guPriceCents q, puCurrency = c\<rparr> s))
        in case guCurrency q of
             None \<Rightarrow> send None
           | Some v \<Rightarrow> (case client_parseCurrency ''unsupported catalog currency'' v of
                Inl e \<Rightarrow> (Inl e, s)
              | Inr c \<Rightarrow> send (Some c))))"

definition cc_GetProductByID :: "'s backend \<Rightarrow> string \<Rightarrow> 's \<Rightarrow> (client_error + gw_product option) \<times> 's" where
  "cc_GetProductByID conn pid0 s =
     (let pid = TrimSpace pid0
      in if pid = [] then (Inl (ClientError ''product id is required''), s)
         else forward mapProtoProduct (rpcGetProductByID conn pid s))"

definition cc_ListProducts :: "'s backend \<Rightarrow> (int \<times> int) option \<Rightarrow> 's \<Rightarrow> (client_error + gw_product gw_page) \<times> 's" where
  "cc_ListProducts conn req s =
     (case req of
        None \<Rightarrow> (Inl (ClientError ''list products request is nil''), s)
      | Some (page, pageSize) \<Rightarrow>
          forward (\<lambda>r. \<lparr>gwItems = mapProtoProducts (pplProducts r), gwPage = pplPage r, gwPageSize = pplPageSize r, gwTotal = pplTotal r\<rparr>)
            (rpcListProducts conn (wrap32 page) (wrap32 pageSize) s))"

definition cc_DeleteProduct :: "'s backend \<Rightarrow> string \<Rightarrow> 's \<Rightarrow> (client_error + unit) \<times> 's" where
  "cc_DeleteProduct conn pid0 s =
     (let pid = TrimSpace pid0
      in if pid = [] then (Inl (ClientError ''product id is required''), s)
         else rpcDeleteProduct conn pid s)"

section \<open>The inventory client\<close>

definition mapProtoStock :: "pb_stock option \<Rightarrow> gw_stock option" where
  "mapProtoStock stock =
     (case stock of None \<Rightarrow> None
      | Some p \<Rightarrow> Some \<lparr>gsProductID = psProductId p, gsAvailable = psAvailableQuantity p,
          gsReserved = psReservedQuantity p, gsTotal = psTotalQuantity p\<rparr>)"

definition ic_GetStockByProductID :: "'s backend \<Rightarrow> string option \<Rightarrow> 's \<Rightarrow> (client_error + gw_stock option) \<times> 's" where
  "ic_GetStockByProductID conn req s =
     (case req of
        None \<Rightarrow> (Inl (ClientError ''get stock request is nil''), s)
      | Some pid0 \<Rightarrow>
          (let pid = TrimSpace pid0
           in if pid = [] then (Inl (ClientError ''product id is required''), s)
              else forward mapProtoStock (rpcGetStockByProductID conn pid s)))"

definition ic_ReserveStock :: "'s backend \<Rightarrow> pb_stock_request option \<Rightarrow> 's \<Rightarrow> (client_error + gw_stock option) \<times> 's" where
  "ic_ReserveStock conn req s =
     (case req of
        None \<Rightarrow> (Inl (ClientError ''reserve stock request is nil''), s)
      | Some q \<Rightarrow> forward mapProtoStock (rpcReserveStock conn q s))"

definition ic_ReleaseStock :: "'s backend \<Rightarrow> pb_stock_request option \<Rightarrow> 's \<Rightarrow> (client_error + gw_stock option) \<times> 's" where
  "ic_ReleaseStock conn req s =
     (case req of
        None \<Rightarrow> (Inl (ClientError ''release stock request is nil''), s)
      | Some q \<Rightarrow> forward mapProtoStock (rpcReleaseStock conn q s))"

end
