(* ===== verification/Gateway_Service.thy ===== *)
theory Gateway_Service
  imports Gateway_Client
begin

text \<open>
  The gateway's service (\<open>internal/gateway/service\<close>): validation and normalisation of the
  requests, one call of a downstream client each, and the classification of its errors. The
  timeouts act through the backend, which may answer that the context ended. A client that is
  not configured is a nil interface: where the code does not check it, the call panics.
  The idempotent cancellation of orders is in \<open>Gateway_Cancel\<close>.
\<close>

section \<open>Errors\<close>

text \<open>Every error the service returns wraps one of its sentinels; the text is what it adds.\<close>

datatype gateway_error =
    ErrInvalidInput string
  | ErrIdempotencyConflict string
  | ErrPreconditionFailed string
  | ErrUnsupportedCurrency string
  | ErrUnsupportedPaymentMethod string
  | ErrDownstreamNotFound string
  | ErrDownstreamFailed string
  | ErrTimeout string
  | ErrRequestCanceled string
  | NilClientPanic

definition wrapDownstreamError :: "string \<Rightarrow> client_error \<Rightarrow> gateway_error" where
  "wrapDownstreamError operation err =
     (let text' = operation @ '': '' @ client_error_text err
      in if err = ContextDeadlineExceeded \<or> status_Code err = DeadlineExceeded then ErrTimeout text'
         else if err = ContextCanceled \<or> status_Code err = Canceled then ErrRequestCanceled text'
         else if status_Code err = FailedPrecondition then ErrPreconditionFailed text'
         else if status_Code err = NotFound then ErrDownstreamNotFound text'
         else ErrDownstreamFailed text')"

section \<open>The service\<close>

record 's gateway_service =
  orderClient :: "'s backend option"
  inventoryClient :: "'s backend option"
  paymentClient :: "'s backend option"
  catalogClient :: "'s backend option"

text \<open>\<open>NewGatewayService\<close> with the options of \<open>cmd/gateway-service\<close>.\<close>

definition NewGatewayService :: "'s backend \<Rightarrow> 's backend \<Rightarrow> 's backend \<Rightarrow> 's backend \<Rightarrow> 's gateway_service" where
  "NewGatewayService order inventory payment catalog =
     \<lparr>orderClient = Some order, inventoryClient = Some inventory, paymentClient = Some payment, catalogClient = Some catalog\<rparr>"

definition ReadinessStatus :: "'s gateway_service option \<Rightarrow> bool \<times> string list" where
  "ReadinessStatus svc =
     (case svc of
        None \<Rightarrow> (False, [''gateway_service''])
      | Some g \<Rightarrow>
          (let missing = (if orderClient g = None then [''order_client''] else []) @
                 (if inventoryClient g = None then [''inventory_client''] else []) @
                 (if paymentClient g = None then [''payment_client''] else []) @
                 (if catalogClient g = None then [''catalog_client''] else [])
           in (length missing = 0, missing)))"

text \<open>A downstream call: a nil client panics, an error is wrapped, a nil answer is an error.\<close>

definition downstream ::
    "'s backend option \<Rightarrow> ('s backend \<Rightarrow> 's \<Rightarrow> (client_error + 'a) \<times> 's) \<Rightarrow> string \<Rightarrow> 's \<Rightarrow> (gateway_error + 'a) \<times> 's" where
  "downstream client call operation s =
     (case client of
        None \<Rightarrow> (Inl NilClientPanic, s)
      | Some conn \<Rightarrow> apfst (map_sum (wrapDownstreamError operation) id) (call conn s))"

definition required_response :: "string \<Rightarrow> ('a \<Rightarrow> 'b) \<Rightarrow> (gateway_error + 'a option) \<times> 's \<Rightarrow> (gateway_error + 'b) \<times> 's" where
  "required_response what f r =
     apfst (\<lambda>x. case x of
        Inl e \<Rightarrow> Inl e
      | Inr None \<Rightarrow> Inl (ErrDownstreamFailed (what @ '' response is empty''))
      | Inr (Some y) \<Rightarrow> Inr (f y)) r"

section \<open>Normalisation\<close>

definition normalizeCurrency :: "string \<Rightarrow> gateway_error + string" where
  "normalizeCurrency value =
     (let v = ToUpper (TrimSpace value)
      in if v \<in> {''USD'', ''CURRENCY_USD''} then Inr ''CURRENCY_USD''
         else if v \<in> {''EUR'', ''CURRENCY_EUR''} then Inr ''CURRENCY_EUR''
         else Inl (ErrUnsupportedCurrency (quote value)))"

definition normalizePaymentMethod :: "string \<Rightarrow> gateway_error + string" where
  "normalizePaymentMethod value =
     (let v = ToUpper (TrimSpace value)
      in if v \<in> {''CARD'', ''PAYMENT_METHOD_TYPE_CARD''} then Inr ''PAYMENT_METHOD_TYPE_CARD''
         else if v \<in> {''CASH'', ''PAYMENT_METHOD_TYPE_CASH''} then Inr ''PAYMENT_METHOD_TYPE_CASH''
         else Inl (ErrUnsupportedPaymentMethod (quote value)))"

fun mapCheckoutItemsToOrderItems :: "gw_item list \<Rightarrow> gateway_error + gw_create_item list" where
  "mapCheckoutItemsToOrderItems [] = Inr []"
| "mapCheckoutItemsToOrderItems (item # items) =
     (if TrimSpace (giProductID item) = [] \<or> giQuantity item \<le> 0 \<or> gmAmountCents (giUnitPrice item) \<le> 0
      then Inl (ErrInvalidInput ''invalid checkout item'')
      else
     (case normalizeCurrency (gmCurrency (giUnitPrice item)) of
        Inl e \<Rightarrow> Inl e
      | Inr c \<Rightarrow>
     (case mapCheckoutItemsToOrderItems items of
        Inl e \<Rightarrow> Inl e
      | Inr rest \<Rightarrow>
          Inr (\<lparr>gcProductID = TrimSpace (giProductID item), gcSKU = TrimSpace (giSKU item),
                gcProductName = TrimSpace (giProductName item), gcQuantity = giQuantity item,
                gcUnitPrice = \<lparr>gmCurrency = c, gmAmountCents = gmAmountCents (giUnitPrice item)\<rparr>\<rparr> # rest))))"

definition mapAddressToOrderClient :: "gw_address \<Rightarrow> gw_address" where
  "mapAddressToOrderClient a =
     \<lparr>gaCountry = TrimSpace (gaCountry a), gaCity = TrimSpace (gaCity a), gaStreet = TrimSpace (gaStreet a),
      gaPostalCode = TrimSpace (gaPostalCode a), gaHouse = TrimSpace (gaHouse a), gaApartment = TrimSpace (gaApartment a)\<rparr>"

section \<open>Checkout\<close>

record checkout_input =
  ciCustomerID :: string
  ciItems :: "gw_item list"
  ciShippingAddress :: gw_address
  ciIdempotencyKey :: string
  ciPayment :: gw_payment_details

definition check_checkout :: "checkout_input \<Rightarrow> gateway_error option" where
  "check_checkout i =
     (if TrimSpace (ciCustomerID i) = [] then Some (ErrInvalidInput ''customer id is required'')
      else if ciItems i = [] then Some (ErrInvalidInput ''at least one item is required'')
      else if TrimSpace (gaCountry (ciShippingAddress i)) = [] \<or> TrimSpace (gaCity (ciShippingAddress i)) = [] \<or>
        TrimSpace (gaStreet (ciShippingAddress i)) = [] \<or> TrimSpace (gaPostalCode (ciShippingAddress i)) = [] \<or>
        TrimSpace (gaHouse (ciShippingAddress i)) = [] then Some (ErrInvalidInput ''complete shipping address is required'')
      else if TrimSpace (gdMethod (ciPayment i)) = [] then Some (ErrInvalidInput ''payment method is required'')
      else None)"

text \<open>The result is the order's identifier and status.\<close>

definition gw_Checkout ::
    "'s gateway_service \<Rightarrow> checkout_input option \<Rightarrow> 's \<Rightarrow> (gateway_error + (string \<times> string)) \<times> 's" where
  "gw_Checkout svc input s =
     (case input of
        None \<Rightarrow> (Inl (ErrInvalidInput ''checkout request is nil''), s)
      | Some i \<Rightarrow>
     (case check_checkout i of
        Some e \<Rightarrow> (Inl e, s)
      | None \<Rightarrow>
     (if orderClient svc = None then (Inl (ErrDownstreamFailed ''order client is not configured''), s)
      else
     (case mapCheckoutItemsToOrderItems (ciItems i) of
        Inl e \<Rightarrow> (Inl e, s)
      | Inr items \<Rightarrow>
     (case normalizePaymentMethod (gdMethod (ciPayment i)) of
        Inl e \<Rightarrow> (Inl e, s)
      | Inr m \<Rightarrow>
          required_response ''order'' (\<lambda>order. (goID order, goStatus order))
            (downstream (orderClient svc) (\<lambda>conn. oc_CreateOrder conn (Some
               \<lparr>gqCustomerID = TrimSpace (ciCustomerID i), gqItems = items,
                gqShippingAddress = mapAddressToOrderClient (ciShippingAddress i),
                gqIdempotencyKey = TrimSpace (ciIdempotencyKey i),
                gqPayment = \<lparr>gdMethod = m, gdMethodDetails = TrimSpace (gdMethodDetails (ciPayment i))\<rparr>\<rparr>))
              ''order create'' s))))))"

section \<open>Orders\<close>

record order_result =
  orOrderID :: string
  orCustomerID :: string
  orOrderStatus :: string
  orItems :: "gw_item list"
  orTotalAmount :: gw_money
  orShippingAddress :: gw_address
  orCancelReason :: string
  orCreatedAt :: string
  orUpdatedAt :: string

record cancel_result =
  crOrderID :: string
  crCustomerID :: string
  crOrderStatus :: string
  crCancelReason :: string
  crUpdatedAt :: string

definition mapOrderMoney :: "gw_money \<Rightarrow> gw_money" where
  "mapOrderMoney m = \<lparr>gmCurrency = gmCurrency m, gmAmountCents = gmAmountCents m\<rparr>"

definition mapOrderAddress :: "gw_address \<Rightarrow> gw_address" where
  "mapOrderAddress a =
     \<lparr>gaCountry = gaCountry a, gaCity = gaCity a, gaStreet = gaStreet a,
      gaPostalCode = gaPostalCode a, gaHouse = gaHouse a, gaApartment = gaApartment a\<rparr>"

definition mapClientOrderToResult :: "gw_order \<Rightarrow> order_result" where
  "mapClientOrderToResult order =
     \<lparr>orOrderID = goID order, orCustomerID = goCustomerID order, orOrderStatus = goStatus order,
      orItems = map (\<lambda>i. \<lparr>giProductID = giProductID i, giSKU = giSKU i, giProductName = giProductName i,
        giQuantity = giQuantity i, giUnitPrice = mapOrderMoney (giUnitPrice i), giTotalPrice = mapOrderMoney (giTotalPrice i)\<rparr>) (goItems order),
      orTotalAmount = mapOrderMoney (goTotalAmount order), orShippingAddress = mapOrderAddress (goShippingAddress order),
      orCancelReason = goCancelReason order, orCreatedAt = goCreatedAt order, orUpdatedAt = goUpdatedAt order\<rparr>"

definition gw_GetOrderByID :: "'s gateway_service \<Rightarrow> string option \<Rightarrow> 's \<Rightarrow> (gateway_error + order_result) \<times> 's" where
  "gw_GetOrderByID svc input s =
     (case input of
        None \<Rightarrow> (Inl (ErrInvalidInput ''get order request is nil''), s)
      | Some oid \<Rightarrow>
          if TrimSpace oid = [] then (Inl (ErrInvalidInput ''order id is required''), s)
          else required_response ''order'' mapClientOrderToResult
                 (downstream (orderClient svc) (\<lambda>conn. oc_GetOrderByID conn oid) ''order get'' s))"

definition map_page :: "('a \<Rightarrow> 'b) \<Rightarrow> 'a gw_page \<Rightarrow> 'b gw_page" where
  "map_page f p = \<lparr>gwItems = map f (gwItems p), gwPage = gwPage p, gwPageSize = gwPageSize p, gwTotal = gwTotal p\<rparr>"

definition gw_ListOrdersByCustomer ::
    "'s gateway_service \<Rightarrow> (string \<times> int \<times> int) option \<Rightarrow> 's \<Rightarrow> (gateway_error + order_result gw_page) \<times> 's" where
  "gw_ListOrdersByCustomer svc input s =
     (case input of
        None \<Rightarrow> (Inl (ErrInvalidInput ''list orders request is nil''), s)
      | Some (cid0, page, pageSize) \<Rightarrow>
          (let cid = TrimSpace cid0
           in if cid = [] then (Inl (ErrInvalidInput ''customer id is required''), s)
              else forward (map_page mapClientOrderToResult)
                     (downstream (orderClient svc) (\<lambda>conn. oc_ListOrdersByCustomer conn (Some (cid, page, pageSize)))
                        ''order list by customer'' s)))"

definition performCancelOrder :: "'s gateway_service \<Rightarrow> string \<Rightarrow> string \<Rightarrow> 's \<Rightarrow> (gateway_error + cancel_result) \<times> 's" where
  "performCancelOrder svc oid reason s =
     required_response ''cancel order''
       (\<lambda>order. \<lparr>crOrderID = goID order, crCustomerID = goCustomerID order, crOrderStatus = goStatus order,
                 crCancelReason = goCancelReason order, crUpdatedAt = goUpdatedAt order\<rparr>)
       (downstream (orderClient svc) (\<lambda>conn. oc_CancelOrder conn (Some (oid, reason))) ''order cancel'' s)"

section \<open>Payments\<close>

text \<open>A settled payment without amount and method: the result of cancelling and capturing.\<close>

record payment_outcome =
  poPaymentID :: string
  poOrderID :: string
  poCustomerID :: string
  poPaymentStatus :: string

definition payment_result :: "gw_payment \<Rightarrow> gw_payment" where
  "payment_result p =
     \<lparr>gyID = gyID p, gyOrderID = gyOrderID p, gyCustomerID = gyCustomerID p, gyStatus = gyStatus p,
      gyAmount = \<lparr>gmCurrency = gmCurrency (gyAmount p), gmAmountCents = gmAmountCents (gyAmount p)\<rparr>,
      gyPaymentMethod = gyPaymentMethod p\<rparr>"

definition outcome_of :: "gw_payment \<Rightarrow> payment_outcome" where
  "outcome_of p =
     \<lparr>poPaymentID = gyID p, poOrderID = gyOrderID p, poCustomerID = gyCustomerID p, poPaymentStatus = gyStatus p\<rparr>"

definition gw_GetPaymentByID :: "'s gateway_service \<Rightarrow> string option \<Rightarrow> 's \<Rightarrow> (gateway_error + gw_payment) \<times> 's" where
  "gw_GetPaymentByID svc input s =
     (case input of
        None \<Rightarrow> (Inl (ErrInvalidInput ''get payment by id request is nil''), s)
      | Some pid \<Rightarrow>
          if TrimSpace pid = [] then (Inl (ErrInvalidInput ''payment id is required''), s)
          else required_response ''payment'' payment_result
                 (downstream (paymentClient svc) (\<lambda>conn. yc_GetPaymentByID conn (Some (TrimSpace pid))) ''payment get'' s))"

definition gw_GetPaymentByOrderID :: "'s gateway_service \<Rightarrow> string option \<Rightarrow> 's \<Rightarrow> (gateway_error + gw_payment) \<times> 's" where
  "gw_GetPaymentByOrderID svc input s =
     (case input of
        None \<Rightarrow> (Inl (ErrInvalidInput ''get payment by order id request is nil''), s)
      | Some oid0 \<Rightarrow>
          (let oid = TrimSpace oid0
           in if oid = [] then (Inl (ErrInvalidInput ''order id is required''), s)
              else required_response ''payment'' payment_result
                     (downstream (paymentClient svc) (\<lambda>conn. yc_GetPaymentByOrderID conn (Some oid)) ''payment get by order'' s)))"

definition gw_ListPaymentsByCustomer ::
    "'s gateway_service \<Rightarrow> (string \<times> int \<times> int) option \<Rightarrow> 's \<Rightarrow> (gateway_error + gw_payment gw_page) \<times> 's" where
  "gw_ListPaymentsByCustomer svc input s =
     (case input of
        None \<Rightarrow> (Inl (ErrInvalidInput ''list payments by customer request is nil''), s)
      | Some (cid0, page, pageSize) \<Rightarrow>
          (let cid = TrimSpace cid0
           in if cid = [] then (Inl (ErrInvalidInput ''customer id is required''), s)
              else forward (map_page payment_result)
                     (downstream (paymentClient svc) (\<lambda>conn. yc_ListPaymentsByCustomer conn (Some (cid, page, pageSize)))
                        ''payment list by customer'' s)))"

definition gw_CancelPayment :: "'s gateway_service \<Rightarrow> (string \<times> string) option \<Rightarrow> 's \<Rightarrow> (gateway_error + payment_outcome) \<times> 's" where
  "gw_CancelPayment svc input s =
     (case input of
        None \<Rightarrow> (Inl (ErrInvalidInput ''cancel payment request is nil''), s)
      | Some (pid0, reason0) \<Rightarrow>
          (let pid = TrimSpace pid0; reason = TrimSpace reason0
           in if pid = [] then (Inl (ErrInvalidInput ''payment id is required''), s)
              else if reason = [] then (Inl (ErrInvalidInput ''cancel reason is required''), s)
              else required_response ''cancel payment'' outcome_of
                     (downstream (paymentClient svc) (\<lambda>conn. yc_CancelPayment conn (Some (pid, reason))) ''payment cancel'' s)))"

definition gw_CapturePayment :: "'s gateway_service \<Rightarrow> string option \<Rightarrow> 's \<Rightarrow> (gateway_error + payment_outcome) \<times> 's" where
  "gw_CapturePayment svc input s =
     (case input of
        None \<Rightarrow> (Inl (ErrInvalidInput ''capture payment request is nil''), s)
      | Some pid0 \<Rightarrow>
          (let pid = TrimSpace pid0
           in if pid = [] then (Inl (ErrInvalidInput ''payment id is required''), s)
              else required_response ''capture payment'' outcome_of
                     (downstream (paymentClient svc) (\<lambda>conn. yc_CapturePayment conn (Some pid)) ''payment capture'' s)))"

section \<open>Products\<close>

definition product_result :: "gw_product \<Rightarrow> gw_product" where
  "product_result p =
     \<lparr>gpID = gpID p, gpName = gpName p, gpDescription = gpDescription p, gpPriceCents = gpPriceCents p, gpCurrency = gpCurrency p\<rparr>"

definition gw_CreateProduct :: "'s gateway_service \<Rightarrow> gw_product option \<Rightarrow> 's \<Rightarrow> (gateway_error + gw_product) \<times> 's" where
  "gw_CreateProduct svc input s =
     (case input of
        None \<Rightarrow> (Inl (ErrInvalidInput ''create product request is nil''), s)
      | Some i \<Rightarrow>
          (let pid = TrimSpace (gpID i); name = TrimSpace (gpName i)
           in if pid = [] then (Inl (ErrInvalidInput ''product id is required''), s)
              else if name = [] then (Inl (ErrInvalidInput ''product name is required''), s)
              else if gpPriceCents i \<le> 0 then (Inl (ErrInvalidInput ''price cents must be greater than 0''), s)
              else case normalizeCurrency (gpCurrency i) of
                Inl e \<Rightarrow> (Inl e, s)
              | Inr c \<Rightarrow>
                  required_response ''create product'' product_result
                    (downstream (catalogClient svc) (\<lambda>conn. cc_CreateProduct conn (Some
                       \<lparr>gpID = pid, gpName = name, gpDescription = TrimSpace (gpDescription i),
                        gpPriceCents = gpPriceCents i, gpCurrency = c\<rparr>)) ''catalog product create'' s)))"

definition gw_UpdateProduct :: "'s gateway_service \<Rightarrow> gw_product_update option \<Rightarrow> 's \<Rightarrow> (gateway_error + gw_product) \<times> 's" where
  "gw_UpdateProduct svc input s =
     (case input of
        None \<Rightarrow> (Inl (ErrInvalidInput ''update product request is nil''), s)
      | Some i \<Rightarrow>
          (let pid = TrimSpace (guProductID i)
           in if pid = [] then (Inl (ErrInvalidInput ''product id is required''), s)
              else if (case guName i of None \<Rightarrow> False | Some n \<Rightarrow> TrimSpace n = []) then (Inl (ErrInvalidInput ''product name is required''), s)
              else if (case guPriceCents i of None \<Rightarrow> False | Some c \<Rightarrow> c \<le> 0)
                then (Inl (ErrInvalidInput ''price cents must be greater than 0''), s)
              else case (case guCurrency i of None \<Rightarrow> Inr None | Some v \<Rightarrow> map_sum id Some (normalizeCurrency v)) of
                Inl e \<Rightarrow> (Inl e, s)
              | Inr c \<Rightarrow>
                  if guName i = None \<and> guDescription i = None \<and> guPriceCents i = None \<and> c = None
                  then (Inl (ErrInvalidInput ''at least one field must be provided''), s)
                  else required_response ''update product'' product_result
                         (downstream (catalogClient svc) (\<lambda>conn. cc_UpdateProduct conn (Some
                            \<lparr>guProductID = pid, guName = map_option TrimSpace (guName i),
                             guDescription = map_option TrimSpace (guDescription i), guPriceCents = guPriceCents i, guCurrency = c\<rparr>))
                           ''catalog product update'' s)))"

definition gw_GetProductByID :: "'s gateway_service \<Rightarrow> string option \<Rightarrow> 's \<Rightarrow> (gateway_error + gw_product) \<times> 's" where
  "gw_GetProductByID svc input s =
     (case input of
        None \<Rightarrow> (Inl (ErrInvalidInput ''get product by id request is nil''), s)
      | Some pid0 \<Rightarrow>
          (let pid = TrimSpace pid0
           in if pid = [] then (Inl (ErrInvalidInput ''product id is required''), s)
              else required_response ''product'' product_result
                     (downstream (catalogClient svc) (\<lambda>conn. cc_GetProductByID conn pid) ''catalog product get'' s)))"

definition gw_DeleteProduct :: "'s gateway_service \<Rightarrow> string option \<Rightarrow> 's \<Rightarrow> (gateway_error + unit) \<times> 's" where
  "gw_DeleteProduct svc input s =
     (case input of
        None \<Rightarrow> (Inl (ErrInvalidInput ''delete product request is nil''), s)
      | Some pid0 \<Rightarrow>
          (let pid = TrimSpace pid0
           in if pid = [] then (Inl (ErrInvalidInput ''product id is required''), s)
              else downstream (catalogClient svc) (\<lambda>conn. cc_DeleteProduct conn pid) ''catalog product delete'' s))"

definition gw_ListProducts :: "'s gateway_service \<Rightarrow> (int \<times> int) option \<Rightarrow> 's \<Rightarrow> (gateway_error + gw_product gw_page) \<times> 's" where
  "gw_ListProducts svc input s =
     (case input of
        None \<Rightarrow> (Inl (ErrInvalidInput ''list products request is nil''), s)
      | Some (page, pageSize) \<Rightarrow>
          if page < 0 \<or> pageSize < 0 then (Inl (ErrInvalidInput ''page and page size must be non-negative''), s)
          else forward (map_page product_result)
                 (downstream (catalogClient svc) (\<lambda>conn. cc_ListProducts conn (Some (page, pageSize))) ''catalog products list'' s))"

section \<open>Stock\<close>

text \<open>The result is the product, what is available and what is reserved.\<close>

definition gw_GetStockByProductID ::
    "'s gateway_service \<Rightarrow> string option \<Rightarrow> 's \<Rightarrow> (gateway_error + (string \<times> int \<times> int)) \<times> 's" where
  "gw_GetStockByProductID svc input s =
     (case input of
        None \<Rightarrow> (Inl (ErrInvalidInput ''get stock by product id request is nil''), s)
      | Some pid0 \<Rightarrow>
          (let pid = TrimSpace pid0
           in if pid = [] then (Inl (ErrInvalidInput ''product id is required''), s)
              else required_response ''stock'' (\<lambda>st. (gsProductID st, gsAvailable st, gsReserved st))
                     (downstream (inventoryClient svc) (\<lambda>conn. ic_GetStockByProductID conn (Some pid)) ''inventory stock get'' s)))"

end
