(* ===== verification/Gateway_Cancel.thy ===== *)
theory Gateway_Cancel
  imports Gateway_Service
begin

text \<open>
  The gateway's idempotent cancellation of orders (\<open>CancelOrder\<close> of
  \<open>internal/gateway/service/order.go\<close> with \<open>idempotency.go\<close>). Requests run concurrently; the
  table of idempotency keys is guarded by a mutex, so that \<open>beginCancelIdempotency\<close> and
  \<open>finishCancelIdempotency\<close> are atomic, and a request that finds its key taken waits on the
  record's channel. A record is a heap cell: the waiters keep their pointer to it when its
  key has been deleted.
\<close>

section \<open>The table of keys\<close>

record cancel_record =
  fingerprint :: string
  closed :: bool
  outcome :: "cancel_result option"
  failure :: "gateway_error option"

record cancel_table =
  cells :: "cancel_record list"
  key_cell :: "string \<Rightarrow> nat option"

definition empty_cancel_table :: cancel_table where
  "empty_cancel_table = \<lparr>cells = [], key_cell = Map.empty\<rparr>"

definition cancelRequestFingerprint :: "string \<Rightarrow> string \<Rightarrow> string" where
  "cancelRequestFingerprint oid reason = oid @ [CHR 0x0A] @ reason"

text \<open>The flag says whether the record was there.\<close>

definition beginCancelIdempotency ::
    "string \<Rightarrow> string \<Rightarrow> cancel_table \<Rightarrow> (gateway_error + (nat \<times> bool)) \<times> cancel_table" where
  "beginCancelIdempotency key fp tab =
     (case key_cell tab key of
        Some r \<Rightarrow>
          if fingerprint (cells tab ! r) \<noteq> fp
          then (Inl (ErrIdempotencyConflict ''idempotency key reused with different cancel request''), tab)
          else (Inr (r, True), tab)
      | None \<Rightarrow>
          (Inr (length (cells tab), False),
           \<lparr>cells = cells tab @ [\<lparr>fingerprint = fp, closed = False, outcome = None, failure = None\<rparr>],
            key_cell = (key_cell tab)(key \<mapsto> length (cells tab))\<rparr>))"

definition finishCancelIdempotency ::
    "string \<Rightarrow> nat \<Rightarrow> gateway_error + cancel_result \<Rightarrow> cancel_table \<Rightarrow> cancel_table" where
  "finishCancelIdempotency key r result tab =
     (case result of
        Inl e \<Rightarrow>
          \<lparr>cells = (cells tab)[r := (cells tab ! r)\<lparr>failure := Some e, closed := True\<rparr>],
           key_cell = (key_cell tab)(key := None)\<rparr>
      | Inr x \<Rightarrow> tab\<lparr>cells := (cells tab)[r := (cells tab ! r)\<lparr>outcome := Some x, closed := True\<rparr>]\<rparr>)"

section \<open>A request\<close>

text \<open>Order, reason and key of a request.\<close>

type_synonym cancel_input = "(string \<times> string \<times> string) option"

definition admit_cancel :: "cancel_input \<Rightarrow> gateway_error + (string \<times> string \<times> string)" where
  "admit_cancel input =
     (case input of
        None \<Rightarrow> Inl (ErrInvalidInput ''cancel order request is nil'')
      | Some (oid0, reason0, key0) \<Rightarrow>
          (let oid = TrimSpace oid0; reason = TrimSpace reason0
           in if oid = [] then Inl (ErrInvalidInput ''order id is required'')
              else if reason = [] then Inl (ErrInvalidInput ''cancel reason is required'')
              else Inr (oid, reason, TrimSpace key0)))"

text \<open>
  Where the goroutine of a request is: before the table, before the call (with the cell it
  owns, if it has a key), before \<open>finishCancelIdempotency\<close>, waiting on a cell, or done.
\<close>

datatype cancel_thread =
    Requested cancel_input
  | Performing "(nat \<times> string) option" string string
  | Finishing nat string "gateway_error + cancel_result"
  | Waiting nat
  | Answered "gateway_error + cancel_result"

text \<open>
  One atomic action of a request, or \<open>None\<close> where it cannot move. A call through a nil client
  panics, which skips \<open>finishCancelIdempotency\<close> and leaves the cell open for good; so the
  statements below ask for a configured client. (A closed cell with neither outcome nor failure
  does not occur; the code would answer with two nil pointers there.)
\<close>

fun thread_step ::
    "'s gateway_service \<Rightarrow> cancel_thread \<Rightarrow> cancel_table \<Rightarrow> 's \<Rightarrow> (cancel_thread \<times> cancel_table \<times> 's) option" where
  "thread_step svc (Requested input) tab s =
     (case admit_cancel input of
        Inl e \<Rightarrow> Some (Answered (Inl e), tab, s)
      | Inr (oid, reason, key) \<Rightarrow>
          if key = [] then Some (Performing None oid reason, tab, s)
          else (case beginCancelIdempotency key (cancelRequestFingerprint oid reason) tab of
                  (Inl e, tab') \<Rightarrow> Some (Answered (Inl e), tab', s)
                | (Inr (r, True), tab') \<Rightarrow> Some (Waiting r, tab', s)
                | (Inr (r, False), tab') \<Rightarrow> Some (Performing (Some (r, key)) oid reason, tab', s)))"
| "thread_step svc (Performing owned oid reason) tab s =
     (if orderClient svc = None then Some (Answered (Inl NilClientPanic), tab, s)
      else
     (case performCancelOrder svc oid reason s of
        (x, s') \<Rightarrow> Some (case owned of None \<Rightarrow> Answered x | Some (r, key) \<Rightarrow> Finishing r key x, tab, s')))"
| "thread_step svc (Finishing r key x) tab s = Some (Answered x, finishCancelIdempotency key r x tab, s)"
| "thread_step svc (Waiting r) tab s =
     (if closed (cells tab ! r)
      then Some (Answered (case outcome (cells tab ! r) of
             Some x \<Rightarrow> Inr x
           | None \<Rightarrow> Inl (case failure (cells tab ! r) of Some e \<Rightarrow> e | None \<Rightarrow> NilClientPanic)), tab, s)
      else None)"
| "thread_step svc (Answered x) tab s = None"

text \<open>A request on its own: at most three actions; \<open>None\<close> when it waits for another one.\<close>

fun run_thread ::
    "nat \<Rightarrow> 's gateway_service \<Rightarrow> cancel_thread \<Rightarrow> cancel_table \<Rightarrow> 's \<Rightarrow>
     ((gateway_error + cancel_result) \<times> cancel_table \<times> 's) option" where
  "run_thread n svc (Answered x) tab s = Some (x, tab, s)"
| "run_thread 0 svc t tab s = None"
| "run_thread (Suc n) svc t tab s =
     (case thread_step svc t tab s of None \<Rightarrow> None | Some (t', tab', s') \<Rightarrow> run_thread n svc t' tab' s')"

definition gw_CancelOrder ::
    "'s gateway_service \<Rightarrow> cancel_input \<Rightarrow> cancel_table \<Rightarrow> 's \<Rightarrow> ((gateway_error + cancel_result) \<times> cancel_table \<times> 's) option" where
  "gw_CancelOrder svc input tab s = run_thread 3 svc (Requested input) tab s"

section \<open>Requests side by side\<close>

text \<open>
  A configuration: the requests' goroutines, the table, the services; and, for the statements
  below only, the key each cell was made for and the log of the downstream calls made under a
  key with their results.
\<close>

record 's cancel_config =
  threads :: "cancel_thread list"
  table :: cancel_table
  services :: 's
  cell_keys :: "string list"
  call_log :: "(string \<times> (gateway_error + cancel_result)) list"

fun new_cell :: "cancel_thread \<Rightarrow> cancel_thread \<Rightarrow> string list" where
  "new_cell (Requested input) (Performing (Some (r, key)) oid reason) = [key]"
| "new_cell _ _ = []"

fun new_call :: "cancel_thread \<Rightarrow> (string \<times> (gateway_error + cancel_result)) list" where
  "new_call (Finishing r key x) = [(key, x)]"
| "new_call _ = []"

inductive goroutine_step :: "'s gateway_service \<Rightarrow> 's cancel_config \<Rightarrow> 's cancel_config \<Rightarrow> bool" for svc where
  step: "i < length (threads c) \<Longrightarrow> thread_step svc (threads c ! i) (table c) (services c) = Some (t, tab, s) \<Longrightarrow>
     goroutine_step svc c \<lparr>threads = (threads c)[i := t], table = tab, services = s,
       cell_keys = cell_keys c @ new_cell (threads c ! i) t, call_log = call_log c @ new_call t\<rparr>"

inductive goroutine_run :: "'s gateway_service \<Rightarrow> 's cancel_config \<Rightarrow> nat \<Rightarrow> 's cancel_config \<Rightarrow> bool" for svc where
  start: "goroutine_run svc c 0 c"
| next_step: "goroutine_run svc c n d \<Longrightarrow> goroutine_step svc d e \<Longrightarrow> goroutine_run svc c (Suc n) e"

inductive_cases goroutine_stepE: "goroutine_step svc c d"

definition cancel_start :: "cancel_input list \<Rightarrow> 's \<Rightarrow> 's cancel_config" where
  "cancel_start inputs s =
     \<lparr>threads = map Requested inputs, table = empty_cancel_table, services = s, cell_keys = [], call_log = []\<rparr>"

definition cancel_key :: "cancel_input \<Rightarrow> string" where
  "cancel_key input = (case admit_cancel input of Inl e \<Rightarrow> [] | Inr (oid, reason, key) \<Rightarrow> key)"

definition cancel_fingerprint :: "cancel_input \<Rightarrow> string" where
  "cancel_fingerprint input =
     (case admit_cancel input of Inl e \<Rightarrow> [] | Inr (oid, reason, key) \<Rightarrow> cancelRequestFingerprint oid reason)"

end
