(* ===== verification/Gateway_Handler.thy ===== *)
theory Gateway_Handler
  imports Gateway_Cancel Json
begin

text \<open>
  The gateway's HTTP handlers (\<open>internal/gateway/handler\<close>). Binding a request (path, query,
  body) and checking its validation tags is the web framework's: a handler gets the bound
  values or the error. It answers with a status and a JSON document; a panic is answered with
  status 500 and no body by the recovery middleware. Identifiers, metrics and logs of requests
  are left out.
\<close>

section \<open>Answers\<close>

record http_response =
  statusCode :: int
  body :: "json option"

definition JSON_response :: "int \<Rightarrow> json \<Rightarrow> http_response" where
  "JSON_response st b = \<lparr>statusCode = st, body = Some b\<rparr>"

definition error_body :: "string \<Rightarrow> json" where
  "error_body msg = JObj [(''error'', JStr msg)]"

definition recovered :: http_response where
  "recovered = \<lparr>statusCode = 500, body = None\<rparr>"

fun statusCodeForError :: "gateway_error \<Rightarrow> int" where
  "statusCodeForError (ErrTimeout m) = 504"
| "statusCodeForError (ErrRequestCanceled m) = 408"
| "statusCodeForError (ErrInvalidInput m) = 400"
| "statusCodeForError (ErrIdempotencyConflict m) = 409"
| "statusCodeForError (ErrPreconditionFailed m) = 400"
| "statusCodeForError (ErrUnsupportedCurrency m) = 400"
| "statusCodeForError (ErrUnsupportedPaymentMethod m) = 400"
| "statusCodeForError (ErrDownstreamNotFound m) = 404"
| "statusCodeForError (ErrDownstreamFailed m) = 502"
| "statusCodeForError NilClientPanic = 500"

fun publicErrorMessage :: "gateway_error \<Rightarrow> string" where
  "publicErrorMessage (ErrTimeout m) = ''request timed out''"
| "publicErrorMessage (ErrRequestCanceled m) = ''request was canceled''"
| "publicErrorMessage (ErrIdempotencyConflict m) = ''request conflicts with an existing idempotency key''"
| "publicErrorMessage (ErrPreconditionFailed m) = ''operation cannot be performed in current resource state''"
| "publicErrorMessage (ErrUnsupportedCurrency m) = ''unsupported currency''"
| "publicErrorMessage (ErrUnsupportedPaymentMethod m) = ''unsupported payment method''"
| "publicErrorMessage (ErrInvalidInput m) = ''invalid request parameters''"
| "publicErrorMessage (ErrDownstreamNotFound m) = ''resource not found''"
| "publicErrorMessage (ErrDownstreamFailed m) = ''upstream service unavailable''"
| "publicErrorMessage NilClientPanic = ''internal server error''"

definition writeError :: "gateway_error \<Rightarrow> http_response" where
  "writeError e =
     (if e = NilClientPanic then recovered
      else JSON_response (statusCodeForError e) (error_body (publicErrorMessage e)))"

subsection \<open>Binding errors\<close>

text \<open>
  The errors the framework reports, a failed validation with the struct field and the tag; and
  a request type as its fields with their struct tags.
\<close>

datatype bind_error =
    JsonSyntaxError
  | JsonUnmarshalTypeError
  | ValidationErrors "(string \<times> string) list"
  | OtherBindError

type_synonym request_shape = "(string \<times> (string \<times> string) list) list"

definition ToLower :: "string \<Rightarrow> string" where
  "ToLower s = map lower_char s"

text \<open>The first of the tags that gives a name.\<close>

fun tag_name :: "(string \<times> string) list \<Rightarrow> string list \<Rightarrow> string option" where
  "tag_name tags [] = None"
| "tag_name tags (t # ts) =
     (let v = (case map_of tags t of None \<Rightarrow> [] | Some v \<Rightarrow> v); name = takeWhile (\<lambda>c. c \<noteq> CHR '','') v
      in if v = [] \<or> v = ''-'' \<or> name = [] then tag_name tags ts else Some name)"

definition publicFieldName :: "request_shape \<Rightarrow> string \<Rightarrow> string" where
  "publicFieldName shape structField =
     (case map_of shape structField of
        None \<Rightarrow> ToLower structField
      | Some tags \<Rightarrow> (case tag_name tags [''json'', ''uri'', ''form''] of Some n \<Rightarrow> n | None \<Rightarrow> ToLower structField))"

definition bindErrorMessage :: "bind_error \<Rightarrow> request_shape \<Rightarrow> string \<Rightarrow> string" where
  "bindErrorMessage e shape fallback =
     (case e of
        JsonSyntaxError \<Rightarrow> ''invalid request body''
      | JsonUnmarshalTypeError \<Rightarrow> ''invalid request body''
      | ValidationErrors ((structField, tag) # _) \<Rightarrow>
          publicFieldName shape structField @
          (if tag = ''required'' then '' is required''
           else if tag = ''gt'' then '' must be greater than 0''
           else '' is invalid'')
      | _ \<Rightarrow> fallback)"

definition writeBindError :: "bind_error \<Rightarrow> request_shape \<Rightarrow> string \<Rightarrow> http_response" where
  "writeBindError e shape fallback = JSON_response 400 (error_body (bindErrorMessage e shape fallback))"

text \<open>A handler: the bound request or its error, then the service's answer.\<close>

definition bound :: "request_shape \<Rightarrow> string \<Rightarrow> bind_error + 'a \<Rightarrow> ('a \<Rightarrow> 's \<Rightarrow> http_response \<times> 's) \<Rightarrow> 's \<Rightarrow> http_response \<times> 's" where
  "bound shape fallback req handle s =
     (case req of Inl e \<Rightarrow> (writeBindError e shape fallback, s) | Inr x \<Rightarrow> handle x s)"

definition write_response :: "('a \<Rightarrow> http_response) \<Rightarrow> (gateway_error + 'a) \<times> 's \<Rightarrow> http_response \<times> 's" where
  "write_response f r = apfst (case_sum writeError f) r"

lemma bound_simps [simp]:
  "bound shape fb (Inl e) h s = (writeBindError e shape fb, s)"
  "bound shape fb (Inr x) h s = h x s"
  by (simp_all add: bound_def)

lemma write_response_simps [simp]:
  "write_response f (Inl e, s) = (writeError e, s)"
  "write_response f (Inr x, s) = (f x, s)"
  by (simp_all add: write_response_def)

section \<open>The request types\<close>

definition uri_shape :: "string \<Rightarrow> string \<Rightarrow> request_shape" where
  "uri_shape field name = [(field, [(''uri'', name), (''binding'', ''required'')])]"

definition OrderID_shape :: request_shape where
  "OrderID_shape = uri_shape ''OrderID'' ''order_id''"

definition PaymentID_shape :: request_shape where
  "PaymentID_shape = uri_shape ''PaymentID'' ''payment_id''"

definition CustomerID_shape :: request_shape where
  "CustomerID_shape = uri_shape ''CustomerID'' ''customer_id''"

definition ProductID_shape :: request_shape where
  "ProductID_shape = uri_shape ''ProductID'' ''product_id''"

definition page_shape :: request_shape where
  "page_shape = [(''Page'', [(''form'', ''page'')]), (''PageSize'', [(''form'', ''page_size'')])]"

definition CheckoutRequest_shape :: request_shape where
  "CheckoutRequest_shape =
     [(''CustomerID'', [(''json'', ''customer_id''), (''binding'', ''required'')]),
      (''Items'', [(''json'', ''items''), (''binding'', ''required,min=1'')]),
      (''ShippingAddress'', [(''json'', ''shipping_address''), (''binding'', ''required'')]),
      (''Payment'', [(''json'', ''payment''), (''binding'', ''required'')]),
      (''IdempotencyKey'', [(''json'', ''idempotency_key'')])]"

definition Reason_shape :: request_shape where
  "Reason_shape = [(''Reason'', [(''json'', ''reason''), (''binding'', ''required'')])]"

definition CreateProductRequest_shape :: request_shape where
  "CreateProductRequest_shape =
     [(''ProductID'', [(''json'', ''product_id''), (''binding'', ''required'')]),
      (''Name'', [(''json'', ''name''), (''binding'', ''required'')]),
      (''Description'', [(''json'', ''description'')]),
      (''PriceCents'', [(''json'', ''price_cents''), (''binding'', ''required,gt=0'')]),
      (''Currency'', [(''json'', ''currency''), (''binding'', ''required'')])]"

definition UpdateProductRequest_shape :: request_shape where
  "UpdateProductRequest_shape =
     [(''Name'', [(''json'', ''name'')]), (''Description'', [(''json'', ''description'')]),
      (''PriceCents'', [(''json'', ''price_cents'')]), (''Currency'', [(''json'', ''currency'')])]"

text \<open>The bound checkout body.\<close>

record checkout_item_request =
  hiProductID :: string
  hiSKU :: string
  hiProductName :: string
  hiQuantity :: int
  hiCurrency :: string
  hiAmountCents :: int

record checkout_request =
  hrCustomerID :: string
  hrItems :: "checkout_item_request list"
  hrShippingAddress :: gw_address
  hrPayment :: gw_payment_details
  hrIdempotencyKey :: string

section \<open>The response types\<close>

text \<open>A field tagged \<open>omitempty\<close> is left out when it is empty.\<close>

definition omitempty :: "string \<Rightarrow> string \<Rightarrow> (string \<times> json) list" where
  "omitempty k v = (if v = [] then [] else [(k, JStr v)])"

definition MoneyResponse :: "gw_money \<Rightarrow> json" where
  "MoneyResponse m = JObj [(''currency'', JStr (gmCurrency m)), (''amount_cents'', JInt (gmAmountCents m))]"

definition AddressResponse :: "gw_address \<Rightarrow> json" where
  "AddressResponse a =
     JObj [(''country'', JStr (gaCountry a)), (''city'', JStr (gaCity a)), (''street'', JStr (gaStreet a)),
           (''postal_code'', JStr (gaPostalCode a)), (''house'', JStr (gaHouse a)), (''apartment'', JStr (gaApartment a))]"

definition OrderItemResponse :: "gw_item \<Rightarrow> json" where
  "OrderItemResponse i =
     JObj [(''product_id'', JStr (giProductID i)), (''sku'', JStr (giSKU i)), (''product_name'', JStr (giProductName i)),
           (''quantity'', JInt (giQuantity i)), (''unit_price'', MoneyResponse (giUnitPrice i)),
           (''total_price'', MoneyResponse (giTotalPrice i))]"

definition toGetOrderByIDResponse :: "order_result \<Rightarrow> json" where
  "toGetOrderByIDResponse r =
     JObj ([(''order_id'', JStr (orOrderID r)), (''customer_id'', JStr (orCustomerID r)),
            (''order_status'', JStr (orOrderStatus r)), (''items'', JArr (map OrderItemResponse (orItems r))),
            (''total_amount'', MoneyResponse (orTotalAmount r)), (''shipping_address'', AddressResponse (orShippingAddress r))] @
           omitempty ''cancel_reason'' (orCancelReason r) @
           [(''created_at'', JStr (orCreatedAt r)), (''updated_at'', JStr (orUpdatedAt r))])"

definition toCancelOrderResponse :: "cancel_result \<Rightarrow> json" where
  "toCancelOrderResponse r =
     JObj ([(''order_id'', JStr (crOrderID r)), (''customer_id'', JStr (crCustomerID r)),
            (''order_status'', JStr (crOrderStatus r))] @
           omitempty ''cancel_reason'' (crCancelReason r) @
           [(''updated_at'', JStr (crUpdatedAt r))])"

definition toListOrdersByCustomerResponse :: "order_result gw_page \<Rightarrow> json" where
  "toListOrdersByCustomerResponse p =
     JObj [(''orders'', JArr (map toGetOrderByIDResponse (gwItems p))), (''total'', JInt (gwTotal p)),
           (''page'', JInt (gwPage p)), (''page_size'', JInt (gwPageSize p))]"

definition CheckoutResponse :: "string \<times> string \<Rightarrow> json" where
  "CheckoutResponse r = JObj [(''order_id'', JStr (fst r)), (''order_status'', JStr (snd r))]"

definition toGetPaymentByIDResponse :: "gw_payment \<Rightarrow> json" where
  "toGetPaymentByIDResponse p =
     JObj [(''payment_id'', JStr (gyID p)), (''order_id'', JStr (gyOrderID p)), (''customer_id'', JStr (gyCustomerID p)),
           (''status'', JStr (gyStatus p)), (''amount'', MoneyResponse (gyAmount p)), (''payment_method'', JStr (gyPaymentMethod p))]"

definition toGetPaymentByOrderIDResponse :: "gw_payment \<Rightarrow> json" where
  "toGetPaymentByOrderIDResponse p =
     JObj [(''payment_id'', JStr (gyID p)), (''order_id'', JStr (gyOrderID p)), (''customer_id'', JStr (gyCustomerID p)),
           (''status'', JStr (gyStatus p)), (''amount'', MoneyResponse (gyAmount p)), (''payment_method'', JStr (gyPaymentMethod p))]"

definition toListPaymentsByCustomerResponse :: "gw_payment gw_page \<Rightarrow> json" where
  "toListPaymentsByCustomerResponse p =
     JObj [(''payments'', JArr (map toGetPaymentByIDResponse (gwItems p))), (''page'', JInt (gwPage p)),
           (''page_size'', JInt (gwPageSize p)), (''total'', JInt (gwTotal p))]"

definition toCancelPaymentResponse :: "payment_outcome \<Rightarrow> json" where
  "toCancelPaymentResponse p =
     JObj [(''payment_id'', JStr (poPaymentID p)), (''order_id'', JStr (poOrderID p)),
           (''customer_id'', JStr (poCustomerID p)), (''status'', JStr (poPaymentStatus p))]"

definition toCapturePaymentResponse :: "payment_outcome \<Rightarrow> json" where
  "toCapturePaymentResponse p =
     JObj [(''payment_id'', JStr (poPaymentID p)), (''order_id'', JStr (poOrderID p)),
           (''customer_id'', JStr (poCustomerID p)), (''status'', JStr (poPaymentStatus p))]"

definition toGetProductByIDResponse :: "gw_product \<Rightarrow> json" where
  "toGetProductByIDResponse p =
     JObj [(''product_id'', JStr (gpID p)), (''name'', JStr (gpName p)), (''description'', JStr (gpDescription p)),
           (''price_cents'', JInt (gpPriceCents p)), (''currency'', JStr (gpCurrency p))]"

definition toCreateProductResponse :: "gw_product \<Rightarrow> json" where
  "toCreateProductResponse p =
     JObj [(''product_id'', JStr (gpID p)), (''name'', JStr (gpName p)), (''description'', JStr (gpDescription p)),
           (''price_cents'', JInt (gpPriceCents p)), (''currency'', JStr (gpCurrency p))]"

definition toUpdateProductResponse :: "gw_product \<Rightarrow> json" where
  "toUpdateProductResponse p =
     JObj [(''product_id'', JStr (gpID p)), (''name'', JStr (gpName p)), (''description'', JStr (gpDescription p)),
           (''price_cents'', JInt (gpPriceCents p)), (''currency'', JStr (gpCurrency p))]"

definition toListProductsResponse :: "gw_product gw_page \<Rightarrow> json" where
  "toListProductsResponse p =
     JObj [(''products'', JArr (map toGetProductByIDResponse (gwItems p))), (''page'', JInt (gwPage p)),
           (''page_size'', JInt (gwPageSize p)), (''total'', JInt (gwTotal p))]"

definition toGetStockByProductIDResponse :: "string \<times> int \<times> int \<Rightarrow> json" where
  "toGetStockByProductIDResponse st =
     JObj [(''product_id'', JStr (fst st)), (''available'', JInt (fst (snd st))), (''reserved'', JInt (snd (snd st)))]"

definition HealthResponse :: "string \<Rightarrow> string list \<Rightarrow> json" where
  "HealthResponse st missing =
     JObj ([(''status'', JStr st), (''service'', JStr ''gateway-service'')] @
           (if missing = [] then [] else [(''missing_dependencies'', JArr (map JStr missing))]))"

section \<open>The handlers\<close>

definition mapCheckoutItems :: "checkout_item_request list \<Rightarrow> gw_item list" where
  "mapCheckoutItems items =
     map (\<lambda>i. \<lparr>giProductID = hiProductID i, giSKU = hiSKU i, giProductName = hiProductName i, giQuantity = hiQuantity i,
               giUnitPrice = \<lparr>gmCurrency = hiCurrency i, gmAmountCents = hiAmountCents i\<rparr>,
               giTotalPrice = zero_gw_money\<rparr>) items"

definition mapAddressRequest :: "gw_address \<Rightarrow> gw_address" where
  "mapAddressRequest a =
     \<lparr>gaCountry = gaCountry a, gaCity = gaCity a, gaStreet = gaStreet a,
      gaPostalCode = gaPostalCode a, gaHouse = gaHouse a, gaApartment = gaApartment a\<rparr>"

definition http_Checkout :: "'s gateway_service \<Rightarrow> bind_error + checkout_request \<Rightarrow> 's \<Rightarrow> http_response \<times> 's" where
  "http_Checkout svc req =
     bound CheckoutRequest_shape ''invalid request body'' req (\<lambda>r s.
       write_response (\<lambda>x. JSON_response 201 (CheckoutResponse x))
         (gw_Checkout svc (Some \<lparr>ciCustomerID = hrCustomerID r, ciItems = mapCheckoutItems (hrItems r),
            ciShippingAddress = mapAddressRequest (hrShippingAddress r), ciIdempotencyKey = hrIdempotencyKey r,
            ciPayment = \<lparr>gdMethod = gdMethod (hrPayment r), gdMethodDetails = gdMethodDetails (hrPayment r)\<rparr>\<rparr>) s))"

definition http_GetOrderByID :: "'s gateway_service \<Rightarrow> bind_error + string \<Rightarrow> 's \<Rightarrow> http_response \<times> 's" where
  "http_GetOrderByID svc uri =
     bound OrderID_shape ''invalid request path parameters'' uri (\<lambda>oid s.
       write_response (\<lambda>x. JSON_response 200 (toGetOrderByIDResponse x)) (gw_GetOrderByID svc (Some oid) s))"

text \<open>
  Cancelling: the handler up to the service call, which runs side by side with others
  (\<open>gw_CancelOrder\<close>), and the answer to its result.
\<close>

definition http_CancelOrder_input ::
    "bind_error + string \<Rightarrow> bind_error + string \<Rightarrow> string \<Rightarrow> http_response + cancel_input" where
  "http_CancelOrder_input uri req key =
     (case uri of
        Inl e \<Rightarrow> Inl (writeBindError e OrderID_shape ''invalid request path parameters'')
      | Inr oid \<Rightarrow>
     (case req of
        Inl e \<Rightarrow> Inl (writeBindError e Reason_shape ''invalid request body'')
      | Inr reason \<Rightarrow> Inr (Some (oid, reason, key))))"

definition http_CancelOrder_answer :: "gateway_error + cancel_result \<Rightarrow> http_response" where
  "http_CancelOrder_answer r = case_sum writeError (\<lambda>x. JSON_response 200 (toCancelOrderResponse x)) r"

definition http_CancelOrder ::
    "'s gateway_service \<Rightarrow> bind_error + string \<Rightarrow> bind_error + string \<Rightarrow> string \<Rightarrow> cancel_table \<Rightarrow> 's \<Rightarrow>
     (http_response \<times> cancel_table \<times> 's) option" where
  "http_CancelOrder svc uri req key tab s =
     (case http_CancelOrder_input uri req key of
        Inl resp \<Rightarrow> Some (resp, tab, s)
      | Inr input \<Rightarrow> map_option (\<lambda>(r, tab', s'). (http_CancelOrder_answer r, tab', s')) (gw_CancelOrder svc input tab s))"

definition clamp_page :: "int \<Rightarrow> int" where
  "clamp_page page = (if page \<le> 0 then 1 else page)"

definition clamp_page_size :: "int \<Rightarrow> int" where
  "clamp_page_size pageSize =
     (let n = (if pageSize \<le> 0 then 20 else pageSize) in if n > 100 then 100 else n)"

definition http_ListOrdersByCustomer ::
    "'s gateway_service \<Rightarrow> bind_error + string \<Rightarrow> bind_error + (int \<times> int) \<Rightarrow> 's \<Rightarrow> http_response \<times> 's" where
  "http_ListOrdersByCustomer svc uri query =
     bound CustomerID_shape ''invalid request path parameters'' uri (\<lambda>cid.
     bound page_shape ''invalid query parameters'' query (\<lambda>(page, pageSize) s.
       write_response (\<lambda>x. JSON_response 200 (toListOrdersByCustomerResponse x))
         (gw_ListOrdersByCustomer svc (Some (cid, clamp_page page, clamp_page_size pageSize)) s)))"

definition http_GetPaymentByID :: "'s gateway_service \<Rightarrow> bind_error + string \<Rightarrow> 's \<Rightarrow> http_response \<times> 's" where
  "http_GetPaymentByID svc uri =
     bound PaymentID_shape ''invalid request path parameters'' uri (\<lambda>pid s.
       write_response (\<lambda>x. JSON_response 200 (toGetPaymentByIDResponse x)) (gw_GetPaymentByID svc (Some pid) s))"

definition http_getPaymentByOrderID :: "'s gateway_service \<Rightarrow> bind_error + string \<Rightarrow> 's \<Rightarrow> http_response \<times> 's" where
  "http_getPaymentByOrderID svc uri =
     bound OrderID_shape ''invalid request path parameters'' uri (\<lambda>oid s.
       write_response (\<lambda>x. JSON_response 200 (toGetPaymentByOrderIDResponse x)) (gw_GetPaymentByOrderID svc (Some oid) s))"

definition http_GetPaymentByOrderID :: "'s gateway_service \<Rightarrow> bind_error + string \<Rightarrow> 's \<Rightarrow> http_response \<times> 's" where
  "http_GetPaymentByOrderID svc uri = http_getPaymentByOrderID svc uri"

definition http_GetOrderPayment :: "'s gateway_service \<Rightarrow> bind_error + string \<Rightarrow> 's \<Rightarrow> http_response \<times> 's" where
  "http_GetOrderPayment svc uri = http_getPaymentByOrderID svc uri"

definition http_ListPaymentsByCustomer ::
    "'s gateway_service \<Rightarrow> bind_error + string \<Rightarrow> bind_error + (int \<times> int) \<Rightarrow> 's \<Rightarrow> http_response \<times> 's" where
  "http_ListPaymentsByCustomer svc uri query =
     bound CustomerID_shape ''invalid request path parameters'' uri (\<lambda>cid.
     bound page_shape ''invalid query parameters'' query (\<lambda>(page, pageSize) s.
       write_response (\<lambda>x. JSON_response 200 (toListPaymentsByCustomerResponse x))
         (gw_ListPaymentsByCustomer svc (Some (cid, clamp_page page, clamp_page_size pageSize)) s)))"

definition http_CancelPayment ::
    "'s gateway_service \<Rightarrow> bind_error + string \<Rightarrow> bind_error + string \<Rightarrow> 's \<Rightarrow> http_response \<times> 's" where
  "http_CancelPayment svc uri req =
     bound PaymentID_shape ''invalid request path parameters'' uri (\<lambda>pid.
     bound Reason_shape ''invalid request body'' req (\<lambda>reason s.
       write_response (\<lambda>x. JSON_response 200 (toCancelPaymentResponse x)) (gw_CancelPayment svc (Some (pid, reason)) s)))"

definition http_CapturePayment :: "'s gateway_service \<Rightarrow> bind_error + string \<Rightarrow> 's \<Rightarrow> http_response \<times> 's" where
  "http_CapturePayment svc uri =
     bound PaymentID_shape ''invalid request path parameters'' uri (\<lambda>pid s.
       write_response (\<lambda>x. JSON_response 200 (toCapturePaymentResponse x)) (gw_CapturePayment svc (Some pid) s))"

definition http_CreateProduct :: "'s gateway_service \<Rightarrow> bind_error + gw_product \<Rightarrow> 's \<Rightarrow> http_response \<times> 's" where
  "http_CreateProduct svc req =
     bound CreateProductRequest_shape ''invalid request body'' req (\<lambda>r s.
       write_response (\<lambda>x. JSON_response 201 (toCreateProductResponse x))
         (gw_CreateProduct svc (Some \<lparr>gpID = gpID r, gpName = gpName r, gpDescription = gpDescription r,
            gpPriceCents = gpPriceCents r, gpCurrency = gpCurrency r\<rparr>) s))"

text \<open>The body is the fields of \<open>UpdateProductRequest\<close>: name, description, price, currency.\<close>

definition http_UpdateProduct ::
    "'s gateway_service \<Rightarrow> bind_error + string \<Rightarrow>
     bind_error + (string option \<times> string option \<times> int option \<times> string option) \<Rightarrow> 's \<Rightarrow> http_response \<times> 's" where
  "http_UpdateProduct svc uri req =
     bound ProductID_shape ''invalid request path parameters'' uri (\<lambda>pid.
     bound UpdateProductRequest_shape ''invalid request body'' req (\<lambda>(name, descr, price, cur) s.
       write_response (\<lambda>x. JSON_response 200 (toUpdateProductResponse x))
         (gw_UpdateProduct svc (Some \<lparr>guProductID = pid, guName = name, guDescription = descr,
            guPriceCents = price, guCurrency = cur\<rparr>) s)))"

definition http_DeleteProduct :: "'s gateway_service \<Rightarrow> bind_error + string \<Rightarrow> 's \<Rightarrow> http_response \<times> 's" where
  "http_DeleteProduct svc uri =
     bound ProductID_shape ''invalid request path parameters'' uri (\<lambda>pid s.
       write_response (\<lambda>_. \<lparr>statusCode = 204, body = None\<rparr>) (gw_DeleteProduct svc (Some pid) s))"

definition http_GetProductByID :: "'s gateway_service \<Rightarrow> bind_error + string \<Rightarrow> 's \<Rightarrow> http_response \<times> 's" where
  "http_GetProductByID svc uri =
     bound ProductID_shape ''invalid request path parameters'' uri (\<lambda>pid s.
       write_response (\<lambda>x. JSON_response 200 (toGetProductByIDResponse x)) (gw_GetProductByID svc (Some pid) s))"

definition http_ListProducts :: "'s gateway_service \<Rightarrow> bind_error + (int \<times> int) \<Rightarrow> 's \<Rightarrow> http_response \<times> 's" where
  "http_ListProducts svc query =
     bound page_shape ''invalid query parameters'' query (\<lambda>(page, pageSize) s.
       write_response (\<lambda>x. JSON_response 200 (toListProductsResponse x))
         (gw_ListProducts svc (Some (clamp_page page, clamp_page_size pageSize)) s))"

definition http_GetStockByProductID :: "'s gateway_service \<Rightarrow> bind_error + string \<Rightarrow> 's \<Rightarrow> http_response \<times> 's" where
  "http_GetStockByProductID svc uri =
     bound ProductID_shape ''invalid request path parameters'' uri (\<lambda>pid s.
       write_response (\<lambda>x. JSON_response 200 (toGetStockByProductIDResponse x)) (gw_GetStockByProductID svc (Some pid) s))"

definition http_Healthz :: http_response where
  "http_Healthz = JSON_response 200 (HealthResponse ''ok'' [])"

definition http_Readyz :: "'s gateway_service option \<Rightarrow> http_response" where
  "http_Readyz svc =
     (case svc of
        None \<Rightarrow> JSON_response 503 (HealthResponse ''not_ready'' [''gateway_service''])
      | Some g \<Rightarrow>
          (case ReadinessStatus (Some g) of (ready, missing) \<Rightarrow>
             if \<not> ready then JSON_response 503 (HealthResponse ''not_ready'' missing)
             else JSON_response 200 (HealthResponse ''ready'' [])))"

end
