(* ===== verification/Request_Id.thy ===== *)
theory Request_Id
  imports Prelude
begin

text \<open>
  The identifier of a request on its way through the programs
  (\<open>internal/shared/requestid/requestid.go\<close>, \<open>internal/shared/grpcmiddleware/request_id.go\<close> and
  the gateway's \<open>request_id.go\<close>): in the header of the HTTP request and of its answer, in the
  context of the handler, in the metadata of the gRPC call, in the context of the called service.
\<close>

section \<open>Contexts\<close>

text \<open>
  What the code puts into a context and takes out of it; \<open>None\<close> is a nil context. Metadata is
  the list of pairs of a key in lower case and a value.
\<close>

type_synonym metadata = "(string \<times> string) list"

record request_context =
  value_of_requestIDKey :: "string option"
  outgoing :: metadata
  incoming :: metadata

definition Background :: request_context where
  "Background = \<lparr>value_of_requestIDKey = None, outgoing = [], incoming = []\<rparr>"

definition live :: "request_context option \<Rightarrow> request_context" where
  "live ctx = (case ctx of None \<Rightarrow> Background | Some c \<Rightarrow> c)"

definition MetadataKey :: string where
  "MetadataKey = ''x-request-id''"

definition WithContext :: "request_context option \<Rightarrow> string \<Rightarrow> request_context" where
  "WithContext ctx requestID = (live ctx)\<lparr>value_of_requestIDKey := Some requestID\<rparr>"

definition FromContext :: "request_context option \<Rightarrow> string" where
  "FromContext ctx =
     (case ctx of
        None \<Rightarrow> []
      | Some c \<Rightarrow> (case value_of_requestIDKey c of None \<Rightarrow> [] | Some requestID \<Rightarrow> requestID))"

definition WithOutgoingMetadata :: "request_context option \<Rightarrow> request_context" where
  "WithOutgoingMetadata ctx =
     (let c = live ctx; requestID = TrimSpace (FromContext (Some c))
      in if requestID = [] then c else c\<lparr>outgoing := outgoing c @ [(MetadataKey, requestID)]\<rparr>)"

section \<open>New identifiers\<close>

definition hex_digit :: "nat \<Rightarrow> char" where
  "hex_digit d = ''0123456789abcdef'' ! (d mod 16)"

fun hex_EncodeToString :: "nat list \<Rightarrow> string" where
  "hex_EncodeToString [] = []"
| "hex_EncodeToString (b # bs) = hex_digit (b div 16) # hex_digit b # hex_EncodeToString bs"

function hex_number :: "nat \<Rightarrow> string" where
  "hex_number n = (if n < 16 then [hex_digit n] else hex_number (n div 16) @ [hex_digit n])"
  by pat_completeness auto
termination
  by (relation "measure id") auto

declare hex_number.simps [simp del]

text \<open>
  \<open>rand.Read\<close> gives 16 bytes or an error; after an error the clock is used, in hexadecimal.
\<close>

definition Generate :: "nat list option \<Rightarrow> int \<Rightarrow> string" where
  "Generate random now =
     (case random of
        None \<Rightarrow> if now < 0 then CHR ''-'' # hex_number (nat (- now)) else hex_number (nat now)
      | Some buf \<Rightarrow> hex_EncodeToString buf)"

definition random_ok :: "nat list option \<Rightarrow> bool" where
  "random_ok random \<longleftrightarrow> (case random of None \<Rightarrow> True | Some buf \<Rightarrow> length buf = 16)"

lemma graphic_hex_digit: "graphic (hex_digit d)"
proof -
  have "list_all graphic ''0123456789abcdef''" by simp
  moreover have "d mod 16 < length ''0123456789abcdef''" by simp
  ultimately show ?thesis unfolding hex_digit_def list_all_length by blast
qed

lemma graphic_hex_EncodeToString: "list_all graphic (hex_EncodeToString bs)" "length (hex_EncodeToString bs) = 2 * length bs"
  by (induction bs) (simp_all add: graphic_hex_digit)

lemma graphic_hex_number: "hex_number n \<noteq> [] \<and> list_all graphic (hex_number n)"
proof (induction n rule: hex_number.induct)
  case (1 n)
  then show ?case by (simp add: hex_number.simps [of n] graphic_hex_digit)
qed

lemma graphic_trimmed: "list_all graphic s \<Longrightarrow> TrimSpace s = s"
  by (intro TrimSpace_ascii) (auto simp: trimmed_ascii_def list_all_iff)

lemma Generate_graphic: "random_ok random \<Longrightarrow> Generate random now \<noteq> [] \<and> list_all graphic (Generate random now)"
  using graphic_hex_number graphic_hex_EncodeToString [of "the random"]
  by (cases random) (auto simp: Generate_def random_ok_def)

section \<open>At the edges\<close>

text \<open>The gateway takes the identifier of the header, if it has one, and answers with it.\<close>

definition requestIDMiddleware :: "string \<Rightarrow> string \<Rightarrow> request_context \<Rightarrow> request_context \<times> string" where
  "requestIDMiddleware header generated ctx =
     (let requestID = (if TrimSpace header = [] then generated else TrimSpace header)
      in (WithContext (Some ctx) requestID, requestID))"

definition incomingRequestID :: "string \<Rightarrow> request_context \<Rightarrow> string" where
  "incomingRequestID generated ctx =
     (case find (\<lambda>requestID. requestID \<noteq> []) (map (\<lambda>(_, v). TrimSpace v) (filter (\<lambda>(k, _). k = MetadataKey) (incoming ctx))) of
        Some requestID \<Rightarrow> requestID
      | None \<Rightarrow> generated)"

definition RequestIDUnaryServerInterceptor ::
    "string \<Rightarrow> (request_context \<Rightarrow> 'req \<Rightarrow> 'a) \<Rightarrow> request_context \<Rightarrow> 'req \<Rightarrow> 'a" where
  "RequestIDUnaryServerInterceptor generated next_handler ctx req =
     next_handler (WithContext (Some ctx) (incomingRequestID generated ctx)) req"

text \<open>
  C36: One identifier for the whole request. The gateway answers with an identifier that is never
  empty: that of the request's header without blanks around it, or a fresh one. The handler finds
  the same one in its context, and so does the method of a service that the handler calls
  through a client, when the metadata of the call arrives.
\<close>
theorem request_id_travels:
  assumes "requestIDMiddleware header (Generate random now) Background = (ctx, answered)"
    and "random_ok random" and "incoming server_ctx = outgoing (WithOutgoingMetadata (Some ctx))"
  shows "answered \<noteq> [] \<and> (TrimSpace header \<noteq> [] \<longrightarrow> answered = TrimSpace header) \<and>
    FromContext (Some ctx) = answered \<and>
    RequestIDUnaryServerInterceptor generated (\<lambda>c req. (FromContext (Some c), handle req)) server_ctx req = (answered, handle req)"
proof -
  have g: "Generate random now \<noteq> []" "TrimSpace (Generate random now) = Generate random now"
    using Generate_graphic [OF assms(2)] graphic_trimmed by auto
  have a: "answered = (if TrimSpace header = [] then Generate random now else TrimSpace header)" "ctx = WithContext (Some Background) answered"
    using assms(1) by (auto simp: requestIDMiddleware_def Let_def)
  then have t: "answered \<noteq> []" "TrimSpace answered = answered" using g by auto
  then have "incoming server_ctx = [(MetadataKey, answered)]"
    by (simp add: assms(3) a(2) WithOutgoingMetadata_def WithContext_def FromContext_def live_def Background_def Let_def)
  then show ?thesis
    using a t by (simp add: FromContext_def WithContext_def live_def RequestIDUnaryServerInterceptor_def incomingRequestID_def)
qed

theorem request_id_travels_witness:
  "\<exists>ctx. requestIDMiddleware ''  checkout-17 '' (Generate (Some (replicate 16 0)) 0) Background = (ctx, ''checkout-17'') \<and>
     RequestIDUnaryServerInterceptor ''other'' (\<lambda>c req. (FromContext (Some c), length req))
       (Background\<lparr>incoming := outgoing (WithOutgoingMetadata (Some ctx))\<rparr>) ''order-1'' = (''checkout-17'', 7)"
proof -
  have h: "TrimSpace ''  checkout-17 '' = ''checkout-17''"
    by (simp add: TrimSpace_def strip_right_def strip_left.simps space_runes_def)
  obtain ctx where m: "requestIDMiddleware ''  checkout-17 '' (Generate (Some (replicate 16 0)) 0) Background = (ctx, ''checkout-17'')"
    by (simp add: requestIDMiddleware_def Let_def h)
  have "random_ok (Some (replicate 16 0))" by (simp add: random_ok_def)
  from request_id_travels [OF m this, of "Background\<lparr>incoming := outgoing (WithOutgoingMetadata (Some ctx))\<rparr>" "''other''" length "''order-1''"] m
  show ?thesis by simp
qed

end
