(* ===== verification/Environment.thy ===== *)
theory Environment
  imports Prelude
begin

text \<open>
  The environment variables of a process and the standard-library parsers the services apply
  to them at start-up (\<open>getenv\<close> and \<open>parseKafkaBrokers\<close> of the \<open>cmd\<close> programs,
  \<open>strings.Split\<close>, \<open>strconv.Atoi\<close>, \<open>time.ParseDuration\<close>, \<open>Duration.String\<close>).
\<close>

type_synonym environment = "string \<Rightarrow> string option"

definition getenv :: "environment \<Rightarrow> string \<Rightarrow> string \<Rightarrow> string" where
  "getenv env key fallback =
     (case env key of Some value \<Rightarrow> if value \<noteq> [] then value else fallback | None \<Rightarrow> fallback)"

section \<open>Lists of brokers\<close>

text \<open>\<open>strings.Split\<close> at a one-byte separator: one part more than separators.\<close>

fun Split :: "char \<Rightarrow> string \<Rightarrow> string list" where
  "Split sep [] = [[]]"
| "Split sep (c # s) =
     (if c = sep then [] # Split sep s
      else case Split sep s of [] \<Rightarrow> [[c]] | p # ps \<Rightarrow> (c # p) # ps)"

definition parseKafkaBrokers :: "string \<Rightarrow> string list" where
  "parseKafkaBrokers raw = filter (\<lambda>broker. broker \<noteq> []) (map TrimSpace (Split (CHR '','') raw))"

lemma Split_not_Nil [simp]: "Split sep s \<noteq> []"
  by (induction s) (auto split: list.splits)

lemma Split_no_sep: "sep \<notin> set s \<Longrightarrow> Split sep s = [s]"
  by (induction s) auto

lemma Split_sep: "sep \<notin> set s \<Longrightarrow> Split sep (s @ sep # t) = s # Split sep t"
  by (induction s) auto

lemma parseKafkaBrokers_listed:
  "b \<in> set (parseKafkaBrokers raw) \<Longrightarrow> b \<noteq> [] \<and> TrimSpace b = b"
  by (auto simp: parseKafkaBrokers_def)

text \<open>A list of brokers written with commas is read back, also with blanks around them.\<close>

lemma parseKafkaBrokers_Cons:
  assumes "CHR '','' \<notin> set b" "TrimSpace b \<noteq> []"
  shows "parseKafkaBrokers b = [TrimSpace b]"
    "parseKafkaBrokers (b @ CHR '','' # rest) = TrimSpace b # parseKafkaBrokers rest"
  using assms by (simp_all add: parseKafkaBrokers_def Split_no_sep Split_sep)

section \<open>Integers\<close>

datatype num_error = ErrSyntax | ErrRange

fun num_error_text :: "num_error \<Rightarrow> string" where
  "num_error_text ErrSyntax = ''invalid syntax''"
| "num_error_text ErrRange = ''value out of range''"

definition is_digit :: "char \<Rightarrow> bool" where
  "is_digit c \<longleftrightarrow> 48 \<le> (of_char c :: nat) \<and> (of_char c :: nat) \<le> 57"

definition digit_of :: "char \<Rightarrow> nat" where
  "digit_of c = of_char c - 48"

fun parse_uint :: "nat \<Rightarrow> string \<Rightarrow> num_error + nat" where
  "parse_uint n [] = Inr n"
| "parse_uint n (c # s) =
     (if \<not> is_digit c then Inl ErrSyntax
      else if 10 * n + digit_of c \<ge> 2 ^ 64 then Inl ErrRange
      else parse_uint (10 * n + digit_of c) s)"

definition Atoi :: "string \<Rightarrow> string + int" where
  "Atoi s =
     (let fail = (\<lambda>e. Inl (''strconv.Atoi: parsing '' @ quote s @ '': '' @ num_error_text e));
          signed = s \<noteq> [] \<and> (hd s = CHR ''-'' \<or> hd s = CHR ''+'');
          neg = (s \<noteq> [] \<and> hd s = CHR ''-'');
          ds = (if signed then tl s else s)
      in if ds = [] then fail ErrSyntax
         else case parse_uint 0 ds of
             Inl e \<Rightarrow> fail e
           | Inr n \<Rightarrow>
               (if \<not> neg \<and> n \<ge> 2 ^ 63 then fail ErrRange
                else if neg \<and> n > 2 ^ 63 then fail ErrRange
                else Inr (if neg then - int n else int n)))"

lemma digit_of_digit [simp]: "d < 10 \<Longrightarrow> digit_of (digit d) = d" "d < 10 \<Longrightarrow> is_digit (digit d)"
  by (simp_all add: digit_of_def is_digit_def of_char_digit)

lemma parse_uint_append:
  "parse_uint n (s @ t) = (case parse_uint n s of Inl e \<Rightarrow> Inl e | Inr m \<Rightarrow> parse_uint m t)"
  by (induction s arbitrary: n) auto

lemma parse_uint_nat_digits: "n < 2 ^ 64 \<Longrightarrow> parse_uint 0 (nat_digits n) = Inr n"
proof (induction n rule: nat_digits.induct)
  case (1 n)
  show ?case
  proof (cases "n < 10")
    case True
    then show ?thesis by (simp add: nat_digits.simps [of n])
  next
    case False
    have "n div 10 < 2 ^ 64" using 1(2) by simp
    moreover have "10 * (n div 10) + n mod 10 = n" by simp
    ultimately show ?thesis using False 1 by (simp add: nat_digits.simps [of n] parse_uint_append)
  qed
qed

lemma Atoi_itoa: "is_int64 i \<Longrightarrow> Atoi (itoa i) = Inr i"
proof -
  assume i: "is_int64 i"
  have "hd (nat_digits n) \<noteq> CHR ''-'' \<and> hd (nat_digits n) \<noteq> CHR ''+''" for n
    using nat_digits_chars [of "hd (nat_digits n)" n] by auto
  then show ?thesis using i
    by (auto simp: Atoi_def itoa_def is_int64_def parse_uint_nat_digits nat_less_iff nat_le_iff le_nat_iff)
qed

section \<open>Durations\<close>

fun leadingInt :: "nat \<Rightarrow> string \<Rightarrow> (nat \<times> string) option" where
  "leadingInt x [] = Some (x, [])"
| "leadingInt x (c # s) =
     (if \<not> is_digit c then Some (x, c # s)
      else if x > 2 ^ 63 div 10 then None
      else if 10 * x + digit_of c > 2 ^ 63 then None
      else leadingInt (10 * x + digit_of c) s)"

fun leadingFraction :: "nat \<Rightarrow> nat \<Rightarrow> bool \<Rightarrow> string \<Rightarrow> nat \<times> nat \<times> string" where
  "leadingFraction x scale overflow [] = (x, scale, [])"
| "leadingFraction x scale overflow (c # s) =
     (if \<not> is_digit c then (x, scale, c # s)
      else if overflow then leadingFraction x scale True s
      else if x > (2 ^ 63 - 1) div 10 then leadingFraction x scale True s
      else if 10 * x + digit_of c > 2 ^ 63 then leadingFraction x scale True s
      else leadingFraction (10 * x + digit_of c) (10 * scale) False s)"

definition unitMap :: "string \<Rightarrow> nat option" where
  "unitMap = map_of
     [(''ns'', 1), (''us'', 10 ^ 3), ([CHR 0xC2, CHR 0xB5, CHR ''s''], 10 ^ 3),
      ([CHR 0xCE, CHR 0xBC, CHR ''s''], 10 ^ 3), (''ms'', 10 ^ 6), (''s'', 10 ^ 9),
      (''m'', 60 * 10 ^ 9), (''h'', 3600 * 10 ^ 9)]"

text \<open>
  One number with its unit. \<open>fraction f unit scale\<close> is the standard library's
  \<open>uint64(float64(f) * (float64(unit) / scale))\<close>: its floating point is a parameter.
\<close>

type_synonym fraction = "nat \<Rightarrow> nat \<Rightarrow> nat \<Rightarrow> nat"

definition duration_part :: "fraction \<Rightarrow> string \<Rightarrow> string \<Rightarrow> string + (nat \<times> string)" where
  "duration_part fraction orig s =
     (let invalid = Inl (''time: invalid duration '' @ quote orig)
      in if \<not> (hd s = CHR ''.'' \<or> is_digit (hd s)) then invalid
         else case leadingInt 0 s of
             None \<Rightarrow> invalid
           | Some (v, s1) \<Rightarrow>
               (let dot = s1 \<noteq> [] \<and> hd s1 = CHR ''.'';
                    (f, scale, s2) = (if dot then leadingFraction 0 1 False (tl s1) else (0, 1, s1));
                    pre = length s1 \<noteq> length s;
                    post = dot \<and> length s2 \<noteq> length (tl s1);
                    u = takeWhile (\<lambda>c. \<not> (c = CHR ''.'' \<or> is_digit c)) s2
                in if \<not> pre \<and> \<not> post then invalid
                   else if u = [] then Inl (''time: missing unit in duration '' @ quote orig)
                   else case unitMap u of
                       None \<Rightarrow> Inl (''time: unknown unit '' @ quote u @ '' in duration '' @ quote orig)
                     | Some unit \<Rightarrow>
                         (let v1 = v * unit; v2 = (if f > 0 then (v1 + fraction f unit scale) mod 2 ^ 64 else v1)
                          in if v > 2 ^ 63 div unit then invalid
                             else if f > 0 \<and> v2 > 2 ^ 63 then invalid
                             else Inr (v2, drop (length u) s2))))"

lemma leadingInt_shorter: "leadingInt x s = Some (v, s1) \<Longrightarrow> length s1 \<le> length s"
  by (induction x s rule: leadingInt.induct) (force split: if_splits)+

lemma leadingFraction_shorter: "leadingFraction x sc ov s = (f, sc', s2) \<Longrightarrow> length s2 \<le> length s"
  by (induction x sc ov s rule: leadingFraction.induct) (force split: if_splits)+

lemma duration_part_shorter:
  assumes "duration_part fraction orig s = Inr (v, rest)" "s \<noteq> []"
  shows "length rest < length s"
proof -
  have cut: "takeWhile P t \<noteq> [] \<Longrightarrow> length (drop (length (takeWhile P t)) t) < length t" for P and t :: string
    by (cases t) (auto simp: less_Suc_eq_le split: if_splits)
  obtain w s1 where 1: "leadingInt 0 s = Some (w, s1)"
    using assms(1) by (auto simp: duration_part_def Let_def split: if_splits option.splits)
  define dot where "dot \<longleftrightarrow> s1 \<noteq> [] \<and> hd s1 = CHR ''.''"
  obtain f sc s2 where 2: "(if dot then leadingFraction 0 1 False (tl s1) else (0, 1, s1)) = (f, sc, s2)"
    by (metis prod_cases3)
  have l: "length s2 \<le> length s"
    using leadingInt_shorter [OF 1] 2 leadingFraction_shorter [of 0 1 False "tl s1" f sc s2]
    by (fastforce split: if_splits)
  define u where "u = takeWhile (\<lambda>c. \<not> (c = CHR ''.'' \<or> is_digit c)) s2"
  have "u \<noteq> []" "rest = drop (length u) s2"
    using assms(1) 1 2 unfolding duration_part_def dot_def [symmetric]
    by (auto simp: Let_def u_def dot_def [symmetric] split: if_splits option.splits)
  with cut l show ?thesis unfolding u_def by (metis le_trans less_le_not_le linorder_not_le)
qed

function parse_parts :: "fraction \<Rightarrow> string \<Rightarrow> nat \<Rightarrow> string \<Rightarrow> string + nat" where
  "parse_parts fraction orig d s =
     (if s = [] then Inr d
      else case duration_part fraction orig s of
          Inl e \<Rightarrow> Inl e
        | Inr (v, rest) \<Rightarrow>
            (let d1 = (d + v) mod 2 ^ 64
             in if d1 > 2 ^ 63 then Inl (''time: invalid duration '' @ quote orig)
                else parse_parts fraction orig d1 rest))"
  by pat_completeness auto
termination
  by (relation "measure (\<lambda>(_, _, _, s). length s)") (auto dest: duration_part_shorter)

declare parse_parts.simps [simp del]

definition ParseDuration :: "fraction \<Rightarrow> string \<Rightarrow> string + int" where
  "ParseDuration fraction orig =
     (let signed = orig \<noteq> [] \<and> (hd orig = CHR ''-'' \<or> hd orig = CHR ''+'');
          neg = (orig \<noteq> [] \<and> hd orig = CHR ''-'');
          s = (if signed then tl orig else orig);
          invalid = Inl (''time: invalid duration '' @ quote orig)
      in if s = ''0'' then Inr 0
         else if s = [] then invalid
         else case parse_parts fraction orig 0 s of
             Inl e \<Rightarrow> Inl e
           | Inr d \<Rightarrow>
               (if neg then Inr (- int d)
                else if d > 2 ^ 63 - 1 then invalid
                else Inr (int d)))"

text \<open>\<open>Duration.String\<close>: the fraction without its trailing zeros.\<close>

primrec fmtFrac :: "nat \<Rightarrow> nat \<Rightarrow> bool \<Rightarrow> string \<Rightarrow> string \<times> nat" where
  "fmtFrac 0 v printing acc = (if printing then CHR ''.'' # acc else acc, v)"
| "fmtFrac (Suc prec) v printing acc =
     (let printing' = (printing \<or> v mod 10 \<noteq> 0)
      in fmtFrac prec (v div 10) printing' (if printing' then digit (v mod 10) # acc else acc))"

definition Duration_String :: "int \<Rightarrow> string" where
  "Duration_String d =
     (let u = nat \<bar>d\<bar>;
          small = (\<lambda>prec unit. case fmtFrac prec u False unit of (frac, n) \<Rightarrow> nat_digits n @ frac);
          body =
            (if u = 0 then ''0s''
             else if u < 10 ^ 3 then small 0 ''ns''
             else if u < 10 ^ 6 then small 3 [CHR 0xC2, CHR 0xB5, CHR ''s'']
             else if u < 10 ^ 9 then small 6 ''ms''
             else case fmtFrac 9 u False ''s'' of (frac, n) \<Rightarrow>
               (let secs = nat_digits (n mod 60) @ frac; mins = n div 60; hours = mins div 60
                in if mins = 0 then secs
                   else if hours = 0 then nat_digits mins @ CHR ''m'' # secs
                   else nat_digits hours @ CHR ''h'' # nat_digits (mins mod 60) @ CHR ''m'' # secs))
      in if d < 0 then CHR ''-'' # body else body)"

section \<open>Evaluation\<close>

text \<open>The settings a variable that is not set falls back to.\<close>

lemma digit_literals [simp]:
  "digit 0 = CHR ''0''" "digit (Suc 0) = CHR ''1''" "digit 1 = CHR ''1''" "digit 2 = CHR ''2''" "digit 3 = CHR ''3''" "digit 4 = CHR ''4''"
  "digit 5 = CHR ''5''" "digit 6 = CHR ''6''" "digit 7 = CHR ''7''" "digit 8 = CHR ''8''" "digit 9 = CHR ''9''"
  by code_simp+

lemma fmtFrac_numeral [simp]:
  "fmtFrac (numeral k) v printing acc =
     (let printing' = (printing \<or> v mod 10 \<noteq> 0)
      in fmtFrac (pred_numeral k) (v div 10) printing' (if printing' then digit (v mod 10) # acc else acc))"
  by (simp only: numeral_eq_Suc fmtFrac.simps)

lemmas duration_eval = ParseDuration_def parse_parts.simps duration_part_def is_digit_def digit_of_def unitMap_def
  Duration_String_def nat_digits.simps

section \<open>Variables with a parsed value\<close>

definition parseDurationEnv :: "fraction \<Rightarrow> environment \<Rightarrow> string \<Rightarrow> int \<Rightarrow> string + int" where
  "parseDurationEnv fraction env key fallback =
     (case ParseDuration fraction (TrimSpace (getenv env key (Duration_String fallback))) of
        Inl e \<Rightarrow> Inl (''parse '' @ key @ '': '' @ e)
      | Inr value \<Rightarrow> Inr value)"

definition parseInt32Env :: "environment \<Rightarrow> string \<Rightarrow> int \<Rightarrow> string + int" where
  "parseInt32Env env key fallback =
     (case Atoi (TrimSpace (getenv env key (itoa fallback))) of
        Inl e \<Rightarrow> Inl (''parse '' @ key @ '': '' @ e)
      | Inr value \<Rightarrow>
          (if value > 2 ^ 31 - 1
           then Inl (''parse '' @ key @ '': value '' @ itoa value @ '' exceeds int32 range'')
           else Inr (wrap32 value)))"

end
