(* ===== verification/Gateway_Http.thy ===== *)
theory Gateway_Http
  imports Gateway_Handler Request_Id Environment
begin

text \<open>
  The gateway from the outside: the table of its routes (\<open>handler.go\<close>), the middleware around
  every handler (\<open>request_id.go\<close>, \<open>metrics.go\<close>, \<open>logging.go\<close>), and a sequence of requests through
  them. Which route a request takes is decided by the web framework; the model assumes that it is
  one whose HTTP method and path match, when there is one.
\<close>

section \<open>Routes\<close>

datatype endpoint =
    Metrics | Healthz | Readyz | Checkout | CancelOrder | CancelPayment | GetOrderByID | GetOrderPayment
  | ListOrdersByCustomer | ListPaymentsByCustomer | GetPaymentByID | GetPaymentByOrderID | CapturePayment
  | GetProductByID | ListProducts | CreateProduct | UpdateProduct | DeleteProduct | GetStockByProductID

type_synonym route = "string \<times> string \<times> endpoint"

definition routes :: "route list" where
  "routes =
     [(''GET'', ''/metrics'', Metrics),
      (''GET'', ''/healthz'', Healthz),
      (''GET'', ''/readyz'', Readyz),
      (''POST'', ''/checkout'', Checkout),
      (''POST'', ''/orders/:order_id/cancel'', CancelOrder),
      (''POST'', ''/payments/:payment_id/cancel'', CancelPayment),
      (''GET'', ''/orders/:order_id'', GetOrderByID),
      (''GET'', ''/orders/:order_id/payment'', GetOrderPayment),
      (''GET'', ''/customers/:customer_id/orders'', ListOrdersByCustomer),
      (''GET'', ''/customers/:customer_id/payments'', ListPaymentsByCustomer),
      (''GET'', ''/payments/:payment_id'', GetPaymentByID),
      (''GET'', ''/payments/order/:order_id'', GetPaymentByOrderID),
      (''POST'', ''/payments/:payment_id/capture'', CapturePayment),
      (''GET'', ''/catalog/products/:product_id'', GetProductByID),
      (''GET'', ''/catalog/products'', ListProducts),
      (''POST'', ''/catalog/products'', CreateProduct),
      (''PATCH'', ''/catalog/products/:product_id'', UpdateProduct),
      (''DELETE'', ''/catalog/products/:product_id'', DeleteProduct),
      (''GET'', ''/inventory/products/:product_id/stock'', GetStockByProductID)]"

text \<open>A segment that starts with a colon matches any segment that is not empty.\<close>

definition wildcard :: "string \<Rightarrow> bool" where
  "wildcard seg \<longleftrightarrow> seg \<noteq> [] \<and> hd seg = CHR '':''"

definition segment_matches :: "string \<Rightarrow> string \<Rightarrow> bool" where
  "segment_matches p s \<longleftrightarrow> (if wildcard p then s \<noteq> [] else s = p)"

definition path_matches :: "string \<Rightarrow> string \<Rightarrow> bool" where
  "path_matches pattern path \<longleftrightarrow>
     list_all2 segment_matches (Split (CHR ''/'') pattern) (Split (CHR ''/'') path)"

definition takes_route :: "string \<Rightarrow> string \<Rightarrow> route \<Rightarrow> bool" where
  "takes_route verb path r \<longleftrightarrow> r \<in> set routes \<and> fst r = verb \<and> path_matches (fst (snd r)) path"

type_synonym router = "string \<Rightarrow> string \<Rightarrow> route option"

definition matching_router :: "router \<Rightarrow> bool" where
  "matching_router router \<longleftrightarrow>
     (\<forall>verb path. case router verb path of
        Some r \<Rightarrow> takes_route verb path r
      | None \<Rightarrow> \<forall>r. \<not> takes_route verb path r)"

subsection \<open>No request has two routes\<close>

fun overlap :: "string list \<Rightarrow> string list \<Rightarrow> bool" where
  "overlap [] [] = True"
| "overlap (p # ps) (q # qs) = ((wildcard p \<or> wildcard q \<or> p = q) \<and> overlap ps qs)"
| "overlap _ _ = False"

lemma both_match:
  "list_all2 segment_matches ps ss \<Longrightarrow> list_all2 segment_matches qs ss \<Longrightarrow> overlap ps qs"
  by (induction ps qs arbitrary: ss rule: overlap.induct)
    (auto simp: list_all2_Cons1 list_all2_Cons2 segment_matches_def split: if_splits)

fun pairwise_apart :: "route list \<Rightarrow> bool" where
  "pairwise_apart [] = True"
| "pairwise_apart (r # rs) =
     (list_all (\<lambda>q. fst r \<noteq> fst q \<or> \<not> overlap (Split (CHR ''/'') (fst (snd r))) (Split (CHR ''/'') (fst (snd q)))) rs \<and>
      pairwise_apart rs)"

lemma overlap_sym: "overlap ps qs = overlap qs ps"
  by (induction ps qs rule: overlap.induct) auto

lemma pairwise_apartD:
  "pairwise_apart rs \<Longrightarrow> r \<in> set rs \<Longrightarrow> q \<in> set rs \<Longrightarrow> fst r = fst q \<Longrightarrow>
   overlap (Split (CHR ''/'') (fst (snd r))) (Split (CHR ''/'') (fst (snd q))) \<Longrightarrow> r = q"
  by (induction rs) (auto simp: list_all_iff overlap_sym)

lemma routes_apart: "pairwise_apart routes"
  by (simp add: routes_def wildcard_def)

lemma one_route:
  assumes "takes_route verb path r" "takes_route verb path q"
  shows "r = q"
  using assms pairwise_apartD [OF routes_apart, of r q] both_match
  by (auto simp: takes_route_def path_matches_def)

lemma matching_routerD:
  assumes "matching_router router"
  shows "router verb path = Some r \<longleftrightarrow> takes_route verb path r"
    and "router verb path = None \<longleftrightarrow> (\<forall>r. \<not> takes_route verb path r)"
proof -
  have "case router verb path of Some r \<Rightarrow> takes_route verb path r | None \<Rightarrow> \<forall>r. \<not> takes_route verb path r"
    using assms by (simp add: matching_router_def)
  note H = this
  have none: "\<not> takes_route verb path q" if "router verb path = None" for q
    using H that by (simp del: split_paired_All)
  have some: "takes_route verb path q" if "router verb path = Some q" for q
    using H that by simp
  show "router verb path = Some r \<longleftrightarrow> takes_route verb path r"
    using none [of r] some one_route [of verb path _ r] by (metis option.exhaust)
  show "router verb path = None \<longleftrightarrow> (\<forall>r. \<not> takes_route verb path r)"
    using none some by (metis option.exhaust)
qed

lemma router_determined:
  assumes "matching_router router" "matching_router router'"
  shows "router = router'"
proof (intro ext)
  fix verb path
  show "router verb path = router' verb path"
    using matching_routerD [OF assms(1), of verb path] matching_routerD [OF assms(2), of verb path]
    by (cases "router verb path") (simp_all del: split_paired_All split_paired_Ex, metis)
qed

text \<open>The router that looks through the table.\<close>

definition table_router :: router where
  "table_router verb path = find (\<lambda>(m, pattern, _). m = verb \<and> path_matches pattern path) routes"

lemma table_router_matches: "matching_router table_router"
proof -
  have "case table_router verb path of Some r \<Rightarrow> takes_route verb path r | None \<Rightarrow> \<forall>r. \<not> takes_route verb path r" for verb path
    using find_Some_in [of "\<lambda>(m, pattern, _). m = verb \<and> path_matches pattern path" routes]
      find_None_all [of "\<lambda>(m, pattern, _). m = verb \<and> path_matches pattern path" routes]
    by (auto simp: table_router_def takes_route_def split: option.splits)
  then show ?thesis by (simp add: matching_router_def)
qed

section \<open>Handlers\<close>

text \<open>What the framework binds for a handler: path, query, body, and a header.\<close>

record bindings =
  bOrderID :: "bind_error + string"
  bPaymentID :: "bind_error + string"
  bCustomerID :: "bind_error + string"
  bProductID :: "bind_error + string"
  bPage :: "bind_error + (int \<times> int)"
  bCheckout :: "bind_error + checkout_request"
  bReason :: "bind_error + string"
  bProduct :: "bind_error + gw_product"
  bPatch :: "bind_error + (string option \<times> string option \<times> int option \<times> string option)"
  bIdempotencyKey :: string

text \<open>
  The handler of an endpoint; \<open>None\<close> when the request waits for another one with its
  cancellation key. The page of the metrics library is a parameter.
\<close>

fun handle_endpoint ::
    "http_response \<Rightarrow> 's gateway_service \<Rightarrow> endpoint \<Rightarrow> bindings \<Rightarrow> cancel_table \<Rightarrow> 's \<Rightarrow>
     (http_response \<times> cancel_table \<times> 's) option" where
  "handle_endpoint page svc CancelOrder b tab s = http_CancelOrder svc (bOrderID b) (bReason b) (bIdempotencyKey b) tab s"
| "handle_endpoint page svc ep b tab s =
     (let (resp, s') =
        (case ep of
           Metrics \<Rightarrow> (page, s)
         | Healthz \<Rightarrow> (http_Healthz, s)
         | Readyz \<Rightarrow> (http_Readyz (Some svc), s)
         | Checkout \<Rightarrow> http_Checkout svc (bCheckout b) s
         | CancelPayment \<Rightarrow> http_CancelPayment svc (bPaymentID b) (bReason b) s
         | GetOrderByID \<Rightarrow> http_GetOrderByID svc (bOrderID b) s
         | GetOrderPayment \<Rightarrow> http_GetOrderPayment svc (bOrderID b) s
         | ListOrdersByCustomer \<Rightarrow> http_ListOrdersByCustomer svc (bCustomerID b) (bPage b) s
         | ListPaymentsByCustomer \<Rightarrow> http_ListPaymentsByCustomer svc (bCustomerID b) (bPage b) s
         | GetPaymentByID \<Rightarrow> http_GetPaymentByID svc (bPaymentID b) s
         | GetPaymentByOrderID \<Rightarrow> http_GetPaymentByOrderID svc (bOrderID b) s
         | CapturePayment \<Rightarrow> http_CapturePayment svc (bPaymentID b) s
         | GetProductByID \<Rightarrow> http_GetProductByID svc (bProductID b) s
         | ListProducts \<Rightarrow> http_ListProducts svc (bPage b) s
         | CreateProduct \<Rightarrow> http_CreateProduct svc (bProduct b) s
         | UpdateProduct \<Rightarrow> http_UpdateProduct svc (bProductID b) (bPatch b) s
         | DeleteProduct \<Rightarrow> http_DeleteProduct svc (bProductID b) s
         | GetStockByProductID \<Rightarrow> http_GetStockByProductID svc (bProductID b) s)
      in Some (resp, tab, s'))"

section \<open>Middleware\<close>

record http_request =
  htMethod :: string
  htPath :: string
  htRequestID :: string
  htBindings :: bindings
  htGenerated :: string

datatype log_level = LevelInfo | LevelWarn | LevelError

record access_entry =
  aeRequestID :: string
  aeMethod :: string
  aePath :: string
  aeRoute :: string
  aeStatus :: int
  aeLevel :: log_level

type_synonym labels = "string \<times> string \<times> string"

record 's gateway_world =
  requests_total :: "labels \<Rightarrow> nat"
  durations_observed :: "labels \<Rightarrow> nat"
  access_log :: "access_entry list"
  cancellations :: cancel_table
  downstream :: 's

definition metricsRouteLabel :: "string \<Rightarrow> string" where
  "metricsRouteLabel full_path = (if full_path = [] then ''unknown'' else full_path)"

definition requestMetricsMiddleware :: "string \<Rightarrow> string \<Rightarrow> int \<Rightarrow> 's gateway_world \<Rightarrow> 's gateway_world" where
  "requestMetricsMiddleware verb full_path status w =
     (let l = (verb, metricsRouteLabel full_path, itoa status)
      in w\<lparr>requests_total := (requests_total w)(l := Suc (requests_total w l)),
           durations_observed := (durations_observed w)(l := Suc (durations_observed w l))\<rparr>)"

definition level_of :: "int \<Rightarrow> log_level" where
  "level_of status = (if status \<ge> 500 then LevelError else if status \<ge> 400 then LevelWarn else LevelInfo)"

definition requestLoggingMiddleware ::
    "request_context \<Rightarrow> string \<Rightarrow> string \<Rightarrow> string \<Rightarrow> int \<Rightarrow> 's gateway_world \<Rightarrow> 's gateway_world" where
  "requestLoggingMiddleware ctx verb path full_path status w =
     w\<lparr>access_log := access_log w @
        [\<lparr>aeRequestID = FromContext (Some ctx), aeMethod = verb, aePath = path,
          aeRoute = (if full_path = [] then path else full_path), aeStatus = status, aeLevel = level_of status\<rparr>]\<rparr>"

text \<open>
  One request through the chain of \<open>Register\<close>: the identifier, then around the handler the
  metrics and inside them the log, which therefore comes first. A request without a route gets
  the framework's answer with status 404 and has an empty \<open>FullPath\<close>. The answer is the
  response with the identifier in its header. The handlers of the model do not panic, so
  \<open>gin.Recovery\<close> has nothing to do; of a log entry the latency, the client's address and the
  text of the last error are left out, of a histogram everything but its number of observations.
\<close>

definition not_found :: http_response where
  "not_found = \<lparr>statusCode = 404, body = None\<rparr>"

definition full_path :: "router \<Rightarrow> http_request \<Rightarrow> string" where
  "full_path router q = (case router (htMethod q) (htPath q) of None \<Rightarrow> [] | Some (_, pattern, _) \<Rightarrow> pattern)"

definition serve_request ::
    "router \<Rightarrow> http_response \<Rightarrow> 's gateway_service \<Rightarrow> http_request \<Rightarrow> 's gateway_world \<Rightarrow>
     ((http_response \<times> string) \<times> 's gateway_world) option" where
  "serve_request router page svc q w =
     (let (ctx, requestID) = requestIDMiddleware (htRequestID q) (htGenerated q) Background;
          handled = (case router (htMethod q) (htPath q) of
             None \<Rightarrow> Some (not_found, cancellations w, downstream w)
           | Some (_, _, ep) \<Rightarrow> handle_endpoint page svc ep (htBindings q) (cancellations w) (downstream w))
      in case handled of
           None \<Rightarrow> None
         | Some (resp, tab, s) \<Rightarrow>
             Some ((resp, requestID),
               requestMetricsMiddleware (htMethod q) (full_path router q) (statusCode resp)
                 (requestLoggingMiddleware ctx (htMethod q) (htPath q) (full_path router q) (statusCode resp)
                   (w\<lparr>cancellations := tab, downstream := s\<rparr>))))"

fun serve_requests ::
    "router \<Rightarrow> http_response \<Rightarrow> 's gateway_service \<Rightarrow> http_request list \<Rightarrow> 's gateway_world \<Rightarrow>
     ((http_response \<times> string) list \<times> 's gateway_world) option" where
  "serve_requests router page svc [] w = Some ([], w)"
| "serve_requests router page svc (q # qs) w =
     (case serve_request router page svc q w of
        None \<Rightarrow> None
      | Some (a, w1) \<Rightarrow> (case serve_requests router page svc qs w1 of None \<Rightarrow> None | Some (as, w2) \<Rightarrow> Some (a # as, w2)))"

section \<open>What is observed of the requests\<close>

definition labels_of :: "router \<Rightarrow> http_request \<times> http_response \<times> string \<Rightarrow> labels" where
  "labels_of router = (\<lambda>(q, resp, _). (htMethod q, metricsRouteLabel (full_path router q), itoa (statusCode resp)))"

definition entry_of :: "router \<Rightarrow> http_request \<times> http_response \<times> string \<Rightarrow> access_entry" where
  "entry_of router = (\<lambda>(q, resp, requestID).
     \<lparr>aeRequestID = requestID, aeMethod = htMethod q, aePath = htPath q,
      aeRoute = (if full_path router q = [] then htPath q else full_path router q),
      aeStatus = statusCode resp, aeLevel = level_of (statusCode resp)\<rparr>)"

lemma serve_request_observed:
  assumes "serve_request router page svc q w = Some (a, w')"
  shows "requests_total w' = (requests_total w)(labels_of router (q, a) := Suc (requests_total w (labels_of router (q, a))))"
    and "durations_observed w' = (durations_observed w)(labels_of router (q, a) := Suc (durations_observed w (labels_of router (q, a))))"
    and "access_log w' = access_log w @ [entry_of router (q, a)]"
  using assms
  by (auto simp: serve_request_def Let_def requestIDMiddleware_def requestMetricsMiddleware_def requestLoggingMiddleware_def
      labels_of_def entry_of_def FromContext_def WithContext_def live_def split: option.splits)

lemma serve_requests_observed:
  assumes "serve_requests router page svc qs w = Some (as, w')"
  shows "length as = length qs"
    and "requests_total w' l = requests_total w l + length (filter (\<lambda>x. labels_of router x = l) (zip qs as))"
    and "durations_observed w' l = durations_observed w l + length (filter (\<lambda>x. labels_of router x = l) (zip qs as))"
    and "access_log w' = access_log w @ map (entry_of router) (zip qs as)"
  using assms
proof (induction qs arbitrary: w as)
  case (Cons q qs)
  {
    case 1 then show ?case using Cons.IH(1) by (auto split: option.splits)
  next
    case 2 then show ?case using Cons.IH(2) by (auto simp: serve_request_observed split: option.splits)
  next
    case 3 then show ?case using Cons.IH(3) by (auto simp: serve_request_observed split: option.splits)
  next
    case 4 then show ?case using Cons.IH(4) by (auto simp: serve_request_observed split: option.splits)
  }
qed auto

lemma full_path_in_table:
  assumes "matching_router router"
  shows "metricsRouteLabel (full_path router q) \<in> insert ''unknown'' ((fst \<circ> snd) ` set routes)"
proof (cases "router (htMethod q) (htPath q)")
  case None
  then show ?thesis by (simp add: full_path_def metricsRouteLabel_def)
next
  case (Some r)
  then have "r \<in> set routes" using matching_routerD(1) [OF assms] by (simp add: takes_route_def)
  then have "fst (snd r) \<in> (fst \<circ> snd) ` set routes" by (simp add: image_comp [symmetric])
  moreover have "full_path router q = fst (snd r)" using Some by (simp add: full_path_def split: prod.split)
  ultimately show ?thesis by (simp add: metricsRouteLabel_def)
qed

end
