(* ===== verification/Gateway_Cancel_Invariant.thy ===== *)
theory Gateway_Cancel_Invariant
  imports Gateway_Cancel
begin

text \<open>
  The invariant of the gateway's concurrent cancellations, kept by every step: which request owns
  an open cell of the table, what a closed one holds, and how the log of the downstream calls
  agrees with the table.
\<close>

subsection \<open>Every step is progress\<close>

fun actions_left :: "cancel_thread \<Rightarrow> nat" where
  "actions_left (Requested input) = 3"
| "actions_left (Performing owned oid reason) = 2"
| "actions_left (Finishing r key x) = 1"
| "actions_left (Waiting r) = 1"
| "actions_left (Answered x) = 0"

lemma thread_step_progress:
  "thread_step svc t tab s = Some (t', tab', s') \<Longrightarrow> actions_left t' < actions_left t"
  by (cases t) (auto split: sum.splits prod.splits if_splits option.splits bool.splits)

lemma sum_list_update_less:
  fixes f :: "'a \<Rightarrow> nat"
  assumes "i < length xs" "f y < f (xs ! i)"
  shows "sum_list (map f (xs[i := y])) < sum_list (map f xs)"
  using assms by (induction xs arbitrary: i) (auto split: nat.splits)

lemma goroutine_step_progress:
  "goroutine_step svc c d \<Longrightarrow> sum_list (map actions_left (threads d)) < sum_list (map actions_left (threads c))"
  by (auto elim!: goroutine_stepE intro!: sum_list_update_less thread_step_progress)

lemma goroutine_run_bound:
  "goroutine_run svc c n d \<Longrightarrow> n + sum_list (map actions_left (threads d)) \<le> sum_list (map actions_left (threads c))"
  by (induction rule: goroutine_run.induct) (auto dest: goroutine_step_progress)

subsection \<open>The invariant\<close>

text \<open>The request that owns a cell until it finishes.\<close>

fun owner :: "cancel_thread \<Rightarrow> (nat \<times> string) option" where
  "owner (Performing owned oid reason) = owned"
| "owner (Finishing r key x) = Some (r, key)"
| "owner _ = None"

definition holds_cell :: "cancel_input \<Rightarrow> cancel_table \<Rightarrow> string list \<Rightarrow> nat \<Rightarrow> string \<Rightarrow> bool" where
  "holds_cell input tab ks r k \<longleftrightarrow>
     r < length (cells tab) \<and> key_cell tab k = Some r \<and> ks ! r = k \<and> \<not> closed (cells tab ! r) \<and>
     fingerprint (cells tab ! r) = cancel_fingerprint input \<and> k = cancel_key input \<and> k \<noteq> []"

fun thread_ok ::
    "cancel_input \<Rightarrow> cancel_table \<Rightarrow> string list \<Rightarrow> (string \<times> (gateway_error + cancel_result)) list \<Rightarrow>
     cancel_thread \<Rightarrow> bool" where
  "thread_ok input tab ks lg (Requested input') \<longleftrightarrow> input' = input"
| "thread_ok input tab ks lg (Performing owned oid reason) \<longleftrightarrow>
     (case owned of None \<Rightarrow> cancel_key input = [] | Some (r, k) \<Rightarrow> holds_cell input tab ks r k)"
| "thread_ok input tab ks lg (Finishing r k x) \<longleftrightarrow> holds_cell input tab ks r k \<and> (k, x) \<in> set lg"
| "thread_ok input tab ks lg (Waiting r) \<longleftrightarrow>
     r < length (cells tab) \<and> ks ! r = cancel_key input \<and> fingerprint (cells tab ! r) = cancel_fingerprint input"
| "thread_ok input tab ks lg (Answered a) \<longleftrightarrow>
     (case a of Inl e \<Rightarrow> True
      | Inr x \<Rightarrow> cancel_key input \<noteq> [] \<longrightarrow>
          (\<exists>r < length (cells tab). key_cell tab (cancel_key input) = Some r \<and> closed (cells tab ! r) \<and>
             outcome (cells tab ! r) = Some x \<and> fingerprint (cells tab ! r) = cancel_fingerprint input))"

definition successes :: "string \<Rightarrow> (string \<times> (gateway_error + cancel_result)) list \<Rightarrow> cancel_result list" where
  "successes k lg = concat (map (\<lambda>(k', a). case a of Inl e \<Rightarrow> [] | Inr x \<Rightarrow> if k' = k then [x] else []) lg)"

lemma successes_simps [simp]:
  "successes k [] = []"
  "successes k (lg @ lg') = successes k lg @ successes k lg'"
  "successes k [(k', Inl e)] = []"
  "successes k [(k', Inr x)] = (if k' = k then [x] else [])"
  by (simp_all add: successes_def)

definition cells_ok :: "cancel_table \<Rightarrow> string list \<Rightarrow> bool" where
  "cells_ok tab ks \<longleftrightarrow> length ks = length (cells tab) \<and>
     (\<forall>k r. key_cell tab k = Some r \<longrightarrow> r < length (cells tab) \<and> ks ! r = k) \<and>
     (\<forall>r < length (cells tab). \<forall>x. outcome (cells tab ! r) = Some x \<longrightarrow>
        closed (cells tab ! r) \<and> key_cell tab (ks ! r) = Some r)"

definition owned_ok :: "cancel_thread list \<Rightarrow> cancel_table \<Rightarrow> bool" where
  "owned_ok ts tab \<longleftrightarrow>
     (\<forall>r < length (cells tab). closed (cells tab ! r) \<or> (\<exists>i < length ts. \<exists>k. owner (ts ! i) = Some (r, k))) \<and>
     (\<forall>i < length ts. \<forall>j < length ts. \<forall>r k k'. owner (ts ! i) = Some (r, k) \<longrightarrow> owner (ts ! j) = Some (r, k') \<longrightarrow> i = j)"

definition log_ok ::
    "cancel_thread list \<Rightarrow> cancel_table \<Rightarrow> (string \<times> (gateway_error + cancel_result)) list \<Rightarrow> bool" where
  "log_ok ts tab lg \<longleftrightarrow>
     (\<forall>k. successes k lg = [] \<or>
        (\<exists>r x. successes k lg = [x] \<and> key_cell tab k = Some r \<and>
           (outcome (cells tab ! r) = Some x \<or> Finishing r k (Inr x) \<in> set ts))) \<and>
     (\<forall>r < length (cells tab). \<forall>x k. outcome (cells tab ! r) = Some x \<longrightarrow> key_cell tab k = Some r \<longrightarrow>
        successes k lg = [x])"

definition cancel_inv :: "cancel_input list \<Rightarrow> 's cancel_config \<Rightarrow> bool" where
  "cancel_inv inputs c \<longleftrightarrow>
     length (threads c) = length inputs \<and> cells_ok (table c) (cell_keys c) \<and>
     owned_ok (threads c) (table c) \<and> log_ok (threads c) (table c) (call_log c) \<and>
     (\<forall>i < length inputs. thread_ok (inputs ! i) (table c) (cell_keys c) (call_log c) (threads c ! i))"

lemma cancel_inv_start: "cancel_inv inputs (cancel_start inputs s)"
  by (auto simp: cancel_inv_def cancel_start_def cells_ok_def owned_ok_def log_ok_def empty_cancel_table_def)

subsection \<open>Steps that leave the table alone\<close>

lemma holds_cell_cong:
  "holds_cell input tab ks r k \<Longrightarrow> cells tab' ! r = cells tab ! r \<Longrightarrow> length (cells tab) \<le> length (cells tab') \<Longrightarrow>
   key_cell tab' k = key_cell tab k \<Longrightarrow> ks' ! r = ks ! r \<Longrightarrow> holds_cell input tab' ks' r k"
  by (auto simp: holds_cell_def)

lemma holds_cellD:
  assumes "holds_cell input tab ks r k"
  shows "r < length (cells tab)" "key_cell tab k = Some r" "ks ! r = k" "\<not> closed (cells tab ! r)"
    "fingerprint (cells tab ! r) = cancel_fingerprint input" "cancel_key input = k" "k \<noteq> []"
  using assms unfolding holds_cell_def by auto

lemma thread_ok_log: "thread_ok input tab ks lg t \<Longrightarrow> thread_ok input tab ks (lg @ lg') t"
  by (cases t) (auto split: sum.splits)

lemma owned_ok_update:
  assumes "owned_ok ts tab" "i < length ts" "owner t = owner (ts ! i)"
  shows "owned_ok (ts[i := t]) tab"
proof -
  have "owner (ts[i := t] ! j) = owner (ts ! j)" if "j < length ts" for j
    using that assms(2,3) by (simp add: nth_list_update)
  then show ?thesis using assms(1) unfolding owned_ok_def by (simp cong: conj_cong imp_cong)
qed

lemma in_set_update_other: "v \<in> set xs \<Longrightarrow> xs ! i \<noteq> v \<Longrightarrow> v \<in> set (xs[i := y])"
  by (metis in_set_conv_nth length_list_update nth_list_update_neq)

lemma log_ok_update:
  assumes lg: "log_ok ts tab lg" and i: "i < length ts" and t: "\<forall>r k x. ts ! i \<noteq> Finishing r k x"
  shows "log_ok (ts[i := t]) tab lg"
proof -
  have "Finishing r k x \<in> set (ts[i := t])" if "Finishing r k x \<in> set ts" for r k x
    using that t by (intro in_set_update_other) auto
  then show ?thesis using lg unfolding log_ok_def by meson
qed

lemma cancel_inv_local:
  assumes "cancel_inv inputs c" "i < length (threads c)" "owner t = owner (threads c ! i)"
    and "\<forall>r k x. threads c ! i \<noteq> Finishing r k x"
    and "thread_ok (inputs ! i) (table c) (cell_keys c) (call_log c) t"
  shows "cancel_inv inputs \<lparr>threads = (threads c)[i := t], table = table c, services = s,
           cell_keys = cell_keys c, call_log = call_log c\<rparr>"
  using assms owned_ok_update log_ok_update
  by (auto simp: cancel_inv_def nth_list_update)

lemma cancel_inv_call:
  assumes inv: "cancel_inv inputs c" and i: "i < length (threads c)"
    and t: "threads c ! i = Performing (Some (r, k)) oid reason"
  shows "cancel_inv inputs \<lparr>threads = (threads c)[i := Finishing r k x], table = table c, services = s,
           cell_keys = cell_keys c, call_log = call_log c @ [(k, x)]\<rparr>"
proof -
  have ok: "holds_cell (inputs ! i) (table c) (cell_keys c) r k"
    using inv i t by (auto simp: cancel_inv_def dest: spec[of _ i])
  have cells: "cells_ok (table c) (cell_keys c)" and own: "owned_ok (threads c) (table c)"
    and lg: "log_ok (threads c) (table c) (call_log c)"
    using inv by (auto simp: cancel_inv_def)
  have fresh: "outcome (cells (table c) ! r) = None"
    using ok cells by (cases "outcome (cells (table c) ! r)") (auto simp: holds_cell_def cells_ok_def)
  have unique: "Finishing r k' y \<notin> set (threads c)" for k' y
  proof
    assume "Finishing r k' y \<in> set (threads c)"
    then obtain j where f: "j < length (threads c)" "threads c ! j = Finishing r k' y"
      by (auto simp: in_set_conv_nth)
    then have "j = i" using own i t unfolding owned_ok_def by (metis owner.simps(1,2))
    then show False using f t by simp
  qed
  have none: "successes k (call_log c) = []"
    using lg ok fresh unique unfolding log_ok_def holds_cell_def by (metis option.distinct(1) option.inject)
  have "log_ok ((threads c)[i := Finishing r k x]) (table c) (call_log c @ [(k, x)])"
    unfolding log_ok_def
  proof (intro conjI allI impI)
    fix k'
    show "successes k' (call_log c @ [(k, x)]) = [] \<or>
        (\<exists>q y. successes k' (call_log c @ [(k, x)]) = [y] \<and> key_cell (table c) k' = Some q \<and>
           (outcome (cells (table c) ! q) = Some y \<or>
            Finishing q k' (Inr y) \<in> set ((threads c)[i := Finishing r k x])))"
    proof (cases "k' = k")
      case True
      have "key_cell (table c) k = Some r" using ok by (blast dest: holds_cellD)
      moreover have "Finishing r k x \<in> set ((threads c)[i := Finishing r k x])" using i by (rule set_update_memI)
      ultimately show ?thesis using True none by (cases x) simp_all
    next
      case False
      have "log_ok ((threads c)[i := Finishing r k x]) (table c) (call_log c)"
        by (rule log_ok_update[OF lg i]) (simp add: t)
      then show ?thesis using False by (cases x) (auto simp: log_ok_def)
    qed
  next
    fix q y k'
    assume q: "q < length (cells (table c))" "outcome (cells (table c) ! q) = Some y" "key_cell (table c) k' = Some q"
    then have "k' \<noteq> k" using ok fresh by (auto simp: holds_cell_def)
    then show "successes k' (call_log c @ [(k, x)]) = [y]" using lg q by (cases x) (auto simp: log_ok_def)
  qed
  then show ?thesis
    using inv i t cells owned_ok_update[OF own i, of "Finishing r k x"] ok
    by (auto simp: cancel_inv_def nth_list_update intro!: thread_ok_log)
qed

subsection \<open>Steps that change the table\<close>

definition fresh_cell :: "string \<Rightarrow> cancel_record" where
  "fresh_cell fp = \<lparr>fingerprint = fp, closed = False, outcome = None, failure = None\<rparr>"

definition with_cell :: "string \<Rightarrow> string \<Rightarrow> cancel_table \<Rightarrow> cancel_table" where
  "with_cell key fp tab =
     \<lparr>cells = cells tab @ [fresh_cell fp], key_cell = (key_cell tab)(key \<mapsto> length (cells tab))\<rparr>"

lemma with_cell_simps [simp]:
  "cells (with_cell key fp tab) = cells tab @ [fresh_cell fp]"
  "key_cell (with_cell key fp tab) = (key_cell tab)(key \<mapsto> length (cells tab))"
  "closed (fresh_cell fp) = False" "outcome (fresh_cell fp) = None" "fingerprint (fresh_cell fp) = fp"
  by (simp_all add: with_cell_def fresh_cell_def)

lemma thread_ok_with_cell:
  "thread_ok input tab ks lg t \<Longrightarrow> key_cell tab key = None \<Longrightarrow> length ks = length (cells tab) \<Longrightarrow>
   thread_ok input (with_cell key fp tab) (ks @ [key]) lg t"
  by (cases t) (auto simp: holds_cell_def nth_append split: option.splits sum.splits)

lemma cancel_inv_begin:
  assumes inv: "cancel_inv inputs c" and i: "i < length (threads c)"
    and t: "threads c ! i = Requested input" and key: "key_cell (table c) key = None"
    and fp: "fp = cancel_fingerprint (inputs ! i)" "key = cancel_key (inputs ! i)" "key \<noteq> []"
  shows "cancel_inv inputs \<lparr>threads = (threads c)[i := Performing (Some (length (cells (table c)), key)) oid reason],
           table = with_cell key fp (table c), services = s,
           cell_keys = cell_keys c @ [key], call_log = call_log c\<rparr>"
proof -
  let ?n = "length (cells (table c))" and ?ts = "(threads c)[i := Performing (Some (length (cells (table c)), key)) oid reason]"
  have cells: "cells_ok (table c) (cell_keys c)" and own: "owned_ok (threads c) (table c)"
    and lg: "log_ok (threads c) (table c) (call_log c)" and len: "length (threads c) = length inputs"
    and ok: "j < length inputs \<Longrightarrow> thread_ok (inputs ! j) (table c) (cell_keys c) (call_log c) (threads c ! j)" for j
    using inv by (auto simp: cancel_inv_def)
  have len2: "length (cell_keys c) = ?n" using cells by (simp add: cells_ok_def)
  have range: "r < ?n" if "owner (threads c ! j) = Some (r, k)" "j < length (threads c)" for j r k
    using ok[of j] that len by (cases "threads c ! j") (auto simp: holds_cell_def)
  have o: "owner (?ts ! j) = (if j = i then Some (?n, key) else owner (threads c ! j))" if "j < length (threads c)" for j
    using that i by (simp add: nth_list_update)
  have "cells_ok (with_cell key fp (table c)) (cell_keys c @ [key])"
  proof -
    have "k \<noteq> key" if "key_cell (table c) k = Some r" for k r using that key by auto
    then show ?thesis using cells key len2 unfolding cells_ok_def
      by (auto simp: nth_append less_Suc_eq)
  qed
  moreover have "owned_ok ?ts (with_cell key fp (table c))"
  proof -
    have "closed (cells (with_cell key fp (table c)) ! r) \<or> (\<exists>j < length ?ts. \<exists>k. owner (?ts ! j) = Some (r, k))"
      if r: "r < Suc ?n" for r
    proof (cases "r < ?n")
      case True
      show ?thesis
      proof (cases "closed (cells (table c) ! r)")
        case False
        then obtain j k where j: "j < length (threads c)" "owner (threads c ! j) = Some (r, k)"
          using own True unfolding owned_ok_def by meson
        then have "j \<noteq> i" using t by auto
        then show ?thesis using j o by auto
      qed (simp add: True nth_append)
    next
      case False
      then have "r = ?n" using r by simp
      then show ?thesis using o[OF i] i by auto
    qed
    moreover have "j = j'" if "j < length (threads c)" "j' < length (threads c)"
      "owner (?ts ! j) = Some (r, k)" "owner (?ts ! j') = Some (r, k')" for j j' r k k'
    proof (cases "j = i \<or> j' = i")
      case True
      then show ?thesis using that o[of j] o[of j'] range by (auto split: if_splits)
    next
      case False
      then have "owner (threads c ! j) = Some (r, k)" "owner (threads c ! j') = Some (r, k')"
        using that o by auto
      then show ?thesis using own that(1,2) unfolding owned_ok_def by blast
    qed
    ultimately show ?thesis unfolding owned_ok_def by simp
  qed
  moreover have "log_ok ?ts (with_cell key fp (table c)) (call_log c)"
  proof -
    have lg': "log_ok ?ts (table c) (call_log c)" by (rule log_ok_update[OF lg i]) (simp add: t)
    have "r < ?n" if "key_cell (table c) k = Some r" for k r using that cells by (auto simp: cells_ok_def)
    then show ?thesis using lg' key
      by (auto simp: log_ok_def nth_append) (metis (no_types, lifting) option.distinct(1))+
  qed
  moreover have "thread_ok (inputs ! j) (with_cell key fp (table c)) (cell_keys c @ [key]) (call_log c) (?ts ! j)"
    if "j < length inputs" for j
    using ok[OF that] key len2 fp i
    by (cases "j = i") (auto simp: holds_cell_def nth_append intro: thread_ok_with_cell)
  ultimately show ?thesis using len by (simp add: cancel_inv_def)
qed

lemma finish_simps [simp]:
  "length (cells (finishCancelIdempotency key r x tab)) = length (cells tab)"
  "q \<noteq> r \<Longrightarrow> cells (finishCancelIdempotency key r x tab) ! q = cells tab ! q"
  "r < length (cells tab) \<Longrightarrow> fingerprint (cells (finishCancelIdempotency key r x tab) ! r) = fingerprint (cells tab ! r)"
  "r < length (cells tab) \<Longrightarrow> closed (cells (finishCancelIdempotency key r x tab) ! r)"
  "r < length (cells tab) \<Longrightarrow> outcome (cells (finishCancelIdempotency key r x tab) ! r) =
     (case x of Inl e \<Rightarrow> outcome (cells tab ! r) | Inr y \<Rightarrow> Some y)"
  "key_cell (finishCancelIdempotency key r x tab) =
     (case x of Inl e \<Rightarrow> (key_cell tab)(key := None) | Inr y \<Rightarrow> key_cell tab)"
  by (simp_all add: finishCancelIdempotency_def split: sum.splits)

lemma thread_ok_finish:
  assumes ok: "thread_ok input tab ks lg t" and own: "\<forall>k'. owner t \<noteq> Some (r, k')"
    and cell: "r < length (cells tab)" "key_cell tab key = Some r" "\<not> closed (cells tab ! r)"
  shows "thread_ok input (finishCancelIdempotency key r x tab) ks lg t"
proof -
  have other: "(if b then (key_cell tab)(key := None) else key_cell tab) k = Some q \<longleftrightarrow> key_cell tab k = Some q"
    if "q \<noteq> r" for q k b using that cell(2) by auto
  have hold: "holds_cell input (finishCancelIdempotency key r x tab) ks q k" if "holds_cell input tab ks q k" "q \<noteq> r" for q k
    using that cell(2) by (cases x) (auto simp: holds_cell_def)
  show ?thesis
  proof (cases t)
    case (Waiting q)
    then show ?thesis using ok cell by (cases "q = r") auto
  next
    case (Answered a)
    have "\<not> closed (cells tab ! q) \<or> q \<noteq> r" for q using cell(3) by auto
    then show ?thesis using Answered ok cell by (cases a; cases x) fastforce+
  qed (use ok own hold in \<open>auto split: option.splits\<close>)
qed

lemma in_successes: "(k, Inr y) \<in> set lg \<Longrightarrow> y \<in> set (successes k lg)"
  by (force simp: successes_def)

lemma finishing_successes:
  assumes lg: "log_ok ts tab lg" and own: "owned_ok ts tab" and i: "i < length ts"
    and t: "ts ! i = Finishing r k x" and key: "key_cell tab k = Some r" and "outcome (cells tab ! r) = None"
    and logged: "(k, x) \<in> set lg"
  shows "successes k lg = (case x of Inl e \<Rightarrow> [] | Inr y \<Rightarrow> [y])"
proof -
  have sole: "x = y" if fin: "Finishing r k y \<in> set ts" for y
  proof -
    obtain j where j: "j < length ts" "ts ! j = Finishing r k y" using fin by (auto simp: in_set_conv_nth)
    then have "i = j" using own i t unfolding owned_ok_def by (metis owner.simps(2))
    then show ?thesis using t j by simp
  qed
  have "successes k lg = [] \<or> (\<exists>y. successes k lg = [y] \<and> x = Inr y)"
    using lg key assms(6) sole unfolding log_ok_def by (metis option.distinct(1) option.inject)
  then show ?thesis using in_successes[of k _ lg] logged by (cases x) auto
qed

lemma log_ok_finish:
  assumes lg: "log_ok ts tab lg" and i: "i < length ts" and t: "ts ! i = Finishing r k x"
    and cell: "r < length (cells tab)" "key_cell tab k = Some r" "outcome (cells tab ! r) = None"
    and single: "successes k lg = (case x of Inl e \<Rightarrow> [] | Inr y \<Rightarrow> [y])"
    and other: "\<And>q k'. key_cell tab k' = Some q \<Longrightarrow> k' \<noteq> k \<Longrightarrow> q \<noteq> r"
  shows "log_ok (ts[i := Answered x]) (finishCancelIdempotency k r x tab) lg"
proof -
  let ?tab = "finishCancelIdempotency k r x tab" and ?ts = "ts[i := Answered x]"
  have "successes k' lg = [] \<or> (\<exists>q y. successes k' lg = [y] \<and> key_cell ?tab k' = Some q \<and>
         (outcome (cells ?tab ! q) = Some y \<or> Finishing q k' (Inr y) \<in> set ?ts))" for k'
  proof (cases "k' = k")
    case True
    then show ?thesis using single cell by (cases x) auto
  next
    case False
    have upd: "Finishing q k' y \<in> set ?ts" if "Finishing q k' y \<in> set ts" for q y
      using that False t by (intro in_set_update_other) auto
    have same: "key_cell ?tab k' = key_cell tab k'" using False by (cases x) auto
    have "cells ?tab ! q = cells tab ! q" if "key_cell tab k' = Some q" for q
      using other[OF that False] by simp
    then show ?thesis using lg upd unfolding log_ok_def same by metis
  qed
  moreover have "successes k' lg = [y]"
    if "q < length (cells tab)" "outcome (cells ?tab ! q) = Some y" "key_cell ?tab k' = Some q" for q y k'
  proof (cases "k' = k")
    case True
    then show ?thesis using that single cell by (cases x) (auto split: if_splits)
  next
    case False
    then have k': "key_cell tab k' = Some q" using that(3) by (cases x) auto
    then have "outcome (cells tab ! q) = Some y" using that(2) other[OF k' False] by simp
    then show ?thesis using lg that(1) k' unfolding log_ok_def by blast
  qed
  ultimately show ?thesis unfolding log_ok_def by simp
qed

lemma cancel_inv_finish:
  assumes inv: "cancel_inv inputs c" and i: "i < length (threads c)" and t: "threads c ! i = Finishing r k x"
  shows "cancel_inv inputs \<lparr>threads = (threads c)[i := Answered x], table = finishCancelIdempotency k r x (table c),
           services = s, cell_keys = cell_keys c, call_log = call_log c\<rparr>"
proof -
  let ?tab = "finishCancelIdempotency k r x (table c)" and ?ts = "(threads c)[i := Answered x]"
  have cells: "cells_ok (table c) (cell_keys c)" and own: "owned_ok (threads c) (table c)"
    and lg: "log_ok (threads c) (table c) (call_log c)" and len: "length (threads c) = length inputs"
    and ok: "j < length inputs \<Longrightarrow> thread_ok (inputs ! j) (table c) (cell_keys c) (call_log c) (threads c ! j)" for j
    using inv by (auto simp: cancel_inv_def)
  have held: "holds_cell (inputs ! i) (table c) (cell_keys c) r k" and logged: "(k, x) \<in> set (call_log c)"
    using ok[of i] i t len by auto
  note h = holds_cellD[OF held]
  have open_cell: "outcome (cells (table c) ! r) = None"
    using cells h by (cases "outcome (cells (table c) ! r)") (auto simp: cells_ok_def)
  have sole: "owner (threads c ! j) \<noteq> Some (r, k')" if "j < length (threads c)" "j \<noteq> i" for j k'
    using own i t that unfolding owned_ok_def by (metis owner.simps(2))
  have single: "successes k (call_log c) = (case x of Inl e \<Rightarrow> [] | Inr y \<Rightarrow> [y])"
    by (rule finishing_successes[OF lg own i t h(2) open_cell logged])
  have keys: "q = r" if "key_cell (table c) k = Some q" for q using that h by simp
  have other: "q \<noteq> r" if "key_cell (table c) k' = Some q" "k' \<noteq> k" for q k'
    using that cells h unfolding cells_ok_def by metis
  have "cells_ok ?tab (cell_keys c)"
  proof -
    have "closed (cells ?tab ! q) \<and> key_cell ?tab (cell_keys c ! q) = Some q"
      if "q < length (cells (table c))" "outcome (cells ?tab ! q) = Some y" for q y
    proof (cases "q = r")
      case True
      then show ?thesis using that open_cell h by (cases x) auto
    next
      case False
      then have "closed (cells (table c) ! q)" "key_cell (table c) (cell_keys c ! q) = Some q"
        using that cells by (auto simp: cells_ok_def)
      then show ?thesis using False h by (cases x) auto
    qed
    then show ?thesis using cells by (cases x) (auto simp: cells_ok_def split: if_splits)
  qed
  moreover have "owned_ok ?ts ?tab"
  proof -
    have "closed (cells ?tab ! q) \<or> (\<exists>j < length ?ts. \<exists>k'. owner (?ts ! j) = Some (q, k'))"
      if q: "q < length (cells (table c))" for q
    proof (cases "q = r \<or> closed (cells (table c) ! q)")
      case True
      then show ?thesis using h by (cases "q = r") auto
    next
      case False
      then obtain j k' where j: "j < length (threads c)" "owner (threads c ! j) = Some (q, k')"
        using own q unfolding owned_ok_def by meson
      then have "j \<noteq> i" using False t by auto
      then show ?thesis using j by auto
    qed
    moreover have "j = j'" if "j < length (threads c)" "j' < length (threads c)"
      "owner (?ts ! j) = Some (q, k')" "owner (?ts ! j') = Some (q, k'')" for j j' q k' k''
      using that own i unfolding owned_ok_def by (auto simp: nth_list_update split: if_splits)
    ultimately show ?thesis unfolding owned_ok_def by simp
  qed
  moreover have "log_ok ?ts ?tab (call_log c)"
    by (rule log_ok_finish[OF lg i t h(1,2) open_cell single other])
  moreover have "thread_ok (inputs ! j) ?tab (cell_keys c) (call_log c) (?ts ! j)" if j: "j < length inputs" for j
  proof (cases "j = i")
    case True
    then show ?thesis using i h by (cases x) auto
  next
    case False
    then show ?thesis using thread_ok_finish[OF ok[OF j] _ h(1,2,4)] sole[of j] j len by simp
  qed
  ultimately show ?thesis using len by (simp add: cancel_inv_def)
qed

subsection \<open>Every step keeps the invariant\<close>

lemma cancel_inv_table:
  assumes "cancel_inv inputs c" "i < length (threads c)"
  shows "length (cell_keys c) = length (cells (table c))"
    and "key_cell (table c) k = Some r \<Longrightarrow> r < length (cells (table c)) \<and> cell_keys c ! r = k"
    and "thread_ok (inputs ! i) (table c) (cell_keys c) (call_log c) (threads c ! i)"
    and "r < length (cells (table c)) \<Longrightarrow> outcome (cells (table c) ! r) = Some x \<Longrightarrow>
      closed (cells (table c) ! r) \<and> key_cell (table c) (cell_keys c ! r) = Some r"
  using assms by (auto simp: cancel_inv_def cells_ok_def)

lemma requested_step:
  assumes inv: "cancel_inv inputs c" and i: "i < length (threads c)" and t: "threads c ! i = Requested input"
    and step: "thread_step svc (Requested input) (table c) s = Some (t', tab, s')"
  shows "cancel_inv inputs \<lparr>threads = (threads c)[i := t'], table = tab, services = s',
           cell_keys = cell_keys c @ new_cell (Requested input) t', call_log = call_log c @ new_call t'\<rparr>"
proof -
  note loc = cancel_inv_local[OF inv i, unfolded t, simplified]
  have input: "input = inputs ! i" using cancel_inv_table(3)[OF inv i] t by simp
  show ?thesis
  proof (cases "admit_cancel input")
    case (Inl e)
    then show ?thesis using step loc[of "Answered (Inl e)" s] by auto
  next
    case (Inr q)
    obtain oid reason key where q: "q = (oid, reason, key)" by (cases q)
    have key: "cancel_key input = key" "cancel_fingerprint input = cancelRequestFingerprint oid reason"
      using Inr q by (simp_all add: cancel_key_def cancel_fingerprint_def)
    consider (blank) "key = []" | (fresh) "key \<noteq> []" "key_cell (table c) key = None"
      | (known) r where "key \<noteq> []" "key_cell (table c) key = Some r" by (cases "key_cell (table c) key") auto
    then show ?thesis
    proof cases
      case blank
      then show ?thesis using step Inr q key input loc[of "Performing None oid reason" s] by auto
    next
      case fresh
      let ?p = "Performing (Some (length (cells (table c)), key)) oid reason"
        and ?fp = "cancelRequestFingerprint oid reason"
      have "t' = ?p \<and> tab = with_cell key ?fp (table c) \<and> s' = s"
        using step Inr q fresh by (auto simp: beginCancelIdempotency_def with_cell_def fresh_cell_def)
      then show ?thesis
        using cancel_inv_begin[OF inv i t fresh(2), of ?fp oid reason s] key input fresh(1) by simp
    next
      case known
      note r = cancel_inv_table(2)[OF inv i known(2)]
      show ?thesis
      proof (cases "fingerprint (cells (table c) ! r) = cancelRequestFingerprint oid reason")
        case True
        then have "t' = Waiting r \<and> tab = table c \<and> s' = s"
          using step Inr q known by (simp add: beginCancelIdempotency_def)
        then show ?thesis using loc[of "Waiting r" s] r key input True by simp
      next
        case False
        then have "\<exists>e. t' = Answered (Inl e) \<and> tab = table c \<and> s' = s"
          using step Inr q known by (simp add: beginCancelIdempotency_def) blast
        then show ?thesis using loc[of "Answered (Inl _)" s] by auto
      qed
    qed
  qed
qed

lemma goroutine_step_inv:
  assumes client: "orderClient svc \<noteq> None" and inv: "cancel_inv inputs c" and step: "goroutine_step svc c d"
  shows "cancel_inv inputs d"
proof -
  obtain i t tab s where i: "i < length (threads c)"
    and ts: "thread_step svc (threads c ! i) (table c) (services c) = Some (t, tab, s)"
    and d: "d = \<lparr>threads = (threads c)[i := t], table = tab, services = s,
       cell_keys = cell_keys c @ new_cell (threads c ! i) t, call_log = call_log c @ new_call t\<rparr>"
    using step by (rule goroutine_stepE) blast
  note ok = cancel_inv_table(3)[OF inv i] and loc = cancel_inv_local[OF inv i]
  show ?thesis
  proof (cases "threads c ! i")
    case (Requested input)
    then show ?thesis using requested_step[OF inv i Requested] ts unfolding d by simp
  next
    case (Performing owned oid reason)
    obtain x s' where call: "performCancelOrder svc oid reason (services c) = (x, s')"
      by (cases "performCancelOrder svc oid reason (services c)")
    show ?thesis
    proof (cases owned)
      case None
      then show ?thesis using client ts ok loc[of "Answered x" s'] Performing call unfolding d
        by (auto split: sum.splits)
    next
      case (Some q)
      then show ?thesis
        using client ts cancel_inv_call[OF inv i, of "fst q" "snd q" oid reason x s'] Performing call unfolding d
        by (cases q) auto
    qed
  next
    case (Finishing r k x)
    then show ?thesis using ts cancel_inv_finish[OF inv i Finishing] unfolding d by auto
  next
    case (Waiting r)
    then have r: "r < length (cells (table c))" "cell_keys c ! r = cancel_key (inputs ! i)"
      "fingerprint (cells (table c) ! r) = cancel_fingerprint (inputs ! i)" using ok by simp_all
    then have "thread_ok (inputs ! i) (table c) (cell_keys c) (call_log c) t"
      using ts Waiting cancel_inv_table(4)[OF inv i r(1)] by (auto split: if_splits option.splits)
    then show ?thesis
      using ts Waiting loc[of t s] unfolding d by (auto split: if_splits)
  qed (use ts in simp)
qed

lemma goroutine_run_inv:
  "goroutine_run svc c n d \<Longrightarrow> orderClient svc \<noteq> None \<Longrightarrow> cancel_inv inputs c \<Longrightarrow> cancel_inv inputs d"
  by (induction rule: goroutine_run.induct) (auto intro: goroutine_step_inv)

lemma stuck_answered:
  assumes inv: "cancel_inv inputs c" and stuck: "\<nexists>d. goroutine_step svc c d" and i: "i < length inputs"
  shows "\<exists>x. threads c ! i = Answered x"
proof -
  have len: "length (threads c) = length inputs" using inv by (simp add: cancel_inv_def)
  have none: "thread_step svc (threads c ! j) (table c) (services c) = None" if "j < length inputs" for j
  proof (rule ccontr)
    assume "thread_step svc (threads c ! j) (table c) (services c) \<noteq> None"
    then obtain t tab s where "thread_step svc (threads c ! j) (table c) (services c) = Some (t, tab, s)" by auto
    moreover have "j < length (threads c)" using that len by simp
    ultimately show False using stuck goroutine_step.step[of j c svc t tab s] by metis
  qed
  have moves: "thread_step svc (threads c ! j) (table c) (services c) \<noteq> None" if "owner (threads c ! j) = Some q" for j q
    using that by (cases "threads c ! j") (auto split: prod.splits)
  show ?thesis
  proof (cases "threads c ! i")
    case (Waiting r)
    then have r: "r < length (cells (table c))" using cancel_inv_table(3)[OF inv, of i] i len by simp
    have "closed (cells (table c) ! r)"
    proof (rule ccontr)
      assume "\<not> closed (cells (table c) ! r)"
      then obtain j k where "j < length inputs" "owner (threads c ! j) = Some (r, k)"
        using inv r len unfolding cancel_inv_def owned_ok_def by metis
      then show False using none[of j] moves[of j "(r, k)"] by simp
    qed
    then show ?thesis using none[OF i] Waiting by simp
  qed (use none[OF i] in \<open>auto split: sum.splits prod.splits if_splits option.splits bool.splits\<close>)
qed

subsection \<open>Schedules\<close>

definition take_step :: "'s gateway_service \<Rightarrow> nat \<Rightarrow> 's cancel_config \<Rightarrow> 's cancel_config option" where
  "take_step svc i c =
     (if i < length (threads c)
      then map_option (\<lambda>(t, tab, s).
             \<lparr>threads = (threads c)[i := t], table = tab, services = s,
              cell_keys = cell_keys c @ new_cell (threads c ! i) t, call_log = call_log c @ new_call t\<rparr>)
           (thread_step svc (threads c ! i) (table c) (services c))
      else None)"

fun run_schedule :: "'s gateway_service \<Rightarrow> nat list \<Rightarrow> 's cancel_config \<Rightarrow> 's cancel_config option" where
  "run_schedule svc [] c = Some c"
| "run_schedule svc (i # is) c = (case take_step svc i c of None \<Rightarrow> None | Some d \<Rightarrow> run_schedule svc is d)"

lemma take_step_sound: "take_step svc i c = Some d \<Longrightarrow> goroutine_step svc c d"
  by (auto simp: take_step_def split: if_splits intro: goroutine_step.step)

lemma goroutine_run_first:
  "goroutine_run svc d n e \<Longrightarrow> goroutine_step svc c d \<Longrightarrow> goroutine_run svc c (Suc n) e"
proof (induction rule: goroutine_run.induct)
  case (start d)
  show ?case by (rule goroutine_run.next_step[OF goroutine_run.start start])
qed (blast intro: goroutine_run.next_step)

lemma run_schedule_sound: "run_schedule svc is c = Some d \<Longrightarrow> goroutine_run svc c (length is) d"
  by (induction "is" arbitrary: c)
     (auto split: option.splits intro: goroutine_run.start goroutine_run_first dest: take_step_sound)

lemma reached_inv:
  assumes "orderClient svc \<noteq> None" "goroutine_run svc (cancel_start inputs s) n c"
  shows "cancel_inv inputs c"
  using goroutine_run_inv[OF assms(2,1)] cancel_inv_start .

end
