(* ===== verification/Gateway_Properties.thy ===== *)
theory Gateway_Properties
  imports Gateway_Handler Gateway_Cancel_Invariant
begin

text \<open>
  What a client of the gateway sees: checking out and reading an order through the gateway, its
  client and the order service over its database; the idempotent cancellation of orders under
  concurrent requests.
\<close>

section \<open>The order service behind its connection\<close>

text \<open>
  A connection without faults of the transport: procedures of a service that is not registered
  answer \<open>Unimplemented\<close>, the registered ones with what the handler returns.
\<close>

definition unimplemented :: "(client_error + 'a)" where
  "unimplemented = Inl (RpcStatus (status_Error Unimplemented ''unknown service''))"

definition bare_connection :: "'s backend" where
  "bare_connection =
     \<lparr>rpcCreateOrder = \<lambda>_ s. (unimplemented, s), rpcGetOrderByID = \<lambda>_ s. (unimplemented, s),
      rpcListOrdersByCustomer = \<lambda>_ _ _ s. (unimplemented, s), rpcCancelOrder = \<lambda>_ _ s. (unimplemented, s),
      rpcCreatePayment = \<lambda>_ s. (unimplemented, s), rpcGetPaymentByID = \<lambda>_ s. (unimplemented, s),
      rpcGetPaymentByOrderID = \<lambda>_ s. (unimplemented, s), rpcListPaymentsByCustomer = \<lambda>_ _ _ s. (unimplemented, s),
      rpcCancelPayment = \<lambda>_ _ s. (unimplemented, s), rpcCapturePayment = \<lambda>_ s. (unimplemented, s),
      rpcCreateProduct = \<lambda>_ s. (unimplemented, s), rpcUpdateProduct = \<lambda>_ s. (unimplemented, s),
      rpcGetProductByID = \<lambda>_ s. (unimplemented, s), rpcListProducts = \<lambda>_ _ s. (unimplemented, s),
      rpcDeleteProduct = \<lambda>_ s. (unimplemented, s), rpcGetStockByProductID = \<lambda>_ s. (unimplemented, s),
      rpcReserveStock = \<lambda>_ s. (unimplemented, s), rpcReleaseStock = \<lambda>_ s. (unimplemented, s)\<rparr>"

definition answered :: "(grpc_status + 'a) \<times> 's \<Rightarrow> (client_error + 'a) \<times> 's" where
  "answered r = apfst (map_sum RpcStatus id) r"

lemma answered_simps [simp]:
  "answered (Inl st, s) = (Inl (RpcStatus st), s)" "answered (Inr x, s) = (Inr x, s)"
  by (simp_all add: answered_def)

definition order_connection :: "'s order_repo \<Rightarrow> (time \<Rightarrow> int) \<Rightarrow> time \<Rightarrow> time \<Rightarrow> 's backend" where
  "order_connection repo zone tid now = bare_connection
     \<lparr>rpcCreateOrder := \<lambda>req s. forward Some (answered (grpc_CreateOrder repo zone tid now req s)),
      rpcGetOrderByID := \<lambda>oid s. forward Some (answered (grpc_GetOrderByID repo zone oid s)),
      rpcListOrdersByCustomer := \<lambda>cid page pageSize s. answered (grpc_ListOrdersByCustomer repo zone cid page pageSize s),
      rpcCancelOrder := \<lambda>oid reason s. forward Some (answered (grpc_CancelOrder repo zone now oid reason s))\<rparr>"

lemma order_connection_simps [simp]:
  "rpcCreateOrder (order_connection repo zone tid now) req s = forward Some (answered (grpc_CreateOrder repo zone tid now req s))"
  "rpcGetOrderByID (order_connection repo zone tid now) oid s = forward Some (answered (grpc_GetOrderByID repo zone oid s))"
  "rpcCancelOrder (order_connection repo zone tid now) oid reason s =
     forward Some (answered (grpc_CancelOrder repo zone now oid reason s))"
  by (simp_all add: order_connection_def)

section \<open>Looking an order up\<close>

lemma downstream_simps [simp]:
  "call conn s = (Inl e, s') \<Longrightarrow> downstream (Some conn) call op s = (Inl (wrapDownstreamError op e), s')"
  "call conn s = (Inr x, s') \<Longrightarrow> downstream (Some conn) call op s = (Inr x, s')"
  by (simp_all add: downstream_def)

lemma required_response_simps [simp]:
  "required_response what f (Inl e, s) = (Inl e, s)"
  "required_response what f (Inr None, s) = (Inl (ErrDownstreamFailed (what @ '' response is empty'')), s)"
  "required_response what f (Inr (Some x), s) = (Inr (f x), s)"
  by (simp_all add: required_response_def)

lemma pg_get_missing:
  assumes "pg_quiet w" "all_served w" "oid \<notin> rowID ` set (orders (tables w))"
  shows "rGetOrderByID (pg_order_repo cfg coll) oid w = (Inl ErrOrderNotFound, w\<lparr>calls := Suc (calls w)\<rparr>)"
  using assms pg_GetOrderByID_NotFound [of "the_attempt w" oid "tables w"]
  by (simp add: pg_order_repo_def with_read_def pg_quiet_def alone_found)

text \<open>The gateway's result for an order of the order service.\<close>

definition order_answer :: "pb_order \<Rightarrow> order_result" where
  "order_answer p = mapClientOrderToResult (the (mapProtoOrder (Some p)))"

lemma http_get_order:
  assumes client: "orderClient svc = Some (order_connection repo zone tid now)" and oid: "TrimSpace oid \<noteq> []"
  shows "http_GetOrderByID svc (Inr oid) w =
    (case grpc_GetOrderByID repo zone oid w of
       (Inl st, w') \<Rightarrow> (writeError (wrapDownstreamError ''order get'' (RpcStatus st)), w')
     | (Inr p, w') \<Rightarrow> (JSON_response 200 (toGetOrderByIDResponse (order_answer p)), w'))"
  using oid
  by (auto simp: http_GetOrderByID_def gw_GetOrderByID_def client oc_GetOrderByID_def order_answer_def
      mapProtoOrder_def downstream_def split: prod.splits sum.splits)

text \<open>
  C37: Reading an order through the gateway: a blank identifier is answered with 400, one the order
  service has with 200, any other with 404, when the database serves the request.
\<close>
theorem order_lookup_status:
  assumes "pg_quiet w" "all_served w"
    and "orderClient svc = Some (order_connection (pg_order_repo cfg coll) zone tid now)"
  shows "statusCode (fst (http_GetOrderByID svc (Inr oid) w)) =
    (if TrimSpace oid = [] then 400 else if oid \<in> rowID ` set (orders (tables w)) then 200 else 404)"
proof (cases "TrimSpace oid = []")
  case True
  then show ?thesis by (simp add: http_GetOrderByID_def gw_GetOrderByID_def writeError_def JSON_response_def)
next
  case False
  show ?thesis
  proof (cases "oid \<in> rowID ` set (orders (tables w))")
    case True
    then obtain x where "stored_orders (tables w) oid = Some x"
      using assms(1) order_store_invD(2) by (fastforce simp: pg_quiet_def)
    then show ?thesis
      using True False pg_get_served [OF assms(1,2), of oid x cfg coll]
      by (simp add: http_get_order [OF assms(3) False] grpc_GetOrderByID_def svc_GetOrderByID_def JSON_response_def)
  next
    case missing: False
    then show ?thesis
      using False pg_get_missing [OF assms(1,2), of oid cfg coll]
      by (simp add: http_get_order [OF assms(3) False] grpc_GetOrderByID_def svc_GetOrderByID_def mapOrderError_def
          wrapDownstreamError_def status_Code_def writeError_def JSON_response_def Let_def)
  qed
qed

text \<open>A gateway over an empty order database.\<close>

definition sample_gateway :: "((order_db, unit) world_scheme) gateway_service" where
  "sample_gateway = NewGatewayService (order_connection sample_repo (\<lambda>_. 0) 7000 8000) bare_connection bare_connection bare_connection"

lemma sample_gateway_client [simp]:
  "orderClient sample_gateway = Some (order_connection sample_repo (\<lambda>_. 0) 7000 8000)"
  by (simp add: sample_gateway_def NewGatewayService_def)

theorem order_lookup_status_witness:
  "statusCode (fst (http_GetOrderByID sample_gateway (Inr ''o9'') sample_world)) = 404 \<and>
   statusCode (fst (http_GetOrderByID sample_gateway (Inr '' '') sample_world)) = 400"
  using order_lookup_status [OF sample_quiet _ sample_gateway_client, of "''o9''"]
    order_lookup_status [OF sample_quiet _ sample_gateway_client, of "'' ''"]
  by (simp add: all_served_def empty_order_db_def)

section \<open>Checking out\<close>

lemma writeError_not_created: "statusCode (writeError e) \<noteq> 201"
  by (cases e) (simp_all add: writeError_def recovered_def JSON_response_def)

lemma checkout_items:
  "mapCheckoutItemsToOrderItems items = Inr cs \<Longrightarrow>
     map (\<lambda>c. (gcProductID c, gcQuantity c)) cs = map (\<lambda>i. (TrimSpace (giProductID i), giQuantity i)) items"
  by (induction items arbitrary: cs) (auto split: if_splits sum.splits)

lemma created_items:
  "mapCreateOrderItemsToProto cs = Inr ps \<Longrightarrow>
     map (\<lambda>p. (pcProductId p, pcQuantity p)) ps = map (\<lambda>c. (TrimSpace (gcProductID c), gcQuantity c)) cs"
  by (induction cs arbitrary: ps) (auto split: sum.splits)

lemma checkout_request:
  assumes client: "orderClient svc = Some (order_connection repo zone tid now)"
    and "http_Checkout svc (Inr q) w = (resp, w1)" "statusCode resp = 201"
  obtains req p where "grpc_CreateOrder repo zone tid now req w = (Inr p, w1)"
    "resp = JSON_response 201 (CheckoutResponse (poOrderId p, OrderStatus_String (poStatus p)))"
    "rqCustomerId req = TrimSpace (hrCustomerID q)"
    "rqShippingAddress req = Some (mapAddressToProto (hrShippingAddress q))"
    "map (\<lambda>i. (TrimSpace (pcProductId i), pcQuantity i)) (rqItems req) =
     map (\<lambda>i. (TrimSpace (hiProductID i), hiQuantity i)) (hrItems q)"
proof -
  define i where "i = \<lparr>ciCustomerID = hrCustomerID q, ciItems = mapCheckoutItems (hrItems q),
    ciShippingAddress = mapAddressRequest (hrShippingAddress q), ciIdempotencyKey = hrIdempotencyKey q,
    ciPayment = \<lparr>gdMethod = gdMethod (hrPayment q), gdMethodDetails = gdMethodDetails (hrPayment q)\<rparr>\<rparr>"
  have http: "http_Checkout svc (Inr q) w =
      write_response (\<lambda>x. JSON_response 201 (CheckoutResponse x)) (gw_Checkout svc (Some i) w)"
    by (simp add: http_Checkout_def i_def)
  obtain x where x: "gw_Checkout svc (Some i) w = (Inr x, w1)" "resp = JSON_response 201 (CheckoutResponse x)"
    using assms(2,3) http writeError_not_created
    by (cases "gw_Checkout svc (Some i) w"; cases "fst (gw_Checkout svc (Some i) w)") auto
  then obtain cs m where cs: "mapCheckoutItemsToOrderItems (ciItems i) = Inr cs"
    and m: "normalizePaymentMethod (gdMethod (ciPayment i)) = Inr m"
    by (auto simp: gw_Checkout_def client split: option.splits sum.splits)
  define g where "g = \<lparr>gqCustomerID = TrimSpace (ciCustomerID i), gqItems = cs,
    gqShippingAddress = mapAddressToOrderClient (ciShippingAddress i), gqIdempotencyKey = TrimSpace (ciIdempotencyKey i),
    gqPayment = \<lparr>gdMethod = m, gdMethodDetails = TrimSpace (gdMethodDetails (ciPayment i))\<rparr>\<rparr>"
  obtain y where y: "oc_CreateOrder (order_connection repo zone tid now) (Some g) w = (Inr (Some y), w1)"
    "x = (goID y, goStatus y)"
    using x(1) cs m
    by (cases "oc_CreateOrder (order_connection repo zone tid now) (Some g) w")
      (auto simp: gw_Checkout_def client downstream_def required_response_def g_def
        split: option.splits sum.splits)
  then obtain ps d where ps: "mapCreateOrderItemsToProto cs = Inr ps"
    and d: "mapPaymentDetailsToProto (gqPayment g) = Inr d"
    by (auto simp: oc_CreateOrder_def g_def split: sum.splits)
  let ?req = "\<lparr>rqCustomerId = gqCustomerID g, rqIdempotencyKey = gqIdempotencyKey g, rqItems = ps,
    rqShippingAddress = Some (mapAddressToProto (gqShippingAddress g)),
    rqPayment = Some \<lparr>pdMethod = fst d, pdMethodDetails = snd d\<rparr>\<rparr>"
  obtain p where p: "grpc_CreateOrder repo zone tid now ?req w = (Inr p, w1)" "mapProtoOrder (Some p) = Some y"
    using y(1) ps d
    by (cases "grpc_CreateOrder repo zone tid now ?req w"; cases "fst (grpc_CreateOrder repo zone tid now ?req w)")
      (auto simp: oc_CreateOrder_def g_def split: prod.splits)
  have "map (\<lambda>i. (TrimSpace (pcProductId i), pcQuantity i)) ps = map (apfst TrimSpace) (map (\<lambda>i. (pcProductId i, pcQuantity i)) ps)"
    by simp
  also have "\<dots> = map (apfst TrimSpace) (map (\<lambda>c. (gcProductID c, gcQuantity c)) cs)"
    by (simp only: created_items [OF ps]) simp
  also have "\<dots> = map (\<lambda>i. (TrimSpace (hiProductID i), hiQuantity i)) (hrItems q)"
    by (simp only: checkout_items [OF cs]) (simp add: i_def mapCheckoutItems_def)
  finally show thesis
    using p x(2) y(2)
    by (intro that [OF p(1)]) (auto simp: g_def i_def mapProtoOrder_def mapAddressToProto_def mapAddressToOrderClient_def mapAddressRequest_def)
qed

text \<open>
  C30: A checkout answered with 201 placed the order: read back through the gateway under the
  identifier of the answer, it has the status of the answer and the customer, the shipping
  address, the products and the quantities of the request up to surrounding white space.
\<close>
theorem checkout_places_order:
  assumes "pg_quiet w" and "orderClient svc = Some (order_connection (pg_order_repo cfg coll) zone tid now)"
    and "http_Checkout svc (Inr q) w = (resp, w1)" "statusCode resp = 201" and "all_served w1"
  shows "\<exists>r. resp = JSON_response 201 (CheckoutResponse (orOrderID r, orOrderStatus r)) \<and>
    fst (http_GetOrderByID svc (Inr (orOrderID r)) w1) = JSON_response 200 (toGetOrderByIDResponse r) \<and>
    orCustomerID r = TrimSpace (hrCustomerID q) \<and>
    orShippingAddress r = mapAddressToOrderClient (hrShippingAddress q) \<and>
    map (\<lambda>i. (giProductID i, giQuantity i)) (orItems r) =
      map (\<lambda>i. (TrimSpace (hiProductID i), hiQuantity i)) (hrItems q)"
proof -
  obtain req p where p: "grpc_CreateOrder (pg_order_repo cfg coll) zone tid now req w = (Inr p, w1)"
    "resp = JSON_response 201 (CheckoutResponse (poOrderId p, OrderStatus_String (poStatus p)))"
    "rqCustomerId req = TrimSpace (hrCustomerID q)"
    "rqShippingAddress req = Some (mapAddressToProto (hrShippingAddress q))"
    "map (\<lambda>i. (TrimSpace (pcProductId i), pcQuantity i)) (rqItems req) =
     map (\<lambda>i. (TrimSpace (hiProductID i), hiQuantity i)) (hrItems q)"
    by (rule checkout_request [OF assms(2-4)])
  note R = read_your_writes [OF assms(1) refl p(1) assms(5)]
  then have "map (\<lambda>i. (piProductId i, piSku i, piProductName i, piQuantity i)) (poItems p) =
      map (\<lambda>i. (TrimSpace (pcProductId i), TrimSpace (pcSku i), TrimSpace (pcProductName i), pcQuantity i)) (rqItems req)"
    by blast
  from arg_cong [where f = "map (\<lambda>(pid, sku, name, n). (pid, n))", OF this]
  have items: "map (\<lambda>i. (piProductId i, piQuantity i)) (poItems p) = map (\<lambda>i. (TrimSpace (pcProductId i), pcQuantity i)) (rqItems req)"
    by (simp add: comp_def)
  have "TrimSpace (poOrderId p) \<noteq> []"
    using R by (auto simp: grpc_GetOrderByID_def svc_GetOrderByID_def)
  then have "fst (http_GetOrderByID svc (Inr (poOrderId p)) w1) = JSON_response 200 (toGetOrderByIDResponse (order_answer p))"
    using R by (auto simp: http_get_order [OF assms(2)] split: prod.splits sum.splits)
  then show ?thesis using R p items
    by (intro exI[of _ "order_answer p"])
      (simp add: order_answer_def mapProtoOrder_def mapClientOrderToResult_def mapProtoOrderItems_def comp_def
        mapProtoAddress_def mapOrderAddress_def trimmed_address_def mapAddressToProto_def mapAddressToOrderClient_def)
qed

definition sample_checkout :: checkout_request where
  "sample_checkout =
     \<lparr>hrCustomerID = ''c1'',
      hrItems = [\<lparr>hiProductID = ''p1'', hiSKU = ''s1'', hiProductName = ''tea'', hiQuantity = 2,
                  hiCurrency = ''eur'', hiAmountCents = 250\<rparr>],
      hrShippingAddress = \<lparr>gaCountry = ''DE'', gaCity = ''Berlin'', gaStreet = ''Allee'',
                           gaPostalCode = ''10115'', gaHouse = ''2'', gaApartment = []\<rparr>,
      hrPayment = \<lparr>gdMethod = ''card'', gdMethodDetails = ''visa''\<rparr>, hrIdempotencyKey = ''k1''\<rparr>"

lemma to_upper_samples [simp]:
  "ToUpper ''eur'' = ''EUR''" "ToUpper ''card'' = ''CARD''" "ToUpper ''CURRENCY_EUR'' = ''CURRENCY_EUR''"
  "ToUpper ''PAYMENT_METHOD_TYPE_CARD'' = ''PAYMENT_METHOD_TYPE_CARD''"
  by code_simp+

lemma sample_checkout_call:
  "http_Checkout sample_gateway (Inr sample_checkout) w =
    (case grpc_CreateOrder sample_repo (\<lambda>_. 0) 7000 8000 sample_create w of
       (Inl st, w') \<Rightarrow> (writeError (wrapDownstreamError ''order create'' (RpcStatus st)), w')
     | (Inr p, w') \<Rightarrow> (JSON_response 201 (CheckoutResponse (poOrderId p, OrderStatus_String (poStatus p))), w'))"
proof -
  have req: "sample_create = \<lparr>rqCustomerId = ''c1'', rqIdempotencyKey = ''k1'',
    rqItems = [\<lparr>pcProductId = ''p1'', pcSku = ''s1'', pcProductName = ''tea'', pcQuantity = 2,
      pcUnitPrice = Some \<lparr>pmCurrency = CURRENCY_EUR, pmAmountCents = 250\<rparr>\<rparr>],
    rqShippingAddress = Some \<lparr>paCountry = ''DE'', paCity = ''Berlin'', paStreet = ''Allee'', paPostalCode = ''10115'',
      paHouse = ''2'', paApartment = []\<rparr>,
    rqPayment = Some \<lparr>pdMethod = PAYMENT_METHOD_TYPE_CARD, pdMethodDetails = ''visa''\<rparr>\<rparr>"
    by (simp add: sample_create_def sample_request_def zero_order_def convertMoneyToProto_def
        convertAddressToProto_def convertPaymentDetailsToProto_def)
  define i where "i = \<lparr>ciCustomerID = hrCustomerID sample_checkout, ciItems = mapCheckoutItems (hrItems sample_checkout),
    ciShippingAddress = mapAddressRequest (hrShippingAddress sample_checkout), ciIdempotencyKey = hrIdempotencyKey sample_checkout,
    ciPayment = \<lparr>gdMethod = gdMethod (hrPayment sample_checkout), gdMethodDetails = gdMethodDetails (hrPayment sample_checkout)\<rparr>\<rparr>"
  have checks: "check_checkout i = None"
    by (simp add: i_def sample_checkout_def check_checkout_def mapCheckoutItems_def mapAddressRequest_def)
  have items: "mapCheckoutItemsToOrderItems (ciItems i) = Inr [\<lparr>gcProductID = ''p1'', gcSKU = ''s1'', gcProductName = ''tea'',
      gcQuantity = 2, gcUnitPrice = \<lparr>gmCurrency = ''CURRENCY_EUR'', gmAmountCents = 250\<rparr>\<rparr>]"
    by (simp add: i_def sample_checkout_def mapCheckoutItems_def normalizeCurrency_def Let_def del: ToUpper.simps)
  have pay: "normalizePaymentMethod (gdMethod (ciPayment i)) = Inr ''PAYMENT_METHOD_TYPE_CARD''"
    by (simp add: i_def sample_checkout_def normalizePaymentMethod_def Let_def del: ToUpper.simps)
  have client: "oc_CreateOrder (order_connection sample_repo (\<lambda>_. 0) 7000 8000) (Some
      \<lparr>gqCustomerID = TrimSpace (ciCustomerID i), gqItems = [\<lparr>gcProductID = ''p1'', gcSKU = ''s1'', gcProductName = ''tea'',
         gcQuantity = 2, gcUnitPrice = \<lparr>gmCurrency = ''CURRENCY_EUR'', gmAmountCents = 250\<rparr>\<rparr>],
       gqShippingAddress = mapAddressToOrderClient (ciShippingAddress i), gqIdempotencyKey = TrimSpace (ciIdempotencyKey i),
       gqPayment = \<lparr>gdMethod = ''PAYMENT_METHOD_TYPE_CARD'', gdMethodDetails = TrimSpace (gdMethodDetails (ciPayment i))\<rparr>\<rparr>) w =
    forward mapProtoOrder (forward Some (answered (grpc_CreateOrder sample_repo (\<lambda>_. 0) 7000 8000 sample_create w)))"
    by (simp add: oc_CreateOrder_def req mapMoneyToProto_def client_parseCurrency_def mapPaymentDetailsToProto_def
        client_parsePaymentMethod_def Let_def i_def sample_checkout_def mapAddressToOrderClient_def mapAddressToProto_def
        mapAddressRequest_def del: ToUpper.simps)
  show ?thesis
    by (cases "grpc_CreateOrder sample_repo (\<lambda>_. 0) 7000 8000 sample_create w";
        cases "fst (grpc_CreateOrder sample_repo (\<lambda>_. 0) 7000 8000 sample_create w)")
      (simp_all add: http_Checkout_def i_def [symmetric] gw_Checkout_def checks items pay client mapProtoOrder_def)
qed

theorem checkout_places_order_witness:
  "\<exists>resp w1 (r :: order_result). http_Checkout sample_gateway (Inr sample_checkout) sample_world = (resp, w1) \<and>
     resp = JSON_response 201 (CheckoutResponse (orOrderID r, orOrderStatus r)) \<and>
     orCustomerID r = ''c1'' \<and> map giProductID (orItems r) = [''p1'']"
proof -
  obtain x w1 where c: "svc_CreateOrder sample_repo 7000 8000 sample_request sample_world = (Inr x, w1)"
    by (rule sample_created)
  have srv: "all_served w1" using svc_create_attempts [OF c] by (simp add: all_served_def)
  have "grpc_CreateOrder sample_repo (\<lambda>_. 0) 7000 8000 sample_create sample_world = (Inr (convertOrderToProto (\<lambda>_. 0) x), w1)"
    using c by (simp add: grpc_CreateOrder_def sample_create_order)
  then obtain resp where h: "http_Checkout sample_gateway (Inr sample_checkout) sample_world = (resp, w1)" "statusCode resp = 201"
    by (simp add: sample_checkout_call JSON_response_def)
  obtain r :: order_result where "resp = JSON_response 201 (CheckoutResponse (orOrderID r, orOrderStatus r))"
    "orCustomerID r = TrimSpace (hrCustomerID sample_checkout)"
    "map (\<lambda>i. (giProductID i, giQuantity i)) (orItems r) = map (\<lambda>i. (TrimSpace (hiProductID i), hiQuantity i)) (hrItems sample_checkout)"
    using checkout_places_order [OF sample_quiet sample_gateway_client h srv] by blast
  then show ?thesis using h(1) by (auto simp: sample_checkout_def)
qed

section \<open>Cancelling with an idempotency key\<close>

lemma fingerprint_inject:
  assumes "cancelRequestFingerprint oid reason = cancelRequestFingerprint oid' reason'" "CHR 0x0A \<notin> set oid" "CHR 0x0A \<notin> set oid'"
  shows "oid = oid' \<and> reason = reason'"
  using assms unfolding cancelRequestFingerprint_def
proof (induction oid arbitrary: oid')
  case Nil
  then show ?case by (cases oid') auto
next
  case (Cons c oid)
  then show ?case by (cases oid') auto
qed

text \<open>
  C31: Requests cancelling with one idempotency key, however their goroutines interleave, make at
  most one successful call of the order service: two of them that are answered with success get
  the same result and have the same fingerprint, the order's identifier and the reason joined
  by a line break, and the calls made under the key have that one success. Where the identifiers
  hold no line break, the two asked to cancel the same order for the same reason. A blank key is
  no key.
\<close>
theorem cancel_once_per_key:
  assumes "orderClient svc \<noteq> None" and "goroutine_run svc (cancel_start inputs s) n c"
    and "i < length inputs" "j < length inputs"
    and "threads c ! i = Answered (Inr x)" "threads c ! j = Answered (Inr y)"
    and "cancel_key (inputs ! i) = cancel_key (inputs ! j)" "cancel_key (inputs ! i) \<noteq> []"
  shows "x = y \<and> cancel_fingerprint (inputs ! i) = cancel_fingerprint (inputs ! j) \<and>
    successes (cancel_key (inputs ! i)) (call_log c) = [x] \<and>
    (\<forall>oid reason oid' reason'.
       admit_cancel (inputs ! i) = Inr (oid, reason, cancel_key (inputs ! i)) \<and>
       admit_cancel (inputs ! j) = Inr (oid', reason', cancel_key (inputs ! j)) \<and>
       CHR 0x0A \<notin> set oid \<union> set oid' \<longrightarrow> oid = oid' \<and> reason = reason')"
proof -
  have inv: "cancel_inv inputs c" by (rule reached_inv [OF assms(1,2)])
  then have len: "length (threads c) = length inputs" by (simp add: cancel_inv_def)
  obtain r where r: "key_cell (table c) (cancel_key (inputs ! i)) = Some r" "r < length (cells (table c))"
    "outcome (cells (table c) ! r) = Some x" "fingerprint (cells (table c) ! r) = cancel_fingerprint (inputs ! i)"
    using cancel_inv_table(3) [OF inv, of i] assms(3,5,8) len by auto
  obtain q where "key_cell (table c) (cancel_key (inputs ! j)) = Some q"
    "outcome (cells (table c) ! q) = Some y" "fingerprint (cells (table c) ! q) = cancel_fingerprint (inputs ! j)"
    using cancel_inv_table(3) [OF inv, of j] assms(4,6,7,8) len by auto
  then have "x = y" "cancel_fingerprint (inputs ! i) = cancel_fingerprint (inputs ! j)"
    "successes (cancel_key (inputs ! i)) (call_log c) = [x]"
    using r assms(7) inv unfolding cancel_inv_def log_ok_def by auto
  then show ?thesis by (auto simp: cancel_fingerprint_def dest: fingerprint_inject)
qed

text \<open>An order service that cancels every order it is asked for and counts the calls.\<close>

definition sample_cancelled :: "string \<Rightarrow> pb_order" where
  "sample_cancelled oid = convertOrderToProto (\<lambda>_. 0) (zero_order\<lparr>oID := oid, oStatus := ORDER_STATUS_CANCELLED\<rparr>)"

definition counting_gateway :: "nat gateway_service" where
  "counting_gateway = NewGatewayService
     (bare_connection\<lparr>rpcCancelOrder := \<lambda>oid reason n. (Inr (Some (sample_cancelled oid)), Suc n)\<rparr>)
     bare_connection bare_connection bare_connection"

definition sample_cancellation :: cancel_input where
  "sample_cancellation = Some (''o1'', ''late'', ''k1'')"

definition sample_cancel_result :: cancel_result where
  "sample_cancel_result =
     \<lparr>crOrderID = ''o1'', crCustomerID = [], crOrderStatus = ''ORDER_STATUS_CANCELLED'', crCancelReason = [],
      crUpdatedAt = RFC3339 0 zero_time\<rparr>"

lemma counting_client: "orderClient counting_gateway \<noteq> None"
  by (simp add: counting_gateway_def NewGatewayService_def)

lemma counting_cancel:
  "performCancelOrder counting_gateway ''o1'' reason n = (Inr sample_cancel_result, Suc n)"
  by (simp add: performCancelOrder_def counting_gateway_def NewGatewayService_def oc_CancelOrder_def downstream_def
      sample_cancelled_def mapProtoOrder_def convertOrderToProto_def zero_order_def sample_cancel_result_def)

lemma sample_admit: "admit_cancel sample_cancellation = Inr (''o1'', ''late'', ''k1'')"
  by (simp add: admit_cancel_def sample_cancellation_def Let_def)

text \<open>The second request waits for the first one.\<close>

lemma sample_schedule:
  "\<exists>c. goroutine_run counting_gateway (cancel_start [sample_cancellation, sample_cancellation] 0) 5 c \<and>
     threads c = [Answered (Inr sample_cancel_result), Answered (Inr sample_cancel_result)] \<and> services c = 1"
proof -
  let ?c = "cancel_start [sample_cancellation, sample_cancellation] (0 :: nat)"
  obtain c where c: "run_schedule counting_gateway [0, 1, 0, 0, 1] ?c = Some c"
      "threads c = [Answered (Inr sample_cancel_result), Answered (Inr sample_cancel_result)]" "services c = 1"
    by (simp add: take_step_def cancel_start_def sample_admit beginCancelIdempotency_def empty_cancel_table_def
        counting_cancel counting_client finishCancelIdempotency_def)
  have "goroutine_run counting_gateway ?c 5 c" using run_schedule_sound [OF c(1)] by (simp add: eval_nat_numeral)
  then show ?thesis using c(2,3) by blast
qed

text \<open>
  With a line break in an identifier, cancellations of two orders share a fingerprint: the second
  request, for another order, is answered with the cancellation of the first, and its order is
  not cancelled.
\<close>

definition two_line_reason :: cancel_input where
  "two_line_reason = Some (''o1'', ''late'' @ [CHR 0x0A] @ ''again'', ''k1'')"

definition two_line_order :: cancel_input where
  "two_line_order = Some (''o1'' @ [CHR 0x0A] @ ''late'', ''again'', ''k1'')"

lemma colliding_admits:
  "admit_cancel two_line_reason = Inr (''o1'', ''late'' @ [CHR 0x0A] @ ''again'', ''k1'')"
  "admit_cancel two_line_order = Inr (''o1'' @ [CHR 0x0A] @ ''late'', ''again'', ''k1'')"
  by (simp_all add: admit_cancel_def two_line_reason_def two_line_order_def Let_def)

theorem cancel_fingerprint_collision:
  "\<exists>c. goroutine_run counting_gateway (cancel_start [two_line_reason, two_line_order] 0) 5 c \<and>
     threads c = [Answered (Inr sample_cancel_result), Answered (Inr sample_cancel_result)] \<and> services c = 1"
proof -
  let ?c = "cancel_start [two_line_reason, two_line_order] (0 :: nat)"
  obtain c where c: "run_schedule counting_gateway [0, 0, 0, 1, 1] ?c = Some c"
      "threads c = [Answered (Inr sample_cancel_result), Answered (Inr sample_cancel_result)]" "services c = 1"
    by (simp add: take_step_def cancel_start_def colliding_admits beginCancelIdempotency_def empty_cancel_table_def
        counting_cancel counting_client finishCancelIdempotency_def cancelRequestFingerprint_def)
  have "goroutine_run counting_gateway ?c 5 c" using run_schedule_sound [OF c(1)] by (simp add: eval_nat_numeral)
  then show ?thesis using c(2,3) by blast
qed

theorem cancel_once_per_key_witness:
  "\<exists>c x. goroutine_run counting_gateway (cancel_start [sample_cancellation, sample_cancellation] 0) 5 c \<and>
     threads c = [Answered (Inr x), Answered (Inr x)] \<and> successes ''k1'' (call_log c) = [x]"
proof -
  obtain c where c: "goroutine_run counting_gateway (cancel_start [sample_cancellation, sample_cancellation] 0) 5 c"
    "threads c = [Answered (Inr sample_cancel_result), Answered (Inr sample_cancel_result)]"
    using sample_schedule by blast
  show ?thesis
    using cancel_once_per_key [OF counting_client c(1), of 0 1] c by (auto simp: cancel_key_def sample_admit)
qed

text \<open>
  C32: No cancellation waits for ever: whatever the order service answers, the goroutines of any
  number of requests make at most three steps each, and where none of them can move, every
  request has been answered, also those that waited for another one under their key.
\<close>
theorem cancellations_all_answered:
  assumes "orderClient svc \<noteq> None" and "goroutine_run svc (cancel_start inputs s) n c"
  shows "n \<le> 3 * length inputs \<and>
    ((\<exists>d. goroutine_step svc c d) \<or> (\<forall>i < length inputs. \<exists>x. threads c ! i = Answered x))"
proof
  have "sum_list (map actions_left (map Requested inputs)) = 3 * length inputs"
    by (induction inputs) auto
  then show "n \<le> 3 * length inputs"
    using goroutine_run_bound [OF assms(2)] by (simp add: cancel_start_def)
  show "(\<exists>d. goroutine_step svc c d) \<or> (\<forall>i < length inputs. \<exists>x. threads c ! i = Answered x)"
    using stuck_answered [OF reached_inv [OF assms]] by blast
qed

theorem cancellations_all_answered_witness:
  "\<exists>c. goroutine_run counting_gateway (cancel_start [sample_cancellation, sample_cancellation] 0) 5 c \<and>
     (5::nat) \<le> 3 * length [sample_cancellation, sample_cancellation] \<and>
     (\<exists>x. threads c ! 1 = Answered x)"
proof -
  obtain c where c: "goroutine_run counting_gateway (cancel_start [sample_cancellation, sample_cancellation] 0) 5 c"
    "threads c = [Answered (Inr sample_cancel_result), Answered (Inr sample_cancel_result)]"
    using sample_schedule by blast
  show ?thesis
    using cancellations_all_answered [OF counting_client c(1)] c by auto
qed

end
