(* ===== verification/Gateway_Observed.thy ===== *)
theory Gateway_Observed
  imports Gateway_Http Gateway_Properties
begin

text \<open>What the gateway's metrics and its access log say about the requests it served.\<close>

text \<open>
  C35: Metrics and log agree with the answers. When the gateway has answered a sequence of
  requests, each counter of requests and each number of observed durations has grown by the
  number of answers with its method, route and status; the log has one entry per request, in
  order, with the identifier the client was given, and with a level that follows the status.
  However many paths clients make up, the route of a counter is one of the table or \<open>unknown\<close>.
\<close>
theorem requests_observed:
  assumes "matching_router router" and "serve_requests router page svc qs w = Some (as, w')"
  shows "length as = length qs \<and>
    (\<forall>l. requests_total w' l = requests_total w l + length (filter (\<lambda>x. labels_of router x = l) (zip qs as))) \<and>
    (\<forall>l. durations_observed w' l = durations_observed w l + length (filter (\<lambda>x. labels_of router x = l) (zip qs as))) \<and>
    access_log w' = access_log w @ map (entry_of router) (zip qs as) \<and>
    (\<forall>verb label status. requests_total w' (verb, label, status) \<noteq> requests_total w (verb, label, status) \<longrightarrow>
       label \<in> insert ''unknown'' ((fst \<circ> snd) ` set routes))"
proof -
  note o = serve_requests_observed [OF assms(2)]
  have "label \<in> insert ''unknown'' ((fst \<circ> snd) ` set routes)"
    if "requests_total w' (verb, label, status) \<noteq> requests_total w (verb, label, status)" for verb label status
  proof -
    have "filter (\<lambda>x. labels_of router x = (verb, label, status)) (zip qs as) \<noteq> []" using that o(2) by auto
    then obtain q a where "labels_of router (q, a) = (verb, label, status)" by (auto simp: filter_empty_conv)
    then have "label = metricsRouteLabel (full_path router q)" by (auto simp: labels_of_def split: prod.splits)
    then show ?thesis using full_path_in_table [OF assms(1)] by blast
  qed
  then show ?thesis using o by blast
qed

definition no_bindings :: bindings where
  "no_bindings =
     \<lparr>bOrderID = Inl OtherBindError, bPaymentID = Inl OtherBindError, bCustomerID = Inl OtherBindError,
      bProductID = Inl OtherBindError, bPage = Inl OtherBindError, bCheckout = Inl OtherBindError,
      bReason = Inl OtherBindError, bProduct = Inl OtherBindError, bPatch = Inl OtherBindError, bIdempotencyKey = []\<rparr>"

definition get_request :: "string \<Rightarrow> string \<Rightarrow> http_request" where
  "get_request path requestID =
     \<lparr>htMethod = ''GET'', htPath = path, htRequestID = requestID, htBindings = no_bindings, htGenerated = ''0f''\<rparr>"

definition fresh_gateway :: "'s \<Rightarrow> 's gateway_world" where
  "fresh_gateway s =
     \<lparr>requests_total = (\<lambda>_. 0), durations_observed = (\<lambda>_. 0), access_log = [],
      cancellations = empty_cancel_table, downstream = s\<rparr>"

lemma sample_requests_served:
  "\<exists>w. serve_requests table_router not_found sample_gateway [get_request ''/healthz'' ''r1'', get_request ''/nowhere'' []]
     (fresh_gateway s) = Some ([(http_Healthz, ''r1''), (not_found, ''0f'')], w)"
  by (simp add: serve_request_def table_router_def routes_def path_matches_def segment_matches_def wildcard_def get_request_def
      fresh_gateway_def requestIDMiddleware_def Let_def)

theorem requests_observed_witness:
  "\<exists>as w. serve_requests table_router not_found sample_gateway [get_request ''/healthz'' ''r1'', get_request ''/nowhere'' []]
       (fresh_gateway sample_world) = Some (as, w) \<and>
     requests_total w (''GET'', ''/healthz'', ''200'') = 1 \<and> requests_total w (''GET'', ''unknown'', ''404'') = 1 \<and>
     map aeRequestID (access_log w) = [''r1'', ''0f''] \<and> map aeLevel (access_log w) = [LevelInfo, LevelWarn]"
proof -
  let ?qs = "[get_request ''/healthz'' ''r1'', get_request ''/nowhere'' []]" and ?as = "[(http_Healthz, ''r1''), (not_found, ''0f'')]"
  obtain w where w: "serve_requests table_router not_found sample_gateway ?qs (fresh_gateway sample_world) = Some (?as, w)"
    using sample_requests_served by blast
  have p: "full_path table_router (get_request ''/healthz'' i) = ''/healthz''" "full_path table_router (get_request ''/nowhere'' i) = []" for i
    by (simp_all add: full_path_def table_router_def routes_def path_matches_def segment_matches_def wildcard_def get_request_def)
  have i: "itoa 200 = ''200''" "itoa 404 = ''404''" by code_simp+
  have l: "map (labels_of table_router) (zip ?qs ?as) = [(''GET'', ''/healthz'', ''200''), (''GET'', ''unknown'', ''404'')]"
    using p i by (simp add: labels_of_def metricsRouteLabel_def http_Healthz_def not_found_def JSON_response_def get_request_def)
  from requests_observed [OF table_router_matches w] have
    "requests_total w (''GET'', ''/healthz'', ''200'') = 1" "requests_total w (''GET'', ''unknown'', ''404'') = 1"
    "access_log w = map (entry_of table_router) (zip ?qs ?as)"
    using l by (simp_all add: fresh_gateway_def)
  then show ?thesis
    using w by (simp add: entry_of_def level_of_def http_Healthz_def not_found_def JSON_response_def)
qed

end
