(* ===== verification/Saga_Properties.thy ===== *)
theory Saga_Properties
  imports Order_Consumers Inventory_Consumers Payment_Properties
begin

text \<open>
  The services together: a placed order goes through reservation, payment and confirmation by
  the messages they exchange (the flow of the README: \<open>order.created\<close>, \<open>inventory.reserved\<close>,
  \<open>payment.captured\<close>). Each service has its own database, Redis and producer; a message is
  handled by the consumers of its topic.
\<close>

section \<open>An event the order service applies\<close>

lemma order_event_applied:
  fixes w :: "('db, 'm) node_world_scheme"
  assumes "redis_up w" "deduper c = order_deduper"
    and "unmarshal dec_Envelope zero_Envelope (kmValue msg) = Some envelope"
    and "en_EventType envelope = expectedEventType c" "en_EventID envelope \<notin> processed_ids ''order:event:processed:'' w"
    and "handleEvent c now envelope (redis_tick w) = (Inr x, (redis_tick w)\<lparr>tables := db, calls := n\<rparr>)"
  shows "\<exists>w'. tc_handleMessage c now msg w = (Inr True, w') \<and>
    no_redis w' = no_redis ((redis_tick w)\<lparr>tables := db, calls := n\<rparr>) \<and> redis_up w' \<and>
    processed_ids ''order:event:processed:'' w' = insert (en_EventID envelope) (processed_ids ''order:event:processed:'' w)"
proof -
  let ?p = "''order:event:processed:''" and ?w2 = "(redis_tick w)\<lparr>tables := db, calls := n\<rparr>"
  have up: "redis_up ?w2" using assms(1) by simp
  have ids: "processed_ids ?p ?w2 = processed_ids ?p w"
    using processed_ids_tick [OF assms(1), of ?p] by (simp add: processed_ids_def)
  obtain w' where w': "mark_done (redis_deduper ?p) OrderDedup (en_EventID envelope) ?w2 = (Inr True, w')"
    "no_redis w' = no_redis ?w2" "redis_up w'" "processed_ids ?p w' = insert (en_EventID envelope) (processed_ids ?p ?w2)"
    using mark_done_up [OF up] by blast
  have "tc_handleMessage c now msg w = (Inr True, w')"
    using assms(2,6) w'(1)
    by (simp add: tc_handleMessage_def order_deduper_def deduplicated_fresh [OF assms(1,3,4,5)])
  then show ?thesis using w' ids by auto
qed

lemma pg_quiet_tick: "pg_quiet (redis_tick w) = pg_quiet w" "all_served (redis_tick w) = all_served w"
  "tables (redis_tick w) = tables w"
  using pg_quiet_no_redis [of "redis_tick w" w] no_redis_world(2) [of "redis_tick w" w] no_redis_simps(1) [of "redis_tick w" w]
  by simp_all

lemma reserved_event_served:
  fixes w :: "(order_db, 'm) node_world_scheme"
  assumes w: "pg_quiet w" "all_served w" "redis_up w" and old: "stored_orders (tables w) oid = Some old"
    and st: "oStatus old = ORDER_STATUS_PENDING" "oCreatedAt old \<noteq> zero_time" "now \<noteq> zero_time"
    and msg: "unmarshal dec_Envelope zero_Envelope (kmValue msg) = Some envelope"
      "en_EventType envelope = InventoryReservedEventType" "en_EventID envelope \<notin> processed_ids ''order:event:processed:'' w"
      "unmarshal dec_InventoryReserved zero_InventoryReserved (en_Payload envelope) = Some event" "ir_OrderID event = oid"
  shows "\<exists>x w'. tc_handleMessage (NewInventoryReservedConsumer (pg_order_repo cfg coll) order_deduper) now msg w = (Inr True, w') \<and>
    stored_orders (tables w') oid = Some x \<and> oStatus x = ORDER_STATUS_AWAITING_PAYMENT \<and> oCreatedAt x = oCreatedAt old \<and>
    pg_quiet w' \<and> all_served w' \<and> redis_up w' \<and>
    processed_ids ''order:event:processed:'' w' = insert (en_EventID envelope) (processed_ids ''order:event:processed:'' w)"
proof -
  let ?c = "NewInventoryReservedConsumer (pg_order_repo cfg coll) order_deduper"
  obtain x w2 where x: "svc_MarkInventoryReserved (pg_order_repo cfg coll) now oid (redis_tick w) = (Inr x, w2)"
    "oStatus x = ORDER_STATUS_AWAITING_PAYMENT" "oCreatedAt x = oCreatedAt old" "stored_orders (tables w2) oid = Some x"
    "pg_quiet w2" "all_served w2"
    using reserved_served [of "redis_tick w" oid old now cfg coll] w old st pg_quiet_tick [of w] by auto
  obtain db n where w2: "w2 = (redis_tick w)\<lparr>tables := db, calls := n\<rparr>"
    using transition_frame [OF x(1) [unfolded svc_MarkInventoryReserved_def]] by blast
  have "handleEvent ?c now envelope (redis_tick w) = (Inr x, (redis_tick w)\<lparr>tables := db, calls := n\<rparr>)"
    using x(1) msg(4,5) w2 by (simp add: NewInventoryReservedConsumer_def decoded_def)
  from order_event_applied [OF w(3) _ msg(1) _ msg(3) this] obtain w' where w':
    "tc_handleMessage ?c now msg w = (Inr True, w')" "no_redis w' = no_redis w2" "redis_up w'"
    "processed_ids ''order:event:processed:'' w' = insert (en_EventID envelope) (processed_ids ''order:event:processed:'' w)"
    using msg(2) w2 by (auto simp: NewInventoryReservedConsumer_def)
  then show ?thesis
    using x no_redis_simps(1) [OF w'(2)] pg_quiet_no_redis [OF w'(2)] no_redis_world(2) [OF w'(2)] by auto
qed

lemma captured_event_served:
  fixes w :: "(order_db, 'm) node_world_scheme"
  assumes w: "pg_quiet w" "all_served w" "redis_up w" and old: "stored_orders (tables w) oid = Some old"
    and st: "oStatus old = ORDER_STATUS_AWAITING_PAYMENT" "oCreatedAt old \<noteq> zero_time" "now \<noteq> zero_time"
    and msg: "unmarshal dec_Envelope zero_Envelope (kmValue msg) = Some envelope"
      "en_EventType envelope = PaymentCapturedEventType" "en_EventID envelope \<notin> processed_ids ''order:event:processed:'' w"
      "unmarshal dec_PaymentCaptured zero_PaymentCaptured (en_Payload envelope) = Some event" "pp_OrderID event = oid"
  shows "\<exists>x w'. tc_handleMessage (NewPaymentCapturedConsumer (pg_order_repo cfg coll) order_deduper) now msg w = (Inr True, w') \<and>
    stored_orders (tables w') oid = Some x \<and> oStatus x = ORDER_STATUS_CONFIRMED"
proof -
  let ?c = "NewPaymentCapturedConsumer (pg_order_repo cfg coll) order_deduper"
  obtain x w2 where x: "svc_MarkPaymentCaptured (pg_order_repo cfg coll) now oid (redis_tick w) = (Inr x, w2)"
    "oStatus x = ORDER_STATUS_CONFIRMED" "stored_orders (tables w2) oid = Some x"
    using captured_served [of "redis_tick w" oid old now cfg coll] w old st pg_quiet_tick [of w] by auto
  obtain db n where w2: "w2 = (redis_tick w)\<lparr>tables := db, calls := n\<rparr>"
    using transition_frame [OF x(1) [unfolded svc_MarkPaymentCaptured_def]] by blast
  have "handleEvent ?c now envelope (redis_tick w) = (Inr x, (redis_tick w)\<lparr>tables := db, calls := n\<rparr>)"
    using x(1) msg(4,5) w2 by (simp add: NewPaymentCapturedConsumer_def decoded_def)
  from order_event_applied [OF w(3) _ msg(1) _ msg(3) this] obtain w' where w':
    "tc_handleMessage ?c now msg w = (Inr True, w')" "no_redis w' = no_redis w2"
    using msg(2) w2 by (auto simp: NewPaymentCapturedConsumer_def)
  then show ?thesis using x no_redis_simps(1) [OF w'(2)] by auto
qed

section \<open>From placed to confirmed\<close>

lemma capture_sends:
  fixes w :: "(payment_db, 'm) bus_world_scheme"
  assumes "pay_quiet w" "all_served w" "broker_up w" "pay_view w pid = Some p" "yStatus p = PAYMENT_STATUS_PENDING"
    and "now \<noteq> zero_time" "yCreatedAt p \<noteq> zero_time"
  shows "\<exists>q x w'. grpc_CapturePayment (pg_payment_repo coll) (payment_kafka_publisher ts) now pid w = (Inr x, w') \<and>
    pay_view w' pid = Some q \<and> yStatus q = PAYMENT_STATUS_CAPTURED \<and> yOrderID q = yOrderID p \<and> yAmount q = yAmount p \<and>
    yID q = yID p \<and>
    sent w' = sent w @ [event_message now (capturedTopic ts) PaymentCapturedEventType (yID p) (yOrderID p)
      (enc_PaymentCaptured (captured_event_of q))]"
proof -
  obtain q w1 where c: "psvc_CapturePayment (pg_payment_repo coll) now pid w = (Inr (q, True), w1)"
    "q = saved (p\<lparr>yStatus := PAYMENT_STATUS_CAPTURED, yUpdatedAt := now\<rparr>)" "pay_view w1 = (pay_view w)(pid \<mapsto> q)" "tables_only w w1"
    using capture_served [OF assms(1,2,4-7), of coll] by blast
  have b: "broker_up w1" "sent w1 = sent w" using c(4) assms(3) by (auto simp: tables_only_def broker_up_def)
  show ?thesis
    using c(1-3) b
    by (auto simp: grpc_CapturePayment_def payment_kafka_publisher_def kafka_PublishPaymentCaptured_def
        writeEvent_up captured_event_of_def pay_view_def)
qed

lemma reserved_event_payable:
  assumes "sound_order x" "mCurrency (oTotalAmount x) \<noteq> CURRENCY_UNSPECIFIED"
  shows "payable (reserved_event (ev_order_created x)) (mCurrency (oTotalAmount x)) (dMethod (oPayment x))"
proof -
  have v: "validateOrder x = None" "readable x" "0 < mAmountCents (oTotalAmount x)"
    using assms(1) by (simp_all add: sound_order_def)
  have ids: "TrimSpace (oID x) \<noteq> []" "TrimSpace (oCustomerID x) \<noteq> []" "dMethod (oPayment x) \<noteq> PAYMENT_METHOD_TYPE_UNSPECIFIED"
    using v(1) by (simp_all add: validateOrder_def split: if_splits)
  have "parseEventCurrency (Currency_String (mCurrency (oTotalAmount x))) = Inr (mCurrency (oTotalAmount x))"
    using v(2) assms(2) by (auto simp: readable_def known_currency_def parseEventCurrency_def)
  moreover have "parseEventMethod (PaymentMethodType_String (dMethod (oPayment x))) = Inr (dMethod (oPayment x))"
    using v(2) ids(3) by (auto simp: readable_def known_method_def parseEventMethod_def)
  ultimately show ?thesis
    using ids v(3) by (simp add: payable_def reserved_event_def ev_order_created_def ev_money_def)
qed

lemma ok_reserved_event: "order_in_range x \<Longrightarrow> ok_InventoryReserved (reserved_event (ev_order_created x))"
  by (auto simp: ok_InventoryReserved_def reserved_event_def ev_order_created_def order_in_range_def money_in_range_def
      ev_money_def ok_Money_def list_all_iff reservation_item_def ok_InventoryReservationItem_def ev_created_item_def item_in_range_def is_int32_def is_int64_def)

lemma created_envelope:
  assumes "order_in_range x" "kmValue msg = Some (jsonb (omPayload (NewOrderCreatedOutboxMessage x topic t0)))"
  obtains env where "unmarshal dec_Envelope zero_Envelope (kmValue msg) = Some env" "en_EventType env = OrderCreatedEventType"
    "en_EventID env = evt_id t0" "unmarshal dec_OrderCreated zero_OrderCreated (en_Payload env) = Some (ev_order_created x)"
proof -
  obtain env where "decode_event dec_OrderCreated zero_OrderCreated (kmValue msg) = Some (env, ev_order_created x)"
    "en_EventType env = OrderCreatedEventType" "en_EventID env = evt_id t0"
    using decode_created_message [OF assms(1), of topic t0] unfolding assms(2) by blast
  then show thesis by (intro that [of env]) (auto simp: decode_event_def split: option.splits)
qed

lemma reservation_leg:
  fixes iw :: "(inventory_db, 'b) node_world_scheme"
  assumes "order_in_range x" "kmValue msg = Some (jsonb (omPayload (NewOrderCreatedOutboxMessage x topic t0)))"
    and stock: "served_alone iw" "broker_up iw" "redis_up iw" "reservable (oID x) (map ev_created_item (oItems x)) (iview iw)"
    and "evt_id t0 \<notin> inventory_processed iw"
  obtains iw1 m env where
    "OrderCreated_handleMessage (pg_inventory_repo icoll) inventory_deduper (inventory_kafka_publisher rt ft) t1 msg iw = (Inr True, iw1)"
    "iview iw1 = l_reserve_all (oID x) (map ev_created_item (oItems x)) (iview iw)" "sent iw1 = sent iw @ [m]"
    "unmarshal dec_Envelope zero_Envelope (kmValue m) = Some env" "en_EventType env = InventoryReservedEventType"
    "en_EventID env = evt_id t0 @ '':'' @ itoa (UnixNano t1)"
    "unmarshal dec_InventoryReserved zero_InventoryReserved (en_Payload env) = Some (reserved_event (ev_order_created x))"
    "kmTopic m = rt"
proof -
  let ?e = "ev_order_created x"
  obtain env where env: "unmarshal dec_Envelope zero_Envelope (kmValue msg) = Some env" "en_EventType env = OrderCreatedEventType"
    "en_EventID env = evt_id t0" "unmarshal dec_OrderCreated zero_OrderCreated (en_Payload env) = Some ?e"
    by (rule created_envelope [OF assms(1,2)])
  have oc: "oc_OrderID ?e = oID x" "oc_Items ?e = map ev_created_item (oItems x)" by (simp_all add: ev_order_created_def)
  obtain iw1 where i: "OrderCreated_handleMessage (pg_inventory_repo icoll) inventory_deduper (inventory_kafka_publisher rt ft) t1 msg iw =
      (Inr True, iw1)" "order_created_outcome rt ft t1 (evt_id t0) ?e iw iw1"
    using order_created_handled [OF stock(1-3) env(1,2) _ env(4)] assms(7) unfolding env(3) by blast
  let ?m = "event_message t1 rt InventoryReservedEventType (evt_id t0) (oID x) (enc_InventoryReserved (reserved_event ?e))"
  let ?env = "event_envelope t1 InventoryReservedEventType (evt_id t0) (enc_InventoryReserved (reserved_event ?e))"
  have "unmarshal dec_InventoryReserved zero_InventoryReserved (en_Payload ?env) = Some (reserved_event ?e)"
    using ok_reserved_event [OF assms(1)] by (simp add: unmarshal_def)
  then show thesis
    using i stock(4) by (intro that [of iw1 ?m ?env]) (simp_all add: order_created_outcome_def oc)
qed

lemma capture_leg:
  fixes pw :: "(payment_db, 'c) node_world_scheme"
  assumes "pay_quiet pw" "all_served pw" "broker_up pw" "pay_view pw pid = Some y" "yStatus y = PAYMENT_STATUS_PENDING"
    and "t \<noteq> zero_time" "yCreatedAt y \<noteq> zero_time"
  obtains q answer pw2 m env event where
    "grpc_CapturePayment (pg_payment_repo pcoll) (payment_kafka_publisher ts) t pid pw = (Inr answer, pw2)"
    "pay_view pw2 pid = Some q" "yStatus q = PAYMENT_STATUS_CAPTURED" "yAmount q = yAmount y" "sent pw2 = sent pw @ [m]"
    "unmarshal dec_Envelope zero_Envelope (kmValue m) = Some env" "en_EventType env = PaymentCapturedEventType"
    "en_EventID env = yID y @ '':'' @ itoa (UnixNano t)"
    "unmarshal dec_PaymentCaptured zero_PaymentCaptured (en_Payload env) = Some event" "pp_OrderID event = yOrderID y"
    "kmTopic m = capturedTopic ts"
proof -
  obtain q answer pw2 where c: "grpc_CapturePayment (pg_payment_repo pcoll) (payment_kafka_publisher ts) t pid pw = (Inr answer, pw2)"
    "pay_view pw2 pid = Some q" "yStatus q = PAYMENT_STATUS_CAPTURED" "yOrderID q = yOrderID y" "yAmount q = yAmount y"
    "sent pw2 = sent pw @ [event_message t (capturedTopic ts) PaymentCapturedEventType (yID y) (yOrderID y)
      (enc_PaymentCaptured (captured_event_of q))]"
    using capture_sends [OF assms] by blast
  have "unmarshal dec_PaymentCaptured zero_PaymentCaptured (Some (enc_PaymentCaptured (captured_event_of q))) = Some (captured_event_of q)"
    by (simp add: unmarshal_def)
  then show thesis
    using c by (intro that [OF c(1-3,5,6), of "event_envelope t PaymentCapturedEventType (yID y) (enc_PaymentCaptured (captured_event_of q))"
      "captured_event_of q"]) (simp_all add: captured_event_of_def)
qed

text \<open>The payment the payment service makes for an order it has handled at the given time.\<close>

definition payment_for :: "time \<Rightarrow> order \<Rightarrow> payment" where
  "payment_for now x =
     new_payment now now (event_payment (reserved_event (ev_order_created x)) (mCurrency (oTotalAmount x)) (dMethod (oPayment x)))"

text \<open>
  C1: A purchase completes. The message of a placed order reserves its items in the inventory
  when they are in stock; the message the inventory sends, on the topic of reservations, makes the payment service create one
  payment of the order's total and the order service wait for it; capturing that payment sends
  the message on which the order service confirms the order. Every consumer commits its message.
  This is with the databases, the broker and Redis up, no event processed before and no payment
  of the order.
\<close>
theorem purchase_completes:
  fixes ow :: "(order_db, 'a) node_world_scheme" and iw :: "(inventory_db, 'b) node_world_scheme"
    and pw :: "(payment_db, 'c) node_world_scheme"
  assumes order: "pg_quiet ow" "all_served ow" "redis_up ow" "stored_orders (tables ow) (oID x) = Some x"
      "oStatus x = ORDER_STATUS_PENDING" "oCreatedAt x \<noteq> zero_time" "order_in_range x"
      "mCurrency (oTotalAmount x) \<noteq> CURRENCY_UNSPECIFIED"
    and placed: "kmValue msg = Some (jsonb (omPayload (NewOrderCreatedOutboxMessage x topic t0)))"
    and stock: "served_alone iw" "broker_up iw" "redis_up iw" "reservable (oID x) (map ev_created_item (oItems x)) (iview iw)"
    and pay: "pay_quiet pw" "all_served pw" "redis_up pw" "broker_up pw" "no_payment_yet (tables pw) (payment_for t2 x)"
    and fresh: "evt_id t0 \<notin> inventory_processed iw" "evt_id t0 @ '':'' @ itoa (UnixNano t1) \<notin> payment_processed pw"
      "evt_id t0 @ '':'' @ itoa (UnixNano t1) \<notin> processed_ids ''order:event:processed:'' ow"
      "newPaymentID t2 @ '':'' @ itoa (UnixNano t4) \<notin> processed_ids ''order:event:processed:'' ow"
    and times: "t2 \<noteq> zero_time" "yCreatedAt (saved (payment_for t2 x)) \<noteq> zero_time" "t3 \<noteq> zero_time" "t4 \<noteq> zero_time" "t5 \<noteq> zero_time"
  shows "\<exists>iw1 reserved pw1 y ow1 x1 pw2 answer captured q ow2 x2.
    OrderCreated_handleMessage (pg_inventory_repo icoll) inventory_deduper (inventory_kafka_publisher rt ft) t1 msg iw = (Inr True, iw1) \<and>
    iview iw1 = l_reserve_all (oID x) (map ev_created_item (oItems x)) (iview iw) \<and> sent iw1 = sent iw @ [reserved] \<and>
    kmTopic reserved = rt \<and>
    InventoryReserved_handleMessage (pg_payment_repo pcoll) payment_deduper (payment_kafka_publisher ts) t2 reserved pw = (Inr True, pw1) \<and>
    pay_view pw1 = (pay_view pw)(yID y \<mapsto> y) \<and> yOrderID y = oID x \<and> yStatus y = PAYMENT_STATUS_PENDING \<and>
    yAmount y = \<lparr>ymCurrency = mCurrency (oTotalAmount x), ymAmountCents = mAmountCents (oTotalAmount x)\<rparr> \<and>
    tc_handleMessage (NewInventoryReservedConsumer (pg_order_repo cfg coll) order_deduper) t3 reserved ow = (Inr True, ow1) \<and>
    stored_orders (tables ow1) (oID x) = Some x1 \<and> oStatus x1 = ORDER_STATUS_AWAITING_PAYMENT \<and>
    grpc_CapturePayment (pg_payment_repo pcoll) (payment_kafka_publisher ts) t4 (yID y) pw1 = (Inr answer, pw2) \<and>
    pay_view pw2 (yID y) = Some q \<and> yStatus q = PAYMENT_STATUS_CAPTURED \<and> yAmount q = yAmount y \<and>
    sent pw2 = sent pw1 @ [captured] \<and> kmTopic captured = capturedTopic ts \<and>
    tc_handleMessage (NewPaymentCapturedConsumer (pg_order_repo cfg coll) order_deduper) t5 captured ow1 = (Inr True, ow2) \<and>
    stored_orders (tables ow2) (oID x) = Some x2 \<and> oStatus x2 = ORDER_STATUS_CONFIRMED"
proof -
  let ?e = "ev_order_created x" and ?p = "''order:event:processed:''"
  have sound: "sound_order x" using order_store_invD(5) [OF _ order(4)] order(1) by (simp add: pg_quiet_def)
  obtain iw1 m1 env1 where i:
    "OrderCreated_handleMessage (pg_inventory_repo icoll) inventory_deduper (inventory_kafka_publisher rt ft) t1 msg iw = (Inr True, iw1)"
    "iview iw1 = l_reserve_all (oID x) (map ev_created_item (oItems x)) (iview iw)" "sent iw1 = sent iw @ [m1]" and d1:
    "unmarshal dec_Envelope zero_Envelope (kmValue m1) = Some env1" "en_EventType env1 = InventoryReservedEventType"
    "en_EventID env1 = evt_id t0 @ '':'' @ itoa (UnixNano t1)"
    "unmarshal dec_InventoryReserved zero_InventoryReserved (en_Payload env1) = Some (reserved_event ?e)"
    and topic1: "kmTopic m1 = rt"
    by (rule reservation_leg [OF order(7) placed stock fresh(1)])
  define y where "y = saved (payment_for t2 x)"
  obtain pw1 where p1: "InventoryReserved_handleMessage (pg_payment_repo pcoll) payment_deduper (payment_kafka_publisher ts) t2 m1 pw = (Inr True, pw1)"
    "pay_view pw1 = (pay_view pw)(yID y \<mapsto> y)" "pay_quiet pw1" "all_served pw1" "broker_up pw1"
    using payment_event_new [OF pay(1-4) d1(1,2) _ d1(4) reserved_event_payable [OF sound order(8)] times(1), of y pcoll ts]
      pay(5) fresh(2) d1(3) by (auto simp: payment_for_def y_def)
  have y: "yOrderID y = oID x" "yStatus y = PAYMENT_STATUS_PENDING" "yID y = newPaymentID t2"
    "yAmount y = \<lparr>ymCurrency = mCurrency (oTotalAmount x), ymAmountCents = mAmountCents (oTotalAmount x)\<rparr>"
    by (simp_all add: y_def payment_for_def new_payment_def event_payment_def reserved_event_def ev_order_created_def ev_money_def)
  have "ir_OrderID (reserved_event ?e) = oID x" by (simp add: reserved_event_def ev_order_created_def)
  with reserved_event_served [OF order(1-6) times(3) d1(1,2) _ d1(4), of cfg coll] fresh(3) d1(3)
  obtain x1 ow1 where o1: "tc_handleMessage (NewInventoryReservedConsumer (pg_order_repo cfg coll) order_deduper) t3 m1 ow = (Inr True, ow1)"
    "stored_orders (tables ow1) (oID x) = Some x1" "oStatus x1 = ORDER_STATUS_AWAITING_PAYMENT" "oCreatedAt x1 = oCreatedAt x"
    "pg_quiet ow1" "all_served ow1" "redis_up ow1" "processed_ids ?p ow1 = insert (en_EventID env1) (processed_ids ?p ow)" by auto
  have v: "pay_view pw1 (yID y) = Some y" using p1(2) by simp
  obtain q answer pw2 m2 env2 event where c:
    "grpc_CapturePayment (pg_payment_repo pcoll) (payment_kafka_publisher ts) t4 (yID y) pw1 = (Inr answer, pw2)"
    "pay_view pw2 (yID y) = Some q" "yStatus q = PAYMENT_STATUS_CAPTURED" "yAmount q = yAmount y" "sent pw2 = sent pw1 @ [m2]" and d2:
    "unmarshal dec_Envelope zero_Envelope (kmValue m2) = Some env2" "en_EventType env2 = PaymentCapturedEventType"
    "en_EventID env2 = yID y @ '':'' @ itoa (UnixNano t4)"
    "unmarshal dec_PaymentCaptured zero_PaymentCaptured (en_Payload env2) = Some event" "pp_OrderID event = yOrderID y"
    and topic2: "kmTopic m2 = capturedTopic ts"
    by (rule capture_leg [OF p1(3,4,5) v y(2) times(4,2) [folded y_def]])
  have "en_EventID env2 \<notin> processed_ids ?p ow1"
    using fresh(4) unfolding o1(8) d1(3) d2(3) y(3) by (simp add: newPaymentID_def evt_id_def)
  with captured_event_served [OF o1(5-7,2,3) _ times(5) d2(1,2) _ d2(4), of cfg coll] o1(4) order(6) d2(5) y(1)
  obtain x2 ow2 where "tc_handleMessage (NewPaymentCapturedConsumer (pg_order_repo cfg coll) order_deduper) t5 m2 ow1 = (Inr True, ow2)"
    "stored_orders (tables ow2) (oID x) = Some x2" "oStatus x2 = ORDER_STATUS_CONFIRMED" by auto
  then show ?thesis using i topic1 p1(1,2) y(1,2,4) o1(1-3) c topic2 by blast
qed

definition sample_placed :: kafka_message where
  "sample_placed = \<lparr>kmTopic = ''order.created'', kmKey = ''o1'',
     kmValue = Some (jsonb (omPayload (NewOrderCreatedOutboxMessage (persisted sample_order) ''order.created'' 8200)))\<rparr>"

lemma sample_order_reservable:
  "reservable ''o1'' (map ev_created_item (oItems (persisted sample_order))) (iview (calm_node sample_stock 1000))"
proof -
  have "available (iview (calm_node sample_stock 1000)) = [''p1'' \<mapsto> 7, ''p2'' \<mapsto> 2]"
    by (rule sample_stock_iview) simp
  then show ?thesis
    by (simp add: reservable_def sample_order_def sample_request_def ev_created_item_def valid_item_def demand_def)
qed

theorem purchase_completes_witness:
  "\<exists>iw1 reserved pw1 (y :: payment) ow1 pw2 answer captured ow2 x2.
    OrderCreated_handleMessage sample_inventory inventory_deduper (inventory_kafka_publisher ''r'' ''f'') 9100 sample_placed
      (calm_node sample_stock 1000) = (Inr True, iw1) \<and> sent iw1 = [reserved] \<and>
    InventoryReserved_handleMessage sample_payments payment_deduper (payment_kafka_publisher sample_topics) 9200 reserved
      (calm_node \<lparr>payments = []\<rparr> 2000) = (Inr True, pw1) \<and> yAmount y = \<lparr>ymCurrency = CURRENCY_EUR, ymAmountCents = 500\<rparr> \<and>
    tc_handleMessage (NewInventoryReservedConsumer sample_repo order_deduper) 9300 reserved (calm_node sample_db 9000) = (Inr True, ow1) \<and>
    grpc_CapturePayment sample_payments (payment_kafka_publisher sample_topics) 9400 (yID y) pw1 = (Inr answer, pw2) \<and>
    sent pw2 = sent pw1 @ [captured] \<and>
    tc_handleMessage (NewPaymentCapturedConsumer sample_repo order_deduper) 9500 captured ow1 = (Inr True, ow2) \<and>
    stored_orders (tables ow2) ''o1'' = Some x2 \<and> oStatus x2 = ORDER_STATUS_CONFIRMED"
proof -
  let ?x = "persisted sample_order"
  have o: "pg_quiet (calm_node sample_db 9000)" "stored_orders (tables (calm_node sample_db 9000)) (oID ?x) = Some ?x"
    "oStatus ?x = ORDER_STATUS_PENDING" "order_in_range ?x" "mCurrency (oTotalAmount ?x) \<noteq> CURRENCY_UNSPECIFIED"
    by (simp_all add: sample_quiet_node)
      (simp_all add: sample_order_def sample_request_def order_in_range_def money_in_range_def item_in_range_def is_int64_def is_int32_def line_total_def wrap64_def)
  have m: "kmValue sample_placed = Some (jsonb (omPayload (NewOrderCreatedOutboxMessage ?x ''order.created'' 8200)))"
    by (simp add: sample_placed_def)
  have p: "pay_quiet (calm_node \<lparr>payments = []\<rparr> 2000 :: payment_db node_world)"
    "no_payment_yet (tables (calm_node \<lparr>payments = []\<rparr> 2000 :: payment_db node_world)) (payment_for 9200 ?x)"
    by (simp_all add: pay_quiet_def payment_db_inv_def no_payment_yet_def)
  have t: "(9200::int) \<noteq> zero_time" "(9300::int) \<noteq> zero_time" "(9400::int) \<noteq> zero_time" "(9500::int) \<noteq> zero_time"
    "yCreatedAt (saved (payment_for 9200 ?x)) \<noteq> zero_time"
    by (simp_all add: zero_time_def payment_for_def new_payment_def pg_micros_def)
  have total: "oTotalAmount ?x = \<lparr>mCurrency = CURRENCY_EUR, mAmountCents = 500\<rparr>"
    by (simp add: sample_order_def)
  have f: "eid \<notin> processed_ids pre (calm_node db t)" for eid pre db t by simp
  have r: "reservable (oID ?x) (map ev_created_item (oItems ?x)) (iview (calm_node sample_stock 1000))"
    using sample_order_reservable by simp
  have s: "sent (calm_node db n) @ [m] = [m]" for db :: inventory_db and n m by simp
  note P = purchase_completes [OF o(1) calm_node_simps(6,7) o(2,3) sample_created_at o(4,5) m sample_served_node calm_node_simps(5,7) r
      p(1) calm_node_simps(6,7,5) p(2) f f f f t(1,5,2-4),
      where ?t1.0 = 9100 and icoll = "\<lambda>_. 0 :: nat" and pcoll = "\<lambda>_. 0 :: nat" and rt = "''r''" and ft = "''f''"
        and ts = sample_topics and cfg = sample_config and coll = sample_coll]
  from P [unfolded s total persisted_simps(1) sample_order_simps(1) money.simps] show ?thesis by blast
qed

end
