(* ===== verification/Saga_Compensation.thy ===== *)
theory Saga_Compensation
  imports Saga_Properties
begin

text \<open>
  The way back: a payment that fails undoes the order. \<open>payment.failed\<close> cancels the order, the
  transaction that cancels it writes \<open>order.cancelled\<close> to the outbox, and that message makes the
  inventory give back what it held.
\<close>

section \<open>A failed payment\<close>

lemma fail_served:
  fixes w :: "(payment_db, 'm) world_scheme"
  assumes w: "pay_quiet w" "all_served w" and v: "pay_view w pid = Some p" "yStatus p = PAYMENT_STATUS_PENDING"
    and t: "now \<noteq> zero_time" "yCreatedAt p \<noteq> zero_time" and reason: "TrimSpace reason \<noteq> []"
  shows "\<exists>q w'. psvc_FailPayment (pg_payment_repo coll) now pid reason w = (Inr (q, True), w') \<and>
    q = saved (p\<lparr>yStatus := PAYMENT_STATUS_FAILED, yCancelReason := TrimSpace reason, yUpdatedAt := now\<rparr>) \<and>
    pay_view w' = (pay_view w)(pid \<mapsto> q) \<and> tables_only w w'"
proof -
  let ?q = "p\<lparr>yStatus := PAYMENT_STATUS_FAILED, yCancelReason := TrimSpace reason, yUpdatedAt := now\<rparr>"
  obtain w1 where w1: "rGetPaymentByID (pg_payment_repo coll) pid w = (Inr p, w1)" "tables w1 = tables w" "pay_quiet w1" "all_served w1"
    using read_served [OF w v(1)] by blast
  have v1: "pay_view w1 = pay_view w" using w1(2) by (simp add: pay_view_def)
  from update_served [OF w1(3,4) v(1) [folded v1] refl t] obtain w' where
    w': "rUpdatePayment (pg_payment_repo coll) ?q w1 = (Inr (saved ?q), w')" "pay_view w' = (pay_view w)(pid \<mapsto> saved ?q)"
    unfolding v1 by blast
  have "TrimSpace pid \<noteq> []"
    using w v(1) by (auto simp: pay_quiet_def pay_view_def payment_row_ok_def elim: stored_payments_find)
  then show ?thesis
    using w1(1) w' v(2) reason tables_only_trans [OF payment_repo_tables_only(3) [OF w1(1)] payment_repo_tables_only(2) [OF w'(1)]]
    by (simp add: psvc_FailPayment_def with_flag_def Let_def)
qed

lemma failure_leg:
  fixes pw :: "(payment_db, 'c) node_world_scheme"
  assumes "pay_quiet pw" "all_served pw" "broker_up pw" "pay_view pw pid = Some y" "yStatus y = PAYMENT_STATUS_PENDING"
    and "t \<noteq> zero_time" "yCreatedAt y \<noteq> zero_time" "TrimSpace reason \<noteq> []"
  obtains q answer pw1 m env event where
    "grpc_FailPayment (pg_payment_repo pcoll) (payment_kafka_publisher ts) t pid reason pw = (Inr answer, pw1)"
    "pay_view pw1 = (pay_view pw)(pid \<mapsto> q)" "yStatus q = PAYMENT_STATUS_FAILED" "yCancelReason q = TrimSpace reason" "yAmount q = yAmount y"
    "sent pw1 = sent pw @ [m]" "kmTopic m = paymentFailedTopic ts"
    "unmarshal dec_Envelope zero_Envelope (kmValue m) = Some env" "en_EventType env = PaymentFailedEventType"
    "en_EventID env = yID y @ '':'' @ itoa (UnixNano t)"
    "unmarshal dec_PaymentFailed zero_PaymentFailed (en_Payload env) = Some event" "px_OrderID event = yOrderID y"
    "px_FailureReason event = TrimSpace reason"
proof -
  obtain q pw0 where c: "psvc_FailPayment (pg_payment_repo pcoll) t pid reason pw = (Inr (q, True), pw0)"
    "q = saved (y\<lparr>yStatus := PAYMENT_STATUS_FAILED, yCancelReason := TrimSpace reason, yUpdatedAt := t\<rparr>)"
    "pay_view pw0 = (pay_view pw)(pid \<mapsto> q)" "tables_only pw pw0"
    using fail_served [OF assms(1,2,4-8), of pcoll] by blast
  have b: "broker_up pw0" "sent pw0 = sent pw" using c(4) assms(3) by (auto simp: tables_only_def broker_up_def)
  let ?m = "event_message t (paymentFailedTopic ts) PaymentFailedEventType (yID y) (yOrderID y) (enc_PaymentFailed (failed_event_of q))"
  obtain answer pw1 where s: "grpc_FailPayment (pg_payment_repo pcoll) (payment_kafka_publisher ts) t pid reason pw = (Inr answer, pw1)"
    "sent pw1 = sent pw @ [?m]" "pay_view pw1 = pay_view pw0"
    using c(1,2) b
    by (auto simp: grpc_FailPayment_def payment_kafka_publisher_def kafka_PublishPaymentFailed_def writeEvent_up failed_event_of_def pay_view_def)
  have "unmarshal dec_PaymentFailed zero_PaymentFailed (Some (enc_PaymentFailed (failed_event_of q))) = Some (failed_event_of q)"
    by (simp add: unmarshal_def)
  then show thesis
    using c(2,3) s
    by (intro that [OF s(1) _ _ _ _ s(2), of q "event_envelope t PaymentFailedEventType (yID y) (enc_PaymentFailed (failed_event_of q))"
      "failed_event_of q"]) (simp_all add: failed_event_of_def)
qed

section \<open>The order service cancels\<close>

lemma failed_event_served:
  fixes w :: "(order_db, 'm) node_world_scheme"
  assumes w: "pg_quiet w" "all_served w" "redis_up w" and old: "stored_orders (tables w) oid = Some old"
    and st: "oStatus old = ORDER_STATUS_PENDING \<or> oStatus old = ORDER_STATUS_AWAITING_PAYMENT" "oCreatedAt old \<noteq> zero_time" "now \<noteq> zero_time"
    and outbox: "TrimSpace (orderCancelledTopic cfg) \<noteq> []" "''outbox-cancelled-'' @ oid \<notin> obID ` set (outbox (tables w))"
    and msg: "unmarshal dec_Envelope zero_Envelope (kmValue msg) = Some envelope"
      "en_EventType envelope = PaymentFailedEventType" "en_EventID envelope \<notin> processed_ids ''order:event:processed:'' w"
      "unmarshal dec_PaymentFailed zero_PaymentFailed (en_Payload envelope) = Some event" "px_OrderID event = oid"
      "TrimSpace (px_FailureReason event) \<noteq> []"
  shows "\<exists>x w' e env. tc_handleMessage (NewPaymentFailedConsumer (pg_order_repo cfg coll) order_deduper) now msg w = (Inr True, w') \<and>
    stored_orders (tables w') oid = Some x \<and> oStatus x = ORDER_STATUS_CANCELLED \<and> oCancelReason x = TrimSpace (px_FailureReason event) \<and>
    outbox (tables w') = outbox (tables w) @ [e] \<and> obTopic e = orderCancelledTopic cfg \<and> obPublishedAt e = None \<and>
    en_EventType env = OrderCancelledEventType \<and>
    decode_event dec_OrderCancelled zero_OrderCancelled (Some (obPayload e)) =
      Some (env, \<lparr>ox_OrderID = oid, ox_CustomerID = oCustomerID old, ox_CancelReason = TrimSpace (px_FailureReason event)\<rparr>)"
proof -
  let ?c = "NewPaymentFailedConsumer (pg_order_repo cfg coll) order_deduper" and ?r = "TrimSpace (px_FailureReason event)"
  have step: "failed_step now (px_FailureReason event) old =
      Inr (old\<lparr>oStatus := ORDER_STATUS_CANCELLED, oCancelReason := ?r, oUpdatedAt := now\<rparr>, True)"
    and live: "oStatus old \<noteq> ORDER_STATUS_CANCELLED"
    using st(1) by (auto simp: failed_step_def cancelOrderWithReason_def)
  have quiet: "pg_quiet (redis_tick w)" "all_served (redis_tick w)" "stored_orders (tables (redis_tick w)) oid = Some old"
    "''outbox-cancelled-'' @ oid \<notin> obID ` set (outbox (tables (redis_tick w)))"
    using w old outbox pg_quiet_tick [of w] by simp_all
  obtain x w2 e env where x: "svc_MarkPaymentFailed (pg_order_repo cfg coll) now oid (px_FailureReason event) (redis_tick w) = (Inr x, w2)"
    "x = persisted (old\<lparr>oStatus := ORDER_STATUS_CANCELLED, oCancelReason := ?r, oUpdatedAt := now\<rparr>)"
    "stored_orders (tables w2) oid = Some x" "outbox (tables w2) = outbox (tables w) @ [e]" and e:
    "obTopic e = orderCancelledTopic cfg" "obPublishedAt e = None" "en_EventType env = OrderCancelledEventType"
    "decode_event dec_OrderCancelled zero_OrderCancelled (Some (obPayload e)) =
      Some (env, \<lparr>ox_OrderID = oid, ox_CustomerID = oCustomerID old, ox_CancelReason = ?r\<rparr>)"
    using turned_cancelled [where step = "failed_step now (px_FailureReason event)", OF quiet(1-3) step live st(2,3) outbox(1) quiet(4) TrimSpace_idem, of coll] msg(6) pg_quiet_tick(3) [of w]
    by (auto simp: svc_MarkPaymentFailed_def Let_def)
  obtain db n where w2: "w2 = (redis_tick w)\<lparr>tables := db, calls := n\<rparr>"
    using transition_frame [OF x(1) [unfolded svc_MarkPaymentFailed_def Let_def]] by blast
  have "handleEvent ?c now envelope (redis_tick w) = (Inr x, (redis_tick w)\<lparr>tables := db, calls := n\<rparr>)"
    using x(1) msg(4,5) w2 by (simp add: NewPaymentFailedConsumer_def decoded_def)
  from order_event_applied [OF w(3) _ msg(1) _ msg(3) this] obtain w' where w':
    "tc_handleMessage ?c now msg w = (Inr True, w')" "no_redis w' = no_redis w2"
    using msg(2) w2 by (auto simp: NewPaymentFailedConsumer_def)
  have "tables w' = tables w2" using no_redis_simps(1) [OF w'(2)] .
  with w'(1) x e show ?thesis
    by (intro exI [of _ x] exI [of _ w'] exI [of _ e] exI [of _ env]) simp
qed

section \<open>Nothing is left behind\<close>

lemma reserved_then_released:
  assumes "\<forall>pid. held l pid oid = 0"
  shows "l_release_order oid (l_reserve_all oid items l) = l"
  using assms by (cases l) (auto simp: l_release_order_def l_reserve_all_def fun_eq_iff option.map_comp comp_def option.map_ident)

text \<open>
  C2: A failed payment is undone everywhere. When the payment of an order that is pending or waits for it is
  marked as failed, the payment service stores the failure and sends \<open>payment.failed\<close>; that
  message makes the order service cancel the order, with the reason, and write one
  \<open>order.cancelled\<close> event to its outbox in the same transaction; and when the message with that
  event reaches the inventory, every product has exactly the stock, and every other order the
  reservations, that it had before the order was reserved. Every consumer commits its message.
  This is with the databases, the broker and Redis up and no event processed before.
\<close>
theorem failed_payment_undone:
  fixes ow :: "(order_db, 'a) node_world_scheme" and iw :: "(inventory_db, 'b) node_world_scheme"
    and pw :: "(payment_db, 'c) node_world_scheme"
  assumes pay: "pay_quiet pw" "all_served pw" "broker_up pw" "pay_view pw pid = Some y" "yStatus y = PAYMENT_STATUS_PENDING"
    and order: "pg_quiet ow" "all_served ow" "redis_up ow" "stored_orders (tables ow) (yOrderID y) = Some x" "oCreatedAt x \<noteq> zero_time"
      "oStatus x = ORDER_STATUS_PENDING \<or> oStatus x = ORDER_STATUS_AWAITING_PAYMENT"
      "TrimSpace (orderCancelledTopic cfg) \<noteq> []" "''outbox-cancelled-'' @ yOrderID y \<notin> obID ` set (outbox (tables ow))"
    and stock: "served_alone iw" "redis_up iw" "iview iw = l_reserve_all (yOrderID y) items l" "\<forall>product. held l product (yOrderID y) = 0"
      "TrimSpace (yOrderID y) = yOrderID y" "yOrderID y \<noteq> []"
    and reason: "TrimSpace reason \<noteq> []" and times: "t1 \<noteq> zero_time" "yCreatedAt y \<noteq> zero_time" "t2 \<noteq> zero_time"
    and fresh: "yID y @ '':'' @ itoa (UnixNano t1) \<notin> processed_ids ''order:event:processed:'' ow"
  shows "\<exists>q answer pw1 failed x1 ow1 e envelope.
    grpc_FailPayment (pg_payment_repo pcoll) (payment_kafka_publisher ts) t1 pid reason pw = (Inr answer, pw1) \<and>
    pay_view pw1 = (pay_view pw)(pid \<mapsto> q) \<and> yStatus q = PAYMENT_STATUS_FAILED \<and> yCancelReason q = TrimSpace reason \<and>
    sent pw1 = sent pw @ [failed] \<and> kmTopic failed = paymentFailedTopic ts \<and>
    tc_handleMessage (NewPaymentFailedConsumer (pg_order_repo cfg coll) order_deduper) t2 failed ow = (Inr True, ow1) \<and>
    stored_orders (tables ow1) (yOrderID y) = Some x1 \<and> oStatus x1 = ORDER_STATUS_CANCELLED \<and> oCancelReason x1 = TrimSpace reason \<and>
    outbox (tables ow1) = outbox (tables ow) @ [e] \<and> obTopic e = orderCancelledTopic cfg \<and> obPublishedAt e = None \<and>
    unmarshal dec_Envelope zero_Envelope (Some (obPayload e)) = Some envelope \<and>
    (\<forall>msg. kmValue msg = Some (obPayload e) \<and> en_EventID envelope \<notin> inventory_processed iw \<longrightarrow>
      (\<exists>iw1. OrderCancelled_handleMessage (pg_inventory_repo icoll) inventory_deduper msg iw = (Inr True, iw1) \<and> iview iw1 = l))"
proof -
  obtain q answer pw1 m env event where p:
    "grpc_FailPayment (pg_payment_repo pcoll) (payment_kafka_publisher ts) t1 pid reason pw = (Inr answer, pw1)"
    "pay_view pw1 = (pay_view pw)(pid \<mapsto> q)" "yStatus q = PAYMENT_STATUS_FAILED" "yCancelReason q = TrimSpace reason"
    "sent pw1 = sent pw @ [m]" "kmTopic m = paymentFailedTopic ts" and d:
    "unmarshal dec_Envelope zero_Envelope (kmValue m) = Some env" "en_EventType env = PaymentFailedEventType"
    "en_EventID env = yID y @ '':'' @ itoa (UnixNano t1)"
    "unmarshal dec_PaymentFailed zero_PaymentFailed (en_Payload env) = Some event" "px_OrderID event = yOrderID y"
    "px_FailureReason event = TrimSpace reason"
    by (rule failure_leg [OF pay times(1,2) reason])
  have r: "TrimSpace (px_FailureReason event) \<noteq> []" using d(6) reason by simp
  obtain x1 ow1 e env1 where o: "tc_handleMessage (NewPaymentFailedConsumer (pg_order_repo cfg coll) order_deduper) t2 m ow = (Inr True, ow1)"
    "stored_orders (tables ow1) (yOrderID y) = Some x1" "oStatus x1 = ORDER_STATUS_CANCELLED" "oCancelReason x1 = TrimSpace reason"
    "outbox (tables ow1) = outbox (tables ow) @ [e]" "obTopic e = orderCancelledTopic cfg" "obPublishedAt e = None" and c:
    "en_EventType env1 = OrderCancelledEventType"
    "decode_event dec_OrderCancelled zero_OrderCancelled (Some (obPayload e)) =
      Some (env1, \<lparr>ox_OrderID = yOrderID y, ox_CustomerID = oCustomerID x, ox_CancelReason = TrimSpace reason\<rparr>)"
    using failed_event_served [OF order(1-4,6,5) times(3) order(7,8) d(1,2) _ d(4,5) r, of coll] fresh
    unfolding d(3,6) TrimSpace_idem by blast
  have u: "unmarshal dec_Envelope zero_Envelope (Some (obPayload e)) = Some env1"
    "unmarshal dec_OrderCancelled zero_OrderCancelled (en_Payload env1) =
      Some \<lparr>ox_OrderID = yOrderID y, ox_CustomerID = oCustomerID x, ox_CancelReason = TrimSpace reason\<rparr>"
    using c(2) by (auto simp: decode_event_def split: option.splits)
  have "\<exists>iw1. OrderCancelled_handleMessage (pg_inventory_repo icoll) inventory_deduper msg iw = (Inr True, iw1) \<and> iview iw1 = l"
    if "kmValue msg = Some (obPayload e)" "en_EventID env1 \<notin> inventory_processed iw" for msg
    using order_cancelled_served [OF stock(1,2) _ c(1) that(2) u(2), of msg icoll] u(1) that(1) stock(3-6) reserved_then_released [OF stock(4)]
    by auto
  then show ?thesis using p o u(1) by blast
qed

definition stock_before :: ledger where
  "stock_before = \<lparr>available = [''p1'' \<mapsto> 10, ''p2'' \<mapsto> 2], held = (\<lambda>_ _. 0)\<rparr>"

lemma sample_stock_reserved:
  "iview (calm_node sample_stock 1000) =
     l_reserve_all ''o1'' [zero_OrderCreatedItem\<lparr>ei_ProductID := ''p1'', ei_Quantity := 3\<rparr>] stock_before"
  by (auto simp: iview_def ledger_of_def sample_stock_def stock_before_def l_reserve_all_def demand_def zero_OrderCreatedItem_def rv_key_def fun_eq_iff)

theorem failed_payment_undone_witness:
  "\<exists>answer pw1 failed ow1 e iw1.
    grpc_FailPayment sample_payments (payment_kafka_publisher sample_topics) 5000 ''pay-1'' ''card refused''
      (calm_node sample_payment_db 2000) = (Inr answer, pw1) \<and> sent pw1 = [failed] \<and>
    tc_handleMessage (NewPaymentFailedConsumer sample_repo order_deduper) 9300 failed (calm_node sample_db 9000) = (Inr True, ow1) \<and>
    outbox (tables ow1) = outbox sample_db @ [e] \<and>
    OrderCancelled_handleMessage sample_inventory inventory_deduper \<lparr>kmTopic = obTopic e, kmKey = obEventKey e, kmValue = Some (obPayload e)\<rparr>
      (calm_node sample_stock 1000) = (Inr True, iw1) \<and> available (iview iw1) ''p1'' = Some 10"
proof -
  let ?x = "persisted sample_order" and ?i = "calm_node sample_stock 1000 :: inventory_db node_world"
  have y: "yStatus sample_payment = PAYMENT_STATUS_PENDING" "yOrderID sample_payment = ''o1''" "yCreatedAt sample_payment \<noteq> zero_time"
    by (simp_all add: sample_payment_def zero_time_def)
  have p: "pay_quiet (calm_node sample_payment_db 2000 :: payment_db node_world)"
    "pay_view (calm_node sample_payment_db 2000) ''pay-1'' = Some sample_payment"
    by (simp_all add: pay_quiet_def pay_view_def sample_view)
  have o: "stored_orders (tables (calm_node sample_db 9000)) (yOrderID sample_payment) = Some ?x"
    "oStatus ?x = ORDER_STATUS_PENDING \<or> oStatus ?x = ORDER_STATUS_AWAITING_PAYMENT" "TrimSpace (orderCancelledTopic sample_config) \<noteq> []"
    "''outbox-cancelled-'' @ yOrderID sample_payment \<notin> obID ` set (outbox (tables (calm_node sample_db 9000)))"
    by (simp_all add: y) (simp_all add: sample_config_def NewPostgresRepository_def add_order_def empty_order_db_def)
  have i: "iview ?i = l_reserve_all (yOrderID sample_payment)
      [zero_OrderCreatedItem\<lparr>ei_ProductID := ''p1'', ei_Quantity := 3\<rparr>] stock_before"
    "\<forall>product. held stock_before product (yOrderID sample_payment) = 0"
    "TrimSpace (yOrderID sample_payment) = yOrderID sample_payment" "yOrderID sample_payment \<noteq> []" "TrimSpace ''card refused'' \<noteq> []"
    by (simp_all add: y sample_stock_reserved stock_before_def)
  have t: "(5000::int) \<noteq> zero_time" "(9300::int) \<noteq> zero_time" by (simp_all add: zero_time_def)
  have f: "eid \<notin> processed_ids pre (calm_node db t)" for eid pre db t by simp
  note P = failed_payment_undone [OF p(1) calm_node_simps(6,5) p(2) y(1) sample_quiet_node calm_node_simps(6,7) o(1) sample_created_at o(2-4)
      sample_served_node calm_node_simps(7) i(1-5) t(1) y(3) t(2) f, where pcoll = "\<lambda>_. 0 :: nat" and icoll = "\<lambda>_. 0 :: nat"
        and ts = sample_topics and coll = sample_coll]
  then obtain q :: payment and answer pw1 failed and x1 :: order and ow1 e and envelope :: ev_Envelope where c:
    "grpc_FailPayment sample_payments (payment_kafka_publisher sample_topics) 5000 ''pay-1'' ''card refused''
      (calm_node sample_payment_db 2000 :: payment_db node_world) = (Inr answer, pw1)"
    "sent pw1 = sent (calm_node sample_payment_db 2000) @ [failed]"
    "tc_handleMessage (NewPaymentFailedConsumer sample_repo order_deduper) 9300 failed (calm_node sample_db 9000 :: order_db node_world) = (Inr True, ow1)"
    "outbox (tables ow1) = outbox (tables (calm_node sample_db 9000)) @ [e]"
    "\<forall>msg. kmValue msg = Some (obPayload e) \<and> en_EventID envelope \<notin> inventory_processed ?i \<longrightarrow>
      (\<exists>iw1. OrderCancelled_handleMessage sample_inventory inventory_deduper msg ?i = (Inr True, iw1) \<and> iview iw1 = stock_before)"
    by blast
  obtain iw1 where "OrderCancelled_handleMessage sample_inventory inventory_deduper
      \<lparr>kmTopic = obTopic e, kmKey = obEventKey e, kmValue = Some (obPayload e)\<rparr> ?i = (Inr True, iw1)" "iview iw1 = stock_before"
    using c(5) [rule_format, of "\<lparr>kmTopic = obTopic e, kmKey = obEventKey e, kmValue = Some (obPayload e)\<rparr>"] by auto
  moreover have "available stock_before ''p1'' = Some 10" by (simp add: stock_before_def)
  ultimately show ?thesis using c(1-4) by (metis calm_node_simps(1,4) append_Nil)
qed

end
