(* ===== verification/Service_Config.thy ===== *)
theory Service_Config
  imports Environment Order_Outbox Payment_Events Inventory_Consumers
begin

text \<open>
  The start-up of the services (\<open>cmd/*/main.go\<close>): which settings each program takes
  from its environment, in which order it refuses to start, and how it wires topics, consumer
  groups and the Redis database into its publishers, consumers and deduplicator. Connections
  that are tried at start-up answer through \<open>outside\<close>.
\<close>

section \<open>What a program finds outside\<close>

text \<open>Each attempt gives \<open>None\<close>, or the text of its error.\<close>

record outside =
  net_Listen :: "string \<Rightarrow> string option"
  pgxpool_New :: "string \<Rightarrow> string option"
  pool_Ping :: "string \<Rightarrow> string option"
  redis_Ping :: "string \<Rightarrow> string \<Rightarrow> int \<Rightarrow> string option"
  mongo_Connect :: "string \<Rightarrow> string option"
  mongo_Ping :: "string \<Rightarrow> string option"
  grpc_NewClient :: "string \<Rightarrow> string option"

definition every_connection_up :: "outside \<Rightarrow> bool" where
  "every_connection_up out \<longleftrightarrow>
     (\<forall>a. net_Listen out a = None) \<and> (\<forall>u. pgxpool_New out u = None \<and> pool_Ping out u = None) \<and>
     (\<forall>a p d. redis_Ping out a p d = None) \<and> (\<forall>u. mongo_Connect out u = None \<and> mongo_Ping out u = None) \<and>
     (\<forall>a. grpc_NewClient out a = None)"

text \<open>\<open>if x == "" { return errors.New(key + " is required") }\<close>\<close>

definition required :: "string \<Rightarrow> 'a list \<Rightarrow> (string + 'b) \<Rightarrow> string + 'b" where
  "required key x rest = (if x = [] then Inl (key @ '' is required'') else rest)"

text \<open>\<open>if err != nil\<close> on an attempt, with the prefix the code gives its error.\<close>

definition attempted :: "string \<Rightarrow> string option \<Rightarrow> (string + 'b) \<Rightarrow> string + 'b" where
  "attempted what r rest = (case r of Some e \<Rightarrow> Inl (what @ '': '' @ e) | None \<Rightarrow> rest)"

definition setting :: "environment \<Rightarrow> string \<Rightarrow> string \<Rightarrow> string" where
  "setting env key fallback = TrimSpace (getenv env key fallback)"

lemma required_Inr [simp]: "required key x rest = Inr y \<longleftrightarrow> x \<noteq> [] \<and> rest = Inr y"
  by (simp add: required_def)

lemma attempted_Inr [simp]: "attempted what r rest = Inr y \<longleftrightarrow> r = None \<and> rest = Inr y"
  by (simp add: attempted_def split: option.splits)

section \<open>Stores\<close>

definition newDatabasePool :: "string \<Rightarrow> string \<Rightarrow> string \<Rightarrow> outside \<Rightarrow> environment \<Rightarrow> string + string" where
  "newDatabasePool key connect ping out env =
     (let databaseURL = setting env key []
      in required key databaseURL
        (attempted connect (pgxpool_New out databaseURL)
        (attempted ping (pool_Ping out databaseURL)
        (Inr databaseURL))))"

definition newOrderDatabasePool :: "outside \<Rightarrow> environment \<Rightarrow> string + string" where
  "newOrderDatabasePool = newDatabasePool ''ORDER_DATABASE_URL'' ''connect to postgres'' ''ping postgres''"

definition newInventoryDatabasePool :: "outside \<Rightarrow> environment \<Rightarrow> string + string" where
  "newInventoryDatabasePool =
     newDatabasePool ''INVENTORY_DATABASE_URL'' ''failed to create database pool'' ''ping database''"

definition newPaymentRepository :: "outside \<Rightarrow> environment \<Rightarrow> string + string" where
  "newPaymentRepository = newDatabasePool ''PAYMENT_DATABASE_URL'' ''connect to postgres'' ''ping postgres''"

record mongo_settings =
  mongoURI :: string
  databaseName :: string
  collectionName :: string

definition newCatalogRepository :: "outside \<Rightarrow> environment \<Rightarrow> string + mongo_settings" where
  "newCatalogRepository out env =
     (let uri = setting env ''CATALOG_MONGO_URI'' ''mongodb://localhost:27017'';
          database = setting env ''CATALOG_MONGO_DATABASE'' ''ecommerce'';
          collection = setting env ''CATALOG_MONGO_COLLECTION'' ''catalog_products''
      in required ''CATALOG_MONGO_URI'' uri
        (required ''CATALOG_MONGO_DATABASE'' database
        (required ''CATALOG_MONGO_COLLECTION'' collection
        (attempted ''connect to mongo'' (mongo_Connect out uri)
        (attempted ''ping mongo'' (mongo_Ping out uri)
        (Inr \<lparr>mongoURI = uri, databaseName = database, collectionName = collection\<rparr>))))))"

record redis_settings =
  redisAddr :: string
  redisPassword :: string
  redisDB :: int
  dedupTTL :: int

definition newEventDeduplicator :: "fraction \<Rightarrow> outside \<Rightarrow> environment \<Rightarrow> string + redis_settings" where
  "newEventDeduplicator fraction out env =
     (let addr = setting env ''REDIS_ADDR'' ''localhost:6379'';
          password = getenv env ''REDIS_PASSWORD'' [];
          rawDB = setting env ''REDIS_DB'' ''0'';
          rawTTL = setting env ''REDIS_EVENT_DEDUP_TTL'' ''24h''
      in required ''REDIS_ADDR'' addr
        (case Atoi rawDB of
           Inl e \<Rightarrow> Inl (''parse REDIS_DB: '' @ e)
         | Inr db \<Rightarrow>
             (case ParseDuration fraction rawTTL of
                Inl e \<Rightarrow> Inl (''parse REDIS_EVENT_DEDUP_TTL: '' @ e)
              | Inr ttl \<Rightarrow>
                  attempted ''ping redis'' (redis_Ping out addr password db)
                    (Inr \<lparr>redisAddr = addr, redisPassword = password, redisDB = db, dedupTTL = ttl\<rparr>))))"

definition newOrderEventDeduplicator :: "fraction \<Rightarrow> outside \<Rightarrow> environment \<Rightarrow> string + redis_settings" where
  "newOrderEventDeduplicator = newEventDeduplicator"

definition newInventoryEventDeduplicator :: "fraction \<Rightarrow> outside \<Rightarrow> environment \<Rightarrow> string + redis_settings" where
  "newInventoryEventDeduplicator = newEventDeduplicator"

definition newPaymentEventDeduplicator :: "fraction \<Rightarrow> outside \<Rightarrow> environment \<Rightarrow> string + redis_settings" where
  "newPaymentEventDeduplicator = newEventDeduplicator"

section \<open>Publishers\<close>

definition brokers_of :: "environment \<Rightarrow> string list" where
  "brokers_of env = parseKafkaBrokers (getenv env ''KAFKA_BROKERS'' [])"

text \<open>The order service's publisher takes the topic from each message.\<close>

definition newOrderEventPublisher :: "environment \<Rightarrow> string + string list" where
  "newOrderEventPublisher env =
     (let brokers = brokers_of env; topic = setting env ''KAFKA_ORDER_CREATED_TOPIC'' ''orders.created''
      in required ''KAFKA_BROKERS'' brokers
        (required ''KAFKA_ORDER_CREATED_TOPIC'' topic
        (Inr brokers)))"

record inventory_topics =
  reservedTopic :: string
  reservationFailedTopic :: string

definition newInventoryEventPublisher :: "environment \<Rightarrow> string + string list \<times> inventory_topics" where
  "newInventoryEventPublisher env =
     (let brokers = brokers_of env;
          reserved = setting env ''KAFKA_INVENTORY_RESERVED_TOPIC'' ''inventory.reserved'';
          failed = setting env ''KAFKA_INVENTORY_RESERVATION_FAILED_TOPIC'' ''inventory.reservation_failed''
      in required ''KAFKA_BROKERS'' brokers
        (required ''KAFKA_INVENTORY_RESERVED_TOPIC'' reserved
        (required ''KAFKA_INVENTORY_RESERVATION_FAILED_TOPIC'' failed
        (Inr (brokers, \<lparr>reservedTopic = reserved, reservationFailedTopic = failed\<rparr>)))))"

definition newPaymentEventPublisher :: "environment \<Rightarrow> string + string list \<times> payment_topics" where
  "newPaymentEventPublisher env =
     (let brokers = brokers_of env;
          created = setting env ''KAFKA_PAYMENT_CREATED_TOPIC'' ''payment.created'';
          creation_failed = setting env ''KAFKA_PAYMENT_CREATION_FAILED_TOPIC'' ''payment.creation_failed'';
          captured = setting env ''KAFKA_PAYMENT_CAPTURED_TOPIC'' ''payment.captured'';
          failed = setting env ''KAFKA_PAYMENT_FAILED_TOPIC'' ''payment.failed''
      in required ''KAFKA_BROKERS'' brokers
        (required ''KAFKA_PAYMENT_CREATED_TOPIC'' created
        (required ''KAFKA_PAYMENT_CREATION_FAILED_TOPIC'' creation_failed
        (required ''KAFKA_PAYMENT_CAPTURED_TOPIC'' captured
        (required ''KAFKA_PAYMENT_FAILED_TOPIC'' failed
        (Inr (brokers,
           \<lparr>createdTopic = created, failedTopic = creation_failed, capturedTopic = captured,
            paymentFailedTopic = failed\<rparr>)))))))"

section \<open>Consumers\<close>

text \<open>The settings of a consumer's reader.\<close>

record reader_config =
  rcBrokers :: "string list"
  rcTopic :: string
  rcGroupID :: string

definition newConsumer :: "string \<Rightarrow> string \<Rightarrow> string \<Rightarrow> string \<Rightarrow> environment \<Rightarrow> string + reader_config" where
  "newConsumer topic_key default_topic group_key default_group env =
     (let brokers = brokers_of env;
          topic = setting env topic_key default_topic;
          groupID = setting env group_key default_group
      in required ''KAFKA_BROKERS'' brokers
        (required topic_key topic
        (required group_key groupID
        (Inr \<lparr>rcBrokers = brokers, rcTopic = topic, rcGroupID = groupID\<rparr>))))"

definition order_newInventoryReservedConsumer :: "environment \<Rightarrow> string + reader_config" where
  "order_newInventoryReservedConsumer =
     newConsumer ''KAFKA_INVENTORY_RESERVED_TOPIC'' ''inventory.reserved''
       ''KAFKA_ORDER_CONSUMER_GROUP'' ''order-service''"

definition newInventoryReservationFailedConsumer :: "environment \<Rightarrow> string + reader_config" where
  "newInventoryReservationFailedConsumer =
     newConsumer ''KAFKA_INVENTORY_RESERVATION_FAILED_TOPIC'' ''inventory.reservation_failed''
       ''KAFKA_ORDER_CONSUMER_GROUP'' ''order-service''"

definition newPaymentCapturedConsumer :: "environment \<Rightarrow> string + reader_config" where
  "newPaymentCapturedConsumer =
     newConsumer ''KAFKA_PAYMENT_CAPTURED_TOPIC'' ''payment.captured''
       ''KAFKA_ORDER_CONSUMER_GROUP'' ''order-service''"

definition newPaymentFailedConsumer :: "environment \<Rightarrow> string + reader_config" where
  "newPaymentFailedConsumer =
     newConsumer ''KAFKA_PAYMENT_FAILED_TOPIC'' ''payment.failed''
       ''KAFKA_ORDER_CONSUMER_GROUP'' ''order-service''"

definition newPaymentCreationFailedConsumer :: "environment \<Rightarrow> string + reader_config" where
  "newPaymentCreationFailedConsumer =
     newConsumer ''KAFKA_PAYMENT_CREATION_FAILED_TOPIC'' ''payment.creation_failed''
       ''KAFKA_ORDER_CONSUMER_GROUP'' ''order-service''"

definition newOrderCreatedConsumer :: "environment \<Rightarrow> string + reader_config" where
  "newOrderCreatedConsumer =
     newConsumer ''KAFKA_ORDER_CREATED_TOPIC'' ''orders.created''
       ''KAFKA_INVENTORY_CONSUMER_GROUP'' ''inventory-service''"

definition newOrderCancelledConsumer :: "environment \<Rightarrow> string + reader_config" where
  "newOrderCancelledConsumer =
     newConsumer ''KAFKA_ORDER_CANCELLED_TOPIC'' ''order.cancelled''
       ''KAFKA_INVENTORY_CONSUMER_GROUP'' ''inventory-service''"

definition payment_newInventoryReservedConsumer :: "environment \<Rightarrow> string + reader_config" where
  "payment_newInventoryReservedConsumer =
     newConsumer ''KAFKA_INVENTORY_RESERVED_TOPIC'' ''inventory.reserved''
       ''KAFKA_PAYMENT_CONSUMER_GROUP'' ''payment-service''"

section \<open>The outbox dispatcher's configuration\<close>

definition newOutboxDispatcherConfig :: "fraction \<Rightarrow> environment \<Rightarrow> string + dispatcher_config" where
  "newOutboxDispatcherConfig fraction env =
     (let cfg = DefaultOutboxDispatcherConfig
      in case parseDurationEnv fraction env ''ORDER_OUTBOX_POLL_INTERVAL'' (PollInterval cfg) of
        Inl e \<Rightarrow> Inl e
      | Inr poll \<Rightarrow>
      (case parseDurationEnv fraction env ''ORDER_OUTBOX_LOCK_TIMEOUT'' (LockTimeout cfg) of
        Inl e \<Rightarrow> Inl e
      | Inr lock \<Rightarrow>
      (case parseDurationEnv fraction env ''ORDER_OUTBOX_PUBLISH_TIMEOUT'' (PublishTimeout cfg) of
        Inl e \<Rightarrow> Inl e
      | Inr publish \<Rightarrow>
      (case parseInt32Env env ''ORDER_OUTBOX_BATCH_SIZE'' (BatchSize cfg) of
        Inl e \<Rightarrow> Inl e
      | Inr batch \<Rightarrow>
      (let cfg1 = \<lparr>PollInterval = poll, LockTimeout = lock, PublishTimeout = publish, BatchSize = batch\<rparr>
       in case Validate cfg1 of Some e \<Rightarrow> Inl e | None \<Rightarrow> Inr cfg1)))))"

section \<open>The programs\<close>

text \<open>
  A step of \<open>main\<close>: its error is logged under a message and the process exits with status 1,
  so a program that does not start gives the pair of the message and the error.
\<close>

definition or_exit :: "string \<Rightarrow> string + 'a \<Rightarrow> ('a \<Rightarrow> (string \<times> string) + 'b) \<Rightarrow> (string \<times> string) + 'b" where
  "or_exit message r rest = (case r of Inl e \<Rightarrow> Inl (message, e) | Inr x \<Rightarrow> rest x)"

lemma or_exit_Inr [simp]: "or_exit message r rest = Inr y \<longleftrightarrow> (\<exists>x. r = Inr x \<and> rest x = Inr y)"
  by (simp add: or_exit_def bind_Inr_iff)

definition listening :: "outside \<Rightarrow> environment \<Rightarrow> string \<Rightarrow> string + string" where
  "listening out env default_port =
     (let port = getenv env ''GRPC_PORT'' default_port
      in case net_Listen out (CHR '':'' # port) of Some e \<Rightarrow> Inl e | None \<Rightarrow> Inr port)"

record order_service_config =
  osPort :: string
  osDatabase :: string
  osRepository :: repository_config
  osPublisher :: "string list"
  osRedis :: redis_settings
  osOutbox :: dispatcher_config
  osInventoryReserved :: reader_config
  osInventoryReservationFailed :: reader_config
  osPaymentCaptured :: reader_config
  osPaymentFailed :: reader_config
  osPaymentCreationFailed :: reader_config

definition order_main :: "fraction \<Rightarrow> outside \<Rightarrow> environment \<Rightarrow> (string \<times> string) + order_service_config" where
  "order_main fraction out env =
     or_exit ''failed to listen'' (listening out env ''50054'') (\<lambda>port.
     (let created = setting env ''KAFKA_ORDER_CREATED_TOPIC'' ''orders.created'';
          cancelled = setting env ''KAFKA_ORDER_CANCELLED_TOPIC'' ''order.cancelled''
      in or_exit ''failed to configure order event publisher''
          (required ''KAFKA_ORDER_CREATED_TOPIC'' created (required ''KAFKA_ORDER_CANCELLED_TOPIC'' cancelled (Inr ()))) (\<lambda>_.
     or_exit ''failed to configure order repository'' (newOrderDatabasePool out env) (\<lambda>database.
     or_exit ''failed to configure order event publisher'' (newOrderEventPublisher env) (\<lambda>publisher.
     or_exit ''failed to configure order event deduplicator'' (newOrderEventDeduplicator fraction out env) (\<lambda>redis.
     or_exit ''failed to configure order outbox dispatcher'' (newOutboxDispatcherConfig fraction env) (\<lambda>outbox.
     or_exit ''failed to configure inventory.reserved consumer'' (order_newInventoryReservedConsumer env) (\<lambda>reserved.
     or_exit ''failed to configure inventory.reservation_failed consumer'' (newInventoryReservationFailedConsumer env) (\<lambda>refused.
     or_exit ''failed to configure payment.captured consumer'' (newPaymentCapturedConsumer env) (\<lambda>captured.
     or_exit ''failed to configure payment.failed consumer'' (newPaymentFailedConsumer env) (\<lambda>failed.
     or_exit ''failed to configure payment.creation_failed consumer'' (newPaymentCreationFailedConsumer env) (\<lambda>creation_failed.
     Inr \<lparr>osPort = port, osDatabase = database, osRepository = NewPostgresRepository created cancelled,
          osPublisher = publisher, osRedis = redis, osOutbox = outbox, osInventoryReserved = reserved,
          osInventoryReservationFailed = refused, osPaymentCaptured = captured, osPaymentFailed = failed,
          osPaymentCreationFailed = creation_failed\<rparr>))))))))))))"

record inventory_service_config =
  isPort :: string
  isDatabase :: string
  isPublisher :: "string list \<times> inventory_topics"
  isRedis :: redis_settings
  isOrderCreated :: reader_config
  isOrderCancelled :: reader_config

definition inventory_main :: "fraction \<Rightarrow> outside \<Rightarrow> environment \<Rightarrow> (string \<times> string) + inventory_service_config" where
  "inventory_main fraction out env =
     or_exit ''failed to listen'' (listening out env ''50052'') (\<lambda>port.
     or_exit ''failed to configure inventory repository'' (newInventoryDatabasePool out env) (\<lambda>database.
     or_exit ''failed to configure inventory event publisher'' (newInventoryEventPublisher env) (\<lambda>publisher.
     or_exit ''failed to configure inventory event deduplicator'' (newInventoryEventDeduplicator fraction out env) (\<lambda>redis.
     or_exit ''failed to configure order.created consumer'' (newOrderCreatedConsumer env) (\<lambda>created.
     or_exit ''failed to configure order.cancelled consumer'' (newOrderCancelledConsumer env) (\<lambda>cancelled.
     Inr \<lparr>isPort = port, isDatabase = database, isPublisher = publisher, isRedis = redis,
          isOrderCreated = created, isOrderCancelled = cancelled\<rparr>))))))"

record payment_service_config =
  psPort :: string
  psDatabase :: string
  psPublisher :: "string list \<times> payment_topics"
  psRedis :: redis_settings
  psInventoryReserved :: reader_config

definition payment_main :: "fraction \<Rightarrow> outside \<Rightarrow> environment \<Rightarrow> (string \<times> string) + payment_service_config" where
  "payment_main fraction out env =
     or_exit ''failed to listen'' (listening out env ''50053'') (\<lambda>port.
     or_exit ''failed to configure payment repository'' (newPaymentRepository out env) (\<lambda>database.
     or_exit ''failed to configure payment event publisher'' (newPaymentEventPublisher env) (\<lambda>publisher.
     or_exit ''failed to configure payment event deduplicator'' (newPaymentEventDeduplicator fraction out env) (\<lambda>redis.
     or_exit ''failed to configure inventory.reserved consumer'' (payment_newInventoryReservedConsumer env) (\<lambda>reserved.
     Inr \<lparr>psPort = port, psDatabase = database, psPublisher = publisher, psRedis = redis,
          psInventoryReserved = reserved\<rparr>)))))"

definition catalog_main :: "outside \<Rightarrow> environment \<Rightarrow> (string \<times> string) + (string \<times> mongo_settings)" where
  "catalog_main out env =
     or_exit ''failed to listen'' (listening out env ''50051'') (\<lambda>port.
     or_exit ''failed to configure catalog repository'' (newCatalogRepository out env) (\<lambda>store.
     Inr (port, store)))"

text \<open>The gateway dials the four services; the dialled addresses in the order of \<open>main\<close>.\<close>

record gateway_config =
  gwPort :: string
  gwCatalog :: string
  gwOrder :: string
  gwInventory :: string
  gwPayment :: string

definition dial :: "outside \<Rightarrow> string \<Rightarrow> string + unit" where
  "dial out addr = (case grpc_NewClient out addr of Some e \<Rightarrow> Inl e | None \<Rightarrow> Inr ())"

definition gateway_main :: "outside \<Rightarrow> environment \<Rightarrow> (string \<times> string) + gateway_config" where
  "gateway_main out env =
     (let port = getenv env ''HTTP_PORT'' ''8080'';
          catalog = getenv env ''CATALOG_SERVICE_ADDR'' ''localhost:50051'';
          order = getenv env ''ORDER_SERVICE_ADDR'' ''localhost:50054'';
          inventory = getenv env ''INVENTORY_SERVICE_ADDR'' ''localhost:50052'';
          payment = getenv env ''PAYMENT_SERVICE_ADDR'' ''localhost:50053''
      in or_exit ''failed to connect to catalog-service'' (dial out catalog) (\<lambda>_.
         or_exit ''failed to connect to order-service'' (dial out order) (\<lambda>_.
         or_exit ''failed to connect to inventory-service'' (dial out inventory) (\<lambda>_.
         or_exit ''failed to connect to payment-service'' (dial out payment) (\<lambda>_.
         Inr \<lparr>gwPort = port, gwCatalog = catalog, gwOrder = order, gwInventory = inventory, gwPayment = payment\<rparr>)))))"

end
