(* ===== verification/Service_Wiring.thy ===== *)
theory Service_Wiring
  imports Service_Config
begin

text \<open>
  What the start-up guarantees: the settings a started program holds, and that programs started
  from the same Kafka variables fit together.
\<close>

section \<open>Settings of a started program\<close>

named_theorems config_defs "the settings of the programs"

lemmas [config_defs] = order_newInventoryReservedConsumer_def newInventoryReservationFailedConsumer_def
  newPaymentCapturedConsumer_def newPaymentFailedConsumer_def newPaymentCreationFailedConsumer_def
  newOrderCreatedConsumer_def newOrderCancelledConsumer_def payment_newInventoryReservedConsumer_def
  newOrderEventPublisher_def newInventoryEventPublisher_def newPaymentEventPublisher_def
  newOrderEventDeduplicator_def newInventoryEventDeduplicator_def newPaymentEventDeduplicator_def

lemma setting_trimmed [simp]: "TrimSpace (setting env key fallback) = setting env key fallback"
  by (simp add: setting_def)

lemma newConsumer_settings:
  "newConsumer tk dt gk dg env = Inr c \<Longrightarrow>
     rcBrokers c = brokers_of env \<and> rcTopic c = setting env tk dt \<and> rcGroupID c = setting env gk dg"
  by (auto simp: newConsumer_def Let_def)

lemma inventory_publisher_settings:
  "newInventoryEventPublisher env = Inr p \<Longrightarrow>
     fst p = brokers_of env \<and>
     reservedTopic (snd p) = setting env ''KAFKA_INVENTORY_RESERVED_TOPIC'' ''inventory.reserved'' \<and>
     reservationFailedTopic (snd p) =
       setting env ''KAFKA_INVENTORY_RESERVATION_FAILED_TOPIC'' ''inventory.reservation_failed''"
  by (auto simp: newInventoryEventPublisher_def Let_def)

lemma payment_publisher_settings:
  "newPaymentEventPublisher env = Inr p \<Longrightarrow>
     fst p = brokers_of env \<and>
     failedTopic (snd p) = setting env ''KAFKA_PAYMENT_CREATION_FAILED_TOPIC'' ''payment.creation_failed'' \<and>
     capturedTopic (snd p) = setting env ''KAFKA_PAYMENT_CAPTURED_TOPIC'' ''payment.captured'' \<and>
     paymentFailedTopic (snd p) = setting env ''KAFKA_PAYMENT_FAILED_TOPIC'' ''payment.failed''"
  by (auto simp: newPaymentEventPublisher_def Let_def)

lemma order_main_wiring:
  assumes "order_main fraction out env = Inr os"
  shows "orderCreatedTopic (osRepository os) = setting env ''KAFKA_ORDER_CREATED_TOPIC'' ''orders.created''"
    "orderCancelledTopic (osRepository os) = setting env ''KAFKA_ORDER_CANCELLED_TOPIC'' ''order.cancelled''"
    "osPublisher os = brokers_of env" "brokers_of env \<noteq> []"
    "order_newInventoryReservedConsumer env = Inr (osInventoryReserved os)"
    "newInventoryReservationFailedConsumer env = Inr (osInventoryReservationFailed os)"
    "newPaymentCapturedConsumer env = Inr (osPaymentCaptured os)"
    "newPaymentFailedConsumer env = Inr (osPaymentFailed os)"
    "newPaymentCreationFailedConsumer env = Inr (osPaymentCreationFailed os)"
    "newOutboxDispatcherConfig fraction env = Inr (osOutbox os)"
    "newOrderEventDeduplicator fraction out env = Inr (osRedis os)"
  using assms by (auto simp: order_main_def Let_def NewPostgresRepository_def newOrderEventPublisher_def)

lemma inventory_main_wiring:
  assumes "inventory_main fraction out env = Inr is"
  shows "newInventoryEventPublisher env = Inr (isPublisher is)"
    "newOrderCreatedConsumer env = Inr (isOrderCreated is)"
    "newOrderCancelledConsumer env = Inr (isOrderCancelled is)"
    "newInventoryEventDeduplicator fraction out env = Inr (isRedis is)"
  using assms by (auto simp: inventory_main_def)

lemma payment_main_wiring:
  assumes "payment_main fraction out env = Inr ps"
  shows "newPaymentEventPublisher env = Inr (psPublisher ps)"
    "payment_newInventoryReservedConsumer env = Inr (psInventoryReserved ps)"
    "newPaymentEventDeduplicator fraction out env = Inr (psRedis ps)"
  using assms by (auto simp: payment_main_def)

lemma outbox_config_valid:
  "newOutboxDispatcherConfig fraction env = Inr cfg \<Longrightarrow> Validate cfg = None"
  by (auto simp: newOutboxDispatcherConfig_def Let_def split: sum.splits option.splits)

section \<open>Programs started together\<close>

definition kafka_variables :: "string list" where
  "kafka_variables =
     [''KAFKA_BROKERS'', ''KAFKA_ORDER_CREATED_TOPIC'', ''KAFKA_ORDER_CANCELLED_TOPIC'',
      ''KAFKA_INVENTORY_RESERVED_TOPIC'', ''KAFKA_INVENTORY_RESERVATION_FAILED_TOPIC'',
      ''KAFKA_PAYMENT_CREATION_FAILED_TOPIC'', ''KAFKA_PAYMENT_CAPTURED_TOPIC'', ''KAFKA_PAYMENT_FAILED_TOPIC'']"

lemma same_variable:
  assumes "\<forall>key\<in>set keys. env key = env' key" "key \<in> set keys"
  shows "setting env key fallback = setting env' key fallback" "getenv env key fallback = getenv env' key fallback"
  using assms by (simp_all add: setting_def getenv_def)

lemma same_brokers:
  assumes "\<forall>key\<in>set kafka_variables. env key = env' key"
  shows "brokers_of env = brokers_of env'"
  by (simp add: brokers_of_def same_variable(2) [OF assms] kafka_variables_def)

text \<open>
  The services fit together. An order, an inventory and a payment service that start from
  the same broker and topic variables use the same, non-empty list of brokers, and every topic
  one of them writes for another is the topic the other one's consumer reads: created and
  cancelled orders (from the outbox), reserved stock and refused reservations, captured, failed
  and refused payments. The five consumers of the order service form one group, and its outbox
  dispatcher gets a configuration it accepts.
\<close>
theorem services_wired:
  assumes "order_main fo out_o env_o = Inr os" "inventory_main fi out_i env_i = Inr is"
    "payment_main fp out_p env_p = Inr ps"
    and "\<forall>key\<in>set kafka_variables. env_i key = env_o key" "\<forall>key\<in>set kafka_variables. env_p key = env_o key"
  shows "rcTopic (isOrderCreated is) = orderCreatedTopic (osRepository os) \<and>
    rcTopic (isOrderCancelled is) = orderCancelledTopic (osRepository os) \<and>
    rcTopic (osInventoryReserved os) = reservedTopic (snd (isPublisher is)) \<and>
    rcTopic (psInventoryReserved ps) = reservedTopic (snd (isPublisher is)) \<and>
    rcTopic (osInventoryReservationFailed os) = reservationFailedTopic (snd (isPublisher is)) \<and>
    rcTopic (osPaymentCreationFailed os) = failedTopic (snd (psPublisher ps)) \<and>
    rcTopic (osPaymentCaptured os) = capturedTopic (snd (psPublisher ps)) \<and>
    rcTopic (osPaymentFailed os) = paymentFailedTopic (snd (psPublisher ps)) \<and>
    osPublisher os \<noteq> [] \<and> fst (isPublisher is) = osPublisher os \<and> fst (psPublisher ps) = osPublisher os \<and>
    (\<forall>c\<in>{osInventoryReserved os, osInventoryReservationFailed os, osPaymentCaptured os, osPaymentFailed os,
        osPaymentCreationFailed os}. rcBrokers c = osPublisher os \<and> rcGroupID c = rcGroupID (osPaymentCaptured os)) \<and>
    (\<forall>c\<in>{isOrderCreated is, isOrderCancelled is, psInventoryReserved ps}. rcBrokers c = osPublisher os) \<and>
    Validate (osOutbox os) = None"
proof -
  note o = order_main_wiring [OF assms(1)] and i = inventory_main_wiring [OF assms(2)] and p = payment_main_wiring [OF assms(3)]
  have same: "setting env_i key d = setting env_o key d" "setting env_p key d = setting env_o key d"
    if "key \<in> set kafka_variables" for key d
    using same_variable(1) [OF assms(4) that] same_variable(1) [OF assms(5) that] by auto
  note same_o = same [unfolded kafka_variables_def, simplified]
  have b: "brokers_of env_i = brokers_of env_o" "brokers_of env_p = brokers_of env_o"
    using same_brokers [OF assms(4)] same_brokers [OF assms(5)] by auto
  have "Validate (osOutbox os) = None" by (rule outbox_config_valid [OF o(10)])
  with o(1-4) b show ?thesis
    using o(5-9) [unfolded config_defs, THEN newConsumer_settings] i(2,3) [unfolded config_defs, THEN newConsumer_settings]
      p(2) [unfolded config_defs, THEN newConsumer_settings]
      inventory_publisher_settings [OF i(1)] payment_publisher_settings [OF p(1)]
    by (simp add: same_o)
qed

section \<open>The default settings\<close>

lemma setting_unset: "env key = None \<Longrightarrow> trimmed_ascii fallback \<Longrightarrow> setting env key fallback = fallback"
  by (simp add: setting_def getenv_def)

lemma setting_set: "env key = Some value \<Longrightarrow> value \<noteq> [] \<Longrightarrow> trimmed_ascii value \<Longrightarrow> setting env key fallback = value"
  by (simp add: setting_def getenv_def)

lemma time_Second_pos [simp]: "0 < time_Second" "\<not> time_Second \<le> 0"
  by (simp_all add: time_Second_def)

lemma default_durations:
  "ParseDuration fraction ''24h'' = Inr (86400 * time_Second)"
  "env key = None \<Longrightarrow> parseDurationEnv fraction env key time_Second = Inr time_Second"
  "env key = None \<Longrightarrow> parseDurationEnv fraction env key (30 * time_Second) = Inr (30 * time_Second)"
  "env key = None \<Longrightarrow> parseDurationEnv fraction env key (5 * time_Second) = Inr (5 * time_Second)"
  "env key = None \<Longrightarrow> parseInt32Env env key 10 = Inr 10"
  by (simp_all add: duration_eval parseDurationEnv_def parseInt32Env_def getenv_def time_Second_def Atoi_def itoa_def wrap32_def)

lemma default_dispatcher:
  assumes "env ''ORDER_OUTBOX_POLL_INTERVAL'' = None" "env ''ORDER_OUTBOX_LOCK_TIMEOUT'' = None"
    "env ''ORDER_OUTBOX_PUBLISH_TIMEOUT'' = None" "env ''ORDER_OUTBOX_BATCH_SIZE'' = None"
  shows "newOutboxDispatcherConfig fraction env = Inr DefaultOutboxDispatcherConfig"
  using assms
  by (simp add: newOutboxDispatcherConfig_def Let_def DefaultOutboxDispatcherConfig_def default_durations Validate_def)

definition minimal_env :: environment where
  "minimal_env = [''ORDER_DATABASE_URL'' \<mapsto> ''postgres://db/order'', ''INVENTORY_DATABASE_URL'' \<mapsto> ''postgres://db/inventory'',
     ''PAYMENT_DATABASE_URL'' \<mapsto> ''postgres://db/payment'', ''KAFKA_BROKERS'' \<mapsto> ''kafka-1:9092,,kafka-2:9092'']"

definition all_up :: outside where
  "all_up = \<lparr>net_Listen = (\<lambda>_. None), pgxpool_New = (\<lambda>_. None), pool_Ping = (\<lambda>_. None), redis_Ping = (\<lambda>_ _ _. None),
     mongo_Connect = (\<lambda>_. None), mongo_Ping = (\<lambda>_. None), grpc_NewClient = (\<lambda>_. None)\<rparr>"

lemma minimal_env_lookup:
  "minimal_env key =
     (if key = ''KAFKA_BROKERS'' then Some ''kafka-1:9092,,kafka-2:9092''
      else if key = ''PAYMENT_DATABASE_URL'' then Some ''postgres://db/payment''
      else if key = ''INVENTORY_DATABASE_URL'' then Some ''postgres://db/inventory''
      else if key = ''ORDER_DATABASE_URL'' then Some ''postgres://db/order'' else None)"
  by (simp add: minimal_env_def)

lemma all_up_answers [simp]:
  "net_Listen all_up a = None" "pgxpool_New all_up a = None" "pool_Ping all_up a = None"
  "redis_Ping all_up a p db = None" "mongo_Connect all_up a = None" "mongo_Ping all_up a = None"
  "grpc_NewClient all_up a = None"
  by (simp_all add: all_up_def)

definition no_fraction :: fraction where
  "no_fraction f unit scale = f * unit div scale"

lemma minimal_brokers: "brokers_of minimal_env = [''kafka-1:9092'', ''kafka-2:9092'']"
  by (simp add: brokers_of_def parseKafkaBrokers_def getenv_def minimal_env_def)

lemma default_redis:
  "newEventDeduplicator fraction all_up minimal_env =
     Inr \<lparr>redisAddr = ''localhost:6379'', redisPassword = [], redisDB = 0, dedupTTL = 86400 * time_Second\<rparr>"
  by (simp add: newEventDeduplicator_def required_def attempted_def setting_unset minimal_env_lookup
      default_durations Atoi_def is_digit_def digit_of_def getenv_def)

definition default_reader :: "string \<Rightarrow> string \<Rightarrow> reader_config" where
  "default_reader topic groupID = \<lparr>rcBrokers = [''kafka-1:9092'', ''kafka-2:9092''], rcTopic = topic, rcGroupID = groupID\<rparr>"

lemma default_consumer:
  assumes "minimal_env tk = None" "minimal_env gk = None" "trimmed_ascii dt" "dt \<noteq> []" "trimmed_ascii dg" "dg \<noteq> []"
  shows "newConsumer tk dt gk dg minimal_env = Inr (default_reader dt dg)"
  using assms by (simp add: newConsumer_def required_def Let_def setting_unset minimal_brokers default_reader_def)

lemma default_order_service:
  "order_main fraction all_up minimal_env = Inr
     \<lparr>osPort = ''50054'', osDatabase = ''postgres://db/order'',
      osRepository = NewPostgresRepository ''orders.created'' ''order.cancelled'',
      osPublisher = [''kafka-1:9092'', ''kafka-2:9092''],
      osRedis = \<lparr>redisAddr = ''localhost:6379'', redisPassword = [], redisDB = 0, dedupTTL = 86400 * time_Second\<rparr>,
      osOutbox = DefaultOutboxDispatcherConfig,
      osInventoryReserved = default_reader ''inventory.reserved'' ''order-service'',
      osInventoryReservationFailed = default_reader ''inventory.reservation_failed'' ''order-service'',
      osPaymentCaptured = default_reader ''payment.captured'' ''order-service'',
      osPaymentFailed = default_reader ''payment.failed'' ''order-service'',
      osPaymentCreationFailed = default_reader ''payment.creation_failed'' ''order-service''\<rparr>"
proof -
  have "newOutboxDispatcherConfig fraction minimal_env = Inr DefaultOutboxDispatcherConfig"
    by (rule default_dispatcher) (simp_all add: minimal_env_lookup)
  then show ?thesis
    by (simp add: order_main_def or_exit_def listening_def getenv_def default_redis newOrderEventPublisher_def required_def
        attempted_def newOrderDatabasePool_def newDatabasePool_def Let_def minimal_brokers setting_unset setting_set
        config_defs default_consumer minimal_env_lookup)
qed

lemma default_inventory_service:
  "inventory_main fraction all_up minimal_env = Inr
     \<lparr>isPort = ''50052'', isDatabase = ''postgres://db/inventory'',
      isPublisher = ([''kafka-1:9092'', ''kafka-2:9092''],
        \<lparr>reservedTopic = ''inventory.reserved'', reservationFailedTopic = ''inventory.reservation_failed''\<rparr>),
      isRedis = \<lparr>redisAddr = ''localhost:6379'', redisPassword = [], redisDB = 0, dedupTTL = 86400 * time_Second\<rparr>,
      isOrderCreated = default_reader ''orders.created'' ''inventory-service'',
      isOrderCancelled = default_reader ''order.cancelled'' ''inventory-service''\<rparr>"
  by (simp add: inventory_main_def or_exit_def listening_def getenv_def default_redis required_def
      attempted_def newInventoryDatabasePool_def newDatabasePool_def Let_def minimal_brokers setting_unset setting_set
      config_defs default_consumer minimal_env_lookup)

lemma default_payment_service:
  "payment_main fraction all_up minimal_env = Inr
     \<lparr>psPort = ''50053'', psDatabase = ''postgres://db/payment'',
      psPublisher = ([''kafka-1:9092'', ''kafka-2:9092''],
        \<lparr>createdTopic = ''payment.created'', failedTopic = ''payment.creation_failed'', capturedTopic = ''payment.captured'',
         paymentFailedTopic = ''payment.failed''\<rparr>),
      psRedis = \<lparr>redisAddr = ''localhost:6379'', redisPassword = [], redisDB = 0, dedupTTL = 86400 * time_Second\<rparr>,
      psInventoryReserved = default_reader ''inventory.reserved'' ''payment-service''\<rparr>"
  by (simp add: payment_main_def or_exit_def listening_def getenv_def default_redis required_def
      attempted_def newPaymentRepository_def newDatabasePool_def Let_def minimal_brokers setting_unset setting_set
      config_defs default_consumer minimal_env_lookup)

theorem services_wired_witness:
  "\<exists>os is ps. order_main no_fraction all_up minimal_env = Inr os \<and> inventory_main no_fraction all_up minimal_env = Inr is \<and>
     payment_main no_fraction all_up minimal_env = Inr ps \<and> rcTopic (osPaymentCaptured os) = capturedTopic (snd (psPublisher ps)) \<and>
     osPort os = ''50054''"
proof -
  note o = default_order_service [of no_fraction] and i = default_inventory_service [of no_fraction]
    and p = default_payment_service [of no_fraction]
  have "rcTopic (osPaymentCaptured os) = capturedTopic (snd (psPublisher ps))"
    if "order_main no_fraction all_up minimal_env = Inr os" "inventory_main no_fraction all_up minimal_env = Inr is"
      "payment_main no_fraction all_up minimal_env = Inr ps" for os "is" ps
    using services_wired [OF that] by simp
  with o i p show ?thesis by fastforce
qed

text \<open>
  With default ports and addresses the gateway dials the ports the services listen on.
\<close>

lemma gateway_finds_order_service:
  assumes "gateway_main out_g env_g = Inr g" "order_main fraction out_o env_o = Inr os"
    and "env_g ''ORDER_SERVICE_ADDR'' = None" "env_o ''GRPC_PORT'' = None"
  shows "gwOrder g = ''localhost:'' @ osPort os"
  using assms by (auto simp: gateway_main_def order_main_def listening_def getenv_def Let_def split: option.splits)

text \<open>
  The batch size is converted to 32 bits after a check of its upper bound only: a negative
  value far below the range becomes a batch of ten.
\<close>

lemma batch_size_wraps:
  assumes "env ''ORDER_OUTBOX_BATCH_SIZE'' = Some ''-4294967286''"
  shows "parseInt32Env env ''ORDER_OUTBOX_BATCH_SIZE'' fallback = Inr 10"
  using assms by (simp add: parseInt32Env_def getenv_def Atoi_def is_digit_def digit_of_def wrap32_def)

text \<open>
  The services may share one Redis database: the keys they mark events with never meet.
\<close>

lemma marks_are_apart:
  "''order:event:processed:'' @ a \<noteq> ''inventory:event:processed:'' @ b"
  "''order:event:processed:'' @ a \<noteq> ''payment:event:processed:'' @ b"
  "''inventory:event:processed:'' @ a \<noteq> ''payment:event:processed:'' @ b"
  by simp_all

end
