(* ===== verification/Service_Messages.thy ===== *)
theory Service_Messages
  imports Service_Wiring Order_Outbox Order_Consumers Payment_Properties
begin

text \<open>
  The messages on the topics: every message that one of the started services publishes for
  another is of the type which a consumer of its topic handles.
\<close>

definition event_type :: "kafka_message \<Rightarrow> string option" where
  "event_type m = map_option en_EventType (unmarshal dec_Envelope zero_Envelope (kmValue m))"

definition event_id :: "kafka_message \<Rightarrow> string option" where
  "event_id m = map_option en_EventID (unmarshal dec_Envelope zero_Envelope (kmValue m))"

text \<open>
  A handler takes a message over if it never lets the message be committed unhandled: in whatever
  state it runs, its event's mark is set when it is done, or was set before, or it returns an
  error, and then not the one that says that the payload cannot be decoded. A handler that looks
  for another type of event, or decodes another struct, does not.
\<close>

definition takes_over ::
    "('e \<Rightarrow> bool) \<Rightarrow> ('s \<Rightarrow> string set) \<Rightarrow> (time \<Rightarrow> kafka_message \<Rightarrow> 's \<Rightarrow> ('e + bool) \<times> 's) \<Rightarrow> kafka_message \<Rightarrow> bool" where
  "takes_over undecodable marked h m \<longleftrightarrow>
     (\<exists>eid. event_id m = Some eid \<and>
        (\<forall>now s. case h now m s of
           (Inl e, s') \<Rightarrow> \<not> undecodable e
         | (Inr _, s') \<Rightarrow> eid \<in> marked s \<union> marked s'))"

fun undecoded :: "order_consumer_error \<Rightarrow> bool" where
  "undecoded (OrderDecode what) = True"
| "undecoded _ = False"

abbreviation order_marks :: "('db, 'm) node_world_scheme \<Rightarrow> string set" where
  "order_marks \<equiv> processed_ids ''order:event:processed:''"

text \<open>The consumers of each started service: the reader with the messages its handler takes over.\<close>

definition order_listeners ::
    "('db, 'm) node_world_scheme order_repo \<Rightarrow> order_service_config \<Rightarrow> (reader_config \<times> (kafka_message \<Rightarrow> bool)) list" where
  "order_listeners repo os =
     map (\<lambda>(reader, new). (reader os, takes_over undecoded order_marks (tc_handleMessage (new repo order_deduper))))
       [(osInventoryReserved, NewInventoryReservedConsumer),
        (osInventoryReservationFailed, NewInventoryReservationFailedConsumer),
        (osPaymentCaptured, NewPaymentCapturedConsumer),
        (osPaymentFailed, NewPaymentFailedConsumer),
        (osPaymentCreationFailed, NewPaymentCreationFailedConsumer)]"

definition inventory_listeners ::
    "('db, 'm) node_world_scheme inventory_repo \<Rightarrow> inventory_service_config \<Rightarrow>
     (reader_config \<times> (kafka_message \<Rightarrow> bool)) list" where
  "inventory_listeners repo is =
     (let publisher = inventory_kafka_publisher (reservedTopic (snd (isPublisher is))) (reservationFailedTopic (snd (isPublisher is)))
      in [(isOrderCreated is, takes_over (\<lambda>_. False) inventory_processed (OrderCreated_handleMessage repo inventory_deduper publisher)),
          (isOrderCancelled is, takes_over (\<lambda>_. False) inventory_processed (\<lambda>_. OrderCancelled_handleMessage repo inventory_deduper))])"

definition payment_listeners ::
    "('db, 'm) node_world_scheme payment_repo \<Rightarrow> payment_service_config \<Rightarrow>
     (reader_config \<times> (kafka_message \<Rightarrow> bool)) list" where
  "payment_listeners repo ps =
     [(psInventoryReserved ps, takes_over (\<lambda>_. False) payment_processed
        (InventoryReserved_handleMessage repo payment_deduper (payment_kafka_publisher (snd (psPublisher ps)))))]"

text \<open>A message of any other type is committed without an effect.\<close>

lemma other_types_skipped:
  "event_type m \<noteq> Some OrderCreatedEventType \<Longrightarrow> OrderCreated_handleMessage irepo idedup publisher now m s = (Inr True, s)"
  "event_type m \<noteq> Some OrderCancelledEventType \<Longrightarrow> OrderCancelled_handleMessage irepo idedup m s = (Inr True, s)"
  "event_type m \<noteq> Some InventoryReservedEventType \<Longrightarrow> InventoryReserved_handleMessage prepo idedup ppublisher now m s = (Inr True, s)"
  "event_type m \<noteq> Some (expectedEventType c) \<Longrightarrow> tc_handleMessage c now m s = (Inr True, s)"
  by (auto simp: event_type_def OrderCreated_handleMessage_def OrderCancelled_handleMessage_def
      InventoryReserved_handleMessage_def tc_handleMessage_def deduplicated_def split: option.splits)

text \<open>The message the dispatcher sends for an outbox message, once it is a row of the table.\<close>

definition outbox_kafka_message :: "outbox_message \<Rightarrow> kafka_message" where
  "outbox_kafka_message om = outbox_message_of (stored_event (outbox_params om))"

definition handled_by :: "(reader_config \<times> (kafka_message \<Rightarrow> bool)) list \<Rightarrow> kafka_message \<Rightarrow> bool" where
  "handled_by cs m \<longleftrightarrow> (\<exists>(c, takes) \<in> set cs. rcTopic c = kmTopic m \<and> takes m)"

text \<open>Whatever the broker does, a publication sends nothing or a message some consumer handles.\<close>

definition sends_handled ::
    "(reader_config \<times> (kafka_message \<Rightarrow> bool)) list \<Rightarrow> (('db, 'm) bus_world_scheme \<Rightarrow> string option \<times> ('db, 'm) bus_world_scheme) \<Rightarrow> bool" where
  "sends_handled cs publish \<longleftrightarrow>
     (\<forall>w. \<exists>ms. sent (snd (publish w)) = sent w @ ms \<and> (\<forall>m\<in>set ms. handled_by cs m))"

lemma outbox_topic [simp]:
  "kmTopic (outbox_kafka_message (NewOrderCreatedOutboxMessage x topic t)) = topic"
  "kmTopic (outbox_kafka_message (NewOrderCancelledOutboxMessage x topic t)) = topic"
  by (simp_all add: outbox_kafka_message_def outbox_message_of_def stored_event_def outbox_params_def NewOrderCreatedOutboxMessage_def
      NewOrderCancelledOutboxMessage_def)

lemma outbox_value:
  "kmValue (outbox_kafka_message om) = Some (jsonb (omPayload om))"
  by (simp add: outbox_kafka_message_def outbox_message_of_def stored_event_def outbox_params_def)

section \<open>What the handlers take over\<close>

lemma takes_over_marked:
  assumes env: "unmarshal dec_Envelope zero_Envelope (kmValue m) = Some env" "en_EventType env = ty"
    and checks: "\<And>f. \<not> undecodable (err (CheckFailed f))"
    and body: "\<And>now s r s'. body now env s = (r, s') \<Longrightarrow>
      (case r of Inl e \<Rightarrow> \<not> undecodable e | Inr _ \<Rightarrow> en_EventID env \<in> processed_ids p s')"
  shows "takes_over undecodable (processed_ids p) (\<lambda>now. deduplicated (redis_deduper p) err ty (body now)) m"
proof -
  have "case deduplicated (redis_deduper p) err ty (body now) m s of
      (Inl e, s') \<Rightarrow> \<not> undecodable e | (Inr _, s') \<Rightarrow> en_EventID env \<in> processed_ids p s \<union> processed_ids p s'" for now s
  proof -
    obtain r s' where d: "deduplicated (redis_deduper p) err ty (body now) m s = (r, s')" by fastforce
    then show ?thesis
    proof (cases rule: redis.deduplicated_cases)
      case skip
      then show ?thesis using d env by (simp add: skipped_def)
    next
      case (failed f)
      then show ?thesis using d checks by simp
    next
      case (handled envelope s1)
      then show ?thesis using d env body [of now s1 r s'] by (auto split: sum.splits)
    qed
  qed
  then show ?thesis using env(1) by (simp add: takes_over_def event_id_def)
qed

lemma mark_done_marks:
  assumes "mark_done (redis_deduper p) err eid s = (r, s')" "\<And>f. \<not> undecodable (err (MarkFailed f))"
  shows "case r of Inl e \<Rightarrow> \<not> undecodable e | Inr _ \<Rightarrow> eid \<in> processed_ids p s'"
  using assms by (cases rule: redis.mark_done_cases) auto

lemma publish_and_mark_marks:
  assumes "publish_and_mark (redis_deduper p) eid x = (r, s')"
  shows "case r of Inl e \<Rightarrow> \<not> False | Inr _ \<Rightarrow> eid \<in> processed_ids p s'"
  using assms mark_done_marks [of p InventoryDedup eid _ r s' "\<lambda>_. False"]
  by (cases x) (auto simp: publish_and_mark_def split: option.splits)

lemma payment_publish_and_mark_marks:
  assumes "payment_publish_and_mark (redis_deduper p) eid x = (r, s')"
  shows "case r of Inl e \<Rightarrow> \<not> False | Inr _ \<Rightarrow> eid \<in> processed_ids p s'"
  using assms mark_done_marks [of p PaymentDedup eid _ r s' "\<lambda>_. False"]
  by (cases x) (auto simp: payment_publish_and_mark_def split: option.splits)

lemma order_created_taken:
  assumes "unmarshal dec_Envelope zero_Envelope (kmValue m) = Some env" "en_EventType env = OrderCreatedEventType"
    and "unmarshal dec_OrderCreated zero_OrderCreated (en_Payload env) = Some event"
  shows "takes_over (\<lambda>_. False) inventory_processed (OrderCreated_handleMessage repo inventory_deduper publisher) m"
  unfolding OrderCreated_handleMessage_def inventory_deduper_def
proof (rule takes_over_marked [OF assms(1,2)])
  fix now s r s'
  assume h: "handle_order_created repo (redis_deduper ''inventory:event:processed:'') publisher now env s = (r, s')"
  obtain xs failed err rollback s1 where "reserveAll repo event s = ((xs, failed, err, rollback), s1)" by (metis prod.exhaust)
  with h assms(3) show "case r of Inl e \<Rightarrow> \<not> False | Inr _ \<Rightarrow> en_EventID env \<in> inventory_processed s'"
    by (cases rollback; cases err) (auto simp: handle_order_created_def dest: publish_and_mark_marks)
qed simp

lemma order_cancelled_taken:
  assumes "unmarshal dec_Envelope zero_Envelope (kmValue m) = Some env" "en_EventType env = OrderCancelledEventType"
    and "unmarshal dec_OrderCancelled zero_OrderCancelled (en_Payload env) = Some event"
  shows "takes_over (\<lambda>_. False) inventory_processed (\<lambda>_. OrderCancelled_handleMessage repo inventory_deduper) m"
  unfolding OrderCancelled_handleMessage_def inventory_deduper_def
proof (rule takes_over_marked [OF assms(1,2)])
  fix now s r s'
  assume "handle_order_cancelled repo (redis_deduper ''inventory:event:processed:'') env s = (r, s')"
  then show "case r of Inl e \<Rightarrow> \<not> False | Inr _ \<Rightarrow> en_EventID env \<in> inventory_processed s'"
    using assms(3) mark_done_marks [of "''inventory:event:processed:''" InventoryDedup "en_EventID env" _ r s' "\<lambda>_. False"]
    by (auto simp: handle_order_cancelled_def split: prod.splits sum.splits)
qed simp

lemma inventory_reserved_taken:
  assumes "unmarshal dec_Envelope zero_Envelope (kmValue m) = Some env" "en_EventType env = InventoryReservedEventType"
    and "unmarshal dec_InventoryReserved zero_InventoryReserved (en_Payload env) = Some event"
  shows "takes_over (\<lambda>_. False) payment_processed (InventoryReserved_handleMessage repo payment_deduper publisher) m"
  unfolding InventoryReserved_handleMessage_def payment_deduper_def
proof (rule takes_over_marked [OF assms(1,2)])
  fix now s r s'
  assume "handle_inventory_reserved repo (redis_deduper ''payment:event:processed:'') publisher now env s = (r, s')"
  then show "case r of Inl e \<Rightarrow> \<not> False | Inr _ \<Rightarrow> en_EventID env \<in> payment_processed s'"
    using assms(3) by (auto simp: handle_inventory_reserved_def split: prod.splits sum.splits dest: payment_publish_and_mark_marks)
qed simp

lemma order_event_taken:
  assumes "unmarshal dec_Envelope zero_Envelope (kmValue m) = Some env" "en_EventType env = expectedEventType c"
    and "deduper c = order_deduper" "\<And>now s. \<exists>r s'. handleEvent c now env s = (map_sum OrderFailure id r, s')"
  shows "takes_over undecoded order_marks (tc_handleMessage c) m"
  unfolding tc_handleMessage_def assms(3) order_deduper_def
proof (rule takes_over_marked [OF assms(1,2)])
  fix now s r s'
  assume h: "(case handleEvent c now env s of (Inl e, s1) \<Rightarrow> (Inl e, s1)
    | (Inr _, s1) \<Rightarrow> mark_done (redis_deduper ''order:event:processed:'') OrderDedup (en_EventID env) s1) = (r, s')"
  obtain r1 s1 where "handleEvent c now env s = (map_sum OrderFailure id r1, s1)" using assms(4) by blast
  then show "case r of Inl e \<Rightarrow> \<not> undecoded e | Inr _ \<Rightarrow> en_EventID env \<in> order_marks s'"
    using h mark_done_marks [of "''order:event:processed:''" OrderDedup "en_EventID env" s1 r s' undecoded]
    by (cases r1) auto
qed simp

lemma decoded_applies:
  "en_Payload env = Some v \<Longrightarrow> dec v zero = (event, False) \<Longrightarrow>
     \<exists>r s'. decoded dec zero what f env s = (map_sum OrderFailure id r, s')"
  by (cases "f event s") (auto simp: decoded_def unmarshal_def)

lemma handled_byI: "(c, takes) \<in> set cs \<Longrightarrow> rcTopic c = kmTopic m \<Longrightarrow> takes m \<Longrightarrow> handled_by cs m"
  by (auto simp: handled_by_def)

lemma order_service_handles:
  assumes "ev = (reader, new)"
    and "ev \<in> set [(osInventoryReserved, NewInventoryReservedConsumer),
        (osInventoryReservationFailed, NewInventoryReservationFailedConsumer), (osPaymentCaptured, NewPaymentCapturedConsumer),
        (osPaymentFailed, NewPaymentFailedConsumer), (osPaymentCreationFailed, NewPaymentCreationFailedConsumer)]"
    and "rcTopic (reader os) = topic" "ty = expectedEventType (new repo order_deduper)"
    and "\<And>now s. \<exists>r s'. handleEvent (new repo order_deduper) now (event_envelope t ty src payload) s = (map_sum OrderFailure id r, s')"
  shows "handled_by (order_listeners repo os) (event_message t topic ty src key payload)"
proof (rule handled_byI)
  show "(reader os, takes_over undecoded order_marks (tc_handleMessage (new repo order_deduper))) \<in> set (order_listeners repo os)"
    using assms(1,2) by (auto simp: order_listeners_def)
  have "deduper (new repo order_deduper) = order_deduper"
    using assms(1,2) by (auto simp: NewInventoryReservedConsumer_def NewInventoryReservationFailedConsumer_def
        NewPaymentCapturedConsumer_def NewPaymentFailedConsumer_def NewPaymentCreationFailedConsumer_def)
  then show "takes_over undecoded order_marks (tc_handleMessage (new repo order_deduper)) (event_message t topic ty src key payload)"
    by (intro order_event_taken [of _ "event_envelope t ty src payload"] assms(5)) (simp_all add: assms(4))
qed (simp add: assms(3))

lemmas state_consumers =
  NewInventoryReservedConsumer_def NewInventoryReservationFailedConsumer_def NewPaymentCapturedConsumer_def
  NewPaymentFailedConsumer_def NewPaymentCreationFailedConsumer_def

lemma order_handles:
  "rcTopic (osInventoryReserved os) = topic \<Longrightarrow> ok_InventoryReserved reserved \<Longrightarrow>
     handled_by (order_listeners repo os) (event_message t topic InventoryReservedEventType src key (enc_InventoryReserved reserved))"
  "rcTopic (osInventoryReservationFailed os) = topic \<Longrightarrow> ok_InventoryReservationFailed refused \<Longrightarrow>
     handled_by (order_listeners repo os)
       (event_message t topic InventoryReservationFailedEventType src key (enc_InventoryReservationFailed refused))"
  "rcTopic (osPaymentCaptured os) = topic \<Longrightarrow>
     handled_by (order_listeners repo os) (event_message t topic PaymentCapturedEventType src key (enc_PaymentCaptured captured))"
  "rcTopic (osPaymentFailed os) = topic \<Longrightarrow>
     handled_by (order_listeners repo os) (event_message t topic PaymentFailedEventType src key (enc_PaymentFailed failed))"
  "rcTopic (osPaymentCreationFailed os) = topic \<Longrightarrow>
     handled_by (order_listeners repo os)
       (event_message t topic PaymentCreationFailedEventType src key (enc_PaymentCreationFailed creation_failed))"
  subgoal
    by (rule order_service_handles [OF refl, where new = NewInventoryReservedConsumer])
      (simp_all add: state_consumers decoded_applies)
  subgoal
    by (rule order_service_handles [OF refl, where new = NewInventoryReservationFailedConsumer])
      (simp_all add: state_consumers decoded_applies)
  subgoal
    by (rule order_service_handles [OF refl, where new = NewPaymentCapturedConsumer])
      (simp_all add: state_consumers decoded_applies)
  subgoal
    by (rule order_service_handles [OF refl, where new = NewPaymentFailedConsumer])
      (simp_all add: state_consumers decoded_applies)
  subgoal
    by (rule order_service_handles [OF refl, where new = NewPaymentCreationFailedConsumer])
      (simp_all add: state_consumers decoded_applies)
  done

lemma payment_handles:
  assumes "rcTopic (psInventoryReserved ps) = topic" "ok_InventoryReserved reserved"
  shows "handled_by (payment_listeners repo ps) (event_message t topic InventoryReservedEventType src key (enc_InventoryReserved reserved))"
    (is "handled_by _ ?m")
proof (rule handled_byI)
  let ?h = "InventoryReserved_handleMessage repo payment_deduper (payment_kafka_publisher (snd (psPublisher ps)))"
  show "(psInventoryReserved ps, takes_over (\<lambda>_. False) payment_processed ?h) \<in> set (payment_listeners repo ps)"
    by (simp add: payment_listeners_def)
  show "takes_over (\<lambda>_. False) payment_processed ?h ?m"
  proof (rule inventory_reserved_taken)
    show "unmarshal dec_InventoryReserved zero_InventoryReserved
        (en_Payload (event_envelope t InventoryReservedEventType src (enc_InventoryReserved reserved))) = Some reserved"
      using assms(2) by (simp add: unmarshal_def)
  qed simp_all
qed (simp add: assms(1))

lemma inventory_handles:
  "rcTopic (isOrderCreated is) = topic \<Longrightarrow> order_in_range x \<Longrightarrow>
     handled_by (inventory_listeners repo is) (outbox_kafka_message (NewOrderCreatedOutboxMessage x topic t))"
  "rcTopic (isOrderCancelled is) = topic \<Longrightarrow>
     handled_by (inventory_listeners repo is) (outbox_kafka_message (NewOrderCancelledOutboxMessage x topic t))"
proof -
  let ?p = "inventory_kafka_publisher (reservedTopic (snd (isPublisher is))) (reservationFailedTopic (snd (isPublisher is)))"
  assume c: "rcTopic (isOrderCreated is) = topic" "order_in_range x"
  obtain env where "decode_event dec_OrderCreated zero_OrderCreated
      (kmValue (outbox_kafka_message (NewOrderCreatedOutboxMessage x topic t))) = Some (env, ev_order_created x)"
    "en_EventType env = OrderCreatedEventType"
    using decode_created_message [OF c(2)] unfolding outbox_value by blast
  then have "takes_over (\<lambda>_. False) inventory_processed (OrderCreated_handleMessage repo inventory_deduper ?p)
      (outbox_kafka_message (NewOrderCreatedOutboxMessage x topic t))"
    by (intro order_created_taken) (auto simp: decode_event_def split: option.splits)
  then show "handled_by (inventory_listeners repo is) (outbox_kafka_message (NewOrderCreatedOutboxMessage x topic t))"
    using c(1) by (auto simp: handled_by_def inventory_listeners_def Let_def)
next
  assume c: "rcTopic (isOrderCancelled is) = topic"
  obtain env event where "decode_event dec_OrderCancelled zero_OrderCancelled
      (kmValue (outbox_kafka_message (NewOrderCancelledOutboxMessage x topic t))) = Some (env, event)"
    "en_EventType env = OrderCancelledEventType"
    using decode_cancelled_message unfolding outbox_value by blast
  then have "takes_over (\<lambda>_. False) inventory_processed (\<lambda>_. OrderCancelled_handleMessage repo inventory_deduper)
      (outbox_kafka_message (NewOrderCancelledOutboxMessage x topic t))"
    by (intro order_cancelled_taken) (auto simp: decode_event_def split: option.splits)
  then show "handled_by (inventory_listeners repo is) (outbox_kafka_message (NewOrderCancelledOutboxMessage x topic t))"
    using c by (auto simp: handled_by_def inventory_listeners_def Let_def)
qed

lemma writeEvent_handled:
  fixes w :: "('db, 'm) bus_world_scheme"
  assumes "handled_by cs (event_message now topic ty src key p)"
  shows "sends_handled cs (writeEvent now topic ty src key p :: ('db, 'm) bus_world_scheme \<Rightarrow> _)"
  unfolding sends_handled_def
proof
  fix w :: "('db, 'm) bus_world_scheme"
  let ?m = "event_message now topic ty src key p"
  obtain r w' where wr: "writeEvent now topic ty src key p w = (r, w')" by fastforce
  then have "sent w' = sent w @ [?m] \<or> sent w' = sent w" by (cases rule: writeEvent_cases) auto
  then show "\<exists>ms. sent (snd (writeEvent now topic ty src key p w)) = sent w @ ms \<and> (\<forall>m\<in>set ms. handled_by cs m)"
    unfolding wr using assms by (metis append_Nil2 empty_iff empty_set list.set_cases set_ConsD snd_conv)
qed

text \<open>
  C33: No published event is lost on the wrong topic. When the order, the inventory and the
  payment service have started from the same Kafka variables, every message they publish for one
  another lies on the topic of a consumer of the service it is for, and the handler of that
  consumer takes it over: whatever its state, it commits the message only once the event is
  marked as processed, and it never rejects the payload as undecodable. So created and cancelled
  orders from the outbox reach the inventory service, reserved stock reaches both the order and
  the payment service, and refused reservations, captured, failed and refused payments reach the
  order service. The integers in the events are in the range of their Go types.
\<close>
theorem published_events_handled:
  assumes "order_main fo out_o env_o = Inr os" "inventory_main fi out_i env_i = Inr is"
    "payment_main fp out_p env_p = Inr ps"
    and "\<forall>key\<in>set kafka_variables. env_i key = env_o key" "\<forall>key\<in>set kafka_variables. env_p key = env_o key"
    and "order_side = order_listeners orepo os" "inventory_side = inventory_listeners irepo is"
      "payment_side = payment_listeners prepo ps"
    and "stock_pub = inventory_kafka_publisher (reservedTopic (snd (isPublisher is))) (reservationFailedTopic (snd (isPublisher is)))"
    and "payment_pub = payment_kafka_publisher (snd (psPublisher ps))"
    and "order_in_range x" "ok_InventoryReserved reserved" "ok_InventoryReservationFailed refused"
  shows "handled_by inventory_side (outbox_kafka_message (NewOrderCreatedOutboxMessage x (orderCreatedTopic (osRepository os)) t)) \<and>
    handled_by inventory_side (outbox_kafka_message (NewOrderCancelledOutboxMessage x (orderCancelledTopic (osRepository os)) t)) \<and>
    sends_handled order_side (PublishInventoryReserved stock_pub t source reserved) \<and>
    sends_handled payment_side (PublishInventoryReserved stock_pub t source reserved) \<and>
    sends_handled order_side (PublishInventoryReservationFailed stock_pub t source refused) \<and>
    sends_handled order_side (PublishPaymentCreationFailed payment_pub t source creation_failed) \<and>
    sends_handled order_side (PublishPaymentCaptured payment_pub t source captured) \<and>
    sends_handled order_side (PublishPaymentFailed payment_pub t source failed)"
proof -
  note wired = services_wired [OF assms(1-5)]
  have topics: "rcTopic (psInventoryReserved ps) = reservedTopic (snd (isPublisher is))"
    "rcTopic (osInventoryReserved os) = reservedTopic (snd (isPublisher is))"
    "rcTopic (osInventoryReservationFailed os) = reservationFailedTopic (snd (isPublisher is))"
    "rcTopic (osPaymentCreationFailed os) = failedTopic (snd (psPublisher ps))"
    "rcTopic (osPaymentCaptured os) = capturedTopic (snd (psPublisher ps))"
    "rcTopic (osPaymentFailed os) = paymentFailedTopic (snd (psPublisher ps))"
    "rcTopic (isOrderCreated is) = orderCreatedTopic (osRepository os)"
    "rcTopic (isOrderCancelled is) = orderCancelledTopic (osRepository os)"
    using wired by blast+
  show ?thesis
    unfolding assms(6-10) inventory_kafka_publisher_def payment_kafka_publisher_def inventory_publisher.simps
      payment_publisher.simps kafka_PublishInventoryReserved_def kafka_PublishInventoryReservationFailed_def
      kafka_PublishPaymentCreationFailed_def kafka_PublishPaymentCaptured_def kafka_PublishPaymentFailed_def
    by (intro conjI writeEvent_handled inventory_handles order_handles payment_handles topics assms(11-13))
qed

theorem published_events_handled_witness:
  "\<exists>os is ps. order_main no_fraction all_up minimal_env = Inr os \<and> inventory_main no_fraction all_up minimal_env = Inr is \<and>
     payment_main no_fraction all_up minimal_env = Inr ps \<and>
     (\<exists>m. sent (snd (PublishPaymentCaptured (payment_kafka_publisher sample_topics) 5 ''pay-1''
            \<lparr>pp_OrderID = ''o1'', pp_CustomerID = ''c1'', pp_PaymentID = ''pay-1'', pp_Status = ''PAYMENT_STATUS_CAPTURED''\<rparr>
            (calm_node sample_db 9000))) = [m] \<and> handled_by (order_listeners (sample_repo :: order_db node_world order_repo) os) m)"
proof -
  let ?e = "\<lparr>pp_OrderID = ''o1'', pp_CustomerID = ''c1'', pp_PaymentID = ''pay-1'', pp_Status = ''PAYMENT_STATUS_CAPTURED''\<rparr>"
  let ?p = "PublishPaymentCaptured (payment_kafka_publisher sample_topics) 5 ''pay-1'' ?e ::
    order_db node_world \<Rightarrow> string option \<times> order_db node_world"
  obtain os "is" ps where c: "order_main no_fraction all_up minimal_env = Inr os" "inventory_main no_fraction all_up minimal_env = Inr is"
    "payment_main no_fraction all_up minimal_env = Inr ps" "snd (psPublisher ps) = sample_topics"
    using default_order_service [of no_fraction] default_inventory_service [of no_fraction] default_payment_service [of no_fraction]
    by (fastforce simp: sample_topics_def)
  have ok: "order_in_range zero_order" "ok_InventoryReserved zero_InventoryReserved"
    "ok_InventoryReservationFailed zero_InventoryReservationFailed"
    by (simp_all add: order_in_range_def zero_order_def zero_money_def money_in_range_def ok_InventoryReserved_def zero_InventoryReserved_def
        ok_Money_def zero_Money_def ok_InventoryReservationFailed_def zero_InventoryReservationFailed_def is_int64_def)
  have "sends_handled (order_listeners (sample_repo :: order_db node_world order_repo) os) ?p"
    using published_events_handled [OF c(1-3) _ _ refl refl refl refl refl ok, where t = 5 and source = "''pay-1''" and captured = ?e
      and orepo = "sample_repo :: order_db node_world order_repo"] unfolding c(4) by blast
  then obtain ms where ms: "sent (snd (?p (calm_node sample_db 9000))) = sent (calm_node sample_db 9000) @ ms"
    "\<forall>m\<in>set ms. handled_by (order_listeners (sample_repo :: order_db node_world order_repo) os) m"
    unfolding sends_handled_def by blast
  obtain m where "sent (snd (?p (calm_node sample_db 9000))) = [m]"
    by (simp add: payment_kafka_publisher_def kafka_PublishPaymentCaptured_def writeEvent_up)
  with ms c(1-3) show ?thesis by auto
qed

end
