(* ===== verification/Service_Run.thy ===== *)
theory Service_Run
  imports Prelude
begin

text \<open>
  The programs after their start-up (\<open>main\<close> of \<open>cmd/*/main.go\<close>, from the first goroutine on):
  goroutines that work until they return, the channels through which those of the order service
  report their errors, and the main goroutine that waits for a signal or a report and then shuts
  the service down. Which goroutine moves next is not determined, so a run is any list of events
  that are possible one after the other.
\<close>

section \<open>The order service\<close>

datatype worker = Dispatcher | Server | Consumer string

definition order_workers :: "worker list" where
  "order_workers =
     [Dispatcher, Server, Consumer ''inventory.reserved'', Consumer ''inventory.reservation_failed'',
      Consumer ''payment.captured'', Consumer ''payment.failed'', Consumer ''payment.creation_failed'']"

datatype channel = ServerErrCh | WorkerErrCh | ConsumerErrCh

fun capacity :: "channel \<Rightarrow> nat" where
  "capacity ServerErrCh = 1"
| "capacity WorkerErrCh = 1"
| "capacity ConsumerErrCh = 5"

fun channel_of :: "worker \<Rightarrow> channel" where
  "channel_of Dispatcher = WorkerErrCh"
| "channel_of Server = ServerErrCh"
| "channel_of (Consumer _) = ConsumerErrCh"

text \<open>
  What the function a goroutine calls returns: no error, an error, or one that is
  \<open>context.Canceled\<close> or \<open>http.ErrServerClosed\<close>.
\<close>

datatype go_result = Success | Failure string | Canceled | ServerClosed

fun go_error :: "go_result \<Rightarrow> string option" where
  "go_error Success = None"
| "go_error (Failure e) = Some e"
| "go_error Canceled = Some ''context canceled''"
| "go_error ServerClosed = Some ''http: Server closed''"

text \<open>What a goroutine reports then; the flag says that the context is done.\<close>

fun report :: "worker \<Rightarrow> bool \<Rightarrow> go_result \<Rightarrow> string option" where
  "report Dispatcher is_done r =
     (if go_error r \<noteq> None \<and> r \<noteq> Canceled then go_error r
      else if is_done then None else Some ''outbox dispatcher stopped unexpectedly'')"
| "report Server is_done r = go_error r"
| "report (Consumer name) is_done r =
     (case go_error r of
        None \<Rightarrow> None
      | Some e \<Rightarrow> if is_done then None else Some (name @ '' consumer: '' @ e))"

datatype worker_state = Working | Sending string | Ended

datatype main_state = Selecting | Stopping string | Exited

record order_run =
  ctx_done :: bool
  worker_at :: "worker \<Rightarrow> worker_state"
  queued :: "channel \<Rightarrow> string list"
  main_at :: main_state

definition order_start :: order_run where
  "order_start =
     \<lparr>ctx_done = False, worker_at = (\<lambda>w. if w \<in> set order_workers then Working else Ended),
      queued = (\<lambda>_. []), main_at = Selecting\<rparr>"

datatype run_event = Signalled | Returns worker go_result | Sends worker | Receives channel | SeesDone | StopsGracefully

fun stop_message :: "channel \<Rightarrow> string" where
  "stop_message ServerErrCh = ''grpc server stopped with error''"
| "stop_message WorkerErrCh = ''outbox dispatcher stopped with error''"
| "stop_message ConsumerErrCh = ''order event consumer stopped with error''"

text \<open>
  One event: a signal cancels the context; a goroutine's call returns; a goroutine sends its
  report, which needs room in the channel; \<open>select\<close> takes a report and calls \<open>stop\<close>, or sees the
  context done; the server has stopped and \<open>main\<close> returns, which ends the process.
\<close>

fun order_event :: "run_event \<Rightarrow> order_run \<Rightarrow> order_run option" where
  "order_event Signalled s = (if main_at s = Exited then None else Some (s\<lparr>ctx_done := True\<rparr>))"
| "order_event (Returns w r) s =
     (if main_at s \<noteq> Exited \<and> worker_at s w = Working
      then Some (s\<lparr>worker_at := (worker_at s)
             (w := (case report w (ctx_done s) r of Some e \<Rightarrow> Sending e | None \<Rightarrow> Ended))\<rparr>)
      else None)"
| "order_event (Sends w) s =
     (case worker_at s w of
        Sending e \<Rightarrow>
          if main_at s \<noteq> Exited \<and> length (queued s (channel_of w)) < capacity (channel_of w)
          then Some (s\<lparr>worker_at := (worker_at s)(w := Ended),
                 queued := (queued s)(channel_of w := queued s (channel_of w) @ [e])\<rparr>)
          else None
      | _ \<Rightarrow> None)"
| "order_event (Receives ch) s =
     (case queued s ch of
        [] \<Rightarrow> None
      | e # es \<Rightarrow>
          if main_at s = Selecting
          then Some (s\<lparr>queued := (queued s)(ch := es), ctx_done := True, main_at := Stopping (stop_message ch)\<rparr>)
          else None)"
| "order_event SeesDone s =
     (if main_at s = Selecting \<and> ctx_done s then Some (s\<lparr>main_at := Stopping ''shutdown signal received''\<rparr>) else None)"
| "order_event StopsGracefully s =
     (case main_at s of Stopping _ \<Rightarrow> Some (s\<lparr>main_at := Exited\<rparr>) | _ \<Rightarrow> None)"

fun order_events :: "run_event list \<Rightarrow> order_run \<Rightarrow> order_run option" where
  "order_events [] s = Some s"
| "order_events (e # es) s = (case order_event e s of None \<Rightarrow> None | Some t \<Rightarrow> order_events es t)"

text \<open>As a step relation, with its reachable states.\<close>

inductive order_run_step :: "order_run \<Rightarrow> order_run \<Rightarrow> bool" where
  event: "order_event e s = Some t \<Longrightarrow> order_run_step s t"

inductive order_reachable :: "order_run \<Rightarrow> bool" where
  start: "order_reachable order_start"
| step: "order_reachable s \<Longrightarrow> order_run_step s t \<Longrightarrow> order_reachable t"

inductive_cases order_run_stepE: "order_run_step s t"

lemma order_events_append:
  "order_events (es @ fs) s = (case order_events es s of None \<Rightarrow> None | Some t \<Rightarrow> order_events fs t)"
  by (induction es arbitrary: s) (auto split: option.splits)

lemma order_events_reachable: "order_events es order_start = Some s \<Longrightarrow> order_reachable s"
proof (induction es arbitrary: s rule: rev_induct)
  case (snoc e es)
  then obtain t where "order_events es order_start = Some t" "order_event e t = Some s"
    by (auto simp: order_events_append split: option.splits)
  with snoc.IH show ?case by (blast intro: order_reachable.step order_run_step.event)
qed (simp add: order_reachable.start)

section \<open>Room for every report\<close>

text \<open>
  A channel has room for what it holds and for the one report each of its goroutines may still
  send.
\<close>

definition may_report :: "channel \<Rightarrow> order_run \<Rightarrow> worker list" where
  "may_report ch s = filter (\<lambda>w. channel_of w = ch \<and> worker_at s w \<noteq> Ended) order_workers"

definition room :: "order_run \<Rightarrow> bool" where
  "room s \<longleftrightarrow>
     (\<forall>ch. length (queued s ch) + length (may_report ch s) \<le> capacity ch) \<and>
     (\<forall>w. w \<notin> set order_workers \<longrightarrow> worker_at s w = Ended)"

lemma order_workers_distinct: "distinct order_workers"
  by (simp add: order_workers_def)

lemma may_report_ended:
  assumes "w \<in> set order_workers" "worker_at s w \<noteq> Ended" "worker_at t = (worker_at s)(w := Ended)"
  shows "length (may_report ch s) = length (may_report ch t) + (if channel_of w = ch then 1 else 0)"
proof -
  have split: "length (filter P xs) = length (filter Q xs) + (if P w then 1 else 0)"
    if "distinct xs" "w \<in> set xs" "\<And>v. Q v \<longleftrightarrow> P v \<and> v \<noteq> w" for P Q and xs :: "worker list"
    using that(1,2)
  proof (induction xs)
    case (Cons x xs)
    show ?case
    proof (cases "x = w")
      case True
      then have "filter P xs = filter Q xs" using Cons.prems(1) that(3) by (intro filter_cong) auto
      then show ?thesis using True that(3) [of w] by simp
    next
      case False
      then show ?thesis using Cons that(3) by auto
    qed
  qed simp
  show ?thesis
    unfolding may_report_def using assms by (subst split [OF order_workers_distinct assms(1)]) auto
qed

lemma may_report_same:
  "(\<And>v. worker_at t v = Ended \<longleftrightarrow> worker_at s v = Ended) \<Longrightarrow> may_report ch t = may_report ch s"
  by (simp add: may_report_def)

lemma room_start: "room order_start"
proof -
  have "length (may_report ch order_start) \<le> capacity ch" for ch
    by (cases ch) (simp_all add: may_report_def order_start_def order_workers_def)
  then show ?thesis by (simp add: room_def order_start_def)
qed

lemma room_step: "order_event e s = Some t \<Longrightarrow> room s \<Longrightarrow> room t"
proof (cases e)
  case (Returns w r)
  assume a: "order_event e s = Some t" "room s"
  show ?thesis
  proof (cases "worker_at t w = Ended")
    case True
    then have t: "worker_at t = (worker_at s)(w := Ended)" "queued t = queued s" "worker_at s w \<noteq> Ended"
      using a(1) Returns by (auto split: if_splits option.splits)
    then have w: "w \<in> set order_workers" using a(2) by (auto simp: room_def)
    have "length (may_report ch t) \<le> length (may_report ch s)" for ch
      using may_report_ended [OF w t(3,1), of ch] by simp
    then show ?thesis using a(2) t unfolding room_def by (metis add_left_mono fun_upd_apply le_trans)
  next
    case False
    then have t: "worker_at t v = Ended \<longleftrightarrow> worker_at s v = Ended" "queued t = queued s" for v
      using a(1) Returns by (auto split: if_splits option.splits)
    then show ?thesis using a(2) may_report_same [of t s] by (simp add: room_def)
  qed
next
  case (Sends w)
  assume a: "order_event e s = Some t" "room s"
  then obtain m where t: "worker_at s w = Sending m" "worker_at t = (worker_at s)(w := Ended)"
    "queued t = (queued s)(channel_of w := queued s (channel_of w) @ [m])"
    using Sends by (auto split: worker_state.splits if_splits)
  then have w: "w \<in> set order_workers" "worker_at s w \<noteq> Ended" using a(2) by (auto simp: room_def)
  have "length (queued t ch) + length (may_report ch t) = length (queued s ch) + length (may_report ch s)" for ch
    using may_report_ended [OF w t(2), of ch] t(3) by simp
  then show ?thesis using a(2) t(2) by (simp add: room_def)
next
  case (Receives ch)
  assume a: "order_event e s = Some t" "room s"
  then have "worker_at t = worker_at s" "length (queued t c) \<le> length (queued s c)" for c
    using Receives by (auto split: list.splits if_splits)
  then show ?thesis using a(2) may_report_same [of t s] unfolding room_def by (metis add_le_mono1 le_trans)
qed (auto simp: room_def may_report_def split: if_splits main_state.splits)

lemma reachable_room: "order_reachable s \<Longrightarrow> room s"
  by (induction rule: order_reachable.induct) (auto intro: room_start room_step elim: order_run_stepE)

lemma sender_has_room:
  assumes "room s" "worker_at s w = Sending e"
  shows "length (queued s (channel_of w)) < capacity (channel_of w)"
proof -
  have "w \<in> set (may_report (channel_of w) s)"
    using assms by (auto simp: room_def may_report_def)
  then have "0 < length (may_report (channel_of w) s)" by (rule length_pos_if_in_set)
  moreover have "length (queued s (channel_of w)) + length (may_report (channel_of w) s) \<le> capacity (channel_of w)"
    using assms(1) by (simp add: room_def)
  ultimately show ?thesis by linarith
qed

section \<open>What makes the service stop\<close>

fun internal :: "run_event \<Rightarrow> bool" where
  "internal Signalled = False"
| "internal (Returns _ _) = False"
| "internal _ = True"

text \<open>No goroutine of the service can move by itself: the only events left come from outside.\<close>

definition settled :: "order_run \<Rightarrow> bool" where
  "settled s \<longleftrightarrow> (\<forall>e. internal e \<longrightarrow> order_event e s = None)"

definition noted :: "order_run \<Rightarrow> bool" where
  "noted s \<longleftrightarrow> ctx_done s \<or> main_at s \<noteq> Selecting \<or> (\<exists>w e. worker_at s w = Sending e) \<or> (\<exists>ch. queued s ch \<noteq> [])"

text \<open>A reason to stop: a signal, or a call that returned what its goroutine reports.\<close>

fun stop_reason :: "run_event \<Rightarrow> order_run \<Rightarrow> bool" where
  "stop_reason Signalled s = True"
| "stop_reason (Returns w r) s = (report w (ctx_done s) r \<noteq> None)"
| "stop_reason _ s = False"

lemma noted_step: "order_event e s = Some t \<Longrightarrow> noted t \<longleftrightarrow> noted s \<or> stop_reason e s"
proof (cases e)
  case (Returns w r)
  assume a: "order_event e s = Some t"
  then have t: "ctx_done t = ctx_done s" "main_at t = main_at s" "queued t = queued s" "worker_at s w = Working"
    "worker_at t = (worker_at s)(w := (case report w (ctx_done s) r of Some e \<Rightarrow> Sending e | None \<Rightarrow> Ended))"
    using Returns by (auto split: if_splits)
  have "(\<exists>v m. worker_at t v = Sending m) \<longleftrightarrow> (\<exists>v m. worker_at s v = Sending m) \<or> report w (ctx_done s) r \<noteq> None"
    using t(4) by (cases "report w (ctx_done s) r") (auto simp: t(5), metis worker_state.distinct(1))
  then show ?thesis unfolding noted_def t(1-3) using Returns by auto
qed (auto simp: noted_def split: if_splits worker_state.splits list.splits main_state.splits)

text \<open>
  Which of the events count, whatever was before: before the context is done, whatever the
  dispatcher's call returns is reported, and every error of the server and of the consumers; once
  it is done the service stops anyway.
\<close>

fun stops_service :: "run_event \<Rightarrow> bool" where
  "stops_service Signalled = True"
| "stops_service (Returns Dispatcher r) = True"
| "stops_service (Returns _ r) = (r \<noteq> Success)"
| "stops_service _ = False"

lemma go_error_None [simp]: "go_error r = None \<longleftrightarrow> r = Success"
  by (cases r) simp_all

lemma stop_reason_counts: "\<not> ctx_done s \<Longrightarrow> stop_reason e s \<longleftrightarrow> stops_service e"
proof (cases e)
  case (Returns w r)
  assume "\<not> ctx_done s"
  then show ?thesis using Returns by (cases w; cases r) simp_all
qed simp_all

lemma noted_counts: "order_event e s = Some t \<Longrightarrow> noted t \<longleftrightarrow> noted s \<or> stops_service e"
  using noted_step [of e s t] stop_reason_counts [of s e] by (auto simp: noted_def)

lemma noted_events: "order_events es s = Some t \<Longrightarrow> noted t \<longleftrightarrow> noted s \<or> (\<exists>e\<in>set es. stops_service e)"
  by (induction es arbitrary: s) (auto simp: noted_counts split: option.splits)

lemma stops_service_cases:
  "(\<exists>e\<in>set es. stops_service e) \<longleftrightarrow>
     Signalled \<in> set es \<or> (\<exists>r. Returns Dispatcher r \<in> set es) \<or>
     (\<exists>r. r \<noteq> Success \<and> (Returns Server r \<in> set es \<or> (\<exists>name. Returns (Consumer name) r \<in> set es)))"
    (is "?l \<longleftrightarrow> ?r")
proof
  assume ?l
  then obtain e where e: "e \<in> set es" "stops_service e" by blast
  then show ?r by (cases e rule: stops_service.cases) auto
qed (auto intro: bexI [rotated])

lemma settledD: "settled s \<Longrightarrow> internal e \<Longrightarrow> order_event e s = None"
  by (simp add: settled_def)

lemma settled_exited:
  assumes "room s" "settled s"
  shows "main_at s = Exited \<longleftrightarrow> noted s"
proof
  assume n: "noted s"
  show "main_at s = Exited"
  proof (cases "main_at s")
    case Selecting
    have "\<not> ctx_done s" using settledD [OF assms(2), of SeesDone] Selecting by (simp split: if_splits)
    moreover have "queued s ch = []" for ch
    proof (rule ccontr)
      assume "queued s ch \<noteq> []"
      then have "order_event (Receives ch) s \<noteq> None" using Selecting by (cases "queued s ch") simp_all
      then show False using settledD [OF assms(2), of "Receives ch"] by simp
    qed
    moreover have "worker_at s w \<noteq> Sending m" for w m
    proof
      assume w: "worker_at s w = Sending m"
      then have "order_event (Sends w) s \<noteq> None" using Selecting sender_has_room [OF assms(1) w] by simp
      then show False using settledD [OF assms(2), of "Sends w"] by simp
    qed
    ultimately show ?thesis using n Selecting by (simp add: noted_def)
  next
    case (Stopping m)
    then show ?thesis using settledD [OF assms(2), of StopsGracefully] by simp
  qed
qed (simp add: noted_def)

section \<open>No run goes on by itself\<close>

fun worker_weight :: "worker_state \<Rightarrow> nat" where
  "worker_weight Working = 3"
| "worker_weight (Sending _) = 2"
| "worker_weight Ended = 0"

fun main_weight :: "main_state \<Rightarrow> nat" where
  "main_weight Selecting = 2"
| "main_weight (Stopping _) = 1"
| "main_weight Exited = 0"

definition steps_left :: "order_run \<Rightarrow> nat" where
  "steps_left s =
     (\<Sum>w\<in>set order_workers. worker_weight (worker_at s w)) +
     (length (queued s ServerErrCh) + length (queued s WorkerErrCh) + length (queued s ConsumerErrCh)) + main_weight (main_at s)"

lemma workers_left:
  assumes "w \<in> set order_workers" "worker_at t = (worker_at s)(w := x)"
  shows "(\<Sum>w\<in>set order_workers. worker_weight (worker_at t w)) + worker_weight (worker_at s w) =
    (\<Sum>w\<in>set order_workers. worker_weight (worker_at s w)) + worker_weight x"
proof -
  have "(\<Sum>v\<in>set order_workers - {w}. worker_weight (worker_at t v)) = (\<Sum>v\<in>set order_workers - {w}. worker_weight (worker_at s v))"
    using assms(2) by (intro sum.cong) auto
  then show ?thesis using assms by (simp add: sum.remove [of "set order_workers" w])
qed

lemma steps_left_event:
  assumes "room s" "order_event e s = Some t"
  shows "if e = Signalled then steps_left t = steps_left s else steps_left t < steps_left s"
proof (cases e)
  case (Returns w r)
  define x where "x = (case report w (ctx_done s) r of Some e \<Rightarrow> Sending e | None \<Rightarrow> Ended)"
  have t: "main_at t = main_at s" "queued t = queued s" "worker_at s w = Working" "worker_at t = (worker_at s)(w := x)"
    using assms(2) Returns by (auto simp: x_def split: if_splits)
  have "w \<in> set order_workers" using assms(1) t(3) by (auto simp: room_def)
  from workers_left [OF this t(4)] have "(\<Sum>w\<in>set order_workers. worker_weight (worker_at t w)) <
      (\<Sum>w\<in>set order_workers. worker_weight (worker_at s w))"
    using t(3) by (auto simp: x_def split: option.splits)
  then show ?thesis using t(1,2) Returns by (simp add: steps_left_def)
next
  case (Sends w)
  then obtain m where t: "worker_at s w = Sending m" "worker_at t = (worker_at s)(w := Ended)" "main_at t = main_at s"
    "queued t = (queued s)(channel_of w := queued s (channel_of w) @ [m])"
    using assms(2) by (auto split: worker_state.splits if_splits)
  have "w \<in> set order_workers" using assms(1) t(1) by (auto simp: room_def)
  from workers_left [OF this t(2)] show ?thesis
    using t Sends by (cases "channel_of w") (simp_all add: steps_left_def)
next
  case (Receives ch)
  then show ?thesis
    using assms(2) by (cases ch) (auto simp: steps_left_def split: list.splits if_splits)
qed (use assms(2) in \<open>auto simp: steps_left_def split: if_splits main_state.splits\<close>)

lemma events_bounded:
  "room s \<Longrightarrow> order_events es s = Some t \<Longrightarrow> length (filter (\<lambda>e. e \<noteq> Signalled) es) + steps_left t \<le> steps_left s"
proof (induction es arbitrary: s)
  case (Cons e es)
  then obtain u where u: "order_event e s = Some u" "order_events es u = Some t" by (auto split: option.splits)
  then show ?case
    using Cons.IH [OF room_step [OF u(1) Cons.prems(1)] u(2)] steps_left_event [OF Cons.prems(1) u(1)] by (auto split: if_splits)
qed simp

text \<open>
  C34: The order service stops for a reason, and then it does stop. Take any interleaving of its
  seven goroutines and the signals it is sent. Besides the signals it has at most 23 steps. No
  goroutine ever waits in the sending of its report: whichever of them fail together, the
  channel has room. And once nothing can go on by itself, \<open>main\<close> has returned exactly if a
  signal came, or the dispatcher's call returned, be it without an error, or the call of the
  gRPC server or of a consumer returned an error. (That the graceful stop itself ends, which
  waits for the requests still being served, is taken as given.)
\<close>
theorem order_service_stops:
  assumes "order_events es order_start = Some s"
  shows "length (filter (\<lambda>e. e \<noteq> Signalled) es) \<le> 23 \<and>
    (\<forall>w e. worker_at s w = Sending e \<and> main_at s \<noteq> Exited \<longrightarrow> order_event (Sends w) s \<noteq> None) \<and>
    (settled s \<longrightarrow>
       (main_at s = Exited \<longleftrightarrow>
          Signalled \<in> set es \<or> (\<exists>r. Returns Dispatcher r \<in> set es) \<or>
          (\<exists>r. r \<noteq> Success \<and> (Returns Server r \<in> set es \<or> (\<exists>name. Returns (Consumer name) r \<in> set es)))))"
proof -
  have room: "room s" using assms by (intro reachable_room order_events_reachable)
  have "\<not> noted order_start" by (simp add: noted_def order_start_def)
  then have reason: "noted s \<longleftrightarrow> (\<exists>e\<in>set es. stops_service e)" using noted_events [OF assms] by simp
  have "steps_left order_start = 23" by (simp add: steps_left_def order_start_def order_workers_def)
  with events_bounded [OF room_start assms] have "length (filter (\<lambda>e. e \<noteq> Signalled) es) \<le> 23" by linarith
  then show ?thesis
    using settled_exited [OF room] sender_has_room [OF room] by (auto simp: reason stops_service_cases)
qed

definition sample_run :: "run_event list" where
  "sample_run =
     [Returns (Consumer ''payment.captured'') (Failure ''no such order''), Returns (Consumer ''payment.failed'') (Failure ''no such order''),
      Sends (Consumer ''payment.failed''), Sends (Consumer ''payment.captured''), Receives ConsumerErrCh, StopsGracefully]"

theorem order_service_stops_witness:
  "\<exists>s. order_events sample_run order_start = Some s \<and> main_at s = Exited \<and> ctx_done s \<and>
     queued s ConsumerErrCh = [''payment.captured consumer: no such order'']"
proof -
  obtain s where s: "order_events sample_run order_start = Some s" "main_at s = Exited" "ctx_done s"
    "queued s ConsumerErrCh = [''payment.captured consumer: no such order'']"
    by (simp add: sample_run_def order_start_def order_workers_def)
  have "settled s"
    unfolding settled_def
  proof (intro allI impI)
    fix e assume "internal e"
    then show "order_event e s = None"
      by (cases e) (use s(2) in \<open>auto split: worker_state.splits list.splits\<close>)
  qed
  from order_service_stops [OF s(1)] this s show ?thesis by blast
qed

section \<open>The other programs\<close>

text \<open>
  The goroutines of the other programs call \<open>stop\<close> themselves, and \<open>main\<close> waits for the context
  only. \<open>stops\<close> says for which results, given whether the context is done.
\<close>

record program =
  workers :: "worker list"
  stops :: "worker \<Rightarrow> bool \<Rightarrow> go_result \<Rightarrow> bool"

fun stops_on_error :: "worker \<Rightarrow> bool \<Rightarrow> go_result \<Rightarrow> bool" where
  "stops_on_error (Consumer _) is_done r = (go_error r \<noteq> None \<and> \<not> is_done)"
| "stops_on_error _ is_done r = (go_error r \<noteq> None)"

definition inventory_program :: program where
  "inventory_program =
     \<lparr>workers = [Server, Consumer ''order.created'', Consumer ''order.cancelled''], stops = stops_on_error\<rparr>"

definition payment_program :: program where
  "payment_program = \<lparr>workers = [Server, Consumer ''inventory.reserved''], stops = stops_on_error\<rparr>"

definition catalog_program :: program where
  "catalog_program = \<lparr>workers = [Server], stops = stops_on_error\<rparr>"

definition gateway_program :: program where
  "gateway_program = \<lparr>workers = [Server], stops = (\<lambda>_ _ r. go_error r \<noteq> None \<and> r \<noteq> ServerClosed)\<rparr>"

record program_run =
  is_done :: bool
  running :: "worker set"
  exited :: bool

datatype program_event = Interrupted | Call_Returns worker go_result | Shuts_Down

definition program_start :: "program \<Rightarrow> program_run" where
  "program_start p = \<lparr>is_done = False, running = set (workers p), exited = False\<rparr>"

fun program_step :: "program \<Rightarrow> program_event \<Rightarrow> program_run \<Rightarrow> program_run option" where
  "program_step p Interrupted s = (if exited s then None else Some (s\<lparr>is_done := True\<rparr>))"
| "program_step p (Call_Returns w r) s =
     (if w \<in> running s \<and> \<not> exited s
      then Some (s\<lparr>running := running s - {w}, is_done := is_done s \<or> stops p w (is_done s) r\<rparr>)
      else None)"
| "program_step p Shuts_Down s = (if is_done s \<and> \<not> exited s then Some (s\<lparr>exited := True\<rparr>) else None)"

fun program_steps :: "program \<Rightarrow> program_event list \<Rightarrow> program_run \<Rightarrow> program_run option" where
  "program_steps p [] s = Some s"
| "program_steps p (e # es) s = (case program_step p e s of None \<Rightarrow> None | Some t \<Rightarrow> program_steps p es t)"

text \<open>
  Such a program stays up until it is interrupted or a goroutine's call returns an error that
  counts; then the one thing left for \<open>main\<close> is to shut down.
\<close>

lemma program_steps_invariant:
  assumes "program_steps p es s = Some t" "exited s \<longrightarrow> is_done s"
  shows "(exited t \<longrightarrow> is_done t) \<and>
    (is_done t \<longrightarrow> is_done s \<or> Interrupted \<in> set es \<or> (\<exists>w r. Call_Returns w r \<in> set es \<and> stops p w False r))"
  using assms
proof (induction es arbitrary: s)
  case (Cons e es)
  then obtain u where u: "program_step p e s = Some u" "program_steps p es u = Some t" by (auto split: option.splits)
  then have "exited u \<longrightarrow> is_done u" "is_done u \<longrightarrow> is_done s \<or> e = Interrupted \<or> (\<exists>w r. e = Call_Returns w r \<and> stops p w False r)"
    using u(1) Cons.prems(2) by (cases e; force split: if_splits)+
  with Cons.IH [OF u(2)] show ?case by auto
qed simp

lemma program_exits:
  assumes "program_steps p es (program_start p) = Some s" "program_step p Shuts_Down s = None"
  shows "exited s \<longleftrightarrow> is_done s"
    and "exited s \<longrightarrow> Interrupted \<in> set es \<or> (\<exists>w r. Call_Returns w r \<in> set es \<and> stops p w False r)"
  using program_steps_invariant [OF assms(1)] assms(2) by (auto simp: program_start_def split: if_splits)

text \<open>The gateway's server is closed by \<open>Shutdown\<close>; that alone does not count as a failure.\<close>

lemma gateway_server_closed:
  "program_steps gateway_program [Call_Returns Server ServerClosed] (program_start gateway_program) =
     Some \<lparr>is_done = False, running = {}, exited = False\<rparr>"
  by (simp add: gateway_program_def program_start_def)

end
