(* ===== verification/Spec2Isabelle.thy ===== *)
theory Spec2Isabelle
  imports Order_Outbox Order_Handler Order_Consumers Inventory_Handler Inventory_Consumer_Safety Payment_Properties Catalog_Properties
    Gateway_Observed Saga_Properties Saga_Compensation Service_Messages Service_Run
begin

text \<open>
  An event-driven shop in Go: five programs (\<open>cmd/*-service\<close>) around Kafka, PostgreSQL,
  MongoDB and Redis. This is the root of its verification library.

  \<^bold>\<open>The program.\<close> The gateway turns HTTP requests into gRPC calls. The order service stores
  orders and, in the same transactions, the events it owes to the others (the outbox); a
  dispatcher sends them. The inventory service reserves the items of \<open>order.created\<close> and answers
  with \<open>inventory.reserved\<close> or \<open>inventory.reservation_failed\<close>; \<open>order.cancelled\<close> makes it release
  them. The payment service creates a payment on \<open>inventory.reserved\<close>, and its gRPC calls settle
  it, announced by \<open>payment.captured\<close> and \<open>payment.failed\<close>. The order service's five consumers
  move the order along with these events. Consumers remember processed events in Redis. The
  catalog service stores products, in MongoDB, or with its other repository in PostgreSQL.

  \<^bold>\<open>What is where.\<close>
  \<^item> Shared: \<open>Prelude\<close> (byte strings, fixed-width integers, decimal text, generic lemmas),
    \<open>Runtime\<close> (PostgreSQL calls with faults and other clients; times), \<open>Json\<close>, \<open>Grpc\<close>, \<open>Proto_Enums\<close>,
    \<open>Kafka\<close>, \<open>Event_Publisher\<close> and \<open>Consumer\<close> (the fetch/handle/commit loop and the Redis
    deduplicator, one copy per service in the source), \<open>Shared_Events\<close> (\<open>internal/shared/events\<close>).
  \<^item> Order service, \<open>internal/order\<close>: \<open>Order_Domain\<close> (\<open>domain\<close>), \<open>Order_Messages\<close>
    (\<open>events/outbox_message.go\<close>), \<open>Order_DB\<close> (\<open>repository/sqlc\<close> with the constraints of
    \<open>db/schema\<close>), \<open>Order_Repository\<close> (\<open>repository/postgres.go\<close>), \<open>Order_Service\<close> (\<open>service\<close>),
    \<open>Order_Handler\<close> (\<open>handler/grpc.go\<close>), \<open>Order_Outbox\<close> (\<open>events/outbox_dispatcher.go\<close>),
    \<open>Order_Consumers\<close> (\<open>consumers\<close>).
  \<^item> Inventory service, \<open>internal/inventory\<close>: \<open>Inventory_DB\<close>, \<open>Inventory_Repository\<close> (domain,
    repository, service), \<open>Inventory_Handler\<close>, \<open>Inventory_Consumers\<close> (\<open>events\<close>).
  \<^item> Payment service, \<open>internal/payment\<close>: \<open>Payment_Repository\<close>, \<open>Payment_Service\<close>, \<open>Payment_Events\<close>
    (publisher, consumer, gRPC handler).
  \<^item> Catalog service, \<open>internal/catalog\<close>: \<open>Catalog_Repository\<close> (domain and PostgreSQL),
    \<open>Catalog_Mongo\<close>, \<open>Catalog_Service\<close> (service and gRPC handler).
  \<^item> Gateway, \<open>internal/gateway\<close>: \<open>Gateway_Client\<close>, \<open>Gateway_Service\<close>, \<open>Gateway_Cancel\<close>
    (\<open>service/idempotency.go\<close> and \<open>CancelOrder\<close> under concurrent requests), \<open>Gateway_Handler\<close>,
    \<open>Gateway_Http\<close> (the routes and the middleware around the handlers).
  \<^item> The identifier of a request on its way through the programs: \<open>Request_Id\<close>
    (\<open>internal/shared/requestid\<close>, \<open>internal/shared/grpcmiddleware\<close>, the gateway's \<open>request_id.go\<close>).
  \<^item> The programs, \<open>cmd\<close>: \<open>Environment\<close> and \<open>Service_Config\<close> (start-up), \<open>Service_Run\<close> (the
    goroutines, the channels and the signals until \<open>main\<close> returns).

  A record of the model is a struct of the source, a datatype an enumeration or a set of error
  sentinels, and a function carries the name of the Go function (\<open>pg_\<close> and \<open>mongo_\<close> for the
  repositories, \<open>q_\<close> for the statements, \<open>svc_\<close>, \<open>isvc_\<close>, \<open>psvc_\<close>, \<open>csvc_\<close> and \<open>gw_\<close> for the services,
  \<open>grpc_\<close> and \<open>http_\<close> for the handlers, \<open>kafka_\<close> and \<open>redis_\<close> for the adapters). Errors are the left
  side of a sum. State is passed explicitly: a world holds the tables, how many calls were made,
  the faults that will meet them (refused, or done without the acknowledgement arriving) and what
  other clients do to the tables in between, the messages sent, and the keys in Redis.

  \<^bold>\<open>What the lemmas show.\<close>
  \<^item> Contracts as locales, proved once and interpreted on the model: \<open>order_repository\<close> and
    \<open>quiet_order_repository\<close> (\<open>Order_Service_Laws\<close>, met in \<open>Order_Postgres\<close> over \<open>Order_Store\<close>),
    \<open>stock_repository\<close> (\<open>Inventory_Properties\<close>, over the ledger of \<open>Inventory_Ledger\<close>),
    \<open>payment_repository\<close> and \<open>quiet_payment_repository\<close> (\<open>Payment_Service\<close>, met in \<open>Payment_Postgres\<close>),
    \<open>product_store\<close> (\<open>Catalog_Service\<close>, met twice in \<open>Catalog_Stores\<close>), \<open>event_deduplicator\<close>
    (\<open>Consumer\<close>).
  \<^item> One service: \<open>Order_Create\<close>, \<open>Order_Properties\<close> and \<open>Order_Lifecycle\<close> (what creation returns
    and stores, idempotency keys, exact totals and their overflow, the status machine, the
    outbox event in the same transaction), \<open>Order_Outbox\<close> (published means sent, the backlog
    drains, claims are disjoint), \<open>Inventory_Properties\<close> and \<open>Inventory_Consumer_Safety\<close> (stock is
    conserved whatever fails; the service refines the ledger; all items or none),
    \<open>Payment_Properties\<close> (a payment settles once, one payment per order),
    \<open>Catalog_Properties\<close> (the two stores cannot be told apart), \<open>Gateway_Cancel_Invariant\<close> and
    \<open>Gateway_Properties\<close> (one cancellation per key under any interleaving, every request answered).
  \<^item> Several services: \<open>Saga_Properties\<close> (from a placed order to a confirmed one),
    \<open>Saga_Compensation\<close> (a failed payment is undone everywhere), \<open>Gateway_Properties\<close> (HTTP request
    to stored order), \<open>Service_Wiring\<close> (topics, groups and brokers of started programs agree),
    \<open>Service_Messages\<close> (so every published event lies on the
    topic of a consumer whose handler takes it over),
    \<open>Request_Id\<close> (client, gateway and service see one identifier).
  \<^item> The programs as wholes: \<open>Service_Run\<close> (the order service stops exactly for a reason, and no
    goroutine hangs in its report, under any interleaving), \<open>Gateway_Observed\<close> (counters and
    access log agree with the answers given).
  \<^item> Behaviour that a reader may not expect is stated as a theorem beside them: the races between
    read and write, the announcements without an outbox, the events handled twice or too late.

  \<^bold>\<open>Bounds.\<close> Integers are \<open>int\<close> with \<open>wrap32\<close> and \<open>wrap64\<close> at every operation that can leave the
  Go type; times are nanoseconds, stored with microseconds. Loops over messages, rows and rounds
  recurse over the list of what is fetched, so nothing needs fuel; a concurrent cancellation is
  three steps of its goroutine, and \<open>run_thread\<close> makes exactly these. Loops of parsers decrease
  the remaining text. A run of the order service has at most 23 steps beside the signals.

  \<^bold>\<open>Taken as given.\<close> The servers follow their documentation: PostgreSQL's statements are atomic
  and a transaction sees no other one half done (the methods lock the rows they change, which
  makes each of them one step; a read made of several statements, such as an order with its items,
  sees one state of the tables). The list of \<open>ReleaseReservationsByOrderID\<close> takes no lock: it is a
  step of its own, and other clients may act between it and the release
  (\<open>concurrent_releases_free_twice\<close>), which is why conservation of the stock asks that nobody else
  releases the same order meanwhile. A write to Kafka is appended or not, Redis sets and expires
  keys. Rows come back in any order where the statement gives none. The web framework's binding of
  requests and its choice among the routes that match (there is never more than one), the page of
  the metrics library, the hash of MongoDB's keys, the collation of PostgreSQL and the floating point of a
  fraction in a duration are parameters.

  \<^bold>\<open>Not modelled.\<close> The log lines of the services, and in the gateway's access log the latency,
  the address and the error text; how long a request took (its histogram counts observations
  only); generated protobuf code beyond the messages that are used; contexts and timeouts except
  as faults of a call; panics other than those of nil clients in the gateway; the web framework's
  redirects of paths with another trailing slash; the \<open>Time\<close> field of a Kafka message; the
  closing of pools and readers after \<open>main\<close> has decided to return, and how long a graceful stop waits
  for the requests still being served. One handling of a message
  reads the clock once. The table definitions of \<open>db/schema\<close> are in the \<open>q_\<close> definitions.
\<close>

end
